(* ===== verification/Js_Prelude.thy ===== *)
theory Js_Prelude
  imports Main "HOL-Library.Word" "HOL-Library.Char_ord" "HOL-Library.List_Lexorder"
    "HOL-Library.Product_Lexorder"
begin

text \<open>
  The vocabulary shared by every component: JavaScript values, the part of the JavaScript
  standard library the sources use, errors as values, and the lemmas about them.

  A JavaScript string is modelled by the \<^typ>\<open>string\<close> of its encoding in bytes: UTF-8, and for a
  surrogate without its partner the three bytes of its number (ED A0 80 to ED BF BF), which no
  UTF-8 text has (the encoding known as WTF-8). All slicing in the modelled code is at ASCII prefixes, so it is the same on
  code units and on these bytes; where the code compares by UTF-16 code unit the comparison is
  the one of \<open>utf16_rank\<close> below. Two halves of a pair that only a concatenation brings together are
  kept as they are. A byte of a \<^verbatim>\<open>Uint8Array\<close> is an \<^typ>\<open>8 word\<close>.
\<close>

section \<open>Collections\<close>

named_theorems js_simps \<open>evaluation of the standard-library definitions\<close>
named_theorems result_elims \<open>inversion of the error-result combinators\<close>
named_theorems store_simps \<open>lookups after updates of the tables\<close>

type_synonym u8 = "8 word"
type_synonym bytes = "u8 list"

section \<open>Errors as values\<close>

text \<open>
  \<^verbatim>\<open>ServiceError\<close> of \<^verbatim>\<open>services/errors.ts\<close> carries one of five codes; any other thrown
  \<^verbatim>\<open>Error\<close> carries its message only.
\<close>

datatype service_error_code = NOT_FOUND | BAD_REQUEST | CONFLICT | FORBIDDEN | INTERNAL

datatype error = ServiceError service_error_code string | JsError string

type_synonym 'a result = "error + 'a"

text \<open>\<^verbatim>\<open>err instanceof Error ? err.message : String(err)\<close>: both kinds carry a message.\<close>

fun message :: "error \<Rightarrow> string" where
  "message (ServiceError c m) = m"
| "message (JsError m) = m"

definition bindR :: "'a result \<Rightarrow> ('a \<Rightarrow> 'b result) \<Rightarrow> 'b result" where
  "bindR r f = (case r of Inl e \<Rightarrow> Inl e | Inr x \<Rightarrow> f x)"

lemma bindR_simps [simp]: "bindR (Inl e) f = Inl e" "bindR (Inr x) f = f x"
  by (simp_all add: bindR_def)

lemma bindR_Inr_iff: "bindR r f = Inr y \<longleftrightarrow> (\<exists>x. r = Inr x \<and> f x = Inr y)"
  by (cases r) auto

lemma bindR_InrE [result_elims]:
  assumes "bindR r f = Inr y"
  obtains x where "r = Inr x" "f x = Inr y"
  using assms by (auto simp: bindR_Inr_iff)

lemma bindR_cong [fundef_cong]:
  "r = r' \<Longrightarrow> (\<And>x. r' = Inr x \<Longrightarrow> f x = g x) \<Longrightarrow> bindR r f = bindR r' g"
  by (cases r') auto

text \<open>\<^verbatim>\<open>xs.map(f)\<close> for an \<open>f\<close> that may throw: the first exception ends the loop.\<close>

fun mapR :: "('a \<Rightarrow> 'b result) \<Rightarrow> 'a list \<Rightarrow> 'b list result" where
  "mapR f [] = Inr []"
| "mapR f (x # xs) = bindR (f x) (\<lambda>y. bindR (mapR f xs) (\<lambda>ys. Inr (y # ys)))"

lemma mapR_cong [fundef_cong]:
  assumes "xs = ys" and "\<And>x. x \<in> set ys \<Longrightarrow> f x = g x"
  shows "mapR f xs = mapR g ys"
proof -
  have "(\<And>x. x \<in> set ys \<Longrightarrow> f x = g x) \<Longrightarrow> mapR f ys = mapR g ys"
    by (induction ys) (auto intro!: bindR_cong)
  then show ?thesis using assms by simp
qed

lemma mapR_Inr_iff: "mapR f xs = Inr ys \<longleftrightarrow> list_all2 (\<lambda>x y. f x = Inr y) xs ys"
  by (induction xs arbitrary: ys) (auto simp: bindR_Inr_iff list_all2_Cons1)

lemma mapR_total: "(\<And>x. x \<in> set xs \<Longrightarrow> f x = Inr (g x)) \<Longrightarrow> mapR f xs = Inr (map g xs)"
  by (induction xs) auto

lemma mapR_Inl: "x \<in> set xs \<Longrightarrow> f x = Inl e \<Longrightarrow> \<exists>e'. mapR f xs = Inl e'"
  by (induction xs) (auto simp: bindR_def split: sum.splits)

section \<open>Strings\<close>

definition startsWith :: "string \<Rightarrow> string \<Rightarrow> bool" where
  "startsWith s p \<longleftrightarrow> take (length p) s = p"

lemma startsWith_append [simp]: "startsWith (p @ s) p"
  by (simp add: startsWith_def)

lemma startsWithD: "startsWith s p \<Longrightarrow> s = p @ drop (length p) s"
  by (metis append_take_drop_id startsWith_def)

fun joinStr :: "string \<Rightarrow> string list \<Rightarrow> string" where
  "joinStr sep [] = []"
| "joinStr sep [x] = x"
| "joinStr sep (x # y # ys) = x @ sep @ joinStr sep (y # ys)"

text \<open>\<^verbatim>\<open>s.split(c)\<close> for a one-character separator.\<close>

fun splitOn :: "char \<Rightarrow> string \<Rightarrow> string list" where
  "splitOn c [] = [[]]"
| "splitOn c (x # xs) =
     (if x = c then [] # splitOn c xs
      else (case splitOn c xs of [] \<Rightarrow> [[x]] | w # ws \<Rightarrow> (x # w) # ws))"

lemma splitOn_nonempty [simp]: "splitOn c s \<noteq> []"
  by (induction s) (auto split: list.splits)

text \<open>
  \<^verbatim>\<open>s.trim()\<close> strips the ECMAScript white space and line terminators, here by their UTF-8
  encodings (U+0009 to U+000D, U+0020, U+00A0, U+1680, U+2000 to U+200A, U+2028, U+2029, U+202F,
  U+205F, U+3000, U+FEFF).
\<close>

definition ws_seqs :: "string list" where
  "ws_seqs =
    [[CHR 0x09], [CHR 0x0A], [CHR 0x0B], [CHR 0x0C], [CHR 0x0D], [CHR 0x20], [CHR 0xC2, CHR 0xA0],
     [CHR 0xE1, CHR 0x9A, CHR 0x80],
     [CHR 0xE2, CHR 0x80, CHR 0x80], [CHR 0xE2, CHR 0x80, CHR 0x81], [CHR 0xE2, CHR 0x80, CHR 0x82],
     [CHR 0xE2, CHR 0x80, CHR 0x83], [CHR 0xE2, CHR 0x80, CHR 0x84], [CHR 0xE2, CHR 0x80, CHR 0x85],
     [CHR 0xE2, CHR 0x80, CHR 0x86], [CHR 0xE2, CHR 0x80, CHR 0x87], [CHR 0xE2, CHR 0x80, CHR 0x88],
     [CHR 0xE2, CHR 0x80, CHR 0x89], [CHR 0xE2, CHR 0x80, CHR 0x8A], [CHR 0xE2, CHR 0x80, CHR 0xA8],
     [CHR 0xE2, CHR 0x80, CHR 0xA9], [CHR 0xE2, CHR 0x80, CHR 0xAF], [CHR 0xE2, CHR 0x81, CHR 0x9F],
     [CHR 0xE3, CHR 0x80, CHR 0x80], [CHR 0xEF, CHR 0xBB, CHR 0xBF]]"

fun strip_prefixes :: "nat \<Rightarrow> string list \<Rightarrow> string \<Rightarrow> string" where
  "strip_prefixes 0 ps s = s"
| "strip_prefixes (Suc n) ps s =
     (case find (\<lambda>p. startsWith s p) ps of
        None \<Rightarrow> s | Some p \<Rightarrow> strip_prefixes n ps (drop (length p) s))"

text \<open>At most one round per character; a round removes a non-empty prefix.\<close>

definition trimStart :: "string \<Rightarrow> string" where
  "trimStart s = strip_prefixes (length s) ws_seqs s"

definition trimEnd :: "string \<Rightarrow> string" where
  "trimEnd s = rev (strip_prefixes (length s) (map rev ws_seqs) (rev s))"

definition trim :: "string \<Rightarrow> string" where
  "trim s = trimEnd (trimStart s)"

text \<open>
  \<^verbatim>\<open>s.length\<close> counts UTF-16 code units: none at a continuation byte, two for a four-byte character.
  \<open>u16take n s\<close> is \<^verbatim>\<open>s.slice(0, n)\<close> when no surrogate pair straddles the cut; a pair that does is left
  out whole (JavaScript would keep a lone surrogate, which has no UTF-8 form).
\<close>

definition u16units :: "char \<Rightarrow> nat" where
  "u16units c = (let n = of_char c :: nat in if 0x80 \<le> n \<and> n < 0xC0 then 0 else if 0xF0 \<le> n then 2 else 1)"

definition u16length :: "string \<Rightarrow> nat" where
  "u16length s = sum_list (map u16units s)"

fun u16take :: "nat \<Rightarrow> string \<Rightarrow> string" where
  "u16take n [] = []"
| "u16take n (c # s) = (if u16units c \<le> n then c # u16take (n - u16units c) s else [])"

lemma u16length_take: "u16length (u16take n s) \<le> n"
  by (induction n s rule: u16take.induct) (auto simp: u16length_def)

text \<open>\<^verbatim>\<open>xs.slice(0, n)\<close>: a negative \<open>n\<close> counts from the end.\<close>

definition slice0 :: "int \<Rightarrow> 'a list \<Rightarrow> 'a list" where
  "slice0 n xs = take (nat (if n < 0 then int (length xs) + n else n)) xs"

definition padStart :: "nat \<Rightarrow> char \<Rightarrow> string \<Rightarrow> string" where
  "padStart n c s = replicate (n - length s) c @ s"

definition hexDigit :: "nat \<Rightarrow> char" where
  "hexDigit n = ''0123456789abcdef'' ! n"

lemma hexDigit_inj: "hexDigit i = hexDigit j \<Longrightarrow> i < 16 \<Longrightarrow> j < 16 \<Longrightarrow> i = j"
proof -
  have "\<forall>i \<in> set [0..<16]. \<forall>j \<in> set [0..<16]. hexDigit i = hexDigit j \<longrightarrow> i = j" by code_simp
  then show "hexDigit i = hexDigit j \<Longrightarrow> i < 16 \<Longrightarrow> j < 16 \<Longrightarrow> i = j" by simp
qed

lemma hexDigit_ascii: "n < 16 \<Longrightarrow> (of_char (hexDigit n) :: nat) < 0x80"
proof -
  have "\<forall>n \<in> set [0..<16]. (of_char (hexDigit n) :: nat) < 0x80" by code_simp
  then show "n < 16 \<Longrightarrow> (of_char (hexDigit n) :: nat) < 0x80" by simp
qed

text \<open>\<^verbatim>\<open>n.toString(16)\<close>.\<close>

fun toString16 :: "nat \<Rightarrow> string" where
  "toString16 n = (if n < 16 then [hexDigit n] else toString16 (n div 16) @ [hexDigit (n mod 16)])"

declare toString16.simps [simp del]

section \<open>Surrogates and bytes\<close>

text \<open>The three bytes of a surrogate, and a string cut into lone surrogates and single bytes.\<close>

definition surrogate :: "char \<Rightarrow> char \<Rightarrow> char \<Rightarrow> bool" where
  "surrogate a b c \<longleftrightarrow> a = CHR 0xED \<and> (of_char b :: nat) \<in> {0xA0..0xBF} \<and> (of_char c :: nat) \<in> {0x80..0xBF}"

fun textUnits :: "string \<Rightarrow> string list" where
  "textUnits [] = []"
| "textUnits (a # s) =
     (if a = CHR 0xED
      then (case s of
              b # c # r \<Rightarrow> if surrogate a b c then [a, b, c] # textUnits r else [a] # textUnits s
            | _ \<Rightarrow> [a] # textUnits s)
      else [a] # textUnits s)"

declare textUnits.simps(2) [simp del]

lemma textUnits_other [simp]: "a \<noteq> CHR 0xED \<Longrightarrow> textUnits (a # s) = [a] # textUnits s"
  by (simp add: textUnits.simps)

lemma textUnits_surrogate: "surrogate a b c \<Longrightarrow> textUnits (a # b # c # s) = [a, b, c] # textUnits s"
  by (simp add: textUnits.simps surrogate_def)

lemma textUnits_cases:
  "textUnits (a # s) = [a] # textUnits s \<and> (\<forall>b c r. s = b # c # r \<longrightarrow> \<not> surrogate a b c) \<or>
   (\<exists>b c r. s = b # c # r \<and> surrogate a b c \<and> textUnits (a # s) = [a, b, c] # textUnits r)"
  by (cases "a = CHR 0xED") (auto simp: textUnits.simps(2) surrogate_def split: list.split)

lemma textUnits_concat [simp]: "concat (textUnits s) = s"
proof (induction s rule: length_induct)
  case (1 s)
  then show ?case
  proof (cases s)
    case (Cons a r)
    then show ?thesis using 1 textUnits_cases [of a r] by auto
  qed simp
qed

text \<open>\<^verbatim>\<open>s.isWellFormed()\<close>: no surrogate is without its partner.\<close>

definition wellFormed :: "string \<Rightarrow> bool" where
  "wellFormed s \<longleftrightarrow> textUnits s = map (\<lambda>c. [c]) s"

lemma wellFormed_Cons: "wellFormed (a # s) \<longleftrightarrow> (\<forall>b c r. s = b # c # r \<longrightarrow> \<not> surrogate a b c) \<and> wellFormed s"
  using textUnits_cases [of a s] by (auto simp: wellFormed_def)

lemma wellFormed_simps [simp]: "wellFormed []" "a \<noteq> CHR 0xED \<Longrightarrow> wellFormed (a # s) \<longleftrightarrow> wellFormed s"
  by (auto simp: wellFormed_def)

text \<open>\<^verbatim>\<open>Buffer.from(s, "utf8")\<close>: a lone surrogate becomes U+FFFD. And the hexadecimal digest of a hash.\<close>

definition utf8 :: "string \<Rightarrow> bytes" where
  "utf8 s = map (\<lambda>c. of_nat (of_char c))
     (concat (map (\<lambda>u. if length u = 3 then [CHR 0xEF, CHR 0xBF, CHR 0xBD] else u) (textUnits s)))"

lemma utf8_wellFormed: "wellFormed s \<Longrightarrow> utf8 s = map (\<lambda>c. of_nat (of_char c)) s"
  by (simp add: utf8_def wellFormed_def o_def)

lemma utf8_empty [simp]: "utf8 [] = []"
  by (simp add: utf8_def)

lemma utf8_Nil [simp]: "utf8 s = [] \<longleftrightarrow> s = []"
proof (cases s)
  case (Cons a r)
  from textUnits_cases [of a r] show ?thesis
    by (elim disjE exE conjE) (simp_all add: utf8_def Cons)
qed (simp add: utf8_def)

lemma utf8_inj:
  assumes "utf8 s = utf8 t" "wellFormed s" "wellFormed t"
  shows "s = t"
proof -
  have "inj (\<lambda>c :: char. (of_nat (of_char c) :: u8))"
  proof (rule injI)
    fix a b :: char
    assume "(of_nat (of_char a) :: u8) = of_nat (of_char b)"
    then have "unat (of_nat (of_char a) :: u8) = unat (of_nat (of_char b) :: u8)" by (rule arg_cong)
    then have "(of_char a :: nat) mod 256 = of_char b mod 256" by (simp only: unat_of_nat) simp
    then show "a = b" by simp
  qed
  then show ?thesis using assms by (simp add: utf8_wellFormed inj_map_eq_map)
qed

text \<open>Two texts with a lone surrogate may have the same bytes.\<close>

lemma utf8_lossy:
  "utf8 [CHR 0xED, CHR 0xA0, CHR 0x80] = utf8 [CHR 0xED, CHR 0xA0, CHR 0x81]"
  by (simp add: utf8_def textUnits_surrogate surrogate_def)

text \<open>A text after which well-formed text stays well-formed.\<close>

definition closedText :: "string \<Rightarrow> bool" where
  "closedText s \<longleftrightarrow> (\<forall>t. wellFormed t \<longrightarrow> wellFormed (s @ t))"

lemma closedText_wellFormed: "closedText s \<Longrightarrow> wellFormed s"
  using wellFormed_simps(1) unfolding closedText_def by (metis append.right_neutral)

lemma closedText_simps [simp]: "closedText []" "a \<noteq> CHR 0xED \<Longrightarrow> closedText s \<Longrightarrow> closedText (a # s)"
  by (simp_all add: closedText_def)

lemma closedText_append [simp]: "closedText s \<Longrightarrow> closedText t \<Longrightarrow> closedText (s @ t)"
  by (simp add: closedText_def)

lemma closedText_others: "CHR 0xED \<notin> set s \<Longrightarrow> closedText s"
  by (induction s) auto

lemma closedText_join: "closedText sep \<Longrightarrow> (\<And>x. x \<in> set xs \<Longrightarrow> closedText x) \<Longrightarrow> closedText (joinStr sep xs)"
  by (induction sep xs rule: joinStr.induct) simp_all

definition hexByte :: "u8 \<Rightarrow> string" where
  "hexByte b = [hexDigit (unat b div 16), hexDigit (unat b mod 16)]"

definition toHex :: "bytes \<Rightarrow> string" where
  "toHex bs = concat (map hexByte bs)"

text \<open>
  The UTF-16 code units of a string. A byte that begins no character stands for itself, above the units.
\<close>

fun utf16 :: "string \<Rightarrow> nat list" where
  "utf16 [] = []"
| "utf16 (a # s) =
     (let n = of_char a :: nat; low = (\<lambda>c. of_char c mod 64 :: nat) in
      if n < 0x80 then n # utf16 s
      else if 0xC0 \<le> n \<and> n < 0xE0 then
        (case s of b # r \<Rightarrow> ((n - 0xC0) * 64 + low b) # utf16 r | _ \<Rightarrow> (0x10000 + n) # utf16 s)
      else if 0xE0 \<le> n \<and> n < 0xF0 then
        (case s of b # c # r \<Rightarrow> ((n - 0xE0) * 4096 + low b * 64 + low c) # utf16 r | _ \<Rightarrow> (0x10000 + n) # utf16 s)
      else if 0xF0 \<le> n then
        (case s of b # c # d # r \<Rightarrow>
             let p = (n - 0xF0) * 262144 + low b * 4096 + low c * 64 + low d - 0x10000
             in (0xD800 + p div 1024) # (0xDC00 + p mod 1024) # utf16 r
         | _ \<Rightarrow> (0x10000 + n) # utf16 s)
      else (0x10000 + n) # utf16 s)"

declare utf16.simps(2) [simp del]

lemma utf16_ascii [simp]: "(of_char a :: nat) < 0x80 \<Longrightarrow> utf16 (a # s) = of_char a # utf16 s"
  by (simp add: utf16.simps)

text \<open>Strings are ordered by their code units; those of two texts are the same only for bytes that are no encoding
  of a string, which the second component tells apart.\<close>

definition utf16_rank :: "string \<Rightarrow> nat list \<times> string" where
  "utf16_rank s = (utf16 s, s)"

lemma utf16_rank_inj: "utf16_rank s = utf16_rank t \<Longrightarrow> s = t"
  by (simp add: utf16_rank_def)

end
