(* ===== verification/Js_Values.thy ===== *)
theory Js_Values
  imports Js_Prelude
begin

text \<open>
  JavaScript values as the sources handle them: JSON documents, with \<^verbatim>\<open>undefined\<close> and the values
  JSON has no form for. An object is the association list of its own properties in creation
  order, each key once. A finite number is \<open>Finite m e\<close>, the decimal \<open>m * 10 ^ e\<close> of
  ECMAScript's \<^verbatim>\<open>Number::toString\<close> (the shortest decimal that reads back as the same double, so
  \<open>m\<close> has no trailing zero); no modelled code tells -0 from 0.
\<close>

section \<open>Values\<close>

datatype jnum = NaN | Infinity bool | Finite int int

datatype js =
    JUndef
  | JNull
  | JBool bool
  | JNum jnum
  | JStr string
  | JArr "js list"
  | JObj "(string \<times> js) list"
  | JOther string \<comment> \<open>a value of another \<^verbatim>\<open>typeof\<close>: function, symbol, bigint\<close>

type_synonym obj = "(string \<times> js) list"

text \<open>An integer as a number: trailing zeros move to the exponent.\<close>

fun strip10 :: "nat \<Rightarrow> int \<Rightarrow> int \<Rightarrow> jnum" where
  "strip10 0 m e = Finite m e"
| "strip10 (Suc k) m e =
     (if m = 0 then Finite 0 0 else if m mod 10 = 0 then strip10 k (m div 10) (e + 1)
      else Finite m e)"

definition jint :: "int \<Rightarrow> jnum" where
  "jint i = strip10 (nat \<bar>i\<bar>) i 0"

abbreviation JInt :: "int \<Rightarrow> js" where
  "JInt i \<equiv> JNum (jint i)"

section \<open>Objects\<close>

text \<open>\<^verbatim>\<open>o.k\<close> and \<^verbatim>\<open>o[k]\<close> on an object; an absent property reads as undefined.\<close>

definition oget :: "obj \<Rightarrow> string \<Rightarrow> js" where
  "oget kvs k = (case map_of kvs k of None \<Rightarrow> JUndef | Some v \<Rightarrow> v)"

text \<open>\<^verbatim>\<open>o[k] = v\<close>: an existing property keeps its place, a new one goes last.\<close>

fun oset :: "string \<Rightarrow> js \<Rightarrow> obj \<Rightarrow> obj" where
  "oset k v [] = [(k, v)]"
| "oset k v ((k', v') # kvs) = (if k = k' then (k, v) # kvs else (k', v') # oset k v kvs)"

definition odelete :: "string \<Rightarrow> obj \<Rightarrow> obj" where
  "odelete k kvs = filter (\<lambda>p. fst p \<noteq> k) kvs"

text \<open>\<^verbatim>\<open>{ ...a, ...b }\<close>.\<close>

definition ospread :: "obj \<Rightarrow> obj \<Rightarrow> obj" where
  "ospread a b = fold (\<lambda>(k, v). oset k v) b a"

text \<open>\<^verbatim>\<open>x?.k\<close>. The property names read this way are never ones a primitive value or an array
  has.\<close>

fun jsProp :: "js \<Rightarrow> string \<Rightarrow> js" where
  "jsProp (JObj kvs) k = oget kvs k"
| "jsProp _ k = JUndef"

lemma map_of_oset: "map_of (oset k v kvs) = (map_of kvs)(k \<mapsto> v)"
  by (induction k v kvs rule: oset.induct) auto

lemma oget_oset [simp]: "oget (oset k v kvs) k' = (if k' = k then v else oget kvs k')"
  by (simp add: oget_def map_of_oset)

lemma oget_Nil [simp]: "oget [] k = JUndef"
  by (simp add: oget_def)

lemma oget_Cons [simp]: "oget ((k', v) # kvs) k = (if k = k' then v else oget kvs k)"
  by (simp add: oget_def)

lemma fst_set_oset: "fst ` set (oset k v kvs) = insert k (fst ` set kvs)"
  by (induction k v kvs rule: oset.induct) auto

lemma distinct_oset: "distinct (map fst kvs) \<Longrightarrow> distinct (map fst (oset k v kvs))"
proof (induction k v kvs rule: oset.induct)
  case (2 k v k' v' kvs)
  have "k' \<notin> fst ` set (oset k v kvs)" if "k \<noteq> k'"
    using that 2(2) by (simp add: fst_set_oset)
  with 2 show ?case by simp
qed simp

lemma map_of_odelete: "map_of (odelete k kvs) = (map_of kvs)(k := None)"
  by (induction kvs) (auto simp: odelete_def)

lemma oget_odelete [simp]: "oget (odelete k kvs) k' = (if k' = k then JUndef else oget kvs k')"
  by (simp add: oget_def map_of_odelete)

lemma ospread_Nil [simp]: "ospread a [] = a"
  by (simp add: ospread_def)

lemma ospread_Cons [simp]: "ospread a ((k, v) # b) = ospread (oset k v a) b"
  by (simp add: ospread_def)

section \<open>Coercions\<close>

fun truthy :: "js \<Rightarrow> bool" where
  "truthy JUndef = False"
| "truthy JNull = False"
| "truthy (JBool b) = b"
| "truthy (JNum NaN) = False"
| "truthy (JNum (Infinity s)) = True"
| "truthy (JNum (Finite m e)) = (m \<noteq> 0)"
| "truthy (JStr s) = (s \<noteq> [])"
| "truthy (JArr xs) = True"
| "truthy (JObj kvs) = True"
| "truthy (JOther t) = True"

text \<open>\<^verbatim>\<open>a ?? b\<close>.\<close>

definition nullish :: "js \<Rightarrow> bool" where
  "nullish v \<longleftrightarrow> v = JUndef \<or> v = JNull"

definition coalesce :: "js \<Rightarrow> js \<Rightarrow> js" where
  "coalesce a b = (if nullish a then b else a)"

text \<open>An \<^verbatim>\<open>?: string\<close> field, and a \<^verbatim>\<open>string | null\<close> one, as a property value.\<close>

definition optStr :: "string option \<Rightarrow> js" where
  "optStr x = (case x of None \<Rightarrow> JUndef | Some s \<Rightarrow> JStr s)"

definition nullStr :: "string option \<Rightarrow> js" where
  "nullStr x = (case x of None \<Rightarrow> JNull | Some s \<Rightarrow> JStr s)"

fun isStr :: "js \<Rightarrow> bool" where
  "isStr (JStr s) = True"
| "isStr _ = False"

section \<open>Decimal numerals\<close>

definition decDigit :: "nat \<Rightarrow> char" where
  "decDigit n = char_of (48 + n)"

fun showNat :: "nat \<Rightarrow> string" where
  "showNat n = (if n < 10 then [decDigit n] else showNat (n div 10) @ [decDigit (n mod 10)])"

declare showNat.simps [simp del]

definition digitVal :: "char \<Rightarrow> nat" where
  "digitVal c = of_char c - 48"

definition readNat :: "string \<Rightarrow> nat" where
  "readNat s = foldl (\<lambda>n c. 10 * n + digitVal c) 0 s"

definition isDigit :: "char \<Rightarrow> bool" where
  "isDigit c \<longleftrightarrow> 48 \<le> (of_char c :: nat) \<and> (of_char c :: nat) \<le> 57"

lemma digitVal_decDigit [simp]: "n < 10 \<Longrightarrow> digitVal (decDigit n) = n"
  by (simp add: digitVal_def decDigit_def)

lemma isDigit_decDigit [simp]: "n < 10 \<Longrightarrow> isDigit (decDigit n)"
  by (simp add: isDigit_def decDigit_def)

lemma readNat_Nil [simp]: "readNat [] = 0"
  by (simp add: readNat_def)

lemma readNat_snoc [simp]: "readNat (s @ [c]) = 10 * readNat s + digitVal c"
  by (simp add: readNat_def)

lemma readNat_showNat [simp]: "readNat (showNat n) = n"
proof (induction n rule: showNat.induct)
  case (1 n)
  show ?case
  proof (cases "n < 10")
    case True
    then show ?thesis using readNat_snoc [of "[]" "decDigit n"] by (simp add: showNat.simps [of n])
  next
    case False
    then have "readNat (showNat (n div 10)) = n div 10" using 1 by simp
    then show ?thesis using False by (simp add: showNat.simps [of n])
  qed
qed

lemma showNat_inj: "showNat m = showNat n \<Longrightarrow> m = n"
  by (metis readNat_showNat)

lemma showNat_digits: "c \<in> set (showNat n) \<Longrightarrow> isDigit c"
proof (induction n rule: showNat.induct)
  case (1 n)
  then show ?case by (cases "n < 10") (auto simp: showNat.simps [of n])
qed

lemma showNat_nonempty [simp]: "showNat n \<noteq> []"
  by (simp add: showNat.simps [of n])

lemma readNat_zero_Cons [simp]: "readNat (decDigit 0 # s) = readNat s"
  by (simp add: readNat_def)

lemma readNat_zeros_left: "readNat (replicate k (decDigit 0) @ s) = readNat s"
  by (induction k) simp_all

lemma readNat_zeros_right: "readNat (s @ replicate k (decDigit 0)) = readNat s * 10 ^ k"
proof (induction k)
  case (Suc k)
  have "s @ replicate (Suc k) (decDigit 0) = (s @ replicate k (decDigit 0)) @ [decDigit 0]"
    by (simp add: replicate_append_same)
  then show ?case using Suc by (simp only: readNat_snoc) simp
qed simp

definition showInt :: "int \<Rightarrow> string" where
  "showInt i = (if i < 0 then CHR ''-'' # showNat (nat (- i)) else showNat (nat i))"

text \<open>
  ECMAScript \<^verbatim>\<open>Number::toString\<close>: with \<open>k\<close> digits and the point \<open>n\<close> places into them,
  decimal notation when \<open>-6 < n \<le> 21\<close>, else exponent notation.
\<close>

definition decimalForm :: "string \<Rightarrow> int \<Rightarrow> string" where
  "decimalForm ds n =
     (let k = int (length ds) in
      if k \<le> n \<and> n \<le> 21 then ds @ replicate (nat (n - k)) (decDigit 0)
      else if 0 < n \<and> n \<le> 21 then take (nat n) ds @ CHR ''.'' # drop (nat n) ds
      else if - 6 < n \<and> n \<le> 0 then decDigit 0 # CHR ''.'' # replicate (nat (- n)) (decDigit 0) @ ds
      else (case ds of
              [] \<Rightarrow> []
            | [d] \<Rightarrow> d # CHR ''e'' # (if n - 1 < 0 then CHR ''-'' else CHR ''+'') # showNat (nat \<bar>n - 1\<bar>)
            | d # d' # rest \<Rightarrow>
                d # CHR ''.'' # d' # rest @
                CHR ''e'' # (if n - 1 < 0 then CHR ''-'' else CHR ''+'') # showNat (nat \<bar>n - 1\<bar>)))"

fun numberToString :: "jnum \<Rightarrow> string" where
  "numberToString NaN = ''NaN''"
| "numberToString (Infinity neg) = (if neg then ''-Infinity'' else ''Infinity'')"
| "numberToString (Finite m e) =
     (if m = 0 then [decDigit 0]
      else let ds = showNat (nat \<bar>m\<bar>); s = decimalForm ds (int (length ds) + e)
           in if m < 0 then CHR ''-'' # s else s)"

definition num_canonical :: "jnum \<Rightarrow> bool" where
  "num_canonical x = (case x of Finite m e \<Rightarrow> (if m = 0 then e = 0 else m mod 10 \<noteq> 0) | _ \<Rightarrow> True)"


text \<open>
  Two canonical numbers with the same digits are the same number: the numeral can be read back.
  \<open>readDecimal\<close> reads an unsigned numeral as mantissa and exponent.
\<close>

definition readDecimal :: "string \<Rightarrow> nat \<times> int" where
  "readDecimal s =
     (let mant = takeWhile (\<lambda>c. c \<noteq> CHR ''e'') s;
          ex = drop (Suc (length mant)) s;
          ip = takeWhile (\<lambda>c. c \<noteq> CHR ''.'') mant;
          fp = drop (Suc (length ip)) mant;
          x = (case ex of [] \<Rightarrow> 0 | sg # ds \<Rightarrow> if sg = CHR ''-'' then - int (readNat ds) else int (readNat ds))
      in (readNat (ip @ fp), x - int (length fp)))"

lemma isDigit_not: "isDigit c \<Longrightarrow> c \<noteq> CHR ''e'' \<and> c \<noteq> CHR ''.'' \<and> c \<noteq> CHR ''-''"
  by (auto simp: isDigit_def)

definition allDigits :: "string \<Rightarrow> bool" where
  "allDigits ds \<longleftrightarrow> (\<forall>c \<in> set ds. isDigit c)"

lemma allDigits_intros [simp]:
  "allDigits []" "allDigits (showNat n)" "allDigits (replicate k (decDigit 0))"
  "allDigits (c # s) \<longleftrightarrow> isDigit c \<and> allDigits s"
  "allDigits (s @ t) \<longleftrightarrow> allDigits s \<and> allDigits t"
  "allDigits s \<Longrightarrow> allDigits (take j s)" "allDigits s \<Longrightarrow> allDigits (drop j s)"
  by (auto simp: allDigits_def showNat_digits dest: in_set_takeD in_set_dropD)

lemma takeWhile_digits:
  assumes "allDigits ds"
  shows "takeWhile (\<lambda>c. c \<noteq> CHR ''.'') ds = ds" "takeWhile (\<lambda>c. c \<noteq> CHR ''e'') ds = ds"
    "takeWhile (\<lambda>c. c \<noteq> CHR ''.'') (ds @ CHR ''.'' # r) = ds"
    "takeWhile (\<lambda>c. c \<noteq> CHR ''e'') (ds @ CHR ''e'' # r) = ds"
  using assms isDigit_not unfolding allDigits_def
  by (auto simp: takeWhile_eq_all_conv takeWhile_append2)

lemma readDecimal_plain: "allDigits ds \<Longrightarrow> readDecimal ds = (readNat ds, 0)"
  by (simp add: readDecimal_def takeWhile_digits Let_def)

lemma readDecimal_point:
  assumes "allDigits ip" "allDigits fp"
  shows "readDecimal (ip @ CHR ''.'' # fp) = (readNat (ip @ fp), - int (length fp))"
proof -
  have "takeWhile (\<lambda>c. c \<noteq> CHR ''e'') (ip @ CHR ''.'' # fp) = ip @ CHR ''.'' # fp"
    using assms isDigit_not by (auto simp: takeWhile_eq_all_conv allDigits_def)
  then show ?thesis using assms by (simp add: readDecimal_def takeWhile_digits Let_def)
qed

lemma readDecimal_exp:
  assumes "allDigits ds"
  shows "readDecimal (ds @ CHR ''e'' # (if x < 0 then CHR ''-'' else CHR ''+'') # showNat (nat \<bar>x\<bar>)) =
    (readNat ds, x)"
  using assms by (simp add: readDecimal_def takeWhile_digits Let_def)

lemma readDecimal_point_exp:
  assumes "isDigit d" "allDigits fp"
  shows "readDecimal (d # CHR ''.'' # fp @
      CHR ''e'' # (if x < 0 then CHR ''-'' else CHR ''+'') # showNat (nat \<bar>x\<bar>)) =
    (readNat (d # fp), x - int (length fp))"
proof -
  let ?ex = "(if x < 0 then CHR ''-'' else CHR ''+'') # showNat (nat \<bar>x\<bar>)"
  have m: "takeWhile (\<lambda>c. c \<noteq> CHR ''e'') (d # CHR ''.'' # fp @ CHR ''e'' # ?ex) = d # CHR ''.'' # fp"
    using assms isDigit_not [of d] takeWhile_digits(4) [OF assms(2), of ?ex] by simp
  have "takeWhile (\<lambda>c. c \<noteq> CHR ''.'') (d # CHR ''.'' # fp) = [d]"
    using isDigit_not [OF assms(1)] by simp
  with m show ?thesis by (simp add: readDecimal_def Let_def)
qed

lemma readDecimal_decimalForm:
  assumes ds: "allDigits ds" "ds \<noteq> []" and n: "n = int (length ds) + e"
  shows "readDecimal (decimalForm ds n) = (readNat ds, e) \<or>
    (0 \<le> e \<and> readDecimal (decimalForm ds n) = (readNat ds * 10 ^ nat e, 0))"
proof -
  let ?k = "int (length ds)"
  consider (whole) "?k \<le> n" "n \<le> 21"
    | (mid) "\<not> (?k \<le> n \<and> n \<le> 21)" "0 < n" "n \<le> 21"
    | (small) "\<not> (?k \<le> n \<and> n \<le> 21)" "\<not> (0 < n \<and> n \<le> 21)" "- 6 < n" "n \<le> 0"
    | (exp) "\<not> (?k \<le> n \<and> n \<le> 21)" "\<not> (0 < n \<and> n \<le> 21)" "\<not> (- 6 < n \<and> n \<le> 0)"
    by blast
  then show ?thesis
  proof cases
    case whole
    then show ?thesis using n ds
      by (simp add: decimalForm_def readDecimal_plain readNat_zeros_right)
  next
    case mid
    then have "decimalForm ds n = take (nat n) ds @ CHR ''.'' # drop (nat n) ds"
      by (simp add: decimalForm_def Let_def)
    then have "readDecimal (decimalForm ds n) = (readNat ds, - int (length (drop (nat n) ds)))"
      using ds readDecimal_point [of "take (nat n) ds" "drop (nat n) ds"] by simp
    moreover have "- int (length (drop (nat n) ds)) = e" using mid n by auto
    ultimately show ?thesis by simp
  next
    case small
    have "readDecimal ([decDigit 0] @ CHR ''.'' # replicate (nat (- n)) (decDigit 0) @ ds) =
        (readNat ([decDigit 0] @ replicate (nat (- n)) (decDigit 0) @ ds),
         - int (length (replicate (nat (- n)) (decDigit 0) @ ds)))"
      using ds by (intro readDecimal_point) simp_all
    with small n show ?thesis
      by (simp add: decimalForm_def readNat_zeros_left)
  next
    case exp
    obtain d rest where d: "ds = d # rest" using ds(2) by (cases ds) auto
    show ?thesis
    proof (cases rest)
      case Nil
      have "decimalForm ds n = ds @
          CHR ''e'' # (if n - 1 < 0 then CHR ''-'' else CHR ''+'') # showNat (nat \<bar>n - 1\<bar>)"
        unfolding decimalForm_def Let_def using exp d Nil by (simp only: if_False list.case append.simps)
      with n Nil d ds readDecimal_exp [of "[d]" e] show ?thesis by simp
    next
      case (Cons d' r)
      have "decimalForm ds n = (case ds of
              [] \<Rightarrow> []
            | [d] \<Rightarrow> d # CHR ''e'' # (if n - 1 < 0 then CHR ''-'' else CHR ''+'') # showNat (nat \<bar>n - 1\<bar>)
            | d # d' # rest \<Rightarrow>
                d # CHR ''.'' # d' # rest @
                CHR ''e'' # (if n - 1 < 0 then CHR ''-'' else CHR ''+'') # showNat (nat \<bar>n - 1\<bar>))"
        unfolding decimalForm_def Let_def using exp by (simp only: if_False)
      with Cons d have "decimalForm ds n = d # CHR ''.'' # (d' # r) @
          CHR ''e'' # (if n - 1 < 0 then CHR ''-'' else CHR ''+'') # showNat (nat \<bar>n - 1\<bar>)"
        by simp
      with Cons d ds n readDecimal_point_exp [of d "d' # r" "n - 1"] show ?thesis by simp
    qed
  qed
qed

lemma decimal_unique:
  fixes a b :: nat
  assumes "a * 10 ^ i = b * 10 ^ j" "a mod 10 \<noteq> 0" "b mod 10 \<noteq> 0"
  shows "a = b \<and> i = j"
proof -
  have aux: "i' \<le> j'" if "(a'::nat) * 10 ^ i' = b' * 10 ^ j'" "b' mod 10 \<noteq> 0" for a' b' i' j'
  proof (rule ccontr)
    assume "\<not> i' \<le> j'"
    then obtain d where "i' = j' + Suc d" using less_imp_Suc_add not_le by fastforce
    with that(1) have "b' = a' * 10 ^ Suc d" by (simp add: power_add)
    with that(2) show False by simp
  qed
  have "i = j" using aux [OF assms(1) assms(3)] aux [OF assms(1) [symmetric] assms(2)] by simp
  with assms(1) show ?thesis by simp
qed

text \<open>The magnitude string of a canonical non-zero number determines it.\<close>

lemma decimalForm_inj:
  assumes eq: "decimalForm (showNat a) (int (length (showNat a)) + e) =
      decimalForm (showNat b) (int (length (showNat b)) + f)"
    and c: "a mod 10 \<noteq> 0" "b mod 10 \<noteq> 0"
  shows "a = b \<and> e = f"
proof -
  note A = readDecimal_decimalForm [of "showNat a", OF _ _ refl, of e, simplified]
  note B = readDecimal_decimalForm [of "showNat b", OF _ _ refl, of f, simplified]
  consider "(a, e) = (b, f)" | "0 \<le> f" "(a, e) = (b * 10 ^ nat f, 0)"
    | "0 \<le> e" "(a * 10 ^ nat e, 0) = (b, f)"
    | "0 \<le> e" "0 \<le> f" "(a * 10 ^ nat e, 0::int) = (b * 10 ^ nat f, 0)"
    using A B unfolding eq by metis
  then show ?thesis
  proof cases
    case 1
    then show ?thesis by simp
  next
    case 2
    then show ?thesis using decimal_unique [OF _ c, of 0 "nat f"] by simp
  next
    case 3
    then show ?thesis using decimal_unique [OF _ c, of "nat e" 0] by simp
  next
    case 4
    then show ?thesis using decimal_unique [OF _ c, of "nat e" "nat f"] by (simp add: eq_nat_nat_iff)
  qed
qed

lemma decimalForm_hd:
  assumes "allDigits ds" "ds \<noteq> []"
  shows "\<exists>c r. decimalForm ds n = c # r \<and> isDigit c"
  using assms by (cases ds; cases "tl ds"; cases "nat n") (auto simp: decimalForm_def Let_def)

lemma mod10_nat_abs: "m mod 10 \<noteq> 0 \<Longrightarrow> nat \<bar>m\<bar> mod 10 \<noteq> (0::nat)"
  for m :: int
proof -
  have "(10::nat) dvd nat \<bar>m\<bar> \<longleftrightarrow> (10::int) dvd m"
    by (simp add: int_dvd_int_iff [symmetric])
  then show "m mod 10 \<noteq> 0 \<Longrightarrow> nat \<bar>m\<bar> mod 10 \<noteq> (0::nat)"
    by (simp add: mod_eq_0_iff_dvd)
qed

lemma numberToString_hd:
  "\<exists>c r. numberToString (Finite m e) = c # r \<and> (if m < 0 then c = CHR ''-'' else isDigit c)"
  using decimalForm_hd [of "showNat (nat \<bar>m\<bar>)"] by (auto simp: Let_def)

lemma numberToString_inj:
  assumes "num_canonical (Finite m e)" "num_canonical (Finite m' e')"
    and eq: "numberToString (Finite m e) = numberToString (Finite m' e')"
  shows "m = m' \<and> e = e'"
proof -
  have sign: "m < 0 \<longleftrightarrow> m' < 0"
    using numberToString_hd [of m e] numberToString_hd [of m' e'] eq isDigit_not
    by (metis list.inject)
  have zero: "readDecimal (numberToString (Finite x y)) \<noteq> (0, 0)"
    if "num_canonical (Finite x y)" "0 < x" for x y
    using that readDecimal_decimalForm [of "showNat (nat \<bar>x\<bar>)", OF _ _ refl, of y]
    by (auto simp: num_canonical_def Let_def)
  have z0: "readDecimal (numberToString (Finite 0 y)) = (0, 0)" for y
    by (simp add: readDecimal_plain)
  consider "m = 0" "m' = 0" | "m = 0" "0 < m'" | "m' = 0" "0 < m" | "m \<noteq> 0" "m' \<noteq> 0"
    using sign by linarith
  then show ?thesis
  proof cases
    case 1
    then show ?thesis using assms by (simp add: num_canonical_def)
  next
    case 2
    then show ?thesis using zero [OF assms(2)] z0 eq by metis
  next
    case 3
    then show ?thesis using zero [OF assms(1)] z0 eq by metis
  next
    case 4
    then have "nat \<bar>m\<bar> = nat \<bar>m'\<bar> \<and> e = e'"
      using eq sign assms(1,2)
      by (intro decimalForm_inj mod10_nat_abs)
        (auto simp: Let_def num_canonical_def split: if_splits)
    then show ?thesis using sign by auto
  qed
qed

end
