(* ===== verification/Js_Json.thy ===== *)
theory Js_Json
  imports Js_Values
begin

text \<open>
  The JSON part of the JavaScript standard library: the text of a string literal, the text of a
  document, and \<^verbatim>\<open>JSON.parse(JSON.stringify(v))\<close>. The main result is that a text determines
  the document it is the text of (\<open>render_inj\<close>), also when more text follows.
\<close>

section \<open>String literals\<close>

text \<open>ECMAScript \<^verbatim>\<open>QuoteJSONString\<close>, one character.\<close>

definition jsonEscapeChar :: "char \<Rightarrow> string" where
  "jsonEscapeChar c =
     (if c = CHR 0x08 then [CHR 0x5C, CHR ''b'']
      else if c = CHR 0x09 then [CHR 0x5C, CHR ''t'']
      else if c = CHR 0x0A then [CHR 0x5C, CHR ''n'']
      else if c = CHR 0x0C then [CHR 0x5C, CHR ''f'']
      else if c = CHR 0x0D then [CHR 0x5C, CHR ''r'']
      else if c = CHR 0x22 then [CHR 0x5C, CHR 0x22]
      else if c = CHR 0x5C then [CHR 0x5C, CHR 0x5C]
      else if (of_char c :: nat) < 0x20 then
        [CHR 0x5C, CHR ''u'', CHR ''0'', CHR ''0'', hexDigit (of_char c div 16), hexDigit (of_char c mod 16)]
      else [c])"

text \<open>A lone surrogate is written as the escape of its number.\<close>

definition jsonEscapeUnit :: "string \<Rightarrow> string" where
  "jsonEscapeUnit u =
     (case u of
        [a, b, c] \<Rightarrow>
          let n = of_char b mod 64 * 64 + of_char c mod 64 :: nat
          in [CHR 0x5C, CHR ''u'', CHR ''d'', hexDigit (n div 256), hexDigit (n div 16 mod 16), hexDigit (n mod 16)]
      | _ \<Rightarrow> concat (map jsonEscapeChar u))"

definition jsonEscape :: "string \<Rightarrow> string" where
  "jsonEscape s = concat (map jsonEscapeUnit (textUnits s))"

lemma jsonEscapeUnit_one [simp]: "jsonEscapeUnit [c] = jsonEscapeChar c"
  by (simp add: jsonEscapeUnit_def)

lemma jsonEscape_Nil [simp]: "jsonEscape [] = []"
  by (simp add: jsonEscape_def)

lemma jsonEscape_Cons [simp]: "c \<noteq> CHR 0xED \<Longrightarrow> jsonEscape (c # s) = jsonEscapeChar c @ jsonEscape s"
  by (simp add: jsonEscape_def)

lemma jsonEscape_wellFormed: "wellFormed s \<Longrightarrow> jsonEscape s = concat (map jsonEscapeChar s)"
  by (simp add: jsonEscape_def wellFormed_def o_def)

definition jsonQuote :: "string \<Rightarrow> string" where
  "jsonQuote s = CHR 0x22 # jsonEscape s @ [CHR 0x22]"

text \<open>An escaped character is recognised by its first one or, after a backslash, six characters.\<close>

definition controlOf :: "string \<Rightarrow> nat option" where
  "controlOf q =
     find (\<lambda>n. q = [CHR ''0'', CHR ''0'', hexDigit (n div 16), hexDigit (n mod 16)]) [0..<32]"

definition unescapeHead :: "string \<Rightarrow> (char \<times> string) option" where
  "unescapeHead s =
     (case s of
        [] \<Rightarrow> None
      | c # r \<Rightarrow>
          if c = CHR 0x22 then None
          else if c \<noteq> CHR 0x5C then Some (c, r)
          else (case r of
                  [] \<Rightarrow> None
                | d # r' \<Rightarrow>
                    if d = CHR ''b'' then Some (CHR 0x08, r')
                    else if d = CHR ''t'' then Some (CHR 0x09, r')
                    else if d = CHR ''n'' then Some (CHR 0x0A, r')
                    else if d = CHR ''f'' then Some (CHR 0x0C, r')
                    else if d = CHR ''r'' then Some (CHR 0x0D, r')
                    else if d = CHR 0x22 then Some (CHR 0x22, r')
                    else if d = CHR 0x5C then Some (CHR 0x5C, r')
                    else (case controlOf (take 4 r') of
                            None \<Rightarrow> None | Some n \<Rightarrow> Some (char_of n, drop 4 r'))))"

lemma controlOf_hex:
  assumes "n < 32"
  shows "controlOf [CHR ''0'', CHR ''0'', hexDigit (n div 16), hexDigit (n mod 16)] = Some n"
proof -
  have "\<forall>n \<in> set [0..<32].
      controlOf [CHR ''0'', CHR ''0'', hexDigit (n div 16), hexDigit (n mod 16)] = Some n"
    by code_simp
  with assms show ?thesis by simp
qed

lemma unescapeHead_escape: "unescapeHead (jsonEscapeChar c @ r) = Some (c, r)"
proof -
  let ?special = "{CHR 0x08, CHR 0x09, CHR 0x0A, CHR 0x0C, CHR 0x0D, CHR 0x22, CHR 0x5C}"
  consider "c \<in> ?special" | "c \<notin> ?special" "(of_char c :: nat) < 0x20"
    | "c \<notin> ?special" "\<not> (of_char c :: nat) < 0x20" by blast
  then show ?thesis
  proof cases
    case 1
    then show ?thesis
      by (elim insertE emptyE) (simp_all add: unescapeHead_def jsonEscapeChar_def)
  next
    case 2
    let ?q = "[CHR ''0'', CHR ''0'', hexDigit (of_char c div 16), hexDigit (of_char c mod 16)]"
    have "jsonEscapeChar c = [CHR 0x5C, CHR ''u''] @ ?q" using 2 by (simp add: jsonEscapeChar_def)
    then show ?thesis using controlOf_hex [OF 2(2)[simplified]] by (simp add: unescapeHead_def)
  next
    case 3
    then show ?thesis by (simp add: unescapeHead_def jsonEscapeChar_def)
  qed
qed

lemma unescapeHead_quote: "unescapeHead (CHR 0x22 # r) = None"
  by (simp add: unescapeHead_def)

text \<open>The escapes of the units of a string are told apart by their beginning.\<close>

definition isUnit :: "string \<Rightarrow> bool" where
  "isUnit u \<longleftrightarrow> (\<exists>c. u = [c]) \<or> (\<exists>a b c. u = [a, b, c] \<and> surrogate a b c)"

lemma textUnits_units: "u \<in> set (textUnits s) \<Longrightarrow> isUnit u"
proof (induction s rule: length_induct)
  case (1 s)
  then show ?case
  proof (cases s)
    case (Cons a r)
    from textUnits_cases [of a r] show ?thesis
    proof (elim disjE exE conjE)
      assume "textUnits (a # r) = [a] # textUnits r"
      moreover have "u \<in> set (textUnits r) \<Longrightarrow> isUnit u" using 1(1) [rule_format, of r] Cons by simp
      ultimately show ?thesis using 1(2) Cons by (auto simp: isUnit_def)
    next
      fix b c q
      assume q: "r = b # c # q" "surrogate a b c" "textUnits (a # r) = [a, b, c] # textUnits q"
      have "u \<in> set (textUnits q) \<Longrightarrow> isUnit u" using 1(1) [rule_format, of q] Cons q(1) by simp
      with q 1(2) Cons show ?thesis by (auto simp: isUnit_def)
    qed
  qed simp
qed

lemma jsonEscapeChar_surrogate: "jsonEscapeChar c @ r \<noteq> CHR 0x5C # CHR ''u'' # CHR ''d'' # r'"
  by (auto simp: jsonEscapeChar_def)

lemma surrogate_digits:
  assumes "surrogate a b c" "surrogate a' b' c'" "jsonEscapeUnit [a, b, c] @ r = jsonEscapeUnit [a', b', c'] @ r'"
  shows "[a, b, c] = [a', b', c'] \<and> r = r'"
proof -
  define n where "n = (of_char b mod 64 * 64 + of_char c mod 64 :: nat)"
  define m where "m = (of_char b' mod 64 * 64 + of_char c' mod 64 :: nat)"
  have lt: "n < 4096" "m < 4096"
  proof -
    have *: "x mod 64 * 64 + y mod 64 < 4096" for x y :: nat
      using mod_less_divisor [of 64 x] mod_less_divisor [of 64 y] by linarith
    show "n < 4096" "m < 4096" unfolding n_def m_def by (rule *)+
  qed
  have h: "hexDigit (n div 256) = hexDigit (m div 256)" "hexDigit (n div 16 mod 16) = hexDigit (m div 16 mod 16)"
    "hexDigit (n mod 16) = hexDigit (m mod 16)" "r = r'"
    using assms(3) unfolding n_def m_def jsonEscapeUnit_def list.case Let_def append_Cons append_Nil list.inject by blast+
  have "n div 256 < 16" "m div 256 < 16" using lt by linarith+
  then have d: "n div 256 = m div 256" using hexDigit_inj [OF h(1)] by simp
  have e: "n div 16 mod 16 = m div 16 mod 16" "n mod 16 = m mod 16"
    by (rule hexDigit_inj [OF h(2)], simp_all) (rule hexDigit_inj [OF h(3)], simp_all)
  have split: "k = k div 256 * 256 + k div 16 mod 16 * 16 + k mod 16" for k :: nat
  proof -
    have "k div 16 = k div 16 div 16 * 16 + k div 16 mod 16" by simp
    moreover have "k div 16 div 16 = k div 256" by (simp add: div_mult2_eq [symmetric])
    moreover have "k = k div 16 * 16 + k mod 16" by simp
    ultimately show ?thesis by linarith
  qed
  have nm: "n = m" using split [of n] split [of m] d e by simp
  have "(of_char b mod 64 :: nat) = of_char b' mod 64" "(of_char c mod 64 :: nat) = of_char c' mod 64"
  proof -
    have "(x mod 64 * 64 + y mod 64) div 64 = x mod 64" "(x mod 64 * 64 + y mod 64) mod 64 = y mod 64" for x y :: nat
      by simp_all
    then show "(of_char b mod 64 :: nat) = of_char b' mod 64" "(of_char c mod 64 :: nat) = of_char c' mod 64"
      using nm unfolding n_def m_def by metis+
  qed
  moreover have same: "x = y" if "x mod 64 = y mod 64" "x \<in> {128..191}" "y \<in> {128..191}" for x y :: nat
  proof -
    have "x div 64 = 2" "y div 64 = 2" using that(2,3) by auto
    then show ?thesis using that(1) div_mult_mod_eq [of x 64] div_mult_mod_eq [of y 64] by simp
  qed
  moreover have "(of_char b :: nat) \<in> {128..191}" "(of_char b' :: nat) \<in> {128..191}"
    "(of_char c :: nat) \<in> {128..191}" "(of_char c' :: nat) \<in> {128..191}"
    using assms(1,2) by (simp_all add: surrogate_def)
  ultimately have "(of_char b :: nat) = of_char b'" "(of_char c :: nat) = of_char c'"
    by (blast intro: same)+
  then have "b = b'" "c = c'" by (metis char_of_char)+
  moreover have "a = a'" using assms(1,2) by (simp add: surrogate_def)
  ultimately show ?thesis using h(4) by blast
qed

lemma jsonEscapeUnit_inj:
  assumes "isUnit u" "isUnit v" "jsonEscapeUnit u @ r = jsonEscapeUnit v @ r'"
  shows "u = v \<and> r = r'"
proof -
  have one: "c = d \<and> r = r'" if "jsonEscapeChar c @ r = jsonEscapeChar d @ r'" for c d
    using arg_cong [OF that, of unescapeHead] by (simp only: unescapeHead_escape option.inject prod.inject)
  have mixed: "\<not> (jsonEscapeChar c @ q = jsonEscapeUnit [a, b, d] @ q')" for c q a b d q'
    unfolding jsonEscapeUnit_def list.case Let_def append_Cons by (rule jsonEscapeChar_surrogate)
  from assms(1,2) show ?thesis unfolding isUnit_def
  proof (elim disjE exE conjE)
    fix c d assume "u = [c]" "v = [d]"
    then show ?thesis using assms(3) one [of c d] by simp
  next
    fix a b c d e f assume "u = [a, b, c]" "surrogate a b c" "v = [d, e, f]" "surrogate d e f"
    then show ?thesis using assms(3) surrogate_digits [of a b c d e f r r'] by simp
  next
    fix c a b d assume "u = [c]" "v = [a, b, d]"
    then show ?thesis using assms(3) mixed [of c r a b d r'] by simp
  next
    fix c a b d assume "v = [c]" "u = [a, b, d]"
    then show ?thesis using assms(3) mixed [of c r' a b d r] by simp
  qed
qed

lemma jsonEscapeUnit_quote: "isUnit u \<Longrightarrow> jsonEscapeUnit u @ r \<noteq> CHR 0x22 # r'"
proof
  assume u: "isUnit u" and e: "jsonEscapeUnit u @ r = CHR 0x22 # r'"
  from u show False unfolding isUnit_def
  proof (elim disjE exE conjE)
    fix c assume "u = [c]"
    then have "unescapeHead (jsonEscapeChar c @ r) = None" using e unescapeHead_quote [of r'] by simp
    then show False by (simp only: unescapeHead_escape option.distinct)
  next
    fix a b c assume "u = [a, b, c]"
    then have "hd (jsonEscapeUnit u @ r) = CHR 0x5C" unfolding jsonEscapeUnit_def Let_def by simp
    then show False using e by simp
  qed
qed

lemma jsonEscape_units_inj:
  assumes "\<forall>u \<in> set us. isUnit u" "\<forall>v \<in> set vs. isUnit v"
    "concat (map jsonEscapeUnit us) @ CHR 0x22 # r = concat (map jsonEscapeUnit vs) @ CHR 0x22 # r'"
  shows "us = vs \<and> r = r'"
  using assms
proof (induction us arbitrary: vs)
  case Nil
  show ?case
  proof (cases vs)
    case (Cons v vs')
    then have "jsonEscapeUnit v @ concat (map jsonEscapeUnit vs') @ CHR 0x22 # r' = CHR 0x22 # r" using Nil(3) by simp
    then show ?thesis using jsonEscapeUnit_quote [of v] Nil(2) Cons by simp
  qed (use Nil in simp)
next
  case (Cons u us)
  show ?case
  proof (cases vs)
    case Nil
    with Cons.prems jsonEscapeUnit_quote show ?thesis by auto
  next
    case (Cons v vs')
    with Cons.prems have "u = v \<and> concat (map jsonEscapeUnit us) @ CHR 0x22 # r = concat (map jsonEscapeUnit vs') @ CHR 0x22 # r'"
      by (intro jsonEscapeUnit_inj) simp_all
    with Cons.IH [of vs'] Cons.prems Cons show ?thesis by simp
  qed
qed

lemma jsonEscape_inj:
  assumes "jsonEscape s @ CHR 0x22 # r = jsonEscape t @ CHR 0x22 # r'"
  shows "s = t \<and> r = r'"
proof -
  have "textUnits s = textUnits t \<and> r = r'"
    by (rule jsonEscape_units_inj) (use assms in \<open>auto simp: jsonEscape_def textUnits_units\<close>)
  then show ?thesis by (metis textUnits_concat)
qed

lemma jsonQuote_inj: "jsonQuote s @ r = jsonQuote t @ r' \<Longrightarrow> s = t \<and> r = r'"
  by (rule jsonEscape_inj) (simp add: jsonQuote_def)

section \<open>Document text\<close>

text \<open>The text of a document, members in the order of the object.\<close>

fun render :: "js \<Rightarrow> string" where
  "render JUndef = ''null''"
| "render JNull = ''null''"
| "render (JBool b) = (if b then ''true'' else ''false'')"
| "render (JNum n) = numberToString n"
| "render (JStr s) = jsonQuote s"
| "render (JArr xs) = ''['' @ joinStr '','' (map render xs) @ '']''"
| "render (JObj kvs) =
     ''{'' @ joinStr '','' (map (\<lambda>(k, v). jsonQuote k @ '':'' @ render v) kvs) @ ''}''"
| "render (JOther t) = ''''"

text \<open>Documents in JSON: no undefined, no value of another type, finite numbers.\<close>

fun is_json :: "js \<Rightarrow> bool" where
  "is_json JUndef = False"
| "is_json JNull = True"
| "is_json (JBool b) = True"
| "is_json (JNum n) = ((case n of Finite m e \<Rightarrow> True | _ \<Rightarrow> False) \<and> num_canonical n)"
| "is_json (JStr s) = True"
| "is_json (JArr xs) = (\<forall>x \<in> set xs. is_json x)"
| "is_json (JObj kvs) = (\<forall>p \<in> set kvs. is_json (snd p))"
| "is_json (JOther t) = False"

text \<open>The remaining text of a list, item by item, and that it ends where it should.\<close>

fun render_tail :: "char \<Rightarrow> ('a \<Rightarrow> string) \<Rightarrow> 'a list \<Rightarrow> string" where
  "render_tail c f [] = [c]"
| "render_tail c f (x # xs) = CHR '','' # f x @ render_tail c f xs"

lemma joinStr_tail:
  "joinStr '','' (map f (x # xs)) @ [c] = f x @ render_tail c f xs"
  by (induction xs arbitrary: x) simp_all

definition delim :: "string \<Rightarrow> bool" where
  "delim r \<longleftrightarrow> r = [] \<or> hd r \<in> {CHR '','', CHR '']'', CHR ''}''}"

lemma delim_simps [simp]:
  "delim []" "delim (CHR '','' # r)" "delim (CHR '']'' # r)" "delim (CHR ''}'' # r)"
  by (simp_all add: delim_def)

lemma delim_render_tail [simp]: "c \<in> {CHR '']'', CHR ''}''} \<Longrightarrow> delim (render_tail c f xs @ r)"
  by (cases xs) auto

lemma render_tail_inj:
  assumes "\<And>x y r r'. x \<in> set xs \<Longrightarrow> y \<in> set ys \<Longrightarrow> delim r \<Longrightarrow> delim r' \<Longrightarrow>
      f x @ r = f y @ r' \<Longrightarrow> x = y \<and> r = r'"
    and "c \<in> {CHR '']'', CHR ''}''}"
    and "render_tail c f xs @ r = render_tail c f ys @ r'"
  shows "xs = ys \<and> r = r'"
  using assms
proof (induction xs arbitrary: ys)
  case Nil
  then show ?case by (cases ys) auto
next
  case (Cons x xs)
  show ?case
  proof (cases ys)
    case Nil
    with Cons.prems show ?thesis by auto
  next
    case (Cons y ys')
    with Cons.prems(3) have
      "f x @ render_tail c f xs @ r = f y @ render_tail c f ys' @ r'" by simp
    then have "x = y \<and> render_tail c f xs @ r = render_tail c f ys' @ r'"
      by (rule Cons.prems(1) [rotated 4]) (use Cons Cons.prems(2) in auto)
    moreover have "xs = ys' \<and> r = r'" if "render_tail c f xs @ r = render_tail c f ys' @ r'"
      by (rule Cons.IH [OF _ Cons.prems(2) that]) (rule Cons.prems(1), simp_all add: Cons)
    ultimately show ?thesis using Cons by simp
  qed
qed

definition render_list :: "char \<Rightarrow> ('a \<Rightarrow> string) \<Rightarrow> 'a list \<Rightarrow> string" where
  "render_list c f xs = joinStr '','' (map f xs) @ [c]"

lemma render_list_inj:
  assumes f: "\<And>x y r r'. x \<in> set xs \<Longrightarrow> y \<in> set ys \<Longrightarrow> delim r \<Longrightarrow> delim r' \<Longrightarrow>
      f x @ r = f y @ r' \<Longrightarrow> x = y \<and> r = r'"
    and c: "c \<in> {CHR '']'', CHR ''}''}"
    and hd: "\<And>x. x \<in> set xs \<union> set ys \<Longrightarrow> \<exists>d s. f x = d # s \<and> d \<noteq> c"
    and eq: "render_list c f xs @ r = render_list c f ys @ r'"
  shows "xs = ys \<and> r = r'"
proof (cases xs)
  case Nil
  then show ?thesis
  proof (cases ys)
    case (Cons y ys')
    with hd [of y] obtain d s where "f y = d # s" "d \<noteq> c" by auto
    with Nil Cons eq show ?thesis
      by (simp add: render_list_def joinStr_tail del: list.map flip: append_assoc)
         (simp add: joinStr_tail)
  qed (use eq in \<open>simp add: render_list_def\<close>)
next
  case (Cons x xs')
  note xs = Cons
  show ?thesis
  proof (cases ys)
    case Nil
    from hd [of x] xs obtain d s where "f x = d # s" "d \<noteq> c" by auto
    with Nil xs eq show ?thesis
      by (simp add: render_list_def joinStr_tail del: list.map flip: append_assoc)
         (simp add: joinStr_tail)
  next
    case (Cons y ys')
    with xs eq have e: "f x @ render_tail c f xs' @ r = f y @ render_tail c f ys' @ r'"
      unfolding render_list_def by (simp only: joinStr_tail append_assoc)
    then have "x = y \<and> render_tail c f xs' @ r = render_tail c f ys' @ r'"
      by (rule f [rotated 4]) (use xs Cons c in auto)
    moreover have "xs' = ys' \<and> r = r'" if "render_tail c f xs' @ r = render_tail c f ys' @ r'"
      by (rule render_tail_inj [OF _ c that]) (rule f, simp_all add: xs Cons)
    ultimately show ?thesis using xs Cons by simp
  qed
qed


text \<open>What starts the text of each kind of value.\<close>

lemma jsonQuote_hd: "jsonQuote s = CHR 0x22 # jsonEscape s @ [CHR 0x22]"
  by (simp add: jsonQuote_def)

definition numChar :: "char \<Rightarrow> bool" where
  "numChar c \<longleftrightarrow> isDigit c \<or> c \<in> {CHR ''-'', CHR ''+'', CHR ''e'', CHR ''.''}"

lemma allDigits_numChars: "allDigits ds \<Longrightarrow> \<forall>c \<in> set ds. numChar c"
  by (simp add: allDigits_def numChar_def)

lemma decimalForm_chars:
  assumes "allDigits ds"
  shows "\<forall>c \<in> set (decimalForm ds n). numChar c"
proof -
  have n: "numChar (CHR ''-'')" "numChar (CHR ''+'')" "numChar (CHR ''e'')" "numChar (CHR ''.'')"
    "numChar (decDigit 0)"
    by (simp_all add: numChar_def)
  have d: "\<forall>c \<in> set ds. numChar c" "\<And>j. \<forall>c \<in> set (showNat j). numChar c"
    by (rule allDigits_numChars, simp add: assms)+
  have t: "\<forall>c \<in> set (take k ds). numChar c" "\<forall>c \<in> set (drop k ds). numChar c" for k
    using d(1) by (auto dest: in_set_takeD in_set_dropD)
  show ?thesis
  proof (cases ds)
    case Nil
    then show ?thesis using n by (simp add: decimalForm_def Let_def)
  next
    case (Cons a as)
    then show ?thesis using n d t by (cases as) (simp_all add: decimalForm_def Let_def ball_Un)
  qed
qed

lemma numberToString_chars: "\<forall>c \<in> set (numberToString (Finite m e)). numChar c"
proof -
  have "numChar (decDigit 0)" "numChar (CHR ''-'')" by (simp_all add: numChar_def)
  then show ?thesis
    using decimalForm_chars [OF allDigits_intros(2), of "nat \<bar>m\<bar>"] by (simp add: Let_def)
qed

lemma number_text_inj:
  assumes "numberToString (Finite m e) @ r = numberToString (Finite m' e') @ r'"
    and "delim r" "delim r'"
    and "num_canonical (Finite m e)" "num_canonical (Finite m' e')"
  shows "m = m' \<and> e = e' \<and> r = r'"
proof -
  have stop: "takeWhile numChar (numberToString (Finite x y) @ q) = numberToString (Finite x y)"
    if "delim q" for x y q
  proof -
    have "takeWhile numChar q = []"
      using that by (cases q) (auto simp: delim_def numChar_def isDigit_def)
    then show ?thesis using numberToString_chars by (simp add: takeWhile_append2)
  qed
  have "numberToString (Finite m e) = numberToString (Finite m' e')"
    using arg_cong [OF assms(1), of "takeWhile numChar"] stop assms(2,3) by simp
  with numberToString_inj [OF assms(4,5)] assms(1) show ?thesis by simp
qed

text \<open>The kind of a value shows in its first character.\<close>

datatype kind = KNull | KBool bool | KNum | KStr | KArr | KObj | KNone

fun kind_of :: "js \<Rightarrow> kind" where
  "kind_of JUndef = KNull"
| "kind_of JNull = KNull"
| "kind_of (JBool b) = KBool b"
| "kind_of (JNum n) = KNum"
| "kind_of (JStr s) = KStr"
| "kind_of (JArr xs) = KArr"
| "kind_of (JObj kvs) = KObj"
| "kind_of (JOther t) = KNone"

definition kind_of_char :: "char \<Rightarrow> kind" where
  "kind_of_char c =
     (if c = CHR ''n'' then KNull else if c = CHR ''t'' then KBool True
      else if c = CHR ''f'' then KBool False else if c = CHR 0x22 then KStr
      else if c = CHR ''['' then KArr else if c = CHR ''{'' then KObj
      else if c = CHR ''-'' \<or> isDigit c then KNum else KNone)"

lemma kind_of_digit: "isDigit c \<Longrightarrow> kind_of_char c = KNum"
  by (auto simp: kind_of_char_def isDigit_def)

lemma render_hd:
  assumes "is_json v"
  shows "\<exists>c s. render v = c # s \<and> kind_of_char c = kind_of v"
proof (cases v)
  case (JNum n)
  with assms obtain m e where "n = Finite m e" by (cases n) auto
  moreover obtain c r where "numberToString (Finite m e) = c # r"
      "if m < 0 then c = CHR ''-'' else isDigit c"
    using numberToString_hd by blast
  ultimately show ?thesis
    using JNum kind_of_digit [of c] by (cases "m < 0") (simp_all add: kind_of_char_def)
qed (use assms in \<open>auto simp: kind_of_char_def jsonQuote_def isDigit_def\<close>)

lemma kind_not_close: "kind_of_char c \<noteq> KNone \<Longrightarrow> c \<notin> {CHR '']'', CHR ''}''}"
  by (auto simp: kind_of_char_def isDigit_def)

lemma render_hd_not_close:
  assumes "is_json v" "c \<in> {CHR '']'', CHR ''}''}"
  shows "\<exists>d s. render v = d # s \<and> d \<noteq> c"
proof -
  obtain d s where "render v = d # s" "kind_of_char d = kind_of v"
    using render_hd [OF assms(1)] by blast
  moreover have "kind_of v \<noteq> KNone" using assms(1) by (cases v) auto
  ultimately show ?thesis using kind_not_close assms(2) by metis
qed

lemma render_arr: "render (JArr xs) = CHR ''['' # render_list (CHR '']'') render xs"
  by (simp add: render_list_def)

definition renderMember :: "string \<times> js \<Rightarrow> string" where
  "renderMember p = jsonQuote (fst p) @ '':'' @ render (snd p)"

lemma render_obj: "render (JObj kvs) = CHR ''{'' # render_list (CHR ''}'') renderMember kvs"
  by (simp add: render_list_def renderMember_def [abs_def] case_prod_unfold)

text \<open>A text, followed by anything that cannot continue a number, determines its document.\<close>

theorem render_inj:
  assumes "is_json v" "is_json w" "delim r" "delim r'" "render v @ r = render w @ r'"
  shows "v = w \<and> r = r'"
  using assms
proof (induction v arbitrary: w r r')
  case (JArr xs)
  then obtain ys where w: "w = JArr ys"
    using render_hd [OF JArr.prems(1)] render_hd [OF JArr.prems(2)] by (cases w) (auto split: if_splits)
  have "xs = ys \<and> r = r'"
  proof (rule render_list_inj [where f = render and c = "CHR '']''"])
    fix x y q q'
    assume "x \<in> set xs" "y \<in> set ys" "delim q" "delim q'" "render x @ q = render y @ q'"
    then show "x = y \<and> q = q'" using JArr.IH [of x y q q'] JArr.prems(1,2) w by simp
  next
    show "\<And>x. x \<in> set xs \<union> set ys \<Longrightarrow> \<exists>d s. render x = d # s \<and> d \<noteq> CHR '']''"
      using JArr.prems(1,2) w by (intro render_hd_not_close) auto
  qed (use JArr.prems(5) w in \<open>simp_all add: render_arr del: render.simps\<close>)
  with w show ?case by simp
next
  case (JObj kvs)
  then obtain lvs where w: "w = JObj lvs"
    using render_hd [OF JObj.prems(1)] render_hd [OF JObj.prems(2)] by (cases w) (auto split: if_splits)
  have "kvs = lvs \<and> r = r'"
  proof (rule render_list_inj [where f = renderMember and c = "CHR ''}''"])
    fix x y q q'
    assume m: "x \<in> set kvs" "y \<in> set lvs" "delim q" "delim q'" "renderMember x @ q = renderMember y @ q'"
    then have "fst x = fst y \<and> '':'' @ render (snd x) @ q = '':'' @ render (snd y) @ q'"
      by (intro jsonQuote_inj) (simp add: renderMember_def)
    moreover have "is_json (snd x)" "is_json (snd y)" using JObj.prems(1,2) w m(1,2) by auto
    ultimately show "x = y \<and> q = q'"
      using JObj.IH [of x "snd x" "snd y" q q'] m by (cases x) (auto simp: prod_eq_iff snds.intros)
  qed (use JObj.prems(5) w in \<open>simp_all add: render_obj renderMember_def jsonQuote_def del: render.simps\<close>)
  with w show ?case by simp
next
  case (JNum n)
  then obtain n' where w: "w = JNum n'"
    using render_hd [OF JNum.prems(1)] render_hd [OF JNum.prems(2)] by (cases w) (auto split: if_splits)
  from JNum.prems(1,2) w obtain m e m' e' where "n = Finite m e" "n' = Finite m' e'"
    by (cases n; cases n') auto
  with JNum.prems w number_text_inj [of m e r m' e' r'] show ?case by simp
next
  case (JStr s)
  then obtain s' where w: "w = JStr s'"
    using render_hd [OF JStr.prems(1)] render_hd [OF JStr.prems(2)] by (cases w) (auto split: if_splits)
  with JStr.prems jsonQuote_inj [of s r s' r'] show ?case by simp
next
  case (JBool b)
  then obtain b' where w: "w = JBool b'"
    using render_hd [OF JBool.prems(1)] render_hd [OF JBool.prems(2)] by (cases w) (auto split: if_splits)
  with JBool.prems show ?case by (auto split: if_splits)
next
  case JNull
  then have "w = JNull"
    using render_hd [of JNull] render_hd [OF JNull.prems(2)] by (cases w) (auto split: if_splits)
  with JNull.prems show ?case by simp
qed simp_all


section \<open>The text of a document has no lone surrogate\<close>

lemma hexDigit_ED: "n < 16 \<Longrightarrow> hexDigit n \<noteq> CHR 0xED \<and> CHR 0xED \<noteq> hexDigit n"
proof -
  have "\<forall>n \<in> set [0..<16]. hexDigit n \<noteq> CHR 0xED" by code_simp
  then show "n < 16 \<Longrightarrow> hexDigit n \<noteq> CHR 0xED \<and> CHR 0xED \<noteq> hexDigit n" by (metis atLeastLessThan_iff le0 set_upt)
qed

lemma jsonEscapeChar_closed: "c \<noteq> CHR 0xED \<Longrightarrow> closedText (jsonEscapeChar c)"
proof (rule closedText_others)
  assume c: "c \<noteq> CHR 0xED"
  have "of_char c div 16 < (16 :: nat)" "of_char c mod 16 < (16 :: nat)"
    using nat_of_char_less_256 [of c] by linarith simp
  then show "CHR 0xED \<notin> set (jsonEscapeChar c)" using c by (simp add: jsonEscapeChar_def hexDigit_ED not_sym)
qed

lemma jsonEscapeUnit_closed: "isUnit [a, b, c] \<Longrightarrow> closedText (jsonEscapeUnit [a, b, c])"
proof (rule closedText_others)
  assume "isUnit [a, b, c]"
  define n where "n = (of_char b mod 64 * 64 + of_char c mod 64 :: nat)"
  have "n < 4096"
    using mod_less_divisor [of 64 "of_char b"] mod_less_divisor [of 64 "of_char c"] unfolding n_def by linarith
  then have "n div 256 < 16" by linarith
  then show "CHR 0xED \<notin> set (jsonEscapeUnit [a, b, c])"
    unfolding jsonEscapeUnit_def list.case Let_def n_def [symmetric] by (simp add: hexDigit_ED)
qed

lemma jsonEscape_hd:
  assumes "jsonEscape s @ CHR 0x22 # t = b # w" "(of_char b :: nat) \<in> {0x80..0xBF}"
  shows "\<exists>s'. s = b # s' \<and> w = jsonEscape s' @ CHR 0x22 # t"
proof (cases s)
  case Nil
  with assms show ?thesis by auto
next
  case (Cons x r)
  from textUnits_cases [of x r] show ?thesis
  proof (elim disjE exE conjE)
    assume "textUnits (x # r) = [x] # textUnits r"
    then have e: "jsonEscapeChar x @ jsonEscape r @ CHR 0x22 # t = b # w"
      using assms(1) Cons by (simp add: jsonEscape_def)
    then have "jsonEscapeChar x = [x]" using assms(2) by (auto simp: jsonEscapeChar_def split: if_splits)
    with e Cons show ?thesis by simp
  next
    fix c d q
    assume "textUnits (x # r) = [x, c, d] # textUnits q"
    then have "hd (jsonEscape s @ CHR 0x22 # t) = CHR 0x5C" using Cons by (simp add: jsonEscape_def jsonEscapeUnit_def Let_def)
    then show ?thesis using assms by auto
  qed
qed

lemma jsonEscape_closed: "wellFormed t \<Longrightarrow> wellFormed (jsonEscape s @ CHR 0x22 # t)"
proof (induction s rule: length_induct)
  case (1 s)
  show ?case
  proof (cases s)
    case Nil
    then show ?thesis using 1(2) by simp
  next
    case (Cons x r)
    from textUnits_cases [of x r] show ?thesis
    proof (elim disjE exE conjE)
      assume u: "textUnits (x # r) = [x] # textUnits r" and n: "\<forall>b c q. r = b # c # q \<longrightarrow> \<not> surrogate x b c"
      have e: "jsonEscape s = jsonEscapeChar x @ jsonEscape r" using u Cons by (simp add: jsonEscape_def)
      have w: "wellFormed (jsonEscape r @ CHR 0x22 # t)" using 1(1) [rule_format, of r] 1(2) Cons by simp
      show ?thesis
      proof (cases "x = CHR 0xED")
        case True
        have "\<not> surrogate x b c" if eq: "jsonEscape r @ CHR 0x22 # t = b # c # q" for b c q
        proof
          assume g: "surrogate x b c"
          then have bc: "(of_char b :: nat) \<in> {0x80..0xBF}" "(of_char c :: nat) \<in> {0x80..0xBF}" by (auto simp: surrogate_def)
          obtain r1 where r1: "r = b # r1" "jsonEscape r1 @ CHR 0x22 # t = c # q" using jsonEscape_hd [OF eq bc(1)] by auto
          obtain r2 where "r1 = c # r2" using jsonEscape_hd [OF r1(2) bc(2)] by blast
          with r1(1) n g show False by blast
        qed
        moreover have "jsonEscapeChar x = [x]" using True by (simp add: jsonEscapeChar_def)
        ultimately show ?thesis using w e by (auto simp: wellFormed_Cons)
      next
        case False
        then show ?thesis using w e jsonEscapeChar_closed by (simp add: closedText_def)
      qed
    next
      fix b c q
      assume q: "r = b # c # q" "surrogate x b c" "textUnits (x # r) = [x, b, c] # textUnits q"
      have "isUnit [x, b, c]" using q(2) by (simp add: isUnit_def)
      moreover have "jsonEscape s = jsonEscapeUnit [x, b, c] @ jsonEscape q" using q(3) Cons by (simp add: jsonEscape_def)
      moreover have "wellFormed (jsonEscape q @ CHR 0x22 # t)" using 1(1) [rule_format, of q] 1(2) Cons q(1) by simp
      ultimately show ?thesis using jsonEscapeUnit_closed unfolding closedText_def by (metis append_assoc)
    qed
  qed
qed

lemma jsonQuote_closed [simp]: "closedText (jsonQuote s)"
  using jsonEscape_closed by (simp add: closedText_def jsonQuote_def)

lemma number_closed: "closedText (numberToString n)"
proof (cases n)
  case (Finite m e)
  have "\<not> numChar (CHR 0xED)" by (simp add: numChar_def isDigit_def)
  then show ?thesis using numberToString_chars [of m e] Finite by (intro closedText_others) auto
qed (intro closedText_others, simp)+

lemma render_closed: "closedText (render v)"
proof (induction v)
  case (JArr xs)
  then have "closedText (joinStr '','' (map render xs))" by (intro closedText_join) auto
  then show ?case by simp
next
  case (JObj kvs)
  have "closedText (jsonQuote k @ '':'' @ render v)" if "(k, v) \<in> set kvs" for k v
    using JObj [of "(k, v)" v] that by (simp add: snds.intros)
  then have "closedText (joinStr '','' (map (\<lambda>(k, v). jsonQuote k @ '':'' @ render v) kvs))" by (intro closedText_join) auto
  then show ?case by simp
qed (simp_all add: number_closed)

lemma render_wellFormed: "wellFormed (render v)"
  by (rule closedText_wellFormed) (rule render_closed)

text \<open>Documents whose strings and keys are all well-formed.\<close>

fun text_ok :: "js \<Rightarrow> bool" where
  "text_ok (JStr s) = wellFormed s"
| "text_ok (JArr xs) = (\<forall>x \<in> set xs. text_ok x)"
| "text_ok (JObj kvs) = (\<forall>p \<in> set kvs. wellFormed (fst p) \<and> text_ok (snd p))"
| "text_ok v = True"

section \<open>JSON.parse(JSON.stringify(v))\<close>

text \<open>
  \<^verbatim>\<open>JSON.stringify\<close> leaves out the properties whose value is undefined, a function or a symbol,
  writes such an array item and a non-finite number as null, and rejects a bigint; at the top
  level an undefined value has no text, which \<^verbatim>\<open>JSON.parse\<close> then rejects. \<open>stringified\<close> is the
  document whose text is written: \<open>None\<close> for no text.
\<close>

fun stringified :: "js \<Rightarrow> js option result" where
  "stringified JUndef = Inr None"
| "stringified JNull = Inr (Some JNull)"
| "stringified (JBool b) = Inr (Some (JBool b))"
| "stringified (JNum n) = Inr (Some (case n of Finite m e \<Rightarrow> JNum n | _ \<Rightarrow> JNull))"
| "stringified (JStr s) = Inr (Some (JStr s))"
| "stringified (JArr xs) =
     bindR (mapR stringified xs)
       (\<lambda>ys. Inr (Some (JArr (map (\<lambda>y. case y of None \<Rightarrow> JNull | Some w \<Rightarrow> w) ys))))"
| "stringified (JObj kvs) =
     bindR (mapR (\<lambda>(k, v). bindR (stringified v) (\<lambda>w. Inr (k, w))) kvs)
       (\<lambda>ys. Inr (Some (JObj (concat (map (\<lambda>(k, w). case w of None \<Rightarrow> [] | Some x \<Rightarrow> [(k, x)]) ys)))))"
| "stringified (JOther t) =
     (if t = ''bigint'' then Inl (JsError ''Do not know how to serialize a BigInt'') else Inr None)"

definition asJson :: "js \<Rightarrow> js result" where
  "asJson v = bindR (stringified v)
     (\<lambda>w. case w of None \<Rightarrow> Inl (JsError ''Unexpected token in JSON'') | Some x \<Rightarrow> Inr x)"

text \<open>Well-formed values: no number written with a trailing zero, no key twice.\<close>

fun js_wf :: "js \<Rightarrow> bool" where
  "js_wf (JNum n) = num_canonical n"
| "js_wf (JArr xs) = (\<forall>x \<in> set xs. js_wf x)"
| "js_wf (JObj kvs) = (distinct (map fst kvs) \<and> (\<forall>p \<in> set kvs. js_wf (snd p)))"
| "js_wf v = True"

lemma strip10_canonical: "nat \<bar>m\<bar> \<le> k \<Longrightarrow> (m = 0 \<Longrightarrow> e = 0) \<Longrightarrow> num_canonical (strip10 k m e)"
proof (induction k arbitrary: m e)
  case 0
  then show ?case by (simp add: num_canonical_def)
next
  case (Suc k)
  show ?case
  proof (cases "m \<noteq> 0 \<and> m mod 10 = 0")
    case True
    then obtain q where q: "m = 10 * q" "q \<noteq> 0" by (metis dvd_def mod_eq_0_iff_dvd mult_zero_right)
    then have "nat \<bar>q\<bar> \<le> k" using Suc.prems(1) by arith
    with Suc.IH [of q "e + 1"] True q show ?thesis by simp
  next
    case False
    then show ?thesis by (auto simp: num_canonical_def)
  qed
qed

lemma jint_canonical [simp]: "num_canonical (jint i)"
  unfolding jint_def by (rule strip10_canonical) simp_all

lemma strip10_finite: "\<exists>a b. strip10 k m e = Finite a b"
  by (induction k arbitrary: m e) auto

lemma jint_finite: "\<exists>a b. jint i = Finite a b"
  unfolding jint_def by (rule strip10_finite)

lemma is_json_JInt [simp]: "is_json (JInt i)"
  using jint_finite [of i] by (auto split: jnum.splits)

text \<open>A document already in JSON is read back unchanged.\<close>

lemma stringified_json: "is_json v \<Longrightarrow> stringified v = Inr (Some v)"
proof (induction v)
  case (JArr xs)
  then have "mapR stringified xs = Inr (map Some xs)" by (intro mapR_total) simp
  then show ?case by (simp add: o_def)
next
  case (JObj kvs)
  then have "mapR (\<lambda>(k, v). bindR (stringified v) (\<lambda>w. Inr (k, w))) kvs =
      Inr (map (\<lambda>(k, v). (k, Some v)) kvs)"
    by (intro mapR_total) (auto simp: snds.intros)
  moreover have "concat (map (\<lambda>(k, w). case w of None \<Rightarrow> [] | Some x \<Rightarrow> [(k, x)])
      (map (\<lambda>(k, v). (k, Some v)) kvs)) = kvs" for kvs :: obj
    by (induction kvs) auto
  ultimately show ?case by simp
qed (auto split: jnum.splits)

lemma asJson_json: "is_json v \<Longrightarrow> asJson v = Inr v"
  by (simp add: asJson_def stringified_json)

end
