(* ===== verification/Interfaces.thy ===== *)
theory Interfaces
  imports Js_Json
begin

text \<open>
  The interfaces between components, as locales. Each is interpreted on the definitions of the
  component that provides it, in that component's theory; the lemmas here are what the users of
  the interface rely on.
\<close>

section \<open>Text encodings\<close>

text \<open>A reader that gives back what the writer wrote.\<close>

locale text_codec =
  fixes wr :: "'a \<Rightarrow> string" and rd :: "string \<Rightarrow> 'a result"
  assumes read_written: "rd (wr x) = Inr x"
begin

lemma written_inj: "wr x = wr y \<Longrightarrow> x = y"
  by (metis read_written sum.inject(2))

lemma read_written_iff: "rd (wr x) = Inr y \<longleftrightarrow> y = x"
  by (auto simp: read_written)

end

text \<open>A reader that accepts nothing but what the writer writes.\<close>

locale strict_codec = text_codec +
  assumes written_read: "rd s = Inr x \<Longrightarrow> wr x = s"
begin

lemma read_inj: "rd s = Inr x \<Longrightarrow> rd t = Inr x \<Longrightarrow> s = t"
  using written_read by blast

lemma read_iff: "rd s = Inr x \<longleftrightarrow> s = wr x"
  using read_written written_read by blast

end

section \<open>Canonicalisers\<close>

text \<open>
  A canonicaliser maps the documents it accepts to texts that agree exactly on the documents with
  the same normal form. A digest of the text then binds the document: two documents with the same
  digest have the same normal form, or the hash function has a collision on their texts.
\<close>

locale canonicaliser =
  fixes canon :: "js \<Rightarrow> 'b result" and accepts :: "js \<Rightarrow> bool" and nf :: "js \<Rightarrow> js"
  assumes canon_defined: "accepts v \<Longrightarrow> \<exists>b. canon v = Inr b"
    and canon_nf: "accepts v \<Longrightarrow> accepts w \<Longrightarrow> canon v = canon w \<longleftrightarrow> nf v = nf w"
begin

lemma digest_binds:
  assumes "accepts v" "accepts w" "canon v = Inr b" "canon w = Inr c" "h b = h c"
  shows "nf v = nf w \<or> (\<exists>b c. b \<noteq> c \<and> h b = h c)"
  using assms canon_nf by (metis)

lemma digest_of_nf:
  assumes "accepts v" "accepts w" "nf v = nf w" "canon v = Inr b"
  shows "canon w = Inr b"
  using assms canon_nf by metis

end

section \<open>Keyed stores\<close>

text \<open>A JavaScript \<^verbatim>\<open>Map\<close>: one value per key, the keys in the order they were first put.\<close>

locale keyed_store =
  fixes get :: "'s \<Rightarrow> 'k \<Rightarrow> 'v option" and put :: "'k \<Rightarrow> 'v \<Rightarrow> 's \<Rightarrow> 's" and keys :: "'s \<Rightarrow> 'k list"
  assumes get_put: "get (put k v s) k' = (if k' = k then Some v else get s k')"
    and keys_put: "keys (put k v s) = (if k \<in> set (keys s) then keys s else keys s @ [k])"
    and get_keys: "get s k \<noteq> None \<longleftrightarrow> k \<in> set (keys s)"
begin

lemma get_put_same: "get (put k v s) k = Some v"
  by (simp add: get_put)

lemma get_put_other: "k' \<noteq> k \<Longrightarrow> get (put k v s) k' = get s k'"
  by (simp add: get_put)

lemma keys_put_present: "get s k = Some v \<Longrightarrow> keys (put k w s) = keys s"
  using get_keys [of s k] by (simp add: keys_put)

lemma distinct_keys_put: "distinct (keys s) \<Longrightarrow> distinct (keys (put k v s))"
  by (simp add: keys_put)

lemma put_invariant:
  assumes "\<And>k' v'. get s k' = Some v' \<Longrightarrow> P k' v'" "P k v" "get (put k v s) k' = Some v'"
  shows "P k' v'"
  using assms by (auto simp: get_put split: if_splits)

end

end
