(* ===== verification/Jcs.thy ===== *)
theory Jcs
  imports Interfaces
begin

text \<open>
  \<^verbatim>\<open>packages/api/src/lib/jcs.ts\<close>: the JSON Canonicalization Scheme (RFC 8785), the bytes that are
  hashed and signed. It throws on NaN, the infinities and values JSON has no form for; on all
  others it returns bytes, which determine the document up to the order of its keys when its strings and keys are
  well-formed (\<open>canonicalizeJson_iff\<close>). A lone surrogate is not escaped and becomes U+FFFD in the bytes, so two
  documents with different ones may have the same bytes (\<open>lone_surrogates_collide\<close>).
\<close>

section \<open>Definitions\<close>

definition ESCAPE_MAP :: "(char \<times> string) list" where
  "ESCAPE_MAP =
    [(CHR 0x22, [CHR 0x5C, CHR 0x22]),
     (CHR 0x5C, [CHR 0x5C, CHR 0x5C]),
     (CHR 0x08, [CHR 0x5C, CHR ''b'']),
     (CHR 0x0C, [CHR 0x5C, CHR ''f'']),
     (CHR 0x0A, [CHR 0x5C, CHR ''n'']),
     (CHR 0x0D, [CHR 0x5C, CHR ''r'']),
     (CHR 0x09, [CHR 0x5C, CHR ''t''])]"

fun escapeString :: "string \<Rightarrow> string" where
  "escapeString [] = []"
| "escapeString (ch # s) =
     (case map_of ESCAPE_MAP ch of
        Some escaped \<Rightarrow> escaped
      | None \<Rightarrow>
          if (of_char ch :: nat) < 0x20
          then [CHR 0x5C, CHR ''u''] @ padStart 4 (CHR ''0'') (toString16 (of_char ch))
          else [ch])
     @ escapeString s"

definition serializeNumber :: "jnum \<Rightarrow> string result" where
  "serializeNumber n =
     (case n of
        Finite m e \<Rightarrow> Inr (numberToString n)
      | _ \<Rightarrow> Inl (JsError
          ''JCS: NaN and Infinity are not representable in canonical JSON (RFC 8785)''))"

definition sortedKeys :: "obj \<Rightarrow> string list" where
  "sortedKeys kvs = sort_key utf16_rank (map fst kvs)"

lemma sortedKeys_size:
  "k \<in> set (sortedKeys kvs) \<Longrightarrow> size (oget kvs k) < Suc (size_list (size_prod (\<lambda>_. 0) size) kvs)"
proof -
  assume "k \<in> set (sortedKeys kvs)"
  then obtain v where v: "map_of kvs k = Some v"
    by (auto simp: sortedKeys_def dest: weak_map_of_SomeI)
  then have "size v \<le> size_list (size_prod (\<lambda>_. 0) size) kvs"
    by (intro order.trans [OF _ size_list_estimation' [OF map_of_SomeD [OF v] order.refl]]) simp
  with v show ?thesis by (simp add: oget_def)
qed

function serializeValue :: "js \<Rightarrow> string result" where
  "serializeValue JNull = Inr ''null''"
| "serializeValue JUndef = Inr ''null''"
| "serializeValue (JBool b) = Inr (if b then ''true'' else ''false'')"
| "serializeValue (JNum n) = serializeNumber n"
| "serializeValue (JStr s) = Inr (CHR 0x22 # escapeString s @ [CHR 0x22])"
| "serializeValue (JArr xs) =
     bindR (mapR serializeValue xs) (\<lambda>ss. Inr (''['' @ joinStr '','' ss @ '']''))"
| "serializeValue (JObj kvs) =
     bindR (mapR (\<lambda>k. bindR (serializeValue (oget kvs k))
               (\<lambda>s. Inr (CHR 0x22 # escapeString k @ CHR 0x22 # '':'' @ s))) (sortedKeys kvs))
       (\<lambda>members. Inr (''{'' @ joinStr '','' members @ ''}''))"
| "serializeValue (JOther t) = Inl (JsError (''JCS: unsupported value of type '' @ t))"
  by pat_completeness auto
termination
  by (relation "measure size") (auto simp: sortedKeys_size [simplified less_Suc_eq_le] less_Suc_eq_le size_list_estimation')

definition canonicalizeJson :: "js \<Rightarrow> bytes result" where
  "canonicalizeJson value = bindR (serializeValue value) (\<lambda>serialized. Inr (utf8 serialized))"

section \<open>The escape table is the one of JSON.stringify\<close>

lemma toString16_control:
  assumes "n < 32"
  shows "padStart 4 (CHR ''0'') (toString16 n) =
    [CHR ''0'', CHR ''0'', hexDigit (n div 16), hexDigit (n mod 16)]"
proof -
  have "\<forall>n \<in> set [0..<32]. padStart 4 (CHR ''0'') (toString16 n) =
      [CHR ''0'', CHR ''0'', hexDigit (n div 16), hexDigit (n mod 16)]"
    by code_simp
  with assms show ?thesis by simp
qed

lemma escapeString_chars: "escapeString s = concat (map jsonEscapeChar s)"
proof (induction s)
  case (Cons c s)
  have "(case map_of ESCAPE_MAP c of
        Some escaped \<Rightarrow> escaped
      | None \<Rightarrow>
          if (of_char c :: nat) < 0x20
          then [CHR 0x5C, CHR ''u''] @ padStart 4 (CHR ''0'') (toString16 (of_char c))
          else [c]) = jsonEscapeChar c"
    by (simp add: ESCAPE_MAP_def jsonEscapeChar_def toString16_control)
  with Cons show ?case by simp
qed simp

lemma escapeString_jsonEscape: "wellFormed s \<Longrightarrow> escapeString s = jsonEscape s"
  by (simp add: escapeString_chars jsonEscape_wellFormed)

section \<open>Canonical form\<close>

text \<open>The document with its keys in UTF-16 order at every level, and undefined as null.\<close>

fun canonForm :: "js \<Rightarrow> js" where
  "canonForm JUndef = JNull"
| "canonForm (JArr xs) = JArr (map canonForm xs)"
| "canonForm (JObj kvs) =
     JObj (sort_key (\<lambda>p. utf16_rank (fst p)) (map (\<lambda>(k, v). (k, canonForm v)) kvs))"
| "canonForm v = v"

text \<open>Values the scheme accepts.\<close>

fun jcs_ok :: "js \<Rightarrow> bool" where
  "jcs_ok (JNum n) = (case n of Finite m e \<Rightarrow> True | _ \<Rightarrow> False)"
| "jcs_ok (JArr xs) = (\<forall>x \<in> set xs. jcs_ok x)"
| "jcs_ok (JObj kvs) = (\<forall>p \<in> set kvs. jcs_ok (snd p))"
| "jcs_ok (JOther t) = False"
| "jcs_ok v = True"

lemma insort_key_map: "map f (insort_key (\<lambda>x. g (f x)) x xs) = insort_key g (f x) (map f xs)"
  by (induction xs) auto

lemma sort_key_map: "map f (sort_key (\<lambda>x. g (f x)) xs) = sort_key g (map f xs)"
  by (induction xs) (simp_all add: insort_key_map)

lemma sortedKeys_entries:
  assumes "distinct (map fst kvs)"
  shows "map (\<lambda>k. h k (oget kvs k)) (sortedKeys kvs) =
    map (\<lambda>p. h (fst p) (snd p)) (sort_key (\<lambda>p. utf16_rank (fst p)) kvs)"
proof -
  have "sortedKeys kvs = map fst (sort_key (\<lambda>p. utf16_rank (fst p)) kvs)"
    unfolding sortedKeys_def by (rule sort_key_map [symmetric])
  moreover have "oget kvs (fst p) = snd p" if "p \<in> set kvs" for p
    using assms that by (cases p) (simp add: oget_def)
  ultimately show ?thesis by simp
qed

lemma serializeValue_render:
  "js_wf v \<Longrightarrow> jcs_ok v \<Longrightarrow> text_ok v \<Longrightarrow> serializeValue v = Inr (render (canonForm v))"
proof (induction v)
  case (JNum n)
  then show ?case by (cases n) (simp_all add: serializeNumber_def)
next
  case (JStr s)
  then show ?case by (simp add: escapeString_jsonEscape jsonQuote_def)
next
  case (JArr xs)
  then have "mapR serializeValue xs = Inr (map (\<lambda>x. render (canonForm x)) xs)"
    by (intro mapR_total) simp
  then show ?case by (simp add: o_def)
next
  case (JObj kvs)
  let ?m = "\<lambda>k v. CHR 0x22 # escapeString k @ CHR 0x22 # '':'' @ render (canonForm v)"
  have d: "distinct (map fst kvs)" using JObj.prems by simp
  have "mapR (\<lambda>k. bindR (serializeValue (oget kvs k))
      (\<lambda>s. Inr (CHR 0x22 # escapeString k @ CHR 0x22 # '':'' @ s))) (sortedKeys kvs) =
    Inr (map (\<lambda>k. ?m k (oget kvs k)) (sortedKeys kvs))"
  proof (rule mapR_total)
    fix k assume "k \<in> set (sortedKeys kvs)"
    then obtain v where v: "(k, v) \<in> set kvs" by (auto simp: sortedKeys_def)
    with d have "oget kvs k = v" by (simp add: oget_def)
    moreover have "serializeValue v = Inr (render (canonForm v))"
      using JObj.IH [of "(k, v)" v] JObj.prems v by (force simp: snds.intros)
    ultimately show "bindR (serializeValue (oget kvs k))
        (\<lambda>s. Inr (CHR 0x22 # escapeString k @ CHR 0x22 # '':'' @ s)) = Inr (?m k (oget kvs k))"
      by simp
  qed
  also have "map (\<lambda>k. ?m k (oget kvs k)) (sortedKeys kvs) =
      map (\<lambda>p. ?m (fst p) (snd p)) (sort_key (\<lambda>p. utf16_rank (fst p)) kvs)"
    by (rule sortedKeys_entries [OF d])
  also have "\<dots> = map (\<lambda>(k, v). jsonQuote k @ '':'' @ render v)
      (map (\<lambda>(k, v). (k, canonForm v)) (sort_key (\<lambda>p. utf16_rank (fst p)) kvs))"
    using JObj.prems(3) by (auto simp: escapeString_jsonEscape jsonQuote_def)
  also have "map (\<lambda>(k, v). (k, canonForm v)) (sort_key (\<lambda>p. utf16_rank (fst p)) kvs) =
      sort_key (\<lambda>p. utf16_rank (fst p)) (map (\<lambda>(k, v). (k, canonForm v)) kvs)"
    using sort_key_map [of "\<lambda>(k, v). (k, canonForm v)" "\<lambda>p. utf16_rank (fst p)" kvs]
    by (simp add: case_prod_unfold)
  finally show ?case by simp
qed simp_all

lemma canonForm_json: "js_wf v \<Longrightarrow> jcs_ok v \<Longrightarrow> is_json (canonForm v)"
proof (induction v)
  case (JNum n)
  then show ?case by (cases n) simp_all
next
  case (JObj kvs)
  have "is_json (canonForm (snd p))" if "p \<in> set kvs" for p
    using JObj.IH [of p "snd p"] JObj.prems that by (cases p) (force simp: snds.intros)
  then show ?case by auto
qed simp_all

section \<open>Properties\<close>

text \<open>Whether the scheme throws is a property of the values in the document alone.\<close>

lemma serializeValue_error:
  "js_wf v \<Longrightarrow> \<not> jcs_ok v \<Longrightarrow> \<exists>e. serializeValue v = Inl e"
proof (induction v)
  case (JNum n)
  then show ?case by (cases n) (simp_all add: serializeNumber_def)
next
  case (JArr xs)
  then obtain x where x: "x \<in> set xs" "\<not> jcs_ok x" by auto
  with JArr obtain e where "serializeValue x = Inl e" by auto
  with mapR_Inl [OF x(1)] show ?case by fastforce
next
  case (JObj kvs)
  let ?f = "\<lambda>k. bindR (serializeValue (oget kvs k))
      (\<lambda>s. Inr (CHR 0x22 # escapeString k @ CHR 0x22 # '':'' @ s))"
  from JObj.prems obtain k v where kv: "(k, v) \<in> set kvs" "\<not> jcs_ok v" by auto
  then have "oget kvs k = v" "js_wf v" using JObj.prems by (force simp: oget_def)+
  with JObj.IH [of "(k, v)" v] kv obtain e where e: "?f k = Inl e" by (force simp: snds.intros)
  have k: "k \<in> set (sortedKeys kvs)" using kv by (force simp: sortedKeys_def)
  from mapR_Inl [of k "sortedKeys kvs" ?f, OF k e] show ?case by auto
qed simp_all

text \<open>On the values the scheme accepts it returns a text.\<close>

lemma serializeValue_defined: "js_wf v \<Longrightarrow> jcs_ok v \<Longrightarrow> \<exists>s. serializeValue v = Inr s"
proof (induction v)
  case (JNum n)
  then show ?case by (cases n) (simp_all add: serializeNumber_def)
next
  case (JArr xs)
  then have "\<forall>x \<in> set xs. serializeValue x = Inr (projr (serializeValue x))" by (metis jcs_ok.simps(2) js_wf.simps(2) sum.sel(2))
  then have "mapR serializeValue xs = Inr (map (\<lambda>x. projr (serializeValue x)) xs)" by (intro mapR_total) simp
  then show ?case by simp
next
  case (JObj kvs)
  let ?f = "\<lambda>k. bindR (serializeValue (oget kvs k))
      (\<lambda>s. Inr (CHR 0x22 # escapeString k @ CHR 0x22 # '':'' @ s))"
  have "\<exists>s. ?f k = Inr s" if k: "k \<in> set (sortedKeys kvs)" for k
  proof -
    obtain v where v: "(k, v) \<in> set kvs" using k by (auto simp: sortedKeys_def)
    then have "oget kvs k = v" using JObj.prems by (simp add: oget_def)
    moreover have "\<exists>s. serializeValue v = Inr s" using JObj.IH [of "(k, v)" v] JObj.prems v by (force simp: snds.intros)
    ultimately show ?thesis by auto
  qed
  then have "\<And>k. k \<in> set (sortedKeys kvs) \<Longrightarrow> ?f k = Inr (projr (?f k))" by (metis sum.sel(2))
  from mapR_total [of "sortedKeys kvs" ?f, OF this] show ?case by simp
qed simp_all

lemma canonicalizeJson_defined: "js_wf v \<Longrightarrow> jcs_ok v \<Longrightarrow> \<exists>b. canonicalizeJson v = Inr b"
  using serializeValue_defined by (fastforce simp: canonicalizeJson_def)

lemma canonicalizeJson_nf:
  assumes "js_wf v" "jcs_ok v" "text_ok v" "js_wf w" "jcs_ok w" "text_ok w"
  shows "canonicalizeJson v = canonicalizeJson w \<longleftrightarrow> canonForm v = canonForm w"
proof
  assume "canonicalizeJson v = canonicalizeJson w"
  then have "render (canonForm v) @ [] = render (canonForm w) @ []"
    using assms utf8_inj [OF _ render_wellFormed render_wellFormed] by (simp add: canonicalizeJson_def serializeValue_render)
  then show "canonForm v = canonForm w"
    using render_inj [of "canonForm v" "canonForm w" "[]" "[]"] canonForm_json assms by simp
next
  assume "canonForm v = canonForm w"
  then show "canonicalizeJson v = canonicalizeJson w"
    using assms by (simp add: canonicalizeJson_def serializeValue_render)
qed

interpretation jcs: canonicaliser canonicalizeJson "\<lambda>v. js_wf v \<and> jcs_ok v \<and> text_ok v" canonForm
proof
  fix v w
  show "js_wf v \<and> jcs_ok v \<and> text_ok v \<Longrightarrow> \<exists>b. canonicalizeJson v = Inr b"
    by (simp add: canonicalizeJson_def serializeValue_render)
  show "js_wf v \<and> jcs_ok v \<and> text_ok v \<Longrightarrow> js_wf w \<and> jcs_ok w \<and> text_ok w \<Longrightarrow>
      (canonicalizeJson v = canonicalizeJson w) = (canonForm v = canonForm w)"
    by (rule canonicalizeJson_nf) simp_all
qed

text \<open>C1. The bytes that are hashed and signed determine the document: two documents with finite numbers, no function,
  symbol or bigint, and no lone surrogate in a string or a key, have the same canonical bytes exactly when they are the
  same document up to the order of the keys of their objects, so no content of such a signed document can be changed
  without changing the signed bytes.\<close>

theorem canonicalizeJson_iff:
  assumes "js_wf v" "jcs_ok v" "text_ok v" "js_wf w" "jcs_ok w" "text_ok w"
  shows "canonicalizeJson v = canonicalizeJson w \<longleftrightarrow> canonForm v = canonForm w"
  using assms by (intro jcs.canon_nf conjI)

theorem canonicalizeJson_iff_witness:
  "canonicalizeJson (JObj [(''b'', JNull), (''a'', JStr ''x'')]) =
   canonicalizeJson (JObj [(''a'', JStr ''x''), (''b'', JNull)]) \<and>
   canonicalizeJson (JObj [(''a'', JStr ''x'')]) \<noteq> canonicalizeJson (JObj [(''a'', JStr ''y'')])"
proof -
  have "canonForm (JObj [(''b'', JNull), (''a'', JStr ''x'')]) =
      canonForm (JObj [(''a'', JStr ''x''), (''b'', JNull)])"
    by (simp add: utf16_rank_def)
  then show ?thesis
    using canonicalizeJson_iff [of "JObj [(''b'', JNull), (''a'', JStr ''x'')]"
        "JObj [(''a'', JStr ''x''), (''b'', JNull)]"]
      canonicalizeJson_iff [of "JObj [(''a'', JStr ''x'')]" "JObj [(''a'', JStr ''y'')]"] by simp
qed

text \<open>Outside the well-formed strings the bytes do not determine the document.\<close>

lemma lone_surrogates_collide:
  "canonicalizeJson (JStr [CHR 0xED, CHR 0xA0, CHR 0x80]) = canonicalizeJson (JStr [CHR 0xED, CHR 0xA0, CHR 0x81])"
  by (simp add: canonicalizeJson_def escapeString_chars jsonEscapeChar_def utf8_def textUnits_surrogate surrogate_def)

text \<open>The canonicaliser throws on exactly the documents that hold NaN, an infinity or a value
  of a type JSON has no form for, at any depth; on every other document it returns bytes.\<close>

lemma canonicalizeJson_throws_iff:
  assumes "js_wf v"
  shows "(\<exists>e. canonicalizeJson v = Inl e) \<longleftrightarrow> \<not> jcs_ok v"
  using canonicalizeJson_defined [OF assms] serializeValue_error [OF assms]
  by (cases "jcs_ok v") (auto simp: canonicalizeJson_def)

lemma canonicalizeJson_throws_iff_witness:
  "\<exists>e. canonicalizeJson (JObj [(''ttl'', JNum NaN)]) = Inl e"
  using canonicalizeJson_throws_iff [of "JObj [(''ttl'', JNum NaN)]"] by (simp add: num_canonical_def)

end
