(* ===== verification/Canonical_Json.thy ===== *)
theory Canonical_Json
  imports Jcs
begin

text \<open>
  The second canonicaliser of the program: \<^verbatim>\<open>canonicalJson\<close> of \<^verbatim>\<open>services/vti-consent-service.ts\<close>
  (copied in \<^verbatim>\<open>personal-connector-broker-service.ts\<close> and, with a guard,
  \<^verbatim>\<open>protective-guardrails-service.ts\<close>), which builds on \<^verbatim>\<open>JSON.stringify\<close>. On JSON documents without lone
  surrogates it writes the text of the JCS canonicaliser (\<open>canonicalJson_is_jcs\<close>); outside them it is not one:
  it writes NaN as null, an undefined property as the word undefined and a lone surrogate as its escape.
\<close>

definition JSON_stringify :: "js \<Rightarrow> string option result" where
  "JSON_stringify v = bindR (stringified v) (\<lambda>w. Inr (map_option render w))"

text \<open>\<^verbatim>\<open>None\<close> is the value undefined: \<^verbatim>\<open>join\<close> writes it as nothing, a template as its name.\<close>

function canonicalJson :: "js \<Rightarrow> string option result" where
  "canonicalJson (JArr xs) =
     bindR (mapR canonicalJson xs)
       (\<lambda>ss. Inr (Some (''['' @ joinStr '','' (map (\<lambda>s. case s of None \<Rightarrow> '''' | Some t \<Rightarrow> t) ss) @ '']'')))"
| "canonicalJson (JObj kvs) =
     bindR (mapR (\<lambda>k. bindR (canonicalJson (oget kvs k))
               (\<lambda>s. Inr (jsonQuote k @ '':'' @ (case s of None \<Rightarrow> ''undefined'' | Some t \<Rightarrow> t)))) (sortedKeys kvs))
       (\<lambda>members. Inr (Some (''{'' @ joinStr '','' members @ ''}'')))"
| "canonicalJson JUndef = JSON_stringify JUndef"
| "canonicalJson JNull = JSON_stringify JNull"
| "canonicalJson (JBool b) = JSON_stringify (JBool b)"
| "canonicalJson (JNum n) = JSON_stringify (JNum n)"
| "canonicalJson (JStr s) = JSON_stringify (JStr s)"
| "canonicalJson (JOther t) = JSON_stringify (JOther t)"
  by pat_completeness auto
termination
  by (relation "measure size")
    (auto simp: sortedKeys_size [simplified less_Suc_eq_le] less_Suc_eq_le size_list_estimation')

text \<open>The text that is hashed: the canonical text of the JSON reading of a value.\<close>

definition canonicalText :: "js \<Rightarrow> string result" where
  "canonicalText v = bindR (asJson v) (\<lambda>w. bindR (canonicalJson w)
     (\<lambda>s. case s of None \<Rightarrow> Inr ''undefined'' | Some t \<Rightarrow> Inr t))"

lemma canonicalJson_render:
  "is_json v \<Longrightarrow> js_wf v \<Longrightarrow> canonicalJson v = Inr (Some (render (canonForm v)))"
proof (induction v)
  case (JNum n)
  then show ?case by (cases n) (simp_all add: JSON_stringify_def)
next
  case (JArr xs)
  then have "mapR canonicalJson xs = Inr (map (\<lambda>x. Some (render (canonForm x))) xs)"
    by (intro mapR_total) simp
  then show ?case by (simp add: o_def)
next
  case (JObj kvs)
  let ?m = "\<lambda>k v. jsonQuote k @ '':'' @ render (canonForm v)"
  have d: "distinct (map fst kvs)" using JObj.prems by simp
  have "mapR (\<lambda>k. bindR (canonicalJson (oget kvs k))
      (\<lambda>s. Inr (jsonQuote k @ '':'' @ (case s of None \<Rightarrow> ''undefined'' | Some t \<Rightarrow> t)))) (sortedKeys kvs) =
    Inr (map (\<lambda>k. ?m k (oget kvs k)) (sortedKeys kvs))"
  proof (rule mapR_total)
    fix k assume "k \<in> set (sortedKeys kvs)"
    then obtain v where v: "(k, v) \<in> set kvs" by (auto simp: sortedKeys_def)
    with d have "oget kvs k = v" by (simp add: oget_def)
    moreover have "canonicalJson v = Inr (Some (render (canonForm v)))"
      using JObj.IH [of "(k, v)" v] JObj.prems v by (force simp: snds.intros)
    ultimately show "bindR (canonicalJson (oget kvs k))
        (\<lambda>s. Inr (jsonQuote k @ '':'' @ (case s of None \<Rightarrow> ''undefined'' | Some t \<Rightarrow> t))) =
      Inr (?m k (oget kvs k))"
      by simp
  qed
  also have "map (\<lambda>k. ?m k (oget kvs k)) (sortedKeys kvs) =
      map (\<lambda>p. ?m (fst p) (snd p)) (sort_key (\<lambda>p. utf16_rank (fst p)) kvs)"
    by (rule sortedKeys_entries [OF d])
  also have "\<dots> = map (\<lambda>(k, v). jsonQuote k @ '':'' @ render v)
      (map (\<lambda>(k, v). (k, canonForm v)) (sort_key (\<lambda>p. utf16_rank (fst p)) kvs))"
    by (simp add: case_prod_unfold o_def)
  also have "map (\<lambda>(k, v). (k, canonForm v)) (sort_key (\<lambda>p. utf16_rank (fst p)) kvs) =
      sort_key (\<lambda>p. utf16_rank (fst p)) (map (\<lambda>(k, v). (k, canonForm v)) kvs)"
    using sort_key_map [of "\<lambda>(k, v). (k, canonForm v)" "\<lambda>p. utf16_rank (fst p)" kvs]
    by (simp add: case_prod_unfold)
  finally show ?case by simp
qed (simp_all add: JSON_stringify_def)

lemma is_json_jcs_ok: "is_json v \<Longrightarrow> jcs_ok v"
proof (induction v)
  case (JObj kvs)
  have "jcs_ok (snd p)" if "p \<in> set kvs" for p
    using JObj.IH [of p "snd p"] JObj.prems that by (cases p) (force simp: snds.intros)
  then show ?case by simp
qed (auto split: jnum.splits)

text \<open>C2. On JSON documents without lone surrogates the two canonicalisers of the program write the same bytes: the
  digests of the trust-task layer and the signatures of the credential layer agree on what a
  document is. On a lone surrogate they differ: one writes its escape, the other U+FFFD.\<close>

theorem canonicalJson_is_jcs:
  assumes "is_json v" "js_wf v" "text_ok v"
  shows "\<exists>s. canonicalJson v = Inr (Some s) \<and> canonicalizeJson v = Inr (utf8 s)"
  using assms
  by (simp add: canonicalJson_render canonicalizeJson_def serializeValue_render is_json_jcs_ok)

theorem canonicalJson_is_jcs_witness:
  "\<exists>s. canonicalJson (JObj [(''b'', JArr [JNull]), (''a'', JBool True)]) = Inr (Some s) \<and>
    canonicalizeJson (JObj [(''b'', JArr [JNull]), (''a'', JBool True)]) = Inr (utf8 s)"
  by (rule canonicalJson_is_jcs) simp_all

lemma canonicalisers_differ:
  "\<exists>s. canonicalJson (JStr [CHR 0xED, CHR 0xA0, CHR 0x80]) = Inr (Some s) \<and>
    canonicalizeJson (JStr [CHR 0xED, CHR 0xA0, CHR 0x80]) \<noteq> Inr (utf8 s)"
  by (simp add: JSON_stringify_def jsonQuote_def jsonEscape_def jsonEscapeUnit_def textUnits_surrogate surrogate_def
      canonicalizeJson_def escapeString_chars jsonEscapeChar_def utf8_def hexDigit_def)

lemma canonicalText_render:
  "is_json v \<Longrightarrow> js_wf v \<Longrightarrow> canonicalText v = Inr (render (canonForm v))"
  by (simp add: canonicalText_def asJson_json canonicalJson_render)

interpretation ctext: canonicaliser canonicalText "\<lambda>v. is_json v \<and> js_wf v" canonForm
proof
  fix v w
  show "is_json v \<and> js_wf v \<Longrightarrow> \<exists>b. canonicalText v = Inr b"
    by (simp add: canonicalText_render)
  assume v: "is_json v \<and> js_wf v" and w: "is_json w \<and> js_wf w"
  show "(canonicalText v = canonicalText w) = (canonForm v = canonForm w)"
    using v w render_inj [of "canonForm v" "canonForm w" "[]" "[]"]
    by (auto simp: canonicalText_render canonForm_json is_json_jcs_ok)
qed

end
