(* ===== verification/Multibase.thy ===== *)
theory Multibase
  imports Interfaces
begin

text \<open>
  \<^verbatim>\<open>packages/api/src/lib/multibase.ts\<close>: the base58-btc text of public keys and signatures. Both
  loops keep a number as little-endian digits and do one multiply-and-add with carry per input
  symbol; both compute the digits of the number itself (\<open>mulAdd_pushCarry\<close>), from which the two
  round trips follow. The \<^verbatim>\<open>& 0xff\<close> and \<^verbatim>\<open>>>= 8\<close> of the decoder work on carries below \<open>2 ^ 31\<close>
  (\<open>decode_carry_bound\<close>), where they are remainder and quotient by 256.
\<close>

section \<open>Definitions\<close>

definition ALPHABET :: string where
  "ALPHABET = ''123456789ABCDEFGHJKLMNPQRSTUVWXYZabcdefghijkmnopqrstuvwxyz''"

text \<open>\<^verbatim>\<open>while (carry > 0) { push(carry % base); carry = floor(carry / base) }\<close>\<close>

fun pushCarry :: "nat \<Rightarrow> nat \<Rightarrow> nat list" where
  "pushCarry base carry =
     (if 0 < carry \<and> 2 \<le> base then (carry mod base) # pushCarry base (carry div base) else [])"

declare pushCarry.simps [simp del]

text \<open>One input symbol: the carry goes through the digits, each multiplied by \<open>mult\<close>.\<close>

fun mulAdd :: "nat \<Rightarrow> nat \<Rightarrow> nat \<Rightarrow> nat list \<Rightarrow> nat list" where
  "mulAdd mult base carry [] = pushCarry base carry"
| "mulAdd mult base carry (d # ds) =
     (let c = carry + d * mult in (c mod base) # mulAdd mult base (c div base) ds)"

definition encodeBase58Btc :: "bytes \<Rightarrow> string" where
  "encodeBase58Btc bytes =
     (let zeros = length (takeWhile (\<lambda>b. b = 0) bytes);
          input = drop zeros bytes;
          num = fold (\<lambda>b num. mulAdd 256 58 (unat b) num) input [];
          out = replicate zeros (ALPHABET ! 0) @ map (\<lambda>d. ALPHABET ! d) (rev num)
      in CHR ''z'' # out)"

fun indexOf :: "char \<Rightarrow> string \<Rightarrow> nat option" where
  "indexOf ch [] = None"
| "indexOf ch (c # cs) = (if c = ch then Some 0 else map_option Suc (indexOf ch cs))"

definition base58_lookup :: "char \<Rightarrow> nat result" where
  "base58_lookup ch =
     (case indexOf ch ALPHABET of
        None \<Rightarrow> Inl (JsError (''invalid base58-btc char: '' @ [ch]))
      | Some idx \<Rightarrow> Inr idx)"

fun decodeLoop :: "string \<Rightarrow> nat list \<Rightarrow> nat list result" where
  "decodeLoop [] bytes = Inr bytes"
| "decodeLoop (ch # body) bytes =
     bindR (base58_lookup ch) (\<lambda>carry. decodeLoop body (mulAdd 58 256 carry bytes))"

definition decodeBase58Btc :: "string \<Rightarrow> bytes result" where
  "decodeBase58Btc s =
     (if s = [] \<or> hd s \<noteq> CHR ''z''
      then Inl (JsError ''multibase base58-btc string must be 'z'-prefixed'')
      else
        (let body = tl s;
             zeros = length (takeWhile (\<lambda>c. c = ALPHABET ! 0) body)
         in bindR (decodeLoop body [])
              (\<lambda>bytes. Inr (replicate zeros 0 @ map of_nat (rev bytes)))))"

section \<open>Digits\<close>

text \<open>The number of a big-endian digit sequence.\<close>

definition bigEndian :: "nat \<Rightarrow> nat list \<Rightarrow> nat" where
  "bigEndian base ds = foldl (\<lambda>n d. base * n + d) 0 ds"

lemma bigEndian_simps [simp]:
  "bigEndian base [] = 0"
  "bigEndian base [d] = d"
  "bigEndian base (ds @ [d]) = base * bigEndian base ds + d"
  by (simp_all add: bigEndian_def)

lemma bigEndian_zeros [simp]: "bigEndian base (replicate k 0 @ ds) = bigEndian base ds"
  unfolding bigEndian_def by (induction k) simp_all

lemma pushCarry_0 [simp]: "pushCarry base 0 = []"
  by (simp add: pushCarry.simps)

lemma mulAdd_pushCarry:
  assumes "2 \<le> base" "0 < mult"
  shows "mulAdd mult base carry (pushCarry base n) = pushCarry base (carry + mult * n)"
proof (induction n arbitrary: carry rule: less_induct)
  case (less n)
  show ?case
  proof (cases "n = 0")
    case False
    let ?c = "carry + n mod base * mult"
    have split: "carry + mult * n = ?c + base * (mult * (n div base))"
    proof -
      have "mult * n = mult * (n mod base + base * (n div base))" by simp
      then show ?thesis by (simp only: distrib_left mult_ac add_ac)
    qed
    have "mulAdd mult base carry (pushCarry base n) =
        (?c mod base) # mulAdd mult base (?c div base) (pushCarry base (n div base))"
      using False assms by (simp add: pushCarry.simps [of base n] Let_def)
    also have "\<dots> = (?c mod base) # pushCarry base (?c div base + mult * (n div base))"
      using less [of "n div base" "?c div base"] False assms by simp
    also have "\<dots> = pushCarry base (carry + mult * n)"
    proof -
      have "(carry + mult * n) mod base = ?c mod base"
        by (subst split) (rule mod_mult_self2)
      moreover have "(carry + mult * n) div base = ?c div base + mult * (n div base)"
        using assms by (subst split, subst div_mult_self2) simp_all
      ultimately show ?thesis
        using False assms by (simp add: pushCarry.simps [of base "carry + mult * n"])
    qed
    finally show ?thesis .
  qed simp
qed

lemma rev_pushCarry_value: "2 \<le> base \<Longrightarrow> bigEndian base (rev (pushCarry base n)) = n"
  by (induction base n rule: pushCarry.induct) (subst pushCarry.simps, auto)

lemma pushCarry_digits: "d \<in> set (pushCarry base n) \<Longrightarrow> d < base"
  by (induction base n rule: pushCarry.induct) (subst (asm) (2) pushCarry.simps, auto split: if_splits)

lemma hd_rev_pushCarry: "2 \<le> base \<Longrightarrow> 0 < n \<Longrightarrow> \<exists>d ds. rev (pushCarry base n) = d # ds \<and> 0 < d"
proof (induction n rule: less_induct)
  case (less n)
  show ?case
  proof (cases "n < base")
    case True
    then show ?thesis using less.prems by (simp add: pushCarry.simps [of base n])
  next
    case False
    then obtain d ds where "rev (pushCarry base (n div base)) = d # ds" "0 < d"
      using less.IH [of "n div base"] less.prems by (auto simp: div_greater_zero_iff)
    then show ?thesis using less.prems by (simp add: pushCarry.simps [of base n])
  qed
qed

text \<open>Digits with no leading zero are the digits of their number.\<close>

lemma pushCarry_bigEndian:
  assumes "2 \<le> base" "\<forall>d \<in> set ds. d < base" "ds = [] \<or> 0 < hd ds"
  shows "rev (pushCarry base (bigEndian base ds)) = ds"
  using assms(2,3)
proof (induction ds rule: rev_induct)
  case (snoc d ds)
  have d: "d < base" "base \<noteq> 0" using snoc.prems(1) assms(1) by auto
  show ?case
  proof (cases "ds = []")
    case True
    with snoc.prems d show ?thesis by (simp add: pushCarry.simps [of base d] assms(1))
  next
    case False
    then have IH: "rev (pushCarry base (bigEndian base ds)) = ds" using snoc by simp
    with False have "0 < bigEndian base ds" by (metis gr0I pushCarry_0 rev.simps(1))
    then have "pushCarry base (base * bigEndian base ds + d) = d # pushCarry base (bigEndian base ds)"
      using d assms(1) by (simp add: pushCarry.simps [of base "base * bigEndian base ds + d"])
    with IH show ?thesis by simp
  qed
qed simp

section \<open>The loops compute digits\<close>

lemma encode_loop:
  "fold (\<lambda>b num. mulAdd 256 58 (unat b) num) input [] =
   pushCarry 58 (bigEndian 256 (map unat (input :: bytes)))"
proof (induction input rule: rev_induct)
  case (snoc b bs)
  then show ?case by (simp add: mulAdd_pushCarry add.commute)
qed simp

lemma decodeLoop_Inr_iff:
  "decodeLoop body (pushCarry 256 n) = Inr bs \<longleftrightarrow>
   (\<exists>ds. list_all2 (\<lambda>ch d. base58_lookup ch = Inr d) body ds \<and>
     bs = pushCarry 256 (foldl (\<lambda>n d. 58 * n + d) n ds))"
proof (induction body arbitrary: n)
  case (Cons ch body)
  show ?case
  proof (cases "base58_lookup ch")
    case (Inr d)
    then show ?thesis
      using Cons [of "58 * n + d"]
      by (auto simp: mulAdd_pushCarry add.commute list_all2_Cons1)
  qed (simp add: list_all2_Cons1)
qed auto

text \<open>The carry of the decoder stays far below the 32 bits its bit operations work on.\<close>

lemma decode_carry_bound:
  "carry \<le> 57 \<Longrightarrow> d < 256 \<Longrightarrow>
   (carry + d * 58 :: nat) < 2 ^ 31 \<and> (carry + d * 58) div 256 \<le> 57 \<and>
   (carry + d * 58) mod 256 = take_bit 8 (carry + d * 58) \<and>
   (carry + d * 58) div 256 = drop_bit 8 (carry + d * 58)"
  by (simp add: take_bit_eq_mod drop_bit_eq_div)

section \<open>The alphabet\<close>

lemma ALPHABET_lookup:
  assumes "d < 58"
  shows "base58_lookup (ALPHABET ! d) = Inr d"
proof -
  have "\<forall>d \<in> set [0..<58]. base58_lookup (ALPHABET ! d) = Inr d" by code_simp
  with assms show ?thesis by simp
qed

lemma indexOf_Some: "indexOf ch cs = Some i \<Longrightarrow> i < length cs \<and> cs ! i = ch"
  by (induction cs arbitrary: i) (auto split: if_splits)

lemma base58_lookup_Inr: "base58_lookup ch = Inr d \<longleftrightarrow> d < 58 \<and> ch = ALPHABET ! d"
proof
  assume "base58_lookup ch = Inr d"
  then have "indexOf ch ALPHABET = Some d"
    by (simp add: base58_lookup_def split: option.splits)
  moreover have "length ALPHABET = 58" by code_simp
  ultimately show "d < 58 \<and> ch = ALPHABET ! d" using indexOf_Some [of ch ALPHABET d] by auto
qed (use ALPHABET_lookup in auto)

lemma ALPHABET_zero: "d < 58 \<Longrightarrow> ALPHABET ! d = ALPHABET ! 0 \<longleftrightarrow> d = 0"
  using ALPHABET_lookup [of d] ALPHABET_lookup [of 0] by (metis sum.inject(2) zero_less_numeral)

lemma list_all2_lookup:
  "list_all2 (\<lambda>ch d. base58_lookup ch = Inr d) body ds \<longleftrightarrow>
   (\<forall>d \<in> set ds. d < 58) \<and> body = map (\<lambda>d. ALPHABET ! d) ds"
  by (induction body arbitrary: ds) (auto simp: list_all2_Cons1 base58_lookup_Inr)

lemma decodeBase58Btc_Inr_iff:
  "decodeBase58Btc s = Inr bs \<longleftrightarrow>
   (\<exists>ds. s = CHR ''z'' # map (\<lambda>d. ALPHABET ! d) ds \<and> (\<forall>d \<in> set ds. d < 58) \<and>
     bs = replicate (length (takeWhile (\<lambda>d. d = 0) ds)) 0 @
          map of_nat (rev (pushCarry 256 (bigEndian 58 ds))))"
proof -
  have tw: "takeWhile (\<lambda>c. c = ALPHABET ! 0) (map (\<lambda>d. ALPHABET ! d) ds) =
      map (\<lambda>d. ALPHABET ! d) (takeWhile (\<lambda>d. d = 0) ds)"
    if "\<forall>d \<in> set ds. d < 58" for ds
    using that by (induction ds) (auto simp: ALPHABET_zero)
  have loop: "decodeLoop body [] = Inr xs \<longleftrightarrow>
      (\<exists>ds. (\<forall>d \<in> set ds. d < 58) \<and> body = map (\<lambda>d. ALPHABET ! d) ds \<and>
        xs = pushCarry 256 (bigEndian 58 ds))" for body xs
    using decodeLoop_Inr_iff [of body 0 xs] by (simp add: list_all2_lookup bigEndian_def conj_assoc)
  show ?thesis
  proof (cases s)
    case (Cons c body)
    have "decodeBase58Btc s = Inr bs \<longleftrightarrow> c = CHR ''z'' \<and>
        (\<exists>xs. decodeLoop body [] = Inr xs \<and>
          bs = replicate (length (takeWhile (\<lambda>c. c = ALPHABET ! 0) body)) 0 @ map of_nat (rev xs))"
      using Cons by (auto simp: decodeBase58Btc_def Let_def bindR_Inr_iff)
    also have "\<dots> \<longleftrightarrow> c = CHR ''z'' \<and> (\<exists>ds. (\<forall>d \<in> set ds. d < 58) \<and>
        body = map (\<lambda>d. ALPHABET ! d) ds \<and>
        bs = replicate (length (takeWhile (\<lambda>d. d = 0) ds)) 0 @
          map of_nat (rev (pushCarry 256 (bigEndian 58 ds))))"
    proof -
      have "(\<exists>xs. decodeLoop body [] = Inr xs \<and> Q xs) \<longleftrightarrow> (\<exists>ds. (\<forall>d \<in> set ds. d < 58) \<and>
          body = map (\<lambda>d. ALPHABET ! d) ds \<and> Q (pushCarry 256 (bigEndian 58 ds)))" for Q
        unfolding loop by blast
      then show ?thesis using tw by (auto cong: conj_cong)
    qed
    finally show ?thesis using Cons by blast
  qed (simp add: decodeBase58Btc_def)
qed

lemma takeWhile_zeros: "ds = replicate (length (takeWhile (\<lambda>d. d = 0) ds)) 0 @ dropWhile (\<lambda>d. d = 0) ds"
  by (induction ds) auto


lemma dropWhile_hd: "dropWhile (\<lambda>d. d = (0::nat)) ds = [] \<or> 0 < hd (dropWhile (\<lambda>d. d = 0) ds)"
  using hd_dropWhile [of "\<lambda>d. d = 0" ds] by (metis gr0I)

lemma leading_zeros_digits:
  assumes "2 \<le> base" "\<forall>d \<in> set ds. d < base"
  shows "replicate (length (takeWhile (\<lambda>d. d = 0) ds)) 0 @ rev (pushCarry base (bigEndian base ds)) = ds"
proof -
  let ?k = "length (takeWhile (\<lambda>d. d = 0) ds)" and ?rest = "dropWhile (\<lambda>d. d = 0) ds"
  have "bigEndian base ds = bigEndian base ?rest"
    using arg_cong [OF takeWhile_zeros [of ds], of "bigEndian base"] by simp
  moreover have "\<forall>d \<in> set ?rest. d < base" using assms(2) by (auto dest: set_dropWhileD)
  ultimately have "rev (pushCarry base (bigEndian base ds)) = ?rest"
    using pushCarry_bigEndian [OF assms(1), of ?rest] dropWhile_hd by simp
  then show ?thesis using takeWhile_zeros [of ds] by simp
qed

lemma zeros_rev_pushCarry [simp]:
  assumes "2 \<le> base"
  shows "takeWhile (\<lambda>d. d = 0) (replicate k 0 @ rev (pushCarry base n)) = replicate k (0::nat)"
proof (cases "n = 0")
  case False
  then obtain d ds where "rev (pushCarry base n) = d # ds" "0 < d"
    using hd_rev_pushCarry [OF assms, of n] by auto
  then have "takeWhile (\<lambda>d. d = 0) (rev (pushCarry base n)) = []" by simp
  then show ?thesis by (induction k) simp_all
next
  case True
  then show ?thesis by (induction k) simp_all
qed

lemma encodeBase58Btc_digits:
  "encodeBase58Btc bs = CHR ''z'' # map (\<lambda>d. ALPHABET ! d)
     (replicate (length (takeWhile (\<lambda>b. b = 0) bs)) 0 @
      rev (pushCarry 58 (bigEndian 256 (map unat bs))))"
proof -
  let ?k = "length (takeWhile (\<lambda>b. b = 0) bs)"
  have "map unat bs = replicate ?k 0 @ map unat (drop ?k bs)" by (induction bs) auto
  then have "bigEndian 256 (map unat bs) = bigEndian 256 (map unat (drop ?k bs))"
    by (metis bigEndian_zeros)
  then show ?thesis by (simp add: encodeBase58Btc_def Let_def encode_loop)
qed

lemma unat_u8: "unat (b :: u8) < 256"
  using unsigned_less [of b, where 'a = nat] by simp

lemma map_of_nat_unat: "map of_nat (map unat bs) = (bs :: bytes)"
  by (induction bs) simp_all

lemma map_unat_of_nat: "\<forall>d \<in> set ds. d < 256 \<Longrightarrow> map unat (map of_nat ds :: bytes) = ds"
  by (induction ds) (simp_all add: unat_of_nat)

lemma takeWhile_unat: "takeWhile (\<lambda>d. d = 0) (map unat bs) = map unat (takeWhile (\<lambda>b. b = 0) (bs :: bytes))"
  by (induction bs) (simp_all add: unat_eq_zero)

section \<open>The reader and the writer are inverse to each other\<close>

lemma base58_read_written: "decodeBase58Btc (encodeBase58Btc bs) = Inr bs"
proof -
  let ?k = "length (takeWhile (\<lambda>b. b = 0) bs)" and ?n = "bigEndian 256 (map unat bs)"
  let ?ds = "replicate ?k 0 @ rev (pushCarry 58 ?n)"
  have "map unat bs = replicate ?k 0 @ rev (pushCarry 256 ?n)"
    using leading_zeros_digits [of 256 "map unat bs"] unat_u8 by (simp add: takeWhile_unat)
  then have "bs = map of_nat (replicate ?k 0 @ rev (pushCarry 256 ?n))"
    by (metis map_of_nat_unat)
  moreover have "\<forall>d \<in> set ?ds. d < 58" using pushCarry_digits [of _ 58] by auto
  moreover have "bigEndian 58 ?ds = ?n" by (simp add: rev_pushCarry_value)
  moreover have "length (takeWhile (\<lambda>d. d = 0) ?ds) = ?k" by simp
  ultimately show ?thesis
    unfolding decodeBase58Btc_Inr_iff encodeBase58Btc_digits by (intro exI [of _ ?ds]) simp
qed

lemma base58_written_read:
  assumes "decodeBase58Btc s = Inr bs"
  shows "encodeBase58Btc bs = s"
proof -
  obtain ds where s: "s = CHR ''z'' # map (\<lambda>d. ALPHABET ! d) ds" and ds: "\<forall>d \<in> set ds. d < 58"
    and bs: "bs = replicate (length (takeWhile (\<lambda>d. d = 0) ds)) 0 @
          map of_nat (rev (pushCarry 256 (bigEndian 58 ds)))"
    using assms unfolding decodeBase58Btc_Inr_iff by blast
  let ?k = "length (takeWhile (\<lambda>d. d = 0) ds)" and ?m = "rev (pushCarry 256 (bigEndian 58 ds))"
  have b: "map unat bs = replicate ?k 0 @ ?m"
    using map_unat_of_nat [of ?m] pushCarry_digits [of _ 256] by (simp add: bs)
  then have "length (takeWhile (\<lambda>b. b = 0) bs) = ?k"
    using arg_cong [OF takeWhile_unat [of bs], of length] by simp
  moreover have "bigEndian 256 (map unat bs) = bigEndian 58 ds"
    by (simp add: b rev_pushCarry_value)
  ultimately show ?thesis
    using leading_zeros_digits [of 58 ds] ds by (simp add: encodeBase58Btc_digits s)
qed

interpretation b58: strict_codec encodeBase58Btc decodeBase58Btc
  by unfold_locales (rule base58_read_written, rule base58_written_read)

section \<open>Properties\<close>

text \<open>Decoding the base58-btc text of any byte sequence, leading zero bytes included, gives the
  bytes back.\<close>

lemma decode_encode: "decodeBase58Btc (encodeBase58Btc bs) = Inr bs"
  by (rule b58.read_written)

text \<open>A text has at most one reading and a byte sequence one text: whatever text the decoder
  accepts is the text the encoder writes for the decoded bytes, so a signature or key cannot be
  written in two ways.\<close>

lemma encode_decode:
  assumes "decodeBase58Btc s = Inr bs"
  shows "encodeBase58Btc bs = s"
  using assms by (rule b58.written_read)

lemma encode_decode_witness: "encodeBase58Btc [237, 1] = ''zK36''"
  by (rule encode_decode) code_simp

end
