(* ===== verification/Runtime.thy ===== *)
theory Runtime
  imports Js_Json
begin

text \<open>
  What the server runs on: the platform's cryptography, the process environment and the clock.
  The cryptographic functions (\<^verbatim>\<open>node:crypto\<close>, \<^verbatim>\<open>@noble/ed25519\<close>) are not part of the repository;
  they are the fields of the record \<open>crypto\<close>, an argument of every definition that uses them.
  What the code relies on is stated by \<open>sha256_sized\<close> and \<open>ed25519_correct\<close>.
\<close>

section \<open>Cryptography and base64\<close>

record crypto =
  sha256 :: "bytes \<Rightarrow> bytes"
  ed_getPublicKey :: "bytes \<Rightarrow> bytes" \<comment> \<open>seed\<close>
  ed_sign :: "bytes \<Rightarrow> bytes \<Rightarrow> bytes" \<comment> \<open>message, seed\<close>
  ed_verify :: "bytes \<Rightarrow> bytes \<Rightarrow> bytes \<Rightarrow> bool result" \<comment> \<open>signature, message, public key\<close>
  jwk_verify :: "js \<Rightarrow> bytes \<Rightarrow> bytes \<Rightarrow> bool result" \<comment> \<open>key, message, signature\<close>
  from_base64 :: "string \<Rightarrow> bytes"
  from_base64url :: "string \<Rightarrow> bytes"
  to_base64url :: "bytes \<Rightarrow> string"

text \<open>SHA-256 digests have 32 bytes.\<close>

definition sha256_sized :: "crypto \<Rightarrow> bool" where
  "sha256_sized c \<longleftrightarrow> (\<forall>m. length (sha256 c m) = 32)"

text \<open>Ed25519 (RFC 8032): keys have 32 bytes, and what a seed signs verifies under its public key.\<close>

definition ed25519_correct :: "crypto \<Rightarrow> bool" where
  "ed25519_correct c \<longleftrightarrow>
     (\<forall>seed. length seed = 32 \<longrightarrow> length (ed_getPublicKey c seed) = 32 \<and>
       (\<forall>m. ed_verify c (ed_sign c m seed) m (ed_getPublicKey c seed) = Inr True))"

text \<open>
  A concrete instance for the witnesses: the digest is the message cut or filled to 32 bytes, the
  public key is the seed, the signature is the seed and the message.
\<close>

definition pad32 :: "bytes \<Rightarrow> bytes" where
  "pad32 m = take 32 (m @ replicate 32 0)"

definition toy_crypto :: crypto where
  "toy_crypto = \<lparr> sha256 = pad32, ed_getPublicKey = (\<lambda>seed. seed), ed_sign = (\<lambda>m seed. seed @ m),
     ed_verify = (\<lambda>sig m key. Inr (sig = key @ m)), jwk_verify = (\<lambda>key m sig. Inr (sig = m)),
     from_base64 = (\<lambda>s. utf8 s), from_base64url = (\<lambda>s. utf8 s), to_base64url = toHex \<rparr>"

lemma toy_crypto_laws [simp]: "sha256_sized toy_crypto" "ed25519_correct toy_crypto"
  by (auto simp: sha256_sized_def ed25519_correct_def toy_crypto_def pad32_def)

section \<open>Environment\<close>

text \<open>\<^verbatim>\<open>process.env.NAME\<close>; \<^verbatim>\<open>None\<close> is an unset variable.\<close>

type_synonym env = "string \<Rightarrow> string option"

text \<open>\<^verbatim>\<open>x ?? d\<close> on a variable.\<close>

definition orElse :: "'a option \<Rightarrow> 'a \<Rightarrow> 'a" where
  "orElse x d = (case x of None \<Rightarrow> d | Some v \<Rightarrow> v)"

lemma orElse_simps [simp]: "orElse None d = d" "orElse (Some v) d = v"
  by (simp_all add: orElse_def)

text \<open>A variable that is set to a non-empty text (\<^verbatim>\<open>if (process.env.X)\<close>).\<close>

definition set_nonempty :: "string option \<Rightarrow> bool" where
  "set_nonempty x \<longleftrightarrow> x \<noteq> None \<and> x \<noteq> Some []"

end
