(* ===== verification/Iso_Date.thy ===== *)
theory Iso_Date
  imports Interfaces
begin

text \<open>
  Dates: a \<^verbatim>\<open>Date\<close> is its time value, milliseconds since 1970-01-01T00:00Z, an \<^typ>\<open>int\<close>.
  \<^verbatim>\<open>toISOString\<close> and the reading of the ECMAScript date-time format by \<^verbatim>\<open>Date.parse\<close> are modelled
  in full for texts with a time zone and for dates alone. Local times and the other formats an
  engine accepts depend on the host; they are the parameter \<open>hostDate\<close> of \<open>dateParse\<close>. \<open>None\<close> is
  the invalid date, whose time value is NaN.
\<close>

section \<open>Civil dates\<close>

text \<open>Days since 1970-01-01 of a date of the proleptic Gregorian calendar, counted from 1 March.\<close>

definition daysFromCivil :: "int \<Rightarrow> int \<Rightarrow> int \<Rightarrow> int" where
  "daysFromCivil y m d =
     (let y' = (if m \<le> 2 then y - 1 else y);
          era = y' div 400; yoe = y' mod 400;
          mp = (if m > 2 then m - 3 else m + 9)
      in era * 146097 + yoe * 365 + yoe div 4 - yoe div 100 + (153 * mp + 2) div 5 + d - 1 - 719468)"

text \<open>The year of a 400-year era and the day of that year, from the day of the era.\<close>

definition yearOfEra :: "int \<Rightarrow> int \<times> int" where
  "yearOfEra doe =
     (let c = min 3 (doe div 36524); r = doe - 36524 * c;
          q = r div 1461; s = r mod 1461;
          a = min 3 (s div 365)
      in (100 * c + 4 * q + a, s - 365 * a))"

text \<open>The month, counted from March, and the day of a day of the year.\<close>

definition monthDay :: "int \<Rightarrow> int \<times> int" where
  "monthDay doy = (let mp = (5 * doy + 2) div 153 in (mp, doy - (153 * mp + 2) div 5 + 1))"

definition civilFromDays :: "int \<Rightarrow> int \<times> int \<times> int" where
  "civilFromDays z =
     (let (yoe, doy) = yearOfEra ((z + 719468) mod 146097);
          (mp, d) = monthDay doy;
          y = (z + 719468) div 146097 * 400 + yoe
      in if mp < 10 then (y, mp + 3, d) else (y + 1, mp - 9, d))"

lemma yearOfEra_ranges:
  assumes "yearOfEra doe = (yoe, doy)" and doe: "0 \<le> doe" "doe < 146097"
  shows "0 \<le> yoe" "yoe < 400" "0 \<le> doy" "doy \<le> 365"
    "yoe * 365 + yoe div 4 - yoe div 100 + doy = doe"
proof -
  define c where "c = min 3 (doe div 36524)"
  define r where "r = doe - 36524 * c"
  define q s where "q = r div 1461" and "s = r mod 1461"
  define a where "a = min 3 (s div 365)"
  have y: "yoe = 100 * c + 4 * q + a" and d: "doy = s - 365 * a"
    using assms(1) by (simp_all add: yearOfEra_def Let_def c_def r_def q_def s_def a_def)
  have c: "0 \<le> c" "c \<le> 3" using doe by (simp_all add: c_def)
  have r: "0 \<le> r" "r \<le> 36524" using doe unfolding r_def c_def by (auto simp: min_def)
  have r': "r = 1461 * q + s" by (simp add: q_def s_def)
  have q: "0 \<le> q" "q \<le> 24" using r by (simp_all add: q_def)
  have s: "0 \<le> s" "s \<le> 1460" by (simp_all add: s_def)
  have a: "0 \<le> a" "a \<le> 3" using s by (simp_all add: a_def)
  show "0 \<le> yoe" "yoe < 400" using y c q a by linarith+
  show "0 \<le> doy" "doy \<le> 365" using s unfolding d a_def by (auto simp: min_def)
  have "yoe div 4 = 25 * c + q" "yoe div 100 = c" using y a q c by linarith+
  then show "yoe * 365 + yoe div 4 - yoe div 100 + doy = doe" using r' y d r_def by linarith
qed

lemma monthDay_ranges:
  assumes "monthDay doy = (mp, d)" and doy: "0 \<le> doy" "doy \<le> 365"
  shows "0 \<le> mp" "mp \<le> 11" "1 \<le> d" "d \<le> 31" "(153 * mp + 2) div 5 + d - 1 = doy"
proof -
  have mp: "mp = (5 * doy + 2) div 153" and d: "d = doy - (153 * mp + 2) div 5 + 1"
    using assms(1) by (auto simp: monthDay_def Let_def)
  show "0 \<le> mp" "mp \<le> 11" using mp doy by linarith+
  have "153 * mp \<le> 5 * doy + 2" "5 * doy + 2 < 153 * mp + 153" unfolding mp by linarith+
  moreover have "5 * ((153 * mp + 2) div 5) \<le> 153 * mp + 2"
    "153 * mp + 2 < 5 * ((153 * mp + 2) div 5) + 5" by linarith+
  ultimately show "1 \<le> d" "d \<le> 31" unfolding d by linarith+
  show "(153 * mp + 2) div 5 + d - 1 = doy" by (simp add: d)
qed

lemma civil_ranges:
  assumes "civilFromDays z = (y, m, d)"
  shows "1 \<le> m \<and> m \<le> 12 \<and> 1 \<le> d \<and> d \<le> 31 \<and> daysFromCivil y m d = z \<and>
    \<bar>y - (z + 719468) div 146097 * 400\<bar> \<le> 400"
proof -
  define era doe where "era = (z + 719468) div 146097" and "doe = (z + 719468) mod 146097"
  obtain yoe doy where yd: "yearOfEra doe = (yoe, doy)" by fastforce
  obtain mp d' where md: "monthDay doy = (mp, d')" by fastforce
  note yr = yearOfEra_ranges [OF yd, unfolded doe_def, simplified, folded doe_def]
  note mr = monthDay_ranges [OF md yr(3,4)]
  have z: "era * 146097 + doe = z + 719468" unfolding era_def doe_def by (rule div_mult_mod_eq)
  have dec: "d = d'" "y = (if mp < 10 then era * 400 + yoe else era * 400 + yoe + 1)"
    "m = (if mp < 10 then mp + 3 else mp - 9)"
    using assms yd md by (auto simp: civilFromDays_def Let_def era_def doe_def split: if_splits)
  have "(if m \<le> 2 then y - 1 else y) = era * 400 + yoe" "(if m > 2 then m - 3 else m + 9) = mp"
    using dec mr(1,2) by auto
  moreover have "(era * 400 + yoe) div 400 = era" "(era * 400 + yoe) mod 400 = yoe"
    using yr(1,2) by simp_all
  ultimately have "daysFromCivil y m d =
      era * 146097 + yoe * 365 + yoe div 4 - yoe div 100 + (153 * mp + 2) div 5 + d - 1 - 719468"
    by (simp add: daysFromCivil_def)
  then have "daysFromCivil y m d = z" using z yr(5) mr(5) dec(1) by linarith
  moreover have "1 \<le> m \<and> m \<le> 12 \<and> 1 \<le> d \<and> d \<le> 31" using dec mr by auto
  moreover have "\<bar>y - era * 400\<bar> \<le> 400" using dec yr(1,2) by auto
  ultimately show ?thesis by (simp add: era_def)
qed

section \<open>Writing\<close>

definition pad :: "nat \<Rightarrow> int \<Rightarrow> string" where
  "pad n i = padStart n (CHR ''0'') (showNat (nat i))"

definition isoYear :: "int \<Rightarrow> string" where
  "isoYear y = (if 0 \<le> y \<and> y \<le> 9999 then pad 4 y
                else if y < 0 then CHR ''-'' # pad 6 (- y) else CHR ''+'' # pad 6 y)"

definition maxTime :: int where
  "maxTime = 8640000000000000"

text \<open>\<^verbatim>\<open>new Date(t).toISOString()\<close>, which throws on an invalid date.\<close>

definition toISOString :: "int option \<Rightarrow> string result" where
  "toISOString t =
     (case t of
        None \<Rightarrow> Inl (JsError ''Invalid time value'')
      | Some t \<Rightarrow>
          if \<bar>t\<bar> > maxTime then Inl (JsError ''Invalid time value'')
          else
            (let (y, m, d) = civilFromDays (t div 86400000); w = t mod 86400000
             in Inr (isoYear y @ ''-'' @ pad 2 m @ ''-'' @ pad 2 d @ ''T'' @
                  pad 2 (w div 3600000) @ '':'' @ pad 2 (w div 60000 mod 60) @ '':'' @
                  pad 2 (w div 1000 mod 60) @ ''.'' @ pad 3 (w mod 1000) @ ''Z'')))"

section \<open>Reading\<close>

text \<open>Exactly \<open>n\<close> digits, then the rest.\<close>

definition takeDigits :: "nat \<Rightarrow> string \<Rightarrow> (int \<times> string) option" where
  "takeDigits n s =
     (let ds = take n s
      in if length ds = n \<and> allDigits ds then Some (int (readNat ds), drop n s) else None)"

definition takeChar :: "char \<Rightarrow> string \<Rightarrow> string option" where
  "takeChar c s = (case s of [] \<Rightarrow> None | x # r \<Rightarrow> if x = c then Some r else None)"

text \<open>A year: four digits, or a sign and six digits (but not \<^verbatim>\<open>-000000\<close>).\<close>

definition takeYear :: "string \<Rightarrow> (int \<times> string) option" where
  "takeYear s =
     (case s of
        [] \<Rightarrow> None
      | c # r \<Rightarrow>
          if c = CHR ''+'' then takeDigits 6 r
          else if c = CHR ''-'' then
            Option.bind (takeDigits 6 r) (\<lambda>(y, r). if y = 0 then None else Some (- y, r))
          else takeDigits 4 s)"

text \<open>The zone: \<^verbatim>\<open>Z\<close> or an offset in hours and minutes, in milliseconds.\<close>

definition readZone :: "string \<Rightarrow> int option" where
  "readZone s =
     (case s of
        [] \<Rightarrow> None
      | c # r \<Rightarrow>
          if c = CHR ''Z'' then (if r = [] then Some 0 else None)
          else if c = CHR ''+'' \<or> c = CHR ''-'' then
            Option.bind (takeDigits 2 r) (\<lambda>(h, r).
            Option.bind (takeChar (CHR '':'') r) (\<lambda>r.
            Option.bind (takeDigits 2 r) (\<lambda>(n, r).
              if r = [] \<and> h \<le> 23 \<and> n \<le> 59
              then Some ((if c = CHR ''-'' then - 1 else 1) * (h * 3600000 + n * 60000)) else None)))
          else None)"

text \<open>Seconds and a fraction (its first three digits count), both optional.\<close>

definition takeSeconds :: "string \<Rightarrow> (int \<times> int \<times> string) option" where
  "takeSeconds s =
     (case takeChar (CHR '':'') s of
        None \<Rightarrow> Some (0, 0, s)
      | Some r \<Rightarrow>
          Option.bind (takeDigits 2 r) (\<lambda>(sec, r).
          case takeChar (CHR ''.'') r of
            None \<Rightarrow> Some (sec, 0, r)
          | Some r \<Rightarrow>
              let fr = takeWhile isDigit r
              in if fr = [] then None
                 else Some (sec, int (readNat (take 3 (fr @ ''000''))), drop (length fr) r)))"

definition timeInDay :: "int \<Rightarrow> int \<Rightarrow> int \<Rightarrow> int \<Rightarrow> int option" where
  "timeInDay h n sec ms =
     (if h \<le> 23 \<and> n \<le> 59 \<and> sec \<le> 59 \<or> h = 24 \<and> n = 0 \<and> sec = 0 \<and> ms = 0
      then Some (h * 3600000 + n * 60000 + sec * 1000 + ms) else None)"

definition dateValue :: "int \<Rightarrow> int \<Rightarrow> int \<Rightarrow> int option" where
  "dateValue y m d =
     (if 1 \<le> m \<and> m \<le> 12 \<and> 1 \<le> d \<and> d \<le> 31 then Some (daysFromCivil y m d * 86400000) else None)"

definition timeClip :: "int \<Rightarrow> int option" where
  "timeClip t = (if \<bar>t\<bar> \<le> maxTime then Some t else None)"

text \<open>A date with a time and a zone, or a date alone (midnight UTC).\<close>

definition takeDate :: "string \<Rightarrow> (int \<times> string) option" where
  "takeDate s =
     Option.bind (takeYear s) (\<lambda>(y, r).
     Option.bind (takeChar (CHR ''-'') r) (\<lambda>r.
     Option.bind (takeDigits 2 r) (\<lambda>(m, r).
     Option.bind (takeChar (CHR ''-'') r) (\<lambda>r.
     Option.bind (takeDigits 2 r) (\<lambda>(d, r).
     Option.bind (dateValue y m d) (\<lambda>day. Some (day, r)))))))"

definition readTime :: "string \<Rightarrow> int option" where
  "readTime r =
     Option.bind (takeChar (CHR ''T'') r) (\<lambda>r.
     Option.bind (takeDigits 2 r) (\<lambda>(h, r).
     Option.bind (takeChar (CHR '':'') r) (\<lambda>r.
     Option.bind (takeDigits 2 r) (\<lambda>(n, r).
     Option.bind (takeSeconds r) (\<lambda>(sec, ms, r).
     Option.bind (readZone r) (\<lambda>zone.
     Option.bind (timeInDay h n sec ms) (\<lambda>w. Some (w - zone))))))))"

definition isoParse :: "string \<Rightarrow> int option" where
  "isoParse s =
     Option.bind (takeDate s) (\<lambda>(day, r).
       if r = [] then timeClip day
       else Option.bind (readTime r) (\<lambda>w. timeClip (day + w)))"

type_synonym host_date = "string \<Rightarrow> int option"

text \<open>\<^verbatim>\<open>Date.parse(s)\<close> and \<^verbatim>\<open>new Date(s).getTime()\<close>.\<close>

definition dateParse :: "host_date \<Rightarrow> string \<Rightarrow> int option" where
  "dateParse hostDate s = (case isoParse s of Some t \<Rightarrow> Some t | None \<Rightarrow> hostDate s)"

text \<open>\<^verbatim>\<open>a > b\<close> on time values: a comparison with NaN is false.\<close>

definition timeGt :: "int option \<Rightarrow> int option \<Rightarrow> bool" where
  "timeGt a b = (case (a, b) of (Some x, Some y) \<Rightarrow> x > y | _ \<Rightarrow> False)"

section \<open>A written date is read back\<close>

lemma showNat_length: "n < 10 ^ Suc k \<Longrightarrow> length (showNat n) \<le> Suc k"
proof (induction k arbitrary: n)
  case 0
  then show ?case by (simp add: showNat.simps)
next
  case (Suc k)
  then have "n div 10 < 10 ^ Suc k" by (simp add: less_mult_imp_div_less)
  from Suc.IH [OF this] show ?case by (cases "n < 10") (simp_all add: showNat.simps [of n])
qed

lemma pad_props:
  assumes "0 \<le> i" "i < 10 ^ Suc k"
  shows "length (pad (Suc k) i) = Suc k" "allDigits (pad (Suc k) i)" "readNat (pad (Suc k) i) = nat i"
proof -
  have "nat i < 10 ^ Suc k" using assms by (simp add: nat_less_iff)
  then show "length (pad (Suc k) i) = Suc k"
    using showNat_length [of "nat i" k] by (simp add: pad_def padStart_def)
  have z: "CHR ''0'' = decDigit 0" by code_simp
  show "allDigits (pad (Suc k) i)" by (simp add: pad_def padStart_def z)
  show "readNat (pad (Suc k) i) = nat i" by (simp add: pad_def padStart_def z readNat_zeros_left)
qed

lemma takeDigits_pad:
  "0 \<le> i \<Longrightarrow> i < 10 ^ Suc k \<Longrightarrow> takeDigits (Suc k) (pad (Suc k) i @ r) = Some (i, r)"
  using pad_props [of i k] by (simp add: takeDigits_def)

lemma takeDigits_pad2: "0 \<le> i \<Longrightarrow> i < 100 \<Longrightarrow> takeDigits 2 (pad 2 i @ r) = Some (i, r)"
  using takeDigits_pad [of i 1 r] by (simp add: numeral_2_eq_2)

lemma takeDigits_pad4: "0 \<le> i \<Longrightarrow> i < 10000 \<Longrightarrow> takeDigits 4 (pad 4 i @ r) = Some (i, r)"
  using takeDigits_pad [of i 3 r] by (simp add: numeral_eq_Suc)

lemma takeDigits_pad6: "0 \<le> i \<Longrightarrow> i < 1000000 \<Longrightarrow> takeDigits 6 (pad 6 i @ r) = Some (i, r)"
  using takeDigits_pad [of i 5 r] by (simp add: numeral_eq_Suc)

lemma pad4_hd:
  assumes "0 \<le> i" "i < 10000"
  shows "\<exists>c r. pad 4 i = c # r \<and> c \<noteq> CHR ''+'' \<and> c \<noteq> CHR ''-''"
proof -
  have "length (pad 4 i) = 4" "allDigits (pad 4 i)"
    using pad_props [of i 3] assms by (simp_all add: numeral_eq_Suc)
  then show ?thesis by (cases "pad 4 i") (auto simp: isDigit_def)
qed

lemma takeYear_isoYear:
  assumes "\<bar>y\<bar> < 1000000"
  shows "takeYear (isoYear y @ r) = Some (y, r)"
proof -
  consider "0 \<le> y" "y \<le> 9999" | "y < 0" | "9999 < y" by linarith
  then show ?thesis
  proof cases
    case 1
    then obtain c t where "pad 4 y = c # t" "c \<noteq> CHR ''+''" "c \<noteq> CHR ''-''"
      using pad4_hd [of y] by auto
    with 1 takeDigits_pad4 [of y r] show ?thesis by (simp add: takeYear_def isoYear_def)
  qed (use assms takeDigits_pad6 [of "- y" r] takeDigits_pad6 [of y r] in
      \<open>simp_all add: takeYear_def isoYear_def\<close>)
qed

lemma takeSeconds_written:
  assumes "0 \<le> sec" "sec < 100" "0 \<le> ms" "ms < 1000"
  shows "takeSeconds (CHR '':'' # pad 2 sec @ CHR ''.'' # pad 3 ms @ ''Z'') = Some (sec, ms, ''Z'')"
proof -
  have p: "length (pad 3 ms) = 3" "allDigits (pad 3 ms)" "readNat (pad 3 ms) = nat ms"
    using pad_props [of ms 2] assms by (simp_all add: numeral_eq_Suc)
  then have "takeWhile isDigit (pad 3 ms @ ''Z'') = pad 3 ms"
    by (subst takeWhile_append2) (auto simp: allDigits_def isDigit_def)
  moreover have "pad 3 ms \<noteq> []" using p(1) by auto
  ultimately show ?thesis
    using takeDigits_pad2 [OF assms(1,2)] p assms
    by (simp add: takeSeconds_def takeChar_def Let_def)
qed

lemma takeDate_written:
  assumes c: "civilFromDays z = (y, m, d)" and "\<bar>z\<bar> \<le> 100000000"
  shows "takeDate (isoYear y @ CHR ''-'' # pad 2 m @ CHR ''-'' # pad 2 d @ r) = Some (z * 86400000, r)"
proof -
  have e: "\<bar>(z + 719468) div 146097\<bar> \<le> 700" using assms(2) by linarith
  note k = civil_ranges [OF c]
  with e have "\<bar>y\<bar> < 1000000" by linarith
  then show ?thesis
    using k takeYear_isoYear [of y] takeDigits_pad2 [of m] takeDigits_pad2 [of d]
    by (simp add: takeDate_def takeChar_def dateValue_def)
qed

lemma readTime_written:
  assumes "0 \<le> h" "h \<le> 23" "0 \<le> n" "n \<le> 59" "0 \<le> sec" "sec \<le> 59" "0 \<le> ms" "ms \<le> 999"
  shows "readTime (CHR ''T'' # pad 2 h @ CHR '':'' # pad 2 n @ CHR '':'' # pad 2 sec @
      CHR ''.'' # pad 3 ms @ ''Z'') = Some (h * 3600000 + n * 60000 + sec * 1000 + ms)"
  using assms takeDigits_pad2 [of h] takeDigits_pad2 [of n] takeSeconds_written [of sec ms]
  by (simp add: readTime_def takeChar_def timeInDay_def readZone_def)

lemma time_parts:
  "w div 3600000 * 3600000 + w div 60000 mod 60 * 60000 + w div 1000 mod 60 * 1000 + w mod 1000 = (w :: int)"
proof -
  have "w div 60000 = 60 * (w div 3600000) + w div 60000 mod 60"
    using div_mult_mod_eq [of "w div 60000" 60] by (simp add: div_mult2_eq [symmetric] zdiv_zmult2_eq [symmetric])
  moreover have "w div 1000 = 60 * (w div 60000) + w div 1000 mod 60"
    using div_mult_mod_eq [of "w div 1000" 60] by (simp add: zdiv_zmult2_eq [symmetric])
  moreover have "w = 1000 * (w div 1000) + w mod 1000" by simp
  ultimately show ?thesis by linarith
qed

lemma iso_read_written:
  assumes "\<bar>t\<bar> \<le> maxTime"
  shows "\<exists>s. toISOString (Some t) = Inr s \<and> isoParse s = Some t"
proof -
  obtain y m d where c: "civilFromDays (t div 86400000) = (y, m, d)"
    by (cases "civilFromDays (t div 86400000)")
  define w where "w = t mod 86400000"
  have w: "0 \<le> w" "w < 86400000" by (simp_all add: w_def)
  have t: "t div 86400000 * 86400000 + w = t" by (simp add: w_def)
  have tb: "\<bar>t div 86400000\<bar> \<le> 100000000" using assms unfolding maxTime_def by linarith
  let ?time = "CHR ''T'' # pad 2 (w div 3600000) @ CHR '':'' # pad 2 (w div 60000 mod 60) @ CHR '':'' #
      pad 2 (w div 1000 mod 60) @ CHR ''.'' # pad 3 (w mod 1000) @ ''Z''"
  let ?s = "isoYear y @ CHR ''-'' # pad 2 m @ CHR ''-'' # pad 2 d @ ?time"
  have h: "0 \<le> w div 3600000" "w div 3600000 \<le> 23" using w by linarith+
  have "readTime ?time = Some (w div 3600000 * 3600000 + w div 60000 mod 60 * 60000 +
      w div 1000 mod 60 * 1000 + w mod 1000)"
    by (rule readTime_written [OF h]) linarith+
  then have "readTime ?time = Some w" unfolding time_parts .
  then have "isoParse ?s = timeClip t"
    unfolding isoParse_def takeDate_written [OF c tb] using t by simp
  moreover have "toISOString (Some t) = Inr ?s"
    using assms c by (simp add: toISOString_def Let_def w_def)
  ultimately show ?thesis using assms by (simp add: timeClip_def)
qed

end
