(* ===== verification/Signer.thy ===== *)
theory Signer
  imports Canonical_Json Multibase Runtime Iso_Date
begin

text \<open>
  \<^verbatim>\<open>packages/api/src/lib/vti-credential-signer.ts\<close>: Data Integrity proofs of the suite
  eddsa-jcs-2022. The service signs credentials and trust tasks with its own key and verifies
  credentials against a DID document; a wallet response is verified against the key its issuer DID
  encodes. DID documents and credentials are values \<^typ>\<open>js\<close>, as in the source; an \<^verbatim>\<open>ok: false\<close>
  result is \<open>Inl\<close> its error text.
\<close>

section \<open>Keys\<close>

record signing_key =
  sk_seed :: bytes
  sk_publicKey :: bytes
  sk_did :: string
  sk_verificationMethodId :: string

text \<open>\<^verbatim>\<open>s.replace(/^p/, "")\<close> for a literal prefix.\<close>

definition stripPrefix :: "string \<Rightarrow> string \<Rightarrow> string" where
  "stripPrefix p s = (if startsWith s p then drop (length p) s else s)"

definition didWebFromBaseUrl :: "string \<Rightarrow> string" where
  "didWebFromBaseUrl baseUrl =
     (let host = stripPrefix ''http://'' (stripPrefix ''https://'' baseUrl);
          bare = takeWhile (\<lambda>c. c \<noteq> CHR ''/'' \<and> c \<noteq> CHR '':'') host
      in ''did:web:'' @ (if bare = [] then ''localhost'' else bare))"

definition isDevEnvironment :: "env \<Rightarrow> bool" where
  "isDevEnvironment env =
     (if env ''NODE_ENV'' = Some ''development'' then True
      else let ocEnv = orElse (env ''ONECOMPUTER_ENV'') '''' in
        ocEnv = ''dev'' \<or> ocEnv = ''local'' \<or> ocEnv = ''development'')"

definition em_dash :: string where
  "em_dash = [CHR 0xE2, CHR 0x80, CHR 0x94]"

text \<open>\<open>fresh\<close> is the seed \<^verbatim>\<open>randomSecretKey()\<close> would return.\<close>

definition loadSigningKey :: "crypto \<Rightarrow> env \<Rightarrow> bytes \<Rightarrow> signing_key result" where
  "loadSigningKey c env fresh =
     (let baseUrl = orElse (env ''ONECLI_GATEWAY_PUBLIC_URL'') ''localhost'';
          did = didWebFromBaseUrl baseUrl;
          vm = did @ ''#key-1''
      in if \<not> set_nonempty (env ''ONECLI_GATEWAY_SIGNING_KEY'') then
           (if \<not> isDevEnvironment env then
              Inl (JsError (''ONECLI_GATEWAY_SIGNING_KEY is required in non-dev environments '' @ em_dash
                @ '' set it to a base64-encoded 32-byte Ed25519 seed ''
                @ ''(generate one with: head -c 32 /dev/urandom | base64). ''
                @ ''The key MUST be set identically on the API and gateway processes ''
                @ ''and sourced from a secret manager / KMS.''))
            else Inr \<lparr> sk_seed = fresh, sk_publicKey = ed_getPublicKey c fresh, sk_did = did,
                        sk_verificationMethodId = vm \<rparr>)
         else
           (let seed = from_base64 c (trim (the (env ''ONECLI_GATEWAY_SIGNING_KEY'')))
            in if length seed \<noteq> 32 then
                 Inl (JsError (''ONECLI_GATEWAY_SIGNING_KEY must decode to exactly 32 bytes (Ed25519 seed), got ''
                   @ showNat (length seed)))
               else Inr \<lparr> sk_seed = seed, sk_publicKey = ed_getPublicKey c seed, sk_did = did,
                           sk_verificationMethodId = vm \<rparr>))"

definition signingKeyFromSeed :: "crypto \<Rightarrow> bytes \<Rightarrow> string \<Rightarrow> string option \<Rightarrow> signing_key result" where
  "signingKeyFromSeed c seed did vm =
     (if length seed \<noteq> 32
      then Inl (JsError (''Ed25519 seed must be 32 bytes, got '' @ showNat (length seed)))
      else Inr \<lparr> sk_seed = seed, sk_publicKey = ed_getPublicKey c seed, sk_did = did,
                 sk_verificationMethodId = orElse vm (did @ ''#key-1'') \<rparr>)"

text \<open>The did, its verification method and its multibase key.\<close>

definition didKeyFromPublicKey :: "bytes \<Rightarrow> (string \<times> string \<times> string) result" where
  "didKeyFromPublicKey publicKey =
     (if length publicKey \<noteq> 32
      then Inl (JsError (''Ed25519 public key must be 32 bytes, got '' @ showNat (length publicKey)))
      else let multibase = encodeBase58Btc ([0xed, 0x01] @ publicKey);
               did = ''did:key:'' @ multibase
           in Inr (did, did @ ''#'' @ multibase, multibase))"

section \<open>Hash data\<close>

definition proofConfigOf :: "string \<Rightarrow> string \<Rightarrow> obj" where
  "proofConfigOf now vm =
     [(''type'', JStr ''DataIntegrityProof''), (''cryptosuite'', JStr ''eddsa-jcs-2022''),
      (''created'', JStr now), (''verificationMethod'', JStr vm),
      (''proofPurpose'', JStr ''assertionMethod'')]"

definition computeHashData :: "crypto \<Rightarrow> js \<Rightarrow> js \<Rightarrow> bytes result" where
  "computeHashData c document proofConfig =
     bindR (canonicalizeJson document) (\<lambda>canonicalDoc.
     bindR (canonicalizeJson proofConfig) (\<lambda>canonicalProof.
       let docHash = sha256 c canonicalDoc; proofHash = sha256 c canonicalProof
       in Inr (proofHash @ docHash)))"

section \<open>DID documents\<close>

definition contexts :: js where
  "contexts = JArr [JStr ''https://www.w3.org/ns/did/v1'', JStr ''https://w3id.org/security/multikey/v1'']"

definition methodEntry :: "string \<Rightarrow> string \<Rightarrow> string \<Rightarrow> js" where
  "methodEntry mid did multibase =
     JObj [(''id'', JStr mid), (''type'', JStr ''Multikey''), (''controller'', JStr did),
           (''publicKeyMultibase'', JStr multibase)]"

definition multikey :: "u8 \<Rightarrow> bytes \<Rightarrow> bool" where
  "multikey tag raw \<longleftrightarrow> length raw = 34 \<and> raw ! 0 = tag \<and> raw ! 1 = 0x01"

definition buildDidKeyDocument :: "string \<Rightarrow> js result" where
  "buildDidKeyDocument did =
     (let multibase = (if startsWith did ''did:key:'' then drop (length ''did:key:'') did else '''')
      in if \<not> startsWith multibase ''z''
         then Inl (JsError ''OpenVTC approver must use a base58btc did:key'')
         else bindR (decodeBase58Btc multibase) (\<lambda>raw.
           if \<not> multikey 0xed raw
           then Inl (JsError ''OpenVTC did:key is not an Ed25519 Multikey'')
           else Inr (JObj
             [(''@context'', contexts), (''id'', JStr did),
              (''verificationMethod'', JArr [methodEntry (did @ ''#'' @ multibase) did multibase]),
              (''assertionMethod'', JArr [JStr (did @ ''#'' @ multibase)])])))"

definition buildDidPeerDocument :: "string \<Rightarrow> js result" where
  "buildDidPeerDocument did =
     (if \<not> startsWith did ''did:peer:2.''
      then Inl (JsError ''OpenVTC approver must use a did:peer:2 identity'')
      else
        (let segments = splitOn (CHR ''.'') (drop (length ''did:peer:2.'') did)
         in case (find (\<lambda>s. startsWith s ''E'') segments, find (\<lambda>s. startsWith s ''V'') segments) of
              (Some e, Some v) \<Rightarrow>
                (let keyAgreementMultibase = drop 1 e; authenticationMultibase = drop 1 v
                 in bindR (decodeBase58Btc keyAgreementMultibase) (\<lambda>keyAgreement.
                    bindR (decodeBase58Btc authenticationMultibase) (\<lambda>authentication.
                      if \<not> multikey 0xec keyAgreement
                      then Inl (JsError ''did:peer:2 keyAgreement is not an X25519 Multikey'')
                      else if \<not> multikey 0xed authentication
                      then Inl (JsError ''did:peer:2 authentication key is not an Ed25519 Multikey'')
                      else Inr (JObj
                        [(''@context'', contexts), (''id'', JStr did),
                         (''verificationMethod'',
                           JArr [methodEntry (did @ ''#key-1'') did keyAgreementMultibase,
                                 methodEntry (did @ ''#key-2'') did authenticationMultibase]),
                         (''keyAgreement'', JArr [JStr (did @ ''#key-1'')]),
                         (''authentication'', JArr [JStr (did @ ''#key-2'')]),
                         (''assertionMethod'', JArr [JStr (did @ ''#key-2'')])]))))
            | _ \<Rightarrow> Inl (JsError ''did:peer:2 identity is missing E/V key segments'')))"

definition buildDidDocument :: "signing_key \<Rightarrow> js" where
  "buildDidDocument key = JObj
     [(''@context'', contexts), (''id'', JStr (sk_did key)),
      (''verificationMethod'', JArr [methodEntry (sk_verificationMethodId key) (sk_did key)
         (encodeBase58Btc ([0xed, 0x01] @ sk_publicKey key))]),
      (''assertionMethod'', JArr [JStr (sk_verificationMethodId key)])]"

fun arrayOf :: "js \<Rightarrow> js list" where
  "arrayOf (JArr xs) = xs"
| "arrayOf _ = []"

section \<open>Verifying a wallet response\<close>

fun isRecord :: "js \<Rightarrow> bool" where
  "isRecord (JObj kvs) = True"
| "isRecord _ = False"

fun strOf :: "js \<Rightarrow> string" where
  "strOf (JStr s) = s"
| "strOf _ = ''''"

fun fieldsOf :: "js \<Rightarrow> obj" where
  "fieldsOf (JObj kvs) = kvs"
| "fieldsOf _ = []"

text \<open>The entry the proof names, if its key is base58.\<close>

definition expectedMethod :: "js \<Rightarrow> js \<Rightarrow> js option" where
  "expectedMethod didDocument vm =
     find (\<lambda>m. jsProp m ''id'' = vm \<and> startsWith (strOf (jsProp m ''publicKeyMultibase'')) ''z'')
       (arrayOf (jsProp didDocument ''verificationMethod''))"

definition validDiProof :: "obj \<Rightarrow> bool" where
  "validDiProof proofRecord \<longleftrightarrow>
     oget proofRecord ''type'' = JStr ''DataIntegrityProof'' \<and>
     oget proofRecord ''cryptosuite'' = JStr ''eddsa-jcs-2022'' \<and>
     oget proofRecord ''proofPurpose'' = JStr ''assertionMethod'' \<and>
     isStr (oget proofRecord ''verificationMethod'') \<and>
     isStr (oget proofRecord ''created'') \<and>
     isStr (oget proofRecord ''proofValue'')"

definition verifyTrustTaskProof :: "crypto \<Rightarrow> obj \<Rightarrow> string + string" where
  "verifyTrustTaskProof c document =
     (let proof = oget document ''proof''; issuer = oget document ''issuer''
      in if \<not> isRecord proof then Inl ''Trust Task has no proof''
         else if \<not> isStr issuer \<or> \<not> startsWith (strOf issuer) ''did:key:'' \<and>
                 \<not> startsWith (strOf issuer) ''did:peer:2.''
         then Inl ''Trust Task issuer is not a supported OpenVTC DID''
         else
           (let proofRecord = fieldsOf proof
            in if \<not> validDiProof proofRecord then Inl ''Trust Task proof is not a valid DI proof''
               else
                 (case (if startsWith (strOf issuer) ''did:key:'' then buildDidKeyDocument (strOf issuer)
                        else buildDidPeerDocument (strOf issuer)) of
                    Inl e \<Rightarrow> Inl (''invalid OpenVTC DID: '' @ message e)
                  | Inr didDocument \<Rightarrow>
                      (case expectedMethod didDocument (oget proofRecord ''verificationMethod'') of
                         None \<Rightarrow> Inl ''Trust Task proof key is not the issuer key''
                       | Some method \<Rightarrow>
                           (case decodeBase58Btc (strOf (oget proofRecord ''proofValue'')) of
                              Inl e \<Rightarrow> Inl (''invalid Trust Task proofValue: '' @ message e)
                            | Inr signature \<Rightarrow>
                                (case bindR (decodeBase58Btc (strOf (jsProp method ''publicKeyMultibase''))) (\<lambda>raw.
                                      bindR (computeHashData c (JObj (odelete ''proof'' document))
                                               (JObj (odelete ''proofValue'' proofRecord))) (\<lambda>h.
                                        ed_verify c signature h (drop 2 raw))) of
                                   Inl e \<Rightarrow> Inl (''invalid Trust Task proof: '' @ message e)
                                 | Inr valid \<Rightarrow>
                                     if valid then Inr (strOf issuer)
                                     else Inl ''Trust Task signature does not verify''))))))"

section \<open>Signing\<close>

text \<open>\<^verbatim>\<open>now.toISOString().replace(/\.\d{3}Z$/, "Z")\<close>.\<close>

definition stripMillis :: "string \<Rightarrow> string" where
  "stripMillis s =
     (let n = length s - 5; t = drop n s
      in if 5 \<le> length s \<and> t ! 0 = CHR ''.'' \<and> isDigit (t ! 1) \<and> isDigit (t ! 2) \<and> isDigit (t ! 3) \<and>
            t ! 4 = CHR ''Z''
         then take n s @ ''Z'' else s)"

definition rfc3339Now :: "int \<Rightarrow> string result" where
  "rfc3339Now now = bindR (toISOString (Some now)) (\<lambda>s. Inr (stripMillis s))"

definition signCredential :: "crypto \<Rightarrow> js \<Rightarrow> signing_key \<Rightarrow> int \<Rightarrow> js result" where
  "signCredential c subject key clock =
     bindR (rfc3339Now clock) (\<lambda>now.
       let credential =
             [(''@context'', JArr [JStr ''https://www.w3.org/ns/credentials/v2'']),
              (''type'', JArr [JStr ''VerifiableCredential'']),
              (''issuer'', JStr (sk_did key)), (''issuanceDate'', JStr now),
              (''credentialSubject'', subject)];
           proofConfig = proofConfigOf now (sk_verificationMethodId key)
       in bindR (computeHashData c (JObj credential) (JObj proofConfig)) (\<lambda>hashData.
            let proofValue = encodeBase58Btc (ed_sign c hashData (sk_seed key))
            in Inr (JObj (credential @ [(''proof'', JObj (proofConfig @ [(''proofValue'', JStr proofValue)]))]))))"

definition signTrustTask :: "crypto \<Rightarrow> obj \<Rightarrow> signing_key \<Rightarrow> int \<Rightarrow> obj result" where
  "signTrustTask c document key clock =
     bindR (rfc3339Now clock) (\<lambda>now.
       let proofConfig = proofConfigOf now (sk_verificationMethodId key)
       in bindR (computeHashData c (JObj document) (JObj proofConfig)) (\<lambda>hashData.
            Inr (oset ''proof'' (JObj (proofConfig @
              [(''proofValue'', JStr (encodeBase58Btc (ed_sign c hashData (sk_seed key))))])) document)))"

section \<open>Verifying a credential\<close>

text \<open>\<^verbatim>\<open>a === b\<close>: objects are compared by identity, and two parsed documents share none.\<close>

fun strictEq :: "js \<Rightarrow> js \<Rightarrow> bool" where
  "strictEq (JArr xs) w = False"
| "strictEq (JObj kvs) w = False"
| "strictEq (JOther t) w = False"
| "strictEq (JNum NaN) w = False"
| "strictEq v w = (v = w)"

fun isObjectType :: "js \<Rightarrow> bool" where
  "isObjectType (JArr xs) = True"
| "isObjectType (JObj kvs) = True"
| "isObjectType _ = False"

definition resolvePublicKey :: "crypto \<Rightarrow> js \<Rightarrow> js \<Rightarrow> bytes option result" where
  "resolvePublicKey c didDoc verificationMethodId =
     (case jsProp didDoc ''verificationMethod'' of
        JArr methods \<Rightarrow>
          (case find (\<lambda>m. isObjectType m \<and> strictEq (jsProp m ''id'') verificationMethodId) methods of
             None \<Rightarrow> Inr None
           | Some entry \<Rightarrow>
               (case jsProp entry ''publicKeyMultibase'' of
                  JStr mb \<Rightarrow>
                    bindR (decodeBase58Btc mb) (\<lambda>raw.
                      if multikey 0xed raw then Inr (Some (drop 2 raw))
                      else if length raw = 32 then Inr (Some raw)
                      else Inr None)
                | _ \<Rightarrow>
                    (let jwk = jsProp entry ''publicKeyJwk''
                     in if jsProp jwk ''crv'' = JStr ''Ed25519'' \<and> isStr (jsProp jwk ''x'')
                        then Inr (Some (from_base64url c (strOf (jsProp jwk ''x''))))
                        else Inr None)))
      | _ \<Rightarrow> Inr None)"

text \<open>\<^verbatim>\<open>decodeBase58Btc\<close> on a value that should be a string: any other value is not \<^verbatim>\<open>z\<close>-prefixed.\<close>

fun decodeBase58Value :: "js \<Rightarrow> bytes result" where
  "decodeBase58Value (JStr s) = decodeBase58Btc s"
| "decodeBase58Value _ = decodeBase58Btc ''''"

text \<open>\<^verbatim>\<open>${v}\<close> of a method id: a text, or undefined.\<close>

fun templateOf :: "js \<Rightarrow> string" where
  "templateOf (JStr s) = s"
| "templateOf JUndef = ''undefined''"
| "templateOf JNull = ''null''"
| "templateOf (JBool b) = (if b then ''true'' else ''false'')"
| "templateOf (JNum n) = numberToString n"
| "templateOf _ = ''[object Object]''"

definition verifyCredential :: "crypto \<Rightarrow> js \<Rightarrow> js \<Rightarrow> (string + js) result" where
  "verifyCredential c signedVc issuerDidDoc =
     (let proof = jsProp signedVc ''proof''
      in if \<not> truthy proof \<or> jsProp proof ''cryptosuite'' \<noteq> JStr ''eddsa-jcs-2022''
         then Inr (Inl ''missing or non-eddsa-jcs-2022 proof'')
         else
           bindR (resolvePublicKey c issuerDidDoc (jsProp proof ''verificationMethod'')) (\<lambda>pubKey.
             case pubKey of
               None \<Rightarrow> Inr (Inl (''verificationMethod '' @ templateOf (jsProp proof ''verificationMethod'')
                                 @ '' not found in DID document''))
             | Some pubKey \<Rightarrow>
                 (let proofValue = jsProp proof ''proofValue'';
                      proofConfig = JObj (odelete ''proofValue'' (fieldsOf proof));
                      credential = JObj
                        [(''@context'', jsProp signedVc ''@context''), (''type'', jsProp signedVc ''type''),
                         (''issuer'', jsProp signedVc ''issuer''),
                         (''issuanceDate'', jsProp signedVc ''issuanceDate''),
                         (''credentialSubject'', jsProp signedVc ''credentialSubject'')]
                  in bindR (computeHashData c credential proofConfig) (\<lambda>hashData.
                       case decodeBase58Value proofValue of
                         Inl e \<Rightarrow> Inr (Inl (''failed to decode proofValue: '' @ message e))
                       | Inr signature \<Rightarrow>
                           bindR (ed_verify c signature hashData pubKey) (\<lambda>valid.
                             if valid then Inr (Inr credential)
                             else Inr (Inl ''signature does not verify (tampered payload or key mismatch)''))))))"

section \<open>Lemmas\<close>

text \<open>A key whose public half belongs to its seed.\<close>

definition key_ok :: "crypto \<Rightarrow> signing_key \<Rightarrow> bool" where
  "key_ok c key \<longleftrightarrow> length (sk_seed key) = 32 \<and> sk_publicKey key = ed_getPublicKey c (sk_seed key)"

lemma key_ok_toy:
  "key_ok toy_crypto key \<longleftrightarrow> length (sk_seed key) = 32 \<and> sk_publicKey key = sk_seed key"
  by (simp add: key_ok_def toy_crypto_def)

lemma key_ok_pub: "ed25519_correct c \<Longrightarrow> key_ok c key \<Longrightarrow> length (sk_publicKey key) = 32"
  by (simp add: ed25519_correct_def key_ok_def)

lemma key_ok_verify:
  "ed25519_correct c \<Longrightarrow> key_ok c key \<Longrightarrow>
   ed_verify c (ed_sign c m (sk_seed key)) m (sk_publicKey key) = Inr True"
  by (simp add: ed25519_correct_def key_ok_def)

lemma loadSigningKey_key_ok:
  "loadSigningKey c env fresh = Inr key \<Longrightarrow> length fresh = 32 \<Longrightarrow> key_ok c key"
  by (auto simp: loadSigningKey_def key_ok_def Let_def split: if_splits)

lemma rfc3339Now_defined: "\<bar>t\<bar> \<le> maxTime \<Longrightarrow> \<exists>s. rfc3339Now t = Inr s"
  using iso_read_written [of t] by (auto simp: rfc3339Now_def)

lemma computeHashData_defined:
  assumes "js_wf d" "jcs_ok d" "js_wf p" "jcs_ok p"
  shows "\<exists>h. computeHashData c d p = Inr h"
proof -
  obtain a b where "canonicalizeJson d = Inr a" "canonicalizeJson p = Inr b"
    using canonicalizeJson_defined assms by blast
  then show ?thesis by (simp add: computeHashData_def Let_def)
qed

lemma multikey_prefix [simp]: "multikey tag ([tag, 1] @ k) \<longleftrightarrow> length k = 32"
  by (auto simp: multikey_def)

lemma multikey_drop: "multikey tag raw \<Longrightarrow> raw = [tag, 1] @ drop 2 raw \<and> length (drop 2 raw) = 32"
  by (cases raw; cases "tl raw") (auto simp: multikey_def)

lemma resolve_own_key:
  "length (sk_publicKey key) = 32 \<Longrightarrow>
   resolvePublicKey c (buildDidDocument key) (JStr (sk_verificationMethodId key)) =
     Inr (Some (sk_publicKey key))"
  using base58_read_written [of "[0xed, 1] @ sk_publicKey key"]
    multikey_prefix [of "0xed" "sk_publicKey key"]
  by (simp add: resolvePublicKey_def buildDidDocument_def methodEntry_def)

lemma proofConfigOf_ok [simp]: "js_wf (JObj (proofConfigOf now vm))" "jcs_ok (JObj (proofConfigOf now vm))"
  by (simp_all add: proofConfigOf_def)

lemma proofConfig_rest:
  "odelete ''proofValue'' (proofConfigOf now vm @ [(''proofValue'', v)]) = proofConfigOf now vm"
  by (simp add: proofConfigOf_def odelete_def)

lemma sign_trust_rest:
  "''proof'' \<notin> fst ` set doc \<Longrightarrow> odelete ''proof'' (oset ''proof'' v doc) = doc"
  by (induction doc) (auto simp: odelete_def)

lemma didKey_document:
  assumes pk: "length pk = 32" and m: "m = encodeBase58Btc ([0xed, 1] @ pk)"
    and did: "did = ''did:key:'' @ m"
  shows "buildDidKeyDocument did = Inr (JObj
    [(''@context'', contexts), (''id'', JStr did),
     (''verificationMethod'', JArr [methodEntry (did @ ''#'' @ m) did m]),
     (''assertionMethod'', JArr [JStr (did @ ''#'' @ m)])])"
proof -
  have "startsWith did ''did:key:''" "drop (length ''did:key:'') did = m"
    unfolding did by (simp_all only: startsWith_append) simp
  moreover have "startsWith m ''z''" unfolding m
    by (simp add: encodeBase58Btc_def startsWith_def Let_def)
  moreover have "decodeBase58Btc m = Inr ([0xed, 1] @ pk)" unfolding m by (rule base58_read_written)
  ultimately show ?thesis
    unfolding buildDidKeyDocument_def using multikey_prefix [of "0xed" pk] pk by simp
qed

text \<open>What an accepted did:key is.\<close>

lemma didKey_document_Inr:
  assumes "buildDidKeyDocument did = Inr doc"
  obtains pk where "length pk = 32" "did = ''did:key:'' @ encodeBase58Btc ([0xed, 1] @ pk)"
proof -
  let ?m = "drop (length ''did:key:'') did"
  have s: "startsWith did ''did:key:''" using assms
    by (auto simp: buildDidKeyDocument_def startsWith_def split: if_splits)
  then obtain raw where raw: "decodeBase58Btc ?m = Inr raw" "multikey 0xed raw"
    using assms by (auto simp: buildDidKeyDocument_def Let_def bindR_Inr_iff split: if_splits)
  show ?thesis
  proof (rule that)
    show "length (drop 2 raw) = 32" using multikey_drop [OF raw(2)] by blast
    show "did = ''did:key:'' @ encodeBase58Btc ([0xed, 1] @ drop 2 raw)"
      using startsWithD [OF s] base58_written_read [OF raw(1)] multikey_drop [OF raw(2)] by metis
  qed
qed

lemma didPeer_document_Inr:
  assumes "buildDidPeerDocument did = Inr doc"
  obtains ka au where "length ka = 32" "length au = 32" "startsWith did ''did:peer:2.''"
    "''E'' @ encodeBase58Btc ([0xec, 1] @ ka) \<in> set (splitOn (CHR ''.'') (drop 11 did))"
    "''V'' @ encodeBase58Btc ([0xed, 1] @ au) \<in> set (splitOn (CHR ''.'') (drop 11 did))"
    "jsProp doc ''verificationMethod'' = JArr
       [methodEntry (did @ ''#key-1'') did (encodeBase58Btc ([0xec, 1] @ ka)),
        methodEntry (did @ ''#key-2'') did (encodeBase58Btc ([0xed, 1] @ au))]"
proof -
  let ?segs = "splitOn (CHR ''.'') (drop 11 did)"
  have len: "length ''did:peer:2.'' = 11" by simp
  note doc = assms [unfolded buildDidPeerDocument_def Let_def len]
  have pre: "startsWith did ''did:peer:2.''"
    using assms by (auto simp: buildDidPeerDocument_def split: if_splits)
  obtain e v where ev: "find (\<lambda>s. startsWith s ''E'') ?segs = Some e"
      "find (\<lambda>s. startsWith s ''V'') ?segs = Some v"
    using doc pre by (auto split: option.splits)
  then have mem: "e \<in> set ?segs" "startsWith e ''E''" "v \<in> set ?segs" "startsWith v ''V''"
    by (auto simp: find_Some_iff)
  obtain ka au where k: "decodeBase58Btc (drop 1 e) = Inr ka" "decodeBase58Btc (drop 1 v) = Inr au"
      "multikey 0xec ka" "multikey 0xed au"
      "doc = JObj [(''@context'', contexts), (''id'', JStr did),
         (''verificationMethod'', JArr [methodEntry (did @ ''#key-1'') did (drop 1 e),
            methodEntry (did @ ''#key-2'') did (drop 1 v)]),
         (''keyAgreement'', JArr [JStr (did @ ''#key-1'')]),
         (''authentication'', JArr [JStr (did @ ''#key-2'')]),
         (''assertionMethod'', JArr [JStr (did @ ''#key-2'')])]"
    using doc pre ev by (auto simp: bindR_Inr_iff split: if_splits)
  have kd: "ka = [0xec, 1] @ drop 2 ka" "length (drop 2 ka) = 32"
      "au = [0xed, 1] @ drop 2 au" "length (drop 2 au) = 32"
    using multikey_drop [OF k(3)] multikey_drop [OF k(4)] by blast+
  have segs: "drop 1 e = encodeBase58Btc ([0xec, 1] @ drop 2 ka)" "drop 1 v = encodeBase58Btc ([0xed, 1] @ drop 2 au)"
    using base58_written_read [OF k(1)] base58_written_read [OF k(2)] kd by simp_all
  have ev': "e = ''E'' @ drop 1 e" "v = ''V'' @ drop 1 v"
    using startsWithD [OF mem(2)] startsWithD [OF mem(4)] by simp_all
  show ?thesis
  proof (rule that [of "drop 2 ka" "drop 2 au"])
    show "''E'' @ encodeBase58Btc ([0xec, 1] @ drop 2 ka) \<in> set ?segs"
      "''V'' @ encodeBase58Btc ([0xed, 1] @ drop 2 au) \<in> set ?segs"
      using mem ev' segs by metis+
    show "jsProp doc ''verificationMethod'' = JArr
       [methodEntry (did @ ''#key-1'') did (encodeBase58Btc ([0xec, 1] @ drop 2 ka)),
        methodEntry (did @ ''#key-2'') did (encodeBase58Btc ([0xed, 1] @ drop 2 au))]"
      unfolding k(5) segs by simp
  qed (use kd pre in simp_all)
qed

text \<open>What an accepted Trust Task proof consists of.\<close>

lemma verifyTrustTaskProof_Inr:
  assumes "verifyTrustTaskProof c document = Inr signer"
  obtains didDocument entry sig raw h where
    "oget document ''issuer'' = JStr signer"
    "startsWith signer ''did:key:'' \<and> buildDidKeyDocument signer = Inr didDocument \<or>
     startsWith signer ''did:peer:2.'' \<and> buildDidPeerDocument signer = Inr didDocument"
    "expectedMethod didDocument (oget (fieldsOf (oget document ''proof'')) ''verificationMethod'') = Some entry"
    "decodeBase58Btc (strOf (jsProp entry ''publicKeyMultibase'')) = Inr raw"
    "computeHashData c (JObj (odelete ''proof'' document))
       (JObj (odelete ''proofValue'' (fieldsOf (oget document ''proof'')))) = Inr h"
    "ed_verify c sig h (drop 2 raw) = Inr True"
    "validDiProof (fieldsOf (oget document ''proof''))"
proof -
  have i: "oget document ''issuer'' = JStr signer"
    using assms
    by (cases "oget document ''issuer''")
       (auto simp: verifyTrustTaskProof_def Let_def split: if_splits sum.splits option.splits)
  with assms show ?thesis
    by (simp add: verifyTrustTaskProof_def Let_def bindR_Inr_iff split: if_splits sum.splits option.splits)
       (use that in \<open>(simp; fail) | metis\<close>)+
qed

text \<open>A signed credential verifies, and is a JSON document when its subject is one.\<close>

lemma signed_verifies:
  assumes ed: "ed25519_correct c" and key: "key_ok c key"
    and subject: "js_wf subject" "jcs_ok subject" and clock: "\<bar>clock\<bar> \<le> maxTime"
  shows "\<exists>vc cred. signCredential c subject key clock = Inr vc \<and>
    verifyCredential c vc (buildDidDocument key) = Inr (Inr cred) \<and>
    jsProp cred ''credentialSubject'' = subject \<and> jsProp vc ''credentialSubject'' = subject \<and>
    (is_json subject \<longrightarrow> is_json vc)"
proof -
  obtain now where now: "rfc3339Now clock = Inr now" using rfc3339Now_defined [OF clock] by blast
  let ?cred = "[(''@context'', JArr [JStr ''https://www.w3.org/ns/credentials/v2'']),
      (''type'', JArr [JStr ''VerifiableCredential'']), (''issuer'', JStr (sk_did key)),
      (''issuanceDate'', JStr now), (''credentialSubject'', subject)]"
  let ?conf = "proofConfigOf now (sk_verificationMethodId key)"
  have ok: "js_wf (JObj ?cred)" "jcs_ok (JObj ?cred)" using subject by simp_all
  obtain h where h: "computeHashData c (JObj ?cred) (JObj ?conf) = Inr h"
    using computeHashData_defined [OF ok proofConfigOf_ok] by blast
  let ?sig = "JStr (encodeBase58Btc (ed_sign c h (sk_seed key)))"
  let ?vc = "JObj (?cred @ [(''proof'', JObj (?conf @ [(''proofValue'', ?sig)]))])"
  have "signCredential c subject key clock = Inr ?vc"
    using h by (simp add: signCredential_def now)
  moreover have "verifyCredential c ?vc (buildDidDocument key) = Inr (Inr (JObj ?cred))"
  proof -
    have p: "jsProp (JObj (?conf @ [(''proofValue'', ?sig)])) ''cryptosuite'' = JStr ''eddsa-jcs-2022''"
      "jsProp (JObj (?conf @ [(''proofValue'', ?sig)])) ''verificationMethod'' =
        JStr (sk_verificationMethodId key)"
      "jsProp (JObj (?conf @ [(''proofValue'', ?sig)])) ''proofValue'' = ?sig"
      by (simp_all add: proofConfigOf_def)
    show ?thesis
      using p h resolve_own_key [OF key_ok_pub [OF ed key]] key_ok_verify [OF ed key, of h]
      by (simp add: verifyCredential_def Let_def proofConfig_rest base58_read_written
          del: append.simps)
         (simp add: verifyCredential_def Let_def proofConfig_rest base58_read_written)
  qed
  moreover have "is_json subject \<longrightarrow> is_json ?vc" by (simp add: proofConfigOf_def)
  ultimately show ?thesis by auto
qed

text \<open>What a wallet signs verifies.\<close>

lemma wallet_verifies:
  assumes ed: "ed25519_correct c" and seed: "length seed = 32"
    and didKey: "didKeyFromPublicKey (ed_getPublicKey c seed) = Inr (did, vm, m)"
    and key: "signingKeyFromSeed c seed did (Some vm) = Inr key"
    and doc: "js_wf (JObj document)" "jcs_ok (JObj document)" "''proof'' \<notin> fst ` set document"
      "oget document ''issuer'' = JStr did"
    and clock: "\<bar>clock\<bar> \<le> maxTime"
  shows "\<exists>response. signTrustTask c document key clock = Inr response \<and>
    verifyTrustTaskProof c response = Inr did \<and>
    (\<exists>proof. response = oset ''proof'' (JObj proof) document \<and> is_json (JObj proof) \<and> js_wf (JObj proof))"
proof -
  let ?pk = "ed_getPublicKey c seed"
  have pk: "length ?pk = 32" "\<And>x. ed_verify c (ed_sign c x seed) x ?pk = Inr True"
    using ed seed by (simp_all add: ed25519_correct_def)
  have k: "sk_seed key = seed" "sk_verificationMethodId key = vm"
    using key seed by (auto simp: signingKeyFromSeed_def)
  have m: "m = encodeBase58Btc ([0xed, 1] @ ?pk)" and did: "did = ''did:key:'' @ m" and vm: "vm = did @ ''#'' @ m"
    using didKey pk(1) by (auto simp: didKeyFromPublicKey_def Let_def)
  obtain now where now: "rfc3339Now clock = Inr now" using rfc3339Now_defined [OF clock] by blast
  let ?conf = "proofConfigOf now vm"
  obtain h where h: "computeHashData c (JObj document) (JObj ?conf) = Inr h"
    using computeHashData_defined [OF doc(1,2) proofConfigOf_ok] by blast
  let ?proof = "?conf @ [(''proofValue'', JStr (encodeBase58Btc (ed_sign c h seed)))]"
  let ?response = "oset ''proof'' (JObj ?proof) document"
  have "signTrustTask c document key clock = Inr ?response"
    using h by (simp add: signTrustTask_def now k)
  moreover have "verifyTrustTaskProof c ?response = Inr did"
  proof -
    have "startsWith did ''did:key:''" unfolding did by (rule startsWith_append)
    moreover have "startsWith m ''z''" by (simp add: m encodeBase58Btc_def startsWith_def Let_def)
    moreover have "decodeBase58Btc m = Inr ([0xed, 1] @ ?pk)" by (simp only: m base58_read_written)
    moreover have "validDiProof ?proof" "oget ?proof ''verificationMethod'' = JStr vm"
      "oget ?proof ''proofValue'' = JStr (encodeBase58Btc (ed_sign c h seed))"
      by (simp_all add: validDiProof_def proofConfigOf_def)
    ultimately show ?thesis
      using h didKey_document [OF pk(1) m did] doc(4) pk(2) [of h]
      by (simp add: verifyTrustTaskProof_def expectedMethod_def Let_def methodEntry_def vm
          proofConfig_rest base58_read_written sign_trust_rest [OF doc(3)])
  qed
  moreover have "is_json (JObj ?proof) \<and> js_wf (JObj ?proof)" by (simp add: proofConfigOf_def)
  ultimately show ?thesis by blast
qed

section \<open>Properties\<close>

text \<open>C3. A credential the service signs verifies against the DID document of the signing key, and
  verification hands back the signed subject: with any correct Ed25519, for every JSON subject and
  every representable time.\<close>

theorem sign_verify:
  assumes ed: "ed25519_correct c" and key: "key_ok c key"
    and subject: "js_wf subject" "jcs_ok subject" and clock: "\<bar>clock\<bar> \<le> maxTime"
  shows "\<exists>vc cred. signCredential c subject key clock = Inr vc \<and>
    verifyCredential c vc (buildDidDocument key) = Inr (Inr cred) \<and>
    jsProp cred ''credentialSubject'' = subject"
  using signed_verifies [OF assms] by blast

theorem sign_verify_witness:
  "\<exists>vc cred. signCredential toy_crypto (JObj [(''approvedAction'', JStr ''export'')])
      \<lparr> sk_seed = replicate 32 7, sk_publicKey = replicate 32 7, sk_did = ''did:web:localhost'',
        sk_verificationMethodId = ''did:web:localhost#key-1'' \<rparr> 0 = Inr vc \<and>
    verifyCredential toy_crypto vc (buildDidDocument
      \<lparr> sk_seed = replicate 32 7, sk_publicKey = replicate 32 7, sk_did = ''did:web:localhost'',
        sk_verificationMethodId = ''did:web:localhost#key-1'' \<rparr>) = Inr (Inr cred) \<and>
    jsProp cred ''credentialSubject'' = JObj [(''approvedAction'', JStr ''export'')]"
  by (rule sign_verify) (simp_all add: key_ok_toy maxTime_def)

text \<open>C4. A signature covers the whole document and the whole proof configuration: when two pairs without lone
  surrogates give the same signed bytes, the documents agree up to key order or their own canonical bytes are two
  messages with the same SHA-256, and the configurations agree up to key order or theirs are.\<close>

theorem hash_data_binds:
  assumes "sha256_sized c"
    and d: "js_wf d \<and> jcs_ok d \<and> text_ok d" "js_wf d' \<and> jcs_ok d' \<and> text_ok d'"
    and p: "js_wf p \<and> jcs_ok p \<and> text_ok p" "js_wf p' \<and> jcs_ok p' \<and> text_ok p'"
    and h: "computeHashData c d p = Inr h" "computeHashData c d' p' = Inr h"
  shows "\<exists>a a' b b'. canonicalizeJson d = Inr a \<and> canonicalizeJson d' = Inr a' \<and> canonicalizeJson p = Inr b \<and> canonicalizeJson p' = Inr b' \<and>
    sha256 c a = sha256 c a' \<and> sha256 c b = sha256 c b' \<and>
    (a \<noteq> a' \<or> canonForm d = canonForm d') \<and> (b \<noteq> b' \<or> canonForm p = canonForm p')"
proof -
  obtain a a' b b' where t: "canonicalizeJson d = Inr a" "canonicalizeJson d' = Inr a'"
      "canonicalizeJson p = Inr b" "canonicalizeJson p' = Inr b'"
    "sha256 c b @ sha256 c a = sha256 c b' @ sha256 c a'"
    using h by (auto simp: computeHashData_def Let_def bindR_Inr_iff)
  then have "sha256 c a = sha256 c a'" "sha256 c b = sha256 c b'"
    using assms(1) by (auto simp: sha256_sized_def)
  then show ?thesis
    using t jcs.canon_nf [OF d] jcs.canon_nf [OF p] by auto
qed

theorem hash_data_binds_witness:
  "\<exists>a a' b b'. canonicalizeJson (JObj [(''b'', JNull), (''a'', JNull)]) = Inr a \<and>
     canonicalizeJson (JObj [(''a'', JNull), (''b'', JNull)]) = Inr a' \<and> canonicalizeJson JNull = Inr b \<and> canonicalizeJson JNull = Inr b' \<and>
     sha256 toy_crypto a = sha256 toy_crypto a' \<and> sha256 toy_crypto b = sha256 toy_crypto b' \<and>
     (a \<noteq> a' \<or> canonForm (JObj [(''b'', JNull), (''a'', JNull)]) = canonForm (JObj [(''a'', JNull), (''b'', JNull)])) \<and>
     (b \<noteq> b' \<or> canonForm JNull = canonForm JNull)"
proof (rule hash_data_binds)
  show "computeHashData toy_crypto (JObj [(''b'', JNull), (''a'', JNull)]) JNull =
      Inr (pad32 (utf8 ''null'') @ pad32 (utf8 (''{'' @ [CHR 0x22] @ ''a'' @ [CHR 0x22] @ '':null,'' @
        [CHR 0x22] @ ''b'' @ [CHR 0x22] @ '':null}'')))"
    by (simp add: computeHashData_def toy_crypto_def) code_simp
  show "computeHashData toy_crypto (JObj [(''a'', JNull), (''b'', JNull)]) JNull =
      Inr (pad32 (utf8 ''null'') @ pad32 (utf8 (''{'' @ [CHR 0x22] @ ''a'' @ [CHR 0x22] @ '':null,'' @
        [CHR 0x22] @ ''b'' @ [CHR 0x22] @ '':null}'')))"
    by (simp add: computeHashData_def toy_crypto_def) code_simp
qed simp_all

text \<open>A key that a verification method of a \<^verbatim>\<open>did:key\<close> or \<^verbatim>\<open>did:peer:2\<close> document holds is written in the DID.\<close>

lemma document_key:
  assumes "startsWith signer ''did:key:'' \<and> buildDidKeyDocument signer = Inr didDocument \<or>
     startsWith signer ''did:peer:2.'' \<and> buildDidPeerDocument signer = Inr didDocument"
    and mem: "m \<in> set (arrayOf (jsProp didDocument ''verificationMethod''))"
    and raw: "decodeBase58Btc (strOf (jsProp m ''publicKeyMultibase'')) = Inr raw"
  shows "length (drop 2 raw) = 32 \<and>
    (signer = ''did:key:'' @ encodeBase58Btc ([0xed, 1] @ drop 2 raw) \<or>
     startsWith signer ''did:peer:2.'' \<and>
     (''E'' @ encodeBase58Btc ([0xec, 1] @ drop 2 raw) \<in> set (splitOn (CHR ''.'') (drop 11 signer)) \<or>
      ''V'' @ encodeBase58Btc ([0xed, 1] @ drop 2 raw) \<in> set (splitOn (CHR ''.'') (drop 11 signer))))"
  using assms(1)
proof (elim disjE conjE)
  assume "buildDidKeyDocument signer = Inr didDocument"
  then obtain pk where pk: "length pk = 32" "signer = ''did:key:'' @ encodeBase58Btc ([0xed, 1] @ pk)"
    by (rule didKey_document_Inr)
  have "didDocument = JObj
      [(''@context'', contexts), (''id'', JStr signer),
       (''verificationMethod'', JArr [methodEntry (signer @ ''#'' @ encodeBase58Btc ([0xed, 1] @ pk)) signer
          (encodeBase58Btc ([0xed, 1] @ pk))]),
       (''assertionMethod'', JArr [JStr (signer @ ''#'' @ encodeBase58Btc ([0xed, 1] @ pk))])]"
    using didKey_document [OF pk(1) refl pk(2)] \<open>buildDidKeyDocument signer = Inr didDocument\<close> by simp
  with mem raw have "raw = [0xed, 1] @ pk" by (simp add: methodEntry_def base58_read_written)
  with pk show ?thesis by simp
next
  assume "buildDidPeerDocument signer = Inr didDocument"
  then show ?thesis
  proof (rule didPeer_document_Inr)
    fix ka au
    assume k: "length ka = 32" "length au = 32" "startsWith signer ''did:peer:2.''"
      "''E'' @ encodeBase58Btc ([0xec, 1] @ ka) \<in> set (splitOn (CHR ''.'') (drop 11 signer))"
      "''V'' @ encodeBase58Btc ([0xed, 1] @ au) \<in> set (splitOn (CHR ''.'') (drop 11 signer))"
      "jsProp didDocument ''verificationMethod'' = JArr
         [methodEntry (signer @ ''#key-1'') signer (encodeBase58Btc ([0xec, 1] @ ka)),
          methodEntry (signer @ ''#key-2'') signer (encodeBase58Btc ([0xed, 1] @ au))]"
    have "raw = [0xec, 1] @ ka \<or> raw = [0xed, 1] @ au"
      using mem raw unfolding k(6) by (auto simp: methodEntry_def base58_read_written)
    then have "drop 2 raw = ka \<or> drop 2 raw = au" by auto
    with k show ?thesis by metis
  qed
qed

text \<open>C5. A verified Trust Task is signed with a key its own issuer DID encodes: the signer returned
  is the issuer of the document, and the key that verified the hash data is the one key of the
  did:key, or one of the two keys of the did:peer:2 (the proof may name the key-agreement key).\<close>

theorem trust_task_self_certifying:
  assumes "verifyTrustTaskProof c document = Inr signer"
  shows "oget document ''issuer'' = JStr signer \<and>
    (\<exists>key h signature.
      computeHashData c (JObj (odelete ''proof'' document))
        (JObj (odelete ''proofValue'' (fieldsOf (oget document ''proof'')))) = Inr h \<and>
      ed_verify c signature h key = Inr True \<and> length key = 32 \<and>
      (signer = ''did:key:'' @ encodeBase58Btc ([0xed, 1] @ key) \<or>
       startsWith signer ''did:peer:2.'' \<and>
       (''E'' @ encodeBase58Btc ([0xec, 1] @ key) \<in> set (splitOn (CHR ''.'') (drop 11 signer)) \<or>
        ''V'' @ encodeBase58Btc ([0xed, 1] @ key) \<in> set (splitOn (CHR ''.'') (drop 11 signer)))))"
proof -
  from verifyTrustTaskProof_Inr [OF assms] obtain didDocument m sig raw h where v:
    "oget document ''issuer'' = JStr signer"
    "startsWith signer ''did:key:'' \<and> buildDidKeyDocument signer = Inr didDocument \<or>
     startsWith signer ''did:peer:2.'' \<and> buildDidPeerDocument signer = Inr didDocument"
    "expectedMethod didDocument (oget (fieldsOf (oget document ''proof'')) ''verificationMethod'') = Some m"
    "decodeBase58Btc (strOf (jsProp m ''publicKeyMultibase'')) = Inr raw"
    "computeHashData c (JObj (odelete ''proof'' document))
       (JObj (odelete ''proofValue'' (fieldsOf (oget document ''proof'')))) = Inr h"
    "ed_verify c sig h (drop 2 raw) = Inr True" by metis
  have "m \<in> set (arrayOf (jsProp didDocument ''verificationMethod''))"
    using v(3) by (auto simp: expectedMethod_def find_Some_iff)
  from document_key [OF v(2) this v(4)] v(1,5,6) show ?thesis
    by (intro conjI exI [of _ "drop 2 raw"] exI [of _ h] exI [of _ sig]) blast+
qed

theorem trust_task_self_certifying_witness:
  "\<exists>key h signature. ed_verify toy_crypto signature h key = Inr True \<and> length key = 32"
proof -
  define did where "did = ''did:key:'' @ encodeBase58Btc ([0xed, 1] @ replicate 32 7)"
  define m where "m = encodeBase58Btc ([0xed, 1] @ replicate 32 7)"
  let ?doc = "[(''issuer'', JStr did)]"
  let ?conf = "proofConfigOf ''2026'' (did @ ''#'' @ m)"
  obtain h where h: "computeHashData toy_crypto (JObj ?doc) (JObj ?conf) = Inr h"
    using computeHashData_defined [OF _ _ proofConfigOf_ok, of "JObj ?doc" toy_crypto "''2026''" "did @ ''#'' @ m"]
    by (simp add: ex_simps) blast
  let ?signed = "?doc @ [(''proof'', JObj (?conf @
     [(''proofValue'', JStr (encodeBase58Btc (replicate 32 7 @ h)))]))]"
  have "buildDidKeyDocument did = Inr (JObj
    [(''@context'', contexts), (''id'', JStr did),
     (''verificationMethod'', JArr [methodEntry (did @ ''#'' @ m) did m]),
     (''assertionMethod'', JArr [JStr (did @ ''#'' @ m)])])"
    by (rule didKey_document) (simp_all add: m_def did_def)
  moreover have "startsWith did ''did:key:''" by (simp add: did_def startsWith_def)
  moreover have "startsWith m ''z''" by (simp add: m_def encodeBase58Btc_def startsWith_def Let_def)
  moreover have "decodeBase58Btc m = Inr ([0xed, 1] @ replicate 32 7)" by (simp add: m_def base58_read_written)
  moreover have "odelete ''proof'' ?signed = ?doc" by (simp add: odelete_def)
  moreover have "validDiProof (?conf @ [(''proofValue'', JStr s)])"
    "oget (?conf @ [(''proofValue'', JStr s)]) ''verificationMethod'' = JStr (did @ ''#'' @ m)"
    "oget (?conf @ [(''proofValue'', JStr s)]) ''proofValue'' = JStr s" for s
    by (simp_all add: validDiProof_def proofConfigOf_def)
  ultimately have "verifyTrustTaskProof toy_crypto ?signed = Inr did"
    using h by (simp add: verifyTrustTaskProof_def expectedMethod_def Let_def methodEntry_def
        proofConfig_rest base58_read_written) (simp add: toy_crypto_def)
  from trust_task_self_certifying [OF this] show ?thesis by blast
qed

text \<open>A wallet's response verifies: a Trust Task whose issuer is the did:key of a key pair, signed
  with that pair, is accepted by the verifier, and the signer reported is that did:key.\<close>

lemma wallet_roundtrip:
  assumes ed: "ed25519_correct c" and seed: "length seed = 32"
    and didKey: "didKeyFromPublicKey (ed_getPublicKey c seed) = Inr (did, vm, m)"
    and key: "signingKeyFromSeed c seed did (Some vm) = Inr key"
    and doc: "js_wf (JObj document)" "jcs_ok (JObj document)" "''proof'' \<notin> fst ` set document"
      "oget document ''issuer'' = JStr did"
    and clock: "\<bar>clock\<bar> \<le> maxTime"
  shows "\<exists>response. signTrustTask c document key clock = Inr response \<and>
    verifyTrustTaskProof c response = Inr did"
  using wallet_verifies [OF assms] by blast

lemma wallet_roundtrip_witness:
  "\<exists>did response. signTrustTask toy_crypto [(''issuer'', JStr did)]
      \<lparr> sk_seed = replicate 32 7, sk_publicKey = replicate 32 7, sk_did = did,
        sk_verificationMethodId = did @ ''#'' @ encodeBase58Btc ([0xed, 1] @ replicate 32 7) \<rparr> 0 = Inr response \<and>
    verifyTrustTaskProof toy_crypto response = Inr did"
proof -
  let ?m = "encodeBase58Btc ([0xed, 1] @ replicate 32 7)"
  have "\<exists>response. signTrustTask toy_crypto [(''issuer'', JStr (''did:key:'' @ ?m))]
      \<lparr> sk_seed = replicate 32 7, sk_publicKey = replicate 32 7, sk_did = ''did:key:'' @ ?m,
        sk_verificationMethodId = (''did:key:'' @ ?m) @ ''#'' @ ?m \<rparr> 0 = Inr response \<and>
    verifyTrustTaskProof toy_crypto response = Inr (''did:key:'' @ ?m)"
    by (rule wallet_roundtrip [of toy_crypto "replicate 32 7" _ "(''did:key:'' @ ?m) @ ''#'' @ ?m" ?m])
      (simp_all add: didKeyFromPublicKey_def signingKeyFromSeed_def maxTime_def Let_def,
       simp_all add: toy_crypto_def)
  then show ?thesis by blast
qed

text \<open>The signing key fails closed: outside a development environment loading succeeds only when
  \<^verbatim>\<open>ONECLI_GATEWAY_SIGNING_KEY\<close> decodes to 32 bytes, the key has exactly this seed, and the fresh
  random seed is never used; in every case the public half belongs to the seed.\<close>

lemma loadSigningKey_fail_closed:
  assumes "loadSigningKey c env fresh = Inr key" and "length fresh = 32"
  shows "key_ok c key \<and>
    (isDevEnvironment env \<or>
     (\<exists>text. env ''ONECLI_GATEWAY_SIGNING_KEY'' = Some text \<and> text \<noteq> [] \<and>
        sk_seed key = from_base64 c (trim text) \<and> length (from_base64 c (trim text)) = 32))"
  using assms loadSigningKey_key_ok [OF assms]
  by (auto simp: loadSigningKey_def Let_def set_nonempty_def split: if_splits)

lemma loadSigningKey_fail_closed_witness:
  "\<not> isDevEnvironment [''ONECLI_GATEWAY_SIGNING_KEY'' \<mapsto> replicate 32 (CHR ''a'')] \<and>
   key_ok toy_crypto \<lparr> sk_seed = replicate 32 97, sk_publicKey = replicate 32 97,
     sk_did = ''did:web:localhost'', sk_verificationMethodId = ''did:web:localhost#key-1'' \<rparr>"
proof -
  have "loadSigningKey toy_crypto [''ONECLI_GATEWAY_SIGNING_KEY'' \<mapsto> replicate 32 (CHR ''a'')] (replicate 32 0) =
      Inr \<lparr> sk_seed = replicate 32 97, sk_publicKey = replicate 32 97,
     sk_did = ''did:web:localhost'', sk_verificationMethodId = ''did:web:localhost#key-1'' \<rparr>"
    by code_simp
  from loadSigningKey_fail_closed [OF this] show ?thesis by (auto simp: isDevEnvironment_def)
qed

end
