(* ===== verification/Digests.thy ===== *)
theory Digests
  imports Canonical_Json Runtime "HOL-Library.Multiset"
begin

text \<open>
  The digests the trust-task and connector services put on their records:
  \<^verbatim>\<open>sha256(canonicalJson(asJson(v)))\<close>, written \<^verbatim>\<open>sha256:<hex>\<close>. A digest binds the JSON reading of the
  record: two records with the same digest read as the same document up to key order, or SHA-256
  has a collision.
\<close>

definition sha256Text :: "crypto \<Rightarrow> string \<Rightarrow> string" where
  "sha256Text c value = ''sha256:'' @ toHex (sha256 c (utf8 value))"

definition digestJson :: "crypto \<Rightarrow> js \<Rightarrow> string result" where
  "digestJson c v = bindR (canonicalText v) (\<lambda>s. Inr (sha256Text c s))"

text \<open>\<^verbatim>\<open>hash.slice("sha256:".length, "sha256:".length + 16)\<close>.\<close>

definition shortId :: "string \<Rightarrow> string" where
  "shortId h = take 16 (drop (length ''sha256:'') h)"

definition collision :: "crypto \<Rightarrow> bool" where
  "collision c \<longleftrightarrow> (\<exists>a b. a \<noteq> b \<and> sha256 c a = sha256 c b)"

section \<open>Reading a value as JSON\<close>

lemma stringified_wf: "js_wf v \<Longrightarrow> stringified v = Inr (Some w) \<Longrightarrow> is_json w \<and> js_wf w"
proof (induction v arbitrary: w)
  case (JNum n)
  then show ?case by (cases n) auto
next
  case (JArr xs)
  then obtain ys where ys: "mapR stringified xs = Inr ys"
      "w = JArr (map (\<lambda>y. case y of None \<Rightarrow> JNull | Some w \<Rightarrow> w) ys)"
    by (auto simp: bindR_Inr_iff)
  have "is_json u \<and> js_wf u" if mem: "Some u \<in> set ys" for u
  proof -
    obtain i where "i < length ys" "ys ! i = Some u" using mem by (auto simp: in_set_conv_nth)
    moreover have "length xs = length ys" "\<forall>i < length ys. stringified (xs ! i) = Inr (ys ! i)"
      using ys(1) by (auto simp: mapR_Inr_iff list_all2_conv_all_nth)
    ultimately show ?thesis using JArr.IH [of "xs ! i" u] JArr.prems(1) by auto
  qed
  then show ?case using ys(2) by (auto split: option.splits)
next
  case (JObj kvs)
  let ?f = "\<lambda>(k, v). bindR (stringified v) (\<lambda>w. Inr (k :: string, w))"
  let ?g = "\<lambda>ys. concat (map (\<lambda>(k, w). case w of None \<Rightarrow> [] | Some x \<Rightarrow> [(k :: string, x :: js)]) ys)"
  obtain ys where ys: "mapR ?f kvs = Inr ys" "w = JObj (?g ys)"
    using JObj.prems(2) by (auto simp: bindR_Inr_iff)
  have "distinct (map fst (?g ys)) \<and> fst ` set (?g ys) \<subseteq> fst ` set kvs \<and>
      (\<forall>p \<in> set (?g ys). is_json (snd p) \<and> js_wf (snd p))"
    using ys(1) JObj.prems(1) JObj.IH
  proof (induction kvs arbitrary: ys)
    case (Cons p kvs)
    obtain k v where p: "p = (k, v)" by (cases p)
    obtain w' ys' where w': "stringified v = Inr w'" "mapR ?f kvs = Inr ys'" "ys = (k, w') # ys'"
      using Cons.prems(1) by (auto simp: p bindR_Inr_iff)
    have tl: "distinct (map fst (?g ys')) \<and> fst ` set (?g ys') \<subseteq> fst ` set kvs \<and>
        (\<forall>p \<in> set (?g ys'). is_json (snd p) \<and> js_wf (snd p))"
      by (rule Cons.IH [OF w'(2)]) (use Cons.prems in \<open>auto simp: p\<close>)
    have hd: "is_json x \<and> js_wf x" if "w' = Some x" for x
      using Cons.prems(3) [of p v x] Cons.prems(2) w'(1) that by (simp add: p snds.intros)
    have "k \<notin> fst ` set kvs" using Cons.prems(2) by (simp add: p)
    moreover obtain zs where zs: "?g ys' = zs" by blast
    moreover have "?g ys = (case w' of None \<Rightarrow> [] | Some x \<Rightarrow> [(k, x)]) @ zs"
      using zs w'(3) by simp
    ultimately show ?case using tl hd unfolding p by (cases w') auto
  qed simp
  then show ?case using ys(2) by (auto simp: image_iff)
qed (auto split: if_splits)

lemma asJson_wf: "js_wf v \<Longrightarrow> asJson v = Inr w \<Longrightarrow> is_json w \<and> js_wf w"
  by (auto simp: asJson_def bindR_Inr_iff split: option.splits dest: stringified_wf)

text \<open>The JSON reading of a value, keys sorted.\<close>

definition jsonForm :: "js \<Rightarrow> js" where
  "jsonForm v = (case asJson v of Inl e \<Rightarrow> JUndef | Inr w \<Rightarrow> canonForm w)"

definition hasJson :: "js \<Rightarrow> bool" where
  "hasJson v \<longleftrightarrow> js_wf v \<and> (case asJson v of Inl e \<Rightarrow> False | Inr w \<Rightarrow> True)"

lemma canonicalText_asJson:
  "js_wf v \<Longrightarrow> asJson v = Inr w \<Longrightarrow> canonicalText v = Inr (render (canonForm w))"
  using asJson_wf [of v w] by (simp add: canonicalText_def canonicalJson_render)

lemma canonicalText_Inr_hasJson: "js_wf v \<Longrightarrow> canonicalText v = Inr s \<Longrightarrow> hasJson v"
  by (auto simp: hasJson_def canonicalText_def bindR_def split: sum.splits)

interpretation jtext: canonicaliser canonicalText hasJson jsonForm
proof
  fix v w
  show "hasJson v \<Longrightarrow> \<exists>b. canonicalText v = Inr b"
    by (auto simp: hasJson_def canonicalText_asJson split: sum.splits)
  assume v: "hasJson v" and w: "hasJson w"
  obtain v' w' where a: "js_wf v" "asJson v = Inr v'" "js_wf w" "asJson w = Inr w'"
    using v w by (auto simp: hasJson_def split: sum.splits)
  then have "is_json (canonForm v')" "is_json (canonForm w')"
    using asJson_wf [of v v'] asJson_wf [of w w'] by (simp_all add: canonForm_json is_json_jcs_ok)
  with a show "(canonicalText v = canonicalText w) = (jsonForm v = jsonForm w)"
    using ctext.canon_nf [of v' w'] asJson_wf [of v v'] asJson_wf [of w w']
    by (simp add: canonicalText_asJson jsonForm_def canonicalText_render)
qed

lemma hexByte_inj: "hexByte a = hexByte b \<Longrightarrow> a = b"
proof -
  assume "hexByte a = hexByte b"
  moreover have "unat a < 256" "unat b < 256" using unsigned_less [of a] unsigned_less [of b] by simp_all
  ultimately have "unat a div 16 = unat b div 16" "unat a mod 16 = unat b mod 16"
    by (auto simp: hexByte_def intro!: hexDigit_inj)
  then have "unat a = unat b" by (metis div_mult_mod_eq)
  then show "a = b" by (rule word_unat_eq_iff [THEN iffD2])
qed

lemma toHex_inj: "toHex a = toHex b \<Longrightarrow> a = b"
proof (induction a arbitrary: b)
  case Nil
  then show ?case by (cases b) (auto simp: toHex_def hexByte_def)
next
  case (Cons x a)
  then obtain y b' where b: "b = y # b'" by (cases b) (auto simp: toHex_def hexByte_def)
  with Cons.prems have "hexByte x = hexByte y" "toHex a = toHex b'" by (auto simp: toHex_def hexByte_def)
  with b Cons.IH hexByte_inj show ?case by simp
qed

lemma sha256Text_bytes: "sha256Text c s = sha256Text c t \<Longrightarrow> utf8 s = utf8 t \<or> collision c"
  unfolding collision_def sha256Text_def by (auto dest!: toHex_inj)

lemma sha256Text_binds:
  assumes "sha256Text c s = sha256Text c t" "wellFormed s" "wellFormed t"
  shows "s = t \<or> collision c"
  using sha256Text_bytes [OF assms(1)] utf8_inj assms(2,3) by blast

text \<open>A canonical text has no lone surrogate.\<close>

lemma canonicalText_wellFormed: "js_wf v \<Longrightarrow> canonicalText v = Inr s \<Longrightarrow> wellFormed s"
proof (cases "asJson v")
  case (Inr w)
  then show "js_wf v \<Longrightarrow> canonicalText v = Inr s \<Longrightarrow> wellFormed s"
    using canonicalText_asJson [of v w] render_wellFormed by auto
qed (simp add: canonicalText_def)

lemma digestJson_Inr:
  assumes "js_wf v" "digestJson c v = Inr h"
  obtains s where "hasJson v" "canonicalText v = Inr s" "h = sha256Text c s"
  using assms canonicalText_Inr_hasJson by (auto simp: digestJson_def bindR_Inr_iff)

lemma digestJson_binds:
  assumes "js_wf v" "js_wf w" "digestJson c v = Inr h" "digestJson c w = Inr h"
  shows "jsonForm v = jsonForm w \<or> collision c"
proof -
  obtain s t where "hasJson v" "canonicalText v = Inr s" "hasJson w" "canonicalText w = Inr t"
    "sha256Text c s = sha256Text c t"
    using assms by (metis digestJson_Inr)
  moreover from this have "wellFormed s" "wellFormed t" using canonicalText_wellFormed assms(1,2) by blast+
  ultimately show ?thesis using jtext.canon_nf sha256Text_binds by metis
qed

text \<open>Every value without a bigint has a digest, unless it has no text at all.\<close>

lemma digestJson_defined: "hasJson v \<Longrightarrow> \<exists>h. digestJson c v = Inr h"
  using jtext.canon_defined [of v] by (auto simp: digestJson_def)

lemma hasJson_obj:
  assumes "distinct (map fst kvs)" "\<forall>p \<in> set kvs. snd p = JUndef \<or> hasJson (snd p)"
  shows "hasJson (JObj kvs)"
proof -
  have wf: "js_wf (snd p) \<and> (\<exists>w. stringified (snd p) = Inr w)" if "p \<in> set kvs" for p
    using assms(2) that
    by (fastforce simp: hasJson_def asJson_def bindR_def split: sum.splits option.splits)
  then have "\<exists>ys. mapR (\<lambda>(k, v). bindR (stringified v) (\<lambda>w. Inr (k, w))) kvs = Inr ys"
  proof (induction kvs)
    case (Cons p kvs)
    then obtain w where "stringified (snd p) = Inr w" by (metis list.set_intros(1))
    with Cons show ?case by (cases p) fastforce
  qed simp
  with wf assms(1) show ?thesis by (auto simp: hasJson_def asJson_def)
qed

lemma hasJson_json: "is_json v \<Longrightarrow> js_wf v \<Longrightarrow> hasJson v"
  by (simp add: hasJson_def asJson_json)

lemma hasJson_simps [simp]:
  "hasJson JNull" "hasJson (JBool b)" "hasJson (JStr s)" "hasJson (JInt i)"
proof -
  have "js_wf (JInt i)" by simp
  with is_json_JInt show "hasJson (JInt i)" by (rule hasJson_json)
qed (simp_all add: hasJson_json)

lemma hasJson_strs [simp]: "hasJson (JArr (map JStr ss))"
  by (rule hasJson_json) auto

section \<open>What a digest of an object binds\<close>

text \<open>The integer a number stands for.\<close>

fun numVal :: "jnum \<Rightarrow> int" where
  "numVal (Finite m e) = m * 10 ^ nat e"
| "numVal _ = 0"

lemma numVal_strip10: "0 \<le> e \<Longrightarrow> numVal (strip10 k m e) = m * 10 ^ nat e"
proof (induction k m e rule: strip10.induct)
  case (2 k m e)
  have "(m div 10) * 10 ^ nat (e + 1) = m * 10 ^ nat e" if "m mod 10 = 0"
  proof -
    have "m = 10 * (m div 10)" using that by auto
    moreover have "(10 :: int) ^ nat (e + 1) = 10 * 10 ^ nat e" using 2(2) by (simp add: nat_add_distrib)
    ultimately show ?thesis by (metis mult.assoc mult.commute)
  qed
  with 2 show ?case by auto
qed simp

lemma jint_inj [simp]: "jint i = jint j \<longleftrightarrow> i = j"
proof
  assume "jint i = jint j"
  then have "numVal (jint i) = numVal (jint j)" by (rule arg_cong)
  then show "i = j" unfolding jint_def by (simp only: numVal_strip10 order.refl nat_zero_as_int) simp
qed simp

lemma jsonForm_JInt [simp]: "jsonForm (JInt i) = JInt i"
  using asJson_json [OF is_json_JInt, of i] by (simp add: jsonForm_def)

lemma jsonForm_simps [simp]:
  "jsonForm JUndef = JUndef" "jsonForm JNull = JNull" "jsonForm (JBool b) = JBool b"
  "jsonForm (JStr s) = JStr s"
  by (simp_all add: jsonForm_def asJson_def)

lemma JStr_map_inj [simp]: "map JStr xs = map JStr ys \<longleftrightarrow> xs = ys"
  by (rule inj_map_eq_map) (simp add: inj_def)

lemma jsonForm_strs [simp]: "jsonForm (JArr (map JStr ss)) = JArr (map JStr ss)"
proof -
  have "asJson (JArr (map JStr ss)) = Inr (JArr (map JStr ss))" by (rule asJson_json) auto
  then show ?thesis by (simp add: jsonForm_def o_def)
qed

lemma jsonForm_optStr [simp]: "jsonForm (optStr x) = jsonForm (optStr y) \<longleftrightarrow> x = y"
  "jsonForm (nullStr x) = jsonForm (nullStr y) \<longleftrightarrow> x = y"
  by (auto simp: optStr_def nullStr_def split: option.splits)

lemma oget_stringified:
  assumes "mapR (\<lambda>(k, v). bindR (stringified v) (\<lambda>w. Inr (k :: string, w))) kvs = Inr ys"
    and "distinct (map fst kvs)"
  shows "oget (concat (map (\<lambda>(k, w). case w of None \<Rightarrow> [] | Some x \<Rightarrow> [(k, x)]) ys)) k =
    (case stringified (oget kvs k) of Inr (Some x) \<Rightarrow> x | _ \<Rightarrow> JUndef)"
  using assms
proof (induction kvs arbitrary: ys)
  case (Cons p kvs)
  obtain k' v where p: "p = (k', v)" by (cases p)
  obtain w ys' where w: "stringified v = Inr w"
      "mapR (\<lambda>(k, v). bindR (stringified v) (\<lambda>w. Inr (k, w))) kvs = Inr ys'" "ys = (k', w) # ys'"
    using Cons.prems(1) by (auto simp: p bindR_Inr_iff)
  have "oget kvs k' = JUndef" using Cons.prems(2) by (simp add: p oget_def map_of_eq_None_iff [THEN iffD2])
  with Cons.IH [OF w(2)] Cons.prems(2) w show ?case by (cases w) (auto simp: p)
qed simp

lemma oget_sort:
  "distinct (map fst kvs) \<Longrightarrow> oget (sort_key f kvs) k = oget kvs k"
proof -
  assume d: "distinct (map fst kvs)"
  have "mset (map fst (sort_key f kvs)) = mset (map fst kvs)" by simp
  then have "distinct (map fst (sort_key f kvs))" using d mset_eq_imp_distinct_iff by blast
  then have "map_of (sort_key f kvs) = map_of kvs" using d by (subst map_of_inject_set) simp_all
  then show ?thesis by (simp add: oget_def)
qed

lemma oget_canonForm:
  "oget (map (\<lambda>(k, v). (k, canonForm v)) kvs) k = (case map_of kvs k of None \<Rightarrow> JUndef | Some v \<Rightarrow> canonForm v)"
  by (simp add: oget_def map_of_map split: option.splits)

lemma jsonForm_field:
  assumes wf: "js_wf (JObj kvs)" and w: "asJson (JObj kvs) = Inr w"
  shows "jsProp (jsonForm (JObj kvs)) k = jsonForm (oget kvs k)"
proof -
  let ?f = "\<lambda>(k, v). bindR (stringified v) (\<lambda>w. Inr (k :: string, w))"
  let ?g = "\<lambda>ys. concat (map (\<lambda>(k, w). case w of None \<Rightarrow> [] | Some x \<Rightarrow> [(k :: string, x :: js)]) ys)"
  obtain ys where ys: "mapR ?f kvs = Inr ys" "w = JObj (?g ys)"
    using w by (auto simp: asJson_def bindR_Inr_iff split: option.splits)
  have wfw: "is_json w" "js_wf w" using asJson_wf [OF wf w] by blast+
  have d: "distinct (map fst (?g ys))" using wfw(2) ys(2) by simp
  have g: "oget (?g ys) k = (case stringified (oget kvs k) of Inr (Some x) \<Rightarrow> x | _ \<Rightarrow> JUndef)"
    using oget_stringified [OF ys(1)] wf by simp
  have "distinct (map fst (map (\<lambda>(k, v). (k, canonForm v)) (?g ys)))"
    using d by (simp only: map_map o_def split_def fst_conv)
  then have "jsProp (jsonForm (JObj kvs)) k =
      (case map_of (?g ys) k of None \<Rightarrow> JUndef | Some v \<Rightarrow> canonForm v)"
    unfolding jsonForm_def w sum.case ys(2) canonForm.simps jsProp.simps by (simp only: oget_sort oget_canonForm)
  also have "\<dots> = jsonForm (oget kvs k)"
  proof (cases "map_of (?g ys) k")
    case None
    then have "oget (?g ys) k = JUndef" by (simp add: oget_def)
    moreover have "stringified (oget kvs k) \<noteq> Inr (Some JUndef)"
    proof
      assume "stringified (oget kvs k) = Inr (Some JUndef)"
      moreover have "js_wf (oget kvs k)"
        using wf by (auto simp: oget_def split: option.splits dest!: map_of_SomeD)
      ultimately show False using stringified_wf by force
    qed
    ultimately show ?thesis using None g
      by (auto simp: jsonForm_def asJson_def bindR_def split: sum.splits option.splits)
  next
    case (Some v)
    have "is_json v"
      using wfw(1) map_of_SomeD [OF Some] unfolding ys(2) is_json.simps by (metis snd_conv)
    with Some have v: "oget (?g ys) k = v" "v \<noteq> JUndef" by (auto simp: oget_def)
    then have "stringified (oget kvs k) = Inr (Some v)"
      using g by (auto split: sum.splits option.splits)
    then show ?thesis using Some by (simp add: jsonForm_def asJson_def)
  qed
  finally show ?thesis .
qed

lemma jsonForm_objD:
  assumes "js_wf (JObj a)" "hasJson (JObj a)" "js_wf (JObj b)" "hasJson (JObj b)"
    "jsonForm (JObj a) = jsonForm (JObj b)"
  shows "jsonForm (oget a k) = jsonForm (oget b k)"
proof -
  obtain v w where "asJson (JObj a) = Inr v" "asJson (JObj b) = Inr w"
    using assms(2,4) by (auto simp: hasJson_def split: sum.splits)
  then show ?thesis using jsonForm_field assms(1,3,5) by metis
qed

text \<open>Two objects with one digest agree on every field.\<close>

lemma digestJson_field:
  assumes "js_wf (JObj a)" "js_wf (JObj b)" "digestJson c (JObj a) = Inr h" "digestJson c (JObj b) = Inr h"
    "\<not> collision c"
  shows "jsonForm (oget a k) = jsonForm (oget b k)"
proof (rule jsonForm_objD [OF assms(1) _ assms(2)])
  show "jsonForm (JObj a) = jsonForm (JObj b)" using digestJson_binds assms by blast
  show "hasJson (JObj a)" "hasJson (JObj b)" using digestJson_Inr assms by metis+
qed

end
