(* ===== verification/Connector_Broker.thy ===== *)
theory Connector_Broker
  imports Digests Iso_Date Interfaces
begin

text \<open>
  \<^verbatim>\<open>packages/api/src/services/personal-connector-broker-service.ts\<close>: read-only grants on a user's
  personal connectors, the retrievals made under a grant, the in-memory registry of both, the
  user's privacy console and the administrator's evidence export.

  The numbers of a grant are integers (\<^verbatim>\<open>validations/personal-connector.ts\<close> parses
  \<^verbatim>\<open>ttlMinutes\<close> and \<^verbatim>\<open>maxItems\<close> as such). Times are texts, read by \<open>dateParse\<close>.
\<close>

section \<open>Data\<close>

datatype connector_kind =
    Personal_gmail | Personal_outlook | Personal_calendar | Personal_drive | Personal_notes
  | Telegram_export | Whatsapp_export

fun kindText :: "connector_kind \<Rightarrow> string" where
  "kindText Personal_gmail = ''personal_gmail''"
| "kindText Personal_outlook = ''personal_outlook''"
| "kindText Personal_calendar = ''personal_calendar''"
| "kindText Personal_drive = ''personal_drive''"
| "kindText Personal_notes = ''personal_notes''"
| "kindText Telegram_export = ''telegram_export''"
| "kindText Whatsapp_export = ''whatsapp_export''"

record connector_scope =
  cs_labels :: "string list option"
  cs_folders :: "string list option"
  cs_dateFrom :: "string option"
  cs_dateTo :: "string option"
  cs_query :: "string option"

record grant_input =
  gi_connectorId :: string
  gi_connectorKind :: connector_kind
  gi_userId :: string
  gi_agentId :: string
  gi_purpose :: string
  gi_scope :: connector_scope
  gi_ttlMinutes :: int
  gi_maxItems :: int
  gi_issuedAt :: string
  gi_accessMode :: "string option"

datatype grant_status = Active | Revoked

record connector_grant =
  gr_schemaVersion :: string
  gr_grantId :: string
  gr_grantHash :: string
  gr_connectorId :: string
  gr_connectorKind :: connector_kind
  gr_userId :: string
  gr_agentId :: string
  gr_purpose :: string
  gr_scope :: connector_scope
  gr_accessMode :: string
  gr_issuedAt :: string
  gr_expiresAt :: string
  gr_maxItems :: int
  gr_status :: grant_status
  gr_runtimeCredentialMode :: string
  gr_evidenceRequired :: bool

record source_item =
  si_itemId :: string
  si_title :: string
  si_snippet :: string
  si_sourceUri :: "string option"
  si_receivedAt :: "string option"
  si_labels :: "string list option"

record connector_snippet =
  sn_itemId :: string
  sn_title :: string
  sn_snippet :: string
  sn_sourceUriHash :: "string option"
  sn_receivedAt :: "string option"
  sn_labels :: "string list option"

record retrieval_evidence =
  ev_source :: string
  ev_rawCredentialExposedToRuntime :: bool
  ev_rawContentStored :: bool
  ev_sourceItemHashes :: "string list"

record connector_retrieval =
  rt_schemaVersion :: string
  rt_retrievalId :: string
  rt_retrievalHash :: string
  rt_grantHash :: string
  rt_connectorId :: string
  rt_connectorKind :: connector_kind
  rt_agentId :: string
  rt_purpose :: string
  rt_query :: string
  rt_returnedItems :: nat
  rt_snippets :: "connector_snippet list"
  rt_evidence :: retrieval_evidence

text \<open>An optional field as a property value.\<close>

definition optStrs :: "string list option \<Rightarrow> js" where
  "optStrs x = (case x of None \<Rightarrow> JUndef | Some ss \<Rightarrow> JArr (map JStr ss))"

definition scopeJs :: "connector_scope \<Rightarrow> js" where
  "scopeJs s = JObj
     [(''labels'', optStrs (cs_labels s)), (''folders'', optStrs (cs_folders s)),
      (''dateFrom'', optStr (cs_dateFrom s)), (''dateTo'', optStr (cs_dateTo s)),
      (''query'', optStr (cs_query s))]"

definition sourceItemJs :: "source_item \<Rightarrow> js" where
  "sourceItemJs i = JObj
     [(''itemId'', JStr (si_itemId i)), (''title'', JStr (si_title i)), (''snippet'', JStr (si_snippet i)),
      (''sourceUri'', optStr (si_sourceUri i)), (''receivedAt'', optStr (si_receivedAt i)),
      (''labels'', optStrs (si_labels i))]"

definition snippetJs :: "connector_snippet \<Rightarrow> js" where
  "snippetJs s = JObj
     [(''itemId'', JStr (sn_itemId s)), (''title'', JStr (sn_title s)), (''snippet'', JStr (sn_snippet s)),
      (''sourceUriHash'', optStr (sn_sourceUriHash s)), (''receivedAt'', optStr (sn_receivedAt s)),
      (''labels'', optStrs (sn_labels s))]"

section \<open>Granting\<close>

definition minuteMs :: int where "minuteMs = 60000"
definition maxGrantTtlMinutes :: int where "maxGrantTtlMinutes = 60"
definition maxGrantItems :: int where "maxGrantItems = 50"

definition addMinutes :: "host_date \<Rightarrow> string \<Rightarrow> int \<Rightarrow> string result" where
  "addMinutes hostDate start minutes =
     toISOString (map_option (\<lambda>t. t + minutes * minuteMs) (dateParse hostDate start))"

definition grantSeed :: "grant_input \<Rightarrow> string \<Rightarrow> js" where
  "grantSeed input expiresAt = JObj
     [(''schemaVersion'', JStr ''onecomputer.personal-connector-grant.v1''),
      (''connectorId'', JStr (gi_connectorId input)),
      (''connectorKind'', JStr (kindText (gi_connectorKind input))),
      (''userId'', JStr (gi_userId input)),
      (''agentId'', JStr (gi_agentId input)),
      (''purpose'', JStr (trim (gi_purpose input))),
      (''scope'', scopeJs (gi_scope input)),
      (''accessMode'', JStr ''read_only''),
      (''issuedAt'', JStr (gi_issuedAt input)),
      (''expiresAt'', JStr expiresAt),
      (''maxItems'', JInt (gi_maxItems input))]"

definition createReadOnlyPersonalConnectorGrant ::
  "crypto \<Rightarrow> host_date \<Rightarrow> grant_input \<Rightarrow> connector_grant result" where
  "createReadOnlyPersonalConnectorGrant c hostDate input =
     (if orElse (gi_accessMode input) ''read_only'' \<noteq> ''read_only''
      then Inl (JsError ''Personal connector grants are read-only in the pilot'')
      else if gi_ttlMinutes input < 1 \<or> gi_ttlMinutes input > maxGrantTtlMinutes
      then Inl (JsError ''Personal connector grant TTL must be 1-60 minutes'')
      else if gi_maxItems input < 1 \<or> gi_maxItems input > maxGrantItems
      then Inl (JsError ''Personal connector maxItems must be 1-50'')
      else if u16length (trim (gi_purpose input)) < 8
      then Inl (JsError ''Personal connector grant purpose is required and must be specific'')
      else bindR (addMinutes hostDate (gi_issuedAt input) (gi_ttlMinutes input)) (\<lambda>expiresAt.
        bindR (digestJson c (grantSeed input expiresAt)) (\<lambda>grantHash.
          Inr \<lparr> gr_schemaVersion = ''onecomputer.personal-connector-grant.v1'',
                gr_grantId = shortId grantHash, gr_grantHash = grantHash,
                gr_connectorId = gi_connectorId input, gr_connectorKind = gi_connectorKind input,
                gr_userId = gi_userId input, gr_agentId = gi_agentId input,
                gr_purpose = trim (gi_purpose input), gr_scope = gi_scope input,
                gr_accessMode = ''read_only'', gr_issuedAt = gi_issuedAt input,
                gr_expiresAt = expiresAt, gr_maxItems = gi_maxItems input, gr_status = Active,
                gr_runtimeCredentialMode = ''broker_custodied_never_agent_runtime'',
                gr_evidenceRequired = True \<rparr>)))"

definition revokePersonalConnectorGrant :: "connector_grant \<Rightarrow> connector_grant" where
  "revokePersonalConnectorGrant grant = grant\<lparr>gr_status := Revoked\<rparr>"

text \<open>The runtime context is the object handed to the agent.\<close>

definition leakedKeys :: "obj \<Rightarrow> string list" where
  "leakedKeys context = filter (\<lambda>key. oget context key \<noteq> JUndef)
     [''credentialMaterial'', ''accessToken'', ''refreshToken'', ''password'', ''apiKey'']"

definition assertNoCredentialMaterialInRuntime :: "obj \<Rightarrow> unit result" where
  "assertNoCredentialMaterialInRuntime context =
     (let leaked = leakedKeys context
      in if length leaked > 0
         then Inl (JsError (''Personal connector credential material cannot enter agent runtime: ''
                @ joinStr '', '' leaked))
         else Inr ())"

section \<open>Retrieving\<close>

record retrieve_input =
  ri_grant :: connector_grant
  ri_query :: string
  ri_now :: string
  ri_sourceItems :: "source_item list"
  ri_requestedItems :: "int option"

text \<open>\<^verbatim>\<open>${n}\<close> of an integer.\<close>

definition intText :: "int \<Rightarrow> string" where
  "intText n = (if n < 0 then ''-'' else '''') @ showNat (nat \<bar>n\<bar>)"

definition ensureGrantUsable :: "host_date \<Rightarrow> connector_grant \<Rightarrow> string \<Rightarrow> int \<Rightarrow> unit result" where
  "ensureGrantUsable hostDate grant now requestedItems =
     (if gr_status grant \<noteq> Active then Inl (JsError ''Personal connector grant is revoked'')
      else if gr_accessMode grant \<noteq> ''read_only'' then Inl (JsError ''Personal connector grant is not read-only'')
      else if timeGt (dateParse hostDate now) (dateParse hostDate (gr_expiresAt grant))
      then Inl (JsError ''Personal connector grant is expired'')
      else if requestedItems > gr_maxItems grant
      then Inl (JsError (''Personal connector request exceeds grant maxItems '' @ intText (gr_maxItems grant)))
      else Inr ())"

definition snippetOf :: "crypto \<Rightarrow> source_item \<Rightarrow> connector_snippet" where
  "snippetOf c item =
     \<lparr> sn_itemId = si_itemId item, sn_title = si_title item, sn_snippet = u16take 500 (si_snippet item),
       sn_sourceUriHash =
         (case si_sourceUri item of
            None \<Rightarrow> None | Some uri \<Rightarrow> if uri = [] then None else Some (sha256Text c uri)),
       sn_receivedAt = si_receivedAt item, sn_labels = si_labels item \<rparr>"

definition retrievalSeed :: "retrieve_input \<Rightarrow> nat \<Rightarrow> string list \<Rightarrow> string list \<Rightarrow> js" where
  "retrievalSeed input returned snippetHashes sourceItemHashes = JObj
     [(''schemaVersion'', JStr ''onecomputer.personal-connector-retrieval.v1''),
      (''grantHash'', JStr (gr_grantHash (ri_grant input))),
      (''connectorId'', JStr (gr_connectorId (ri_grant input))),
      (''connectorKind'', JStr (kindText (gr_connectorKind (ri_grant input)))),
      (''agentId'', JStr (gr_agentId (ri_grant input))),
      (''purpose'', JStr (gr_purpose (ri_grant input))),
      (''query'', JStr (ri_query input)),
      (''returnedItems'', JInt (int returned)),
      (''snippetHashes'', JArr (map JStr snippetHashes)),
      (''sourceItemHashes'', JArr (map JStr sourceItemHashes))]"

definition requestedOf :: "retrieve_input \<Rightarrow> int" where
  "requestedOf input = (case ri_requestedItems input of
     None \<Rightarrow> min (int (length (ri_sourceItems input))) (gr_maxItems (ri_grant input)) | Some n \<Rightarrow> n)"

definition retrievePersonalConnectorSnippets ::
  "crypto \<Rightarrow> host_date \<Rightarrow> retrieve_input \<Rightarrow> connector_retrieval result" where
  "retrievePersonalConnectorSnippets c hostDate input =
     (let requestedItems = requestedOf input; grant = ri_grant input
      in bindR (ensureGrantUsable hostDate grant (ri_now input) requestedItems) (\<lambda>_.
        let selected = slice0 requestedItems (ri_sourceItems input);
            snippets = map (snippetOf c) selected
        in bindR (mapR (\<lambda>item. digestJson c (sourceItemJs item)) selected) (\<lambda>sourceItemHashes.
           bindR (mapR (\<lambda>s. digestJson c (snippetJs s)) snippets) (\<lambda>snippetHashes.
           bindR (digestJson c (retrievalSeed input (length snippets) snippetHashes sourceItemHashes)) (\<lambda>retrievalHash.
             Inr \<lparr> rt_schemaVersion = ''onecomputer.personal-connector-retrieval.v1'',
                   rt_retrievalId = shortId retrievalHash, rt_retrievalHash = retrievalHash,
                   rt_grantHash = gr_grantHash grant, rt_connectorId = gr_connectorId grant,
                   rt_connectorKind = gr_connectorKind grant, rt_agentId = gr_agentId grant,
                   rt_purpose = gr_purpose grant, rt_query = ri_query input,
                   rt_returnedItems = length snippets, rt_snippets = snippets,
                   rt_evidence = \<lparr> ev_source = ''personal_connector_broker'',
                     ev_rawCredentialExposedToRuntime = False, ev_rawContentStored = False,
                     ev_sourceItemHashes = sourceItemHashes \<rparr> \<rparr>)))))"

section \<open>The registry\<close>

record registry_entry =
  en_grant :: connector_grant
  en_retrievals :: "connector_retrieval list"
  en_lastAccessedAt :: "string option"

text \<open>The private \<^verbatim>\<open>Map\<close>, in insertion order.\<close>

type_synonym registry = "(string \<times> registry_entry) list"

fun mapSet :: "'k \<Rightarrow> 'v \<Rightarrow> ('k \<times> 'v) list \<Rightarrow> ('k \<times> 'v) list" where
  "mapSet k v [] = [(k, v)]"
| "mapSet k v ((k', v') # m) = (if k = k' then (k, v) # m else (k', v') # mapSet k v m)"

definition putGrant :: "connector_grant \<Rightarrow> registry \<Rightarrow> connector_grant \<times> registry" where
  "putGrant grant entries =
     (let existing = map_of entries (gr_grantId grant)
      in (grant, mapSet (gr_grantId grant)
            \<lparr> en_grant = grant,
              en_retrievals = (case existing of None \<Rightarrow> [] | Some e \<Rightarrow> en_retrievals e),
              en_lastAccessedAt = (case existing of None \<Rightarrow> None | Some e \<Rightarrow> en_lastAccessedAt e) \<rparr> entries))"

definition upsertGrant :: "connector_grant \<Rightarrow> registry \<Rightarrow> connector_grant \<times> registry" where
  "upsertGrant grant entries = putGrant grant entries"

definition revokeGrant :: "string \<Rightarrow> registry \<Rightarrow> (connector_grant \<times> registry) result" where
  "revokeGrant grantId entries =
     (case map_of entries grantId of
        None \<Rightarrow> Inl (JsError ''Personal connector grant not found'')
      | Some existing \<Rightarrow>
          (let grant = revokePersonalConnectorGrant (en_grant existing)
           in Inr (grant, mapSet grantId (existing\<lparr>en_grant := grant\<rparr>) entries)))"

definition appendRetrieval ::
  "string \<Rightarrow> connector_retrieval \<Rightarrow> string \<Rightarrow> registry \<Rightarrow> (connector_retrieval \<times> registry) result" where
  "appendRetrieval grantId retrieval accessedAt entries =
     (case map_of entries grantId of
        None \<Rightarrow> Inl (JsError ''Personal connector grant not found'')
      | Some existing \<Rightarrow>
          Inr (retrieval, mapSet grantId
            (existing\<lparr>en_retrievals := en_retrievals existing @ [retrieval],
                      en_lastAccessedAt := Some accessedAt\<rparr>) entries))"

definition listEntriesForUser :: "string \<Rightarrow> registry \<Rightarrow> registry_entry list" where
  "listEntriesForUser userId entries = filter (\<lambda>entry. gr_userId (en_grant entry) = userId) (map snd entries)"

section \<open>The privacy console\<close>

record console_summary =
  su_activeGrants :: nat
  su_revokedGrants :: nat
  su_connectors :: nat
  su_totalRetrievals :: nat

record console_grant =
  cg_grantId :: string
  cg_grantHash :: string
  cg_connectorId :: string
  cg_connectorKind :: connector_kind
  cg_agentId :: string
  cg_purpose :: string
  cg_scope :: connector_scope
  cg_accessMode :: string
  cg_status :: grant_status
  cg_issuedAt :: string
  cg_expiresAt :: string
  cg_maxItems :: int
  cg_lastAccessedAt :: "string option"
  cg_retrievalCount :: nat
  cg_userActions :: "string list"
  cg_adminVisibility :: string
  cg_vtiConsentTaskHints :: "string list"

record console_payload =
  cp_schemaVersion :: string
  cp_generatedAt :: string
  cp_userId :: string
  cp_summary :: console_summary
  cp_grants :: "console_grant list"

definition consoleGrant :: "registry_entry \<Rightarrow> console_grant" where
  "consoleGrant entry =
     (let g = en_grant entry in
      \<lparr> cg_grantId = gr_grantId g, cg_grantHash = gr_grantHash g, cg_connectorId = gr_connectorId g,
        cg_connectorKind = gr_connectorKind g, cg_agentId = gr_agentId g, cg_purpose = gr_purpose g,
        cg_scope = gr_scope g, cg_accessMode = gr_accessMode g, cg_status = gr_status g,
        cg_issuedAt = gr_issuedAt g, cg_expiresAt = gr_expiresAt g, cg_maxItems = gr_maxItems g,
        cg_lastAccessedAt = en_lastAccessedAt entry, cg_retrievalCount = length (en_retrievals entry),
        cg_userActions = [''pause'', ''revoke'', ''inspect_data_used''],
        cg_adminVisibility = ''metadata_risk_evidence_only_no_raw_personal_content'',
        cg_vtiConsentTaskHints =
          [''consent/request'', ''consent/decision'', ''auth/step-up/approve-request''] \<rparr>)"

definition buildPersonalConnectorPrivacyConsolePayload ::
  "string \<Rightarrow> registry_entry list \<Rightarrow> string option \<Rightarrow> console_payload" where
  "buildPersonalConnectorPrivacyConsolePayload userId entries generatedAt =
     (let grants = map consoleGrant entries in
      \<lparr> cp_schemaVersion = ''onecomputer.personal-connector-privacy-console.v1'',
        cp_generatedAt = orElse generatedAt ''2026-06-23T00:00:00.000Z'',
        cp_userId = userId,
        cp_summary =
          \<lparr> su_activeGrants = length (filter (\<lambda>g. cg_status g = Active) grants),
            su_revokedGrants = length (filter (\<lambda>g. cg_status g = Revoked) grants),
            su_connectors = length (remdups (map cg_connectorId grants)),
            su_totalRetrievals = foldl (\<lambda>count entry. count + length (en_retrievals entry)) 0 entries \<rparr>,
        cp_grants = grants \<rparr>)"

section \<open>The evidence export\<close>

record export_grant =
  xg_grantId :: string
  xg_grantHash :: string
  xg_connectorId :: string
  xg_connectorKind :: connector_kind
  xg_agentId :: string
  xg_purpose :: string
  xg_status :: grant_status
  xg_retrievalHashes :: "string list"
  xg_sourceItemHashes :: "string list"

record evidence_export =
  xp_schemaVersion :: string
  xp_exportId :: string
  xp_exportHash :: string
  xp_generatedAt :: string
  xp_userId :: string
  xp_adminView :: string
  xp_grants :: "export_grant list"

fun statusText :: "grant_status \<Rightarrow> string" where
  "statusText Active = ''active''"
| "statusText Revoked = ''revoked''"

definition exportGrant :: "registry_entry \<Rightarrow> export_grant" where
  "exportGrant entry =
     (let g = en_grant entry in
      \<lparr> xg_grantId = gr_grantId g, xg_grantHash = gr_grantHash g, xg_connectorId = gr_connectorId g,
        xg_connectorKind = gr_connectorKind g, xg_agentId = gr_agentId g, xg_purpose = gr_purpose g,
        xg_status = gr_status g, xg_retrievalHashes = map rt_retrievalHash (en_retrievals entry),
        xg_sourceItemHashes = concat (map (\<lambda>r. ev_sourceItemHashes (rt_evidence r)) (en_retrievals entry)) \<rparr>)"

definition exportGrantJs :: "export_grant \<Rightarrow> js" where
  "exportGrantJs g = JObj
     [(''grantId'', JStr (xg_grantId g)), (''grantHash'', JStr (xg_grantHash g)),
      (''connectorId'', JStr (xg_connectorId g)), (''connectorKind'', JStr (kindText (xg_connectorKind g))),
      (''agentId'', JStr (xg_agentId g)), (''purpose'', JStr (xg_purpose g)),
      (''status'', JStr (statusText (xg_status g))),
      (''retrievalHashes'', JArr (map JStr (xg_retrievalHashes g))),
      (''sourceItemHashes'', JArr (map JStr (xg_sourceItemHashes g)))]"

definition exportSeed :: "string \<Rightarrow> string \<Rightarrow> export_grant list \<Rightarrow> js" where
  "exportSeed generatedAt userId grants = JObj
     [(''schemaVersion'', JStr ''onecomputer.personal-connector-evidence-export.v1''),
      (''generatedAt'', JStr generatedAt), (''userId'', JStr userId),
      (''adminView'', JStr ''metadata_risk_evidence_only_no_raw_personal_content''),
      (''grants'', JArr (map exportGrantJs grants))]"

definition buildPersonalConnectorEvidenceExport ::
  "crypto \<Rightarrow> string \<Rightarrow> registry_entry list \<Rightarrow> string option \<Rightarrow> bool option \<Rightarrow> evidence_export result" where
  "buildPersonalConnectorEvidenceExport c userId entries generatedAt includeRawPersonalContent =
     (if orElse includeRawPersonalContent False
      then Inl (JsError (''Admin evidence export cannot include raw personal content ''
             @ ''without a separate incident/legal access process''))
      else
        (let generatedAt = orElse generatedAt ''2026-06-23T00:00:00.000Z'';
             grants = map exportGrant entries
         in bindR (digestJson c (exportSeed generatedAt userId grants)) (\<lambda>exportHash.
              Inr \<lparr> xp_schemaVersion = ''onecomputer.personal-connector-evidence-export.v1'',
                    xp_exportId = shortId exportHash, xp_exportHash = exportHash,
                    xp_generatedAt = generatedAt, xp_userId = userId,
                    xp_adminView = ''metadata_risk_evidence_only_no_raw_personal_content'',
                    xp_grants = grants \<rparr>)))"

section \<open>The sample payload\<close>

definition sampleGrantInput :: grant_input where
  "sampleGrantInput =
     \<lparr> gi_connectorId = ''gmail-personal-terence'', gi_connectorKind = Personal_gmail,
       gi_userId = ''user-terence'', gi_agentId = ''agent-executive-briefing'',
       gi_purpose = ''Prepare executive briefing using personal calendar context'',
       gi_scope = \<lparr> cs_labels = Some [''MFA''], cs_folders = None, cs_dateFrom = Some ''2026-06-01'',
         cs_dateTo = Some ''2026-06-23'', cs_query = Some ''MFA documents'' \<rparr>,
       gi_ttlMinutes = 30, gi_maxItems = 3, gi_issuedAt = ''2026-06-23T07:00:00.000Z'',
       gi_accessMode = None \<rparr>"

definition sampleItem :: source_item where
  "sampleItem =
     \<lparr> si_itemId = ''mail-1'', si_title = ''MFA folder update'',
       si_snippet = ''Personal reminder about the MFA review context.'',
       si_sourceUri = Some ''gmail://message/mail-1'', si_receivedAt = Some ''2026-06-22T08:00:00.000Z'',
       si_labels = Some [''MFA''] \<rparr>"

record sample_payload =
  sp_registryKind :: string
  sp_privacyConsole :: console_payload
  sp_latestRetrieval :: connector_retrieval

definition samplePersonalConnectorRegistryPayload :: "crypto \<Rightarrow> host_date \<Rightarrow> sample_payload result" where
  "samplePersonalConnectorRegistryPayload c hostDate =
     bindR (createReadOnlyPersonalConnectorGrant c hostDate sampleGrantInput) (\<lambda>created.
       let (grant, registry) = upsertGrant created []
       in bindR (retrievePersonalConnectorSnippets c hostDate
            \<lparr> ri_grant = grant, ri_query = ''MFA documents'', ri_now = ''2026-06-23T07:10:00.000Z'',
              ri_sourceItems = [sampleItem], ri_requestedItems = Some 1 \<rparr>) (\<lambda>retrieval.
          bindR (appendRetrieval (gr_grantId grant) retrieval ''2026-06-23T07:10:00.000Z'' registry) (\<lambda>(_, registry).
            Inr \<lparr> sp_registryKind = ''in_memory_preview_not_persistent'',
                  sp_privacyConsole = buildPersonalConnectorPrivacyConsolePayload ''user-terence''
                    (listEntriesForUser ''user-terence'' registry) None,
                  sp_latestRetrieval = retrieval \<rparr>)))"

section \<open>Lemmas on grants and retrievals\<close>

lemma js_wf_opt [simp]: "js_wf (optStr x)" "js_wf (nullStr x)" "js_wf (optStrs y)" "js_wf (scopeJs s)"
  by (auto simp: optStr_def nullStr_def optStrs_def scopeJs_def split: option.splits)

lemma hasJson_opt [simp]: "optStr x = JUndef \<or> hasJson (optStr x)" "optStrs y = JUndef \<or> hasJson (optStrs y)"
  by (simp_all add: optStr_def optStrs_def split: option.splits)

lemma hasJson_scope [simp]: "hasJson (scopeJs s)"
  unfolding scopeJs_def by (rule hasJson_obj) simp_all

lemma js_wf_seeds [simp]: "js_wf (grantSeed i e)" "js_wf (sourceItemJs item)" "js_wf (snippetJs sn)"
  "js_wf (retrievalSeed r n xs ys)"
  by (auto simp: grantSeed_def sourceItemJs_def snippetJs_def retrievalSeed_def)

lemma hasJson_seeds [simp]: "hasJson (grantSeed i e)" "hasJson (sourceItemJs item)" "hasJson (snippetJs sn)"
  "hasJson (retrievalSeed r n xs ys)"
  unfolding grantSeed_def sourceItemJs_def snippetJs_def retrievalSeed_def
  by (rule hasJson_obj; simp)+

lemma optStrs_inj [simp]: "jsonForm (optStrs x) = jsonForm (optStrs y) \<longleftrightarrow> x = y"
  by (auto simp: optStrs_def split: option.splits)

lemma scopeJs_inj: "jsonForm (scopeJs s) = jsonForm (scopeJs s') \<longleftrightarrow> s = s'"
proof
  assume eq: "jsonForm (scopeJs s) = jsonForm (scopeJs s')"
  have "jsonForm (oget (fieldsOf' s) k) = jsonForm (oget (fieldsOf' s') k)"
    if "fieldsOf' = (\<lambda>s. case scopeJs s of JObj kvs \<Rightarrow> kvs | _ \<Rightarrow> [])" for k fieldsOf'
  proof (rule jsonForm_objD)
    show "js_wf (JObj (fieldsOf' s))" "js_wf (JObj (fieldsOf' s'))"
      "hasJson (JObj (fieldsOf' s))" "hasJson (JObj (fieldsOf' s'))"
      "jsonForm (JObj (fieldsOf' s)) = jsonForm (JObj (fieldsOf' s'))"
      using js_wf_opt(4) [of s] js_wf_opt(4) [of s'] hasJson_scope [of s] hasJson_scope [of s'] eq
      unfolding that scopeJs_def js.case by blast+
  qed
  from this [OF refl, of "''labels''"] this [OF refl, of "''folders''"] this [OF refl, of "''dateFrom''"]
    this [OF refl, of "''dateTo''"] this [OF refl, of "''query''"]
  show "s = s'" by (simp add: scopeJs_def)
qed simp

lemma kindText_inj [simp]: "kindText a = kindText b \<longleftrightarrow> a = b"
  by (cases a; cases b) simp_all

lemma addMinutes_Inr:
  "addMinutes h s m = Inr e \<Longrightarrow>
   \<exists>t. dateParse h s = Some t \<and> \<bar>t + m * minuteMs\<bar> \<le> maxTime \<and> dateParse h e = Some (t + m * minuteMs)"
proof -
  assume e: "addMinutes h s m = Inr e"
  then obtain t where t: "dateParse h s = Some t" "toISOString (Some (t + m * minuteMs)) = Inr e"
    by (cases "dateParse h s") (auto simp: addMinutes_def toISOString_def)
  then have b: "\<bar>t + m * minuteMs\<bar> \<le> maxTime" by (auto simp: toISOString_def split: if_splits)
  with iso_read_written [OF this] t show ?thesis by (auto simp: dateParse_def)
qed

lemma addMinutes_defined:
  "dateParse h s = Some t \<Longrightarrow> \<bar>t + m * minuteMs\<bar> \<le> maxTime \<Longrightarrow> \<exists>e. addMinutes h s m = Inr e"
  using iso_read_written [of "t + m * minuteMs"] by (auto simp: addMinutes_def)

text \<open>What a created grant is.\<close>

lemma created_grant:
  assumes "createReadOnlyPersonalConnectorGrant c h i = Inr g"
  shows "orElse (gi_accessMode i) ''read_only'' = ''read_only''"
    "1 \<le> gi_ttlMinutes i" "gi_ttlMinutes i \<le> 60" "1 \<le> gi_maxItems i" "gi_maxItems i \<le> 50"
    "8 \<le> u16length (trim (gi_purpose i))"
    "addMinutes h (gi_issuedAt i) (gi_ttlMinutes i) = Inr (gr_expiresAt g)"
    "digestJson c (grantSeed i (gr_expiresAt g)) = Inr (gr_grantHash g)"
    "gr_grantId g = shortId (gr_grantHash g)" "gr_connectorId g = gi_connectorId i"
    "gr_connectorKind g = gi_connectorKind i" "gr_userId g = gi_userId i" "gr_agentId g = gi_agentId i"
    "gr_purpose g = trim (gi_purpose i)" "gr_scope g = gi_scope i" "gr_accessMode g = ''read_only''"
    "gr_issuedAt g = gi_issuedAt i" "gr_maxItems g = gi_maxItems i" "gr_status g = Active"
    "gr_schemaVersion g = ''onecomputer.personal-connector-grant.v1''"
    "gr_runtimeCredentialMode g = ''broker_custodied_never_agent_runtime''" "gr_evidenceRequired g"
  using assms
  by (auto simp: createReadOnlyPersonalConnectorGrant_def maxGrantTtlMinutes_def maxGrantItems_def
      bindR_Inr_iff split: if_splits)

lemma retrieval_Inr:
  assumes "retrievePersonalConnectorSnippets c h i = Inr r"
  shows "ensureGrantUsable h (ri_grant i) (ri_now i) (requestedOf i) = Inr ()"
    "rt_snippets r = map (snippetOf c) (slice0 (requestedOf i) (ri_sourceItems i))"
    "rt_returnedItems r = length (rt_snippets r)" "rt_grantHash r = gr_grantHash (ri_grant i)"
  using assms by (auto simp: retrievePersonalConnectorSnippets_def Let_def bindR_Inr_iff)

lemma retrieval_defined:
  assumes "ensureGrantUsable h (ri_grant i) (ri_now i) (requestedOf i) = Inr ()"
  shows "\<exists>r. retrievePersonalConnectorSnippets c h i = Inr r"
proof -
  have digests: "\<exists>hs. mapR (\<lambda>x. digestJson c (f x)) xs = Inr hs" if j: "\<And>x. hasJson (f x)" for f :: "'b \<Rightarrow> js" and xs
  proof -
    obtain g where "\<And>x. digestJson c (f x) = Inr (g x)" using digestJson_defined [OF j] by metis
    then show ?thesis by (metis mapR_total)
  qed
  obtain a where a: "mapR (\<lambda>item. digestJson c (sourceItemJs item)) (slice0 (requestedOf i) (ri_sourceItems i)) = Inr a"
    using digests [of sourceItemJs] by auto
  obtain b where b: "mapR (\<lambda>s. digestJson c (snippetJs s)) (map (snippetOf c) (slice0 (requestedOf i) (ri_sourceItems i))) = Inr b"
    using digests [of snippetJs] by auto
  obtain d where "digestJson c (retrievalSeed i (length (slice0 (requestedOf i) (ri_sourceItems i))) b a) = Inr d"
    using digestJson_defined [OF hasJson_seeds(4)] by blast
  with assms a b show ?thesis by (simp add: retrievePersonalConnectorSnippets_def Let_def)
qed

lemma ensureGrantUsable_iff:
  "ensureGrantUsable h g now n = Inr () \<longleftrightarrow>
   gr_status g = Active \<and> gr_accessMode g = ''read_only'' \<and>
   \<not> timeGt (dateParse h now) (dateParse h (gr_expiresAt g)) \<and> n \<le> gr_maxItems g"
  by (auto simp: ensureGrantUsable_def)

lemma grant_defined:
  assumes "orElse (gi_accessMode i) ''read_only'' = ''read_only''" "gi_ttlMinutes i \<in> {1..60}"
    "gi_maxItems i \<in> {1..50}" "8 \<le> u16length (trim (gi_purpose i))"
    "dateParse h (gi_issuedAt i) = Some t" "\<bar>t + gi_ttlMinutes i * minuteMs\<bar> \<le> maxTime"
  shows "\<exists>g. createReadOnlyPersonalConnectorGrant c h i = Inr g"
proof -
  obtain e where e: "addMinutes h (gi_issuedAt i) (gi_ttlMinutes i) = Inr e"
    using addMinutes_defined [OF assms(5,6)] by blast
  obtain x where "digestJson c (grantSeed i e) = Inr x"
    using digestJson_defined [OF hasJson_seeds(1)] by blast
  with e show ?thesis using assms(1-4)
    by (auto simp: createReadOnlyPersonalConnectorGrant_def maxGrantTtlMinutes_def maxGrantItems_def)
qed

lemma sample_grant:
  "\<exists>g. createReadOnlyPersonalConnectorGrant c h sampleGrantInput = Inr g"
proof (rule grant_defined)
  have "isoParse ''2026-06-23T07:00:00.000Z'' = Some 1782198000000" by code_simp
  then show "dateParse h (gi_issuedAt sampleGrantInput) = Some 1782198000000"
    by (simp add: sampleGrantInput_def dateParse_def)
  show "8 \<le> u16length (trim (gi_purpose sampleGrantInput))" by code_simp
qed (simp_all add: sampleGrantInput_def minuteMs_def maxTime_def)

lemma sample_window:
  "timeGt (dateParse h ''2026-06-23T07:10:00.000Z'') (Some (1782198000000 + 30 * minuteMs)) = False"
proof -
  have "isoParse ''2026-06-23T07:10:00.000Z'' = Some 1782198600000" by code_simp
  then show ?thesis by (simp add: dateParse_def timeGt_def minuteMs_def)
qed

lemma sample_usable:
  assumes "createReadOnlyPersonalConnectorGrant c h sampleGrantInput = Inr g" "n \<le> 3"
  shows "ensureGrantUsable h g ''2026-06-23T07:10:00.000Z'' n = Inr ()"
proof -
  have "isoParse ''2026-06-23T07:00:00.000Z'' = Some 1782198000000" by code_simp
  then have "dateParse h (gr_expiresAt g) = Some (1782198000000 + 30 * minuteMs)"
    using addMinutes_Inr [OF created_grant(7) [OF assms(1)]]
    by (simp add: sampleGrantInput_def dateParse_def)
  then show ?thesis using created_grant [OF assms(1)] assms(2) sample_window
    by (simp add: ensureGrantUsable_iff) (simp add: sampleGrantInput_def)
qed

lemma grant_hash_eq:
  assumes g: "createReadOnlyPersonalConnectorGrant c h i = Inr g"
    and g': "createReadOnlyPersonalConnectorGrant c h i' = Inr g'"
    and eq: "gr_grantHash g = gr_grantHash g'"
  shows "g = g' \<or> collision c"
proof (rule disjCI)
  assume nc: "\<not> collision c"
  obtain a b where s: "grantSeed i (gr_expiresAt g) = JObj a" "grantSeed i' (gr_expiresAt g') = JObj b"
    by (simp add: grantSeed_def)
  have "jsonForm (oget a k) = jsonForm (oget b k)" for k
    using digestJson_field [OF _ _ _ _ nc, of a b] js_wf_seeds(1) [of i "gr_expiresAt g"]
      js_wf_seeds(1) [of i' "gr_expiresAt g'"] created_grant(8) [OF g] created_grant(8) [OF g'] eq
    unfolding s by simp
  from this [of "''connectorId''"] this [of "''connectorKind''"] this [of "''userId''"] this [of "''agentId''"]
    this [of "''purpose''"] this [of "''scope''"] this [of "''issuedAt''"] this [of "''expiresAt''"]
    this [of "''maxItems''"]
  have "gi_connectorId i = gi_connectorId i'" "gi_connectorKind i = gi_connectorKind i'"
    "gi_userId i = gi_userId i'" "gi_agentId i = gi_agentId i'"
    "trim (gi_purpose i) = trim (gi_purpose i')" "gi_scope i = gi_scope i'"
    "gi_issuedAt i = gi_issuedAt i'" "gr_expiresAt g = gr_expiresAt g'" "gi_maxItems i = gi_maxItems i'"
    using s by (auto simp: grantSeed_def scopeJs_inj)
  with created_grant [OF g] created_grant [OF g'] eq show "g = g'" by simp
qed

section \<open>The registry as a keyed store\<close>

lemma map_of_mapSet: "map_of (mapSet k v m) = (map_of m)(k \<mapsto> v)"
  by (induction k v m rule: mapSet.induct) auto

lemma fst_mapSet: "map fst (mapSet k v m) = (if k \<in> fst ` set m then map fst m else map fst m @ [k])"
  by (induction k v m rule: mapSet.induct) auto

interpretation jsmap: keyed_store map_of mapSet "map fst"
  by unfold_locales (simp_all add: map_of_mapSet fst_mapSet map_of_eq_None_iff)

text \<open>What the operations of the class do to the registry.\<close>

inductive registry_step :: "registry \<Rightarrow> registry \<Rightarrow> bool" where
  step_put: "putGrant grant m = (grant', m') \<Longrightarrow> registry_step m m'"
| step_upsert: "upsertGrant grant m = (grant', m') \<Longrightarrow> registry_step m m'"
| step_revoke: "revokeGrant grantId m = Inr (grant', m') \<Longrightarrow> registry_step m m'"
| step_append: "appendRetrieval grantId retrieval accessedAt m = Inr (retrieval', m') \<Longrightarrow> registry_step m m'"

inductive registry_run :: "registry \<Rightarrow> registry \<Rightarrow> bool" where
  run_refl: "registry_run m m"
| run_step: "registry_run m m' \<Longrightarrow> registry_step m' m'' \<Longrightarrow> registry_run m m''"

inductive_cases registry_stepE: "registry_step m m'"

definition registry_ok :: "registry \<Rightarrow> bool" where
  "registry_ok m \<longleftrightarrow> distinct (map fst m) \<and> (\<forall>k e. map_of m k = Some e \<longrightarrow> gr_grantId (en_grant e) = k)"

text \<open>The entry of an id only grows: its retrievals keep their order and none is dropped.\<close>

definition grows :: "registry \<Rightarrow> registry \<Rightarrow> bool" where
  "grows m m' \<longleftrightarrow> (\<forall>k e. map_of m k = Some e \<longrightarrow>
     (\<exists>e' more. map_of m' k = Some e' \<and> en_retrievals e' = en_retrievals e @ more))"

lemma grows_refl: "grows m m"
  by (auto simp: grows_def)

lemma grows_trans: "grows m m' \<Longrightarrow> grows m' m'' \<Longrightarrow> grows m m''"
  unfolding grows_def by (metis append.assoc)

lemma putGrant_put:
  "putGrant g m = (g', m') \<Longrightarrow> \<exists>e. m' = mapSet (gr_grantId g) e m \<and> en_grant e = g \<and>
     (\<forall>e0. map_of m (gr_grantId g) = Some e0 \<longrightarrow> (\<exists>more. en_retrievals e = en_retrievals e0 @ more))"
  by (cases "map_of m (gr_grantId g)") (fastforce simp: putGrant_def Let_def)+

text \<open>Every step puts one entry under the id of its grant.\<close>

lemma registry_step_put:
  assumes "registry_step m m'" "registry_ok m"
  obtains k e where "m' = mapSet k e m" "gr_grantId (en_grant e) = k"
    "\<forall>e0. map_of m k = Some e0 \<longrightarrow> (\<exists>more. en_retrievals e = en_retrievals e0 @ more)"
  using assms(1)
proof cases
  case (step_put g g')
  then show thesis using putGrant_put that by metis
next
  case (step_upsert g g')
  then show thesis unfolding upsertGrant_def using putGrant_put that by metis
next
  case (step_revoke k g')
  then obtain e where e: "map_of m k = Some e"
      "m' = mapSet k (e\<lparr>en_grant := revokePersonalConnectorGrant (en_grant e)\<rparr>) m"
    by (auto simp: revokeGrant_def Let_def split: option.splits)
  then show thesis using assms(2) by (intro that [OF e(2)]) (auto simp: registry_ok_def revokePersonalConnectorGrant_def)
next
  case (step_append k r t r')
  then obtain e where e: "map_of m k = Some e"
      "m' = mapSet k (e\<lparr>en_retrievals := en_retrievals e @ [r], en_lastAccessedAt := Some t\<rparr>) m"
    by (auto simp: appendRetrieval_def split: option.splits)
  then show thesis using assms(2) by (intro that [OF e(2)]) (auto simp: registry_ok_def)
qed

lemma registry_step_ok:
  assumes "registry_step m m'" "registry_ok m"
  shows "registry_ok m' \<and> grows m m'"
  using assms
proof (rule registry_step_put)
  fix k e
  assume put: "m' = mapSet k e m" "gr_grantId (en_grant e) = k"
    "\<forall>e0. map_of m k = Some e0 \<longrightarrow> (\<exists>more. en_retrievals e = en_retrievals e0 @ more)"
  have "registry_ok m'"
    unfolding registry_ok_def put(1)
    using assms(2) put(2) jsmap.distinct_keys_put [of m k e] by (auto simp: registry_ok_def map_of_mapSet)
  moreover have "grows m m'" using put(3) by (auto simp: grows_def put(1) map_of_mapSet)
  ultimately show ?thesis by blast
qed

lemma registry_run_ok: "registry_run m m' \<Longrightarrow> registry_ok m \<Longrightarrow> registry_ok m' \<and> grows m m'"
  by (induction rule: registry_run.induct) (auto simp: grows_refl dest: registry_step_ok grows_trans)

lemma registry_ok_Nil [simp]: "registry_ok []"
  by (simp add: registry_ok_def)

section \<open>Properties\<close>

text \<open>A grant is created exactly for read-only requests of 1 to 60 minutes and 1 to 50 items with a
  purpose of at least eight characters and a readable time of issue.\<close>

lemma grant_created_iff:
  "(\<exists>g. createReadOnlyPersonalConnectorGrant c h i = Inr g) \<longleftrightarrow>
   orElse (gi_accessMode i) ''read_only'' = ''read_only'' \<and>
   gi_ttlMinutes i \<in> {1..60} \<and> gi_maxItems i \<in> {1..50} \<and> 8 \<le> u16length (trim (gi_purpose i)) \<and>
   (\<exists>t. dateParse h (gi_issuedAt i) = Some t \<and> \<bar>t + gi_ttlMinutes i * minuteMs\<bar> \<le> maxTime)"
  (is "?created \<longleftrightarrow> ?valid")
proof
  assume ?created
  then obtain g where g: "createReadOnlyPersonalConnectorGrant c h i = Inr g" by blast
  from created_grant [OF g] addMinutes_Inr [OF created_grant(7) [OF g]] show ?valid by auto
next
  assume ?valid
  then show ?created using grant_defined by blast
qed

text \<open>A created grant is usable for at most its number of items and until exactly its number of
  minutes after its issue; a \<^verbatim>\<open>now\<close> that is no date passes the expiry check. Revoked, it is never
  usable.\<close>

lemma grant_window:
  assumes "createReadOnlyPersonalConnectorGrant c h i = Inr g"
  shows "\<exists>t. dateParse h (gi_issuedAt i) = Some t \<and>
    (ensureGrantUsable h g now n = Inr () \<longleftrightarrow>
      n \<le> gi_maxItems i \<and>
      (case dateParse h now of None \<Rightarrow> True | Some u \<Rightarrow> u \<le> t + gi_ttlMinutes i * 60000)) \<and>
    ensureGrantUsable h (revokePersonalConnectorGrant g) now n \<noteq> Inr ()"
  using created_grant [OF assms] addMinutes_Inr [OF created_grant(7) [OF assms]]
  by (auto simp: ensureGrantUsable_iff revokePersonalConnectorGrant_def timeGt_def minuteMs_def split: option.splits)

lemma grant_window_witness:
  "\<exists>g t. createReadOnlyPersonalConnectorGrant toy_crypto (\<lambda>_. None) sampleGrantInput = Inr g \<and>
    (ensureGrantUsable (\<lambda>_. None) g ''1970-01-01'' 3 = Inr () \<longleftrightarrow>
      (case dateParse (\<lambda>_. None) ''1970-01-01'' of None \<Rightarrow> True | Some u \<Rightarrow> u \<le> t + 30 * 60000))"
proof -
  obtain g where g: "createReadOnlyPersonalConnectorGrant toy_crypto (\<lambda>_. None) sampleGrantInput = Inr g"
    using sample_grant by blast
  have n: "gi_ttlMinutes sampleGrantInput = 30" "gi_maxItems sampleGrantInput = 3"
    by (simp_all add: sampleGrantInput_def)
  obtain t where "ensureGrantUsable (\<lambda>_. None) g ''1970-01-01'' 3 = Inr () \<longleftrightarrow>
      (case dateParse (\<lambda>_. None) ''1970-01-01'' of None \<Rightarrow> True | Some u \<Rightarrow> u \<le> t + 30 * 60000)"
    using grant_window [OF g, of "''1970-01-01''" 3] unfolding n by auto
  with g show ?thesis by blast
qed

text \<open>The grant hash is the grant: two created grants with one hash are equal in every field, or
  SHA-256 has a collision.\<close>

lemma grant_hash_binds:
  assumes "createReadOnlyPersonalConnectorGrant c h i = Inr g"
    and "createReadOnlyPersonalConnectorGrant c h i' = Inr g'"
    and "gr_grantHash g = gr_grantHash g'"
  shows "g = g' \<or> collision c"
  using assms by (rule grant_hash_eq)

lemma grant_hash_binds_witness:
  "\<exists>g. createReadOnlyPersonalConnectorGrant toy_crypto (\<lambda>_. None) sampleGrantInput = Inr g \<and>
    (g = g \<or> collision toy_crypto)"
proof -
  obtain g where g: "createReadOnlyPersonalConnectorGrant toy_crypto (\<lambda>_. None) sampleGrantInput = Inr g"
    using sample_grant by blast
  from g grant_hash_binds [OF g g refl] show ?thesis by blast
qed



text \<open>The limit does not hold for negative requests: one for \<open>-k\<close> items passes every check of a
  usable grant and returns all but the last \<open>k\<close> source items, however few the grant allows.\<close>

lemma negative_request_unbounded:
  assumes "ensureGrantUsable h (ri_grant i) (ri_now i) 0 = Inr ()"
    and "ri_requestedItems i = Some (- int k)" "0 < k" "k \<le> length (ri_sourceItems i)"
  shows "\<exists>r. retrievePersonalConnectorSnippets c h i = Inr r \<and>
    rt_returnedItems r = length (ri_sourceItems i) - k"
proof -
  have n: "requestedOf i = - int k" using assms(2) by (simp add: requestedOf_def)
  have "ensureGrantUsable h (ri_grant i) (ri_now i) (requestedOf i) = Inr ()"
    using assms(1) by (simp add: ensureGrantUsable_iff n)
  from retrieval_defined [OF this] obtain r where r: "retrievePersonalConnectorSnippets c h i = Inr r" by blast
  have "length (slice0 (- int k) (ri_sourceItems i)) = length (ri_sourceItems i) - k"
    using assms(3,4) by (simp add: slice0_def nat_diff_distrib')
  with r retrieval_Inr [OF r] show ?thesis by (simp add: n)
qed

lemma negative_request_unbounded_witness:
  "\<exists>g r. retrievePersonalConnectorSnippets toy_crypto (\<lambda>_. None)
      \<lparr> ri_grant = g, ri_query = ''MFA'', ri_now = ''2026-06-23T07:10:00.000Z'',
        ri_sourceItems = replicate 9 sampleItem, ri_requestedItems = Some (-1) \<rparr> = Inr r \<and>
    gr_maxItems g = 3 \<and> rt_returnedItems r = 8"
proof -
  obtain g where g: "createReadOnlyPersonalConnectorGrant toy_crypto (\<lambda>_. None) sampleGrantInput = Inr g"
    using sample_grant by blast
  let ?i = "\<lparr> ri_grant = g, ri_query = ''MFA'', ri_now = ''2026-06-23T07:10:00.000Z'',
    ri_sourceItems = replicate 9 sampleItem, ri_requestedItems = Some (-1) \<rparr>"
  have "ensureGrantUsable (\<lambda>_. None) (ri_grant ?i) (ri_now ?i) 0 = Inr ()"
    using sample_usable [OF g] by simp
  from negative_request_unbounded [OF this, of 1]
  obtain r where "retrievePersonalConnectorSnippets toy_crypto (\<lambda>_. None) ?i = Inr r" "rt_returnedItems r = 8"
    by auto
  moreover have "gr_maxItems g = 3" using created_grant(18) [OF g] by (simp add: sampleGrantInput_def)
  ultimately show ?thesis by blast
qed

text \<open>Whatever the calls on the registry, starting from an empty one: every entry stands under the
  id of its own grant, no id twice, and from any moment on the retrievals of an entry are only
  appended to, also across revocation and re-issue of the grant.\<close>

lemma registry_history:
  assumes "registry_run [] m" "registry_run m m'"
  shows "distinct (map fst m') \<and>
    (\<forall>k e. map_of m' k = Some e \<longrightarrow> gr_grantId (en_grant e) = k) \<and>
    (\<forall>k e. map_of m k = Some e \<longrightarrow>
      (\<exists>e' more. map_of m' k = Some e' \<and> en_retrievals e' = en_retrievals e @ more))"
proof -
  have "registry_ok m" using registry_run_ok [OF assms(1)] by simp
  with registry_run_ok [OF assms(2)] show ?thesis unfolding registry_ok_def grows_def by blast
qed

lemma registry_history_witness:
  "\<exists>g m. registry_run [] m \<and> map_of m (gr_grantId g) =
      Some \<lparr> en_grant = g, en_retrievals = [], en_lastAccessedAt = None \<rparr> \<and> distinct (map fst m)"
proof -
  obtain g where "createReadOnlyPersonalConnectorGrant toy_crypto (\<lambda>_. None) sampleGrantInput = Inr g"
    using sample_grant by blast
  have "registry_run [] (snd (putGrant g []))"
    by (rule run_step [OF run_refl step_put [of g _ g]]) (simp add: putGrant_def)
  from registry_history [OF this run_refl] this show ?thesis
    by (intro exI [of _ g] exI [of _ "snd (putGrant g [])"]) (simp add: putGrant_def)
qed

lemma foldl_retrievals:
  "foldl (\<lambda>n e. n + length (en_retrievals e)) a es = a + sum_list (map (\<lambda>e. length (en_retrievals e)) es)"
  by (induction es arbitrary: a) auto

lemma filter_by_status:
  "length (filter (\<lambda>x. f x = Active) xs) + length (filter (\<lambda>x. f x = Revoked) xs) = length xs"
proof -
  have "s = Revoked \<longleftrightarrow> s \<noteq> Active" for s by (cases s) simp_all
  then show ?thesis by (simp only: sum_length_filter_compl)
qed



lemma js_wf_export [simp]: "js_wf (exportSeed t u gs)" "hasJson (exportSeed t u gs)"
proof -
  have g: "is_json (exportGrantJs g) \<and> js_wf (exportGrantJs g)" for g
    by (auto simp: exportGrantJs_def)
  then have "is_json (exportSeed t u gs) \<and> js_wf (exportSeed t u gs)"
    by (auto simp: exportSeed_def)
  then show "js_wf (exportSeed t u gs)" "hasJson (exportSeed t u gs)" by (simp_all add: hasJson_json)
qed

lemma statusText_inj [simp]: "statusText a = statusText b \<longleftrightarrow> a = b"
  by (cases a; cases b) simp_all

lemma canonForm_grantJs:
  "canonForm (exportGrantJs g) = canonForm (exportGrantJs g') \<Longrightarrow> g = g'"
proof -
  assume eq: "canonForm (exportGrantJs g) = canonForm (exportGrantJs g')"
  have j: "is_json (exportGrantJs g) \<and> js_wf (exportGrantJs g)" for g by (auto simp: exportGrantJs_def)
  obtain a b where ab: "exportGrantJs g = JObj a" "exportGrantJs g' = JObj b" by (simp add: exportGrantJs_def)
  have f: "jsonForm (oget a k) = jsonForm (oget b k)" for k
  proof (rule jsonForm_objD)
    show "js_wf (JObj a)" "js_wf (JObj b)" "hasJson (JObj a)" "hasJson (JObj b)"
      using j [of g] j [of g'] unfolding ab by (simp_all add: hasJson_json)
    show "jsonForm (JObj a) = jsonForm (JObj b)"
      using eq j [of g] j [of g'] unfolding ab by (simp add: jsonForm_def asJson_json del: canonForm.simps)
  qed
  from f [of "''grantId''"] f [of "''grantHash''"] f [of "''connectorId''"] f [of "''connectorKind''"]
    f [of "''agentId''"] f [of "''purpose''"] f [of "''status''"] f [of "''retrievalHashes''"]
    f [of "''sourceItemHashes''"]
  show "g = g'" using ab by (auto simp: exportGrantJs_def)
qed

text \<open>The evidence export refuses raw content, and its hash is the evidence: two exports with one
  hash are equal, or SHA-256 has a collision.\<close>

lemma evidence_export_binds:
  assumes x: "buildPersonalConnectorEvidenceExport c u es t raw = Inr x"
    and y: "buildPersonalConnectorEvidenceExport c u' es' t' raw' = Inr y"
    and eq: "xp_exportHash x = xp_exportHash y"
  shows "(x = y \<or> collision c) \<and> raw \<noteq> Some True"
proof
  show "raw \<noteq> Some True" using x by (auto simp: buildPersonalConnectorEvidenceExport_def)
  let ?t = "orElse t ''2026-06-23T00:00:00.000Z''" and ?t' = "orElse t' ''2026-06-23T00:00:00.000Z''"
  let ?gs = "map exportGrant es" and ?gs' = "map exportGrant es'"
  have hx: "digestJson c (exportSeed ?t u ?gs) = Inr (xp_exportHash x)"
    "digestJson c (exportSeed ?t' u' ?gs') = Inr (xp_exportHash x)"
    using x y eq by (auto simp: buildPersonalConnectorEvidenceExport_def Let_def bindR_Inr_iff split: if_splits)
  show "x = y \<or> collision c"
  proof (rule disjCI)
    assume nc: "\<not> collision c"
    obtain a b where ab: "exportSeed ?t u ?gs = JObj a" "exportSeed ?t' u' ?gs' = JObj b"
      by (simp add: exportSeed_def)
    have f: "jsonForm (oget a k) = jsonForm (oget b k)" for k
      using digestJson_field [OF _ _ _ _ nc, of a b] hx js_wf_export(1) unfolding ab by (metis ab)
    have "is_json (JArr (map exportGrantJs gs))" for gs by (auto simp: exportGrantJs_def)
    then have J: "jsonForm (JArr (map exportGrantJs gs)) = JArr (map (\<lambda>g. canonForm (exportGrantJs g)) gs)" for gs
      by (simp add: jsonForm_def asJson_json o_def)
    have "jsonForm (JArr (map exportGrantJs ?gs)) = jsonForm (JArr (map exportGrantJs ?gs'))"
      using f [of "''grants''"] ab by (auto simp: exportSeed_def)
    then have "map (\<lambda>g. canonForm (exportGrantJs g)) ?gs = map (\<lambda>g. canonForm (exportGrantJs g)) ?gs'"
      by (simp only: J js.inject)
    then have "?gs = ?gs'" by (rule map_injective) (auto intro!: injI canonForm_grantJs)
    moreover have "?t = ?t'" "u = u'"
      using f [of "''generatedAt''"] f [of "''userId''"] ab by (auto simp: exportSeed_def)
    ultimately show "x = y"
      using x y eq by (auto simp: buildPersonalConnectorEvidenceExport_def Let_def bindR_Inr_iff split: if_splits)
  qed
qed

lemma evidence_export_binds_witness:
  "\<exists>x. buildPersonalConnectorEvidenceExport toy_crypto ''user'' [] None None = Inr x \<and>
    (x = x \<or> collision toy_crypto)"
proof -
  obtain x where x: "buildPersonalConnectorEvidenceExport toy_crypto ''user'' [] None None = Inr x"
    using digestJson_defined [OF js_wf_export(2), of toy_crypto "''2026-06-23T00:00:00.000Z''" "''user''" "[]"]
    by (auto simp: buildPersonalConnectorEvidenceExport_def)
  from x evidence_export_binds [OF x x refl] show ?thesis by blast
qed

end
