(* ===== verification/Vti_Consent.thy ===== *)
theory Vti_Consent
  imports Connector_Broker Signer
begin

text \<open>
  \<^verbatim>\<open>packages/api/src/services/vti-consent-service.ts\<close>: trust-task envelopes for consent and step-up
  approval, and the decision whether a retrieval is authorised. An envelope is hashed over its
  seed; requests and responses refer to each other by these hashes. The random challenge, the
  document's uuid and the clock are arguments.
\<close>

section \<open>Envelopes\<close>

datatype task_type =
    Consent_request | Consent_decision | Step_up_approve_request | Step_up_approve_response | Verify_actor

fun taskTypeText :: "task_type \<Rightarrow> string" where
  "taskTypeText Consent_request = ''consent/request''"
| "taskTypeText Consent_decision = ''consent/decision''"
| "taskTypeText Step_up_approve_request = ''auth/step-up/approve-request''"
| "taskTypeText Step_up_approve_response = ''auth/step-up/approve-response''"
| "taskTypeText Verify_actor = ''auth/step-up/verify-actor''"

record 'p envelope =
  te_schemaVersion :: string
  te_taskType :: task_type
  te_taskId :: string
  te_taskHash :: string
  te_createdAt :: string
  te_requesterDid :: string
  te_subjectDid :: string
  te_agentDid :: string
  te_payload :: 'p
  te_proofMode :: string
  te_note :: string

definition envelopeSeed ::
  "task_type \<Rightarrow> string \<Rightarrow> string \<Rightarrow> string \<Rightarrow> string \<Rightarrow> js \<Rightarrow> obj" where
  "envelopeSeed taskType createdAt requesterDid subjectDid agentDid payload =
     [(''schemaVersion'', JStr ''onecomputer.vti-trust-task-envelope.v1''),
      (''taskType'', JStr (taskTypeText taskType)), (''createdAt'', JStr createdAt),
      (''requesterDid'', JStr requesterDid), (''subjectDid'', JStr subjectDid),
      (''agentDid'', JStr agentDid), (''payload'', payload),
      (''proofMode'', JStr ''external_vti_required'')]"

text \<open>The payload is hashed in its object form \<open>js_of\<close>.\<close>

definition buildEnvelope ::
  "crypto \<Rightarrow> ('p \<Rightarrow> js) \<Rightarrow> task_type \<Rightarrow> string \<Rightarrow> string \<Rightarrow> string \<Rightarrow> string \<Rightarrow> 'p \<Rightarrow> 'p envelope result" where
  "buildEnvelope c js_of taskType createdAt requesterDid subjectDid agentDid payload =
     bindR (digestJson c (JObj (envelopeSeed taskType createdAt requesterDid subjectDid agentDid (js_of payload))))
       (\<lambda>taskHash. Inr
         \<lparr> te_schemaVersion = ''onecomputer.vti-trust-task-envelope.v1'', te_taskType = taskType,
           te_taskId = shortId taskHash, te_taskHash = taskHash, te_createdAt = createdAt,
           te_requesterDid = requesterDid, te_subjectDid = subjectDid, te_agentDid = agentDid,
           te_payload = payload, te_proofMode = ''external_vti_required'',
           te_note = ''Adapter seam only. VTI/OpenVTC/Affinidi must perform DID/key/proof verification.'' \<rparr>)"

section \<open>Payloads\<close>

record consent_payload =
  co_grantHash :: string
  co_connectorId :: string
  co_connectorKind :: connector_kind
  co_agentId :: string
  co_purpose :: string
  co_scopeHash :: string
  co_accessMode :: string
  co_expiresAt :: string
  co_maxItems :: int
  co_requestedActionDigest :: string

definition consentPayloadJs :: "consent_payload \<Rightarrow> js" where
  "consentPayloadJs p = JObj
     [(''grantHash'', JStr (co_grantHash p)), (''connectorId'', JStr (co_connectorId p)),
      (''connectorKind'', JStr (kindText (co_connectorKind p))), (''agentId'', JStr (co_agentId p)),
      (''purpose'', JStr (co_purpose p)), (''scopeHash'', JStr (co_scopeHash p)),
      (''accessMode'', JStr (co_accessMode p)), (''expiresAt'', JStr (co_expiresAt p)),
      (''maxItems'', JInt (co_maxItems p)),
      (''requestedActionDigest'', JStr (co_requestedActionDigest p))]"

record decision_payload =
  de_requestTaskHash :: string
  de_grantHash :: string
  de_approved :: bool
  de_approverDid :: string
  de_approvedAt :: string
  de_expiresAt :: string
  de_reason :: "string option"

definition decisionPayloadJs :: "decision_payload \<Rightarrow> js" where
  "decisionPayloadJs p = JObj
     [(''requestTaskHash'', JStr (de_requestTaskHash p)), (''grantHash'', JStr (de_grantHash p)),
      (''approved'', JBool (de_approved p)), (''approverDid'', JStr (de_approverDid p)),
      (''approvedAt'', JStr (de_approvedAt p)), (''expiresAt'', JStr (de_expiresAt p)),
      (''reason'', optStr (de_reason p))]"

datatype assurance = Aal2 | Aal3
datatype step_up_method = Passkey | Biometric | Vta_mobile | Webauthn

fun assuranceText :: "assurance \<Rightarrow> string" where
  "assuranceText Aal2 = ''aal2''"
| "assuranceText Aal3 = ''aal3''"

fun methodText :: "step_up_method \<Rightarrow> string" where
  "methodText Passkey = ''passkey''"
| "methodText Biometric = ''biometric''"
| "methodText Vta_mobile = ''vta_mobile''"
| "methodText Webauthn = ''webauthn''"

record step_up_payload =
  su_stepUpRequestTaskHash :: string
  su_consentRequestTaskHash :: string
  su_requestedActionDigest :: string
  su_approved :: bool
  su_approverDid :: string
  su_approvedAt :: string
  su_expiresAt :: string
  su_assuranceLevel :: assurance
  su_method :: step_up_method

definition stepUpPayloadJs :: "step_up_payload \<Rightarrow> js" where
  "stepUpPayloadJs p = JObj
     [(''stepUpRequestTaskHash'', JStr (su_stepUpRequestTaskHash p)),
      (''consentRequestTaskHash'', JStr (su_consentRequestTaskHash p)),
      (''requestedActionDigest'', JStr (su_requestedActionDigest p)),
      (''approved'', JBool (su_approved p)), (''approverDid'', JStr (su_approverDid p)),
      (''approvedAt'', JStr (su_approvedAt p)), (''expiresAt'', JStr (su_expiresAt p)),
      (''assuranceLevel'', JStr (assuranceText (su_assuranceLevel p))),
      (''method'', JStr (methodText (su_method p)))]"

section \<open>Requests for a connector grant\<close>

record consent_binding =
  cb_consentRequest :: "consent_payload envelope"
  cb_stepUpRequest :: "consent_payload envelope"
  cb_requiredTrustTasks :: "string list"
  cb_failClosedIfUnavailable :: bool

definition buildPersonalConnectorConsentBinding ::
  "crypto \<Rightarrow> connector_grant \<Rightarrow> string \<Rightarrow> string \<Rightarrow> string \<Rightarrow> string \<Rightarrow> string \<Rightarrow> consent_binding result" where
  "buildPersonalConnectorConsentBinding c grant requesterDid subjectDid agentDid requestedActionDigest createdAt =
     bindR (digestJson c (scopeJs (gr_scope grant))) (\<lambda>scopeHash.
       let payload =
             \<lparr> co_grantHash = gr_grantHash grant, co_connectorId = gr_connectorId grant,
               co_connectorKind = gr_connectorKind grant, co_agentId = gr_agentId grant,
               co_purpose = gr_purpose grant, co_scopeHash = scopeHash, co_accessMode = ''read_only'',
               co_expiresAt = gr_expiresAt grant, co_maxItems = gr_maxItems grant,
               co_requestedActionDigest = requestedActionDigest \<rparr>
       in bindR (buildEnvelope c consentPayloadJs Consent_request createdAt requesterDid subjectDid agentDid payload)
            (\<lambda>consentRequest.
          bindR (buildEnvelope c consentPayloadJs Step_up_approve_request createdAt requesterDid subjectDid agentDid payload)
            (\<lambda>stepUpRequest.
          Inr \<lparr> cb_consentRequest = consentRequest, cb_stepUpRequest = stepUpRequest,
                cb_requiredTrustTasks = [''consent/request'', ''auth/step-up/approve-request''],
                cb_failClosedIfUnavailable = True \<rparr>)))"

definition buildConsentDecisionEnvelope ::
  "crypto \<Rightarrow> consent_payload envelope \<Rightarrow> string \<Rightarrow> bool \<Rightarrow> string \<Rightarrow> string \<Rightarrow> string option \<Rightarrow>
   decision_payload envelope result" where
  "buildConsentDecisionEnvelope c consentRequest approverDid approved approvedAt expiresAt reason =
     buildEnvelope c decisionPayloadJs Consent_decision approvedAt (te_requesterDid consentRequest)
       approverDid (te_agentDid consentRequest)
       \<lparr> de_requestTaskHash = te_taskHash consentRequest,
         de_grantHash = co_grantHash (te_payload consentRequest), de_approved = approved,
         de_approverDid = approverDid, de_approvedAt = approvedAt, de_expiresAt = expiresAt,
         de_reason = reason \<rparr>"

definition buildStepUpApprovalResponseEnvelope ::
  "crypto \<Rightarrow> consent_payload envelope \<Rightarrow> consent_payload envelope \<Rightarrow> string \<Rightarrow> bool \<Rightarrow> string \<Rightarrow> string \<Rightarrow>
   assurance \<Rightarrow> step_up_method \<Rightarrow> step_up_payload envelope result" where
  "buildStepUpApprovalResponseEnvelope c consentRequest stepUpRequest approverDid approved approvedAt
       expiresAt assuranceLevel meth =
     buildEnvelope c stepUpPayloadJs Step_up_approve_response approvedAt (te_requesterDid stepUpRequest)
       approverDid (te_agentDid stepUpRequest)
       \<lparr> su_stepUpRequestTaskHash = te_taskHash stepUpRequest,
         su_consentRequestTaskHash = te_taskHash consentRequest,
         su_requestedActionDigest = co_requestedActionDigest (te_payload stepUpRequest),
         su_approved = approved, su_approverDid = approverDid, su_approvedAt = approvedAt,
         su_expiresAt = expiresAt, su_assuranceLevel = assuranceLevel, su_method = meth \<rparr>"

section \<open>Verifying responses\<close>

record verification =
  vf_allowed :: bool
  vf_reason :: string
  vf_hash :: "string option" \<comment> \<open>\<^verbatim>\<open>decisionHash\<close> or \<^verbatim>\<open>responseHash\<close>\<close>
  vf_failClosed :: bool

definition denied :: "string \<Rightarrow> string option \<Rightarrow> verification" where
  "denied reason h = \<lparr> vf_allowed = False, vf_reason = reason, vf_hash = h, vf_failClosed = True \<rparr>"

definition verifyConsentDecision ::
  "host_date \<Rightarrow> connector_grant \<Rightarrow> consent_payload envelope \<Rightarrow> decision_payload envelope option \<Rightarrow> string \<Rightarrow>
   verification" where
  "verifyConsentDecision hostDate grant consentRequest decision now =
     (case decision of
        None \<Rightarrow> denied ''VTI consent decision unavailable; fail closed'' None
      | Some decision \<Rightarrow>
          (let payload = te_payload decision; h = Some (te_taskHash decision)
           in if \<not> de_approved payload then denied ''VTI consent decision denied'' h
              else if de_requestTaskHash payload \<noteq> te_taskHash consentRequest
              then denied ''VTI consent decision does not match request task hash'' h
              else if de_grantHash payload \<noteq> gr_grantHash grant
              then denied ''VTI consent decision does not match connector grant hash'' h
              else if timeGt (dateParse hostDate now) (dateParse hostDate (de_expiresAt payload))
              then denied ''VTI consent decision expired'' h
              else \<lparr> vf_allowed = True,
                     vf_reason = ''VTI consent decision approved for matching grant and request'',
                     vf_hash = h, vf_failClosed = True \<rparr>))"

definition verifyStepUpResponse ::
  "host_date \<Rightarrow> consent_payload envelope \<Rightarrow> consent_payload envelope \<Rightarrow> step_up_payload envelope option \<Rightarrow>
   string \<Rightarrow> verification" where
  "verifyStepUpResponse hostDate consentRequest stepUpRequest response now =
     (case response of
        None \<Rightarrow> denied ''VTI step-up response unavailable; fail closed'' None
      | Some response \<Rightarrow>
          (let payload = te_payload response; h = Some (te_taskHash response)
           in if \<not> su_approved payload then denied ''VTI step-up response denied'' h
              else if su_stepUpRequestTaskHash payload \<noteq> te_taskHash stepUpRequest
              then denied ''VTI step-up response does not match step-up request task hash'' h
              else if su_consentRequestTaskHash payload \<noteq> te_taskHash consentRequest
              then denied ''VTI step-up response does not match consent request task hash'' h
              else if su_requestedActionDigest payload \<noteq> co_requestedActionDigest (te_payload stepUpRequest)
              then denied ''VTI step-up response does not match requested action digest'' h
              else if timeGt (dateParse hostDate now) (dateParse hostDate (su_expiresAt payload))
              then denied ''VTI step-up response expired'' h
              else \<lparr> vf_allowed = True,
                     vf_reason = ''VTI step-up response approved for matching consent, request, and action digest'',
                     vf_hash = h, vf_failClosed = True \<rparr>))"

record authorization =
  az_allowed :: bool
  az_reason :: string
  az_failClosed :: bool
  az_consentDecisionHash :: "string option"
  az_stepUpResponseHash :: "string option"

definition authorizePersonalConnectorRetrievalWithVtiConsent ::
  "host_date \<Rightarrow> connector_grant \<Rightarrow> consent_payload envelope \<Rightarrow> decision_payload envelope option \<Rightarrow>
   consent_payload envelope \<Rightarrow> step_up_payload envelope option \<Rightarrow> string \<Rightarrow> authorization" where
  "authorizePersonalConnectorRetrievalWithVtiConsent hostDate grant consentRequest consentDecision
       stepUpRequest stepUpResponse now =
     (let consent = verifyConsentDecision hostDate grant consentRequest consentDecision now
      in if \<not> vf_allowed consent
         then \<lparr> az_allowed = False, az_reason = vf_reason consent, az_failClosed = True,
                az_consentDecisionHash = vf_hash consent, az_stepUpResponseHash = None \<rparr>
         else
           (let stepUp = verifyStepUpResponse hostDate consentRequest stepUpRequest stepUpResponse now
            in if \<not> vf_allowed stepUp
               then \<lparr> az_allowed = False, az_reason = vf_reason stepUp, az_failClosed = True,
                      az_consentDecisionHash = vf_hash consent, az_stepUpResponseHash = vf_hash stepUp \<rparr>
               else \<lparr> az_allowed = True,
                      az_reason = ''Personal connector retrieval authorized after matching VTI consent and step-up response'',
                      az_failClosed = True, az_consentDecisionHash = vf_hash consent,
                      az_stepUpResponseHash = vf_hash stepUp \<rparr>))"

section \<open>Step-up notifications for approvals\<close>

text \<open>The fields after the digest are those of the manager's envelope only.\<close>

record approval_payload =
  ap_approvalId :: string
  ap_action :: string
  ap_requestedBy :: string
  ap_agentId :: "string option"
  ap_context :: obj
  ap_humanSummary :: string
  ap_requestedActionDigest :: string
  ap_wallet :: "obj" \<comment> \<open>\<^verbatim>\<open>subject\<close> to \<^verbatim>\<open>ext\<close>; empty when absent\<close>

definition approvalPayloadJs :: "approval_payload \<Rightarrow> js" where
  "approvalPayloadJs p = JObj
     ([(''approvalId'', JStr (ap_approvalId p)), (''action'', JStr (ap_action p)),
       (''requestedBy'', JStr (ap_requestedBy p)), (''agentId'', optStr (ap_agentId p)),
       (''context'', JObj (ap_context p)), (''humanSummary'', JStr (ap_humanSummary p)),
       (''requestedActionDigest'', JStr (ap_requestedActionDigest p))] @ ap_wallet p)"

text \<open>The arrow is U+2192.\<close>

definition summarizeApprovalContext :: "string \<Rightarrow> obj \<Rightarrow> string" where
  "summarizeApprovalContext action context =
     (let recipient = (if isStr (oget context ''to'') then Some (strOf (oget context ''to''))
                       else if isStr (oget context ''recipient'') then Some (strOf (oget context ''recipient''))
                       else None);
          subject = (if isStr (oget context ''subject'') then Some (strOf (oget context ''subject'')) else None)
      in if set_nonempty recipient \<and> set_nonempty subject
         then action @ '': '' @ the subject @ '' '' @ [CHR 0xE2, CHR 0x86, CHR 0x92] @ '' '' @ the recipient
         else if set_nonempty recipient then action @ '': recipient '' @ the recipient
         else if set_nonempty subject then action @ '': '' @ the subject
         else action)"

record notification_input =
  ni_approvalId :: string
  ni_action :: string
  ni_requestedBy :: string
  ni_agentId :: "string option"
  ni_context :: obj
  ni_requesterDid :: string
  ni_subjectDid :: string \<comment> \<open>the manager, or for the actor's envelope the actor\<close>
  ni_agentDid :: string
  ni_createdAt :: string

definition actionDigest :: "crypto \<Rightarrow> notification_input \<Rightarrow> string result" where
  "actionDigest c input = digestJson c (JObj
     [(''approvalId'', JStr (ni_approvalId input)), (''action'', JStr (ni_action input)),
      (''requestedBy'', JStr (ni_requestedBy input)), (''agentId'', optStr (ni_agentId input)),
      (''context'', JObj (ni_context input))])"

definition authorizationContext :: "notification_input \<Rightarrow> string \<Rightarrow> js" where
  "authorizationContext input requestedActionDigest = JObj
     [(''approvalId'', JStr (ni_approvalId input)), (''action'', JStr (ni_action input)),
      (''requestedBy'', JStr (ni_requestedBy input)), (''agentId'', nullStr (ni_agentId input)),
      (''context'', JObj (ni_context input)), (''requestedActionDigest'', JStr requestedActionDigest)]"

text \<open>The wallet's part of the payload; the delivered document's payload is exactly this.\<close>

definition walletPayload :: "notification_input \<Rightarrow> string \<Rightarrow> string \<Rightarrow> obj" where
  "walletPayload input requestedActionDigest challenge =
     [(''subject'', JStr (ni_requesterDid input)), (''sessionId'', JStr (ni_approvalId input)),
      (''challenge'', JStr challenge),
      (''reason'', JStr (summarizeApprovalContext (ni_action input) (ni_context input))),
      (''targetAcr'', JStr ''aal2''),
      (''acceptableEvidence'', JArr [JStr ''did-signed'', JStr ''webauthn'']), (''ttl'', JInt 300),
      (''ext'', JObj [(''org.openvtc.authorization-context'',
         authorizationContext input requestedActionDigest)])]"

text \<open>\<open>challengeBytes\<close> and \<open>uuid\<close> are what \<^verbatim>\<open>randomBytes(32)\<close> and \<^verbatim>\<open>randomUUID()\<close> return, \<open>fresh\<close> the
  random seed of a development signing key, \<open>clock\<close> the time of the signature.\<close>

definition buildApprovalStepUpNotificationEnvelope ::
  "crypto \<Rightarrow> env \<Rightarrow> bytes \<Rightarrow> bytes \<Rightarrow> string \<Rightarrow> int \<Rightarrow> notification_input \<Rightarrow>
   (approval_payload envelope \<times> obj) result" where
  "buildApprovalStepUpNotificationEnvelope c env fresh challengeBytes uuid clock input =
     bindR (actionDigest c input) (\<lambda>requestedActionDigest.
       let challenge = to_base64url c challengeBytes;
           recipientDid = orElse (env ''OPENVTC_APPROVER_DID'') (ni_subjectDid input)
       in if env ''AUTH_MODE'' = Some ''openvtc'' \<and>
             (\<not> set_nonempty (env ''OPENVTC_APPROVER_DID'') \<or>
              \<not> startsWith (the (env ''OPENVTC_APPROVER_DID'')) ''did:'')
          then Inl (JsError (''OPENVTC_APPROVER_DID is required when AUTH_MODE=openvtc; ''
                 @ ''approval routing cannot fall back to a synthetic manager DID''))
          else bindR (loadSigningKey c env fresh) (\<lambda>rpKey.
            let rpDid = orElse (env ''OPENVTC_RP_DID'') (sk_did rpKey)
            in if rpDid \<noteq> sk_did rpKey
               then Inl (JsError (''OPENVTC_RP_DID ('' @ rpDid @ '') must match the RP signing key DID ('' @
                      sk_did rpKey @ '')''))
               else
                 bindR (buildEnvelope c approvalPayloadJs Step_up_approve_request (ni_createdAt input)
                   (ni_requesterDid input) (ni_subjectDid input) (ni_agentDid input)
                   \<lparr> ap_approvalId = ni_approvalId input, ap_action = ni_action input,
                     ap_requestedBy = ni_requestedBy input, ap_agentId = ni_agentId input,
                     ap_context = ni_context input,
                     ap_humanSummary = summarizeApprovalContext (ni_action input) (ni_context input),
                     ap_requestedActionDigest = requestedActionDigest,
                     ap_wallet = walletPayload input requestedActionDigest challenge \<rparr>) (\<lambda>adapterEnvelope.
                 bindR (signTrustTask c
                   [(''id'', JStr (''urn:uuid:'' @ uuid)),
                    (''type'', JStr ''https://trusttasks.org/spec/auth/step-up/approve-request/0.1''),
                    (''issuer'', JStr rpDid), (''recipient'', JStr recipientDid),
                    (''issuedAt'', JStr (ni_createdAt input)),
                    (''payload'', JObj (walletPayload input requestedActionDigest challenge))]
                   rpKey clock) (\<lambda>document.
                 Inr (adapterEnvelope, document)))))"

definition buildActorStepUpNotificationEnvelope ::
  "crypto \<Rightarrow> notification_input \<Rightarrow> approval_payload envelope result" where
  "buildActorStepUpNotificationEnvelope c input =
     bindR (actionDigest c input) (\<lambda>requestedActionDigest.
       buildEnvelope c approvalPayloadJs Verify_actor (ni_createdAt input)
         (ni_requesterDid input) (ni_subjectDid input) (ni_agentDid input)
         \<lparr> ap_approvalId = ni_approvalId input, ap_action = ni_action input,
           ap_requestedBy = ni_requestedBy input, ap_agentId = ni_agentId input,
           ap_context = ni_context input,
           ap_humanSummary = summarizeApprovalContext (ni_action input) (ni_context input),
           ap_requestedActionDigest = requestedActionDigest, ap_wallet = [] \<rparr>)"

section \<open>Lemmas\<close>

lemma taskTypeText_inj [simp]: "taskTypeText a = taskTypeText b \<longleftrightarrow> a = b"
  by (cases a; cases b) simp_all

lemma js_wf_envelopeSeed [simp]: "js_wf (JObj (envelopeSeed t w r s a p)) \<longleftrightarrow> js_wf p"
  by (auto simp: envelopeSeed_def)

lemma hasJson_envelopeSeed: "hasJson p \<Longrightarrow> hasJson (JObj (envelopeSeed t w r s a p))"
  unfolding envelopeSeed_def by (rule hasJson_obj) simp_all

lemma js_wf_payloads [simp]: "js_wf (consentPayloadJs p)" "js_wf (decisionPayloadJs d)" "js_wf (stepUpPayloadJs s)"
  by (auto simp: consentPayloadJs_def decisionPayloadJs_def stepUpPayloadJs_def)

lemma hasJson_payloads [simp]: "hasJson (consentPayloadJs p)" "hasJson (decisionPayloadJs d)" "hasJson (stepUpPayloadJs s)"
  unfolding consentPayloadJs_def decisionPayloadJs_def stepUpPayloadJs_def
  by (rule hasJson_obj; simp)+

lemma envelope_defined: "hasJson (js_of p) \<Longrightarrow> \<exists>e. buildEnvelope c js_of t w r s a p = Inr e"
  using digestJson_defined [OF hasJson_envelopeSeed, of "js_of p" c t w r s a]
  by (auto simp: buildEnvelope_def)

lemma envelope_Inr:
  assumes "buildEnvelope c js_of t w r s a p = Inr e"
  shows "te_payload e = p" "te_taskType e = t" "te_requesterDid e = r" "te_agentDid e = a"
    "te_subjectDid e = s" "te_createdAt e = w"
    "digestJson c (JObj (envelopeSeed t w r s a (js_of p))) = Inr (te_taskHash e)"
  using assms by (auto simp: buildEnvelope_def bindR_Inr_iff)

text \<open>One hash, one envelope.\<close>

lemma envelope_hash_binds:
  assumes "buildEnvelope c js_of t w r s a p = Inr e" "buildEnvelope c js_of' t' w' r' s' a' p' = Inr e'"
    and "js_wf (js_of p)" "js_wf (js_of' p')" "te_taskHash e = te_taskHash e'" "\<not> collision c"
  shows "t = t' \<and> w = w' \<and> r = r' \<and> s = s' \<and> a = a' \<and> jsonForm (js_of p) = jsonForm (js_of' p')"
proof -
  have f: "jsonForm (oget (envelopeSeed t w r s a (js_of p)) k) =
      jsonForm (oget (envelopeSeed t' w' r' s' a' (js_of' p')) k)" for k
    using digestJson_field [OF _ _ _ _ assms(6)] envelope_Inr(7) [OF assms(1)] envelope_Inr(7) [OF assms(2)]
      assms(3-5) by (metis js_wf_envelopeSeed)
  from f [of "''taskType''"] f [of "''createdAt''"] f [of "''requesterDid''"] f [of "''subjectDid''"]
    f [of "''agentDid''"] f [of "''payload''"]
  show ?thesis by (simp add: envelopeSeed_def)
qed

text \<open>Payload objects with one JSON form agree on every field.\<close>

lemma payload_field:
  assumes "jsonForm (JObj a) = jsonForm (JObj b)" "js_wf (JObj a)" "hasJson (JObj a)" "js_wf (JObj b)" "hasJson (JObj b)"
  shows "jsonForm (oget a k) = jsonForm (oget b k)"
  by (rule jsonForm_objD [OF assms(2-5) assms(1)])

lemma consentPayloadJs_inj:
  assumes "jsonForm (consentPayloadJs p) = jsonForm (consentPayloadJs q)"
  shows "p = q"
proof -
  obtain a b where ab: "consentPayloadJs p = JObj a" "consentPayloadJs q = JObj b" by (simp add: consentPayloadJs_def)
  have f: "jsonForm (oget a k) = jsonForm (oget b k)" for k
    by (rule payload_field) (use assms js_wf_payloads(1) hasJson_payloads(1) ab in metis)+
  from f [of "''grantHash''"] f [of "''connectorId''"] f [of "''connectorKind''"] f [of "''agentId''"]
    f [of "''purpose''"] f [of "''scopeHash''"] f [of "''accessMode''"] f [of "''expiresAt''"]
    f [of "''maxItems''"] f [of "''requestedActionDigest''"]
  show ?thesis using ab by (auto simp: consentPayloadJs_def)
qed

lemma verifyConsentDecision_allowed:
  "vf_allowed (verifyConsentDecision h g cr d now) \<longleftrightarrow>
   (\<exists>e. d = Some e \<and> de_approved (te_payload e) \<and> de_requestTaskHash (te_payload e) = te_taskHash cr \<and>
      de_grantHash (te_payload e) = gr_grantHash g \<and>
      \<not> timeGt (dateParse h now) (dateParse h (de_expiresAt (te_payload e))))"
  by (auto simp: verifyConsentDecision_def denied_def Let_def split: option.splits)

lemma verifyStepUpResponse_allowed:
  "vf_allowed (verifyStepUpResponse h cr sr d now) \<longleftrightarrow>
   (\<exists>e. d = Some e \<and> su_approved (te_payload e) \<and> su_stepUpRequestTaskHash (te_payload e) = te_taskHash sr \<and>
      su_consentRequestTaskHash (te_payload e) = te_taskHash cr \<and>
      su_requestedActionDigest (te_payload e) = co_requestedActionDigest (te_payload sr) \<and>
      \<not> timeGt (dateParse h now) (dateParse h (su_expiresAt (te_payload e))))"
  by (auto simp: verifyStepUpResponse_def denied_def Let_def split: option.splits)

lemma authorize_allowed:
  "az_allowed (authorizePersonalConnectorRetrievalWithVtiConsent h g cr d sr u now) \<longleftrightarrow>
   vf_allowed (verifyConsentDecision h g cr d now) \<and> vf_allowed (verifyStepUpResponse h cr sr u now)"
  by (simp add: authorizePersonalConnectorRetrievalWithVtiConsent_def Let_def)

lemma binding_Inr:
  assumes "buildPersonalConnectorConsentBinding c g r s a x w = Inr b"
  obtains p where "buildEnvelope c consentPayloadJs Consent_request w r s a p = Inr (cb_consentRequest b)"
    "buildEnvelope c consentPayloadJs Step_up_approve_request w r s a p = Inr (cb_stepUpRequest b)"
    "co_grantHash p = gr_grantHash g" "co_requestedActionDigest p = x" "co_maxItems p = gr_maxItems g"
  using assms by (auto simp: buildPersonalConnectorConsentBinding_def Let_def bindR_Inr_iff)

lemma binding_defined: "\<exists>b. buildPersonalConnectorConsentBinding c g r s a x w = Inr b"
proof -
  obtain sh where sh: "digestJson c (scopeJs (gr_scope g)) = Inr sh"
    using digestJson_defined [OF hasJson_scope] by blast
  let ?p = "\<lparr> co_grantHash = gr_grantHash g, co_connectorId = gr_connectorId g,
    co_connectorKind = gr_connectorKind g, co_agentId = gr_agentId g, co_purpose = gr_purpose g,
    co_scopeHash = sh, co_accessMode = ''read_only'', co_expiresAt = gr_expiresAt g,
    co_maxItems = gr_maxItems g, co_requestedActionDigest = x \<rparr>"
  obtain e f where "buildEnvelope c consentPayloadJs Consent_request w r s a ?p = Inr e"
    "buildEnvelope c consentPayloadJs Step_up_approve_request w r s a ?p = Inr f"
    using envelope_defined [where js_of = consentPayloadJs, OF hasJson_payloads(1)] by metis
  with sh show ?thesis by (simp add: buildPersonalConnectorConsentBinding_def)
qed

lemma actionDigest_defined:
  "is_json (JObj (ni_context input)) \<Longrightarrow> js_wf (JObj (ni_context input)) \<Longrightarrow> \<exists>x. actionDigest c input = Inr x"
  unfolding actionDigest_def
  by (rule digestJson_defined, rule hasJson_obj) (simp_all add: hasJson_json del: is_json.simps js_wf.simps)

lemma hasJson_approvalPayload:
  assumes "is_json (JObj (ap_context p))" "js_wf (JObj (ap_context p))"
    and "ap_wallet p = [] \<or> (\<exists>input x ch. ap_wallet p = walletPayload input x ch \<and> ni_context input = ap_context p)"
  shows "hasJson (approvalPayloadJs p)"
proof -
  have ctx: "hasJson (JObj (ap_context p))" using assms(1,2) by (rule hasJson_json)
  have a: "hasJson (authorizationContext input x)" if "ni_context input = ap_context p" for input x
    unfolding authorizationContext_def by (rule hasJson_obj) (use that ctx in \<open>auto simp: nullStr_def split: option.splits\<close>)
  have e: "hasJson (JObj [(''org.openvtc.authorization-context'', authorizationContext input x)])"
    if "ni_context input = ap_context p" for input x
    by (rule hasJson_obj) (use a [OF that] in simp_all)
  have l: "hasJson (JArr [JStr ''did-signed'', JStr ''webauthn''])" by (rule hasJson_json) simp_all
  from assms(3) show ?thesis
    unfolding approvalPayloadJs_def
    by (elim disjE exE conjE; intro hasJson_obj)
       (use ctx e l in \<open>auto simp: walletPayload_def\<close>)
qed

lemma actor_notification_defined:
  assumes "is_json (JObj (ni_context input))" "js_wf (JObj (ni_context input))"
  shows "\<exists>e. buildActorStepUpNotificationEnvelope c input = Inr e"
proof -
  obtain x where "actionDigest c input = Inr x" using actionDigest_defined [OF assms] by blast
  moreover have "hasJson (approvalPayloadJs \<lparr> ap_approvalId = ni_approvalId input, ap_action = ni_action input,
           ap_requestedBy = ni_requestedBy input, ap_agentId = ni_agentId input,
           ap_context = ni_context input,
           ap_humanSummary = summarizeApprovalContext (ni_action input) (ni_context input),
           ap_requestedActionDigest = x, ap_wallet = [] \<rparr>)"
    by (rule hasJson_approvalPayload) (use assms in simp_all)
  ultimately show ?thesis
    using envelope_defined [where js_of = approvalPayloadJs] by (simp add: buildActorStepUpNotificationEnvelope_def)
qed

text \<open>With a loadable key and consistent DIDs the notification is built.\<close>

lemma notification_defined:
  assumes ctx: "is_json (JObj (ni_context input))" "js_wf (JObj (ni_context input))"
    and key: "loadSigningKey c env fresh = Inr key" "orElse (env ''OPENVTC_RP_DID'') (sk_did key) = sk_did key"
    and approver: "env ''AUTH_MODE'' = Some ''openvtc'' \<Longrightarrow>
      set_nonempty (env ''OPENVTC_APPROVER_DID'') \<and> startsWith (the (env ''OPENVTC_APPROVER_DID'')) ''did:''"
    and clock: "\<bar>clock\<bar> \<le> maxTime"
  shows "\<exists>m d. buildApprovalStepUpNotificationEnvelope c env fresh challenge uuid clock input = Inr (m, d)"
proof -
  obtain x where x: "actionDigest c input = Inr x" using actionDigest_defined [OF ctx] by blast
  let ?w = "walletPayload input x (to_base64url c challenge)"
  let ?p = "\<lparr> ap_approvalId = ni_approvalId input, ap_action = ni_action input,
    ap_requestedBy = ni_requestedBy input, ap_agentId = ni_agentId input, ap_context = ni_context input,
    ap_humanSummary = summarizeApprovalContext (ni_action input) (ni_context input),
    ap_requestedActionDigest = x, ap_wallet = ?w \<rparr>"
  have "hasJson (approvalPayloadJs ?p)"
  proof (rule hasJson_approvalPayload)
    show "ap_wallet ?p = [] \<or> (\<exists>i y ch. ap_wallet ?p = walletPayload i y ch \<and> ni_context i = ap_context ?p)"
      by (intro disjI2 exI conjI) simp_all
  qed (use ctx in simp_all)
  then obtain e where e: "buildEnvelope c approvalPayloadJs Step_up_approve_request (ni_createdAt input)
      (ni_requesterDid input) (ni_subjectDid input) (ni_agentDid input) ?p = Inr e"
    using envelope_defined [where js_of = approvalPayloadJs] by blast
  obtain now where now: "rfc3339Now clock = Inr now" using rfc3339Now_defined [OF clock] by blast
  let ?doc = "[(''id'', JStr (''urn:uuid:'' @ uuid)),
        (''type'', JStr ''https://trusttasks.org/spec/auth/step-up/approve-request/0.1''),
        (''issuer'', JStr (sk_did key)),
        (''recipient'', JStr (orElse (env ''OPENVTC_APPROVER_DID'') (ni_subjectDid input))),
        (''issuedAt'', JStr (ni_createdAt input)), (''payload'', JObj ?w)]"
  have "jcs_ok (JObj (ni_context input))" using ctx(1) by (rule is_json_jcs_ok)
  moreover have "jcs_ok (JInt 300)" by (rule is_json_jcs_ok) (rule is_json_JInt)
  ultimately have "jcs_ok (JObj ?doc)" "js_wf (JObj ?doc)"
    using ctx(2) by (auto simp: walletPayload_def authorizationContext_def nullStr_def split: option.splits)
  then obtain h where "computeHashData c (JObj ?doc) (JObj (proofConfigOf now (sk_verificationMethodId key))) = Inr h"
    using computeHashData_defined proofConfigOf_ok by blast
  then have "\<exists>d. signTrustTask c ?doc key clock = Inr d" by (simp add: signTrustTask_def now)
  then show ?thesis
    using x key e approver by (auto simp: buildApprovalStepUpNotificationEnvelope_def Let_def)
qed

definition sampleNotification :: notification_input where
  "sampleNotification = \<lparr> ni_approvalId = ''a1'', ni_action = ''export'', ni_requestedBy = ''u'',
     ni_agentId = None, ni_context = [(''to'', JStr ''x'')], ni_requesterDid = ''did:r'',
     ni_subjectDid = ''did:m'', ni_agentDid = ''did:a'', ni_createdAt = ''2026-01-01T00:00:00.000Z'' \<rparr>"

definition sampleEnv :: env where
  "sampleEnv = [''NODE_ENV'' \<mapsto> ''development'']"

lemma sample_notification:
  "\<exists>m d. buildApprovalStepUpNotificationEnvelope toy_crypto sampleEnv (replicate 32 0) [1] ''u'' 0
     sampleNotification = Inr (m, d)"
proof -
  obtain key where "loadSigningKey toy_crypto sampleEnv (replicate 32 0) = Inr key"
    by (simp add: loadSigningKey_def sampleEnv_def isDevEnvironment_def set_nonempty_def Let_def)
  then show ?thesis
    by (rule notification_defined [rotated 2])
       (simp_all add: sampleEnv_def sampleNotification_def maxTime_def)
qed

section \<open>Properties\<close>

text \<open>C8. A retrieval is authorised exactly when an approving consent decision names this consent
  request and this grant, an approving step-up response names both requests and the requested action,
  and neither has expired; a missing answer denies.\<close>

theorem retrieval_authorized_iff:
  "az_allowed (authorizePersonalConnectorRetrievalWithVtiConsent h g cr decision sr response now) \<longleftrightarrow>
   (\<exists>d u. decision = Some d \<and> response = Some u \<and>
      de_approved (te_payload d) \<and> su_approved (te_payload u) \<and>
      de_requestTaskHash (te_payload d) = te_taskHash cr \<and>
      de_grantHash (te_payload d) = gr_grantHash g \<and>
      su_stepUpRequestTaskHash (te_payload u) = te_taskHash sr \<and>
      su_consentRequestTaskHash (te_payload u) = te_taskHash cr \<and>
      su_requestedActionDigest (te_payload u) = co_requestedActionDigest (te_payload sr) \<and>
      \<not> timeGt (dateParse h now) (dateParse h (de_expiresAt (te_payload d))) \<and>
      \<not> timeGt (dateParse h now) (dateParse h (su_expiresAt (te_payload u))))"
  unfolding authorize_allowed verifyConsentDecision_allowed verifyStepUpResponse_allowed by blast

text \<open>Consent does not travel: with the requests built for one created grant and the answers built
  for these requests, a retrieval under a created grant is authorised only if it is that very grant,
  both answers approve and both are in time - or SHA-256 has a collision.\<close>

lemma consent_is_for_one_grant:
  assumes g: "createReadOnlyPersonalConnectorGrant c h i = Inr g"
    and g0: "createReadOnlyPersonalConnectorGrant c h i0 = Inr g0"
    and b: "buildPersonalConnectorConsentBinding c g0 r s a x w = Inr b"
    and d: "buildConsentDecisionEnvelope c (cb_consentRequest b) who ok at until reason = Inr d"
    and u: "buildStepUpApprovalResponseEnvelope c (cb_consentRequest b) (cb_stepUpRequest b) who' ok' at' until' lvl m = Inr u"
  shows "(az_allowed (authorizePersonalConnectorRetrievalWithVtiConsent h g (cb_consentRequest b) (Some d)
      (cb_stepUpRequest b) (Some u) now) \<longrightarrow> g = g0 \<or> collision c) \<and>
    (az_allowed (authorizePersonalConnectorRetrievalWithVtiConsent h g0 (cb_consentRequest b) (Some d)
      (cb_stepUpRequest b) (Some u) now) \<longleftrightarrow>
     ok \<and> ok' \<and> \<not> timeGt (dateParse h now) (dateParse h until) \<and> \<not> timeGt (dateParse h now) (dateParse h until'))"
proof (intro conjI impI)
  obtain p where p: "te_payload (cb_consentRequest b) = p" "te_payload (cb_stepUpRequest b) = p"
    "co_grantHash p = gr_grantHash g0"
    using binding_Inr [OF b] envelope_Inr(1) by metis
  have d': "te_payload d = \<lparr> de_requestTaskHash = te_taskHash (cb_consentRequest b),
         de_grantHash = gr_grantHash g0, de_approved = ok,
         de_approverDid = who, de_approvedAt = at, de_expiresAt = until, de_reason = reason \<rparr>"
    using envelope_Inr(1) [OF d [unfolded buildConsentDecisionEnvelope_def]] p by simp
  note u' = envelope_Inr(1) [OF u [unfolded buildStepUpApprovalResponseEnvelope_def]]
  show "az_allowed (authorizePersonalConnectorRetrievalWithVtiConsent h g (cb_consentRequest b) (Some d)
      (cb_stepUpRequest b) (Some u) now) \<Longrightarrow> g = g0 \<or> collision c"
    using grant_hash_eq [OF g g0] d' by (simp add: authorize_allowed verifyConsentDecision_allowed)
  show "az_allowed (authorizePersonalConnectorRetrievalWithVtiConsent h g0 (cb_consentRequest b) (Some d)
      (cb_stepUpRequest b) (Some u) now) \<longleftrightarrow>
     ok \<and> ok' \<and> \<not> timeGt (dateParse h now) (dateParse h until) \<and> \<not> timeGt (dateParse h now) (dateParse h until')"
    using d' u' by (auto simp: authorize_allowed verifyConsentDecision_allowed verifyStepUpResponse_allowed)
qed

lemma consent_is_for_one_grant_witness:
  "\<exists>g (b :: consent_binding) d u. createReadOnlyPersonalConnectorGrant toy_crypto (\<lambda>_. None) sampleGrantInput = Inr g \<and>
    az_allowed (authorizePersonalConnectorRetrievalWithVtiConsent (\<lambda>_. None) g (cb_consentRequest b) (Some d)
      (cb_stepUpRequest b) (Some u) ''now'')"
proof -
  obtain g where g: "createReadOnlyPersonalConnectorGrant toy_crypto (\<lambda>_. None) sampleGrantInput = Inr g"
    using sample_grant by blast
  obtain b where b: "buildPersonalConnectorConsentBinding toy_crypto g ''r'' ''s'' ''a'' ''x'' ''w'' = Inr b"
    using binding_defined by blast
  obtain d where d: "buildConsentDecisionEnvelope toy_crypto (cb_consentRequest b) ''m'' True ''w'' ''later'' None = Inr d"
    unfolding buildConsentDecisionEnvelope_def using envelope_defined [where js_of = decisionPayloadJs, OF hasJson_payloads(2)] by blast
  obtain u where u: "buildStepUpApprovalResponseEnvelope toy_crypto (cb_consentRequest b) (cb_stepUpRequest b)
      ''m'' True ''w'' ''later'' Aal2 Passkey = Inr u"
    unfolding buildStepUpApprovalResponseEnvelope_def using envelope_defined [where js_of = stepUpPayloadJs, OF hasJson_payloads(3)] by blast
  have "isoParse ''now'' = None" by code_simp
  then have "\<not> timeGt (dateParse (\<lambda>_. None) ''now'') t" for t by (simp add: dateParse_def timeGt_def)
  with consent_is_for_one_grant [OF g g b d u, of "''now''"]
  have "az_allowed (authorizePersonalConnectorRetrievalWithVtiConsent (\<lambda>_. None) g (cb_consentRequest b) (Some d)
      (cb_stepUpRequest b) (Some u) ''now'')" by simp
  with g show ?thesis by (intro exI conjI)
qed

text \<open>The expiry check fails open: with matching answers whose \<^verbatim>\<open>expiresAt\<close> is no readable date, a
  retrieval is authorised at every time, for ever.\<close>

lemma unreadable_expiry_authorizes:
  assumes "dateParse h (de_expiresAt (te_payload d)) = None" "dateParse h (su_expiresAt (te_payload u)) = None"
    and "de_approved (te_payload d)" "su_approved (te_payload u)"
    and "de_requestTaskHash (te_payload d) = te_taskHash cr" "de_grantHash (te_payload d) = gr_grantHash g"
    and "su_stepUpRequestTaskHash (te_payload u) = te_taskHash sr"
    and "su_consentRequestTaskHash (te_payload u) = te_taskHash cr"
    and "su_requestedActionDigest (te_payload u) = co_requestedActionDigest (te_payload sr)"
  shows "az_allowed (authorizePersonalConnectorRetrievalWithVtiConsent h g cr (Some d) sr (Some u) now)"
proof -
  have "timeGt t None = False" for t by (cases t) (simp_all add: timeGt_def)
  with assms show ?thesis
    by (simp add: authorize_allowed verifyConsentDecision_allowed verifyStepUpResponse_allowed)
qed

lemma unreadable_expiry_authorizes_witness:
  "\<exists>g (b :: consent_binding) d u. de_expiresAt (te_payload d) = ''never'' \<and>
    az_allowed (authorizePersonalConnectorRetrievalWithVtiConsent (\<lambda>_. None) g (cb_consentRequest b) (Some d)
      (cb_stepUpRequest b) (Some u) ''9999-12-31'')"
proof -
  obtain g where g: "createReadOnlyPersonalConnectorGrant toy_crypto (\<lambda>_. None) sampleGrantInput = Inr g"
    using sample_grant by blast
  obtain b where b: "buildPersonalConnectorConsentBinding toy_crypto g ''r'' ''s'' ''a'' ''x'' ''w'' = Inr b"
    using binding_defined by blast
  obtain d where d: "buildConsentDecisionEnvelope toy_crypto (cb_consentRequest b) ''m'' True ''w'' ''never'' None = Inr d"
    unfolding buildConsentDecisionEnvelope_def using envelope_defined [where js_of = decisionPayloadJs, OF hasJson_payloads(2)] by blast
  obtain u where u: "buildStepUpApprovalResponseEnvelope toy_crypto (cb_consentRequest b) (cb_stepUpRequest b)
      ''m'' True ''w'' ''never'' Aal2 Passkey = Inr u"
    unfolding buildStepUpApprovalResponseEnvelope_def using envelope_defined [where js_of = stepUpPayloadJs, OF hasJson_payloads(3)] by blast
  obtain p where p: "te_payload (cb_consentRequest b) = p" "co_grantHash p = gr_grantHash g"
    using binding_Inr [OF b] envelope_Inr(1) by metis
  note d' = envelope_Inr(1) [OF d [unfolded buildConsentDecisionEnvelope_def]]
  note u' = envelope_Inr(1) [OF u [unfolded buildStepUpApprovalResponseEnvelope_def]]
  have "isoParse ''never'' = None" by code_simp
  then have never: "dateParse (\<lambda>_. None) ''never'' = None" by (simp add: dateParse_def)
  have "az_allowed (authorizePersonalConnectorRetrievalWithVtiConsent (\<lambda>_. None) g (cb_consentRequest b) (Some d)
      (cb_stepUpRequest b) (Some u) ''9999-12-31'')"
    by (rule unreadable_expiry_authorizes) (simp_all add: d' u' p never)
  moreover have "de_expiresAt (te_payload d) = ''never''" by (simp add: d')
  ultimately show ?thesis by (intro exI conjI)
qed

text \<open>The actor's and the manager's notification of one action carry the same action digest, and
  their task hashes differ, or SHA-256 has a collision: an answer to one is no answer to the other.\<close>

lemma actor_and_manager_correlated:
  assumes m: "buildApprovalStepUpNotificationEnvelope c env fresh challenge uuid clock input = Inr (manager, doc)"
    and a: "buildActorStepUpNotificationEnvelope c (input\<lparr>ni_subjectDid := actorDid\<rparr>) = Inr actor"
    and wf: "js_wf (JObj (ni_context input))"
  shows "ap_requestedActionDigest (te_payload manager) = ap_requestedActionDigest (te_payload actor) \<and>
    (te_taskHash manager \<noteq> te_taskHash actor \<or> collision c)"
proof -
  have dig: "actionDigest c (input\<lparr>ni_subjectDid := actorDid\<rparr>) = actionDigest c input"
    by (simp add: actionDigest_def)
  obtain x p where x: "actionDigest c input = Inr x" and
    e: "buildEnvelope c approvalPayloadJs Step_up_approve_request (ni_createdAt input)
       (ni_requesterDid input) (ni_subjectDid input) (ni_agentDid input) p = Inr manager" and
    p: "ap_requestedActionDigest p = x" "ap_context p = ni_context input"
       "ap_wallet p = walletPayload input x (to_base64url c challenge)"
    using m by (auto simp: buildApprovalStepUpNotificationEnvelope_def Let_def bindR_Inr_iff split: if_splits)
  obtain q where e': "buildEnvelope c approvalPayloadJs Verify_actor (ni_createdAt input)
       (ni_requesterDid input) actorDid (ni_agentDid input) q = Inr actor"
    and q: "ap_requestedActionDigest q = x" "ap_context q = ni_context input" "ap_wallet q = []"
    using a x by (auto simp: buildActorStepUpNotificationEnvelope_def dig)
  have "js_wf (approvalPayloadJs p)" "js_wf (approvalPayloadJs q)"
    using wf by (auto simp: approvalPayloadJs_def p q walletPayload_def authorizationContext_def)
  then have "te_taskHash manager \<noteq> te_taskHash actor \<or> collision c"
    using envelope_hash_binds [OF e e'] by blast
  with p q envelope_Inr(1) [OF e] envelope_Inr(1) [OF e'] show ?thesis by simp
qed

lemma actor_and_manager_correlated_witness:
  "\<exists>manager doc actor.
    buildApprovalStepUpNotificationEnvelope toy_crypto sampleEnv (replicate 32 0) [1] ''u'' 0 sampleNotification =
      Inr (manager, doc) \<and>
    buildActorStepUpNotificationEnvelope toy_crypto (sampleNotification\<lparr>ni_subjectDid := ''did:actor''\<rparr>) = Inr actor \<and>
    ap_requestedActionDigest (te_payload manager) = ap_requestedActionDigest (te_payload actor)"
proof -
  obtain manager doc where m: "buildApprovalStepUpNotificationEnvelope toy_crypto sampleEnv (replicate 32 0) [1] ''u'' 0
      sampleNotification = Inr (manager, doc)"
    using sample_notification by blast
  obtain actor where a: "buildActorStepUpNotificationEnvelope toy_crypto
      (sampleNotification\<lparr>ni_subjectDid := ''did:actor''\<rparr>) = Inr actor"
    using actor_notification_defined [of "sampleNotification\<lparr>ni_subjectDid := ''did:actor''\<rparr>"]
    by (auto simp: sampleNotification_def)
  from actor_and_manager_correlated [OF m a] m a show ?thesis
    by (auto simp: sampleNotification_def)
qed

text \<open>What the wallet receives: a document issued under the service's own signing DID, carrying the
  authorisation context of exactly this action with its digest, and in OpenVTC mode addressed to the
  configured approver DID, never to the synthetic manager DID of the request.\<close>

lemma notification_document:
  assumes "buildApprovalStepUpNotificationEnvelope c env fresh challenge uuid clock input = Inr (manager, doc)"
  shows "\<exists>key. loadSigningKey c env fresh = Inr key \<and> oget doc ''issuer'' = JStr (sk_did key) \<and>
    jsProp (oget doc ''proof'') ''verificationMethod'' = JStr (sk_verificationMethodId key) \<and>
    jsProp (jsProp (oget doc ''payload'') ''ext'') ''org.openvtc.authorization-context'' =
      authorizationContext input (ap_requestedActionDigest (te_payload manager)) \<and>
    (env ''AUTH_MODE'' = Some ''openvtc'' \<longrightarrow>
      (\<exists>did. env ''OPENVTC_APPROVER_DID'' = Some did \<and> startsWith did ''did:'' \<and>
         oget doc ''recipient'' = JStr did))"
proof -
  obtain x key w where x: "loadSigningKey c env fresh = Inr key" "orElse (env ''OPENVTC_RP_DID'') (sk_did key) = sk_did key"
    "buildEnvelope c approvalPayloadJs Step_up_approve_request (ni_createdAt input)
       (ni_requesterDid input) (ni_subjectDid input) (ni_agentDid input)
       \<lparr> ap_approvalId = ni_approvalId input, ap_action = ni_action input,
         ap_requestedBy = ni_requestedBy input, ap_agentId = ni_agentId input,
         ap_context = ni_context input,
         ap_humanSummary = summarizeApprovalContext (ni_action input) (ni_context input),
         ap_requestedActionDigest = x, ap_wallet = w \<rparr> = Inr manager"
    "signTrustTask c
       [(''id'', JStr (''urn:uuid:'' @ uuid)),
        (''type'', JStr ''https://trusttasks.org/spec/auth/step-up/approve-request/0.1''),
        (''issuer'', JStr (sk_did key)),
        (''recipient'', JStr (orElse (env ''OPENVTC_APPROVER_DID'') (ni_subjectDid input))),
        (''issuedAt'', JStr (ni_createdAt input)),
        (''payload'', JObj (walletPayload input x (to_base64url c challenge)))] key clock = Inr doc"
    "env ''AUTH_MODE'' = Some ''openvtc'' \<Longrightarrow> set_nonempty (env ''OPENVTC_APPROVER_DID'') \<and>
       startsWith (the (env ''OPENVTC_APPROVER_DID'')) ''did:''"
    using assms by (auto simp: buildApprovalStepUpNotificationEnvelope_def Let_def bindR_Inr_iff split: if_splits)
  have "ap_requestedActionDigest (te_payload manager) = x" using envelope_Inr(1) [OF x(3)] by simp
  moreover have "env ''AUTH_MODE'' = Some ''openvtc'' \<longrightarrow>
      (\<exists>did. env ''OPENVTC_APPROVER_DID'' = Some did \<and> startsWith did ''did:'' \<and>
         orElse (env ''OPENVTC_APPROVER_DID'') (ni_subjectDid input) = did)"
    using x(5) by (auto simp: set_nonempty_def)
  ultimately show ?thesis using x(1,4)
    by (auto simp: signTrustTask_def Let_def bindR_Inr_iff walletPayload_def proofConfigOf_def)
qed

lemma notification_document_witness:
  "\<exists>manager doc. buildApprovalStepUpNotificationEnvelope toy_crypto sampleEnv (replicate 32 0) [1] ''u'' 0
      sampleNotification = Inr (manager, doc) \<and>
    (\<exists>key. loadSigningKey toy_crypto sampleEnv (replicate 32 0) = Inr key \<and> oget doc ''issuer'' = JStr (sk_did key))"
proof -
  obtain manager doc where m: "buildApprovalStepUpNotificationEnvelope toy_crypto sampleEnv (replicate 32 0) [1] ''u'' 0
      sampleNotification = Inr (manager, doc)"
    using sample_notification by blast
  from notification_document [OF m] m show ?thesis by blast
qed

end
