(* ===== verification/Vti_Transport.thy ===== *)
theory Vti_Transport
  imports Canonical_Json Iso_Date Runtime
begin

text \<open>
  \<^verbatim>\<open>packages/api/src/services/vti-transport-service.ts\<close>: queueing an approval's trust task with the
  configured transport. \<^verbatim>\<open>fetch\<close> is a parameter: it answers a request with a response, or throws. The
  result pairs the receipt (or the error) with the requests sent, so that what leaves the process
  can be stated.
\<close>

section \<open>Requests and responses\<close>

record http_request =
  rq_url :: string
  rq_headers :: "(string \<times> string) list"
  rq_body :: string

text \<open>\<open>rs_json\<close> is what \<^verbatim>\<open>response.json()\<close> yields; \<open>None\<close> when the body is no JSON.\<close>

record http_response =
  rs_ok :: bool
  rs_status :: nat
  rs_json :: "js option"

type_synonym fetch = "http_request \<Rightarrow> http_response result"

datatype transport_adapter = Vti_outbox_local | Openvtc_task_endpoint_rest | Openvtc_didcomm_bridge

record transport_receipt =
  tr_adapter :: transport_adapter
  tr_receiptId :: string
  tr_queuedAt :: string

type_synonym dispatch = "transport_receipt result \<times> http_request list"

section \<open>Dispatching\<close>

definition configuredBinding :: "env \<Rightarrow> string" where
  "configuredBinding env =
     orElse (env ''OPENVTC_TRANSPORT_BINDING'')
       (if env ''AUTH_MODE'' = Some ''openvtc'' then ''tsp'' else ''local'')"

definition taskEndpoint :: "env \<Rightarrow> string option" where
  "taskEndpoint env = env ''OPENVTC_TASK_ENDPOINT_URL''"

definition taskBody :: "string \<Rightarrow> string \<Rightarrow> string \<Rightarrow> js \<Rightarrow> js" where
  "taskBody protocol version approvalId document = JObj
     [(''protocol'', JStr protocol), (''version'', JStr version), (''approvalId'', JStr approvalId),
      (''document'', document), (''push'', JObj [(''contentless'', JBool True)])]"

text \<open>The receipt id of the response body; reading a property of null throws.\<close>

definition receiptIdOf :: "js option \<Rightarrow> string \<Rightarrow> string result" where
  "receiptIdOf json fallback =
     (let body = (case json of None \<Rightarrow> JObj [] | Some v \<Rightarrow> v)
      in if nullish body then Inl (JsError ''Cannot read properties of null (reading receiptId)'')
         else if isStr (jsProp body ''receiptId'')
         then (case jsProp body ''receiptId'' of JStr s \<Rightarrow> Inr s | _ \<Rightarrow> Inr fallback)
         else Inr fallback)"

text \<open>Send, check the status, read the receipt.\<close>

definition sendTask ::
  "fetch \<Rightarrow> int \<Rightarrow> transport_adapter \<Rightarrow> string \<Rightarrow> (string \<times> string) list \<Rightarrow> js \<Rightarrow> (nat \<Rightarrow> string) \<Rightarrow> string \<Rightarrow> dispatch" where
  "sendTask fetch clock adapter endpoint headers body rejected fallback =
     (case JSON_stringify body of
        Inl e \<Rightarrow> (Inl e, [])
      | Inr body_text \<Rightarrow>
          (let request = \<lparr> rq_url = endpoint, rq_headers = headers, rq_body = orElse body_text '''' \<rparr>
           in (bindR (fetch request) (\<lambda>response.
                 if \<not> rs_ok response then Inl (JsError (rejected (rs_status response)))
                 else bindR (receiptIdOf (rs_json response) fallback) (\<lambda>receiptId.
                      bindR (toISOString (Some clock)) (\<lambda>queuedAt.
                        Inr \<lparr> tr_adapter = adapter, tr_receiptId = receiptId, tr_queuedAt = queuedAt \<rparr>))),
               [request])))"

definition dispatchApprovalTrustTask ::
  "env \<Rightarrow> fetch \<Rightarrow> int \<Rightarrow> string \<Rightarrow> js \<Rightarrow> dispatch" where
  "dispatchApprovalTrustTask env fetch clock approvalId document =
     (let binding = configuredBinding env; endpoint = taskEndpoint env
      in if binding = ''local'' then
           (if env ''AUTH_MODE'' = Some ''openvtc''
            then (Inl (JsError ''local VTI delivery is forbidden when AUTH_MODE=openvtc''), [])
            else (bindR (toISOString (Some clock)) (\<lambda>queuedAt.
                    Inr \<lparr> tr_adapter = Vti_outbox_local, tr_receiptId = ''local:'' @ approvalId,
                          tr_queuedAt = queuedAt \<rparr>), []))
         else if binding = ''didcomm'' then
           (if \<not> set_nonempty endpoint
            then (Inl (JsError ''OPENVTC_TASK_ENDPOINT_URL is required for the OpenVTC DIDComm bridge''), [])
            else if \<not> startsWith (the endpoint) ''http://127.0.0.1:'' \<and>
                    \<not> startsWith (the endpoint) ''http://localhost:''
            then (Inl (JsError (''OpenVTC DIDComm bridge endpoint must be loopback-only; ''
                    @ ''do not expose the wallet adapter over the network'')), [])
            else sendTask fetch clock Openvtc_didcomm_bridge (the endpoint)
                   [(''content-type'', ''application/json''),
                    (''idempotency-key'', ''onecomputer-approval:'' @ approvalId)]
                   (taskBody ''openvtc-trust-task-didcomm'' ''1.0'' approvalId document)
                   (\<lambda>status. ''OpenVTC DIDComm bridge rejected approval '' @ approvalId @ '': HTTP '' @ showNat status)
                   (''didcomm:'' @ approvalId))
         else if binding \<noteq> ''rest'' then
           (Inl (JsError (''OpenVTC '' @ binding @ '' transport is not configured yet; TSP is preferred, ''
              @ ''DIDComm is the fallback, and local delivery is forbidden in OpenVTC mode'')), [])
         else if \<not> set_nonempty endpoint
         then (Inl (JsError (''OPENVTC_TASK_ENDPOINT_URL is required for the explicit REST contract-test adapter'')), [])
         else if env ''AUTH_MODE'' = Some ''openvtc'' \<and> \<not> startsWith (the endpoint) ''https://'' \<and>
                 env ''ONECOMPUTER_ENV'' \<noteq> Some ''local'' \<and> env ''ONECOMPUTER_ENV'' \<noteq> Some ''dev''
         then (Inl (JsError ''OpenVTC task endpoint must use HTTPS outside local/dev environments''), [])
         else sendTask fetch clock Openvtc_task_endpoint_rest (the endpoint)
                ([(''content-type'', ''application/json'')] @
                 (if set_nonempty (env ''OPENVTC_TASK_ENDPOINT_BEARER'')
                  then [(''authorization'', ''Bearer '' @ the (env ''OPENVTC_TASK_ENDPOINT_BEARER''))] else []) @
                 [(''idempotency-key'', ''onecomputer-approval:'' @ approvalId)])
                (taskBody ''openvtc-trust-task-queue'' ''0.1'' approvalId document)
                (\<lambda>status. ''OpenVTC task endpoint rejected approval '' @ approvalId @ '': HTTP '' @ showNat status)
                (''rest:'' @ approvalId))"

section \<open>Lemmas\<close>

lemma stringify_object: "JSON_stringify (JObj kvs) = Inr t \<Longrightarrow> \<exists>s. t = Some s"
  by (auto simp: JSON_stringify_def bindR_Inr_iff)

lemma sendTask_receipt:
  assumes "fst (sendTask f t a url hs (JObj b) rej fb) = Inr receipt"
  shows "\<exists>r response. snd (sendTask f t a url hs (JObj b) rej fb) = [r] \<and> rq_url r = url \<and> rq_headers r = hs \<and>
    tr_adapter receipt = a \<and> f r = Inr response \<and> rs_ok response \<and>
    JSON_stringify (JObj b) = Inr (Some (rq_body r))"
proof -
  obtain x where "JSON_stringify (JObj b) = Inr x"
    using assms by (auto simp: sendTask_def split: sum.splits)
  with stringify_object obtain s where s: "JSON_stringify (JObj b) = Inr (Some s)" by metis
  show ?thesis using assms by (auto simp: sendTask_def s Let_def bindR_Inr_iff split: if_splits)
qed

lemmas dispatch_cases = dispatchApprovalTrustTask_def Let_def

section \<open>Properties\<close>

text \<open>In OpenVTC mode every receipt comes from a request to the configured endpoint.\<close>

lemma openvtc_sends:
  assumes mode: "env ''AUTH_MODE'' = Some ''openvtc''"
    and receipt: "fst (dispatchApprovalTrustTask env fetch clock approvalId document) = Inr receipt"
  shows "\<exists>a hs p v rej fb. dispatchApprovalTrustTask env fetch clock approvalId document = sendTask fetch clock a (the (taskEndpoint env)) hs (taskBody p v approvalId document) rej fb \<and>
      set_nonempty (taskEndpoint env) \<and>
      (''idempotency-key'', ''onecomputer-approval:'' @ approvalId) \<in> set hs \<and>
      (a = Openvtc_didcomm_bridge \<or> a = Openvtc_task_endpoint_rest \<and>
        (startsWith (the (taskEndpoint env)) ''https://'' \<or> env ''ONECOMPUTER_ENV'' \<in> {Some ''local'', Some ''dev''}))"
proof -
  let ?d = "dispatchApprovalTrustTask env fetch clock approvalId document"
  consider (didcomm) "configuredBinding env = ''didcomm''" | (rest) "configuredBinding env = ''rest''"
    using mode receipt by (auto simp: dispatch_cases split: if_splits)
  then show ?thesis
  proof cases
    case didcomm
    then have ok: "set_nonempty (taskEndpoint env)" "startsWith (the (taskEndpoint env)) ''http://127.0.0.1:'' \<or>
        startsWith (the (taskEndpoint env)) ''http://localhost:''"
      using receipt unfolding dispatch_cases by (auto split: if_splits)
    have "?d = sendTask fetch clock Openvtc_didcomm_bridge (the (taskEndpoint env))
          [(''content-type'', ''application/json''), (''idempotency-key'', ''onecomputer-approval:'' @ approvalId)]
          (taskBody ''openvtc-trust-task-didcomm'' ''1.0'' approvalId document)
          (\<lambda>status. ''OpenVTC DIDComm bridge rejected approval '' @ approvalId @ '': HTTP '' @ showNat status)
          (''didcomm:'' @ approvalId)"
      unfolding dispatch_cases using didcomm ok by auto
    then show ?thesis by (intro exI conjI) (assumption, simp_all add: ok)
  next
    case rest
    then have ok: "set_nonempty (taskEndpoint env)"
        "startsWith (the (taskEndpoint env)) ''https://'' \<or> env ''ONECOMPUTER_ENV'' \<in> {Some ''local'', Some ''dev''}"
      using receipt mode unfolding dispatch_cases by (auto split: if_splits)
    have "?d = sendTask fetch clock Openvtc_task_endpoint_rest (the (taskEndpoint env))
          ([(''content-type'', ''application/json'')] @
           (if set_nonempty (env ''OPENVTC_TASK_ENDPOINT_BEARER'')
            then [(''authorization'', ''Bearer '' @ the (env ''OPENVTC_TASK_ENDPOINT_BEARER''))] else []) @
           [(''idempotency-key'', ''onecomputer-approval:'' @ approvalId)])
          (taskBody ''openvtc-trust-task-queue'' ''0.1'' approvalId document)
          (\<lambda>status. ''OpenVTC task endpoint rejected approval '' @ approvalId @ '': HTTP '' @ showNat status)
          (''rest:'' @ approvalId)"
      unfolding dispatch_cases using rest ok mode by auto
    then show ?thesis by (intro exI conjI) (assumption, use ok in auto)
  qed
qed

text \<open>Delivery is what the configuration says, or an error: a receipt in OpenVTC mode means exactly
  one request was sent, to the configured endpoint, that carries this approval and document and was
  answered with success; a REST endpoint is HTTPS unless the environment is local or dev, and
  nothing is recorded as delivered locally.\<close>

lemma openvtc_delivery:
  assumes mode: "env ''AUTH_MODE'' = Some ''openvtc''"
    and receipt: "fst (dispatchApprovalTrustTask env fetch clock approvalId document) = Inr receipt"
  shows "\<exists>r response protocol version.
    snd (dispatchApprovalTrustTask env fetch clock approvalId document) = [r] \<and>
    Some (rq_url r) = taskEndpoint env \<and> rq_url r \<noteq> [] \<and>
    fetch r = Inr response \<and> rs_ok response \<and>
    JSON_stringify (taskBody protocol version approvalId document) = Inr (Some (rq_body r)) \<and>
    (''idempotency-key'', ''onecomputer-approval:'' @ approvalId) \<in> set (rq_headers r) \<and>
    (tr_adapter receipt = Openvtc_didcomm_bridge \<or>
     tr_adapter receipt = Openvtc_task_endpoint_rest \<and>
       (startsWith (rq_url r) ''https://'' \<or> env ''ONECOMPUTER_ENV'' \<in> {Some ''local'', Some ''dev''}))"
proof -
  let ?d = "dispatchApprovalTrustTask env fetch clock approvalId document"
  have ep: "set_nonempty x \<Longrightarrow> \<exists>u. x = Some u \<and> u \<noteq> []" for x :: "string option"
    by (cases x) (auto simp: set_nonempty_def)
  obtain a hs p v rej fb where d:
    "?d = sendTask fetch clock a (the (taskEndpoint env)) hs (taskBody p v approvalId document) rej fb"
    "set_nonempty (taskEndpoint env)" "(''idempotency-key'', ''onecomputer-approval:'' @ approvalId) \<in> set hs"
    "a = Openvtc_didcomm_bridge \<or> a = Openvtc_task_endpoint_rest \<and>
        (startsWith (the (taskEndpoint env)) ''https://'' \<or> env ''ONECOMPUTER_ENV'' \<in> {Some ''local'', Some ''dev''})"
    using openvtc_sends [OF mode receipt] by blast
  obtain r response where "snd ?d = [r]" "rq_url r = the (taskEndpoint env)" "rq_headers r = hs"
    "tr_adapter receipt = a" "fetch r = Inr response" "rs_ok response"
    "JSON_stringify (taskBody p v approvalId document) = Inr (Some (rq_body r))"
    using sendTask_receipt [OF receipt [unfolded d(1) taskBody_def]] unfolding d(1) taskBody_def by blast
  with d ep [OF d(2)] show ?thesis
    by (intro exI [of _ r] exI [of _ response] exI [of _ p] exI [of _ v]) auto
qed

definition sampleTransport :: env where
  "sampleTransport = [''AUTH_MODE'' \<mapsto> ''openvtc'', ''OPENVTC_TRANSPORT_BINDING'' \<mapsto> ''rest'',
     ''OPENVTC_TASK_ENDPOINT_URL'' \<mapsto> ''https://vta'']"

lemma openvtc_delivery_witness:
  "\<exists>(r :: http_request) (response :: http_response) protocol version.
    snd (dispatchApprovalTrustTask sampleTransport
      (\<lambda>_. Inr \<lparr> rs_ok = True, rs_status = 202, rs_json = None \<rparr>) 0 ''a1'' (JObj [])) = [r] \<and>
    Some (rq_url r) = taskEndpoint sampleTransport \<and> rs_ok response \<and>
    JSON_stringify (taskBody protocol version ''a1'' (JObj [])) = Inr (Some (rq_body r))"
proof -
  have mode: "sampleTransport ''AUTH_MODE'' = Some ''openvtc''" by (simp add: sampleTransport_def)
  have "fst (dispatchApprovalTrustTask sampleTransport
      (\<lambda>_. Inr \<lparr> rs_ok = True, rs_status = 202, rs_json = None \<rparr>) 0 ''a1'' (JObj [])) =
    Inr \<lparr> tr_adapter = Openvtc_task_endpoint_rest, tr_receiptId = ''rest:a1'',
          tr_queuedAt = ''1970-01-01T00:00:00.000Z'' \<rparr>" by code_simp
  from openvtc_delivery [OF mode this] show ?thesis by blast
qed

text \<open>The loopback check of the DIDComm bridge is a prefix check: an endpoint that starts with
  \<^verbatim>\<open>http://localhost:\<close> passes whatever follows, so the signed task is posted to
  \<^verbatim>\<open>http://localhost:x@host/\<close> - for a URL parser, user \<^verbatim>\<open>localhost\<close> at the foreign host.\<close>

lemma didcomm_prefix_bypass:
  assumes "env ''OPENVTC_TRANSPORT_BINDING'' = Some ''didcomm''"
    and "env ''OPENVTC_TASK_ENDPOINT_URL'' = Some (''http://localhost:x@'' @ host)"
    and "JSON_stringify (taskBody ''openvtc-trust-task-didcomm'' ''1.0'' approvalId document) = Inr (Some body)"
  shows "snd (dispatchApprovalTrustTask env fetch clock approvalId document) =
    [\<lparr> rq_url = ''http://localhost:x@'' @ host,
       rq_headers = [(''content-type'', ''application/json''),
         (''idempotency-key'', ''onecomputer-approval:'' @ approvalId)],
       rq_body = body \<rparr>]"
proof -
  have "startsWith (''http://localhost:x@'' @ host) ''http://localhost:''" by (simp add: startsWith_def)
  with assms show ?thesis
    by (simp add: dispatch_cases configuredBinding_def taskEndpoint_def set_nonempty_def sendTask_def)
qed

lemma didcomm_prefix_bypass_witness:
  "\<exists>body. snd (dispatchApprovalTrustTask
      [''OPENVTC_TRANSPORT_BINDING'' \<mapsto> ''didcomm'', ''OPENVTC_TASK_ENDPOINT_URL'' \<mapsto> ''http://localhost:x@evil.example/'']
      (\<lambda>_. Inl (JsError ''down'')) 0 ''a1'' (JObj [])) =
    [\<lparr> rq_url = ''http://localhost:x@'' @ ''evil.example/'',
       rq_headers = [(''content-type'', ''application/json''), (''idempotency-key'', ''onecomputer-approval:'' @ ''a1'')],
       rq_body = body \<rparr>]"
proof -
  obtain body where b: "JSON_stringify (taskBody ''openvtc-trust-task-didcomm'' ''1.0'' ''a1'' (JObj [])) = Inr (Some body)"
    by (simp add: taskBody_def JSON_stringify_def)
  show ?thesis
    by (rule exI, rule didcomm_prefix_bypass [OF _ _ b]) simp_all
qed

end
