(* ===== verification/Approval_Store.thy ===== *)
theory Approval_Store
  imports Vti_Consent Vti_Transport
begin

text \<open>
  The rows the approval service reads and writes, the database operations it uses, and the runtime
  one call sees. A table is the list of its rows; a call sees one reading of the clock and the
  random values it draws. \<^verbatim>\<open>context\<close> is a JSON column: what is written is the JSON reading of the value
  (\<open>stored\<close>). Key order in a JSON column is not observable here, since the code reads by name and
  hashes canonical texts.
\<close>

section \<open>Rows\<close>

record approval_row =
  ar_id :: string
  ar_organizationId :: string
  ar_projectId :: "string option"
  ar_agentId :: "string option"
  ar_requestedBy :: string
  ar_action :: string
  ar_context :: js
  ar_status :: string
  ar_decidedBy :: "string option"
  ar_decisionComment :: "string option"
  ar_expiresAt :: int
  ar_createdAt :: int
  ar_updatedAt :: int

record user_row =
  us_id :: string
  us_email :: string
  us_externalAuthId :: string
  us_approvalDid :: "string option"
  us_approvalPublicKeyJwk :: js \<comment> \<open>\<open>JNull\<close> when unset\<close>
  us_approvalKeyRegisteredAt :: "int option"

record member_row =
  mb_organizationId :: string
  mb_userId :: string
  mb_role :: string

record audit_row =
  au_organizationId :: string
  au_projectId :: "string option"
  au_userId :: string
  au_userEmail :: string
  au_action :: string
  au_service :: string
  au_status :: string
  au_source :: string
  au_metadata :: js

record api_state =
  st_approvals :: "approval_row list"
  st_users :: "user_row list"
  st_members :: "member_row list"
  st_audit :: "audit_row list"

section \<open>Operations of a table\<close>

text \<open>\<^verbatim>\<open>findUnique\<close> on the primary key, and \<^verbatim>\<open>update\<close> on it.\<close>

definition findApproval :: "string \<Rightarrow> approval_row list \<Rightarrow> approval_row option" where
  "findApproval k t = find (\<lambda>r. ar_id r = k) t"

definition updateApproval :: "string \<Rightarrow> (approval_row \<Rightarrow> approval_row) \<Rightarrow> approval_row list \<Rightarrow> approval_row list" where
  "updateApproval k f t = map (\<lambda>r. if ar_id r = k then f r else r) t"

definition findUser :: "string \<Rightarrow> user_row list \<Rightarrow> user_row option" where
  "findUser k t = find (\<lambda>r. us_id r = k) t"

definition updateUser :: "string \<Rightarrow> (user_row \<Rightarrow> user_row) \<Rightarrow> user_row list \<Rightarrow> user_row list" where
  "updateUser k f t = map (\<lambda>r. if us_id r = k then f r else r) t"

text \<open>The contract both tables meet: an update through a row function that keeps the key.\<close>

locale row_table =
  fixes key :: "'r \<Rightarrow> string" and lookup :: "string \<Rightarrow> 'r list \<Rightarrow> 'r option"
    and update :: "string \<Rightarrow> ('r \<Rightarrow> 'r) \<Rightarrow> 'r list \<Rightarrow> 'r list"
  assumes lookup_key: "lookup k t = Some r \<Longrightarrow> key r = k \<and> r \<in> set t"
    and lookup_update: "(\<And>r. key (f r) = key r) \<Longrightarrow>
      lookup k' (update k f t) = (if k' = k then map_option f (lookup k t) else lookup k' t)"
    and keys_update: "(\<And>r. key (f r) = key r) \<Longrightarrow> map key (update k f t) = map key t"
    and lookup_None: "lookup k t = None \<longleftrightarrow> k \<notin> key ` set t"
begin

lemma lookup_update_same:
  "(\<And>r. key (f r) = key r) \<Longrightarrow> lookup k t = Some r \<Longrightarrow> lookup k (update k f t) = Some (f r)"
  by (simp add: lookup_update)

lemma lookup_update_other:
  "(\<And>r. key (f r) = key r) \<Longrightarrow> k' \<noteq> k \<Longrightarrow> lookup k' (update k f t) = lookup k' t"
  by (simp add: lookup_update)

lemma lookup_update_inv:
  "(\<And>r. key (f r) = key r) \<Longrightarrow> lookup k' (update k f t) = Some r' \<Longrightarrow>
   \<exists>r. lookup k' t = Some r \<and> (r' = r \<or> k' = k \<and> r' = f r)"
  by (auto simp: lookup_update split: if_splits)

lemma update_keeps:
  "(\<And>r. key (f r) = key r) \<Longrightarrow> lookup k' t = Some r \<Longrightarrow>
   \<exists>r'. lookup k' (update k f t) = Some r' \<and> (r' = r \<or> k' = k \<and> r' = f r)"
  by (auto simp: lookup_update)

end

lemma find_map_key:
  assumes "\<And>r. key (f r) = key r"
  shows "find (\<lambda>r. key r = k') (map (\<lambda>r. if key r = k then f r else r) t) =
    (if k' = k then map_option f (find (\<lambda>r. key r = k) t) else find (\<lambda>r. key r = k') t)"
  using assms by (induction t) auto

interpretation approvals: row_table ar_id findApproval updateApproval
proof
  fix f :: "approval_row \<Rightarrow> approval_row" and k k' t
  assume f: "\<And>r. ar_id (f r) = ar_id r"
  show "findApproval k' (updateApproval k f t) = (if k' = k then map_option f (findApproval k t) else findApproval k' t)"
    unfolding findApproval_def updateApproval_def by (rule find_map_key) (rule f)
  show "map ar_id (updateApproval k f t) = map ar_id t" by (simp add: updateApproval_def f)
qed (auto simp: findApproval_def find_Some_iff find_None_iff)

interpretation users: row_table us_id findUser updateUser
proof
  fix f :: "user_row \<Rightarrow> user_row" and k k' t
  assume f: "\<And>r. us_id (f r) = us_id r"
  show "findUser k' (updateUser k f t) = (if k' = k then map_option f (findUser k t) else findUser k' t)"
    unfolding findUser_def updateUser_def by (rule find_map_key) (rule f)
  show "map us_id (updateUser k f t) = map us_id t" by (simp add: updateUser_def f)
qed (auto simp: findUser_def find_Some_iff find_None_iff)

section \<open>The runtime of one call\<close>

record server =
  sv_crypto :: crypto
  sv_env :: env
  sv_hostDate :: host_date
  sv_fetch :: fetch
  sv_now :: int \<comment> \<open>\<^verbatim>\<open>Date.now()\<close>\<close>
  sv_freshSeed :: bytes \<comment> \<open>\<^verbatim>\<open>randomSecretKey()\<close>\<close>
  sv_challenge :: bytes \<comment> \<open>\<^verbatim>\<open>randomBytes(32)\<close>\<close>
  sv_uuid :: string \<comment> \<open>\<^verbatim>\<open>randomUUID()\<close>\<close>
  sv_newId :: string \<comment> \<open>the id the database mints\<close>
  sv_auditOk :: bool \<comment> \<open>whether the audit insert succeeds\<close>

section \<open>JSON columns\<close>

text \<open>\<^verbatim>\<open>toJson\<close>, then the column: a falsy value is the JSON null.\<close>

definition stored :: "js \<Rightarrow> js" where
  "stored v = (if truthy v then (case asJson v of Inl e \<Rightarrow> JNull | Inr w \<Rightarrow> w) else JNull)"

text \<open>\<^verbatim>\<open>String(v)\<close>.\<close>

fun jsString :: "js \<Rightarrow> string" where
  "jsString JUndef = ''undefined''"
| "jsString JNull = ''null''"
| "jsString (JBool b) = (if b then ''true'' else ''false'')"
| "jsString (JNum n) = numberToString n"
| "jsString (JStr s) = s"
| "jsString (JArr xs) = joinStr '','' (map (\<lambda>x. if x = JUndef \<or> x = JNull then '''' else jsString x) xs)"
| "jsString (JObj kvs) = ''[object Object]''"
| "jsString (JOther t) = t"

definition getVtiContext :: "js \<Rightarrow> obj option" where
  "getVtiContext context =
     (case context of
        JObj kvs \<Rightarrow> (case oget kvs ''_vti'' of JObj vti \<Rightarrow> Some vti | _ \<Rightarrow> None)
      | _ \<Rightarrow> None)"

definition getContextRecord :: "js \<Rightarrow> obj" where
  "getContextRecord context = (case context of JObj kvs \<Rightarrow> kvs | _ \<Rightarrow> [])"

text \<open>\<^verbatim>\<open>vti?.k\<close>.\<close>

definition vtiField :: "js \<Rightarrow> string \<Rightarrow> js" where
  "vtiField context k = (case getVtiContext context of None \<Rightarrow> JUndef | Some vti \<Rightarrow> oget vti k)"

end
