(* ===== verification/Approval_Confirm.thy ===== *)
theory Approval_Confirm
  imports Approval_Store
begin

text \<open>
  The cryptographic part of \<^verbatim>\<open>packages/api/src/services/approval-service.ts\<close>: verifying a manager's
  confirmation, signing the decision as a credential that verifies, and verifying a persisted
  credential again.
\<close>

section \<open>Decisions and confirmations\<close>

definition APPROVAL_TTL_MS :: int where
  "APPROVAL_TTL_MS = 24 * 60 * 60 * 1000"

datatype decision = Approved | Denied

fun decisionText :: "decision \<Rightarrow> string" where
  "decisionText Approved = ''approved''"
| "decisionText Denied = ''denied''"

datatype confirmation =
    Legacy_confirmation (cf_approverDid: string) (cf_signedAt: string) (cf_signature: string)
  | Openvtc_confirmation (cf_document: obj)

definition isApprovalStatus :: "string \<Rightarrow> bool" where
  "isApprovalStatus v \<longleftrightarrow> v = ''pending'' \<or> v = ''approved'' \<or> v = ''denied''"

section \<open>Verifying a confirmation\<close>

text \<open>\<^verbatim>\<open>String(a ?? b ?? "")\<close>.\<close>

definition stringOr :: "js \<Rightarrow> js \<Rightarrow> string" where
  "stringOr a b = jsString (coalesce a (coalesce b (JStr '''')))"

text \<open>What the pending request binds an answer to: its challenge, its subject, its action digest.\<close>

definition requestChallenge :: "js \<Rightarrow> string" where
  "requestChallenge context =
     (let request = vtiField context ''stepUpRequest''
      in stringOr (jsProp (jsProp request ''payload'') ''challenge'') (jsProp request ''taskHash''))"

definition requestSubject :: "js \<Rightarrow> string" where
  "requestSubject context =
     (let request = vtiField context ''stepUpRequest''
      in stringOr (jsProp (jsProp request ''payload'') ''subject'') (jsProp request ''requesterDid''))"

definition requestDigest :: "js \<Rightarrow> string" where
  "requestDigest context =
     (let payload = jsProp (vtiField context ''stepUpRequest'') ''payload'';
          ext = jsProp payload ''ext'';
          authorization = coalesce (jsProp ext ''org.openvtc.authorization-context'')
            (jsProp ext ''org.onecomputer.authorization-context'')
      in stringOr (jsProp payload ''requestedActionDigest'') (jsProp authorization ''requestedActionDigest''))"

definition expectedRpDid :: "env \<Rightarrow> string" where
  "expectedRpDid env = orElse (env ''OPENVTC_RP_DID'')
     (didWebFromBaseUrl (orElse (env ''ONECLI_GATEWAY_PUBLIC_URL'') ''localhost''))"

text \<open>\<^verbatim>\<open>openvtc:<did>\<close> accounts; \<open>None\<close> for any other.\<close>

definition openVtcDid :: "user_row option \<Rightarrow> string option" where
  "openVtcDid owner =
     (case owner of
        None \<Rightarrow> None
      | Some u \<Rightarrow> if startsWith (us_externalAuthId u) ''openvtc:''
                  then Some (drop (length ''openvtc:'') (us_externalAuthId u)) else None)"

text \<open>The document answers this approval, decision and challenge, in the manager's own name.\<close>

definition boundDocument ::
  "env \<Rightarrow> string option \<Rightarrow> string \<Rightarrow> string \<Rightarrow> string \<Rightarrow> decision \<Rightarrow> obj \<Rightarrow> bool" where
  "boundDocument env expectedDid subject challenge approvalId decision document \<longleftrightarrow>
     set_nonempty expectedDid \<and> subject \<noteq> '''' \<and>
     oget document ''type'' = JStr ''https://trusttasks.org/spec/auth/step-up/approve-response/0.2'' \<and>
     oget document ''issuer'' = JStr (the expectedDid) \<and>
     jsProp (oget document ''payload'') ''subject'' = JStr subject \<and>
     jsProp (oget document ''payload'') ''challenge'' = JStr challenge \<and>
     jsProp (oget document ''payload'') ''decision'' = JStr (decisionText decision) \<and>
     jsProp (oget document ''payload'') ''sessionId'' = JStr approvalId \<and>
     oget document ''recipient'' = JStr (expectedRpDid env) \<and>
     isStr (oget document ''id'') \<and> isStr (oget document ''issuedAt'') \<and>
     truthy (oget document ''proof'')"

definition verifyOpenVtc ::
  "server \<Rightarrow> user_row option \<Rightarrow> string \<Rightarrow> decision \<Rightarrow> js \<Rightarrow> obj \<Rightarrow> js result" where
  "verifyOpenVtc sv keyOwner approvalId decision context document =
     (let expectedDid = openVtcDid keyOwner;
          challenge = requestChallenge context; subject = requestSubject context;
          digest = requestDigest context
      in if \<not> boundDocument (sv_env sv) expectedDid subject challenge approvalId decision document
         then Inl (ServiceError FORBIDDEN ''OpenVTC confirmation is not bound to this manager and approval task'')
         else case verifyTrustTaskProof (sv_crypto sv) document of
           Inl e \<Rightarrow> Inl (ServiceError FORBIDDEN (''OpenVTC confirmation proof failed verification: '' @ e))
         | Inr signer \<Rightarrow>
             if signer \<noteq> the expectedDid
             then Inl (ServiceError FORBIDDEN ''OpenVTC confirmation proof failed verification'')
             else
               (let issuedAt = strOf (oget document ''issuedAt'')
                in case dateParse (sv_hostDate sv) issuedAt of
                     None \<Rightarrow> Inl (ServiceError BAD_REQUEST ''OpenVTC confirmation is stale'')
                   | Some issuedAtMs \<Rightarrow>
                       if issuedAtMs > sv_now sv + 5 * 60000 \<or> sv_now sv - issuedAtMs > APPROVAL_TTL_MS
                       then Inl (ServiceError BAD_REQUEST ''OpenVTC confirmation is stale'')
                       else bindR (toISOString (Some (sv_now sv))) (\<lambda>now.
                         Inr (JObj
                           [(''protocol'', JStr ''auth/step-up/approve-response/0.2''), (''version'', JStr ''0.2''),
                            (''approvalId'', JStr approvalId), (''approverDid'', JStr (the expectedDid)),
                            (''subjectDid'', JStr subject), (''decision'', JStr (decisionText decision)),
                            (''signedAt'', JStr issuedAt), (''requestTaskHash'', JStr challenge),
                            (''requestedActionDigest'', JStr digest), (''verifiedAt'', JStr now),
                            (''document'', JObj document)]))))"

definition legacyChallenge :: "string \<Rightarrow> string \<Rightarrow> string \<Rightarrow> decision \<Rightarrow> string \<Rightarrow> string \<Rightarrow> js" where
  "legacyChallenge approvalId challenge digest decision approverDid signedAt = JObj
     [(''protocol'', JStr ''confirm/response''), (''version'', JStr ''0.1''), (''approvalId'', JStr approvalId),
      (''requestTaskHash'', JStr challenge), (''requestedActionDigest'', JStr digest),
      (''decision'', JStr (decisionText decision)), (''approverDid'', JStr approverDid),
      (''signedAt'', JStr signedAt)]"

text \<open>A signature that cannot be checked (a bad key, a bad encoding) is one that does not verify.\<close>

definition legacySignatureOk :: "crypto \<Rightarrow> js \<Rightarrow> js \<Rightarrow> string \<Rightarrow> bool" where
  "legacySignatureOk c jwk challenge signature =
     (case bindR (canonicalizeJson challenge) (\<lambda>m. jwk_verify c jwk m (from_base64url c signature)) of
        Inl e \<Rightarrow> False | Inr ok \<Rightarrow> ok)"

definition verifyLegacy ::
  "server \<Rightarrow> user_row option \<Rightarrow> string \<Rightarrow> decision \<Rightarrow> js \<Rightarrow> string \<Rightarrow> string \<Rightarrow> string \<Rightarrow> js result" where
  "verifyLegacy sv keyOwner approvalId decision context approverDid signedAt signature =
     (let challenge = requestChallenge context; digest = requestDigest context
      in case keyOwner of
           None \<Rightarrow> Inl (ServiceError BAD_REQUEST ''Manager approval key is not registered on this account'')
         | Some owner \<Rightarrow>
             if \<not> set_nonempty (us_approvalDid owner) \<or> \<not> truthy (us_approvalPublicKeyJwk owner)
             then Inl (ServiceError BAD_REQUEST ''Manager approval key is not registered on this account'')
             else if Some approverDid \<noteq> us_approvalDid owner
             then Inl (ServiceError FORBIDDEN ''Approval DID does not belong to this manager'')
             else case dateParse (sv_hostDate sv) signedAt of
               None \<Rightarrow> Inl (ServiceError BAD_REQUEST ''Manager confirmation is stale'')
             | Some signedAtMs \<Rightarrow>
                 if \<bar>sv_now sv - signedAtMs\<bar> > 5 * 60000
                 then Inl (ServiceError BAD_REQUEST ''Manager confirmation is stale'')
                 else if \<not> legacySignatureOk (sv_crypto sv) (us_approvalPublicKeyJwk owner)
                        (legacyChallenge approvalId challenge digest decision approverDid signedAt) signature
                 then Inl (ServiceError FORBIDDEN ''Manager confirmation signature is invalid'')
                 else bindR (toISOString (Some (sv_now sv))) (\<lambda>now.
                   Inr (JObj
                     [(''protocol'', JStr ''confirm/response''), (''version'', JStr ''0.1''),
                      (''approverDid'', JStr approverDid), (''signedAt'', JStr signedAt),
                      (''signature'', JStr signature), (''requestTaskHash'', JStr challenge),
                      (''requestedActionDigest'', JStr digest), (''verifiedAt'', JStr now)])))"

definition verifyManagerConfirmation ::
  "server \<Rightarrow> api_state \<Rightarrow> string \<Rightarrow> string \<Rightarrow> decision \<Rightarrow> js \<Rightarrow> confirmation \<Rightarrow> js result" where
  "verifyManagerConfirmation sv st approvalId decidedBy decision context confirmation =
     (let keyOwner = findUser decidedBy (st_users st)
      in if requestChallenge context = '''' \<or> requestDigest context = ''''
         then Inl (ServiceError BAD_REQUEST ''Approval is missing its OpenVTC confirmation challenge'')
         else case confirmation of
           Openvtc_confirmation document \<Rightarrow> verifyOpenVtc sv keyOwner approvalId decision context document
         | Legacy_confirmation did signedAt signature \<Rightarrow>
             verifyLegacy sv keyOwner approvalId decision context did signedAt signature)"

section \<open>The decision credential\<close>

definition decisionSubject ::
  "crypto \<Rightarrow> string \<Rightarrow> string \<Rightarrow> string \<Rightarrow> string \<Rightarrow> decision \<Rightarrow> js \<Rightarrow> js result" where
  "decisionSubject c approvalId action decidedAt decidedBy decision evidence =
     bindR (canonicalizeJson evidence) (\<lambda>bytes. Inr (JObj
       [(''approvalId'', JStr approvalId), (''decision'', JStr (decisionText decision)),
        (''decidedBy'', JStr decidedBy), (''approvedAt'', JStr decidedAt),
        (''requestedActionDigest'', jsProp evidence ''requestedActionDigest''),
        (''managerConfirmationDigest'', JStr (''sha256:'' @ toHex (sha256 c bytes))),
        (''action'', JStr action)]))"

text \<open>Any failure, a throw included, is reported as one service error.\<close>

definition createVerifiedDecisionVc ::
  "server \<Rightarrow> string \<Rightarrow> string \<Rightarrow> string \<Rightarrow> decision \<Rightarrow> js \<Rightarrow> js result" where
  "createVerifiedDecisionVc sv approvalId action decidedBy decision evidence =
     (let c = sv_crypto sv in
      case bindR (loadSigningKey c (sv_env sv) (sv_freshSeed sv)) (\<lambda>key.
             bindR (toISOString (Some (sv_now sv))) (\<lambda>decidedAt.
             bindR (decisionSubject c approvalId action decidedAt decidedBy decision evidence) (\<lambda>subject.
             bindR (signCredential c subject key (sv_now sv)) (\<lambda>decisionVc.
             bindR (verifyCredential c decisionVc (buildDidDocument key)) (\<lambda>writeVerify.
               case writeVerify of Inl e \<Rightarrow> Inl (JsError e) | Inr _ \<Rightarrow> Inr decisionVc))))) of
        Inl e \<Rightarrow> Inl (ServiceError INTERNAL (''decision VC failed verification on write: '' @ message e))
      | Inr decisionVc \<Rightarrow> Inr decisionVc)"

section \<open>Verifying on read\<close>

record vc_verify_result =
  vv_vtiVerified :: bool
  vv_vtiVerifyError :: "string option"
  vv_decisionVc :: "js option"

definition verifyDecisionVc :: "server \<Rightarrow> approval_row \<Rightarrow> vc_verify_result" where
  "verifyDecisionVc sv row =
     (let decisionVc = vtiField (ar_context row) ''decision''
      in if \<not> truthy decisionVc
         then \<lparr> vv_vtiVerified = False, vv_vtiVerifyError = Some ''no signed decision VC on row'',
                vv_decisionVc = None \<rparr>
         else case loadSigningKey (sv_crypto sv) (sv_env sv) (sv_freshSeed sv) of
           Inl e \<Rightarrow> \<lparr> vv_vtiVerified = False, vv_vtiVerifyError = Some (''failed to load signing key: '' @ message e),
                      vv_decisionVc = Some decisionVc \<rparr>
         | Inr key \<Rightarrow>
             (case verifyCredential (sv_crypto sv) decisionVc (buildDidDocument key) of
                Inl e \<Rightarrow> \<lparr> vv_vtiVerified = False, vv_vtiVerifyError = Some (''verify threw: '' @ message e),
                           vv_decisionVc = Some decisionVc \<rparr>
              | Inr (Inr _) \<Rightarrow> \<lparr> vv_vtiVerified = True, vv_vtiVerifyError = None, vv_decisionVc = Some decisionVc \<rparr>
              | Inr (Inl e) \<Rightarrow> \<lparr> vv_vtiVerified = False, vv_vtiVerifyError = Some e, vv_decisionVc = Some decisionVc \<rparr>))"

end
