(* ===== verification/Approvals.thy ===== *)
theory Approvals
  imports Approval_Confirm
begin

text \<open>
  The operations of \<^verbatim>\<open>packages/api/src/services/approval-service.ts\<close> on the database. An operation
  maps the state to its result and the state it leaves; what was written before an error stays
  written. Logging and the manager's alert e-mail, which never throws, are left out.
\<close>

section \<open>Listing\<close>

definition DEFAULT_LIMIT :: nat where "DEFAULT_LIMIT = 50"
definition MAX_LIMIT :: nat where "MAX_LIMIT = 200"

record list_options =
  lo_organizationId :: string
  lo_projectId :: "string option"
  lo_status :: "string option"
  lo_limit :: "nat option" \<comment> \<open>the route rejects anything but a positive number\<close>
  lo_cursor :: "string option"

record approval_page =
  pg_items :: "approval_row list"
  pg_hasMore :: bool
  pg_nextCursor :: "string option"

text \<open>\<^verbatim>\<open>orderBy: { createdAt: "desc" }\<close>; rows of one time keep the table's order, one of the orders the
  database may choose.\<close>

definition newestFirst :: "approval_row list \<Rightarrow> approval_row list" where
  "newestFirst rows = sort_key (\<lambda>r. - ar_createdAt r) rows"

definition listWhere :: "list_options \<Rightarrow> int option \<Rightarrow> approval_row \<Rightarrow> bool" where
  "listWhere opts before r \<longleftrightarrow>
     ar_organizationId r = lo_organizationId opts \<and>
     (set_nonempty (lo_projectId opts) \<longrightarrow> ar_projectId r = lo_projectId opts) \<and>
     (set_nonempty (lo_status opts) \<longrightarrow> Some (ar_status r) = lo_status opts) \<and>
     (case before of None \<Rightarrow> True | Some t \<Rightarrow> ar_createdAt r < t)"

definition listApprovals :: "api_state \<Rightarrow> list_options \<Rightarrow> approval_page" where
  "listApprovals st opts =
     (let limit = min (orElse (lo_limit opts) DEFAULT_LIMIT) MAX_LIMIT;
          before = (if set_nonempty (lo_cursor opts)
                    then map_option ar_createdAt (findApproval (the (lo_cursor opts)) (st_approvals st)) else None);
          items = take (limit + 1) (newestFirst (filter (listWhere opts before) (st_approvals st)));
          hasMore = length items > limit;
          page = (if hasMore then take limit items else items)
      in \<lparr> pg_items = page, pg_hasMore = hasMore,
           pg_nextCursor = (if hasMore \<and> page \<noteq> [] then Some (ar_id (last page)) else None) \<rparr>)"

section \<open>Delivering a notification\<close>

text \<open>The time of the call, which is always a valid one.\<close>

definition isoNow :: "server \<Rightarrow> string" where
  "isoNow sv = (case toISOString (Some (sv_now sv)) of Inl e \<Rightarrow> '''' | Inr s \<Rightarrow> s)"

fun adapterText :: "transport_adapter \<Rightarrow> string" where
  "adapterText Vti_outbox_local = ''vti-outbox-local''"
| "adapterText Openvtc_task_endpoint_rest = ''openvtc-task-endpoint-rest''"
| "adapterText Openvtc_didcomm_bridge = ''openvtc-didcomm-bridge''"

definition configuredAdapter :: "env \<Rightarrow> transport_adapter" where
  "configuredAdapter env =
     (if env ''OPENVTC_TRANSPORT_BINDING'' = Some ''didcomm'' then Openvtc_didcomm_bridge
      else if env ''AUTH_MODE'' = Some ''openvtc'' then Openvtc_task_endpoint_rest
      else Vti_outbox_local)"

text \<open>\<^verbatim>\<open>(attempts ?? 0) + 1\<close>; the counter is only ever written as an integer.\<close>

definition nextAttempt :: "js \<Rightarrow> js" where
  "nextAttempt v = (case coalesce v (JInt 0) of JNum (Finite m e) \<Rightarrow> JInt (numVal (Finite m e) + 1) | _ \<Rightarrow> JNum NaN)"

definition deliveryJs ::
  "string \<Rightarrow> transport_adapter \<Rightarrow> string \<Rightarrow> js \<Rightarrow> string option \<Rightarrow> js" where
  "deliveryJs status adapter sentAt attempts err = JObj
     ([(''status'', JStr status), (''adapter'', JStr (adapterText adapter)), (''sentAt'', JStr sentAt),
       (''attempts'', attempts)] @ (case err of None \<Rightarrow> [] | Some m \<Rightarrow> [(''error'', JStr m)]))"

record delivery_result =
  tg_approvalId :: string
  tg_stepUpRequest :: js
  tg_actorStepUp :: js
  tg_delivery :: js

text \<open>\<^verbatim>\<open>update\<close> of the context column alone; \<^verbatim>\<open>updatedAt\<close> is set on every update.\<close>

definition writeContext :: "server \<Rightarrow> string \<Rightarrow> obj \<Rightarrow> api_state \<Rightarrow> api_state" where
  "writeContext sv k context st =
     st\<lparr>st_approvals := updateApproval k
          (\<lambda>r. r\<lparr>ar_context := stored (JObj context), ar_updatedAt := sv_now sv\<rparr>) (st_approvals st)\<rparr>"

definition findInOrg :: "string \<Rightarrow> string \<Rightarrow> api_state \<Rightarrow> approval_row option" where
  "findInOrg organizationId approvalId st =
     find (\<lambda>r. ar_id r = approvalId \<and> ar_organizationId r = organizationId) (st_approvals st)"

text \<open>The requests sent are part of the result.\<close>

definition triggerApprovalVtiNotification ::
  "server \<Rightarrow> api_state \<Rightarrow> string \<Rightarrow> string \<Rightarrow> (delivery_result result \<times> api_state) \<times> http_request list" where
  "triggerApprovalVtiNotification sv st organizationId approvalId =
     (case findInOrg organizationId approvalId st of
        None \<Rightarrow> ((Inl (ServiceError NOT_FOUND ''Approval request not found''), st), [])
      | Some approval \<Rightarrow>
          (let context = getContextRecord (ar_context approval);
               vti = orElse (getVtiContext (ar_context approval)) [];
               stepUpRequest = oget vti ''stepUpRequest''; delivery = oget vti ''delivery''
           in if \<not> truthy stepUpRequest
              then ((Inl (ServiceError NOT_FOUND ''VTI step-up notification not found''), st), [])
              else if jsProp delivery ''status'' = JStr ''sent_to_vti_adapter''
              then ((Inr \<lparr> tg_approvalId = ar_id approval, tg_stepUpRequest = stepUpRequest,
                           tg_actorStepUp = oget vti ''actorStepUp'', tg_delivery = delivery \<rparr>, st), [])
              else
                (let attempts = nextAttempt (jsProp delivery ''attempts'');
                     document = jsProp stepUpRequest ''document''
                 in if \<not> truthy document
                    then ((Inl (ServiceError BAD_REQUEST
                            ''VTI step-up notification has no canonical OpenVTC document''), st), [])
                    else
                      (let (sent, requests) = dispatchApprovalTrustTask (sv_env sv) (sv_fetch sv) (sv_now sv)
                             (ar_id approval) document
                       in case sent of
                            Inl e \<Rightarrow>
                              (let failedDelivery = deliveryJs ''failed'' (configuredAdapter (sv_env sv)) (isoNow sv)
                                     attempts (Some (message e))
                               in ((Inl (ServiceError INTERNAL (message e)),
                                    writeContext sv (ar_id approval)
                                      (oset ''_vti'' (JObj (oset ''delivery'' failedDelivery
                                         (oset ''stepUpRequest'' stepUpRequest vti))) context) st), requests))
                          | Inr receipt \<Rightarrow>
                              (let delivered = deliveryJs ''sent_to_vti_adapter'' (tr_adapter receipt) (isoNow sv)
                                     attempts None
                               in ((Inr \<lparr> tg_approvalId = ar_id approval, tg_stepUpRequest = stepUpRequest,
                                          tg_actorStepUp = oget vti ''actorStepUp'', tg_delivery = delivered \<rparr>,
                                    writeContext sv (ar_id approval)
                                      (oset ''_vti'' (JObj (oset ''delivery'' delivered
                                         (oset ''stepUpRequest'' stepUpRequest vti))) context) st), requests))))))"

section \<open>Creating\<close>

record create_input =
  ci_action :: string
  ci_requestedBy :: string
  ci_context :: obj
  ci_agentId :: "string option"
  ci_projectId :: "string option"

definition envelopeFields :: "('p \<Rightarrow> js) \<Rightarrow> 'p envelope \<Rightarrow> obj" where
  "envelopeFields js_of e =
     envelopeSeed (te_taskType e) (te_createdAt e) (te_requesterDid e) (te_subjectDid e) (te_agentDid e)
       (js_of (te_payload e)) @
     [(''taskId'', JStr (te_taskId e)), (''taskHash'', JStr (te_taskHash e)), (''note'', JStr (te_note e))]"

definition requesterDidOf :: "api_state \<Rightarrow> string \<Rightarrow> string" where
  "requesterDidOf st requestedBy =
     orElse (openVtcDid (findUser requestedBy (st_users st)))
       (''did:web:onecomputer.local:users:'' @ requestedBy)"

definition agentDidOf :: "string option \<Rightarrow> string" where
  "agentDidOf agentId =
     (if set_nonempty agentId then ''did:web:onecomputer.local:agents:'' @ the agentId
      else ''did:web:onecomputer.local:agents:unknown'')"

definition newApprovalRow ::
  "server \<Rightarrow> string \<Rightarrow> string option \<Rightarrow> string option \<Rightarrow> int option \<Rightarrow> create_input \<Rightarrow> js \<Rightarrow> approval_row" where
  "newApprovalRow sv organizationId projectId agentId expiresAt input baseContext =
     \<lparr> ar_id = sv_newId sv, ar_organizationId = organizationId,
       ar_projectId = (if projectId = None then ci_projectId input else projectId),
       ar_agentId = (if agentId = None then ci_agentId input else agentId),
       ar_requestedBy = ci_requestedBy input, ar_action = ci_action input,
       ar_context = stored baseContext, ar_status = ''pending'', ar_decidedBy = None,
       ar_decisionComment = None, ar_expiresAt = orElse expiresAt (sv_now sv + APPROVAL_TTL_MS),
       ar_createdAt = sv_now sv, ar_updatedAt = sv_now sv \<rparr>"

definition notificationInput :: "server \<Rightarrow> api_state \<Rightarrow> approval_row \<Rightarrow> obj \<Rightarrow> notification_input" where
  "notificationInput sv st created baseContext =
     \<lparr> ni_approvalId = ar_id created, ni_action = ar_action created,
       ni_requestedBy = ar_requestedBy created, ni_agentId = ar_agentId created,
       ni_context = baseContext, ni_requesterDid = requesterDidOf st (ar_requestedBy created),
       ni_subjectDid = orElse (sv_env sv ''OPENVTC_APPROVER_DID'') ''did:web:onecomputer.local:managers:pending'',
       ni_agentDid = agentDidOf (ar_agentId created), ni_createdAt = isoNow sv \<rparr>"

definition vtiContextOf ::
  "server \<Rightarrow> approval_payload envelope \<Rightarrow> obj \<Rightarrow> approval_payload envelope \<Rightarrow> js" where
  "vtiContextOf sv stepUp document actorStepUp = JObj
     [(''stepUpRequest'', JObj (envelopeFields approvalPayloadJs stepUp @ [(''document'', JObj document)])),
      (''actorStepUp'', JObj (envelopeFields approvalPayloadJs actorStepUp)),
      (''delivery'', JObj [(''status'', JStr ''queued''),
         (''adapter'', JStr (adapterText (configuredAdapter (sv_env sv)))),
         (''queuedAt'', JStr (isoNow sv)), (''attempts'', JInt 0)])]"

definition createApproval ::
  "server \<Rightarrow> api_state \<Rightarrow> string \<Rightarrow> string option \<Rightarrow> string option \<Rightarrow> int option \<Rightarrow> create_input \<Rightarrow>
   (approval_row result \<times> api_state) \<times> http_request list" where
  "createApproval sv st organizationId projectId agentId expiresAt input =
     (let approver = sv_env sv ''OPENVTC_APPROVER_DID'' in
      case asJson (JObj (ci_context input)) of
        Inl e \<Rightarrow> ((Inl e, st), [])
      | Inr base \<Rightarrow>
          (let baseContext = fieldsOf base in
           if sv_env sv ''AUTH_MODE'' = Some ''openvtc'' \<and>
              (\<not> set_nonempty approver \<or> \<not> startsWith (the approver) ''did:'')
           then ((Inl (ServiceError INTERNAL
                   ''OpenVTC approval routing is not configured: OPENVTC_APPROVER_DID is required''), st), [])
           else
             (let created = newApprovalRow sv organizationId projectId agentId expiresAt input base;
                  st1 = st\<lparr>st_approvals := st_approvals st @ [created]\<rparr>;
                  notification = notificationInput sv st created baseContext
              in case buildApprovalStepUpNotificationEnvelope (sv_crypto sv) (sv_env sv) (sv_freshSeed sv)
                        (sv_challenge sv) (sv_uuid sv) (sv_now sv) notification of
                   Inl e \<Rightarrow> ((Inl e, st1), [])
                 | Inr (stepUp, document) \<Rightarrow>
                     (case buildActorStepUpNotificationEnvelope (sv_crypto sv)
                             (notification\<lparr>ni_subjectDid := ni_requesterDid notification\<rparr>) of
                        Inl e \<Rightarrow> ((Inl e, st1), [])
                      | Inr actorStepUp \<Rightarrow>
                          (let context = oset ''_vti'' (vtiContextOf sv stepUp document actorStepUp) baseContext;
                               st2 = writeContext sv (ar_id created) context st1;
                               updated = created\<lparr>ar_context := stored (JObj context)\<rparr>
                           in if sv_env sv ''OPENVTC_TRANSPORT_BINDING'' = Some ''didcomm''
                              then (let ((_, st3), requests) =
                                      triggerApprovalVtiNotification sv st2 organizationId (ar_id created)
                                    in ((Inr updated, st3), requests))
                              else ((Inr updated, st2), []))))))"

section \<open>Deciding\<close>

record decide_input =
  di_decision :: decision
  di_comment :: "string option"
  di_confirmation :: "confirmation option"

text \<open>The confirmation, verified; approving needs one.\<close>

definition decisionEvidence ::
  "server \<Rightarrow> api_state \<Rightarrow> approval_row \<Rightarrow> string \<Rightarrow> decide_input \<Rightarrow> js option result" where
  "decisionEvidence sv st existing decidedBy input =
     (case di_confirmation input of
        Some confirmation \<Rightarrow>
          bindR (verifyManagerConfirmation sv st (ar_id existing) decidedBy (di_decision input)
                   (ar_context existing) confirmation) (\<lambda>evidence. Inr (Some evidence))
      | None \<Rightarrow>
          if di_decision input = Approved
          then Inl (ServiceError BAD_REQUEST ''A signed OpenVTC manager confirmation is required to approve'')
          else Inr None)"

text \<open>The context to write: with a confirmation, the evidence and the signed decision.\<close>

definition decisionContext ::
  "server \<Rightarrow> approval_row \<Rightarrow> string \<Rightarrow> decide_input \<Rightarrow> js option \<Rightarrow> obj result" where
  "decisionContext sv existing decidedBy input evidence =
     (let context = getContextRecord (ar_context existing) in
      case evidence of
        None \<Rightarrow> Inr context
      | Some managerConfirmation \<Rightarrow>
          bindR (createVerifiedDecisionVc sv (ar_id existing) (ar_action existing) decidedBy
                   (di_decision input) managerConfirmation) (\<lambda>decisionVc.
            Inr (oset ''_vti'' (JObj (oset ''decision'' decisionVc (oset ''managerConfirmation'' managerConfirmation
              (orElse (getVtiContext (JObj context)) [])))) context)))"

text \<open>The checks and preparations both decide paths make before they write.\<close>

definition prepareDecision ::
  "server \<Rightarrow> api_state \<Rightarrow> approval_row \<Rightarrow> string \<Rightarrow> decide_input \<Rightarrow> obj result" where
  "prepareDecision sv st existing decidedBy input =
     (if ar_status existing \<noteq> ''pending''
      then Inl (ServiceError BAD_REQUEST (''Approval request already '' @ ar_status existing))
      else bindR (decisionEvidence sv st existing decidedBy input)
             (decisionContext sv existing decidedBy input))"

definition decideRow :: "server \<Rightarrow> string \<Rightarrow> decide_input \<Rightarrow> obj \<Rightarrow> approval_row \<Rightarrow> approval_row" where
  "decideRow sv decidedBy input context r =
     r\<lparr>ar_status := decisionText (di_decision input), ar_decidedBy := Some decidedBy,
       ar_decisionComment := di_comment input, ar_context := stored (JObj context),
       ar_updatedAt := sv_now sv\<rparr>"

text \<open>The write, and the audit entry, whose failure is ignored. \<open>bridge\<close> is the id the gateway used.\<close>

definition decisionAudit ::
  "string \<Rightarrow> string option \<Rightarrow> decide_input \<Rightarrow> string option \<Rightarrow> approval_row \<Rightarrow> audit_row" where
  "decisionAudit decidedBy email input bridge updated =
     \<lparr> au_organizationId = ar_organizationId updated, au_projectId = ar_projectId updated,
       au_userId = decidedBy, au_userEmail = orElse email '''',
       au_action = decisionText (di_decision input), au_service = ''approval'', au_status = ''success'',
       au_source = (if bridge = None then ''app'' else ''gateway-internal''),
       au_metadata = stored (JObj
         ([(''approvalId'', JStr (ar_id updated))] @
          (case bridge of None \<Rightarrow> [] | Some b \<Rightarrow> [(''gatewayApprovalId'', JStr b)]) @
          [(''requestedBy'', JStr (ar_requestedBy updated)), (''action'', JStr (ar_action updated)),
           (''comment'', nullStr (di_comment input))])) \<rparr>"

definition commitDecision ::
  "server \<Rightarrow> api_state \<Rightarrow> string \<Rightarrow> string \<Rightarrow> string option \<Rightarrow> decide_input \<Rightarrow> string option \<Rightarrow> obj \<Rightarrow>
   approval_row result \<times> api_state" where
  "commitDecision sv st approvalId decidedBy email input bridge context =
     (let st1 = st\<lparr>st_approvals := updateApproval approvalId (decideRow sv decidedBy input context) (st_approvals st)\<rparr>
      in case findApproval approvalId (st_approvals st1) of
           None \<Rightarrow> (Inl (JsError ''No record was found for an update.''), st)
         | Some updated \<Rightarrow>
             (Inr updated,
              if sv_auditOk sv
              then st1\<lparr>st_audit := st_audit st1 @ [decisionAudit decidedBy email input bridge updated]\<rparr>
              else st1))"

definition decideApproval ::
  "server \<Rightarrow> api_state \<Rightarrow> string \<Rightarrow> string \<Rightarrow> string \<Rightarrow> string option \<Rightarrow> decide_input \<Rightarrow>
   approval_row result \<times> api_state" where
  "decideApproval sv st organizationId approvalId decidedBy email input =
     (case findInOrg organizationId approvalId st of
        None \<Rightarrow> (Inl (ServiceError NOT_FOUND ''Approval request not found''), st)
      | Some existing \<Rightarrow>
          (case prepareDecision sv st existing decidedBy input of
             Inl e \<Rightarrow> (Inl e, st)
           | Inr context \<Rightarrow> commitDecision sv st approvalId decidedBy email input None context))"

section \<open>The gateway's bridge\<close>

definition resolveApprovalByBridgeId :: "api_state \<Rightarrow> string \<Rightarrow> approval_row option" where
  "resolveApprovalByBridgeId st bridgeId =
     (case findApproval bridgeId (st_approvals st) of
        Some r \<Rightarrow> Some r
      | None \<Rightarrow> find (\<lambda>r. jsProp (ar_context r) ''gatewayApprovalId'' = JStr bridgeId) (st_approvals st))"

definition decideApprovalByBridgeId ::
  "server \<Rightarrow> api_state \<Rightarrow> string \<Rightarrow> string \<Rightarrow> string option \<Rightarrow> decide_input \<Rightarrow> approval_row result \<times> api_state" where
  "decideApprovalByBridgeId sv st bridgeId decidedBy email input =
     (case resolveApprovalByBridgeId st bridgeId of
        None \<Rightarrow> (Inl (ServiceError NOT_FOUND ''Approval request not found''), st)
      | Some existing \<Rightarrow>
          (case prepareDecision sv st existing decidedBy input of
             Inl e \<Rightarrow> (Inl e, st)
           | Inr context \<Rightarrow> commitDecision sv st (ar_id existing) decidedBy email input (Some bridgeId) context))"

definition payloadDecision :: "obj \<Rightarrow> decision option" where
  "payloadDecision document =
     (case jsProp (oget document ''payload'') ''decision'' of
        JStr d \<Rightarrow> if d = ''approved'' then Some Approved else if d = ''denied'' then Some Denied else None
      | _ \<Rightarrow> None)"

definition decideApprovalByOpenVtc ::
  "server \<Rightarrow> api_state \<Rightarrow> string \<Rightarrow> obj \<Rightarrow> string option \<Rightarrow> approval_row result \<times> api_state" where
  "decideApprovalByOpenVtc sv st bridgeId document comment =
     (let issuer = oget document ''issuer'' in
      if \<not> isStr issuer \<or> \<not> startsWith (strOf issuer) ''did:''
      then (Inl (ServiceError FORBIDDEN ''OpenVTC response issuer is invalid''), st)
      else case find (\<lambda>u. us_externalAuthId u = ''openvtc:'' @ strOf issuer) (st_users st) of
        None \<Rightarrow> (Inl (ServiceError FORBIDDEN ''OpenVTC approver is not provisioned''), st)
      | Some manager \<Rightarrow>
          (case verifyTrustTaskProof (sv_crypto sv) document of
             Inl e \<Rightarrow> (Inl (ServiceError FORBIDDEN (''OpenVTC response proof failed verification: '' @ e)), st)
           | Inr signer \<Rightarrow>
               if signer \<noteq> strOf issuer
               then (Inl (ServiceError FORBIDDEN ''OpenVTC response proof failed verification''), st)
               else case resolveApprovalByBridgeId st bridgeId of
                 None \<Rightarrow> (Inl (ServiceError NOT_FOUND ''Approval request not found''), st)
               | Some existing \<Rightarrow>
                   (case find (\<lambda>m. mb_organizationId m = ar_organizationId existing \<and> mb_userId m = us_id manager)
                           (st_members st) of
                      None \<Rightarrow> (Inl (ServiceError FORBIDDEN ''OpenVTC approver is not an authorized manager''), st)
                    | Some membership \<Rightarrow>
                        if mb_role membership \<notin> set [''owner'', ''admin'', ''manager'']
                        then (Inl (ServiceError FORBIDDEN ''OpenVTC approver is not an authorized manager''), st)
                        else case payloadDecision document of
                          None \<Rightarrow> (Inl (ServiceError FORBIDDEN
                                    ''OpenVTC response decision must be approved or denied''), st)
                        | Some decision \<Rightarrow>
                            decideApprovalByBridgeId sv st bridgeId (us_id manager) (Some (us_email manager))
                              \<lparr> di_decision = decision, di_comment = comment,
                                di_confirmation = Some (Openvtc_confirmation document) \<rparr>)))"

section \<open>Reading\<close>

definition getApprovalVtiNotification :: "api_state \<Rightarrow> string \<Rightarrow> string \<Rightarrow> delivery_result result" where
  "getApprovalVtiNotification st organizationId approvalId =
     (case findInOrg organizationId approvalId st of
        None \<Rightarrow> Inl (ServiceError NOT_FOUND ''Approval request not found'')
      | Some approval \<Rightarrow>
          (let stepUpRequest = vtiField (ar_context approval) ''stepUpRequest''
           in if \<not> truthy stepUpRequest then Inl (ServiceError NOT_FOUND ''VTI step-up notification not found'')
              else Inr \<lparr> tg_approvalId = ar_id approval, tg_stepUpRequest = stepUpRequest,
                         tg_actorStepUp = vtiField (ar_context approval) ''actorStepUp'',
                         tg_delivery = vtiField (ar_context approval) ''delivery'' \<rparr>))"

definition getApproval ::
  "server \<Rightarrow> api_state \<Rightarrow> string \<Rightarrow> string \<Rightarrow> (approval_row \<times> vc_verify_result) result" where
  "getApproval sv st organizationId approvalId =
     (case findInOrg organizationId approvalId st of
        None \<Rightarrow> Inl (ServiceError NOT_FOUND ''Approval request not found'')
      | Some approval \<Rightarrow> Inr (approval, verifyDecisionVc sv approval))"

definition getApprovalByBridgeId ::
  "server \<Rightarrow> api_state \<Rightarrow> string \<Rightarrow> (approval_row \<times> vc_verify_result) result" where
  "getApprovalByBridgeId sv st bridgeId =
     (case resolveApprovalByBridgeId st bridgeId of
        None \<Rightarrow> Inl (ServiceError NOT_FOUND ''Approval request not found'')
      | Some resolved \<Rightarrow>
          (case findApproval (ar_id resolved) (st_approvals st) of
             None \<Rightarrow> Inl (ServiceError NOT_FOUND ''Approval request not found'')
           | Some approval \<Rightarrow> Inr (approval, verifyDecisionVc sv approval)))"

definition recordActorAck ::
  "server \<Rightarrow> api_state \<Rightarrow> string \<Rightarrow> string \<Rightarrow> string \<Rightarrow> (string \<times> js \<times> string) result \<times> api_state" where
  "recordActorAck sv st organizationId approvalId actorUserId =
     (case findInOrg organizationId approvalId st of
        None \<Rightarrow> (Inl (ServiceError NOT_FOUND ''Approval request not found''), st)
      | Some approval \<Rightarrow>
          if ar_requestedBy approval \<noteq> actorUserId
          then (Inl (ServiceError FORBIDDEN
                  ''Only the actor who triggered this action can acknowledge its step-up''), st)
          else
            (let context = getContextRecord (ar_context approval);
                 vti = orElse (getVtiContext (JObj context)) []
             in if \<not> truthy (oget vti ''actorStepUp'')
                then (Inl (ServiceError NOT_FOUND ''Actor step-up envelope not found''), st)
                else
                  (let updatedActorStepUp =
                         JObj (oset ''acknowledgedAt'' (JStr (isoNow sv)) (fieldsOf (oget vti ''actorStepUp'')))
                   in (Inr (ar_id approval, updatedActorStepUp, isoNow sv),
                       writeContext sv (ar_id approval)
                         (oset ''_vti'' (JObj (oset ''actorStepUp'' updatedActorStepUp vti)) context) st))))"

record approval_summary =
  sm_pending :: nat
  sm_approved24h :: nat
  sm_denied24h :: nat

definition getApprovalSummary :: "server \<Rightarrow> api_state \<Rightarrow> string \<Rightarrow> approval_summary" where
  "getApprovalSummary sv st organizationId =
     (let since = sv_now sv - 24 * 60 * 60 * 1000;
          count = (\<lambda>p. length (filter (\<lambda>r. ar_organizationId r = organizationId \<and> p r) (st_approvals st)))
      in \<lparr> sm_pending = count (\<lambda>r. ar_status r = ''pending''),
           sm_approved24h = count (\<lambda>r. ar_status r = ''approved'' \<and> ar_updatedAt r \<ge> since),
           sm_denied24h = count (\<lambda>r. ar_status r = ''denied'' \<and> ar_updatedAt r \<ge> since) \<rparr>)"

definition listApprovalsByBridge :: "api_state \<Rightarrow> string option \<Rightarrow> int option \<Rightarrow> approval_row list \<times> bool" where
  "listApprovalsByBridge st status lim =
     (let n = nat (min (max (orElse lim (int DEFAULT_LIMIT)) 1) (int MAX_LIMIT));
          rows = take (n * 4) (newestFirst
            (filter (\<lambda>r. set_nonempty status \<longrightarrow> Some (ar_status r) = status) (st_approvals st)));
          items = filter (\<lambda>r. isStr (oget (getContextRecord (ar_context r)) ''gatewayApprovalId'') \<and>
                              truthy (oget (getContextRecord (ar_context r)) ''gatewayApprovalId'')) rows
      in (take n items, length items > n))"

record approval_status_view =
  sv_view_id :: string
  sv_view_status :: string
  sv_view_decisionVc :: js
  sv_view_managerConfirmation :: js

definition statusView :: "approval_row \<Rightarrow> approval_status_view option" where
  "statusView r =
     (if \<not> isApprovalStatus (ar_status r) then None
      else Some \<lparr> sv_view_id = ar_id r, sv_view_status = ar_status r,
                  sv_view_decisionVc = vtiField (ar_context r) ''decision'',
                  sv_view_managerConfirmation = vtiField (ar_context r) ''managerConfirmation'' \<rparr>)"

definition getApprovalStatus :: "api_state \<Rightarrow> string \<Rightarrow> string \<Rightarrow> approval_status_view option" where
  "getApprovalStatus st organizationId k =
     (case findInOrg organizationId k st of
        Some r \<Rightarrow> statusView r
      | None \<Rightarrow>
          (case find (\<lambda>r. ar_organizationId r = organizationId \<and>
                          jsProp (ar_context r) ''gatewayApprovalId'' = JStr k) (st_approvals st) of
             None \<Rightarrow> None
           | Some r \<Rightarrow> statusView r))"

section \<open>The manager's key\<close>

definition registerManagerApprovalKey ::
  "server \<Rightarrow> api_state \<Rightarrow> string \<Rightarrow> string \<Rightarrow> string \<Rightarrow> (string option \<times> bool) result \<times> api_state" where
  "registerManagerApprovalKey sv st userId did x =
     (let publicKeyJwk = JObj [(''kty'', JStr ''OKP''), (''crv'', JStr ''Ed25519''), (''x'', JStr x)] in
      case findUser userId (st_users st) of
        None \<Rightarrow> (Inl (ServiceError NOT_FOUND ''User not found''), st)
      | Some user \<Rightarrow>
          if truthy (us_approvalPublicKeyJwk user)
          then
            (case (if us_approvalDid user = Some did
                   then bindR (canonicalizeJson (us_approvalPublicKeyJwk user)) (\<lambda>a.
                        bindR (canonicalizeJson publicKeyJwk) (\<lambda>b. Inr (a = b)))
                   else Inr False) of
               Inl e \<Rightarrow> (Inl e, st)
             | Inr same \<Rightarrow>
                 if \<not> same
                 then (Inl (ServiceError CONFLICT
                         ''A different approval key is already registered; an administrator must reset it''), st)
                 else (Inr (us_approvalDid user, True), st))
          else
            (Inr (Some did, True),
             st\<lparr>st_users := updateUser userId
                  (\<lambda>u. u\<lparr>us_approvalDid := Some did, us_approvalPublicKeyJwk := publicKeyJwk,
                         us_approvalKeyRegisteredAt := Some (sv_now sv)\<rparr>) (st_users st)\<rparr>))"

end
