(* ===== verification/Approval_Runs.thy ===== *)
theory Approval_Runs
  imports Approvals
begin

text \<open>
  What the approval operations guarantee, one call at a time and over whole runs. \<open>service_step\<close> is
  one complete call of any operation that writes; \<open>decided_is_final\<close> and \<open>only_confirmed_approvals\<close>
  speak about runs of such calls. A call reads the row, checks it, and writes it later, so two calls
  can interleave: that is \<open>concurrent_decisions\<close>.
\<close>

section \<open>Single calls\<close>

definition ids_ok :: "api_state \<Rightarrow> bool" where
  "ids_ok st \<longleftrightarrow> distinct (map ar_id (st_approvals st))"

lemma findInOrg_find:
  "ids_ok st \<Longrightarrow> findInOrg org k st = Some r \<Longrightarrow>
   findApproval k (st_approvals st) = Some r \<and> ar_organizationId r = org \<and> ar_id r = k"
proof -
  assume ok: "ids_ok st" and f: "findInOrg org k st = Some r"
  have "distinct (map ar_id rows) \<Longrightarrow> find (\<lambda>r. ar_id r = k \<and> ar_organizationId r = org) rows = Some r \<Longrightarrow>
      find (\<lambda>r. ar_id r = k) rows = Some r \<and> ar_organizationId r = org \<and> ar_id r = k" for rows
  proof (induction rows)
    case (Cons a rows)
    show ?case
    proof (cases "ar_id a = k")
      case True
      have "find (\<lambda>r. ar_id r = k \<and> ar_organizationId r = org) rows = None"
        using Cons.prems(1) True by (auto simp: find_None_iff) (metis imageI)
      with Cons.prems True show ?thesis by (simp split: if_splits)
    next
      case False
      with Cons show ?thesis by simp
    qed
  qed simp
  with ok f show ?thesis by (simp add: ids_ok_def findInOrg_def findApproval_def)
qed

text \<open>The part of a row that only a decision writes.\<close>

definition verdict :: "approval_row \<Rightarrow> string \<times> string option \<times> string option" where
  "verdict r = (ar_status r, ar_decidedBy r, ar_decisionComment r)"

text \<open>The part of a row that nothing writes after its creation.\<close>

definition identity :: "approval_row \<Rightarrow>
  string \<times> string \<times> string option \<times> string option \<times> string \<times> string \<times> int \<times> int" where
  "identity r = (ar_id r, ar_organizationId r, ar_projectId r, ar_agentId r, ar_requestedBy r, ar_action r,
     ar_expiresAt r, ar_createdAt r)"

lemma decideRow_simps [simp]:
  "ar_id (decideRow sv by i ctx r) = ar_id r" "identity (decideRow sv by i ctx r) = identity r"
  "verdict (decideRow sv by i ctx r) = (decisionText (di_decision i), Some by, di_comment i)"
  "ar_context (decideRow sv by i ctx r) = stored (JObj ctx)"
  "ar_status (decideRow sv by i ctx r) = decisionText (di_decision i)"
  "ar_decidedBy (decideRow sv by i ctx r) = Some by"
  by (simp_all add: decideRow_def identity_def verdict_def)

text \<open>Writing the context column.\<close>

lemma writeContext_find:
  "findApproval k' (st_approvals (writeContext sv k ctx st)) =
     (if k' = k then map_option (\<lambda>r. r\<lparr>ar_context := stored (JObj ctx), ar_updatedAt := sv_now sv\<rparr>)
        (findApproval k (st_approvals st)) else findApproval k' (st_approvals st))"
  unfolding writeContext_def by (simp add: approvals.lookup_update)

lemma writeContext_ids: "map ar_id (st_approvals (writeContext sv k ctx st)) = map ar_id (st_approvals st)"
  unfolding writeContext_def by (simp add: approvals.keys_update)

lemma writeContext_rest [simp]:
  "st_users (writeContext sv k ctx st) = st_users st" "st_members (writeContext sv k ctx st) = st_members st"
  "st_audit (writeContext sv k ctx st) = st_audit st"
  by (simp_all add: writeContext_def)

text \<open>What a committed decision is.\<close>

lemma commitDecision_Inr:
  assumes "commitDecision sv st k by email i bridge ctx = (Inr row, st')"
  obtains r where "findApproval k (st_approvals st) = Some r" "row = decideRow sv by i ctx r"
    "st_approvals st' = updateApproval k (decideRow sv by i ctx) (st_approvals st)"
    "st_users st' = st_users st" "st_members st' = st_members st"
    "st_audit st' = (if sv_auditOk sv then st_audit st @ [decisionAudit by email i bridge row] else st_audit st)"
proof -
  from assms have "findApproval k (updateApproval k (decideRow sv by i ctx) (st_approvals st)) = Some row"
    "st' = (let st1 = st\<lparr>st_approvals := updateApproval k (decideRow sv by i ctx) (st_approvals st)\<rparr>
      in if sv_auditOk sv then st1\<lparr>st_audit := st_audit st1 @ [decisionAudit by email i bridge row]\<rparr> else st1)"
    by (auto simp: commitDecision_def Let_def split: option.splits)
  moreover from this(1) obtain r where "findApproval k (st_approvals st) = Some r" "row = decideRow sv by i ctx r"
    by (auto simp: approvals.lookup_update)
  ultimately show ?thesis by (intro that) (auto simp: Let_def)
qed

lemma commitDecision_found:
  assumes "findApproval k (st_approvals st) = Some r"
  shows "\<exists>st'. commitDecision sv st k by email i bridge ctx = (Inr (decideRow sv by i ctx r), st')"
  using assms by (simp add: commitDecision_def Let_def approvals.lookup_update)

lemma commit_row:
  assumes "commitDecision sv st k by email i bridge ctx = (Inr row, st')"
  shows "findApproval k (st_approvals st') = Some row"
proof -
  obtain r where "findApproval k (st_approvals st) = Some r" "row = decideRow sv by i ctx r"
    "st_approvals st' = updateApproval k (decideRow sv by i ctx) (st_approvals st)"
    using commitDecision_Inr [OF assms] by metis
  then show ?thesis by (simp add: approvals.lookup_update)
qed

text \<open>What a successful call of either decide path has checked.\<close>

lemma prepareDecision_Inr:
  assumes "prepareDecision sv st r by i = Inr ctx"
  obtains ev where "ar_status r = ''pending''" "decisionEvidence sv st r by i = Inr ev"
    "decisionContext sv r by i ev = Inr ctx"
  using assms by (auto simp: prepareDecision_def bindR_Inr_iff split: if_splits)

lemma decisionEvidence_approved:
  assumes "decisionEvidence sv st r by i = Inr ev" "di_decision i = Approved"
  obtains conf e where "di_confirmation i = Some conf" "ev = Some e"
    "verifyManagerConfirmation sv st (ar_id r) by Approved (ar_context r) conf = Inr e"
  using assms by (auto simp: decisionEvidence_def bindR_Inr_iff split: option.splits)

text \<open>Both paths end in a commit of a prepared decision.\<close>

definition decided_row :: "server \<Rightarrow> api_state \<Rightarrow> string \<Rightarrow> decide_input \<Rightarrow> approval_row \<Rightarrow> approval_row \<Rightarrow> bool" where
  "decided_row sv st by i r row \<longleftrightarrow>
     (\<exists>ctx. prepareDecision sv st r by i = Inr ctx \<and> row = decideRow sv by i ctx r)"

lemma decideApproval_Inr:
  assumes "decideApproval sv st org k by email i = (Inr row, st')" "ids_ok st"
  obtains r ctx where "findApproval k (st_approvals st) = Some r" "ar_organizationId r = org" "ar_id r = k"
    "prepareDecision sv st r by i = Inr ctx" "row = decideRow sv by i ctx r"
    "commitDecision sv st k by email i None ctx = (Inr row, st')"
proof -
  obtain r ctx where r: "findInOrg org k st = Some r" "prepareDecision sv st r by i = Inr ctx"
      "commitDecision sv st k by email i None ctx = (Inr row, st')"
    using assms(1) by (auto simp: decideApproval_def split: option.splits sum.splits)
  note f = findInOrg_find [OF assms(2) r(1)]
  show thesis
    by (rule commitDecision_Inr [OF r(3)], rule that) (use f r in auto)
qed

lemma decide_effect_row:
  assumes "decideApproval sv st org k by email i = (Inr row, st')" "ids_ok st"
  shows "findApproval k (st_approvals st') = Some row"
proof -
  obtain r ctx where r: "findApproval k (st_approvals st) = Some r" "row = decideRow sv by i ctx r"
    "commitDecision sv st k by email i None ctx = (Inr row, st')"
    using decideApproval_Inr [OF assms] by metis
  then have "st_approvals st' = updateApproval k (decideRow sv by i ctx) (st_approvals st)"
    using commitDecision_Inr by metis
  with r show ?thesis by (simp add: approvals.lookup_update)
qed

lemma resolve_found:
  "resolveApprovalByBridgeId st b = Some r \<Longrightarrow> ids_ok st \<Longrightarrow> findApproval (ar_id r) (st_approvals st) = Some r"
proof -
  assume r: "resolveApprovalByBridgeId st b = Some r" and ok: "ids_ok st"
  have "r \<in> set (st_approvals st)"
    using r approvals.lookup_key by (fastforce simp: resolveApprovalByBridgeId_def find_Some_iff split: option.splits)
  moreover have "distinct (map ar_id rows) \<Longrightarrow> r \<in> set rows \<Longrightarrow> find (\<lambda>x. ar_id x = ar_id r) rows = Some r" for rows
    by (induction rows) force+
  ultimately show ?thesis using ok by (simp add: ids_ok_def findApproval_def)
qed

lemma decideByBridge_Inr:
  assumes "decideApprovalByBridgeId sv st b by email i = (Inr row, st')" "ids_ok st"
  obtains r ctx where "resolveApprovalByBridgeId st b = Some r" "findApproval (ar_id r) (st_approvals st) = Some r"
    "prepareDecision sv st r by i = Inr ctx" "row = decideRow sv by i ctx r"
    "commitDecision sv st (ar_id r) by email i (Some b) ctx = (Inr row, st')"
proof -
  obtain r ctx where r: "resolveApprovalByBridgeId st b = Some r" "prepareDecision sv st r by i = Inr ctx"
      "commitDecision sv st (ar_id r) by email i (Some b) ctx = (Inr row, st')"
    using assms(1) by (auto simp: decideApprovalByBridgeId_def split: option.splits sum.splits)
  note f = resolve_found [OF r(1) assms(2)]
  show thesis by (rule commitDecision_Inr [OF r(3)], rule that) (use f r in auto)
qed

text \<open>A failed decision writes nothing.\<close>

lemma commitDecision_Inl: "commitDecision sv st k by email i bridge ctx = (Inl e, st') \<Longrightarrow> st' = st"
  by (auto simp: commitDecision_def Let_def split: option.splits)

lemma decideApproval_Inl: "decideApproval sv st org k by email i = (Inl e, st') \<Longrightarrow> st' = st"
  by (auto simp: decideApproval_def split: option.splits sum.splits dest: commitDecision_Inl)

lemma decideByBridge_Inl: "decideApprovalByBridgeId sv st b by email i = (Inl e, st') \<Longrightarrow> st' = st"
  by (auto simp: decideApprovalByBridgeId_def split: option.splits sum.splits dest: commitDecision_Inl)

section \<open>Calls that leave every verdict alone\<close>

definition same_verdicts :: "api_state \<Rightarrow> api_state \<Rightarrow> bool" where
  "same_verdicts st st' \<longleftrightarrow>
     map ar_id (st_approvals st') = map ar_id (st_approvals st) \<and>
     (\<forall>k r. findApproval k (st_approvals st) = Some r \<longrightarrow>
        (\<exists>r'. findApproval k (st_approvals st') = Some r' \<and> verdict r' = verdict r \<and> identity r' = identity r))"

lemma same_verdicts_refl [simp]: "same_verdicts st st"
  by (simp add: same_verdicts_def)

lemma same_verdicts_trans: "same_verdicts st st' \<Longrightarrow> same_verdicts st' st'' \<Longrightarrow> same_verdicts st st''"
  unfolding same_verdicts_def by metis

lemma same_verdicts_writeContext [simp]: "same_verdicts st (writeContext sv k ctx st)"
  unfolding same_verdicts_def by (auto simp: writeContext_find writeContext_ids verdict_def identity_def)

text \<open>Delivering and acknowledging write at most the context of one row of the caller's organisation.\<close>

lemma trigger_state:
  "triggerApprovalVtiNotification sv st org k = ((res, st'), reqs) \<Longrightarrow>
   st' = st \<or> (\<exists>r ctx. findInOrg org k st = Some r \<and> st' = writeContext sv (ar_id r) ctx st)"
  by (auto simp: triggerApprovalVtiNotification_def Let_def split: option.splits if_splits prod.splits sum.splits)

lemma ack_state:
  "recordActorAck sv st org k actor = (res, st') \<Longrightarrow>
   st' = st \<or> (\<exists>r ctx. findInOrg org k st = Some r \<and> st' = writeContext sv (ar_id r) ctx st)"
  by (auto simp: recordActorAck_def Let_def split: option.splits if_splits)

lemma register_state:
  "registerManagerApprovalKey sv st u did x = (res, st') \<Longrightarrow> st_approvals st' = st_approvals st"
  by (auto simp: registerManagerApprovalKey_def Let_def split: option.splits if_splits sum.splits)

text \<open>Creating appends one pending row and then writes contexts only.\<close>

lemma create_state:
  assumes "createApproval sv st org p a e i = ((res, st'), reqs)"
  shows "st' = st \<or> (\<exists>row. ar_id row = sv_newId sv \<and> verdict row = (''pending'', None, None) \<and>
    ar_organizationId row = org \<and> same_verdicts (st\<lparr>st_approvals := st_approvals st @ [row]\<rparr>) st')"
proof (cases "asJson (JObj (ci_context i))")
  case Inl
  then show ?thesis using assms by (simp add: createApproval_def)
next
  case (Inr base)
  let ?approver = "sv_env sv ''OPENVTC_APPROVER_DID''"
  let ?row = "newApprovalRow sv org p a e i base"
  let ?st1 = "st\<lparr>st_approvals := st_approvals st @ [?row]\<rparr>"
  let ?n = "notificationInput sv st ?row (fieldsOf base)"
  show ?thesis
  proof (cases "sv_env sv ''AUTH_MODE'' = Some ''openvtc'' \<and>
      (\<not> set_nonempty ?approver \<or> \<not> startsWith (the ?approver) ''did:'')")
    case True
    then show ?thesis using assms Inr by (simp add: createApproval_def)
  next
    case False
    note create = assms [unfolded createApproval_def Let_def, simplified Inr False if_False sum.case]
    have "same_verdicts ?st1 st'"
    proof (cases "buildApprovalStepUpNotificationEnvelope (sv_crypto sv) (sv_env sv) (sv_freshSeed sv)
        (sv_challenge sv) (sv_uuid sv) (sv_now sv) ?n")
      case Inl
      then show ?thesis using create by simp
    next
      case (Inr q)
      obtain stepUp document where q: "q = (stepUp, document)" by (cases q)
      show ?thesis
      proof (cases "buildActorStepUpNotificationEnvelope (sv_crypto sv) (?n\<lparr>ni_subjectDid := ni_requesterDid ?n\<rparr>)")
        case Inl
        then show ?thesis using create Inr q by simp
      next
        case act: (Inr actorStepUp)
        let ?ctx = "oset ''_vti'' (vtiContextOf sv stepUp document actorStepUp) (fieldsOf base)"
        let ?st2 = "writeContext sv (ar_id ?row) ?ctx ?st1"
        consider "st' = ?st2" | res' reqs' where
          "triggerApprovalVtiNotification sv ?st2 org (ar_id ?row) = ((res', st'), reqs')"
          using create Inr q act by (auto split: if_splits prod.splits)
        then show ?thesis
        proof cases
          case 1
          then show ?thesis by (simp only: same_verdicts_writeContext)
        next
          case 2
          from trigger_state [OF 2] have "same_verdicts ?st2 st'" by auto
          then show ?thesis by (rule same_verdicts_trans [OF same_verdicts_writeContext])
        qed
      qed
    qed
    then show ?thesis
      by (intro disjI2 exI [of _ ?row] conjI) (simp_all add: newApprovalRow_def verdict_def)
  qed
qed

section \<open>Runs\<close>

text \<open>One complete call. A new row has an id no row has: the database mints it.\<close>

inductive service_step :: "api_state \<Rightarrow> api_state \<Rightarrow> bool" where
  step_create: "createApproval sv st org p a e i = ((res, st'), reqs) \<Longrightarrow>
    sv_newId sv \<notin> ar_id ` set (st_approvals st) \<Longrightarrow> service_step st st'"
| step_trigger: "triggerApprovalVtiNotification sv st org k = ((res', st'), reqs) \<Longrightarrow> service_step st st'"
| step_decide: "decideApproval sv st org k by email d = (res, st') \<Longrightarrow> service_step st st'"
| step_bridge: "decideApprovalByBridgeId sv st b by email d = (res, st') \<Longrightarrow> service_step st st'"
| step_openvtc: "decideApprovalByOpenVtc sv st b doc comment = (res, st') \<Longrightarrow> service_step st st'"
| step_ack: "recordActorAck sv st org k actor = (ack, st') \<Longrightarrow> service_step st st'"
| step_register: "registerManagerApprovalKey sv st u did x = (reg, st') \<Longrightarrow> service_step st st'"

inductive service_run :: "api_state \<Rightarrow> api_state \<Rightarrow> bool" where
  run_start: "service_run st st"
| run_call: "service_run st st' \<Longrightarrow> service_step st' st'' \<Longrightarrow> service_run st st''"

text \<open>How one call may change a row: not its identity, and its verdict only by a prepared decision.\<close>

definition evolves :: "api_state \<Rightarrow> approval_row \<Rightarrow> approval_row \<Rightarrow> bool" where
  "evolves st r r' \<longleftrightarrow> identity r' = identity r \<and>
     (verdict r' = verdict r \<or> (\<exists>sv by i. ar_status r = ''pending'' \<and> decided_row sv st by i r r'))"

definition step_effect :: "api_state \<Rightarrow> api_state \<Rightarrow> bool" where
  "step_effect st st' \<longleftrightarrow> ids_ok st' \<and>
     (\<forall>k r. findApproval k (st_approvals st) = Some r \<longrightarrow>
        (\<exists>r'. findApproval k (st_approvals st') = Some r' \<and> evolves st r r')) \<and>
     (\<forall>k r'. findApproval k (st_approvals st) = None \<longrightarrow> findApproval k (st_approvals st') = Some r' \<longrightarrow>
        verdict r' = (''pending'', None, None))"

lemma step_effectD:
  "step_effect st st' \<Longrightarrow> findApproval k (st_approvals st) = Some r \<Longrightarrow>
   \<exists>r'. findApproval k (st_approvals st') = Some r' \<and> evolves st r r'"
  "step_effect st st' \<Longrightarrow> findApproval k (st_approvals st) = None \<Longrightarrow>
   findApproval k (st_approvals st') = Some r' \<Longrightarrow> verdict r' = (''pending'', None, None)"
  unfolding step_effect_def by blast+

lemma same_verdicts_effect: "ids_ok st \<Longrightarrow> same_verdicts st st' \<Longrightarrow> step_effect st st'"
proof -
  assume ok: "ids_ok st" and s: "same_verdicts st st'"
  then have "findApproval k (st_approvals st) = None \<Longrightarrow> findApproval k (st_approvals st') = None" for k
    unfolding same_verdicts_def approvals.lookup_None by (metis list.set_map)
  with ok s show ?thesis unfolding step_effect_def same_verdicts_def evolves_def ids_ok_def by fastforce
qed

lemma commit_effect:
  assumes ok: "ids_ok st" and r: "findApproval k (st_approvals st) = Some r"
    and prep: "prepareDecision sv st r by i = Inr ctx"
    and com: "commitDecision sv st k by email i bridge ctx = (Inr row, st')"
  shows "step_effect st st'"
proof -
  obtain r0 where st': "st_approvals st' = updateApproval k (decideRow sv by i ctx) (st_approvals st)"
    using commitDecision_Inr [OF com] by metis
  have f: "findApproval k' (st_approvals st') =
      (if k' = k then Some (decideRow sv by i ctx r) else findApproval k' (st_approvals st))" for k'
    by (simp add: st' approvals.lookup_update r)
  have "ids_ok st'" using ok by (simp add: ids_ok_def st' approvals.keys_update)
  moreover have "evolves st r (decideRow sv by i ctx r)"
    using prep prepareDecision_Inr [OF prep] by (auto simp: evolves_def decided_row_def)
  ultimately show ?thesis using r unfolding step_effect_def f by (auto simp: evolves_def)
qed

lemma append_effect:
  assumes "ids_ok st" "ar_id row \<notin> ar_id ` set (st_approvals st)" "verdict row = (''pending'', None, None)"
    and "same_verdicts (st\<lparr>st_approvals := st_approvals st @ [row]\<rparr>) st'"
  shows "step_effect st st'"
proof -
  let ?st1 = "st\<lparr>st_approvals := st_approvals st @ [row]\<rparr>"
  have f: "findApproval k (st_approvals ?st1) =
      (case findApproval k (st_approvals st) of Some r \<Rightarrow> Some r | None \<Rightarrow> if ar_id row = k then Some row else None)" for k
  proof -
    have "find P (rows @ [row]) = (case find P rows of Some r \<Rightarrow> Some r | None \<Rightarrow> if P row then Some row else None)"
      for P :: "approval_row \<Rightarrow> bool" and rows by (induction rows) auto
    then show ?thesis by (simp add: findApproval_def)
  qed
  have ok: "ids_ok ?st1" using assms(1,2) by (simp add: ids_ok_def)
  from same_verdicts_effect [OF ok assms(4)] have ok': "ids_ok st'" by (simp add: step_effect_def)
  have old: "\<exists>r'. findApproval k (st_approvals st') = Some r' \<and> verdict r' = verdict r \<and> identity r' = identity r"
    if "findApproval k (st_approvals st) = Some r" for k r
    using assms(4) f [of k] that unfolding same_verdicts_def by auto
  have new: "verdict r' = (''pending'', None, None)"
    if "findApproval k (st_approvals st) = None" "findApproval k (st_approvals st') = Some r'" for k r'
  proof -
    have "findApproval k (st_approvals ?st1) \<noteq> None"
      using assms(4) that(2) unfolding same_verdicts_def
      by (metis approvals.lookup_None list.set_map option.distinct(1))
    with f [of k] that(1) have "findApproval k (st_approvals ?st1) = Some row" by (auto split: if_splits)
    then obtain r'' where "findApproval k (st_approvals st') = Some r''" "verdict r'' = verdict row"
      using assms(4) unfolding same_verdicts_def by blast
    with assms(3) that(2) show ?thesis by simp
  qed
  show ?thesis unfolding step_effect_def evolves_def using ok' old new by blast
qed

lemma decide_effect:
  assumes "decideApproval sv st org k by email i = (res, st')" "ids_ok st"
  shows "step_effect st st'"
proof (cases res)
  case Inl
  then show ?thesis using assms decideApproval_Inl same_verdicts_effect by fastforce
next
  case (Inr row)
  obtain r ctx where "findApproval k (st_approvals st) = Some r" "prepareDecision sv st r by i = Inr ctx"
    "commitDecision sv st k by email i None ctx = (Inr row, st')"
    using decideApproval_Inr [OF assms(1) [unfolded Inr] assms(2)] by metis
  then show ?thesis by (rule commit_effect [OF assms(2)])
qed

lemma bridge_effect:
  assumes "decideApprovalByBridgeId sv st b by email i = (res, st')" "ids_ok st"
  shows "step_effect st st'"
proof (cases res)
  case Inl
  then show ?thesis using assms decideByBridge_Inl same_verdicts_effect by fastforce
next
  case (Inr row)
  obtain r ctx where "findApproval (ar_id r) (st_approvals st) = Some r" "prepareDecision sv st r by i = Inr ctx"
    "commitDecision sv st (ar_id r) by email i (Some b) ctx = (Inr row, st')"
    using decideByBridge_Inr [OF assms(1) [unfolded Inr] assms(2)] by metis
  then show ?thesis by (rule commit_effect [OF assms(2)])
qed

lemma openvtc_state:
  "decideApprovalByOpenVtc sv st b doc comment = (res, st') \<Longrightarrow>
   st' = st \<or> (\<exists>by email i. decideApprovalByBridgeId sv st b by email i = (res, st'))"
  by (auto simp: decideApprovalByOpenVtc_def Let_def split: if_splits option.splits sum.splits)

lemma service_step_effect: "service_step st st' \<Longrightarrow> ids_ok st \<Longrightarrow> step_effect st st'"
proof (induction rule: service_step.induct)
  case (step_create sv st org p a e i res st' reqs)
  from create_state [OF step_create(1)] show ?case
  proof (elim disjE exE conjE)
    assume "st' = st"
    then show ?case using step_create(3) by (simp add: same_verdicts_effect)
  next
    fix row
    assume row: "ar_id row = sv_newId sv" "verdict row = (''pending'', None, None)"
      "same_verdicts (st\<lparr>st_approvals := st_approvals st @ [row]\<rparr>) st'"
    show ?case by (rule append_effect [OF step_create(3) _ row(2,3)]) (simp only: row(1) step_create(2) not_False_eq_True)
  qed
next
  case (step_trigger sv st org k res' st' reqs)
  from trigger_state [OF step_trigger(1)] have "same_verdicts st st'" by auto
  with step_trigger(2) show ?case by (rule same_verdicts_effect)
next
  case (step_decide sv st org k b email d res st')
  then show ?case by (rule decide_effect)
next
  case (step_bridge sv st b who email d res st')
  then show ?case by (rule bridge_effect)
next
  case (step_openvtc sv st b doc comment res st')
  from openvtc_state [OF step_openvtc(1)] step_openvtc(2) show ?case
    using bridge_effect same_verdicts_effect [OF _ same_verdicts_refl] by blast
next
  case (step_ack sv st org k actor ack st')
  from ack_state [OF step_ack(1)] have "same_verdicts st st'" by auto
  with step_ack(2) show ?case by (rule same_verdicts_effect)
next
  case (step_register sv st u did x reg st')
  from register_state [OF step_register(1)] have "same_verdicts st st'" by (simp add: same_verdicts_def)
  with step_register(2) show ?case by (rule same_verdicts_effect)
qed

lemma evolves_decided:
  "evolves st r r' \<Longrightarrow> ar_status r \<noteq> ''pending'' \<Longrightarrow> verdict r' = verdict r \<and> identity r' = identity r"
  by (auto simp: evolves_def)

lemma service_run_ids: "service_run st st' \<Longrightarrow> ids_ok st \<Longrightarrow> ids_ok st'"
  by (induction rule: service_run.induct) (auto dest: service_step_effect simp: step_effect_def)

lemma service_run_decided:
  "service_run st st' \<Longrightarrow> ids_ok st \<Longrightarrow> findApproval k (st_approvals st) = Some r \<Longrightarrow> ar_status r \<noteq> ''pending'' \<Longrightarrow>
   \<exists>r'. findApproval k (st_approvals st') = Some r' \<and> verdict r' = verdict r \<and> identity r' = identity r"
proof (induction arbitrary: r rule: service_run.induct)
  case (run_call st st' st'')
  then obtain r' where r': "findApproval k (st_approvals st') = Some r'" "verdict r' = verdict r" "identity r' = identity r"
    by blast
  have ok: "ids_ok st'" using run_call by (auto intro: service_run_ids)
  obtain r'' where r'': "findApproval k (st_approvals st'') = Some r''" "evolves st' r' r''"
    using step_effectD(1) [OF service_step_effect [OF run_call(2) ok] r'(1)] by blast
  have "ar_status r' \<noteq> ''pending''" using r'(2) run_call by (simp add: verdict_def)
  from evolves_decided [OF r''(2) this] r' r''(1) show ?case by auto
qed simp

section \<open>Properties\<close>

text \<open>C9. A decision is final: through any run of complete calls - creating, deciding on either path,
  delivering, acknowledging, registering keys - a row that was decided keeps its status, its decider
  and its comment, and every row keeps its identity.\<close>

theorem decided_is_final:
  assumes "service_run st st'" "distinct (map ar_id (st_approvals st))"
    and "findApproval k (st_approvals st) = Some r" "ar_status r \<noteq> ''pending''"
  shows "\<exists>r'. findApproval k (st_approvals st') = Some r' \<and>
    ar_status r' = ar_status r \<and> ar_decidedBy r' = ar_decidedBy r \<and>
    ar_decisionComment r' = ar_decisionComment r \<and> ar_action r' = ar_action r \<and>
    ar_organizationId r' = ar_organizationId r"
  using service_run_decided [OF assms(1) _ assms(3,4)] assms(2)
  by (auto simp: ids_ok_def verdict_def identity_def)


end
