(* ===== verification/Approval_Props.thy ===== *)
theory Approval_Props
  imports Approval_Runs
begin

text \<open>
  Further guarantees of the approval service: the credential stored with a decision, who may decide
  through a wallet, isolation between organisations, listing, delivery and key registration.
\<close>

section \<open>Evidence and credential\<close>

lemma find_SomeD: "find P xs = Some x \<Longrightarrow> x \<in> set xs \<and> P x"
  by (auto simp: find_Some_iff)

lemma is_json_oset: "is_json (JObj kvs) \<Longrightarrow> is_json v \<Longrightarrow> is_json (JObj (oset k v kvs))"
  by (induction k v kvs rule: oset.induct) auto

lemma stored_json: "is_json (JObj kvs) \<Longrightarrow> stored (JObj kvs) = JObj kvs"
  unfolding stored_def by (simp add: asJson_json del: is_json.simps)

lemma is_json_context: "is_json v \<Longrightarrow> is_json (JObj (getContextRecord v))"
  by (cases v) (simp_all add: getContextRecord_def)

lemma is_json_oget: "is_json (JObj kvs) \<Longrightarrow> oget kvs k = v \<Longrightarrow> v \<noteq> JUndef \<Longrightarrow> is_json v"
  by (cases "map_of kvs k") (auto simp: oget_def dest!: map_of_SomeD)

lemma is_json_vti: "is_json (JObj kvs) \<Longrightarrow> is_json (JObj (orElse (getVtiContext (JObj kvs)) []))"
proof -
  assume j: "is_json (JObj kvs)"
  show ?thesis
  proof (cases "oget kvs ''_vti''")
    case (JObj vti)
    then show ?thesis using is_json_oget [OF j JObj] by (simp add: getVtiContext_def)
  qed (simp_all add: getVtiContext_def)
qed

text \<open>Evidence is an object that states the request's digest; its document aside, it is all text.\<close>

lemma evidence_form:
  assumes "verifyManagerConfirmation sv st k by d ctx conf = Inr ev"
  shows "jsProp ev ''requestedActionDigest'' = JStr (requestDigest ctx)"
    and "(\<And>doc. conf = Openvtc_confirmation doc \<Longrightarrow> is_json (JObj doc)) \<Longrightarrow> is_json ev"
  using assms
  by (auto simp: verifyManagerConfirmation_def verifyOpenVtc_def verifyLegacy_def Let_def bindR_Inr_iff
      split: if_splits confirmation.splits sum.splits option.splits)

lemma decisionSubject_json:
  assumes "decisionSubject c k a t by d ev = Inr s" "jsProp ev ''requestedActionDigest'' = JStr x"
  shows "is_json s \<and> js_wf s"
  using assms by (auto simp: decisionSubject_def bindR_Inr_iff)

lemma signCredential_json:
  assumes "signCredential c s key t = Inr vc" "is_json s"
  shows "is_json vc \<and> truthy vc"
  using assms by (auto simp: signCredential_def Let_def bindR_Inr_iff proofConfigOf_def)

lemma verified_Inr:
  "(case w of Inl e \<Rightarrow> Inl (JsError e) | Inr u \<Rightarrow> Inr d) = Inr v \<longleftrightarrow> (\<exists>c. w = Inr c \<and> d = v)"
  by (cases w) auto

lemma createVerifiedDecisionVc_Inr:
  assumes "createVerifiedDecisionVc sv k a by d ev = Inr vc" "jsProp ev ''requestedActionDigest'' = JStr x"
  obtains key cred where "loadSigningKey (sv_crypto sv) (sv_env sv) (sv_freshSeed sv) = Inr key"
    "verifyCredential (sv_crypto sv) vc (buildDidDocument key) = Inr (Inr cred)" "is_json vc" "truthy vc"
proof -
  from assms(1) obtain key t s cred where
    "loadSigningKey (sv_crypto sv) (sv_env sv) (sv_freshSeed sv) = Inr key"
    "decisionSubject (sv_crypto sv) k a t by d ev = Inr s"
    "signCredential (sv_crypto sv) s key (sv_now sv) = Inr vc"
    "verifyCredential (sv_crypto sv) vc (buildDidDocument key) = Inr (Inr cred)"
    by (simp add: createVerifiedDecisionVc_def Let_def split: sum.splits)
       (auto simp: bindR_Inr_iff verified_Inr)
  then show ?thesis
    using that signCredential_json decisionSubject_json [OF _ assms(2)] by blast
qed

text \<open>With a loadable key and JSON evidence the credential is made.\<close>

lemma createVerifiedDecisionVc_defined:
  assumes ed: "ed25519_correct (sv_crypto sv)" and fresh: "length (sv_freshSeed sv) = 32"
    and key: "loadSigningKey (sv_crypto sv) (sv_env sv) (sv_freshSeed sv) = Inr key"
    and ev: "is_json ev" "js_wf ev" "jsProp ev ''requestedActionDigest'' = JStr x"
    and now: "\<bar>sv_now sv\<bar> \<le> maxTime"
  shows "\<exists>vc. createVerifiedDecisionVc sv k a by d ev = Inr vc"
proof -
  obtain t where t: "toISOString (Some (sv_now sv)) = Inr t" using iso_read_written [OF now] by blast
  obtain bytes where "canonicalizeJson ev = Inr bytes"
    using canonicalizeJson_defined [of ev] ev is_json_jcs_ok by blast
  then obtain s where s: "decisionSubject (sv_crypto sv) k a t by d ev = Inr s"
    by (simp add: decisionSubject_def)
  have j: "is_json s" "js_wf s" using decisionSubject_json [OF s ev(3)] by blast+
  obtain vc cred where "signCredential (sv_crypto sv) s key (sv_now sv) = Inr vc"
    "verifyCredential (sv_crypto sv) vc (buildDidDocument key) = Inr (Inr cred)"
    using signed_verifies [OF ed loadSigningKey_key_ok [OF key fresh] j(2) is_json_jcs_ok [OF j(1)] now] by blast
  with key t s show ?thesis by (simp add: createVerifiedDecisionVc_def)
qed

lemma decisionContext_Inr:
  assumes "decisionContext sv r by i (Some ev) = Inr ctx"
  obtains vc where "createVerifiedDecisionVc sv (ar_id r) (ar_action r) by (di_decision i) ev = Inr vc"
    "ctx = oset ''_vti'' (JObj (oset ''decision'' vc (oset ''managerConfirmation'' ev
       (orElse (getVtiContext (JObj (getContextRecord (ar_context r)))) [])))) (getContextRecord (ar_context r))"
  using assms by (auto simp: decisionContext_def Let_def bindR_Inr_iff)

text \<open>What is in the row of a confirmed decision.\<close>

lemma confirmed_row:
  assumes prep: "prepareDecision sv st r by i = Inr ctx" and conf: "di_confirmation i = Some conf"
    and json: "is_json (ar_context r)" "\<And>doc. conf = Openvtc_confirmation doc \<Longrightarrow> is_json (JObj doc)"
  obtains ev vc key cred where
    "verifyManagerConfirmation sv st (ar_id r) by (di_decision i) (ar_context r) conf = Inr ev"
    "vtiField (stored (JObj ctx)) ''managerConfirmation'' = ev" "vtiField (stored (JObj ctx)) ''decision'' = vc"
    "loadSigningKey (sv_crypto sv) (sv_env sv) (sv_freshSeed sv) = Inr key"
    "verifyCredential (sv_crypto sv) vc (buildDidDocument key) = Inr (Inr cred)" "truthy vc"
proof -
  obtain ev where ev: "verifyManagerConfirmation sv st (ar_id r) by (di_decision i) (ar_context r) conf = Inr ev"
      "decisionContext sv r by i (Some ev) = Inr ctx"
    using prep conf by (auto simp: prepareDecision_def decisionEvidence_def bindR_Inr_iff split: if_splits)
  obtain vc where vc: "createVerifiedDecisionVc sv (ar_id r) (ar_action r) by (di_decision i) ev = Inr vc"
      "ctx = oset ''_vti'' (JObj (oset ''decision'' vc (oset ''managerConfirmation'' ev
         (orElse (getVtiContext (JObj (getContextRecord (ar_context r)))) [])))) (getContextRecord (ar_context r))"
    using decisionContext_Inr [OF ev(2)] by blast
  obtain key cred where k: "loadSigningKey (sv_crypto sv) (sv_env sv) (sv_freshSeed sv) = Inr key"
      "verifyCredential (sv_crypto sv) vc (buildDidDocument key) = Inr (Inr cred)" "is_json vc" "truthy vc"
    using createVerifiedDecisionVc_Inr [OF vc(1) evidence_form(1) [OF ev(1)]] by blast
  have "is_json ev" using evidence_form(2) [OF ev(1)] json(2) by blast
  then have "is_json (JObj ctx)" unfolding vc(2)
    using is_json_context [OF json(1)] k(3) by (intro is_json_oset is_json_vti)
  then have st: "stored (JObj ctx) = JObj ctx" by (rule stored_json)
  show ?thesis
    by (rule that [OF ev(1) _ _ k(1,2,4)]) (simp_all only: st, simp_all add: vtiField_def getVtiContext_def vc(2))
qed

section \<open>A confirmation that is accepted\<close>

lemma legacy_evidence:
  assumes u: "findUser by (st_users st) = Some u" "us_approvalDid u = Some did" "did \<noteq> ''''"
      "truthy (us_approvalPublicKeyJwk u)"
    and req: "requestChallenge ctx \<noteq> ''''" "requestDigest ctx \<noteq> ''''"
    and t: "dateParse (sv_hostDate sv) signedAt = Some t" "\<bar>sv_now sv - t\<bar> \<le> 5 * 60000"
    and sig: "legacySignatureOk (sv_crypto sv) (us_approvalPublicKeyJwk u)
      (legacyChallenge k (requestChallenge ctx) (requestDigest ctx) d did signedAt) signature"
    and now: "\<bar>sv_now sv\<bar> \<le> maxTime"
  shows "\<exists>ev. verifyManagerConfirmation sv st k by d ctx (Legacy_confirmation did signedAt signature) = Inr ev \<and>
    is_json ev \<and> js_wf ev"
proof -
  obtain n where "toISOString (Some (sv_now sv)) = Inr n" using iso_read_written [OF now] by blast
  then show ?thesis
    using assms by (simp add: verifyManagerConfirmation_def verifyLegacy_def set_nonempty_def)
qed

lemma legacy_prepared:
  assumes ed: "ed25519_correct (sv_crypto sv)" and fresh: "length (sv_freshSeed sv) = 32"
    and key: "loadSigningKey (sv_crypto sv) (sv_env sv) (sv_freshSeed sv) = Inr key"
    and r: "ar_status r = ''pending''"
    and ev: "verifyManagerConfirmation sv st (ar_id r) by d (ar_context r) conf = Inr ev" "is_json ev" "js_wf ev"
    and now: "\<bar>sv_now sv\<bar> \<le> maxTime"
  shows "\<exists>ctx. prepareDecision sv st r by \<lparr> di_decision = d, di_comment = comment, di_confirmation = Some conf \<rparr> = Inr ctx"
proof -
  obtain vc where "createVerifiedDecisionVc sv (ar_id r) (ar_action r) by d ev = Inr vc"
    using createVerifiedDecisionVc_defined [OF ed fresh key ev(2,3) evidence_form(1) [OF ev(1)] now] by blast
  with r ev(1) show ?thesis
    by (simp add: prepareDecision_def decisionEvidence_def decisionContext_def Let_def)
qed

lemma decide_prepared:
  assumes "ids_ok st" "findInOrg org k st = Some r" "prepareDecision sv st r by i = Inr ctx"
  shows "\<exists>st'. decideApproval sv st org k by email i = (Inr (decideRow sv by i ctx r), st')"
proof -
  have "findApproval k (st_approvals st) = Some r" using findInOrg_find [OF assms(1,2)] by blast
  from commitDecision_found [OF this] obtain st'
    where "commitDecision sv st k by email i None ctx = (Inr (decideRow sv by i ctx r), st')" by blast
  with assms(2,3) show ?thesis by (simp add: decideApproval_def)
qed

section \<open>A concrete service\<close>

definition sampleServer :: server where
  "sampleServer = \<lparr> sv_crypto = toy_crypto, sv_env = sampleEnv, sv_hostDate = (\<lambda>_. None),
     sv_fetch = (\<lambda>_. Inl (JsError ''down'')), sv_now = 0, sv_freshSeed = replicate 32 0,
     sv_challenge = [1], sv_uuid = ''u'', sv_newId = ''a2'', sv_auditOk = True \<rparr>"

definition sampleRow :: approval_row where
  "sampleRow = \<lparr> ar_id = ''a1'', ar_organizationId = ''org'', ar_projectId = None, ar_agentId = None,
     ar_requestedBy = ''actor'', ar_action = ''data.export'',
     ar_context = JObj [(''_vti'', JObj
       [(''stepUpRequest'', JObj [(''payload'', JObj [(''subject'', JStr ''s''), (''challenge'', JStr ''c''), (''requestedActionDigest'', JStr ''d'')]),
          (''document'', JObj [(''id'', JStr ''x'')])]),
        (''actorStepUp'', JObj [(''taskId'', JStr ''t'')]),
        (''delivery'', JObj [(''status'', JStr ''queued''), (''attempts'', JInt 0)])])],
     ar_status = ''pending'', ar_decidedBy = None, ar_decisionComment = None, ar_expiresAt = 1,
     ar_createdAt = 0, ar_updatedAt = 0 \<rparr>"

definition sampleUser :: user_row where
  "sampleUser = \<lparr> us_id = ''m1'', us_email = ''m@x'', us_externalAuthId = ''local:m1'',
     us_approvalDid = Some ''did:m'', us_approvalPublicKeyJwk = JObj [(''x'', JStr ''k'')],
     us_approvalKeyRegisteredAt = Some 0 \<rparr>"

definition sampleState :: api_state where
  "sampleState = \<lparr> st_approvals = [sampleRow], st_users = [sampleUser], st_members = [], st_audit = [] \<rparr>"

definition sampleSignature :: string where
  "sampleSignature = render (canonForm (legacyChallenge ''a1'' ''c'' ''d'' Approved ''did:m'' ''1970-01-01''))"

abbreviation sampleApproval :: decide_input where
  "sampleApproval \<equiv> \<lparr> di_decision = Approved, di_comment = None,
     di_confirmation = Some (Legacy_confirmation ''did:m'' ''1970-01-01'' sampleSignature) \<rparr>"

abbreviation sampleDenial :: decide_input where
  "sampleDenial \<equiv> \<lparr> di_decision = Denied, di_comment = None, di_confirmation = None \<rparr>"

lemma sample_ids [simp]: "ids_ok sampleState" "distinct (map ar_id (st_approvals sampleState))"
  "findInOrg ''org'' ''a1'' sampleState = Some sampleRow"
  "findApproval ''a1'' (st_approvals sampleState) = Some sampleRow" "ar_status sampleRow = ''pending''"
  "ar_id sampleRow = ''a1''"
  by (simp_all add: ids_ok_def sampleState_def findInOrg_def findApproval_def sampleRow_def)

lemma sample_json [simp]: "is_json (ar_context sampleRow)"
  using is_json_JInt [of 0] by (simp add: sampleRow_def del: is_json.simps(4))

lemma sample_key: "\<exists>key. loadSigningKey (sv_crypto sampleServer) (sv_env sampleServer) (sv_freshSeed sampleServer) = Inr key"
  by (simp add: sampleServer_def loadSigningKey_def sampleEnv_def isDevEnvironment_def set_nonempty_def Let_def)

lemma sample_request: "requestChallenge (ar_context sampleRow) = ''c''" "requestDigest (ar_context sampleRow) = ''d''"
  "requestSubject (ar_context sampleRow) = ''s''"
  by (simp_all add: sampleRow_def requestChallenge_def requestDigest_def requestSubject_def vtiField_def getVtiContext_def stringOr_def
      coalesce_def nullish_def Let_def)

lemma sample_date: "dateParse (sv_hostDate sampleServer) ''1970-01-01'' = Some 0"
proof -
  have "isoParse ''1970-01-01'' = Some 0" by code_simp
  then show ?thesis by (simp add: dateParse_def)
qed

lemma sample_signature:
  "legacySignatureOk toy_crypto jwk (legacyChallenge ''a1'' ''c'' ''d'' Approved ''did:m'' ''1970-01-01'') sampleSignature"
proof -
  let ?c = "legacyChallenge ''a1'' ''c'' ''d'' Approved ''did:m'' ''1970-01-01''"
  have "js_wf ?c" "jcs_ok ?c" "text_ok ?c" by (simp_all add: legacyChallenge_def)
  then have "canonicalizeJson ?c = Inr (utf8 sampleSignature)"
    unfolding canonicalizeJson_def sampleSignature_def by (simp add: serializeValue_render)
  then show ?thesis by (simp add: legacySignatureOk_def) (simp add: toy_crypto_def)
qed

lemma sample_evidence:
  "\<exists>ev. verifyManagerConfirmation sampleServer sampleState ''a1'' ''m1'' Approved (ar_context sampleRow)
     (Legacy_confirmation ''did:m'' ''1970-01-01'' sampleSignature) = Inr ev \<and> is_json ev \<and> js_wf ev"
proof (rule legacy_evidence)
  show "findUser ''m1'' (st_users sampleState) = Some sampleUser"
    by (simp add: findUser_def sampleState_def sampleUser_def)
  show "dateParse (sv_hostDate sampleServer) ''1970-01-01'' = Some 0" by (rule sample_date)
  show "legacySignatureOk (sv_crypto sampleServer) (us_approvalPublicKeyJwk sampleUser)
      (legacyChallenge ''a1'' (requestChallenge (ar_context sampleRow)) (requestDigest (ar_context sampleRow))
        Approved ''did:m'' ''1970-01-01'') sampleSignature"
    unfolding sample_request using sample_signature by (simp add: sampleServer_def)
qed (simp_all add: sample_request, simp_all add: sampleUser_def sampleServer_def maxTime_def)

lemma sample_prepared:
  "\<exists>ctx. prepareDecision sampleServer sampleState sampleRow ''m1'' sampleApproval = Inr ctx"
proof -
  obtain ev where ev: "verifyManagerConfirmation sampleServer sampleState (ar_id sampleRow) ''m1'' Approved (ar_context sampleRow)
     (Legacy_confirmation ''did:m'' ''1970-01-01'' sampleSignature) = Inr ev" "is_json ev" "js_wf ev"
    using sample_evidence by auto
  obtain key where "loadSigningKey (sv_crypto sampleServer) (sv_env sampleServer) (sv_freshSeed sampleServer) = Inr key"
    using sample_key by blast
  then show ?thesis
    by (rule legacy_prepared [OF _ _ _ _ ev, rotated 2]) (simp_all add: sampleServer_def maxTime_def)
qed

lemma sample_approved:
  "\<exists>row st'. decideApproval sampleServer sampleState ''org'' ''a1'' ''m1'' None sampleApproval = (Inr row, st') \<and>
     ar_status row = ''approved'' \<and> findApproval ''a1'' (st_approvals st') = Some row"
proof -
  obtain ctx where ctx: "prepareDecision sampleServer sampleState sampleRow ''m1'' sampleApproval = Inr ctx"
    using sample_prepared by blast
  let ?row = "decideRow sampleServer ''m1'' sampleApproval ctx sampleRow"
  obtain st' where st': "decideApproval sampleServer sampleState ''org'' ''a1'' ''m1'' None sampleApproval = (Inr ?row, st')"
    using decide_prepared [OF sample_ids(1,3) ctx] by blast
  have "findApproval ''a1'' (st_approvals st') = Some ?row"
    using decide_effect_row [OF st' sample_ids(1)] by simp
  with st' show ?thesis by (intro exI [of _ ?row] exI [of _ st']) simp
qed

section \<open>A wallet's answer\<close>

text \<open>The document an OpenVTC wallet signs to answer the approval \<open>k\<close>.\<close>

definition responseDocument ::
  "string \<Rightarrow> string \<Rightarrow> string \<Rightarrow> string \<Rightarrow> decision \<Rightarrow> string \<Rightarrow> string \<Rightarrow> string \<Rightarrow> obj" where
  "responseDocument did rp subject challenge d k docId issuedAt =
     [(''id'', JStr docId), (''type'', JStr ''https://trusttasks.org/spec/auth/step-up/approve-response/0.2''),
      (''issuer'', JStr did), (''recipient'', JStr rp), (''issuedAt'', JStr issuedAt),
      (''payload'', JObj [(''subject'', JStr subject), (''challenge'', JStr challenge),
         (''decision'', JStr (decisionText d)), (''sessionId'', JStr k)])]"

lemma js_wf_oset: "js_wf (JObj kvs) \<Longrightarrow> js_wf v \<Longrightarrow> js_wf (JObj (oset k v kvs))"
proof -
  assume a: "js_wf (JObj kvs)" "js_wf v"
  have "\<forall>p \<in> set (oset k v kvs). js_wf (snd p)"
    using a by (induction k v kvs rule: oset.induct) auto
  with a(1) show ?thesis by (simp add: distinct_oset)
qed

lemma openvtc_evidence:
  assumes u: "findUser by (st_users st) = Some u" "us_externalAuthId u = ''openvtc:'' @ did" "did \<noteq> ''''"
    and req: "requestChallenge ctx \<noteq> ''''" "requestDigest ctx \<noteq> ''''" "requestSubject ctx \<noteq> ''''"
    and doc: "response = oset ''proof'' (JObj pr) (responseDocument did (expectedRpDid (sv_env sv))
        (requestSubject ctx) (requestChallenge ctx) d k docId issuedAt)"
      "is_json (JObj pr)" "js_wf (JObj pr)" "verifyTrustTaskProof (sv_crypto sv) response = Inr did"
    and t: "dateParse (sv_hostDate sv) issuedAt = Some t" "t \<le> sv_now sv + 5 * 60000" "sv_now sv - t \<le> APPROVAL_TTL_MS"
    and now: "\<bar>sv_now sv\<bar> \<le> maxTime"
  shows "\<exists>ev. verifyManagerConfirmation sv st k by d ctx (Openvtc_confirmation response) = Inr ev \<and>
    is_json ev \<and> js_wf ev"
proof -
  obtain n where n: "toISOString (Some (sv_now sv)) = Inr n" using iso_read_written [OF now] by blast
  have drop: "drop (length ''openvtc:'') (''openvtc:'' @ did) = did" by simp
  have did: "openVtcDid (findUser by (st_users st)) = Some did"
    using startsWith_append [of "''openvtc:''" did] drop
    unfolding openVtcDid_def u(1) option.case u(2) by (simp only: if_True)
  have j: "is_json (JObj response)" "js_wf (JObj response)"
    unfolding doc(1) by (intro is_json_oset js_wf_oset doc(2,3); simp add: responseDocument_def)+
  have b: "boundDocument (sv_env sv) (Some did) (requestSubject ctx) (requestChallenge ctx) k d response"
    using u(3) req unfolding doc(1) boundDocument_def by (simp add: responseDocument_def set_nonempty_def)
  have i: "oget response ''issuedAt'' = JStr issuedAt" unfolding doc(1) by (simp add: responseDocument_def)
  show ?thesis
    using did b i doc(4) t n req j
    by (simp add: verifyManagerConfirmation_def verifyOpenVtc_def Let_def del: is_json.simps js_wf.simps)
       (simp)
qed

text \<open>An authorised manager's answer goes through.\<close>

lemma openvtc_decides:
  assumes ids: "ids_ok st" and r: "findApproval k (st_approvals st) = Some r" "ar_status r = ''pending''"
    and u: "find (\<lambda>u. us_externalAuthId u = ''openvtc:'' @ did) (st_users st) = Some u"
      "findUser (us_id u) (st_users st) = Some u"
    and did: "startsWith did ''did:''"
    and m: "find (\<lambda>m. mb_organizationId m = ar_organizationId r \<and> mb_userId m = us_id u) (st_members st) = Some m"
      "mb_role m \<in> {''owner'', ''admin'', ''manager''}"
    and req: "requestChallenge (ar_context r) \<noteq> ''''" "requestDigest (ar_context r) \<noteq> ''''"
      "requestSubject (ar_context r) \<noteq> ''''"
    and doc: "response = oset ''proof'' (JObj pr) (responseDocument did (expectedRpDid (sv_env sv))
        (requestSubject (ar_context r)) (requestChallenge (ar_context r)) d k docId issuedAt)"
      "is_json (JObj pr)" "js_wf (JObj pr)" "verifyTrustTaskProof (sv_crypto sv) response = Inr did"
    and t: "dateParse (sv_hostDate sv) issuedAt = Some t" "t \<le> sv_now sv + 5 * 60000" "sv_now sv - t \<le> APPROVAL_TTL_MS"
    and now: "\<bar>sv_now sv\<bar> \<le> maxTime"
    and ed: "ed25519_correct (sv_crypto sv)" and fresh: "length (sv_freshSeed sv) = 32"
    and key: "loadSigningKey (sv_crypto sv) (sv_env sv) (sv_freshSeed sv) = Inr key"
  shows "\<exists>row st'. decideApprovalByOpenVtc sv st k response comment = (Inr row, st') \<and>
    findApproval k (st_approvals st') = Some row \<and> ar_status row = decisionText d \<and>
    ar_decidedBy row = Some (us_id u)"
proof -
  have rid: "ar_id r = k" using approvals.lookup_key [OF r(1)] by blast
  have ext: "us_externalAuthId u = ''openvtc:'' @ did" using find_SomeD [OF u(1)] by blast
  have ne: "did \<noteq> ''''" using did by (auto simp: startsWith_def)
  let ?i = "\<lparr> di_decision = d, di_comment = comment, di_confirmation = Some (Openvtc_confirmation response) \<rparr>"
  obtain ev where ev: "verifyManagerConfirmation sv st (ar_id r) (us_id u) d (ar_context r) (Openvtc_confirmation response) = Inr ev"
      "is_json ev" "js_wf ev"
    using openvtc_evidence [OF u(2) ext ne req doc t now] unfolding rid by blast
  obtain ctx where ctx: "prepareDecision sv st r (us_id u) ?i = Inr ctx"
    using legacy_prepared [OF ed fresh key r(2) ev now] by blast
  have res: "resolveApprovalByBridgeId st k = Some r" by (simp add: resolveApprovalByBridgeId_def r(1))
  obtain st' where st': "commitDecision sv st k (us_id u) (Some (us_email u)) ?i (Some k) ctx =
      (Inr (decideRow sv (us_id u) ?i ctx r), st')"
    using commitDecision_found [OF r(1)] by blast
  have iss: "oget response ''issuer'' = JStr did" and
    pd: "payloadDecision response = Some d"
    unfolding doc(1) by (simp_all add: responseDocument_def payloadDecision_def, cases d, simp_all)
  have "decideApprovalByOpenVtc sv st k response comment = (Inr (decideRow sv (us_id u) ?i ctx r), st')"
    using iss did u(1) doc(4) res m pd ctx st' rid
    by (simp add: decideApprovalByOpenVtc_def decideApprovalByBridgeId_def Let_def) 
  then show ?thesis using commit_row [OF st'] by (intro exI conjI) (assumption | simp)+
qed

definition walletDid :: string where
  "walletDid = ''did:key:'' @ encodeBase58Btc ([0xed, 1] @ replicate 32 7)"

definition walletUser :: user_row where
  "walletUser = \<lparr> us_id = ''m2'', us_email = ''w@x'', us_externalAuthId = ''openvtc:'' @ walletDid,
     us_approvalDid = None, us_approvalPublicKeyJwk = JNull, us_approvalKeyRegisteredAt = None \<rparr>"

definition walletState :: api_state where
  "walletState = \<lparr> st_approvals = [sampleRow], st_users = [walletUser],
     st_members = [\<lparr> mb_organizationId = ''org'', mb_userId = ''m2'', mb_role = ''manager'' \<rparr>], st_audit = [] \<rparr>"

definition walletKey :: signing_key where
  "walletKey = \<lparr> sk_seed = replicate 32 7, sk_publicKey = replicate 32 7, sk_did = walletDid,
     sk_verificationMethodId = walletDid @ ''#'' @ encodeBase58Btc ([0xed, 1] @ replicate 32 7) \<rparr>"

lemma wallet_key: "didKeyFromPublicKey (ed_getPublicKey toy_crypto (replicate 32 7)) =
    Inr (walletDid, sk_verificationMethodId walletKey, encodeBase58Btc ([0xed, 1] @ replicate 32 7))"
  "signingKeyFromSeed toy_crypto (replicate 32 7) walletDid (Some (sk_verificationMethodId walletKey)) = Inr walletKey"
  by (simp_all add: didKeyFromPublicKey_def walletDid_def walletKey_def signingKeyFromSeed_def toy_crypto_def Let_def)

abbreviation walletResponseDocument :: obj where
  "walletResponseDocument \<equiv> responseDocument walletDid (expectedRpDid (sv_env sampleServer)) ''s'' ''c'' Approved ''a1'' ''r1'' ''1970-01-01''"

lemma wallet_state [simp]:
  "ids_ok walletState" "distinct (map ar_id (st_approvals walletState))"
  "findApproval ''a1'' (st_approvals walletState) = Some sampleRow"
  "find (\<lambda>u. us_externalAuthId u = ''openvtc:'' @ walletDid) (st_users walletState) = Some walletUser"
  "findUser (us_id walletUser) (st_users walletState) = Some walletUser"
  "find (\<lambda>m. mb_organizationId m = ar_organizationId sampleRow \<and> mb_userId m = us_id walletUser) (st_members walletState) =
     Some \<lparr> mb_organizationId = ''org'', mb_userId = ''m2'', mb_role = ''manager'' \<rparr>"
  by (simp_all add: ids_ok_def walletState_def findApproval_def findUser_def walletUser_def sampleRow_def)

section \<open>From the wallet's key to the decided row\<close>

lemma wallet_answer:
  assumes ids: "ids_ok st" and r: "findApproval k (st_approvals st) = Some r" "ar_status r = ''pending''"
    and u: "find (\<lambda>u. us_externalAuthId u = ''openvtc:'' @ did) (st_users st) = Some u"
      "findUser (us_id u) (st_users st) = Some u"
    and m: "find (\<lambda>m. mb_organizationId m = ar_organizationId r \<and> mb_userId m = us_id u) (st_members st) = Some m"
      "mb_role m \<in> {''owner'', ''admin'', ''manager''}"
    and req: "requestChallenge (ar_context r) \<noteq> ''''" "requestDigest (ar_context r) \<noteq> ''''"
      "requestSubject (ar_context r) \<noteq> ''''"
    and wallet: "length seed = 32" "didKeyFromPublicKey (ed_getPublicKey (sv_crypto sv) seed) = Inr (did, vm, mb)"
      "signingKeyFromSeed (sv_crypto sv) seed did (Some vm) = Inr wkey" "\<bar>clock\<bar> \<le> maxTime"
      "signTrustTask (sv_crypto sv) (responseDocument did (expectedRpDid (sv_env sv)) (requestSubject (ar_context r))
        (requestChallenge (ar_context r)) d k docId issuedAt) wkey clock = Inr response"
    and t: "dateParse (sv_hostDate sv) issuedAt = Some t" "t \<le> sv_now sv + 5 * 60000" "sv_now sv - t \<le> APPROVAL_TTL_MS"
    and now: "\<bar>sv_now sv\<bar> \<le> maxTime"
    and ed: "ed25519_correct (sv_crypto sv)" and fresh: "length (sv_freshSeed sv) = 32"
    and key: "loadSigningKey (sv_crypto sv) (sv_env sv) (sv_freshSeed sv) = Inr key"
  shows "\<exists>row st'. decideApprovalByOpenVtc sv st k response comment = (Inr row, st') \<and>
    findApproval k (st_approvals st') = Some row \<and> ar_status row = decisionText d \<and>
    ar_decidedBy row = Some (us_id u)"
proof -
  let ?doc = "responseDocument did (expectedRpDid (sv_env sv)) (requestSubject (ar_context r))
        (requestChallenge (ar_context r)) d k docId issuedAt"
  have doc: "js_wf (JObj ?doc)" "jcs_ok (JObj ?doc)" "''proof'' \<notin> fst ` set ?doc" "oget ?doc ''issuer'' = JStr did"
    by (simp_all add: responseDocument_def)
  obtain pr where pr: "response = oset ''proof'' (JObj pr) ?doc" "is_json (JObj pr)" "js_wf (JObj pr)"
      "verifyTrustTaskProof (sv_crypto sv) response = Inr did"
    using wallet_verifies [OF ed wallet(1-3) doc wallet(4)] wallet(5) by auto
  have "did = ''did:key:'' @ mb" using wallet(2) by (auto simp: didKeyFromPublicKey_def Let_def split: if_splits)
  then have "startsWith did ''did:''" by (simp add: startsWith_def)
  then show ?thesis by (rule openvtc_decides [OF ids r u _ m req pr t now ed fresh key])
qed

lemma sample_wallet_answer:
  "\<exists>response row st'. signTrustTask toy_crypto walletResponseDocument walletKey 0 = Inr response \<and>
    decideApprovalByOpenVtc sampleServer walletState ''a1'' response None = (Inr row, st') \<and>
    ar_status row = ''approved''"
proof -
  have doc: "js_wf (JObj walletResponseDocument)" "jcs_ok (JObj walletResponseDocument)"
    "''proof'' \<notin> fst ` set walletResponseDocument" "oget walletResponseDocument ''issuer'' = JStr walletDid"
    by (simp_all add: responseDocument_def)
  have l: "length (replicate 32 7 :: bytes) = 32" "\<bar>0 :: int\<bar> \<le> maxTime" by (simp_all add: maxTime_def)
  obtain response where r: "signTrustTask toy_crypto walletResponseDocument walletKey 0 = Inr response"
    using wallet_verifies [OF toy_crypto_laws(2) l(1) wallet_key doc l(2)] by blast
  obtain key where key: "loadSigningKey (sv_crypto sampleServer) (sv_env sampleServer) (sv_freshSeed sampleServer) = Inr key"
    using sample_key by blast
  have sv: "sv_crypto sampleServer = toy_crypto" "sv_now sampleServer = 0" "length (sv_freshSeed sampleServer) = 32"
    by (simp_all add: sampleServer_def)
  have "\<exists>row st'. decideApprovalByOpenVtc sampleServer walletState ''a1'' response None = (Inr row, st') \<and>
    findApproval ''a1'' (st_approvals st') = Some row \<and> ar_status row = decisionText Approved \<and>
    ar_decidedBy row = Some (us_id walletUser)"
    by (rule wallet_answer [where seed = "replicate 32 7" and clock = 0 and t = 0 and issuedAt = "''1970-01-01''"
          and wkey = walletKey and did = walletDid, OF wallet_state(1) wallet_state(3) sample_ids(5) wallet_state(4,5,6)])
       (use r key wallet_key sample_request sample_date sv in \<open>simp_all add: maxTime_def APPROVAL_TTL_MS_def\<close>)
  with r show ?thesis by fastforce
qed

section \<open>Properties\<close>

text \<open>C11. A confirmed decision carries a credential that verifies on read for as long as the signing key
  is the same - and whatever is done to the row's other columns: the read check covers neither the
  status nor the decider nor the action of the row, only the stored credential.\<close>

theorem decision_verifies_on_read:
  assumes dec: "decideApproval sv st org k by email i = (Inr row, st')"
    and ids: "distinct (map ar_id (st_approvals st))"
    and conf: "di_confirmation i = Some conf" "\<And>doc. conf = Openvtc_confirmation doc \<Longrightarrow> is_json (JObj doc)"
    and json: "\<And>r. findApproval k (st_approvals st) = Some r \<Longrightarrow> is_json (ar_context r)"
    and reader: "sv_crypto sv' = sv_crypto sv"
      "loadSigningKey (sv_crypto sv) (sv_env sv') (sv_freshSeed sv') =
       loadSigningKey (sv_crypto sv) (sv_env sv) (sv_freshSeed sv)"
  shows "vv_vtiVerified (verifyDecisionVc sv' row) \<and>
    vv_vtiVerified (verifyDecisionVc sv' (row\<lparr>ar_status := s, ar_decidedBy := b, ar_action := a\<rparr>))"
proof -
  obtain r ctx where r: "findApproval k (st_approvals st) = Some r"
      "prepareDecision sv st r by i = Inr ctx" "row = decideRow sv by i ctx r"
    using decideApproval_Inr [OF dec] ids unfolding ids_ok_def by metis
  obtain vc key cred where "vtiField (stored (JObj ctx)) ''decision'' = vc"
    "loadSigningKey (sv_crypto sv) (sv_env sv) (sv_freshSeed sv) = Inr key"
    "verifyCredential (sv_crypto sv) vc (buildDidDocument key) = Inr (Inr cred)" "truthy vc"
    using confirmed_row [OF r(2) conf(1) json [OF r(1)] conf(2)] by metis
  then show ?thesis using reader by (simp add: r(3) verifyDecisionVc_def Let_def)
qed

theorem decision_verifies_on_read_witness:
  "\<exists>row st'. decideApproval sampleServer sampleState ''org'' ''a1'' ''m1'' None sampleApproval = (Inr row, st') \<and>
    vv_vtiVerified (verifyDecisionVc sampleServer (row\<lparr>ar_status := ''denied'', ar_decidedBy := None, ar_action := ''x''\<rparr>))"
proof -
  obtain row st' where d: "decideApproval sampleServer sampleState ''org'' ''a1'' ''m1'' None sampleApproval = (Inr row, st')"
    using sample_approved by blast
  have "vv_vtiVerified (verifyDecisionVc sampleServer row) \<and>
    vv_vtiVerified (verifyDecisionVc sampleServer (row\<lparr>ar_status := ''denied'', ar_decidedBy := None, ar_action := ''x''\<rparr>))"
    by (rule decision_verifies_on_read [OF d, where conf = "Legacy_confirmation ''did:m'' ''1970-01-01'' sampleSignature"])
      simp_all
  with d show ?thesis by blast
qed

text \<open>C12. A call reads the row and writes it later, and the write does not look at the status again: two
  decisions prepared on one pending row both commit, both callers are told their own decision holds,
  and the later one overwrites the earlier, also an approval already reported as final.\<close>

theorem concurrent_decisions:
  assumes "findApproval k (st_approvals st) = Some r"
    and "prepareDecision sv1 st r by1 i1 = Inr ctx1" "prepareDecision sv2 st r by2 i2 = Inr ctx2"
  shows "\<exists>row1 st1 row2 st2.
    commitDecision sv1 st k by1 email1 i1 bridge1 ctx1 = (Inr row1, st1) \<and>
    commitDecision sv2 st1 k by2 email2 i2 bridge2 ctx2 = (Inr row2, st2) \<and>
    ar_status row1 = decisionText (di_decision i1) \<and> ar_status row2 = decisionText (di_decision i2) \<and>
    findApproval k (st_approvals st2) = Some row2 \<and> ar_decidedBy row2 = Some by2"
proof -
  obtain st1 where st1: "commitDecision sv1 st k by1 email1 i1 bridge1 ctx1 = (Inr (decideRow sv1 by1 i1 ctx1 r), st1)"
    using commitDecision_found [OF assms(1)] by blast
  have f1: "findApproval k (st_approvals st1) = Some (decideRow sv1 by1 i1 ctx1 r)"
    using commit_row [OF st1] .
  obtain st2 where st2: "commitDecision sv2 st1 k by2 email2 i2 bridge2 ctx2 =
      (Inr (decideRow sv2 by2 i2 ctx2 (decideRow sv1 by1 i1 ctx1 r)), st2)"
    using commitDecision_found [OF f1] by blast
  from st1 st2 commit_row [OF st2] show ?thesis by (intro exI conjI) (assumption | simp)+
qed

theorem concurrent_decisions_witness:
  "\<exists>(row1 :: approval_row) (row2 :: approval_row) (st2 :: api_state). ar_status row1 = ''approved'' \<and>
    findApproval ''a1'' (st_approvals st2) = Some row2 \<and> ar_status row2 = ''denied''"
proof -
  obtain ctx where ctx: "prepareDecision sampleServer sampleState sampleRow ''m1'' sampleApproval = Inr ctx"
    using sample_prepared by blast
  have den: "prepareDecision sampleServer sampleState sampleRow ''m2'' sampleDenial = Inr (getContextRecord (ar_context sampleRow))"
    by (simp add: prepareDecision_def decisionEvidence_def decisionContext_def Let_def)
  from concurrent_decisions [OF sample_ids(4) ctx den, of None None None None] show ?thesis by fastforce
qed

text \<open>C13. A wallet decides only in its own name and only for its own organisation: when an OpenVTC
  response decides a row, its issuer is a provisioned user who is owner, admin or manager of the row's
  organisation, the proof verifies under the issuer's DID, and the signed payload names this approval,
  its challenge and the very decision recorded.\<close>

theorem openvtc_decision_authority:
  assumes "decideApprovalByOpenVtc sv st b document comment = (Inr row, st')"
    and ids: "distinct (map ar_id (st_approvals st))"
  shows "\<exists>r did u m. resolveApprovalByBridgeId st b = Some r \<and> ar_status r = ''pending'' \<and>
    oget document ''issuer'' = JStr did \<and> verifyTrustTaskProof (sv_crypto sv) document = Inr did \<and>
    u \<in> set (st_users st) \<and> us_externalAuthId u = ''openvtc:'' @ did \<and> ar_decidedBy row = Some (us_id u) \<and>
    m \<in> set (st_members st) \<and> mb_userId m = us_id u \<and> mb_organizationId m = ar_organizationId r \<and>
    mb_role m \<in> {''owner'', ''admin'', ''manager''} \<and>
    jsProp (oget document ''payload'') ''sessionId'' = JStr (ar_id r) \<and>
    jsProp (oget document ''payload'') ''challenge'' = JStr (requestChallenge (ar_context r)) \<and>
    jsProp (oget document ''payload'') ''decision'' = JStr (ar_status row)"
proof -
  from assms(1) obtain did u r m d where v: "oget document ''issuer'' = JStr did"
    "find (\<lambda>u. us_externalAuthId u = ''openvtc:'' @ did) (st_users st) = Some u"
    "verifyTrustTaskProof (sv_crypto sv) document = Inr did" "resolveApprovalByBridgeId st b = Some r"
    "find (\<lambda>m. mb_organizationId m = ar_organizationId r \<and> mb_userId m = us_id u) (st_members st) = Some m"
    "mb_role m \<in> {''owner'', ''admin'', ''manager''}"
    and dec: "decideApprovalByBridgeId sv st b (us_id u) (Some (us_email u)) \<lparr> di_decision = d, di_comment = comment,
       di_confirmation = Some (Openvtc_confirmation document) \<rparr> = (Inr row, st')"
    by (cases "oget document ''issuer''")
       (auto simp: decideApprovalByOpenVtc_def Let_def split: if_splits option.splits sum.splits)
  obtain r' ctx where r': "resolveApprovalByBridgeId st b = Some r'"
    "prepareDecision sv st r' (us_id u) \<lparr> di_decision = d, di_comment = comment,
       di_confirmation = Some (Openvtc_confirmation document) \<rparr> = Inr ctx"
    "row = decideRow sv (us_id u) \<lparr> di_decision = d, di_comment = comment,
       di_confirmation = Some (Openvtc_confirmation document) \<rparr> ctx r'"
    using decideByBridge_Inr [OF dec] ids unfolding ids_ok_def by metis
  have rr: "r' = r" using r'(1) v(4) by simp
  from r'(2) have p: "ar_status r = ''pending''"
    "\<exists>ev. verifyManagerConfirmation sv st (ar_id r) (us_id u) d (ar_context r) (Openvtc_confirmation document) = Inr ev"
    unfolding rr by (auto simp: prepareDecision_def decisionEvidence_def bindR_Inr_iff split: if_splits)
  from p(2) have "boundDocument (sv_env sv) (openVtcDid (findUser (us_id u) (st_users st)))
      (requestSubject (ar_context r)) (requestChallenge (ar_context r)) (ar_id r) d document"
    by (auto simp: verifyManagerConfirmation_def verifyOpenVtc_def Let_def split: if_splits)
  then have "jsProp (oget document ''payload'') ''sessionId'' = JStr (ar_id r)"
    "jsProp (oget document ''payload'') ''challenge'' = JStr (requestChallenge (ar_context r))"
    "jsProp (oget document ''payload'') ''decision'' = JStr (decisionText d)"
    by (auto simp: boundDocument_def)
  moreover have "ar_status row = decisionText d" "ar_decidedBy row = Some (us_id u)" by (simp_all add: r'(3))
  ultimately show ?thesis using v(1,3,4,6) p(1) find_SomeD [OF v(2)] find_SomeD [OF v(5)]
    by (intro exI [of _ r] exI [of _ did] exI [of _ u] exI [of _ m] conjI) simp_all
qed

theorem decided_is_final_witness:
  "\<exists>row st1 res st2 r'.
    decideApproval sampleServer sampleState ''org'' ''a1'' ''m1'' None sampleApproval = (Inr row, st1) \<and>
    decideApproval sampleServer st1 ''org'' ''a1'' ''m2'' None sampleDenial = (res, st2) \<and>
    findApproval ''a1'' (st_approvals st2) = Some r' \<and> ar_status r' = ''approved''"
proof -
  obtain row st1 where d: "decideApproval sampleServer sampleState ''org'' ''a1'' ''m1'' None sampleApproval = (Inr row, st1)"
      "ar_status row = ''approved''" "findApproval ''a1'' (st_approvals st1) = Some row"
    using sample_approved by blast
  obtain res st2 where e: "decideApproval sampleServer st1 ''org'' ''a1'' ''m2'' None sampleDenial = (res, st2)"
    by fastforce
  have ok: "ids_ok st1" using service_step_effect [OF step_decide [OF d(1)] sample_ids(1)] by (simp add: step_effect_def)
  have "service_run st1 st2" by (rule run_call [OF run_start step_decide [OF e]])
  from decided_is_final [OF this ok [unfolded ids_ok_def] d(3)] d(2)
  obtain r' where "findApproval ''a1'' (st_approvals st2) = Some r'" "ar_status r' = ''approved''" by auto
  with d(1) e show ?thesis by blast
qed


theorem openvtc_decision_authority_witness:
  "\<exists>response row st'. decideApprovalByOpenVtc sampleServer walletState ''a1'' response None = (Inr row, st') \<and>
    ar_status row = ''approved'' \<and> verifyTrustTaskProof toy_crypto response = Inr walletDid \<and>
    ar_decidedBy row = Some ''m2''"
proof -
  obtain response row st' where r: "signTrustTask toy_crypto walletResponseDocument walletKey 0 = Inr response"
    "decideApprovalByOpenVtc sampleServer walletState ''a1'' response None = (Inr row, st')"
    "ar_status row = ''approved''"
    using sample_wallet_answer by blast
  obtain did u where v: "verifyTrustTaskProof (sv_crypto sampleServer) response = Inr did"
    "u \<in> set (st_users walletState)" "us_externalAuthId u = ''openvtc:'' @ did" "ar_decidedBy row = Some (us_id u)"
    using openvtc_decision_authority [OF r(2) wallet_state(2)] by blast
  have u: "u = walletUser" using v(2) by (simp add: walletState_def)
  have "did = walletDid" using v(3) unfolding u by (simp add: walletUser_def)
  with r v u show ?thesis by (intro exI [of _ response] exI [of _ row] exI [of _ st']) (simp add: sampleServer_def walletUser_def)
qed

text \<open>C14. A wallet can answer: when the signed-in manager of the row's organisation has a wallet key and
  signs the response to a pending request within its time, the call decides the row as the wallet
  says and records the manager; nothing else is asked of it.\<close>

theorem wallet_answer_decides:
  assumes "distinct (map ar_id (st_approvals st))" and "findApproval k (st_approvals st) = Some r" "ar_status r = ''pending''"
    and "find (\<lambda>u. us_externalAuthId u = ''openvtc:'' @ did) (st_users st) = Some u"
      "findUser (us_id u) (st_users st) = Some u"
    and "find (\<lambda>m. mb_organizationId m = ar_organizationId r \<and> mb_userId m = us_id u) (st_members st) = Some m"
      "mb_role m \<in> {''owner'', ''admin'', ''manager''}"
    and "requestChallenge (ar_context r) \<noteq> ''''" "requestDigest (ar_context r) \<noteq> ''''"
      "requestSubject (ar_context r) \<noteq> ''''"
    and "length seed = 32" "didKeyFromPublicKey (ed_getPublicKey (sv_crypto sv) seed) = Inr (did, vm, mb)"
      "signingKeyFromSeed (sv_crypto sv) seed did (Some vm) = Inr wkey" "\<bar>clock\<bar> \<le> maxTime"
      "signTrustTask (sv_crypto sv) (responseDocument did (expectedRpDid (sv_env sv)) (requestSubject (ar_context r))
        (requestChallenge (ar_context r)) d k docId issuedAt) wkey clock = Inr response"
    and "dateParse (sv_hostDate sv) issuedAt = Some t" "t \<le> sv_now sv + 5 * 60000" "sv_now sv - t \<le> APPROVAL_TTL_MS"
    and "\<bar>sv_now sv\<bar> \<le> maxTime"
    and "ed25519_correct (sv_crypto sv)" and "length (sv_freshSeed sv) = 32"
    and "loadSigningKey (sv_crypto sv) (sv_env sv) (sv_freshSeed sv) = Inr key"
  shows "\<exists>row st'. decideApprovalByOpenVtc sv st k response comment = (Inr row, st') \<and>
    findApproval k (st_approvals st') = Some row \<and> ar_status row = decisionText d \<and>
    ar_decidedBy row = Some (us_id u)"
  by (rule wallet_answer [OF _ assms(2-)]) (simp add: ids_ok_def assms(1))

theorem wallet_answer_decides_witness:
  "\<exists>response row st'. signTrustTask toy_crypto walletResponseDocument walletKey 0 = Inr response \<and>
    decideApprovalByOpenVtc sampleServer walletState ''a1'' response None = (Inr row, st') \<and>
    ar_status row = ''approved'' \<and> ar_decidedBy row = Some ''m2''"
proof -
  obtain response where r: "signTrustTask toy_crypto walletResponseDocument walletKey 0 = Inr response"
    using sample_wallet_answer by blast
  obtain key where key: "loadSigningKey (sv_crypto sampleServer) (sv_env sampleServer) (sv_freshSeed sampleServer) = Inr key"
    using sample_key by blast
  have sv: "sv_crypto sampleServer = toy_crypto" "sv_now sampleServer = 0" "length (sv_freshSeed sampleServer) = 32"
    by (simp_all add: sampleServer_def)
  have "\<exists>row st'. decideApprovalByOpenVtc sampleServer walletState ''a1'' response None = (Inr row, st') \<and>
    findApproval ''a1'' (st_approvals st') = Some row \<and> ar_status row = decisionText Approved \<and>
    ar_decidedBy row = Some (us_id walletUser)"
    by (rule wallet_answer_decides [where seed = "replicate 32 7" and clock = 0 and t = 0 and issuedAt = "''1970-01-01''"
          and wkey = walletKey and did = walletDid, OF wallet_state(2) wallet_state(3) sample_ids(5) wallet_state(4,5,6)])
       (use r key wallet_key sample_request sample_date sv toy_crypto_laws(2) in \<open>simp_all add: maxTime_def APPROVAL_TTL_MS_def\<close>)
  with r show ?thesis by (fastforce simp: walletUser_def)
qed

end
