(* ===== verification/Guardrails.thy ===== *)
theory Guardrails
  imports Digests
begin

text \<open>
  \<^verbatim>\<open>packages/api/src/services/protective-guardrails-service.ts\<close>: rules over agent actions, evaluated
  strictest-wins, and the preview of a decision with its digests and its link in the evidence chain.
  The counts are integers (\<^verbatim>\<open>validations/protective-guardrail.ts\<close>). An optional field that is absent has
  no property in the action's JSON.
\<close>

section \<open>Actions and rules\<close>

datatype action_type =
    Email_send | File_read | File_delete | File_export | File_write | Secret_release
  | Connector_read | Connector_write | Network_egress | Runtime_code_execute | Policy_change

fun actionTypeText :: "action_type \<Rightarrow> string" where
  "actionTypeText Email_send = ''email.send''"
| "actionTypeText File_read = ''file.read''"
| "actionTypeText File_delete = ''file.delete''"
| "actionTypeText File_export = ''file.export''"
| "actionTypeText File_write = ''file.write''"
| "actionTypeText Secret_release = ''secret.release''"
| "actionTypeText Connector_read = ''connector.read''"
| "actionTypeText Connector_write = ''connector.write''"
| "actionTypeText Network_egress = ''network.egress''"
| "actionTypeText Runtime_code_execute = ''runtime.code_execute''"
| "actionTypeText Policy_change = ''policy.change''"

datatype boundary = Enterprise | Personal | External | Runtime | Policy

fun boundaryText :: "boundary \<Rightarrow> string" where
  "boundaryText Enterprise = ''enterprise''"
| "boundaryText Personal = ''personal''"
| "boundaryText External = ''external''"
| "boundaryText Runtime = ''runtime''"
| "boundaryText Policy = ''policy''"

datatype effect = Allow | Evidence_required | Quota | Step_up | Approval_required | Block

fun effectText :: "effect \<Rightarrow> string" where
  "effectText Allow = ''allow''"
| "effectText Evidence_required = ''evidence_required''"
| "effectText Quota = ''quota''"
| "effectText Step_up = ''step_up''"
| "effectText Approval_required = ''approval_required''"
| "effectText Block = ''block''"

datatype layer = Layer_global | Layer_personal | Layer_agent

fun layerText :: "layer \<Rightarrow> string" where
  "layerText Layer_global = ''global''"
| "layerText Layer_personal = ''personal''"
| "layerText Layer_agent = ''agent''"

datatype recipient_class = To_self | To_internal | To_manager | To_external

fun recipientText :: "recipient_class \<Rightarrow> string" where
  "recipientText To_self = ''self''"
| "recipientText To_internal = ''internal''"
| "recipientText To_manager = ''manager''"
| "recipientText To_external = ''external''"

datatype quota_window = Minute | Hour | Day

fun windowText :: "quota_window \<Rightarrow> string" where
  "windowText Minute = ''minute''"
| "windowText Hour = ''hour''"
| "windowText Day = ''day''"

datatype approver_role = Owner | Manager | Compliance | Cyber | Data_steward | Recipient

fun roleText :: "approver_role \<Rightarrow> string" where
  "roleText Owner = ''owner''"
| "roleText Manager = ''manager''"
| "roleText Compliance = ''compliance''"
| "roleText Cyber = ''cyber''"
| "roleText Data_steward = ''data_steward''"
| "roleText Recipient = ''recipient''"

datatype approval_mode = All_of | Any_of

fun modeText :: "approval_mode \<Rightarrow> string" where
  "modeText All_of = ''all''"
| "modeText Any_of = ''any''"

record guardrail_action =
  ga_actionType :: action_type
  ga_actorId :: string
  ga_agentId :: string
  ga_sourceBoundary :: boundary
  ga_targetBoundary :: boundary
  ga_resourceClass :: string
  ga_connectorId :: "string option"
  ga_recipientClass :: "recipient_class option"
  ga_count :: "int option"
  ga_metadata :: "obj option"

record guardrail_quota =
  gq_maxCount :: int
  gq_window :: quota_window

record approval_requirement =
  aq_roles :: "approver_role list"
  aq_mode :: approval_mode
  aq_stepUpRequired :: "bool option"

record guardrail_rule =
  ru_id :: string
  ru_title :: string
  ru_layer :: layer
  ru_effect :: effect
  ru_actionTypes :: "action_type list option"
  ru_sourceBoundaries :: "boundary list option"
  ru_targetBoundaries :: "boundary list option"
  ru_resourceClasses :: "string list option"
  ru_connectorIds :: "string list option"
  ru_recipientClasses :: "recipient_class list option"
  ru_quota :: "guardrail_quota option"
  ru_approval :: "approval_requirement option"
  ru_reason :: string

record evaluation =
  gv_decision :: effect
  gv_matchedRules :: "guardrail_rule list"
  gv_requiredApprovals :: "approval_requirement list"
  gv_quota :: "guardrail_quota option"
  gv_quotaExceeded :: bool
  gv_evidenceRequired :: bool
  gv_explanation :: string
  gv_vtiTrustTaskHints :: "string list"

section \<open>Evaluation\<close>

fun effectRank :: "effect \<Rightarrow> nat" where
  "effectRank Allow = 0"
| "effectRank Evidence_required = 10"
| "effectRank Quota = 20"
| "effectRank Step_up = 30"
| "effectRank Approval_required = 40"
| "effectRank Block = 50"

fun effectToTrustTaskHint :: "effect \<Rightarrow> string list" where
  "effectToTrustTaskHint Allow = [''policy/evaluate'']"
| "effectToTrustTaskHint Evidence_required = [''policy/evaluate'']"
| "effectToTrustTaskHint Quota = [''policy/evaluate'']"
| "effectToTrustTaskHint Step_up = [''auth/step-up/approve-request'', ''auth/step-up/approve-response'']"
| "effectToTrustTaskHint Approval_required =
     [''confirm/request'', ''confirm/response'', ''auth/step-up/approve-request'', ''auth/step-up/approve-response'']"
| "effectToTrustTaskHint Block = [''policy/evaluate'']"

text \<open>A condition on a field that may be absent holds when the field is absent.\<close>

definition intersects :: "'a list option \<Rightarrow> 'a option \<Rightarrow> bool" where
  "intersects allowed actual \<longleftrightarrow>
     (case allowed of None \<Rightarrow> True | Some xs \<Rightarrow> (case actual of None \<Rightarrow> True | Some x \<Rightarrow> x \<in> set xs))"

definition matchesSet :: "'a list option \<Rightarrow> 'a \<Rightarrow> bool" where
  "matchesSet allowed actual \<longleftrightarrow> (case allowed of None \<Rightarrow> True | Some xs \<Rightarrow> actual \<in> set xs)"

definition ruleMatchesAction :: "guardrail_rule \<Rightarrow> guardrail_action \<Rightarrow> bool" where
  "ruleMatchesAction rule action \<longleftrightarrow>
     matchesSet (ru_actionTypes rule) (ga_actionType action) \<and>
     matchesSet (ru_sourceBoundaries rule) (ga_sourceBoundary action) \<and>
     matchesSet (ru_targetBoundaries rule) (ga_targetBoundary action) \<and>
     intersects (ru_recipientClasses rule) (ga_recipientClass action) \<and>
     (case ru_resourceClasses rule of
        None \<Rightarrow> True | Some cs \<Rightarrow> ''*'' \<in> set cs \<or> ga_resourceClass action \<in> set cs) \<and>
     (case ru_connectorIds rule of
        None \<Rightarrow> True
      | Some cs \<Rightarrow> ''*'' \<in> set cs \<or>
          set_nonempty (ga_connectorId action) \<and> the (ga_connectorId action) \<in> set cs)"

definition strongestEffect :: "guardrail_rule list \<Rightarrow> effect" where
  "strongestEffect rules =
     foldl (\<lambda>current rule. if effectRank (ru_effect rule) > effectRank current then ru_effect rule else current)
       Allow rules"

text \<open>\<^verbatim>\<open>Array.from(new Set(xs))\<close>: the first occurrences, in order.\<close>

definition uniqueFirst :: "'a list \<Rightarrow> 'a list" where
  "uniqueFirst xs = rev (remdups (rev xs))"

definition quotasOf :: "guardrail_rule list \<Rightarrow> guardrail_quota list" where
  "quotasOf matched = concat (map (\<lambda>r. case ru_quota r of None \<Rightarrow> [] | Some q \<Rightarrow> [q]) matched)"

definition strictestQuota :: "guardrail_rule list \<Rightarrow> guardrail_quota option" where
  "strictestQuota matched =
     (case sort_key gq_maxCount (quotasOf matched) of [] \<Rightarrow> None | q # _ \<Rightarrow> Some q)"

definition explanationOf :: "guardrail_action \<Rightarrow> guardrail_rule list \<Rightarrow> guardrail_quota option \<Rightarrow> bool \<Rightarrow> effect \<Rightarrow> string" where
  "explanationOf action matched quota quotaExceeded decision =
     (case (quotaExceeded, quota) of
        (True, Some q) \<Rightarrow>
          ''Quota breach: action count '' @ (case ga_count action of None \<Rightarrow> ''undefined'' | Some n \<Rightarrow> showInt n) @
          '' exceeds '' @ showInt (gq_maxCount q) @ ''/'' @ windowText (gq_window q) @
          ''; strictest-wins decision block.''
      | _ \<Rightarrow>
          if matched = []
          then ''No guardrail matched; default allow for this POC layer. Production tenants should install global defaults.''
          else ''Strictest-wins decision '' @ effectText decision @ '' from '' @
               joinStr '', '' (map (\<lambda>r. layerText (ru_layer r) @ '':'' @ ru_id r) matched) @ ''.'')"

definition evaluateGuardrails :: "guardrail_action \<Rightarrow> guardrail_rule list \<Rightarrow> evaluation" where
  "evaluateGuardrails action rules =
     (let matchedRules = filter (\<lambda>rule. ruleMatchesAction rule action) rules;
          strongestMatchedEffect = strongestEffect matchedRules;
          quota = strictestQuota matchedRules;
          quotaExceeded = (case (quota, ga_count action) of
                             (Some q, Some n) \<Rightarrow> n > gq_maxCount q | _ \<Rightarrow> False);
          decision = (if quotaExceeded then Block else strongestMatchedEffect)
      in \<lparr> gv_decision = decision, gv_matchedRules = matchedRules,
           gv_requiredApprovals = concat (map (\<lambda>r. case ru_approval r of None \<Rightarrow> [] | Some a \<Rightarrow> [a]) matchedRules),
           gv_quota = quota, gv_quotaExceeded = quotaExceeded,
           gv_evidenceRequired = list_ex (\<lambda>r. ru_effect r \<noteq> Allow \<or> ru_layer r = Layer_global) matchedRules,
           gv_explanation = explanationOf action matchedRules quota quotaExceeded decision,
           gv_vtiTrustTaskHints =
             uniqueFirst (concat (map (\<lambda>r. effectToTrustTaskHint (ru_effect r)) matchedRules)) \<rparr>)"

section \<open>The default rules\<close>

definition baseRule :: "string \<Rightarrow> string \<Rightarrow> effect \<Rightarrow> string \<Rightarrow> guardrail_rule" where
  "baseRule i title e reason =
     \<lparr> ru_id = i, ru_title = title, ru_layer = Layer_global, ru_effect = e, ru_actionTypes = None,
       ru_sourceBoundaries = None, ru_targetBoundaries = None, ru_resourceClasses = None,
       ru_connectorIds = None, ru_recipientClasses = None, ru_quota = None, ru_approval = None,
       ru_reason = reason \<rparr>"

definition cyberApproval :: approval_requirement where
  "cyberApproval = \<lparr> aq_roles = [Cyber], aq_mode = All_of, aq_stepUpRequired = Some True \<rparr>"

definition managerApproval :: approval_requirement where
  "managerApproval = \<lparr> aq_roles = [Owner, Compliance], aq_mode = All_of, aq_stepUpRequired = Some True \<rparr>"

definition defaultProtectiveGuardrails :: "guardrail_rule list" where
  "defaultProtectiveGuardrails =
     [(baseRule ''GLOBAL-EMAIL-EXT-2FA'' ''External email requires step-up'' Step_up
         ''Outbound external email can leak regulated or corporate data and requires fresh user intent.'')
        \<lparr> ru_actionTypes := Some [Email_send], ru_targetBoundaries := Some [External] \<rparr>,
      (baseRule ''GLOBAL-BOSS-EMAIL-APPROVAL'' ''Email to manager requires owner and compliance approval''
         Approval_required
         ''Manager-facing communication from an AI coworker has reputational and authority risk.'')
        \<lparr> ru_actionTypes := Some [Email_send], ru_recipientClasses := Some [To_manager],
          ru_approval := Some managerApproval \<rparr>,
      (baseRule ''GLOBAL-FILE-READ-10-HOUR'' ''Limit autonomous file reads'' Quota
         ''Throttle autonomous data access to reduce blast radius and make abnormal behavior visible.'')
        \<lparr> ru_actionTypes := Some [File_read, Connector_read],
          ru_quota := Some \<lparr> gq_maxCount = 10, gq_window = Hour \<rparr> \<rparr>,
      (baseRule ''GLOBAL-SHAREPOINT-DELETE-BLOCK'' ''Block destructive file delete by default'' Block
         ''Folder deletion is destructive and should not be granted to autonomous agents in the pilot.'')
        \<lparr> ru_actionTypes := Some [File_delete],
          ru_resourceClasses := Some [''sharepoint_folder'', ''regulated_workspace'', ''*''] \<rparr>,
      (baseRule ''GLOBAL-CORP-TO-PERSONAL-BLOCK'' ''Block corporate-to-personal exfiltration'' Block
         ''Corporate data must not be copied to personal connectors or personal accounts.'')
        \<lparr> ru_sourceBoundaries := Some [Enterprise], ru_targetBoundaries := Some [Personal] \<rparr>,
      (baseRule ''GLOBAL-PERSONAL-CONNECTOR-READONLY'' ''Personal connectors are read-only by default'' Block
         ''Personal third-party connectors must start read-only until a specific signed exception exists.'')
        \<lparr> ru_actionTypes := Some [Connector_write], ru_targetBoundaries := Some [Personal] \<rparr>,
      (baseRule ''GLOBAL-SECRET-RELEASE-APPROVAL'' ''Credential or secret release requires cyber approval''
         Approval_required
         ''Secrets must never be released into agent runtime without explicit cyber approval.'')
        \<lparr> ru_actionTypes := Some [Secret_release], ru_approval := Some cyberApproval \<rparr>,
      (baseRule ''GLOBAL-POLICY-WEAKENING-CYBER'' ''Policy weakening requires cyber approval'' Approval_required
         ''Global or agent policy changes can silently expand authority and require explicit review.'')
        \<lparr> ru_actionTypes := Some [Policy_change], ru_approval := Some cyberApproval \<rparr>]"

section \<open>Canonical text and digests\<close>

text \<open>The canonicaliser of \<^verbatim>\<open>canonicalJson\<close>, with a guard: an undefined property is an error.\<close>

function canonicalGuardrailJson :: "js \<Rightarrow> string option result" where
  "canonicalGuardrailJson (JArr xs) =
     bindR (mapR canonicalGuardrailJson xs)
       (\<lambda>ss. Inr (Some (''['' @ joinStr '','' (map (\<lambda>s. case s of None \<Rightarrow> '''' | Some t \<Rightarrow> t) ss) @ '']'')))"
| "canonicalGuardrailJson (JObj kvs) =
     bindR (mapR (\<lambda>k. if oget kvs k = JUndef
               then Inl (JsError (''Cannot canonicalize undefined JSON key: '' @ k))
               else bindR (canonicalGuardrailJson (oget kvs k))
                 (\<lambda>s. Inr (jsonQuote k @ '':'' @ (case s of None \<Rightarrow> ''undefined'' | Some t \<Rightarrow> t)))) (sortedKeys kvs))
       (\<lambda>members. Inr (Some (''{'' @ joinStr '','' members @ ''}'')))"
| "canonicalGuardrailJson JUndef = JSON_stringify JUndef"
| "canonicalGuardrailJson JNull = JSON_stringify JNull"
| "canonicalGuardrailJson (JBool b) = JSON_stringify (JBool b)"
| "canonicalGuardrailJson (JNum n) = JSON_stringify (JNum n)"
| "canonicalGuardrailJson (JStr s) = JSON_stringify (JStr s)"
| "canonicalGuardrailJson (JOther t) = JSON_stringify (JOther t)"
  by pat_completeness auto
termination
  by (relation "measure size")
    (auto simp: sortedKeys_size [simplified less_Suc_eq_le] less_Suc_eq_le size_list_estimation')

text \<open>\<^verbatim>\<open>guardrailSha256(canonicalGuardrailJson(v))\<close>; the update of the hash with undefined throws.\<close>

definition guardrailDigest :: "crypto \<Rightarrow> js \<Rightarrow> string result" where
  "guardrailDigest c v = bindR (canonicalGuardrailJson v) (\<lambda>s.
     case s of None \<Rightarrow> Inl (JsError ''The data argument must be of type string'') | Some t \<Rightarrow> Inr (sha256Text c t))"

text \<open>The JSON of the records; a field that is absent is left out.\<close>

definition field :: "string \<Rightarrow> ('a \<Rightarrow> js) \<Rightarrow> 'a option \<Rightarrow> obj" where
  "field k f x = (case x of None \<Rightarrow> [] | Some v \<Rightarrow> [(k, f v)])"

definition actionJs :: "guardrail_action \<Rightarrow> js" where
  "actionJs a = JObj
     ([(''actionType'', JStr (actionTypeText (ga_actionType a))), (''actorId'', JStr (ga_actorId a)),
       (''agentId'', JStr (ga_agentId a)), (''sourceBoundary'', JStr (boundaryText (ga_sourceBoundary a))),
       (''targetBoundary'', JStr (boundaryText (ga_targetBoundary a))),
       (''resourceClass'', JStr (ga_resourceClass a))] @
      field ''connectorId'' JStr (ga_connectorId a) @
      field ''recipientClass'' (\<lambda>r. JStr (recipientText r)) (ga_recipientClass a) @
      field ''count'' JInt (ga_count a) @ field ''metadata'' JObj (ga_metadata a))"

definition quotaJs :: "guardrail_quota \<Rightarrow> js" where
  "quotaJs q = JObj [(''maxCount'', JInt (gq_maxCount q)), (''window'', JStr (windowText (gq_window q)))]"

definition requirementJs :: "approval_requirement \<Rightarrow> js" where
  "requirementJs a = JObj
     ([(''roles'', JArr (map (\<lambda>r. JStr (roleText r)) (aq_roles a))), (''mode'', JStr (modeText (aq_mode a)))] @
      field ''stepUpRequired'' JBool (aq_stepUpRequired a))"

definition decisionSeed :: "string \<Rightarrow> string \<Rightarrow> evaluation \<Rightarrow> js" where
  "decisionSeed generatedAt actionDigest evaluation = JObj
     [(''schemaVersion'', JStr ''onecomputer.guardrail-decision.preview.v1''),
      (''generatedAt'', JStr generatedAt), (''actionDigest'', JStr actionDigest),
      (''decision'', JStr (effectText (gv_decision evaluation))),
      (''matchedRuleIds'', JArr (map (\<lambda>r. JStr (ru_id r)) (gv_matchedRules evaluation))),
      (''quota'', (case gv_quota evaluation of None \<Rightarrow> JNull | Some q \<Rightarrow> quotaJs q)),
      (''requiredApprovals'', JArr (map requirementJs (gv_requiredApprovals evaluation))),
      (''quotaExceeded'', JBool (gv_quotaExceeded evaluation)),
      (''evidenceRequired'', JBool (gv_evidenceRequired evaluation))]"

section \<open>The preview of a decision\<close>

record approval_node =
  an_nodeId :: string
  an_role :: approver_role
  an_mode :: approval_mode
  an_stepUpRequired :: bool
  an_status :: string

record append_preview =
  ep_previousHead :: string
  ep_decisionEventHash :: string
  ep_nextHead :: string
  ep_appendMode :: string

record guardrail_preview =
  pv_schemaVersion :: string
  pv_generatedAt :: string
  pv_decisionId :: string
  pv_decisionHash :: string
  pv_actionDigest :: string
  pv_action :: guardrail_action
  pv_evaluation :: evaluation
  pv_approvalDag :: "approval_node list"
  pv_enforcement :: string
  pv_evidenceAppendPreview :: append_preview
  pv_trustTasks :: "string list"
  pv_note :: string

record preview_options =
  po_generatedAt :: "string option"
  po_previousHead :: "string option"
  po_rules :: "guardrail_rule list option"

definition approvalDagFromEvaluation :: "evaluation \<Rightarrow> approval_node list" where
  "approvalDagFromEvaluation evaluation =
     concat (map (\<lambda>(i, approval).
       map (\<lambda>(j, role).
         \<lparr> an_nodeId = ''approval-'' @ showNat (i + 1) @ ''-'' @ showNat (j + 1) @ ''-'' @ roleText role,
           an_role = role, an_mode = aq_mode approval,
           an_stepUpRequired = (aq_stepUpRequired approval = Some True), an_status = ''pending'' \<rparr>)
         (enumerate 0 (aq_roles approval)))
       (enumerate 0 (gv_requiredApprovals evaluation)))"

definition chainLink :: "string \<Rightarrow> string \<Rightarrow> string \<Rightarrow> js" where
  "chainLink previousHead k h = JObj [(''previousHead'', JStr previousHead), (k, JStr h)]"

definition buildGuardrailDecisionPreview ::
  "crypto \<Rightarrow> guardrail_action \<Rightarrow> preview_options \<Rightarrow> guardrail_preview result" where
  "buildGuardrailDecisionPreview c action options =
     (let generatedAt = orElse (po_generatedAt options) ''2026-06-23T00:00:00.000Z'';
          previousHead = orElse (po_previousHead options) ''sha256:previous-evidence-head-placeholder'';
          evaluation = evaluateGuardrails action (orElse (po_rules options) defaultProtectiveGuardrails)
      in bindR (guardrailDigest c (actionJs action)) (\<lambda>actionDigest.
         bindR (asJson (decisionSeed generatedAt actionDigest evaluation)) (\<lambda>seed.
         bindR (guardrailDigest c seed) (\<lambda>decisionHash.
         bindR (guardrailDigest c (chainLink previousHead ''decisionHash'' decisionHash)) (\<lambda>decisionEventHash.
         bindR (guardrailDigest c (chainLink previousHead ''decisionEventHash'' decisionEventHash)) (\<lambda>nextHead.
           Inr \<lparr> pv_schemaVersion = ''onecomputer.guardrail-decision.preview.v1'',
                 pv_generatedAt = generatedAt, pv_decisionId = shortId decisionHash,
                 pv_decisionHash = decisionHash, pv_actionDigest = actionDigest, pv_action = action,
                 pv_evaluation = evaluation, pv_approvalDag = approvalDagFromEvaluation evaluation,
                 pv_enforcement = ''simulator_only_not_enforced'',
                 pv_evidenceAppendPreview =
                   \<lparr> ep_previousHead = previousHead, ep_decisionEventHash = decisionEventHash,
                     ep_nextHead = nextHead, ep_appendMode = ''after_enforcement_or_human_decision'' \<rparr>,
                 pv_trustTasks =
                   (if gv_vtiTrustTaskHints evaluation \<noteq> [] then gv_vtiTrustTaskHints evaluation
                    else [''policy/evaluate'']),
                 pv_note = ''Trust Task names are adapter hints only; VTI/OpenVTC performs real '' @
                   ''proof/signature flows.'' \<rparr>))))))"

section \<open>The samples\<close>

definition sampleAction :: guardrail_action where
  "sampleAction =
     \<lparr> ga_actionType = Email_send, ga_actorId = ''user-terence'', ga_agentId = ''agent-legal-mfa-reviewer'',
       ga_sourceBoundary = Enterprise, ga_targetBoundary = External, ga_resourceClass = ''mfa-review-draft'',
       ga_connectorId = None, ga_recipientClass = Some To_external, ga_count = None, ga_metadata = None \<rparr>"

definition sampleGuardrailActions :: "(string \<times> guardrail_action) list" where
  "sampleGuardrailActions =
     [(''externalEmail'', sampleAction),
      (''managerEmail'', sampleAction\<lparr>ga_targetBoundary := Enterprise, ga_recipientClass := Some To_manager\<rparr>),
      (''personalConnectorWrite'',
        \<lparr> ga_actionType = Connector_write, ga_actorId = ''user-terence'', ga_agentId = ''agent-executive-briefing'',
          ga_sourceBoundary = Runtime, ga_targetBoundary = Personal, ga_resourceClass = ''personal_gmail'',
          ga_connectorId = Some ''gmail-personal'', ga_recipientClass = None, ga_count = None, ga_metadata = None \<rparr>),
      (''corporateToPersonalExport'',
        \<lparr> ga_actionType = File_export, ga_actorId = ''user-terence'', ga_agentId = ''agent-executive-briefing'',
          ga_sourceBoundary = Enterprise, ga_targetBoundary = Personal, ga_resourceClass = ''board_pack'',
          ga_connectorId = None, ga_recipientClass = None, ga_count = None, ga_metadata = None \<rparr>)]"

definition noOptions :: preview_options where
  "noOptions = \<lparr> po_generatedAt = None, po_previousHead = None, po_rules = None \<rparr>"

record simulator_payload =
  sp_schemaVersion :: string
  sp_generatedAt :: string
  sp_note :: string
  sp_samples :: "(string \<times> guardrail_preview) list"

definition sampleGuardrailSimulatorPayload :: "crypto \<Rightarrow> simulator_payload result" where
  "sampleGuardrailSimulatorPayload c =
     bindR (mapR (\<lambda>(name, action). bindR (buildGuardrailDecisionPreview c action noOptions)
              (\<lambda>preview. Inr (name, preview))) sampleGuardrailActions) (\<lambda>samples.
       Inr \<lparr> sp_schemaVersion = ''onecomputer.guardrail-simulator.sample.v1'',
             sp_generatedAt = ''2026-06-23T00:00:00.000Z'',
             sp_note = ''Simulator-only payload. Enforcement hooks, persisted audit, and VTI proofs land in '' @
               ''later P1/P3 slices.'',
             sp_samples = samples \<rparr>)"

section \<open>Lemmas\<close>

instantiation effect :: linorder
begin

definition less_eq_effect :: "effect \<Rightarrow> effect \<Rightarrow> bool" where
  "less_eq_effect a b \<longleftrightarrow> effectRank a \<le> effectRank b"

definition less_effect :: "effect \<Rightarrow> effect \<Rightarrow> bool" where
  "less_effect a b \<longleftrightarrow> effectRank a < effectRank b"

instance
proof
  fix x y z :: effect
  show "x < y \<longleftrightarrow> x \<le> y \<and> \<not> y \<le> x" by (auto simp: less_eq_effect_def less_effect_def)
  show "x \<le> x" by (simp add: less_eq_effect_def)
  show "x \<le> y \<Longrightarrow> y \<le> z \<Longrightarrow> x \<le> z" by (simp add: less_eq_effect_def)
  show "x \<le> y \<Longrightarrow> y \<le> x \<Longrightarrow> x = y" by (cases x; cases y) (simp_all add: less_eq_effect_def)
  show "x \<le> y \<or> y \<le> x" by (auto simp: less_eq_effect_def)
qed

end

lemmas effect_order = less_eq_effect_def less_effect_def

lemma effectRank_inj [simp]: "effectRank a = effectRank b \<longleftrightarrow> a = b"
  by (cases a; cases b) simp_all

lemma Allow_least [simp]: "Allow \<le> e"
  by (simp add: less_eq_effect_def)

lemma Block_greatest [simp]: "e \<le> Block"
  by (cases e) (simp_all add: less_eq_effect_def)

lemma Block_le [simp]: "Block \<le> e \<longleftrightarrow> e = Block"
  by (cases e) (simp_all add: less_eq_effect_def)

text \<open>The reduction computes the maximum.\<close>

lemma strongestEffect_max: "strongestEffect rules = Max (insert Allow (ru_effect ` set rules))"
proof -
  have step: "(if effectRank (ru_effect r) > effectRank e then ru_effect r else e) = max e (ru_effect r)" for e r
    by (auto simp: max_def effect_order)
  have "foldl (\<lambda>current rule. max current (ru_effect rule)) e rules = Max (insert e (ru_effect ` set rules))" for e
  proof (induction rules arbitrary: e)
    case (Cons r rules)
    have "Max (insert (max e (ru_effect r)) (ru_effect ` set rules)) =
        max e (Max (insert (ru_effect r) (ru_effect ` set rules)))"
      by (cases "rules = []") (simp_all add: max.assoc)
    then show ?case using Cons by simp
  qed simp
  then show ?thesis by (simp add: strongestEffect_def step)
qed

lemma set_quotasOf: "q \<in> set (quotasOf matched) \<longleftrightarrow> (\<exists>r \<in> set matched. ru_quota r = Some q)"
  by (induction matched) (auto simp: quotasOf_def split: option.splits)

lemma strictestQuota_None: "strictestQuota matched = None \<longleftrightarrow> (\<forall>r \<in> set matched. ru_quota r = None)"
proof -
  have "strictestQuota matched = None \<longleftrightarrow> sort_key gq_maxCount (quotasOf matched) = []"
    by (simp add: strictestQuota_def split: list.splits)
  also have "\<dots> \<longleftrightarrow> quotasOf matched = []" by (metis length_0_conv length_sort)
  also have "\<dots> \<longleftrightarrow> (\<forall>q. q \<notin> set (quotasOf matched))" by (cases "quotasOf matched") auto
  finally show ?thesis unfolding set_quotasOf by (metis not_None_eq)
qed

lemma strictestQuota_Some:
  assumes "strictestQuota matched = Some q"
  shows "\<exists>r \<in> set matched. ru_quota r = Some q"
    and "r \<in> set matched \<Longrightarrow> ru_quota r = Some q' \<Longrightarrow> gq_maxCount q \<le> gq_maxCount q'"
proof -
  obtain qs' where srt: "sort_key gq_maxCount (quotasOf matched) = q # qs'"
    using assms by (auto simp: strictestQuota_def split: list.splits)
  then have "q \<in> set (quotasOf matched)" by (metis list.set_intros(1) set_sort)
  then show "\<exists>r \<in> set matched. ru_quota r = Some q" by (simp only: set_quotasOf)
  assume "r \<in> set matched" "ru_quota r = Some q'"
  then have "q' \<in> set (q # qs')" using set_quotasOf srt by (metis set_sort)
  moreover have "sorted (map gq_maxCount (q # qs'))" using srt by (metis sorted_sort_key)
  ultimately show "gq_maxCount q \<le> gq_maxCount q'" by auto
qed

text \<open>A matched rule's limit is exceeded exactly when the strictest one is.\<close>

definition overQuota :: "guardrail_action \<Rightarrow> guardrail_rule \<Rightarrow> bool" where
  "overQuota action r \<longleftrightarrow>
     (case (ru_quota r, ga_count action) of (Some q, Some n) \<Rightarrow> gq_maxCount q < n | _ \<Rightarrow> False)"

lemma quotaExceeded_iff:
  "gv_quotaExceeded (evaluateGuardrails action rules) \<longleftrightarrow>
   (\<exists>r \<in> set rules. ruleMatchesAction r action \<and> overQuota action r)"
proof (cases "ga_count action")
  case None
  then show ?thesis by (simp add: evaluateGuardrails_def Let_def overQuota_def split: option.splits)
next
  case (Some n)
  let ?m = "filter (\<lambda>r. ruleMatchesAction r action) rules"
  show ?thesis
  proof (cases "strictestQuota ?m")
    case None
    then show ?thesis using strictestQuota_None [of ?m]
      by (auto simp: evaluateGuardrails_def Let_def overQuota_def split: option.splits)
  next
    case q: (Some q)
    note s = strictestQuota_Some [OF q]
    have "gv_quotaExceeded (evaluateGuardrails action rules) \<longleftrightarrow> gq_maxCount q < n"
      by (simp add: evaluateGuardrails_def Let_def q Some)
    also have "\<dots> \<longleftrightarrow> (\<exists>r \<in> set ?m. overQuota action r)"
    proof
      assume "gq_maxCount q < n"
      with s(1) Some show "\<exists>r \<in> set ?m. overQuota action r"
        unfolding overQuota_def by (metis case_prod_conv option.simps(5))
    next
      assume "\<exists>r \<in> set ?m. overQuota action r"
      then obtain r q' where "r \<in> set ?m" "ru_quota r = Some q'" "gq_maxCount q' < n"
        using Some by (auto simp: overQuota_def split: option.splits)
      with s(2) show "gq_maxCount q < n" by fastforce
    qed
    finally show ?thesis by auto
  qed
qed

lemma decision_eq:
  "gv_decision (evaluateGuardrails action rules) =
     (if gv_quotaExceeded (evaluateGuardrails action rules) then Block
      else strongestEffect (filter (\<lambda>r. ruleMatchesAction r action) rules))"
  by (simp add: evaluateGuardrails_def Let_def)

lemma matched_le_decision:
  assumes "r \<in> set rules" "ruleMatchesAction r action"
  shows "ru_effect r \<le> gv_decision (evaluateGuardrails action rules)"
  using assms by (auto simp: decision_eq strongestEffect_max)

lemma approvals_eq:
  "set (gv_requiredApprovals (evaluateGuardrails action rules)) =
     {a. \<exists>r \<in> set rules. ruleMatchesAction r action \<and> ru_approval r = Some a}"
  by (auto simp: evaluateGuardrails_def Let_def split: option.splits)

lemma matched_eq: "gv_matchedRules (evaluateGuardrails action rules) = filter (\<lambda>r. ruleMatchesAction r action) rules"
  by (simp add: evaluateGuardrails_def Let_def)

lemma evidence_eq:
  "gv_evidenceRequired (evaluateGuardrails action rules) \<longleftrightarrow>
   (\<exists>r \<in> set rules. ruleMatchesAction r action \<and> (ru_effect r \<noteq> Allow \<or> ru_layer r = Layer_global))"
  by (auto simp: evaluateGuardrails_def Let_def list_ex_iff)

lemma canonicalGuardrailJson_json: "is_json v \<Longrightarrow> js_wf v \<Longrightarrow> canonicalGuardrailJson v = canonicalJson v"
proof (induction v)
  case (JArr xs)
  then have "mapR canonicalGuardrailJson xs = mapR canonicalJson xs" by (intro mapR_cong) simp_all
  then show ?case by simp
next
  case (JObj kvs)
  have d: "distinct (map fst kvs)" using JObj.prems by simp
  have "oget kvs k \<noteq> JUndef \<and> canonicalGuardrailJson (oget kvs k) = canonicalJson (oget kvs k)"
    if k: "k \<in> set (sortedKeys kvs)" for k
  proof -
    obtain v where v: "(k, v) \<in> set kvs" using k by (auto simp: sortedKeys_def)
    with d have "oget kvs k = v" by (simp add: oget_def)
    with JObj.IH [of "(k, v)" v] JObj.prems v show ?thesis by (force simp: snds.intros)
  qed
  then show ?case by (simp cong: mapR_cong)
qed simp_all

lemma guardrailDigest_json:
  "is_json v \<Longrightarrow> js_wf v \<Longrightarrow> guardrailDigest c v = Inr (sha256Text c (render (canonForm v)))"
  by (simp add: guardrailDigest_def canonicalGuardrailJson_json canonicalJson_render)

lemma guardrailDigest_binds:
  assumes "is_json v" "js_wf v" "is_json w" "js_wf w" "guardrailDigest c v = guardrailDigest c w"
  shows "canonForm v = canonForm w \<or> collision c"
  using assms sha256Text_binds [OF _ render_wellFormed render_wellFormed] ctext.canon_nf [of v w]
  by (auto simp: guardrailDigest_json canonicalText_render)

lemma guardrailDigest_form:
  assumes "is_json v" "js_wf v" "is_json w" "js_wf w" "guardrailDigest c v = guardrailDigest c w" "\<not> collision c"
  shows "jsonForm v = jsonForm w"
  using guardrailDigest_binds [OF assms(1-5)] assms by (simp add: jsonForm_def asJson_json)

lemma guardrailDigest_field:
  assumes "is_json (JObj a)" "js_wf (JObj a)" "is_json (JObj b)" "js_wf (JObj b)"
    and "guardrailDigest c (JObj a) = guardrailDigest c (JObj b)" "\<not> collision c"
  shows "jsonForm (oget a k) = jsonForm (oget b k)"
  by (rule jsonForm_objD [OF assms(2) hasJson_json [OF assms(1,2)] assms(4) hasJson_json [OF assms(3,4)]
        guardrailDigest_form [OF assms]])

lemma oget_append: "oget (a @ b) k = (case map_of a k of None \<Rightarrow> oget b k | Some v \<Rightarrow> v)"
  by (simp add: oget_def map_add_def split: option.splits)

lemma map_of_field [simp]: "map_of (field k f x) k' = (if k' = k then map_option f x else None)"
  by (simp add: field_def split: option.splits)

lemma fst_field: "fst ` set (field k f x) \<subseteq> {k}"
  by (auto simp: field_def split: option.splits)

lemma oget_field [simp]: "oget (field k f x) k' = (if k' = k then (case x of None \<Rightarrow> JUndef | Some v \<Rightarrow> f v) else JUndef)"
  by (simp add: oget_def split: option.splits)

lemma jint_number [simp]: "case jint i of NaN \<Rightarrow> False | Infinity b \<Rightarrow> False | Finite m e \<Rightarrow> True"
  using jint_finite [of i] by auto

definition metadata_json :: "guardrail_action \<Rightarrow> bool" where
  "metadata_json a \<longleftrightarrow> (case ga_metadata a of None \<Rightarrow> True | Some m \<Rightarrow> is_json (JObj m) \<and> js_wf (JObj m))"

lemma actionJs_json: "metadata_json a \<Longrightarrow> is_json (actionJs a) \<and> js_wf (actionJs a)"
  by (auto simp: metadata_json_def actionJs_def field_def split: option.splits)

lemma quotaJs_json: "is_json (quotaJs q) \<and> js_wf (quotaJs q)"
  using is_json_JInt by (simp add: quotaJs_def del: is_json.simps(4))

lemma requirementJs_json: "is_json (requirementJs a) \<and> js_wf (requirementJs a)"
  by (auto simp: requirementJs_def field_def split: option.splits)

lemma decisionSeed_json: "is_json (decisionSeed g d e) \<and> js_wf (decisionSeed g d e)"
  using quotaJs_json requirementJs_json by (auto simp: decisionSeed_def split: option.splits)

lemma chainLink_json: "k \<noteq> ''previousHead'' \<Longrightarrow> is_json (chainLink p k h) \<and> js_wf (chainLink p k h)"
  by (simp add: chainLink_def)

lemma text_inj [simp]:
  "actionTypeText a = actionTypeText a' \<longleftrightarrow> a = a'" "boundaryText b = boundaryText b' \<longleftrightarrow> b = b'"
  "effectText e = effectText e' \<longleftrightarrow> e = e'" "recipientText r = recipientText r' \<longleftrightarrow> r = r'"
  subgoal by (cases a; cases a'; simp)
  subgoal by (cases b; cases b'; simp)
  subgoal by (cases e; cases e'; simp)
  subgoal by (cases r; cases r'; simp)
  done

text \<open>What a preview is made of.\<close>

lemma preview_Inr:
  assumes "metadata_json a" "buildGuardrailDecisionPreview c a options = Inr p"
  shows "pv_action p = a"
    and "pv_evaluation p = evaluateGuardrails a (orElse (po_rules options) defaultProtectiveGuardrails)"
    and "guardrailDigest c (actionJs (pv_action p)) = Inr (pv_actionDigest p)"
    and "guardrailDigest c (decisionSeed (pv_generatedAt p) (pv_actionDigest p) (pv_evaluation p)) = Inr (pv_decisionHash p)"
    and "guardrailDigest c (chainLink (ep_previousHead (pv_evidenceAppendPreview p)) ''decisionHash'' (pv_decisionHash p)) =
      Inr (ep_decisionEventHash (pv_evidenceAppendPreview p))"
    and "guardrailDigest c (chainLink (ep_previousHead (pv_evidenceAppendPreview p)) ''decisionEventHash''
      (ep_decisionEventHash (pv_evidenceAppendPreview p))) = Inr (ep_nextHead (pv_evidenceAppendPreview p))"
    and "pv_approvalDag p = approvalDagFromEvaluation (pv_evaluation p)"
    and "pv_generatedAt p = orElse (po_generatedAt options) ''2026-06-23T00:00:00.000Z''"
    and "ep_previousHead (pv_evidenceAppendPreview p) = orElse (po_previousHead options) ''sha256:previous-evidence-head-placeholder''"
    and "pv_trustTasks p \<noteq> []"
  using assms(2) asJson_json [OF decisionSeed_json [THEN conjunct1]]
  by (auto simp: buildGuardrailDecisionPreview_def Let_def bindR_Inr_iff split: if_splits)

lemma preview_defined: "metadata_json a \<Longrightarrow> \<exists>p. buildGuardrailDecisionPreview c a options = Inr p"
  using actionJs_json [of a] decisionSeed_json chainLink_json
  by (simp add: buildGuardrailDecisionPreview_def Let_def guardrailDigest_json asJson_json)

lemma actionJs_inj:
  assumes "metadata_json a" "metadata_json b" "guardrailDigest c (actionJs a) = guardrailDigest c (actionJs b)"
    "\<not> collision c"
  shows "a\<lparr>ga_metadata := None\<rparr> = b\<lparr>ga_metadata := None\<rparr>"
proof -
  obtain xa xb where x: "actionJs a = JObj xa" "actionJs b = JObj xb" by (auto simp: actionJs_def)
  note f = guardrailDigest_field [OF actionJs_json [OF assms(1), THEN conjunct1, unfolded x]
      actionJs_json [OF assms(1), THEN conjunct2, unfolded x] actionJs_json [OF assms(2), THEN conjunct1, unfolded x]
      actionJs_json [OF assms(2), THEN conjunct2, unfolded x] assms(3) [unfolded x] assms(4)]
  have o: "oget xa ''connectorId'' = optStr (ga_connectorId a)" "oget xb ''connectorId'' = optStr (ga_connectorId b)"
    "oget xa ''recipientClass'' = optStr (map_option recipientText (ga_recipientClass a))"
    "oget xb ''recipientClass'' = optStr (map_option recipientText (ga_recipientClass b))"
    "oget xa ''count'' = (case ga_count a of None \<Rightarrow> JUndef | Some n \<Rightarrow> JInt n)"
    "oget xb ''count'' = (case ga_count b of None \<Rightarrow> JUndef | Some n \<Rightarrow> JInt n)"
    using x by (auto simp: actionJs_def oget_append optStr_def split: option.splits)
  have s: "ga_actionType a = ga_actionType b" "ga_actorId a = ga_actorId b" "ga_agentId a = ga_agentId b"
    "ga_sourceBoundary a = ga_sourceBoundary b" "ga_targetBoundary a = ga_targetBoundary b"
    "ga_resourceClass a = ga_resourceClass b"
    using f [of "''actionType''"] f [of "''actorId''"] f [of "''agentId''"] f [of "''sourceBoundary''"]
      f [of "''targetBoundary''"] f [of "''resourceClass''"] x
    by (auto simp: actionJs_def oget_append)
  have "ga_connectorId a = ga_connectorId b" using f [of "''connectorId''"] unfolding o by simp
  moreover have "map_option recipientText (ga_recipientClass a) = map_option recipientText (ga_recipientClass b)"
    using f [of "''recipientClass''"] unfolding o by simp
  then have "ga_recipientClass a = ga_recipientClass b"
    by (cases "ga_recipientClass a"; cases "ga_recipientClass b") simp_all
  moreover have "ga_count a = ga_count b"
    using f [of "''count''"] unfolding o by (auto split: option.splits)
  ultimately show ?thesis using s by (cases a; cases b) simp
qed

lemma evaluate_mono:
  assumes "set rules \<subseteq> set rules'"
  shows "gv_decision (evaluateGuardrails action rules) \<le> gv_decision (evaluateGuardrails action rules')"
    and "set (gv_requiredApprovals (evaluateGuardrails action rules)) \<subseteq>
      set (gv_requiredApprovals (evaluateGuardrails action rules'))"
    and "gv_evidenceRequired (evaluateGuardrails action rules) \<Longrightarrow> gv_evidenceRequired (evaluateGuardrails action rules')"
proof -
  let ?m = "\<lambda>rs. ru_effect ` set (filter (\<lambda>r. ruleMatchesAction r action) rs)"
  have "Max (insert Allow (?m rules)) \<le> Max (insert Allow (?m rules'))"
    using assms by (intro Max_mono) auto
  moreover have "gv_quotaExceeded (evaluateGuardrails action rules) \<Longrightarrow> gv_quotaExceeded (evaluateGuardrails action rules')"
    using assms by (auto simp: quotaExceeded_iff)
  ultimately show "gv_decision (evaluateGuardrails action rules) \<le> gv_decision (evaluateGuardrails action rules')"
    by (simp add: decision_eq strongestEffect_max)
qed (use assms in \<open>auto simp: approvals_eq evidence_eq\<close>)

lemma default_rule:
  assumes "r \<in> set defaultProtectiveGuardrails" "set defaultProtectiveGuardrails \<subseteq> set rules"
  shows "ruleMatchesAction r a \<Longrightarrow> ru_effect r \<le> gv_decision (evaluateGuardrails a rules)"
    and "ruleMatchesAction r a \<Longrightarrow> ru_approval r = Some q \<Longrightarrow> q \<in> set (gv_requiredApprovals (evaluateGuardrails a rules))"
    and "ruleMatchesAction r a \<Longrightarrow> overQuota a r \<Longrightarrow> gv_decision (evaluateGuardrails a rules) = Block"
proof -
  have r: "r \<in> set rules" using assms by blast
  show "ruleMatchesAction r a \<Longrightarrow> ru_effect r \<le> gv_decision (evaluateGuardrails a rules)"
    by (rule matched_le_decision [OF r])
qed (use assms in \<open>auto simp: approvals_eq decision_eq quotaExceeded_iff\<close>)

lemmas default_simps = defaultProtectiveGuardrails_def baseRule_def ruleMatchesAction_def matchesSet_def intersects_def

lemma chainLink_inj:
  assumes "guardrailDigest c (chainLink x k h) = guardrailDigest c (chainLink x' k h')" "k \<noteq> ''previousHead''" "\<not> collision c"
  shows "x = x' \<and> h = h'"
proof -
  note j = chainLink_json [OF assms(2), unfolded chainLink_def]
  note f = guardrailDigest_field [OF j [THEN conjunct1] j [THEN conjunct2] j [THEN conjunct1] j [THEN conjunct2]
      assms(1) [unfolded chainLink_def] assms(3)]
  show ?thesis using f [of "''previousHead''"] f [of k] assms(2) by simp
qed

lemma decisionSeed_inj:
  assumes "guardrailDigest c (decisionSeed g d e) = guardrailDigest c (decisionSeed g' d' e')" "\<not> collision c"
  shows "g = g'" "d = d'" "gv_decision e = gv_decision e'"
    "map ru_id (gv_matchedRules e) = map ru_id (gv_matchedRules e')"
proof -
  note j = decisionSeed_json [unfolded decisionSeed_def]
  note f = guardrailDigest_field [OF j [THEN conjunct1] j [THEN conjunct2] j [THEN conjunct1] j [THEN conjunct2]
      assms(1) [unfolded decisionSeed_def] assms(2)]
  show "g = g'" "d = d'" "gv_decision e = gv_decision e'"
    using f [of "''generatedAt''"] f [of "''actionDigest''"] f [of "''decision''"] by simp_all
  have "jsonForm (JArr (map JStr (map ru_id (gv_matchedRules e)))) = jsonForm (JArr (map JStr (map ru_id (gv_matchedRules e'))))"
    using f [of "''matchedRuleIds''"] by (simp add: o_def)
  then show "map ru_id (gv_matchedRules e) = map ru_id (gv_matchedRules e')"
    unfolding jsonForm_strs js.inject JStr_map_inj .
qed

section \<open>Properties\<close>

text \<open>C15. Strictest wins: the decision is block when some matching rule's limit is exceeded, and otherwise
  the strongest effect among the matching rules, allow when none matches; the reduction over the rule
  list in the code computes exactly this, whatever the order of the rules.\<close>

theorem guardrails_strictest_wins:
  "gv_decision (evaluateGuardrails action rules) =
     (if \<exists>r. r \<in> set rules \<and> ruleMatchesAction r action \<and> overQuota action r then Block
      else Max (insert Allow {ru_effect r |r. r \<in> set rules \<and> ruleMatchesAction r action}))"
proof -
  have "ru_effect ` set (filter (\<lambda>r. ruleMatchesAction r action) rules) =
      {ru_effect r |r. r \<in> set rules \<and> ruleMatchesAction r action}" by auto
  note m = this
  show ?thesis unfolding decision_eq quotaExceeded_iff strongestEffect_max m by (rule if_cong) auto
qed

text \<open>A rule can only tighten: with more rules - a tenant's, a user's, an agent's - the decision is
  at least as strict, no required approval disappears and evidence stays required. So no layer can
  override a global rule.\<close>

lemma guardrails_monotone:
  assumes "set rules \<subseteq> set rules'"
  shows "gv_decision (evaluateGuardrails action rules) \<le> gv_decision (evaluateGuardrails action rules') \<and>
    set (gv_requiredApprovals (evaluateGuardrails action rules)) \<subseteq>
      set (gv_requiredApprovals (evaluateGuardrails action rules')) \<and>
    (gv_evidenceRequired (evaluateGuardrails action rules) \<longrightarrow> gv_evidenceRequired (evaluateGuardrails action rules'))"
  using evaluate_mono [OF assms] by blast

lemma guardrails_monotone_witness:
  "gv_decision (evaluateGuardrails sampleAction []) \<le>
   gv_decision (evaluateGuardrails sampleAction defaultProtectiveGuardrails)"
  using guardrails_monotone [of "[]" defaultProtectiveGuardrails sampleAction] by simp

text \<open>C16. What the default rules guarantee under any further rules: corporate data never goes to a
  personal boundary, files are not deleted and personal connectors are not written, reads of more than
  ten items are blocked, secrets and policy changes need the cyber team, mail to a manager - or to
  nobody in particular - needs owner and compliance, and mail to the outside needs a fresh step-up.\<close>

theorem default_guardrails_protect:
  assumes "set defaultProtectiveGuardrails \<subseteq> set rules"
  shows "(ga_sourceBoundary a = Enterprise \<and> ga_targetBoundary a = Personal \<or>
       ga_actionType a = File_delete \<or> ga_actionType a = Connector_write \<and> ga_targetBoundary a = Personal \<or>
       ga_actionType a \<in> {File_read, Connector_read} \<and> (\<exists>n > 10. ga_count a = Some n)
     \<longrightarrow> gv_decision (evaluateGuardrails a rules) = Block) \<and>
    (ga_actionType a \<in> {Secret_release, Policy_change} \<longrightarrow>
       gv_decision (evaluateGuardrails a rules) \<ge> Approval_required \<and>
       cyberApproval \<in> set (gv_requiredApprovals (evaluateGuardrails a rules))) \<and>
    (ga_actionType a = Email_send \<and> ga_recipientClass a \<in> {None, Some To_manager} \<longrightarrow>
       gv_decision (evaluateGuardrails a rules) \<ge> Approval_required \<and>
       managerApproval \<in> set (gv_requiredApprovals (evaluateGuardrails a rules))) \<and>
    (ga_actionType a = Email_send \<and> ga_targetBoundary a = External \<longrightarrow>
       gv_decision (evaluateGuardrails a rules) \<ge> Step_up)"
proof -
  note d = default_rule [OF _ assms]
  let ?r = "\<lambda>i. defaultProtectiveGuardrails ! i"
  have block: "gv_decision (evaluateGuardrails a rules) = Block"
    if "ga_sourceBoundary a = Enterprise \<and> ga_targetBoundary a = Personal \<or>
       ga_actionType a = File_delete \<or> ga_actionType a = Connector_write \<and> ga_targetBoundary a = Personal"
    using that d(1) [of "?r 4" a] d(1) [of "?r 3" a] d(1) [of "?r 5" a] by (auto simp: default_simps)
  have quota: "gv_decision (evaluateGuardrails a rules) = Block"
    if "ga_actionType a \<in> {File_read, Connector_read}" "n > 10" "ga_count a = Some n" for n
    using that d(3) [of "?r 2" a] by (auto simp: default_simps overQuota_def)
  have cyber: "gv_decision (evaluateGuardrails a rules) \<ge> Approval_required \<and>
       cyberApproval \<in> set (gv_requiredApprovals (evaluateGuardrails a rules))"
    if "ga_actionType a \<in> {Secret_release, Policy_change}"
    using that d(1,2) [of "?r 6" a] d(1,2) [of "?r 7" a] by (auto simp: default_simps)
  have mail: "gv_decision (evaluateGuardrails a rules) \<ge> Approval_required \<and>
       managerApproval \<in> set (gv_requiredApprovals (evaluateGuardrails a rules))"
    if "ga_actionType a = Email_send" "ga_recipientClass a \<in> {None, Some To_manager}"
    using that d(1,2) [of "?r 1" a] by (auto simp: default_simps)
  have ext: "gv_decision (evaluateGuardrails a rules) \<ge> Step_up"
    if "ga_actionType a = Email_send" "ga_targetBoundary a = External"
    using that d(1) [of "?r 0" a] by (auto simp: default_simps)
  show ?thesis using block quota cyber mail ext by blast
qed

theorem default_guardrails_protect_witness:
  "gv_decision (evaluateGuardrails (sampleAction\<lparr>ga_targetBoundary := Personal\<rparr>) defaultProtectiveGuardrails) = Block \<and>
   gv_decision (evaluateGuardrails (sampleAction\<lparr>ga_actionType := Policy_change\<rparr>) defaultProtectiveGuardrails) \<ge> Approval_required"
  using default_guardrails_protect [of defaultProtectiveGuardrails "sampleAction\<lparr>ga_targetBoundary := Personal\<rparr>"]
    default_guardrails_protect [of defaultProtectiveGuardrails "sampleAction\<lparr>ga_actionType := Policy_change\<rparr>"]
  by (simp add: sampleAction_def)

text \<open>The evidence chain binds: the preview of an action is always built, and two previews that leave
  the same head of the chain stand on the same previous head, were made at the same time on the same
  action and came to the same decision with the same rules - or SHA-256 has a collision.\<close>

lemma guardrail_chain_binds:
  assumes "metadata_json a" "metadata_json b"
  shows "(\<exists>p. buildGuardrailDecisionPreview c a options = Inr p) \<and>
    (\<forall>p q. buildGuardrailDecisionPreview c a options = Inr p \<longrightarrow> buildGuardrailDecisionPreview c b options' = Inr q \<longrightarrow>
       ep_nextHead (pv_evidenceAppendPreview p) = ep_nextHead (pv_evidenceAppendPreview q) \<longrightarrow> \<not> collision c \<longrightarrow>
       ep_previousHead (pv_evidenceAppendPreview p) = ep_previousHead (pv_evidenceAppendPreview q) \<and>
       pv_generatedAt p = pv_generatedAt q \<and>
       a\<lparr>ga_metadata := None\<rparr> = b\<lparr>ga_metadata := None\<rparr> \<and>
       gv_decision (pv_evaluation p) = gv_decision (pv_evaluation q) \<and>
       map ru_id (gv_matchedRules (pv_evaluation p)) = map ru_id (gv_matchedRules (pv_evaluation q)))"
proof (intro conjI allI impI)
  show "\<exists>p. buildGuardrailDecisionPreview c a options = Inr p" by (rule preview_defined [OF assms(1)])
  fix p q
  assume p: "buildGuardrailDecisionPreview c a options = Inr p" and q: "buildGuardrailDecisionPreview c b options' = Inr q"
    and head: "ep_nextHead (pv_evidenceAppendPreview p) = ep_nextHead (pv_evidenceAppendPreview q)"
    and nc: "\<not> collision c"
  note p = preview_Inr [OF assms(1) p] and q = preview_Inr [OF assms(2) q]
  have link: "x = x' \<and> h = h'"
    if "guardrailDigest c (chainLink x k h) = Inr z" "guardrailDigest c (chainLink x' k h') = Inr z" "k \<noteq> ''previousHead''"
    for x x' k h h' z
    using chainLink_inj [OF _ that(3) nc, of x h x' h'] that(1,2) by simp
  have ev: "ep_previousHead (pv_evidenceAppendPreview p) = ep_previousHead (pv_evidenceAppendPreview q)"
    "ep_decisionEventHash (pv_evidenceAppendPreview p) = ep_decisionEventHash (pv_evidenceAppendPreview q)"
    using link [OF p(6) q(6) [folded head]] by simp_all
  have "pv_decisionHash p = pv_decisionHash q"
    using link [OF p(5) q(5) [folded ev]] by simp
  with p(4) q(4) have seed: "guardrailDigest c (decisionSeed (pv_generatedAt p) (pv_actionDigest p) (pv_evaluation p)) =
      guardrailDigest c (decisionSeed (pv_generatedAt q) (pv_actionDigest q) (pv_evaluation q))" by simp
  note s = decisionSeed_inj [OF seed nc]
  show "ep_previousHead (pv_evidenceAppendPreview p) = ep_previousHead (pv_evidenceAppendPreview q)" by (rule ev(1))
  show "pv_generatedAt p = pv_generatedAt q" "gv_decision (pv_evaluation p) = gv_decision (pv_evaluation q)"
    "map ru_id (gv_matchedRules (pv_evaluation p)) = map ru_id (gv_matchedRules (pv_evaluation q))"
    using s by simp_all
  have "guardrailDigest c (actionJs a) = guardrailDigest c (actionJs b)"
    using p(1,3) q(1,3) s(2) by simp
  then show "a\<lparr>ga_metadata := None\<rparr> = b\<lparr>ga_metadata := None\<rparr>" by (rule actionJs_inj [OF assms _ nc])
qed

lemma guardrail_chain_binds_witness:
  "\<exists>p. buildGuardrailDecisionPreview toy_crypto sampleAction noOptions = Inr p"
  using guardrail_chain_binds [of sampleAction sampleAction toy_crypto noOptions noOptions]
  by (simp add: metadata_json_def sampleAction_def)

end
