(* ===== verification/Mailroom.thy ===== *)
theory Mailroom
  imports Digests
begin

text \<open>
  \<^verbatim>\<open>packages/api/src/services/m365-agent-directory-service.ts\<close>: the passport of an agent, its projections
  into Microsoft 365, and the mailroom that turns an inbound e-mail into the preview of a Trust Task
  and an evidence manifest. Digests are those of \<^verbatim>\<open>Digests\<close>; the file's own copies of \<^verbatim>\<open>canonicalJson\<close>,
  \<^verbatim>\<open>sha256\<close> and \<^verbatim>\<open>asJson\<close> are the same functions.
\<close>

section \<open>Passports\<close>

datatype projection_tier = Passport_only | Email_gal_contact | Teams_routable | Executive_ai_employee

fun tierText :: "projection_tier \<Rightarrow> string" where
  "tierText Passport_only = ''passport_only''"
| "tierText Email_gal_contact = ''email_gal_contact''"
| "tierText Teams_routable = ''teams_routable''"
| "tierText Executive_ai_employee = ''executive_ai_employee''"

datatype agent_status = Status_draft | Status_active | Status_suspended | Status_revoked | Status_expired

fun agentStatusText :: "agent_status \<Rightarrow> string" where
  "agentStatusText Status_draft = ''draft''"
| "agentStatusText Status_active = ''active''"
| "agentStatusText Status_suspended = ''suspended''"
| "agentStatusText Status_revoked = ''revoked''"
| "agentStatusText Status_expired = ''expired''"

datatype risk_tier = Risk_low | Risk_medium | Risk_high | Risk_critical

fun riskText :: "risk_tier \<Rightarrow> string" where
  "riskText Risk_low = ''low''"
| "riskText Risk_medium = ''medium''"
| "riskText Risk_high = ''high''"
| "riskText Risk_critical = ''critical''"

text \<open>The input and, with the hash, the passport; the two constant fields are in \<open>passportSeed\<close>.\<close>

record passport_input =
  pp_agentId :: string
  pp_displayName :: string
  pp_did :: string
  pp_ownerHumanId :: string
  pp_ownerEmail :: string
  pp_reportsToHumanId :: string
  pp_department :: string
  pp_purpose :: string
  pp_riskTier :: risk_tier
  pp_projectionTier :: projection_tier
  pp_status :: agent_status
  pp_routeLocalPart :: string
  pp_agentDomain :: string
  pp_reviewAt :: string
  pp_policyIds :: "string list"

record passport = passport_input +
  pp_passportHash :: string

definition passportSeed :: "'a passport_input_scheme \<Rightarrow> obj" where
  "passportSeed p =
     [(''schemaVersion'', JStr ''onecomputer.m365-agent-passport.v1''), (''agentId'', JStr (pp_agentId p)),
      (''displayName'', JStr (pp_displayName p)), (''did'', JStr (pp_did p)),
      (''ownerHumanId'', JStr (pp_ownerHumanId p)), (''ownerEmail'', JStr (pp_ownerEmail p)),
      (''reportsToHumanId'', JStr (pp_reportsToHumanId p)), (''department'', JStr (pp_department p)),
      (''purpose'', JStr (pp_purpose p)), (''riskTier'', JStr (riskText (pp_riskTier p))),
      (''projectionTier'', JStr (tierText (pp_projectionTier p))),
      (''status'', JStr (agentStatusText (pp_status p))), (''routeLocalPart'', JStr (pp_routeLocalPart p)),
      (''agentDomain'', JStr (pp_agentDomain p)), (''reviewAt'', JStr (pp_reviewAt p)),
      (''policyIds'', JArr (map JStr (pp_policyIds p))), (''sourceOfTruth'', JStr ''onecomputer_agent_passport'')]"

definition emailFor :: "'a passport_input_scheme \<Rightarrow> string" where
  "emailFor p = pp_routeLocalPart p @ ''@'' @ pp_agentDomain p"

definition assertPassportInvariant :: "'a passport_input_scheme \<Rightarrow> unit result" where
  "assertPassportInvariant p =
     (if \<not> startsWith (pp_did p) ''did:''
      then Inl (JsError ''Agent Passport requires DID-backed identity before M365 projection'')
      else if pp_ownerHumanId p = '''' \<or> pp_ownerEmail p = ''''
      then Inl (JsError ''Agent Passport requires a human owner before M365 projection'')
      else if pp_reportsToHumanId p = ''''
      then Inl (JsError ''Agent Passport requires reports-to metadata before M365 projection'')
      else if pp_reviewAt p = ''''
      then Inl (JsError ''Agent Passport requires reviewAt before M365 projection'')
      else Inr ())"

definition buildM365AgentPassport :: "crypto \<Rightarrow> passport_input \<Rightarrow> passport result" where
  "buildM365AgentPassport c input =
     bindR (assertPassportInvariant input) (\<lambda>_.
     bindR (digestJson c (JObj (passportSeed input))) (\<lambda>passportHash.
       Inr (passport_input.extend input (passport.fields passportHash))))"

section \<open>Projections\<close>

datatype object_type = No_object | Exchange_mail_contact | Teams_app_route | Entra_user_exception
datatype sync_mode = No_projection | Graph_preview_only | Manual_admin_review

record projection_plan =
  pj_objectType :: object_type
  pj_emailAddress :: "string option"
  pj_galVisible :: bool
  pj_teamsRoutable :: bool
  pj_mailboxCreated :: bool
  pj_mailboxCredentialsReachRuntime :: bool
  pj_syncMode :: sync_mode
  pj_requiresCyberApproval :: bool
  pj_projectionIsRegenerable :: bool
  pj_notes :: "string list"

definition noProjection :: "string \<Rightarrow> projection_plan" where
  "noProjection note =
     \<lparr> pj_objectType = No_object, pj_emailAddress = None, pj_galVisible = False, pj_teamsRoutable = False,
       pj_mailboxCreated = False, pj_mailboxCredentialsReachRuntime = False, pj_syncMode = No_projection,
       pj_requiresCyberApproval = False, pj_projectionIsRegenerable = True, pj_notes = [note] \<rparr>"

definition contactProjection :: "string \<Rightarrow> projection_plan" where
  "contactProjection address =
     \<lparr> pj_objectType = Exchange_mail_contact, pj_emailAddress = Some address, pj_galVisible = True,
       pj_teamsRoutable = False, pj_mailboxCreated = False, pj_mailboxCredentialsReachRuntime = False,
       pj_syncMode = Graph_preview_only, pj_requiresCyberApproval = False, pj_projectionIsRegenerable = True,
       pj_notes = [''Default scalable projection: Outlook/GAL discovery without per-agent mailbox credentials.''] \<rparr>"

definition teamsProjection :: "string \<Rightarrow> projection_plan" where
  "teamsProjection address =
     \<lparr> pj_objectType = Teams_app_route, pj_emailAddress = Some address, pj_galVisible = True,
       pj_teamsRoutable = True, pj_mailboxCreated = False, pj_mailboxCredentialsReachRuntime = False,
       pj_syncMode = Graph_preview_only, pj_requiresCyberApproval = False, pj_projectionIsRegenerable = True,
       pj_notes = [''Teams route should use OneComputer app/message extension search, '' @
         ''not a full Teams user by default.''] \<rparr>"

definition executiveProjection :: "string \<Rightarrow> projection_plan" where
  "executiveProjection address =
     \<lparr> pj_objectType = Entra_user_exception, pj_emailAddress = Some address, pj_galVisible = True,
       pj_teamsRoutable = True, pj_mailboxCreated = True, pj_mailboxCredentialsReachRuntime = False,
       pj_syncMode = Manual_admin_review, pj_requiresCyberApproval = True, pj_projectionIsRegenerable = True,
       pj_notes = [''Executive AI employee projection is a premium exception and still must not expose '' @
         ''mailbox credentials to the runtime.''] \<rparr>"

definition buildM365ProjectionPlans :: "passport \<Rightarrow> projection_plan list" where
  "buildM365ProjectionPlans p =
     (let address = emailFor p in
      if pp_status p \<noteq> Status_active then [noProjection ''Route disabled because agent is not active.'']
      else if pp_projectionTier p = Passport_only
      then [noProjection ''Long-tail/background agent remains visible only in OneComputer.'']
      else if pp_projectionTier p = Email_gal_contact then [contactProjection address]
      else if pp_projectionTier p = Teams_routable then [contactProjection address, teamsProjection address]
      else [executiveProjection address])"

section \<open>The mailroom\<close>

datatype delivery_default = Pending_policy_default | Route_disabled

record mailroom_contract =
  mc_agentId :: string
  mc_agentDid :: string
  mc_emailAddress :: string
  mc_ingressMode :: string
  mc_trustTaskRequired :: bool
  mc_guardrailRequired :: bool
  mc_vtiVerificationRequired :: bool
  mc_rawMimeHandling :: string
  mc_defaultDeliveryState :: delivery_default
  mc_noMailboxCredentialsInRuntime :: bool
  mc_contractHash :: string

fun deliveryDefaultText :: "delivery_default \<Rightarrow> string" where
  "deliveryDefaultText Pending_policy_default = ''pending_policy''"
| "deliveryDefaultText Route_disabled = ''route_disabled''"

definition defaultDelivery :: "passport \<Rightarrow> delivery_default" where
  "defaultDelivery p = (if pp_status p = Status_active then Pending_policy_default else Route_disabled)"

definition contractSeed :: "passport \<Rightarrow> js" where
  "contractSeed p = JObj
     [(''schemaVersion'', JStr ''onecomputer.agent-mailroom-contract.v1''), (''agentId'', JStr (pp_agentId p)),
      (''agentDid'', JStr (pp_did p)), (''emailAddress'', JStr (emailFor p)),
      (''ingressMode'', JStr ''exchange_internal_relay''), (''trustTaskRequired'', JBool True),
      (''guardrailRequired'', JBool True), (''vtiVerificationRequired'', JBool True),
      (''rawMimeHandling'', JStr ''hash_and_quarantine_default''),
      (''defaultDeliveryState'', JStr (deliveryDefaultText (defaultDelivery p))),
      (''noMailboxCredentialsInRuntime'', JBool True)]"

definition buildAgentMailroomContract :: "crypto \<Rightarrow> passport \<Rightarrow> mailroom_contract result" where
  "buildAgentMailroomContract c p =
     bindR (digestJson c (contractSeed p)) (\<lambda>contractHash.
       Inr \<lparr> mc_agentId = pp_agentId p, mc_agentDid = pp_did p, mc_emailAddress = emailFor p,
             mc_ingressMode = ''exchange_internal_relay'', mc_trustTaskRequired = True,
             mc_guardrailRequired = True, mc_vtiVerificationRequired = True,
             mc_rawMimeHandling = ''hash_and_quarantine_default'', mc_defaultDeliveryState = defaultDelivery p,
             mc_noMailboxCredentialsInRuntime = True, mc_contractHash = contractHash \<rparr>)"

record projection_bundle =
  pb_passport :: passport
  pb_projections :: "projection_plan list"
  pb_mailroom :: mailroom_contract

definition buildM365AgentProjectionBundle :: "crypto \<Rightarrow> passport_input \<Rightarrow> projection_bundle result" where
  "buildM365AgentProjectionBundle c input =
     bindR (buildM365AgentPassport c input) (\<lambda>p.
     bindR (buildAgentMailroomContract c p) (\<lambda>mailroom.
       Inr \<lparr> pb_passport = p, pb_projections = buildM365ProjectionPlans p, pb_mailroom = mailroom \<rparr>))"

datatype auth_result = Auth_pass | Auth_fail | Auth_neutral | Auth_none

record mail_auth =
  ma_spf :: auth_result
  ma_dkim :: auth_result
  ma_dmarc :: auth_result
  ma_arc :: auth_result

record inbound_email =
  ie_messageId :: string
  ie_receivedAt :: string
  ie_rawMime :: string
  ie_fromAddress :: string
  ie_subject :: string
  ie_bodyText :: string
  ie_attachmentNames :: "string list"
  ie_auth :: mail_auth

datatype auth_tier = Unauthenticated | Domain_authenticated | Enrolled_sender_required
datatype capability = Reject | Enroll_only | Pending_policy

fun authTierText :: "auth_tier \<Rightarrow> string" where
  "authTierText Unauthenticated = ''unauthenticated''"
| "authTierText Domain_authenticated = ''domain_authenticated''"
| "authTierText Enrolled_sender_required = ''enrolled_sender_required''"

fun capabilityText :: "capability \<Rightarrow> string" where
  "capabilityText Reject = ''reject''"
| "capabilityText Enroll_only = ''enroll_only''"
| "capabilityText Pending_policy = ''pending_policy''"

definition classifyMailAuth :: "mail_auth \<Rightarrow> auth_tier" where
  "classifyMailAuth auth =
     (if ma_dmarc auth = Auth_pass \<and> (ma_dkim auth = Auth_pass \<or> ma_spf auth = Auth_pass)
      then Domain_authenticated
      else if ma_dkim auth = Auth_pass \<or> ma_spf auth = Auth_pass \<or> ma_arc auth = Auth_pass
      then Enrolled_sender_required
      else Unauthenticated)"

definition capabilityFor :: "auth_tier \<Rightarrow> mailroom_contract \<Rightarrow> capability" where
  "capabilityFor tier contract =
     (if mc_defaultDeliveryState contract = Route_disabled then Reject
      else if tier = Unauthenticated then Reject
      else if tier = Enrolled_sender_required then Enroll_only
      else Pending_policy)"

record source_evidence =
  se_messageId :: string
  se_rawMimeHash :: string
  se_subjectHash :: string
  se_bodyHash :: string
  se_attachmentNameHashes :: "string list"

record mailroom_task =
  mt_taskId :: string
  mt_taskHash :: string
  mt_targetAgentId :: string
  mt_targetAgentDid :: string
  mt_requesterEmail :: string
  mt_sourceEvidence :: source_evidence
  mt_mailAuthTier :: auth_tier
  mt_initialCapability :: capability
  mt_nextRequiredGates :: "string list"

definition evidenceJs :: "source_evidence \<Rightarrow> js" where
  "evidenceJs e = JObj
     [(''messageId'', JStr (se_messageId e)), (''rawMimeHash'', JStr (se_rawMimeHash e)),
      (''subjectHash'', JStr (se_subjectHash e)), (''bodyHash'', JStr (se_bodyHash e)),
      (''attachmentNameHashes'', JArr (map JStr (se_attachmentNameHashes e)))]"

definition mailGates :: "string list" where
  "mailGates = [''agent_passport'', ''guardrails'', ''vti'', ''step_up'']"

definition mailNote :: string where
  "mailNote = ''Email is evidence, not authority. Execution is never allowed directly from mail parsing.''"

text \<open>The task without its id and hash.\<close>

definition taskSeed :: "mailroom_task \<Rightarrow> obj" where
  "taskSeed t =
     [(''schemaVersion'', JStr ''onecomputer.agent-mailroom-trust-task-preview.v1''),
      (''targetAgentId'', JStr (mt_targetAgentId t)), (''targetAgentDid'', JStr (mt_targetAgentDid t)),
      (''requesterEmail'', JStr (mt_requesterEmail t)), (''sourceEvidence'', evidenceJs (mt_sourceEvidence t)),
      (''mailAuthTier'', JStr (authTierText (mt_mailAuthTier t))),
      (''initialCapability'', JStr (capabilityText (mt_initialCapability t))),
      (''nextRequiredGates'', JArr (map JStr (mt_nextRequiredGates t))), (''note'', JStr mailNote)]"

definition normalizeInboundEmailToTrustTaskPreview ::
  "crypto \<Rightarrow> passport \<Rightarrow> inbound_email \<Rightarrow> mailroom_task result" where
  "normalizeInboundEmailToTrustTaskPreview c p email =
     bindR (buildAgentMailroomContract c p) (\<lambda>contract.
       let tier = classifyMailAuth (ie_auth email);
           evidence = \<lparr> se_messageId = ie_messageId email, se_rawMimeHash = sha256Text c (ie_rawMime email),
             se_subjectHash = sha256Text c (ie_subject email), se_bodyHash = sha256Text c (ie_bodyText email),
             se_attachmentNameHashes = map (sha256Text c) (ie_attachmentNames email) \<rparr>;
           unsigned = \<lparr> mt_taskId = '''', mt_taskHash = '''', mt_targetAgentId = pp_agentId p,
             mt_targetAgentDid = pp_did p, mt_requesterEmail = ie_fromAddress email,
             mt_sourceEvidence = evidence, mt_mailAuthTier = tier,
             mt_initialCapability = capabilityFor tier contract, mt_nextRequiredGates = mailGates \<rparr>
       in bindR (digestJson c (JObj (taskSeed unsigned))) (\<lambda>taskHash.
            Inr (unsigned\<lparr>mt_taskId := ''mailroom_'' @ take 12 (drop 7 taskHash), mt_taskHash := taskHash\<rparr>)))"

datatype delivery_state = Delivery_pending_policy | Rejected_route_disabled | Rejected_auth

fun deliveryStateText :: "delivery_state \<Rightarrow> string" where
  "deliveryStateText Delivery_pending_policy = ''pending_policy''"
| "deliveryStateText Rejected_route_disabled = ''rejected_route_disabled''"
| "deliveryStateText Rejected_auth = ''rejected_auth''"

record mailroom_manifest =
  mm_taskId :: string
  mm_taskHash :: string
  mm_agentId :: string
  mm_agentDid :: string
  mm_passportHash :: string
  mm_contractHash :: string
  mm_routeActive :: bool
  mm_deliveryState :: delivery_state
  mm_sourceEvidence :: source_evidence
  mm_requiredGates :: "string list"
  mm_auditLabels :: "string list"
  mm_manifestHash :: string

definition manifestSeed :: "mailroom_manifest \<Rightarrow> obj" where
  "manifestSeed m =
     [(''schemaVersion'', JStr ''onecomputer.agent-mailroom-evidence-manifest.v1''),
      (''taskId'', JStr (mm_taskId m)), (''taskHash'', JStr (mm_taskHash m)),
      (''agentId'', JStr (mm_agentId m)), (''agentDid'', JStr (mm_agentDid m)),
      (''passportHash'', JStr (mm_passportHash m)), (''contractHash'', JStr (mm_contractHash m)),
      (''routeState'', JStr (if mm_routeActive m then ''active'' else ''disabled'')),
      (''deliveryState'', JStr (deliveryStateText (mm_deliveryState m))),
      (''retainedContentMode'', JStr ''metadata_and_hashes_only''), (''rawMimeRetainedInRuntime'', JBool False),
      (''sourceEvidence'', evidenceJs (mm_sourceEvidence m)),
      (''requiredGates'', JArr (map JStr (mm_requiredGates m))),
      (''auditLabels'', JArr (map JStr (mm_auditLabels m)))]"

definition buildMailroomEvidenceManifest :: "crypto \<Rightarrow> passport \<Rightarrow> mailroom_task \<Rightarrow> mailroom_manifest result" where
  "buildMailroomEvidenceManifest c p trustTask =
     bindR (buildAgentMailroomContract c p) (\<lambda>contract.
       let routeActive = (mc_defaultDeliveryState contract \<noteq> Route_disabled);
           deliveryState = (if \<not> routeActive then Rejected_route_disabled
                            else if mt_initialCapability trustTask = Reject then Rejected_auth
                            else Delivery_pending_policy);
           unsigned = \<lparr> mm_taskId = mt_taskId trustTask, mm_taskHash = mt_taskHash trustTask,
             mm_agentId = pp_agentId p, mm_agentDid = pp_did p, mm_passportHash = pp_passportHash p,
             mm_contractHash = mc_contractHash contract, mm_routeActive = routeActive,
             mm_deliveryState = deliveryState, mm_sourceEvidence = mt_sourceEvidence trustTask,
             mm_requiredGates = mt_nextRequiredGates trustTask,
             mm_auditLabels = [''email_as_evidence_not_authority'', ''raw_mime_hash_only'',
               ''mailbox_credentials_never_enter_runtime''], mm_manifestHash = '''' \<rparr>
       in bindR (digestJson c (JObj (manifestSeed unsigned))) (\<lambda>manifestHash.
            Inr (unsigned\<lparr>mm_manifestHash := manifestHash\<rparr>)))"

section \<open>The samples\<close>

definition legalAgentInput :: passport_input where
  "legalAgentInput =
     \<lparr> pp_agentId = ''agent-legal-mfa-reviewer'', pp_displayName = ''AI Legal MFA Reviewer'',
       pp_did = ''did:example:onecomputer:agent:legal-mfa-reviewer'', pp_ownerHumanId = ''user-terence'',
       pp_ownerEmail = ''terence.tan@example.com'', pp_reportsToHumanId = ''user-legal-ops-head'',
       pp_department = ''Legal / Investments'',
       pp_purpose = ''Review MFA documents and draft annotated summaries under owner approval.'',
       pp_riskTier = Risk_high, pp_projectionTier = Teams_routable, pp_status = Status_active,
       pp_routeLocalPart = ''ai.legal-mfa-reviewer'', pp_agentDomain = ''agents.example.com'',
       pp_reviewAt = ''2026-07-23T00:00:00.000Z'',
       pp_policyIds = [''policy-email-external-stepup'', ''policy-sharepoint-read-quota''] \<rparr>"

definition sampleM365AgentDirectoryPayload :: "crypto \<Rightarrow> projection_bundle result" where
  "sampleM365AgentDirectoryPayload c = buildM365AgentProjectionBundle c legalAgentInput"

definition sampleRevokedM365AgentDirectoryPayload :: "crypto \<Rightarrow> projection_bundle result" where
  "sampleRevokedM365AgentDirectoryPayload c = buildM365AgentProjectionBundle c
     \<lparr> pp_agentId = ''agent-retired-mfa-reviewer'', pp_displayName = ''AI Retired MFA Reviewer'',
       pp_did = ''did:example:onecomputer:agent:retired-mfa-reviewer'', pp_ownerHumanId = ''user-terence'',
       pp_ownerEmail = ''terence.tan@example.com'', pp_reportsToHumanId = ''user-legal-ops-head'',
       pp_department = ''Legal / Investments'',
       pp_purpose = ''Retired reviewer kept for evidence lookups only.'',
       pp_riskTier = Risk_high, pp_projectionTier = Teams_routable, pp_status = Status_revoked,
       pp_routeLocalPart = ''ai.retired-mfa-reviewer'', pp_agentDomain = ''agents.example.com'',
       pp_reviewAt = ''2026-07-23T00:00:00.000Z'', pp_policyIds = [''policy-agent-revoked-no-delivery''] \<rparr>"

section \<open>Lemmas\<close>

lemma hasJson_evidence [simp]: "hasJson (evidenceJs e)"
  unfolding evidenceJs_def by (rule hasJson_obj) simp_all

lemma hasJson_mail [simp]: "hasJson (JObj (passportSeed p))" "hasJson (contractSeed q)" "hasJson (JObj (taskSeed t))"
  "hasJson (JObj (manifestSeed m))"
  unfolding passportSeed_def contractSeed_def taskSeed_def manifestSeed_def
  by (rule hasJson_obj; simp)+

lemma js_wf_mail [simp]: "js_wf (JObj (taskSeed t))" "js_wf (JObj (manifestSeed m))" "js_wf (evidenceJs e)"
  by (auto simp: taskSeed_def manifestSeed_def evidenceJs_def)

lemma contract_defined:
  obtains x where "buildAgentMailroomContract c p = Inr x" "mc_defaultDeliveryState x = defaultDelivery p"
proof -
  obtain h where "digestJson c (contractSeed p) = Inr h" using digestJson_defined [OF hasJson_mail(2)] by blast
  then show ?thesis by (intro that) (simp add: buildAgentMailroomContract_def, simp)
qed

lemma bundle_defined:
  "assertPassportInvariant input = Inr () \<Longrightarrow> \<exists>b. buildM365AgentProjectionBundle c input = Inr b"
proof -
  assume "assertPassportInvariant input = Inr ()"
  moreover obtain h where "digestJson c (JObj (passportSeed input)) = Inr h"
    using digestJson_defined [OF hasJson_mail(1)] by blast
  moreover obtain x where "buildAgentMailroomContract c (passport_input.extend input (passport.fields h)) = Inr x"
    by (rule contract_defined)
  ultimately show ?thesis
    by (simp add: buildM365AgentProjectionBundle_def buildM365AgentPassport_def)
qed

text \<open>What the mailroom makes of a mail.\<close>

lemma task_defined:
  obtains t where "normalizeInboundEmailToTrustTaskPreview c p e = Inr t"
    "mt_sourceEvidence t = \<lparr> se_messageId = ie_messageId e, se_rawMimeHash = sha256Text c (ie_rawMime e),
       se_subjectHash = sha256Text c (ie_subject e), se_bodyHash = sha256Text c (ie_bodyText e),
       se_attachmentNameHashes = map (sha256Text c) (ie_attachmentNames e) \<rparr>"
    "mt_mailAuthTier t = classifyMailAuth (ie_auth e)" "mt_nextRequiredGates t = mailGates"
    "mt_initialCapability t =
       (if pp_status p \<noteq> Status_active \<or> classifyMailAuth (ie_auth e) = Unauthenticated then Reject
        else if classifyMailAuth (ie_auth e) = Enrolled_sender_required then Enroll_only else Pending_policy)"
    "digestJson c (JObj (taskSeed t)) = Inr (mt_taskHash t)" "mt_requesterEmail t = ie_fromAddress e"
    "mt_targetAgentId t = pp_agentId p" "mt_targetAgentDid t = pp_did p"
proof -
  obtain x where x: "buildAgentMailroomContract c p = Inr x" "mc_defaultDeliveryState x = defaultDelivery p"
    by (rule contract_defined)
  obtain h where h: "digestJson c (JObj (taskSeed
      \<lparr> mt_taskId = '''', mt_taskHash = '''', mt_targetAgentId = pp_agentId p,
        mt_targetAgentDid = pp_did p, mt_requesterEmail = ie_fromAddress e,
        mt_sourceEvidence = \<lparr> se_messageId = ie_messageId e, se_rawMimeHash = sha256Text c (ie_rawMime e),
           se_subjectHash = sha256Text c (ie_subject e), se_bodyHash = sha256Text c (ie_bodyText e),
           se_attachmentNameHashes = map (sha256Text c) (ie_attachmentNames e) \<rparr>,
        mt_mailAuthTier = classifyMailAuth (ie_auth e),
        mt_initialCapability = capabilityFor (classifyMailAuth (ie_auth e)) x, mt_nextRequiredGates = mailGates \<rparr>)) = Inr h"
    using digestJson_defined [OF hasJson_mail(3)] by blast
  show ?thesis
  proof (rule that)
    show "normalizeInboundEmailToTrustTaskPreview c p e = Inr
      \<lparr> mt_taskId = ''mailroom_'' @ take 12 (drop 7 h), mt_taskHash = h, mt_targetAgentId = pp_agentId p,
        mt_targetAgentDid = pp_did p, mt_requesterEmail = ie_fromAddress e,
        mt_sourceEvidence = \<lparr> se_messageId = ie_messageId e, se_rawMimeHash = sha256Text c (ie_rawMime e),
           se_subjectHash = sha256Text c (ie_subject e), se_bodyHash = sha256Text c (ie_bodyText e),
           se_attachmentNameHashes = map (sha256Text c) (ie_attachmentNames e) \<rparr>,
        mt_mailAuthTier = classifyMailAuth (ie_auth e),
        mt_initialCapability = capabilityFor (classifyMailAuth (ie_auth e)) x, mt_nextRequiredGates = mailGates \<rparr>"
      using x h by (simp add: normalizeInboundEmailToTrustTaskPreview_def Let_def)
  qed (use x h in \<open>simp_all add: capabilityFor_def defaultDelivery_def taskSeed_def\<close>)
qed

lemma manifest_defined:
  obtains m where "buildMailroomEvidenceManifest c p t = Inr m"
    "mm_deliveryState m =
       (if pp_status p \<noteq> Status_active then Rejected_route_disabled
        else if mt_initialCapability t = Reject then Rejected_auth else Delivery_pending_policy)"
    "mm_sourceEvidence m = mt_sourceEvidence t" "mm_taskHash m = mt_taskHash t"
    "mm_requiredGates m = mt_nextRequiredGates t" "digestJson c (JObj (manifestSeed m)) = Inr (mm_manifestHash m)"
proof -
  obtain x where x: "buildAgentMailroomContract c p = Inr x" "mc_defaultDeliveryState x = defaultDelivery p"
    by (rule contract_defined)
  let ?u = "\<lparr> mm_taskId = mt_taskId t, mm_taskHash = mt_taskHash t,
             mm_agentId = pp_agentId p, mm_agentDid = pp_did p, mm_passportHash = pp_passportHash p,
             mm_contractHash = mc_contractHash x, mm_routeActive = (defaultDelivery p \<noteq> Route_disabled),
             mm_deliveryState = (if defaultDelivery p = Route_disabled then Rejected_route_disabled
                            else if mt_initialCapability t = Reject then Rejected_auth
                            else Delivery_pending_policy), mm_sourceEvidence = mt_sourceEvidence t,
             mm_requiredGates = mt_nextRequiredGates t,
             mm_auditLabels = [''email_as_evidence_not_authority'', ''raw_mime_hash_only'',
               ''mailbox_credentials_never_enter_runtime''], mm_manifestHash = '''' \<rparr>"
  obtain h where h: "digestJson c (JObj (manifestSeed ?u)) = Inr h"
    using digestJson_defined [OF hasJson_mail(4)] by blast
  show ?thesis
  proof (rule that)
    show "buildMailroomEvidenceManifest c p t = Inr (?u\<lparr>mm_manifestHash := h\<rparr>)"
      using x h by (simp add: buildMailroomEvidenceManifest_def Let_def)
  qed (use h in \<open>simp_all add: defaultDelivery_def manifestSeed_def\<close>)
qed

lemma evidenceJs_inj: "jsonForm (evidenceJs e) = jsonForm (evidenceJs f) \<Longrightarrow> e = f"
proof -
  assume eq: "jsonForm (evidenceJs e) = jsonForm (evidenceJs f)"
  obtain a b where ab: "evidenceJs e = JObj a" "evidenceJs f = JObj b" by (simp add: evidenceJs_def)
  have g: "jsonForm (oget a k) = jsonForm (oget b k)" for k
    by (rule jsonForm_objD) (use eq ab js_wf_mail(3) hasJson_evidence in metis)+
  from g [of "''messageId''"] g [of "''rawMimeHash''"] g [of "''subjectHash''"] g [of "''bodyHash''"]
    g [of "''attachmentNameHashes''"]
  show ?thesis using ab by (auto simp: evidenceJs_def)
qed

lemma map_sha_bytes: "map (sha256Text c) xs = map (sha256Text c) ys \<Longrightarrow> \<not> collision c \<Longrightarrow> map utf8 xs = map utf8 ys"
proof (induction xs arbitrary: ys)
  case (Cons x xs)
  then obtain y ys' where "ys = y # ys'" "sha256Text c x = sha256Text c y" by auto
  with Cons sha256Text_bytes show ?case by auto
qed simp

definition samplePassport :: passport where
  "samplePassport =
     \<lparr> pp_agentId = ''a'', pp_displayName = ''A'', pp_did = ''did:x'', pp_ownerHumanId = ''u'',
       pp_ownerEmail = ''u@x'', pp_reportsToHumanId = ''v'', pp_department = ''d'', pp_purpose = ''p'',
       pp_riskTier = Risk_low, pp_projectionTier = Passport_only, pp_status = Status_active,
       pp_routeLocalPart = ''a'', pp_agentDomain = ''x'', pp_reviewAt = ''r'', pp_policyIds = [],
       pp_passportHash = ''h'' \<rparr>"

definition sampleMail :: inbound_email where
  "sampleMail =
     \<lparr> ie_messageId = ''m'', ie_receivedAt = ''r'', ie_rawMime = ''raw'', ie_fromAddress = ''u@x'',
       ie_subject = ''s'', ie_bodyText = ''b'', ie_attachmentNames = [''f''],
       ie_auth = \<lparr> ma_spf = Auth_pass, ma_dkim = Auth_fail, ma_dmarc = Auth_pass, ma_arc = Auth_none \<rparr> \<rparr>"

section \<open>Properties\<close>

text \<open>C17. Mail is evidence, not authority: every inbound mail becomes a task that still needs all four
  gates; it reaches policy only for an active agent and a sender whose domain DMARC and DKIM or SPF
  confirm, at most enrols the sender when the mail is weaker, and is rejected otherwise; the manifest
  routes it accordingly and holds hashes of the content only.\<close>

theorem mail_is_not_authority:
  "\<exists>t m. normalizeInboundEmailToTrustTaskPreview c p e = Inr t \<and> buildMailroomEvidenceManifest c p t = Inr m \<and>
    mt_nextRequiredGates t = [''agent_passport'', ''guardrails'', ''vti'', ''step_up''] \<and>
    mm_requiredGates m = mt_nextRequiredGates t \<and>
    (mt_initialCapability t = Pending_policy \<longleftrightarrow> pp_status p = Status_active \<and> ma_dmarc (ie_auth e) = Auth_pass \<and>
       (ma_dkim (ie_auth e) = Auth_pass \<or> ma_spf (ie_auth e) = Auth_pass)) \<and>
    (mt_initialCapability t \<noteq> Reject \<longleftrightarrow> pp_status p = Status_active \<and>
       Auth_pass \<in> {ma_dkim (ie_auth e), ma_spf (ie_auth e), ma_arc (ie_auth e)}) \<and>
    (mm_deliveryState m = Delivery_pending_policy \<longleftrightarrow> mt_initialCapability t \<noteq> Reject) \<and>
    mm_sourceEvidence m = \<lparr> se_messageId = ie_messageId e, se_rawMimeHash = sha256Text c (ie_rawMime e),
       se_subjectHash = sha256Text c (ie_subject e), se_bodyHash = sha256Text c (ie_bodyText e),
       se_attachmentNameHashes = map (sha256Text c) (ie_attachmentNames e) \<rparr>"
proof -
  obtain t where t: "normalizeInboundEmailToTrustTaskPreview c p e = Inr t"
    "mt_sourceEvidence t = \<lparr> se_messageId = ie_messageId e, se_rawMimeHash = sha256Text c (ie_rawMime e),
       se_subjectHash = sha256Text c (ie_subject e), se_bodyHash = sha256Text c (ie_bodyText e),
       se_attachmentNameHashes = map (sha256Text c) (ie_attachmentNames e) \<rparr>"
    "mt_nextRequiredGates t = mailGates"
    "mt_initialCapability t =
       (if pp_status p \<noteq> Status_active \<or> classifyMailAuth (ie_auth e) = Unauthenticated then Reject
        else if classifyMailAuth (ie_auth e) = Enrolled_sender_required then Enroll_only else Pending_policy)"
    by (rule task_defined)
  obtain m where m: "buildMailroomEvidenceManifest c p t = Inr m"
    "mm_deliveryState m =
       (if pp_status p \<noteq> Status_active then Rejected_route_disabled
        else if mt_initialCapability t = Reject then Rejected_auth else Delivery_pending_policy)"
    "mm_sourceEvidence m = mt_sourceEvidence t" "mm_requiredGates m = mt_nextRequiredGates t"
    by (rule manifest_defined)
  show ?thesis
    by (intro exI [of _ t] exI [of _ m] conjI)
       (use t m in \<open>auto simp: mailGates_def classifyMailAuth_def\<close>)
qed

text \<open>The manifest pins the mail: when two manifests the mailroom wrote carry the same hash, they are
  about the same message - the same bytes of the raw text, subject, body and attachment names - or SHA-256 has a
  collision.\<close>

lemma manifest_pins_mail:
  assumes "normalizeInboundEmailToTrustTaskPreview c p e = Inr t" "buildMailroomEvidenceManifest c p t = Inr m"
    and "normalizeInboundEmailToTrustTaskPreview c q f = Inr u" "buildMailroomEvidenceManifest c q u = Inr n"
    and "mm_manifestHash m = mm_manifestHash n"
  shows "(ie_messageId e = ie_messageId f \<and> utf8 (ie_rawMime e) = utf8 (ie_rawMime f) \<and>
    utf8 (ie_subject e) = utf8 (ie_subject f) \<and> utf8 (ie_bodyText e) = utf8 (ie_bodyText f) \<and>
    map utf8 (ie_attachmentNames e) = map utf8 (ie_attachmentNames f)) \<or>
    collision c"
proof (rule disjCI)
  assume nc: "\<not> collision c"
  have m: "mm_sourceEvidence m = mt_sourceEvidence t" "digestJson c (JObj (manifestSeed m)) = Inr (mm_manifestHash m)"
    using manifest_defined [of c p t] assms(2) by (metis sum.inject(2))+
  have n: "mm_sourceEvidence n = mt_sourceEvidence u" "digestJson c (JObj (manifestSeed n)) = Inr (mm_manifestHash n)"
    using manifest_defined [of c q u] assms(4) by (metis sum.inject(2))+
  have "jsonForm (oget (manifestSeed m) ''sourceEvidence'') = jsonForm (oget (manifestSeed n) ''sourceEvidence'')"
    by (rule digestJson_field [OF js_wf_mail(2) js_wf_mail(2) m(2) n(2) [folded assms(5)] nc])
  then have "mm_sourceEvidence m = mm_sourceEvidence n"
    by (intro evidenceJs_inj) (simp add: manifestSeed_def)
  with m(1) n(1) have "mt_sourceEvidence t = mt_sourceEvidence u" by simp
  moreover obtain t' u' where "normalizeInboundEmailToTrustTaskPreview c p e = Inr t'"
    "normalizeInboundEmailToTrustTaskPreview c q f = Inr u'"
    "mt_sourceEvidence t' = \<lparr> se_messageId = ie_messageId e, se_rawMimeHash = sha256Text c (ie_rawMime e),
       se_subjectHash = sha256Text c (ie_subject e), se_bodyHash = sha256Text c (ie_bodyText e),
       se_attachmentNameHashes = map (sha256Text c) (ie_attachmentNames e) \<rparr>"
    "mt_sourceEvidence u' = \<lparr> se_messageId = ie_messageId f, se_rawMimeHash = sha256Text c (ie_rawMime f),
       se_subjectHash = sha256Text c (ie_subject f), se_bodyHash = sha256Text c (ie_bodyText f),
       se_attachmentNameHashes = map (sha256Text c) (ie_attachmentNames f) \<rparr>"
    using task_defined [of c p e] task_defined [of c q f] by metis
  ultimately have "ie_messageId e = ie_messageId f" "sha256Text c (ie_rawMime e) = sha256Text c (ie_rawMime f)"
    "sha256Text c (ie_subject e) = sha256Text c (ie_subject f)" "sha256Text c (ie_bodyText e) = sha256Text c (ie_bodyText f)"
    "map (sha256Text c) (ie_attachmentNames e) = map (sha256Text c) (ie_attachmentNames f)"
    using assms(1,3) by simp_all
  then show "ie_messageId e = ie_messageId f \<and> utf8 (ie_rawMime e) = utf8 (ie_rawMime f) \<and>
    utf8 (ie_subject e) = utf8 (ie_subject f) \<and> utf8 (ie_bodyText e) = utf8 (ie_bodyText f) \<and>
    map utf8 (ie_attachmentNames e) = map utf8 (ie_attachmentNames f)"
    using sha256Text_bytes [of c] map_sha_bytes [of c] nc by blast
qed

lemma manifest_pins_mail_witness:
  "\<exists>t m. normalizeInboundEmailToTrustTaskPreview toy_crypto samplePassport sampleMail = Inr t \<and>
    buildMailroomEvidenceManifest toy_crypto samplePassport t = Inr m \<and> ie_rawMime sampleMail = ''raw''"
proof -
  obtain t where t: "normalizeInboundEmailToTrustTaskPreview toy_crypto samplePassport sampleMail = Inr t"
    by (rule task_defined)
  obtain m where m: "buildMailroomEvidenceManifest toy_crypto samplePassport t = Inr m"
    by (rule manifest_defined)
  from manifest_pins_mail [OF t m t m refl] t m show ?thesis by (auto simp: sampleMail_def)
qed

end
