(* ===== verification/Workflows.thy ===== *)
theory Workflows
  imports Guardrails Mailroom Vti_Consent
begin

text \<open>
  The golden workflows, which compose the connector broker, the consent layer, the mailroom and the
  guardrails: \<^verbatim>\<open>executive-briefing-workflow-service.ts\<close>, \<^verbatim>\<open>legal-mfa-workflow-service.ts\<close>,
  \<^verbatim>\<open>golden-workflow-evidence-service.ts\<close> and \<^verbatim>\<open>ciso-privacy-console-service.ts\<close>. They take no input but the runtime; the theorems hold for every
  digest function.
\<close>

section \<open>The JSON of a preview\<close>

definition strs :: "('a \<Rightarrow> string) \<Rightarrow> 'a list \<Rightarrow> js" where
  "strs f xs = JArr (map JStr (map f xs))"

definition ruleJs :: "guardrail_rule \<Rightarrow> js" where
  "ruleJs r = JObj
     ([(''id'', JStr (ru_id r)), (''title'', JStr (ru_title r)), (''layer'', JStr (layerText (ru_layer r))),
       (''effect'', JStr (effectText (ru_effect r)))] @
      field ''actionTypes'' (strs actionTypeText) (ru_actionTypes r) @
      field ''sourceBoundaries'' (strs boundaryText) (ru_sourceBoundaries r) @
      field ''targetBoundaries'' (strs boundaryText) (ru_targetBoundaries r) @
      field ''resourceClasses'' (strs id) (ru_resourceClasses r) @
      field ''connectorIds'' (strs id) (ru_connectorIds r) @
      field ''recipientClasses'' (strs recipientText) (ru_recipientClasses r) @
      field ''quota'' quotaJs (ru_quota r) @ field ''approval'' requirementJs (ru_approval r) @
      [(''reason'', JStr (ru_reason r))])"

definition evaluationJs :: "evaluation \<Rightarrow> js" where
  "evaluationJs e = JObj
     ([(''decision'', JStr (effectText (gv_decision e))), (''matchedRules'', JArr (map ruleJs (gv_matchedRules e))),
       (''requiredApprovals'', JArr (map requirementJs (gv_requiredApprovals e)))] @
      field ''quota'' quotaJs (gv_quota e) @
      [(''quotaExceeded'', JBool (gv_quotaExceeded e)), (''evidenceRequired'', JBool (gv_evidenceRequired e)),
       (''explanation'', JStr (gv_explanation e)), (''vtiTrustTaskHints'', strs id (gv_vtiTrustTaskHints e))])"

definition nodeJs :: "approval_node \<Rightarrow> js" where
  "nodeJs n = JObj
     [(''nodeId'', JStr (an_nodeId n)), (''role'', JStr (roleText (an_role n))), (''mode'', JStr (modeText (an_mode n))),
      (''stepUpRequired'', JBool (an_stepUpRequired n)), (''status'', JStr (an_status n))]"

definition appendJs :: "append_preview \<Rightarrow> js" where
  "appendJs a = JObj
     [(''previousHead'', JStr (ep_previousHead a)), (''decisionEventHash'', JStr (ep_decisionEventHash a)),
      (''nextHead'', JStr (ep_nextHead a)), (''appendMode'', JStr (ep_appendMode a))]"

definition previewJs :: "guardrail_preview \<Rightarrow> js" where
  "previewJs p = JObj
     [(''schemaVersion'', JStr (pv_schemaVersion p)), (''generatedAt'', JStr (pv_generatedAt p)),
      (''decisionId'', JStr (pv_decisionId p)), (''decisionHash'', JStr (pv_decisionHash p)),
      (''actionDigest'', JStr (pv_actionDigest p)), (''action'', actionJs (pv_action p)),
      (''evaluation'', evaluationJs (pv_evaluation p)), (''approvalDag'', JArr (map nodeJs (pv_approvalDag p))),
      (''enforcement'', JStr (pv_enforcement p)),
      (''evidenceAppendPreview'', appendJs (pv_evidenceAppendPreview p)),
      (''vtiAdapter'', JObj [(''trustTasks'', strs id (pv_trustTasks p)), (''note'', JStr (pv_note p))])]"

section \<open>The executive briefing\<close>

record evidence_summary =
  es_grantHash :: string
  es_retrievalHash :: string
  es_returnedItems :: nat
  es_rawCredentialExposedToRuntime :: bool
  es_rawContentStored :: bool
  es_sourceItemHashes :: "string list"

definition summarizeRetrieval :: "connector_retrieval \<Rightarrow> evidence_summary" where
  "summarizeRetrieval r =
     \<lparr> es_grantHash = rt_grantHash r, es_retrievalHash = rt_retrievalHash r,
       es_returnedItems = rt_returnedItems r,
       es_rawCredentialExposedToRuntime = ev_rawCredentialExposedToRuntime (rt_evidence r),
       es_rawContentStored = ev_rawContentStored (rt_evidence r),
       es_sourceItemHashes = ev_sourceItemHashes (rt_evidence r) \<rparr>"

definition summaryJs :: "evidence_summary \<Rightarrow> js" where
  "summaryJs s = JObj
     [(''grantHash'', JStr (es_grantHash s)), (''retrievalHash'', JStr (es_retrievalHash s)),
      (''returnedItems'', JInt (int (es_returnedItems s))),
      (''rawCredentialExposedToRuntime'', JBool (es_rawCredentialExposedToRuntime s)),
      (''rawContentStored'', JBool (es_rawContentStored s)),
      (''sourceItemHashes'', strs id (es_sourceItemHashes s))]"

definition authorizationJs :: "authorization \<Rightarrow> js" where
  "authorizationJs a = JObj
     [(''allowed'', JBool (az_allowed a)), (''reason'', JStr (az_reason a)), (''failClosed'', JBool (az_failClosed a)),
      (''consentDecisionHash'', optStr (az_consentDecisionHash a)),
      (''stepUpResponseHash'', optStr (az_stepUpResponseHash a))]"

record executive_contract =
  ec_workflowId :: string
  ec_workflowHash :: string
  ec_agentId :: string
  ec_agentDid :: string
  ec_readDecision :: guardrail_preview
  ec_vtiAuthorization :: authorization
  ec_evidence :: evidence_summary
  ec_corporateToPersonalExport :: guardrail_preview
  ec_personalConnectorWrite :: guardrail_preview

text \<open>The contract without its hash.\<close>

definition executiveSeed :: "executive_contract \<Rightarrow> js" where
  "executiveSeed k = JObj
     [(''schemaVersion'', JStr ''onecomputer.golden-workflow.executive-briefing.v1''),
      (''workflowId'', JStr (ec_workflowId k)), (''agentId'', JStr (ec_agentId k)), (''agentDid'', JStr (ec_agentDid k)),
      (''corporateContext'', JObj [(''readDecision'', previewJs (ec_readDecision k)),
         (''sourceBoundary'', JStr ''enterprise'')]),
      (''personalContext'', JObj [(''connectorKind'', JStr ''personal_gmail''), (''accessMode'', JStr ''read_only''),
         (''vtiAuthorization'', authorizationJs (ec_vtiAuthorization k)), (''evidence'', summaryJs (ec_evidence k))]),
      (''outputPolicy'', JObj [(''allowedOutputMode'', JStr ''summary_with_source_hashes_only''),
         (''userCanInspectPersonalDataUsed'', JBool True),
         (''cisoView'', JStr ''metadata_risk_evidence_only_no_raw_personal_content'')]),
      (''unsafeFixtures'', JObj [(''corporateToPersonalExport'', previewJs (ec_corporateToPersonalExport k)),
         (''personalConnectorWrite'', previewJs (ec_personalConnectorWrite k))])]"

definition executiveRead :: guardrail_action where
  "executiveRead =
     \<lparr> ga_actionType = File_read, ga_actorId = ''user-terence'', ga_agentId = ''agent-executive-briefing'',
       ga_sourceBoundary = Enterprise, ga_targetBoundary = Runtime,
       ga_resourceClass = ''board_and_calendar_briefing_inputs'',
       ga_connectorId = Some ''m365-sharepoint-executive-pack'', ga_recipientClass = None,
       ga_count = Some 3, ga_metadata = None \<rparr>"

definition executiveExport :: guardrail_action where
  "executiveExport = executiveRead\<lparr>ga_actionType := File_export, ga_targetBoundary := Personal,
     ga_resourceClass := ''board_pack'', ga_connectorId := Some ''gmail-personal-terence'', ga_count := None\<rparr>"

definition executiveWrite :: guardrail_action where
  "executiveWrite = executiveRead\<lparr>ga_actionType := Connector_write, ga_sourceBoundary := Runtime,
     ga_targetBoundary := Personal, ga_resourceClass := ''personal_gmail_draft'',
     ga_connectorId := Some ''gmail-personal-terence'', ga_count := None\<rparr>"

definition executiveGrantInput :: grant_input where
  "executiveGrantInput =
     \<lparr> gi_connectorId = ''gmail-personal-terence'', gi_connectorKind = Personal_gmail,
       gi_userId = ''user-terence'', gi_agentId = ''agent-executive-briefing'',
       gi_purpose = ''Prepare executive briefing using personal context'',
       gi_scope = \<lparr> cs_labels = Some [''MFA''], cs_folders = None, cs_dateFrom = None, cs_dateTo = None,
         cs_query = Some ''MFA board preparation'' \<rparr>,
       gi_ttlMinutes = 20, gi_maxItems = 2, gi_issuedAt = ''2026-06-23T09:10:00.000Z'', gi_accessMode = None \<rparr>"

definition briefingItem :: source_item where
  "briefingItem =
     \<lparr> si_itemId = ''mail-briefing-1'', si_title = ''MFA preparation reminder'',
       si_snippet = ''Personal context snippet for executive preparation only.'',
       si_sourceUri = Some ''gmail://message/mail-briefing-1'',
       si_receivedAt = Some ''2026-06-22T12:00:00.000Z'', si_labels = Some [''MFA''] \<rparr>"

definition userTerence :: string where
  "userTerence = ''did:example:onecomputer:user:terence''"

definition atTime :: "string \<Rightarrow> preview_options" where
  "atTime generatedAt = \<lparr> po_generatedAt = Some generatedAt, po_previousHead = None, po_rules = None \<rparr>"

definition afterHead :: "string \<Rightarrow> string \<Rightarrow> preview_options" where
  "afterHead previousHead generatedAt =
     \<lparr> po_generatedAt = Some generatedAt, po_previousHead = Some previousHead, po_rules = None \<rparr>"

definition buildExecutiveBriefingWorkflowContract :: "crypto \<Rightarrow> host_date \<Rightarrow> executive_contract result" where
  "buildExecutiveBriefingWorkflowContract c h =
     (let agentDid = ''did:example:onecomputer:agent:executive-briefing'' in
      bindR (buildGuardrailDecisionPreview c executiveRead (atTime ''2026-06-23T09:15:00.000Z'')) (\<lambda>corporateRead.
      bindR (createReadOnlyPersonalConnectorGrant c h executiveGrantInput) (\<lambda>grant.
      bindR (buildPersonalConnectorConsentBinding c grant userTerence userTerence agentDid
              (pv_actionDigest corporateRead) ''2026-06-23T09:11:00.000Z'') (\<lambda>binding.
      bindR (buildConsentDecisionEnvelope c (cb_consentRequest binding) userTerence True
              ''2026-06-23T09:12:00.000Z'' ''2026-06-23T09:30:00.000Z'' None) (\<lambda>decision.
      bindR (buildStepUpApprovalResponseEnvelope c (cb_consentRequest binding) (cb_stepUpRequest binding)
              userTerence True ''2026-06-23T09:12:30.000Z'' ''2026-06-23T09:20:00.000Z'' Aal2 Vta_mobile) (\<lambda>stepUp.
      let vtiAuthorization = authorizePersonalConnectorRetrievalWithVtiConsent h grant (cb_consentRequest binding)
            (Some decision) (cb_stepUpRequest binding) (Some stepUp) ''2026-06-23T09:13:00.000Z''
      in
      bindR (retrievePersonalConnectorSnippets c h
              \<lparr> ri_grant = grant, ri_query = ''MFA board preparation'', ri_now = ''2026-06-23T09:13:00.000Z'',
                ri_sourceItems = [briefingItem], ri_requestedItems = Some 1 \<rparr>) (\<lambda>retrieval.
      bindR (buildGuardrailDecisionPreview c executiveExport
              (afterHead (rt_retrievalHash retrieval) ''2026-06-23T09:16:00.000Z'')) (\<lambda>corporateToPersonalExport.
      bindR (buildGuardrailDecisionPreview c executiveWrite
              (afterHead (ep_nextHead (pv_evidenceAppendPreview corporateToPersonalExport))
                 ''2026-06-23T09:17:00.000Z'')) (\<lambda>personalConnectorWrite.
      let unsigned = \<lparr> ec_workflowId = ''executive-briefing-personal-context-golden'', ec_workflowHash = '''',
            ec_agentId = ''agent-executive-briefing'', ec_agentDid = agentDid, ec_readDecision = corporateRead,
            ec_vtiAuthorization = vtiAuthorization, ec_evidence = summarizeRetrieval retrieval,
            ec_corporateToPersonalExport = corporateToPersonalExport,
            ec_personalConnectorWrite = personalConnectorWrite \<rparr>
      in bindR (digestJson c (executiveSeed unsigned)) (\<lambda>workflowHash.
           Inr (unsigned\<lparr>ec_workflowHash := workflowHash\<rparr>)))))))))))"

section \<open>The legal reviewer\<close>

record workflow_step =
  ws_stepId :: string
  ws_title :: string
  ws_guardrail :: "guardrail_preview option" \<comment> \<open>\<^verbatim>\<open>action\<close> is the preview's action\<close>
  ws_requiredBeforeExecution :: "string list"
  ws_executionState :: string

definition stepJs :: "workflow_step \<Rightarrow> js" where
  "stepJs s = JObj
     ([(''stepId'', JStr (ws_stepId s)), (''title'', JStr (ws_title s))] @
      field ''action'' (\<lambda>p. actionJs (pv_action p)) (ws_guardrail s) @
      field ''guardrail'' previewJs (ws_guardrail s) @
      [(''requiredBeforeExecution'', strs id (ws_requiredBeforeExecution s)),
       (''executionState'', JStr (ws_executionState s))])"

definition stepFromGuardrail :: "string \<Rightarrow> string \<Rightarrow> guardrail_preview \<Rightarrow> workflow_step" where
  "stepFromGuardrail stepId title guardrail =
     (let decision = gv_decision (pv_evaluation guardrail);
          executionState = (if decision = Block then ''blocked''
            else if decision = Approval_required \<or> decision = Step_up then ''pending_approval''
            else ''allowed_preview'');
          required = uniqueFirst
            ([''guardrail''] @
             (if gv_evidenceRequired (pv_evaluation guardrail) then [''evidence''] else []) @
             (if pv_trustTasks guardrail \<noteq> [] then [''vti''] else []) @
             (if decision = Step_up \<or> list_ex an_stepUpRequired (pv_approvalDag guardrail) then [''step_up''] else []) @
             (if pv_approvalDag guardrail \<noteq> [] then [''approval''] else []))
      in \<lparr> ws_stepId = stepId, ws_title = title, ws_guardrail = Some guardrail,
           ws_requiredBeforeExecution = required, ws_executionState = executionState \<rparr>)"

record legal_contract =
  lc_workflowId :: string
  lc_workflowHash :: string
  lc_agentId :: string
  lc_agentDid :: string
  lc_trustTask :: mailroom_task
  lc_evidenceManifest :: mailroom_manifest
  lc_steps :: "workflow_step list"
  lc_deleteSharePointFolder :: guardrail_preview
  lc_excessiveRead :: guardrail_preview
  lc_status :: string
  lc_managerEmailRequiresOwnerAndCompliance :: bool
  lc_destructiveSharePointActionsBlocked :: bool
  lc_autonomousReadQuotaPerHour :: int
  lc_noGraphOrSharePointWriteWithoutPolicy :: bool

definition legalSeed :: "legal_contract \<Rightarrow> js" where
  "legalSeed k = JObj
     [(''schemaVersion'', JStr ''onecomputer.golden-workflow.legal-mfa-reviewer.v1''),
      (''workflowId'', JStr (lc_workflowId k)), (''agentId'', JStr (lc_agentId k)), (''agentDid'', JStr (lc_agentDid k)),
      (''trigger'', JObj
         [(''trustTask'', JObj ([(''taskId'', JStr (mt_taskId (lc_trustTask k))),
             (''taskHash'', JStr (mt_taskHash (lc_trustTask k)))] @ taskSeed (lc_trustTask k))),
          (''evidenceManifest'', JObj (manifestSeed (lc_evidenceManifest k) @
             [(''manifestHash'', JStr (mm_manifestHash (lc_evidenceManifest k)))]))]),
      (''steps'', JArr (map stepJs (lc_steps k))),
      (''unsafeFixtures'', JObj [(''deleteSharePointFolder'', previewJs (lc_deleteSharePointFolder k)),
         (''excessiveRead'', previewJs (lc_excessiveRead k))]),
      (''outcome'', JObj
         [(''status'', JStr (lc_status k)),
          (''managerEmailRequiresOwnerAndCompliance'', JBool (lc_managerEmailRequiresOwnerAndCompliance k)),
          (''destructiveSharePointActionsBlocked'', JBool (lc_destructiveSharePointActionsBlocked k)),
          (''autonomousReadQuotaPerHour'', JInt (lc_autonomousReadQuotaPerHour k)),
          (''noGraphOrSharePointWriteWithoutPolicy'', JBool (lc_noGraphOrSharePointWriteWithoutPolicy k))])]"

text \<open>\<^verbatim>\<open>action(partial)\<close>.\<close>

definition legalAction ::
  "action_type \<Rightarrow> boundary \<Rightarrow> boundary \<Rightarrow> string \<Rightarrow> string option \<Rightarrow> recipient_class option \<Rightarrow> int option \<Rightarrow>
   obj option \<Rightarrow> guardrail_action" where
  "legalAction t source target class connector recipient n metadata =
     \<lparr> ga_actionType = t, ga_actorId = ''user-terence'', ga_agentId = ''agent-legal-mfa-reviewer'',
       ga_sourceBoundary = source, ga_targetBoundary = target, ga_resourceClass = class,
       ga_connectorId = connector, ga_recipientClass = recipient, ga_count = n, ga_metadata = metadata \<rparr>"

definition sharePointScan :: guardrail_action where
  "sharePointScan = legalAction File_read Enterprise Runtime ''sharepoint_mfa_folder''
     (Some ''m365-sharepoint-legal'') None (Some 5) None"

definition copyToWorkingFolder :: guardrail_action where
  "copyToWorkingFolder = legalAction File_write Runtime Enterprise ''sharepoint_agent_working_folder''
     (Some ''m365-sharepoint-legal-working-copy'') None None
     (Some [(''targetFolder'', JStr ''approved-agent-working-folder'')])"

definition annotateReviewPack :: guardrail_action where
  "annotateReviewPack = legalAction File_write Runtime Enterprise ''mfa_annotation_pack''
     (Some ''m365-sharepoint-legal-working-copy'') None None (Some [(''writeMode'', JStr ''annotation_only'')])"

definition sendManagerSummary :: guardrail_action where
  "sendManagerSummary = legalAction Email_send Enterprise Enterprise ''mfa-review-summary''
     None (Some To_manager) None
     (Some [(''channel'', JStr ''outlook''), (''contentMode'', JStr ''summary_and_link_only'')])"

definition deleteSharePointFolder :: guardrail_action where
  "deleteSharePointFolder = legalAction File_delete Runtime Enterprise ''sharepoint_folder''
     (Some ''m365-sharepoint-legal'') None None None"

definition excessiveRead :: guardrail_action where
  "excessiveRead = legalAction File_read Enterprise Runtime ''sharepoint_mfa_folder''
     (Some ''m365-sharepoint-legal'') None (Some 11) None"

definition legalMail :: inbound_email where
  "legalMail =
     \<lparr> ie_messageId = ''<legal-mfa-workflow@example.com>'', ie_receivedAt = ''2026-06-23T09:00:00.000Z'',
       ie_rawMime = ''From: terence.tan@example.com'' @ [CHR 0x0A] @ ''Subject: Daily MFA review'' @ [CHR 0x0A, CHR 0x0A] @
         ''Please review new MFA folders and prepare annotated pack.'',
       ie_fromAddress = ''terence.tan@example.com'', ie_subject = ''Daily MFA review'',
       ie_bodyText = ''Please review new MFA folders and prepare annotated pack.'', ie_attachmentNames = [],
       ie_auth = \<lparr> ma_spf = Auth_pass, ma_dkim = Auth_pass, ma_dmarc = Auth_pass, ma_arc = Auth_pass \<rparr> \<rparr>"

definition mailroomTrigger :: workflow_step where
  "mailroomTrigger =
     \<lparr> ws_stepId = ''mailroom_trigger'',
       ws_title = ''Outlook/Teams instruction becomes Mailroom Trust Task preview'', ws_guardrail = None,
       ws_requiredBeforeExecution = [''evidence'', ''vti'', ''guardrail''], ws_executionState = ''pending_policy'' \<rparr>"

definition nextHeadOf :: "guardrail_preview \<Rightarrow> string" where
  "nextHeadOf p = ep_nextHead (pv_evidenceAppendPreview p)"

definition buildLegalMfaReviewerWorkflowContract :: "crypto \<Rightarrow> legal_contract result" where
  "buildLegalMfaReviewerWorkflowContract c =
     bindR (sampleM365AgentDirectoryPayload c) (\<lambda>agent.
     bindR (normalizeInboundEmailToTrustTaskPreview c (pb_passport agent) legalMail) (\<lambda>trustTask.
     bindR (buildMailroomEvidenceManifest c (pb_passport agent) trustTask) (\<lambda>evidenceManifest.
     let previousHead = mm_manifestHash evidenceManifest in
     bindR (buildGuardrailDecisionPreview c sharePointScan (afterHead previousHead ''2026-06-23T09:01:00.000Z'')) (\<lambda>scan.
     bindR (buildGuardrailDecisionPreview c copyToWorkingFolder
             (afterHead (nextHeadOf scan) ''2026-06-23T09:02:00.000Z'')) (\<lambda>copy.
     bindR (buildGuardrailDecisionPreview c annotateReviewPack
             (afterHead (nextHeadOf copy) ''2026-06-23T09:03:00.000Z'')) (\<lambda>annotate.
     bindR (buildGuardrailDecisionPreview c sendManagerSummary
             (afterHead (nextHeadOf annotate) ''2026-06-23T09:04:00.000Z'')) (\<lambda>send.
     bindR (buildGuardrailDecisionPreview c deleteSharePointFolder
             (afterHead previousHead ''2026-06-23T09:05:00.000Z'')) (\<lambda>delete.
     bindR (buildGuardrailDecisionPreview c excessiveRead
             (afterHead previousHead ''2026-06-23T09:06:00.000Z'')) (\<lambda>excess.
     let unsigned = \<lparr> lc_workflowId = ''legal-mfa-reviewer-golden'', lc_workflowHash = '''',
           lc_agentId = pp_agentId (pb_passport agent), lc_agentDid = pp_did (pb_passport agent),
           lc_trustTask = trustTask, lc_evidenceManifest = evidenceManifest,
           lc_steps =
             [mailroomTrigger,
              stepFromGuardrail ''sharepoint_scan'' ''Read up to 10 SharePoint MFA files this hour'' scan,
              stepFromGuardrail ''copy_to_working_folder'' ''Copy only to approved agent working folder'' copy,
              stepFromGuardrail ''annotate_review_pack'' ''Annotate review pack in working folder'' annotate,
              stepFromGuardrail ''send_manager_summary''
                ''Send summary/link to manager after owner + compliance approval'' send],
           lc_deleteSharePointFolder = delete, lc_excessiveRead = excess,
           lc_status = ''requires_approvals_before_execution'',
           lc_managerEmailRequiresOwnerAndCompliance = True, lc_destructiveSharePointActionsBlocked = True,
           lc_autonomousReadQuotaPerHour = 10, lc_noGraphOrSharePointWriteWithoutPolicy = True \<rparr>
     in bindR (digestJson c (legalSeed unsigned)) (\<lambda>workflowHash.
          Inr (unsigned\<lparr>lc_workflowHash := workflowHash\<rparr>)))))))))))"

section \<open>The evidence index\<close>

record workflow_evidence =
  we_workflowId :: string
  we_workflowHash :: string
  we_agentId :: string
  we_agentDid :: string
  we_evidenceHashes :: "string list"
  we_unsafeFixtureDecisionHashes :: "string list"

record evidence_index =
  ei_generatedAt :: string
  ei_evidenceIndexHash :: string
  ei_workflows :: "workflow_evidence list"

definition workflowEvidenceJs :: "workflow_evidence \<Rightarrow> js" where
  "workflowEvidenceJs w = JObj
     [(''workflowId'', JStr (we_workflowId w)), (''workflowHash'', JStr (we_workflowHash w)),
      (''agentId'', JStr (we_agentId w)), (''agentDid'', JStr (we_agentDid w)),
      (''evidenceHashes'', strs id (we_evidenceHashes w)),
      (''unsafeFixtureDecisionHashes'', strs id (we_unsafeFixtureDecisionHashes w))]"

definition indexSeed :: "evidence_index \<Rightarrow> js" where
  "indexSeed i = JObj
     [(''schemaVersion'', JStr ''onecomputer.golden-workflow-evidence-index.v1''),
      (''generatedAt'', JStr (ei_generatedAt i)), (''readinessGate'', JStr ''P5.3-golden-workflows-closeout''),
      (''cisoView'', JStr ''metadata_risk_evidence_only_no_raw_personal_content''),
      (''userPrivacyView'', JStr ''user_can_inspect_personal_connector_grants_and_retrievals''),
      (''workflows'', JArr (map workflowEvidenceJs (ei_workflows i))),
      (''controlsValidated'', JObj
         [(''nativeM365Trigger'', JBool True), (''sharePointReadQuota'', JBool True),
          (''managerEmailApprovalChain'', JBool True), (''personalConnectorReadOnly'', JBool True),
          (''vtiConsentAndStepUp'', JBool True), (''corporateToPersonalExfilBlocked'', JBool True),
          (''destructiveSharePointActionBlocked'', JBool True)])]"

definition legalEvidence :: "legal_contract \<Rightarrow> workflow_evidence" where
  "legalEvidence k =
     \<lparr> we_workflowId = lc_workflowId k, we_workflowHash = lc_workflowHash k, we_agentId = lc_agentId k,
       we_agentDid = lc_agentDid k,
       we_evidenceHashes = mm_manifestHash (lc_evidenceManifest k) #
         concat (map (\<lambda>s. case ws_guardrail s of None \<Rightarrow> [] | Some g \<Rightarrow> [pv_decisionHash g, nextHeadOf g]) (lc_steps k)),
       we_unsafeFixtureDecisionHashes =
         [pv_decisionHash (lc_deleteSharePointFolder k), pv_decisionHash (lc_excessiveRead k)] \<rparr>"

definition executiveEvidence :: "executive_contract \<Rightarrow> workflow_evidence" where
  "executiveEvidence k =
     \<lparr> we_workflowId = ec_workflowId k, we_workflowHash = ec_workflowHash k, we_agentId = ec_agentId k,
       we_agentDid = ec_agentDid k,
       we_evidenceHashes = [pv_decisionHash (ec_readDecision k), es_grantHash (ec_evidence k),
         es_retrievalHash (ec_evidence k)],
       we_unsafeFixtureDecisionHashes =
         [pv_decisionHash (ec_corporateToPersonalExport k), pv_decisionHash (ec_personalConnectorWrite k)] \<rparr>"

definition buildGoldenWorkflowEvidenceIndex ::
  "crypto \<Rightarrow> string option \<Rightarrow> legal_contract \<Rightarrow> executive_contract \<Rightarrow> evidence_index result" where
  "buildGoldenWorkflowEvidenceIndex c generatedAt legalMfa executiveBriefing =
     (let unsigned = \<lparr> ei_generatedAt = orElse generatedAt ''2026-06-23T09:30:00.000Z'', ei_evidenceIndexHash = '''',
            ei_workflows = [legalEvidence legalMfa, executiveEvidence executiveBriefing] \<rparr>
      in bindR (digestJson c (indexSeed unsigned)) (\<lambda>h. Inr (unsigned\<lparr>ei_evidenceIndexHash := h\<rparr>)))"

section \<open>The console\<close>

text \<open>The fields of the payload that are constants of its type (\<^verbatim>\<open>schemaVersion\<close>, \<^verbatim>\<open>readinessGate\<close>,
  \<^verbatim>\<open>canPauseOrRevoke\<close>, \<^verbatim>\<open>canInspectDataUsed\<close>) are left out of the records here and of the evidence index.\<close>

record ciso_agent =
  ca_agentId :: string
  ca_agentDid :: string
  ca_ownerHumanId :: string
  ca_riskTier :: risk_tier
  ca_status :: string
  ca_workflows :: "string list"
  ca_evidenceHashes :: "string list"
  ca_controls :: "string list"
  ca_actions :: "string list"

record ciso_connector_evidence =
  ce_connectorKind :: connector_kind
  ce_agentId :: string
  ce_purpose :: string
  ce_grantHash :: string
  ce_retrievalHashes :: "string list"
  ce_sourceItemHashes :: "string list"
  ce_adminVisibility :: string

record data_used =
  du_retrievalHash :: string
  du_returnedItems :: nat
  du_snippets :: "connector_snippet list"

record user_grant_view =
  ug_grantId :: string
  ug_grantHash :: string
  ug_connectorId :: string
  ug_connectorKind :: connector_kind
  ug_agentId :: string
  ug_purpose :: string
  ug_status :: grant_status
  ug_expiresAt :: string
  ug_dataUsed :: "data_used list"
  ug_userActions :: "string list"

record ciso_console =
  cc_generatedAt :: string
  cc_rawPersonalContentVisible :: bool
  cc_rawCredentialVisible :: bool
  cc_agents :: "ciso_agent list"
  cc_personalConnectorEvidence :: "ciso_connector_evidence list"
  cc_userId :: string
  cc_grants :: "user_grant_view list"

definition cisoActions :: "string list" where
  "cisoActions = [''pause'', ''revoke'', ''export_evidence'', ''request_incident_access'']"

definition cisoConnectorEvidence :: "sample_payload \<Rightarrow> console_grant \<Rightarrow> ciso_connector_evidence" where
  "cisoConnectorEvidence personal g =
     \<lparr> ce_connectorKind = cg_connectorKind g, ce_agentId = cg_agentId g, ce_purpose = cg_purpose g,
       ce_grantHash = cg_grantHash g, ce_retrievalHashes = [rt_retrievalHash (sp_latestRetrieval personal)],
       ce_sourceItemHashes = ev_sourceItemHashes (rt_evidence (sp_latestRetrieval personal)),
       ce_adminVisibility = cg_adminVisibility g \<rparr>"

definition userGrantView :: "sample_payload \<Rightarrow> console_grant \<Rightarrow> user_grant_view" where
  "userGrantView personal g =
     \<lparr> ug_grantId = cg_grantId g, ug_grantHash = cg_grantHash g, ug_connectorId = cg_connectorId g,
       ug_connectorKind = cg_connectorKind g, ug_agentId = cg_agentId g, ug_purpose = cg_purpose g,
       ug_status = cg_status g, ug_expiresAt = cg_expiresAt g,
       ug_dataUsed = [\<lparr> du_retrievalHash = rt_retrievalHash (sp_latestRetrieval personal),
         du_returnedItems = rt_returnedItems (sp_latestRetrieval personal),
         du_snippets = rt_snippets (sp_latestRetrieval personal) \<rparr>],
       ug_userActions = cg_userActions g \<rparr>"

text \<open>\<^verbatim>\<open>xs[i]?.evidenceHashes ?? []\<close>.\<close>

definition evidenceAt :: "nat \<Rightarrow> evidence_index \<Rightarrow> string list" where
  "evidenceAt i index = (if i < length (ei_workflows index) then we_evidenceHashes (ei_workflows index ! i) else [])"

definition buildCisoUserPrivacyConsolePayload :: "crypto \<Rightarrow> host_date \<Rightarrow> string option \<Rightarrow> ciso_console result" where
  "buildCisoUserPrivacyConsolePayload c h generatedAt0 =
     (let generatedAt = orElse generatedAt0 ''2026-06-23T09:45:00.000Z'' in
      bindR (buildLegalMfaReviewerWorkflowContract c) (\<lambda>legalMfa.
      bindR (buildExecutiveBriefingWorkflowContract c h) (\<lambda>executiveBriefing.
      bindR (buildGoldenWorkflowEvidenceIndex c (Some generatedAt) legalMfa executiveBriefing) (\<lambda>evidenceIndex.
      bindR (samplePersonalConnectorRegistryPayload c h) (\<lambda>personal.
        Inr \<lparr> cc_generatedAt = generatedAt, cc_rawPersonalContentVisible = False, cc_rawCredentialVisible = False,
          cc_agents =
            [\<lparr> ca_agentId = lc_agentId legalMfa, ca_agentDid = lc_agentDid legalMfa,
               ca_ownerHumanId = ''user-terence'', ca_riskTier = Risk_high, ca_status = ''active'',
               ca_workflows = [lc_workflowId legalMfa], ca_evidenceHashes = evidenceAt 0 evidenceIndex,
               ca_controls = [''native_m365_trigger'', ''sharepoint_read_quota'', ''manager_email_approval_chain'',
                 ''destructive_sharepoint_action_blocked''], ca_actions = cisoActions \<rparr>,
             \<lparr> ca_agentId = ec_agentId executiveBriefing, ca_agentDid = ec_agentDid executiveBriefing,
               ca_ownerHumanId = ''user-terence'', ca_riskTier = Risk_critical, ca_status = ''active'',
               ca_workflows = [ec_workflowId executiveBriefing], ca_evidenceHashes = evidenceAt 1 evidenceIndex,
               ca_controls = [''corporate_context_quota'', ''personal_connector_read_only'',
                 ''vti_consent_and_step_up'', ''corporate_to_personal_exfil_blocked''], ca_actions = cisoActions \<rparr>],
          cc_personalConnectorEvidence = map (cisoConnectorEvidence personal) (cp_grants (sp_privacyConsole personal)),
          cc_userId = cp_userId (sp_privacyConsole personal),
          cc_grants = map (userGrantView personal) (cp_grants (sp_privacyConsole personal)) \<rparr>)))))"

section \<open>Lemmas\<close>

lemma js_strs [simp]: "is_json (strs f xs)" "js_wf (strs f xs)"
  by (auto simp: strs_def)

lemma json_field [simp]:
  "(\<forall>p \<in> set (field k f x). is_json (snd p)) \<longleftrightarrow> (case x of None \<Rightarrow> True | Some v \<Rightarrow> is_json (f v))"
  "(\<forall>p \<in> set (field k f x). js_wf (snd p)) \<longleftrightarrow> (case x of None \<Rightarrow> True | Some v \<Rightarrow> js_wf (f v))"
  by (auto simp: field_def split: option.splits)

lemma keys_field: "map fst (field k f x) = (if x = None then [] else [k])"
  by (auto simp: field_def split: option.splits)

lemma ruleJs_json [simp]: "is_json (ruleJs r)" "js_wf (ruleJs r)"
  using quotaJs_json requirementJs_json
  by (auto simp: ruleJs_def ball_Un keys_field split: option.splits)

lemma evaluationJs_json [simp]: "is_json (evaluationJs e)" "js_wf (evaluationJs e)"
  using quotaJs_json requirementJs_json
  by (auto simp: evaluationJs_def ball_Un keys_field split: option.splits)

lemma previewJs_json: "metadata_json (pv_action p) \<Longrightarrow> is_json (previewJs p) \<and> js_wf (previewJs p)"
  using actionJs_json [of "pv_action p"] by (simp add: previewJs_def nodeJs_def appendJs_def)

lemma hasJson_preview [simp]: "metadata_json (pv_action p) \<Longrightarrow> hasJson (previewJs p)"
  using previewJs_json by (simp add: hasJson_json)

lemma hasJson_summary [simp]: "hasJson (summaryJs s)"
  by (rule hasJson_json) (simp_all add: summaryJs_def)

lemma hasJson_authorization [simp]: "hasJson (authorizationJs a)"
  unfolding authorizationJs_def by (rule hasJson_obj) simp_all

lemma hasJson_arr: "(\<And>x. x \<in> set xs \<Longrightarrow> is_json x \<and> js_wf x) \<Longrightarrow> hasJson (JArr xs)"
  by (rule hasJson_json) simp_all

lemma hasJson_executive:
  assumes "metadata_json (pv_action (ec_readDecision k))" "metadata_json (pv_action (ec_corporateToPersonalExport k))"
    "metadata_json (pv_action (ec_personalConnectorWrite k))"
  shows "hasJson (executiveSeed k)"
  unfolding executiveSeed_def
  by (rule hasJson_obj, simp,
      simp, intro conjI disjI2 hasJson_obj; use assms in \<open>simp add: hasJson_obj\<close>)

lemma actions_json [simp]:
  "metadata_json executiveRead" "metadata_json executiveExport" "metadata_json executiveWrite"
  "metadata_json sharePointScan" "metadata_json copyToWorkingFolder" "metadata_json annotateReviewPack"
  "metadata_json sendManagerSummary" "metadata_json deleteSharePointFolder" "metadata_json excessiveRead"
  by (simp_all add: metadata_json_def executiveRead_def executiveExport_def executiveWrite_def legalAction_def
      sharePointScan_def copyToWorkingFolder_def annotateReviewPack_def sendManagerSummary_def
      deleteSharePointFolder_def excessiveRead_def)

lemma action_decisions:
  "gv_decision (evaluateGuardrails executiveRead defaultProtectiveGuardrails) = Quota"
  "gv_decision (evaluateGuardrails executiveExport defaultProtectiveGuardrails) = Block"
  "gv_decision (evaluateGuardrails executiveWrite defaultProtectiveGuardrails) = Block"
  "gv_decision (evaluateGuardrails sharePointScan defaultProtectiveGuardrails) = Quota"
  "gv_decision (evaluateGuardrails copyToWorkingFolder defaultProtectiveGuardrails) = Allow"
  "gv_decision (evaluateGuardrails annotateReviewPack defaultProtectiveGuardrails) = Allow"
  "gv_decision (evaluateGuardrails sendManagerSummary defaultProtectiveGuardrails) = Approval_required"
  "gv_decision (evaluateGuardrails deleteSharePointFolder defaultProtectiveGuardrails) = Block"
  "gv_decision (evaluateGuardrails excessiveRead defaultProtectiveGuardrails) = Block"
  by code_simp+

lemma option_rules [simp]:
  "orElse (po_rules (atTime t)) r = r" "orElse (po_rules (afterHead x t)) r = r"
  "po_previousHead (afterHead x t) = Some x" "po_generatedAt (afterHead x t) = Some t"
  by (simp_all add: atTime_def afterHead_def)

text \<open>A preview of one of the workflow actions.\<close>

lemma workflow_preview:
  assumes "metadata_json a" "po_rules options = None"
  obtains p where "buildGuardrailDecisionPreview c a options = Inr p" "pv_action p = a"
    "pv_evaluation p = evaluateGuardrails a defaultProtectiveGuardrails"
    "ep_previousHead (pv_evidenceAppendPreview p) =
       orElse (po_previousHead options) ''sha256:previous-evidence-head-placeholder''"
    "pv_trustTasks p \<noteq> []" "pv_approvalDag p = approvalDagFromEvaluation (pv_evaluation p)"
proof -
  obtain p where p: "buildGuardrailDecisionPreview c a options = Inr p" using preview_defined [OF assms(1)] by blast
  note q = preview_Inr [OF assms(1) p]
  show ?thesis by (rule that [OF p q(1) _ q(9) q(10) q(7)]) (simp add: q(2) assms(2))
qed

lemma options_none [simp]: "po_rules (atTime t) = None" "po_rules (afterHead x t) = None"
  by (simp_all add: atTime_def afterHead_def)

lemma executive_dates:
  "isoParse ''2026-06-23T09:10:00.000Z'' = Some 1782205800000" "isoParse ''2026-06-23T09:13:00.000Z'' = Some 1782205980000"
  "isoParse ''2026-06-23T09:30:00.000Z'' = Some 1782207000000" "isoParse ''2026-06-23T09:20:00.000Z'' = Some 1782206400000"
  by code_simp+

lemma executive_grant:
  obtains g where "createReadOnlyPersonalConnectorGrant c h executiveGrantInput = Inr g"
    "ensureGrantUsable h g ''2026-06-23T09:13:00.000Z'' 1 = Inr ()"
proof -
  have d: "dateParse h (gi_issuedAt executiveGrantInput) = Some 1782205800000"
    using executive_dates(1) by (simp add: executiveGrantInput_def dateParse_def)
  have "8 \<le> u16length (trim (gi_purpose executiveGrantInput))" by code_simp
  then obtain g where g: "createReadOnlyPersonalConnectorGrant c h executiveGrantInput = Inr g"
    using grant_defined [OF _ _ _ _ d] by (auto simp: executiveGrantInput_def minuteMs_def maxTime_def)
  have "dateParse h (gr_expiresAt g) = Some (1782205800000 + 20 * minuteMs)"
    using addMinutes_Inr [OF created_grant(7) [OF g]] d by (auto simp: executiveGrantInput_def)
  then have "ensureGrantUsable h g ''2026-06-23T09:13:00.000Z'' 1 = Inr ()"
    using created_grant [OF g] executive_dates(2)
    by (simp add: ensureGrantUsable_iff dateParse_def timeGt_def minuteMs_def executiveGrantInput_def)
  with g show ?thesis by (rule that)
qed

lemma consent_answers:
  obtains d u where "buildConsentDecisionEnvelope c cr who ok at until reason = Inr d"
    "te_payload d = \<lparr> de_requestTaskHash = te_taskHash cr, de_grantHash = co_grantHash (te_payload cr),
       de_approved = ok, de_approverDid = who, de_approvedAt = at, de_expiresAt = until, de_reason = reason \<rparr>"
    "buildStepUpApprovalResponseEnvelope c cr sr who ok at' until' lvl m = Inr u"
    "te_payload u = \<lparr> su_stepUpRequestTaskHash = te_taskHash sr, su_consentRequestTaskHash = te_taskHash cr,
       su_requestedActionDigest = co_requestedActionDigest (te_payload sr), su_approved = ok, su_approverDid = who,
       su_approvedAt = at', su_expiresAt = until', su_assuranceLevel = lvl, su_method = m \<rparr>"
proof -
  obtain d where d: "buildConsentDecisionEnvelope c cr who ok at until reason = Inr d"
    using envelope_defined [where js_of = decisionPayloadJs, OF hasJson_payloads(2)]
    unfolding buildConsentDecisionEnvelope_def by metis
  obtain u where u: "buildStepUpApprovalResponseEnvelope c cr sr who ok at' until' lvl m = Inr u"
    using envelope_defined [where js_of = stepUpPayloadJs, OF hasJson_payloads(3)]
    unfolding buildStepUpApprovalResponseEnvelope_def by metis
  show ?thesis
    by (rule that [OF d envelope_Inr(1) [OF d [unfolded buildConsentDecisionEnvelope_def]]
          u envelope_Inr(1) [OF u [unfolded buildStepUpApprovalResponseEnvelope_def]]])
qed

lemma executive_contract:
  obtains k grant retrieval where "buildExecutiveBriefingWorkflowContract c h = Inr k"
    "createReadOnlyPersonalConnectorGrant c h executiveGrantInput = Inr grant"
    "az_allowed (ec_vtiAuthorization k)"
    "pv_evaluation (ec_readDecision k) = evaluateGuardrails executiveRead defaultProtectiveGuardrails"
    "pv_evaluation (ec_corporateToPersonalExport k) = evaluateGuardrails executiveExport defaultProtectiveGuardrails"
    "pv_evaluation (ec_personalConnectorWrite k) = evaluateGuardrails executiveWrite defaultProtectiveGuardrails"
    "ec_evidence k = summarizeRetrieval retrieval" "rt_grantHash retrieval = gr_grantHash grant"
    "rt_returnedItems retrieval = 1"
    "ep_previousHead (pv_evidenceAppendPreview (ec_corporateToPersonalExport k)) = rt_retrievalHash retrieval"
    "ep_previousHead (pv_evidenceAppendPreview (ec_personalConnectorWrite k)) =
       nextHeadOf (ec_corporateToPersonalExport k)"
proof -
  let ?did = "''did:example:onecomputer:agent:executive-briefing''"
  obtain r where r: "buildGuardrailDecisionPreview c executiveRead (atTime ''2026-06-23T09:15:00.000Z'') = Inr r"
    "pv_action r = executiveRead" "pv_evaluation r = evaluateGuardrails executiveRead defaultProtectiveGuardrails"
    by (rule workflow_preview [OF actions_json(1) options_none(1)])
  obtain g where g: "createReadOnlyPersonalConnectorGrant c h executiveGrantInput = Inr g"
    "ensureGrantUsable h g ''2026-06-23T09:13:00.000Z'' 1 = Inr ()"
    by (rule executive_grant)
  obtain b where b: "buildPersonalConnectorConsentBinding c g userTerence userTerence ?did (pv_actionDigest r)
      ''2026-06-23T09:11:00.000Z'' = Inr b" using binding_defined by blast
  obtain p where p: "te_payload (cb_consentRequest b) = p" "co_grantHash p = gr_grantHash g"
    using binding_Inr [OF b] envelope_Inr(1) by metis
  obtain d u where d: "buildConsentDecisionEnvelope c (cb_consentRequest b) userTerence True
        ''2026-06-23T09:12:00.000Z'' ''2026-06-23T09:30:00.000Z'' None = Inr d"
      "te_payload d = \<lparr> de_requestTaskHash = te_taskHash (cb_consentRequest b),
         de_grantHash = co_grantHash (te_payload (cb_consentRequest b)), de_approved = True, de_approverDid = userTerence,
         de_approvedAt = ''2026-06-23T09:12:00.000Z'', de_expiresAt = ''2026-06-23T09:30:00.000Z'', de_reason = None \<rparr>"
    and u: "buildStepUpApprovalResponseEnvelope c (cb_consentRequest b) (cb_stepUpRequest b) userTerence True
        ''2026-06-23T09:12:30.000Z'' ''2026-06-23T09:20:00.000Z'' Aal2 Vta_mobile = Inr u"
      "te_payload u = \<lparr> su_stepUpRequestTaskHash = te_taskHash (cb_stepUpRequest b),
         su_consentRequestTaskHash = te_taskHash (cb_consentRequest b),
         su_requestedActionDigest = co_requestedActionDigest (te_payload (cb_stepUpRequest b)),
         su_approved = True, su_approverDid = userTerence, su_approvedAt = ''2026-06-23T09:12:30.000Z'',
         su_expiresAt = ''2026-06-23T09:20:00.000Z'', su_assuranceLevel = Aal2, su_method = Vta_mobile \<rparr>"
    by (rule consent_answers)
  let ?z = "authorizePersonalConnectorRetrievalWithVtiConsent h g (cb_consentRequest b) (Some d)
    (cb_stepUpRequest b) (Some u) ''2026-06-23T09:13:00.000Z''"
  have z: "az_allowed ?z"
    using executive_dates
    by (simp add: authorize_allowed verifyConsentDecision_allowed verifyStepUpResponse_allowed d(2) u(2) p
        dateParse_def timeGt_def)
  let ?ri = "\<lparr> ri_grant = g, ri_query = ''MFA board preparation'', ri_now = ''2026-06-23T09:13:00.000Z'',
    ri_sourceItems = [briefingItem], ri_requestedItems = Some 1 \<rparr>"
  obtain t where t: "retrievePersonalConnectorSnippets c h ?ri = Inr t"
    using retrieval_defined [of h ?ri c] g(2) by (auto simp: requestedOf_def)
  have tt: "rt_grantHash t = gr_grantHash g" "rt_returnedItems t = 1"
    using retrieval_Inr [OF t] by (simp_all add: requestedOf_def slice0_def)
  obtain x where x: "buildGuardrailDecisionPreview c executiveExport
        (afterHead (rt_retrievalHash t) ''2026-06-23T09:16:00.000Z'') = Inr x" "pv_action x = executiveExport"
      "pv_evaluation x = evaluateGuardrails executiveExport defaultProtectiveGuardrails"
      "ep_previousHead (pv_evidenceAppendPreview x) = rt_retrievalHash t"
    using workflow_preview [OF actions_json(2) options_none(2)] by (metis orElse_simps(2) option_rules(3))
  obtain w where w: "buildGuardrailDecisionPreview c executiveWrite
        (afterHead (nextHeadOf x) ''2026-06-23T09:17:00.000Z'') = Inr w" "pv_action w = executiveWrite"
      "pv_evaluation w = evaluateGuardrails executiveWrite defaultProtectiveGuardrails"
      "ep_previousHead (pv_evidenceAppendPreview w) = nextHeadOf x"
    using workflow_preview [OF actions_json(3) options_none(2)] by (metis orElse_simps(2) option_rules(3))
  let ?k = "\<lparr> ec_workflowId = ''executive-briefing-personal-context-golden'', ec_workflowHash = '''',
    ec_agentId = ''agent-executive-briefing'', ec_agentDid = ?did, ec_readDecision = r, ec_vtiAuthorization = ?z,
    ec_evidence = summarizeRetrieval t, ec_corporateToPersonalExport = x, ec_personalConnectorWrite = w \<rparr>"
  have "hasJson (executiveSeed ?k)" by (rule hasJson_executive) (simp_all add: r(2) x(2) w(2))
  then obtain wh where wh: "digestJson c (executiveSeed ?k) = Inr wh" using digestJson_defined by blast
  have build: "buildExecutiveBriefingWorkflowContract c h = Inr (?k\<lparr>ec_workflowHash := wh\<rparr>)"
    unfolding buildExecutiveBriefingWorkflowContract_def Let_def
    by (simp only: r(1) g(1) b d(1) u(1) t x(1) w(1) [unfolded nextHeadOf_def] bindR_simps wh)
  show ?thesis
    by (rule that [OF build g(1) _ _ _ _ _ tt])
       (simp_all only: executive_contract.simps z r(3) x(3,4) w(3,4))
qed

lemma legal_agent:
  obtains b where "sampleM365AgentDirectoryPayload c = Inr b" "pp_status (pb_passport b) = Status_active"
proof -
  have "assertPassportInvariant legalAgentInput = Inr ()"
    by (simp add: assertPassportInvariant_def startsWith_def legalAgentInput_def)
  then obtain b where b: "sampleM365AgentDirectoryPayload c = Inr b"
    unfolding sampleM365AgentDirectoryPayload_def using bundle_defined by blast
  then have "pp_status (pb_passport b) = pp_status legalAgentInput"
    by (auto simp: sampleM365AgentDirectoryPayload_def buildM365AgentProjectionBundle_def
        buildM365AgentPassport_def bindR_Inr_iff passport_input.defs passport.defs)
  with b show ?thesis by (intro that) (simp_all add: legalAgentInput_def)
qed

lemma hasJson_legal:
  assumes "\<And>s p. s \<in> set (lc_steps k) \<Longrightarrow> ws_guardrail s = Some p \<Longrightarrow> metadata_json (pv_action p)"
    and "metadata_json (pv_action (lc_deleteSharePointFolder k))" "metadata_json (pv_action (lc_excessiveRead k))"
  shows "hasJson (legalSeed k)"
proof -
  have t: "hasJson (JObj ([(''taskId'', JStr (mt_taskId t)), (''taskHash'', JStr (mt_taskHash t))] @ taskSeed t))" for t
    by (rule hasJson_obj) (simp_all add: taskSeed_def)
  have m: "hasJson (JObj (manifestSeed m @ [(''manifestHash'', JStr h)]))" for m h
    by (rule hasJson_obj) (simp_all add: manifestSeed_def)
  have tr: "hasJson (JObj [(''trustTask'', JObj ([(''taskId'', JStr (mt_taskId t)), (''taskHash'', JStr (mt_taskHash t))] @ taskSeed t)),
      (''evidenceManifest'', JObj (manifestSeed m @ [(''manifestHash'', JStr (mm_manifestHash m))]))])" for t m
    by (rule hasJson_obj) (use t m in simp_all)
  have "is_json (stepJs s) \<and> js_wf (stepJs s)" if "s \<in> set (lc_steps k)" for s
    using assms(1) [OF that] previewJs_json actionJs_json
    by (cases "ws_guardrail s") (auto simp: stepJs_def ball_Un keys_field)
  then have st: "hasJson (JArr (map stepJs (lc_steps k)))" by (intro hasJson_arr) auto
  have un: "hasJson (JObj [(''deleteSharePointFolder'', previewJs (lc_deleteSharePointFolder k)),
       (''excessiveRead'', previewJs (lc_excessiveRead k))])"
    by (rule hasJson_obj) (use assms(2,3) in simp_all)
  have out: "hasJson (JObj [(''status'', JStr a), (''managerEmailRequiresOwnerAndCompliance'', JBool b),
      (''destructiveSharePointActionsBlocked'', JBool d), (''autonomousReadQuotaPerHour'', JInt n),
      (''noGraphOrSharePointWriteWithoutPolicy'', JBool e)])" for a b d n e
    by (rule hasJson_obj) simp_all
  show ?thesis unfolding legalSeed_def
    by (rule hasJson_obj, simp, simp only: list.simps ball_simps snd_conv)
       (intro conjI disjI2 tr st un out TrueI; rule hasJson_simps)
qed

definition stepStates :: "legal_contract \<Rightarrow> (string \<times> string \<times> string list) list" where
  "stepStates k = map (\<lambda>s. (ws_stepId s, ws_executionState s, ws_requiredBeforeExecution s)) (lc_steps k)"

text \<open>A step in terms of its evaluation.\<close>

lemma step_state:
  assumes "pv_evaluation p = e" "pv_trustTasks p \<noteq> []" "pv_approvalDag p = approvalDagFromEvaluation e"
  shows "ws_guardrail (stepFromGuardrail i t p) = Some p" "ws_stepId (stepFromGuardrail i t p) = i"
    "ws_executionState (stepFromGuardrail i t p) =
      (if gv_decision e = Block then ''blocked''
       else if gv_decision e = Approval_required \<or> gv_decision e = Step_up then ''pending_approval''
       else ''allowed_preview'')"
    "ws_requiredBeforeExecution (stepFromGuardrail i t p) = uniqueFirst
      ([''guardrail''] @ (if gv_evidenceRequired e then [''evidence''] else []) @ [''vti''] @
       (if gv_decision e = Step_up \<or> list_ex an_stepUpRequired (approvalDagFromEvaluation e) then [''step_up''] else []) @
       (if approvalDagFromEvaluation e \<noteq> [] then [''approval''] else []))"
  using assms by (simp_all add: stepFromGuardrail_def Let_def)

lemma step_facts:
  "gv_evidenceRequired (evaluateGuardrails sharePointScan defaultProtectiveGuardrails)"
  "approvalDagFromEvaluation (evaluateGuardrails sharePointScan defaultProtectiveGuardrails) = []"
  "\<not> gv_evidenceRequired (evaluateGuardrails copyToWorkingFolder defaultProtectiveGuardrails)"
  "approvalDagFromEvaluation (evaluateGuardrails copyToWorkingFolder defaultProtectiveGuardrails) = []"
  "\<not> gv_evidenceRequired (evaluateGuardrails annotateReviewPack defaultProtectiveGuardrails)"
  "approvalDagFromEvaluation (evaluateGuardrails annotateReviewPack defaultProtectiveGuardrails) = []"
  "gv_evidenceRequired (evaluateGuardrails sendManagerSummary defaultProtectiveGuardrails)"
  "map (\<lambda>n. (an_role n, an_stepUpRequired n))
     (approvalDagFromEvaluation (evaluateGuardrails sendManagerSummary defaultProtectiveGuardrails)) =
   [(Owner, True), (Compliance, True)]"
  "gv_matchedRules (evaluateGuardrails copyToWorkingFolder defaultProtectiveGuardrails) = []"
  "gv_matchedRules (evaluateGuardrails annotateReviewPack defaultProtectiveGuardrails) = []"
  "ga_actionType copyToWorkingFolder = File_write"
  by code_simp+

lemma send_step_up:
  "list_ex an_stepUpRequired (approvalDagFromEvaluation (evaluateGuardrails sendManagerSummary defaultProtectiveGuardrails))"
  "approvalDagFromEvaluation (evaluateGuardrails sendManagerSummary defaultProtectiveGuardrails) \<noteq> []"
  by code_simp+

lemma workflow_labels:
  "uniqueFirst [''guardrail'', ''evidence'', ''vti''] = [''guardrail'', ''evidence'', ''vti'']"
  "uniqueFirst [''guardrail'', ''vti''] = [''guardrail'', ''vti'']"
  "uniqueFirst [''guardrail'', ''evidence'', ''vti'', ''step_up'', ''approval''] =
    [''guardrail'', ''evidence'', ''vti'', ''step_up'', ''approval'']"
  by code_simp+

text \<open>Each preview of the contract is one of the workflow actions, and the steps follow from them.\<close>

lemma workflow_preview_after:
  assumes "metadata_json a"
  obtains p where "buildGuardrailDecisionPreview c a (afterHead x t) = Inr p" "pv_action p = a"
    "pv_evaluation p = evaluateGuardrails a defaultProtectiveGuardrails"
    "ep_previousHead (pv_evidenceAppendPreview p) = x" "pv_trustTasks p \<noteq> []"
    "pv_approvalDag p = approvalDagFromEvaluation (evaluateGuardrails a defaultProtectiveGuardrails)"
  by (rule workflow_preview [OF assms options_none(2)]) (auto intro: that)

lemma legal_contract:
  obtains k scan copy annotate send where "buildLegalMfaReviewerWorkflowContract c = Inr k"
    "lc_steps k = [mailroomTrigger,
       stepFromGuardrail ''sharepoint_scan'' ''Read up to 10 SharePoint MFA files this hour'' scan,
       stepFromGuardrail ''copy_to_working_folder'' ''Copy only to approved agent working folder'' copy,
       stepFromGuardrail ''annotate_review_pack'' ''Annotate review pack in working folder'' annotate,
       stepFromGuardrail ''send_manager_summary''
         ''Send summary/link to manager after owner + compliance approval'' send]"
    "pv_evaluation scan = evaluateGuardrails sharePointScan defaultProtectiveGuardrails" "pv_trustTasks scan \<noteq> []"
    "pv_approvalDag scan = approvalDagFromEvaluation (evaluateGuardrails sharePointScan defaultProtectiveGuardrails)"
    "pv_evaluation copy = evaluateGuardrails copyToWorkingFolder defaultProtectiveGuardrails" "pv_trustTasks copy \<noteq> []"
    "pv_approvalDag copy = approvalDagFromEvaluation (evaluateGuardrails copyToWorkingFolder defaultProtectiveGuardrails)"
    "pv_evaluation annotate = evaluateGuardrails annotateReviewPack defaultProtectiveGuardrails" "pv_trustTasks annotate \<noteq> []"
    "pv_approvalDag annotate = approvalDagFromEvaluation (evaluateGuardrails annotateReviewPack defaultProtectiveGuardrails)"
    "pv_evaluation send = evaluateGuardrails sendManagerSummary defaultProtectiveGuardrails" "pv_trustTasks send \<noteq> []"
    "pv_approvalDag send = approvalDagFromEvaluation (evaluateGuardrails sendManagerSummary defaultProtectiveGuardrails)"
    "pv_evaluation (lc_deleteSharePointFolder k) = evaluateGuardrails deleteSharePointFolder defaultProtectiveGuardrails"
    "pv_evaluation (lc_excessiveRead k) = evaluateGuardrails excessiveRead defaultProtectiveGuardrails"
    "lc_noGraphOrSharePointWriteWithoutPolicy k" "pv_action copy = copyToWorkingFolder"
    "ep_previousHead (pv_evidenceAppendPreview scan) = mm_manifestHash (lc_evidenceManifest k)"
    "ep_previousHead (pv_evidenceAppendPreview copy) = nextHeadOf scan"
    "ep_previousHead (pv_evidenceAppendPreview annotate) = nextHeadOf copy"
    "ep_previousHead (pv_evidenceAppendPreview send) = nextHeadOf annotate"
proof -
  obtain ag where ag: "sampleM365AgentDirectoryPayload c = Inr ag" by (rule legal_agent)
  obtain t where t: "normalizeInboundEmailToTrustTaskPreview c (pb_passport ag) legalMail = Inr t" by (rule task_defined)
  obtain m where m: "buildMailroomEvidenceManifest c (pb_passport ag) t = Inr m" by (rule manifest_defined)
  let ?d = "\<lambda>a. evaluateGuardrails a defaultProtectiveGuardrails" and ?h = "mm_manifestHash m"
  obtain s1 where s1: "buildGuardrailDecisionPreview c sharePointScan (afterHead ?h ''2026-06-23T09:01:00.000Z'') = Inr s1"
    "pv_action s1 = sharePointScan" "pv_evaluation s1 = ?d sharePointScan"
    "ep_previousHead (pv_evidenceAppendPreview s1) = ?h" "pv_trustTasks s1 \<noteq> []"
    "pv_approvalDag s1 = approvalDagFromEvaluation (?d sharePointScan)"
    by (rule workflow_preview_after [OF actions_json(4)])
  obtain s2 where s2: "buildGuardrailDecisionPreview c copyToWorkingFolder
      (afterHead (nextHeadOf s1) ''2026-06-23T09:02:00.000Z'') = Inr s2"
    "pv_action s2 = copyToWorkingFolder" "pv_evaluation s2 = ?d copyToWorkingFolder"
    "ep_previousHead (pv_evidenceAppendPreview s2) = nextHeadOf s1" "pv_trustTasks s2 \<noteq> []"
    "pv_approvalDag s2 = approvalDagFromEvaluation (?d copyToWorkingFolder)"
    by (rule workflow_preview_after [OF actions_json(5)])
  obtain s3 where s3: "buildGuardrailDecisionPreview c annotateReviewPack
      (afterHead (nextHeadOf s2) ''2026-06-23T09:03:00.000Z'') = Inr s3"
    "pv_action s3 = annotateReviewPack" "pv_evaluation s3 = ?d annotateReviewPack"
    "ep_previousHead (pv_evidenceAppendPreview s3) = nextHeadOf s2" "pv_trustTasks s3 \<noteq> []"
    "pv_approvalDag s3 = approvalDagFromEvaluation (?d annotateReviewPack)"
    by (rule workflow_preview_after [OF actions_json(6)])
  obtain s4 where s4: "buildGuardrailDecisionPreview c sendManagerSummary
      (afterHead (nextHeadOf s3) ''2026-06-23T09:04:00.000Z'') = Inr s4"
    "pv_action s4 = sendManagerSummary" "pv_evaluation s4 = ?d sendManagerSummary"
    "ep_previousHead (pv_evidenceAppendPreview s4) = nextHeadOf s3" "pv_trustTasks s4 \<noteq> []"
    "pv_approvalDag s4 = approvalDagFromEvaluation (?d sendManagerSummary)"
    by (rule workflow_preview_after [OF actions_json(7)])
  obtain d where d: "buildGuardrailDecisionPreview c deleteSharePointFolder
      (afterHead ?h ''2026-06-23T09:05:00.000Z'') = Inr d"
    "pv_action d = deleteSharePointFolder" "pv_evaluation d = ?d deleteSharePointFolder"
    by (rule workflow_preview_after [OF actions_json(8)])
  obtain x where x: "buildGuardrailDecisionPreview c excessiveRead
      (afterHead ?h ''2026-06-23T09:06:00.000Z'') = Inr x"
    "pv_action x = excessiveRead" "pv_evaluation x = ?d excessiveRead"
    by (rule workflow_preview_after [OF actions_json(9)])
  let ?steps = "[mailroomTrigger,
       stepFromGuardrail ''sharepoint_scan'' ''Read up to 10 SharePoint MFA files this hour'' s1,
       stepFromGuardrail ''copy_to_working_folder'' ''Copy only to approved agent working folder'' s2,
       stepFromGuardrail ''annotate_review_pack'' ''Annotate review pack in working folder'' s3,
       stepFromGuardrail ''send_manager_summary''
         ''Send summary/link to manager after owner + compliance approval'' s4]"
  let ?k = "\<lparr> lc_workflowId = ''legal-mfa-reviewer-golden'', lc_workflowHash = '''',
           lc_agentId = pp_agentId (pb_passport ag), lc_agentDid = pp_did (pb_passport ag),
           lc_trustTask = t, lc_evidenceManifest = m, lc_steps = ?steps,
           lc_deleteSharePointFolder = d, lc_excessiveRead = x, lc_status = ''requires_approvals_before_execution'',
           lc_managerEmailRequiresOwnerAndCompliance = True, lc_destructiveSharePointActionsBlocked = True,
           lc_autonomousReadQuotaPerHour = 10, lc_noGraphOrSharePointWriteWithoutPolicy = True \<rparr>"
  have g: "ws_guardrail (stepFromGuardrail i ti p) = Some p" for i ti p
    by (simp add: stepFromGuardrail_def Let_def)
  have "hasJson (legalSeed ?k)"
  proof (rule hasJson_legal)
    fix s p assume "s \<in> set (lc_steps ?k)" "ws_guardrail s = Some p"
    then show "metadata_json (pv_action p)"
      using s1(2) s2(2) s3(2) s4(2) g by (auto simp: mailroomTrigger_def)
  qed (simp_all add: d(2) x(2))
  then obtain wh where wh: "digestJson c (legalSeed ?k) = Inr wh" using digestJson_defined by blast
  have build: "buildLegalMfaReviewerWorkflowContract c = Inr (?k\<lparr>lc_workflowHash := wh\<rparr>)"
    unfolding buildLegalMfaReviewerWorkflowContract_def Let_def
    by (simp only: ag t m s1(1) s2(1) s3(1) s4(1) d(1) x(1) bindR_simps wh)
  show ?thesis
    by (rule that [OF build _ s1(3,5,6) s2(3,5,6) s3(3,5,6) s4(3,5,6) _ _ _ s2(2) _ s2(4) s3(4) s4(4)])
       (simp_all only: legal_contract.simps d(3) x(3) s1(4))
qed

lemma hasJson_index: "hasJson (indexSeed i)"
proof -
  have "is_json (workflowEvidenceJs w) \<and> js_wf (workflowEvidenceJs w)" for w
    by (simp add: workflowEvidenceJs_def)
  then have w: "hasJson (JArr (map workflowEvidenceJs ws))" for ws by (intro hasJson_arr) auto
  have ctl: "hasJson (JObj [(''nativeM365Trigger'', JBool True), (''sharePointReadQuota'', JBool True),
          (''managerEmailApprovalChain'', JBool True), (''personalConnectorReadOnly'', JBool True),
          (''vtiConsentAndStepUp'', JBool True), (''corporateToPersonalExfilBlocked'', JBool True),
          (''destructiveSharePointActionBlocked'', JBool True)])"
    by (rule hasJson_obj) simp_all
  show ?thesis unfolding indexSeed_def
    by (rule hasJson_obj, simp, simp only: list.simps ball_simps snd_conv)
       (intro conjI disjI2 w ctl TrueI; rule hasJson_simps)
qed

lemma sample_payload:
  obtains p g where "samplePersonalConnectorRegistryPayload c h = Inr p"
    "cp_grants (sp_privacyConsole p) = [g]" "cg_retrievalCount g = 1"
proof -
  obtain g where g: "createReadOnlyPersonalConnectorGrant c h sampleGrantInput = Inr g" using sample_grant by blast
  let ?ri = "\<lparr> ri_grant = g, ri_query = ''MFA documents'', ri_now = ''2026-06-23T07:10:00.000Z'',
    ri_sourceItems = [sampleItem], ri_requestedItems = Some 1 \<rparr>"
  obtain r where r: "retrievePersonalConnectorSnippets c h ?ri = Inr r"
    using retrieval_defined [of h ?ri c] sample_usable [OF g, of 1] by (auto simp: requestedOf_def)
  have u: "gr_userId g = ''user-terence''" using created_grant(12) [OF g] by (simp add: sampleGrantInput_def)
  let ?g = "consoleGrant \<lparr> en_grant = g, en_retrievals = [r], en_lastAccessedAt = Some ''2026-06-23T07:10:00.000Z'' \<rparr>"
  have "\<exists>p. samplePersonalConnectorRegistryPayload c h = Inr p \<and> cp_grants (sp_privacyConsole p) = [?g]"
    by (simp add: samplePersonalConnectorRegistryPayload_def g r upsertGrant_def putGrant_def appendRetrieval_def
          listEntriesForUser_def u buildPersonalConnectorPrivacyConsolePayload_def Let_def)
  then obtain p where "samplePersonalConnectorRegistryPayload c h = Inr p" "cp_grants (sp_privacyConsole p) = [?g]"
    by blast
  moreover have "cg_retrievalCount ?g = 1" by (simp add: consoleGrant_def)
  ultimately show ?thesis by (rule that)
qed

section \<open>Properties\<close>

text \<open>The executive briefing holds together, whatever the digest function: the contract is always
  built, its personal retrieval is authorised by consent and step-up and returns the one item asked
  for, the corporate read stays within its quota, both unsafe fixtures are blocked, and the fixtures
  continue the evidence chain from the retrieval.\<close>

lemma executive_briefing_holds:
  "\<exists>k. buildExecutiveBriefingWorkflowContract c h = Inr k \<and> az_allowed (ec_vtiAuthorization k) \<and>
    es_returnedItems (ec_evidence k) = 1 \<and>
    gv_decision (pv_evaluation (ec_readDecision k)) = Quota \<and> \<not> gv_quotaExceeded (pv_evaluation (ec_readDecision k)) \<and>
    gv_decision (pv_evaluation (ec_corporateToPersonalExport k)) = Block \<and>
    gv_decision (pv_evaluation (ec_personalConnectorWrite k)) = Block \<and>
    ep_previousHead (pv_evidenceAppendPreview (ec_corporateToPersonalExport k)) = es_retrievalHash (ec_evidence k) \<and>
    ep_previousHead (pv_evidenceAppendPreview (ec_personalConnectorWrite k)) =
      ep_nextHead (pv_evidenceAppendPreview (ec_corporateToPersonalExport k))"
proof -
  obtain k r where k: "buildExecutiveBriefingWorkflowContract c h = Inr k" "az_allowed (ec_vtiAuthorization k)"
    "pv_evaluation (ec_readDecision k) = evaluateGuardrails executiveRead defaultProtectiveGuardrails"
    "pv_evaluation (ec_corporateToPersonalExport k) = evaluateGuardrails executiveExport defaultProtectiveGuardrails"
    "pv_evaluation (ec_personalConnectorWrite k) = evaluateGuardrails executiveWrite defaultProtectiveGuardrails"
    "ec_evidence k = summarizeRetrieval r" "rt_returnedItems r = 1"
    "ep_previousHead (pv_evidenceAppendPreview (ec_corporateToPersonalExport k)) = rt_retrievalHash r"
    "ep_previousHead (pv_evidenceAppendPreview (ec_personalConnectorWrite k)) = nextHeadOf (ec_corporateToPersonalExport k)"
    by (rule executive_contract)
  have "\<not> gv_quotaExceeded (evaluateGuardrails executiveRead defaultProtectiveGuardrails)" by code_simp
  with k action_decisions show ?thesis
    by (intro exI [of _ k] conjI) (simp_all add: summarizeRetrieval_def nextHeadOf_def)
qed

text \<open>What the legal workflow may do: reading five files needs evidence, mailing the manager waits for
  owner, compliance and a step-up, deleting a folder and reading eleven files are blocked. The two
  SharePoint writes match no rule: they are previewed as allowed with no evidence required, in the
  contract that states that no SharePoint write happens without policy.\<close>

lemma legal_workflow_states:
  "\<exists>k. buildLegalMfaReviewerWorkflowContract c = Inr k \<and>
    stepStates k =
      [(''mailroom_trigger'', ''pending_policy'', [''evidence'', ''vti'', ''guardrail'']),
       (''sharepoint_scan'', ''allowed_preview'', [''guardrail'', ''evidence'', ''vti'']),
       (''copy_to_working_folder'', ''allowed_preview'', [''guardrail'', ''vti'']),
       (''annotate_review_pack'', ''allowed_preview'', [''guardrail'', ''vti'']),
       (''send_manager_summary'', ''pending_approval'', [''guardrail'', ''evidence'', ''vti'', ''step_up'', ''approval''])] \<and>
    gv_decision (pv_evaluation (lc_deleteSharePointFolder k)) = Block \<and>
    gv_decision (pv_evaluation (lc_excessiveRead k)) = Block \<and>
    lc_noGraphOrSharePointWriteWithoutPolicy k \<and>
    (\<exists>p. ws_guardrail (lc_steps k ! 2) = Some p \<and> ga_actionType (pv_action p) = File_write \<and>
      gv_matchedRules (pv_evaluation p) = [] \<and> gv_decision (pv_evaluation p) = Allow)"
proof -
  obtain k scan copy annotate send where k: "buildLegalMfaReviewerWorkflowContract c = Inr k"
    and st: "lc_steps k = [mailroomTrigger,
       stepFromGuardrail ''sharepoint_scan'' ''Read up to 10 SharePoint MFA files this hour'' scan,
       stepFromGuardrail ''copy_to_working_folder'' ''Copy only to approved agent working folder'' copy,
       stepFromGuardrail ''annotate_review_pack'' ''Annotate review pack in working folder'' annotate,
       stepFromGuardrail ''send_manager_summary''
         ''Send summary/link to manager after owner + compliance approval'' send]"
    and ev: "pv_evaluation scan = evaluateGuardrails sharePointScan defaultProtectiveGuardrails" "pv_trustTasks scan \<noteq> []"
    "pv_approvalDag scan = approvalDagFromEvaluation (evaluateGuardrails sharePointScan defaultProtectiveGuardrails)"
    "pv_evaluation copy = evaluateGuardrails copyToWorkingFolder defaultProtectiveGuardrails" "pv_trustTasks copy \<noteq> []"
    "pv_approvalDag copy = approvalDagFromEvaluation (evaluateGuardrails copyToWorkingFolder defaultProtectiveGuardrails)"
    "pv_evaluation annotate = evaluateGuardrails annotateReviewPack defaultProtectiveGuardrails" "pv_trustTasks annotate \<noteq> []"
    "pv_approvalDag annotate = approvalDagFromEvaluation (evaluateGuardrails annotateReviewPack defaultProtectiveGuardrails)"
    "pv_evaluation send = evaluateGuardrails sendManagerSummary defaultProtectiveGuardrails" "pv_trustTasks send \<noteq> []"
    "pv_approvalDag send = approvalDagFromEvaluation (evaluateGuardrails sendManagerSummary defaultProtectiveGuardrails)"
    and un: "pv_evaluation (lc_deleteSharePointFolder k) = evaluateGuardrails deleteSharePointFolder defaultProtectiveGuardrails"
    "pv_evaluation (lc_excessiveRead k) = evaluateGuardrails excessiveRead defaultProtectiveGuardrails"
    "lc_noGraphOrSharePointWriteWithoutPolicy k" "pv_action copy = copyToWorkingFolder"
    by (rule legal_contract)
  have steps: "stepStates k = map (\<lambda>s. (ws_stepId s, ws_executionState s, ws_requiredBeforeExecution s))
      [mailroomTrigger, stepFromGuardrail ''sharepoint_scan'' ''Read up to 10 SharePoint MFA files this hour'' scan,
       stepFromGuardrail ''copy_to_working_folder'' ''Copy only to approved agent working folder'' copy,
       stepFromGuardrail ''annotate_review_pack'' ''Annotate review pack in working folder'' annotate,
       stepFromGuardrail ''send_manager_summary''
         ''Send summary/link to manager after owner + compliance approval'' send]"
    by (simp only: stepStates_def st)
  show ?thesis
    by (intro exI [of _ k] conjI exI [of _ copy])
       (simp_all add: k steps st ev un step_state workflow_labels send_step_up action_decisions step_facts mailroomTrigger_def)
qed

text \<open>The console is always built and points at the workflows' own evidence: its two agents are those of
  the two contracts, with the manifest hash, every decision hash and every chain head of the legal
  workflow and the grant and retrieval hashes of the briefing, and the connector evidence the
  administrator sees is, grant by grant, that of the grants the user sees, hashes only.\<close>

lemma ciso_console_evidence:
  "\<exists>k e t. buildLegalMfaReviewerWorkflowContract c = Inr k \<and> buildExecutiveBriefingWorkflowContract c h = Inr e \<and>
    buildCisoUserPrivacyConsolePayload c h generatedAt = Inr t \<and>
    map ca_agentDid (cc_agents t) = [lc_agentDid k, ec_agentDid e] \<and>
    map ca_evidenceHashes (cc_agents t) =
      [we_evidenceHashes (legalEvidence k), we_evidenceHashes (executiveEvidence e)] \<and>
    es_retrievalHash (ec_evidence e) \<in> set (ca_evidenceHashes (cc_agents t ! 1)) \<and>
    map ce_grantHash (cc_personalConnectorEvidence t) = map ug_grantHash (cc_grants t) \<and>
    map ce_retrievalHashes (cc_personalConnectorEvidence t) =
      map (\<lambda>g. map du_retrievalHash (ug_dataUsed g)) (cc_grants t) \<and> cc_grants t \<noteq> []"
proof -
  obtain k where k: "buildLegalMfaReviewerWorkflowContract c = Inr k" by (rule legal_contract)
  obtain e where e: "buildExecutiveBriefingWorkflowContract c h = Inr e" by (rule executive_contract)
  obtain p g where p: "samplePersonalConnectorRegistryPayload c h = Inr p" "cp_grants (sp_privacyConsole p) = [g]"
    by (rule sample_payload)
  let ?i = "\<lparr> ei_generatedAt = orElse generatedAt ''2026-06-23T09:45:00.000Z'', ei_evidenceIndexHash = '''',
    ei_workflows = [legalEvidence k, executiveEvidence e] \<rparr>"
  obtain z where z: "digestJson c (indexSeed ?i) = Inr z" using digestJson_defined [OF hasJson_index] by blast
  have "buildGoldenWorkflowEvidenceIndex c (Some (orElse generatedAt ''2026-06-23T09:45:00.000Z'')) k e =
      Inr (?i\<lparr>ei_evidenceIndexHash := z\<rparr>)"
    using z by (simp add: buildGoldenWorkflowEvidenceIndex_def Let_def)
  then show ?thesis
    by (intro exI [of _ k] exI [of _ e])
       (auto simp: buildCisoUserPrivacyConsolePayload_def Let_def k e p evidenceAt_def cisoConnectorEvidence_def
          userGrantView_def executiveEvidence_def)
qed

end
