(* ===== verification/Resource_Scope.thy ===== *)
theory Resource_Scope
  imports Approval_Store
begin

text \<open>
  Resource scopes, \<^verbatim>\<open>packages/api/src/services/resource-scope.ts\<close>: a scoped table has a project, an
  organisation or a partner column, and the scope of a request says which rows it sees (\<open>scopeWhere\<close>,
  \<open>scopeOwnership\<close>) and what a row it creates holds (\<open>scopeCreate\<close>). The optional fields follow
  JavaScript truthiness: an empty id counts as absent.
\<close>

record resource_scope =
  sc_projectId :: "string option"
  sc_organizationId :: "string option"
  sc_partnerId :: "string option"

text \<open>The columns every scoped table has; a table's row extends them.\<close>

record scoped =
  so_scope :: string
  so_projectId :: "string option"
  so_organizationId :: "string option"
  so_partnerId :: "string option"

text \<open>The filters, and the rows a filter selects.\<close>

datatype where_clause =
    Partner_rows string
  | Project_or_organization_rows string string
  | Organization_rows string
  | Project_rows string

fun selects :: "where_clause \<Rightarrow> 'a scoped_scheme \<Rightarrow> bool" where
  "selects (Partner_rows p) r \<longleftrightarrow> so_partnerId r = Some p \<and> so_scope r = ''partner''"
| "selects (Project_or_organization_rows p o') r \<longleftrightarrow>
     so_projectId r = Some p \<or> so_organizationId r = Some o' \<and> so_scope r = ''organization''"
| "selects (Organization_rows o') r \<longleftrightarrow> so_organizationId r = Some o' \<and> so_scope r = ''organization''"
| "selects (Project_rows p) r \<longleftrightarrow> so_projectId r = Some p"

definition noScope :: error where
  "noScope = JsError ''ResourceScope must have projectId or organizationId''"

definition scopeWhere :: "resource_scope \<Rightarrow> where_clause result" where
  "scopeWhere scope =
     (if set_nonempty (sc_partnerId scope) then Inr (Partner_rows (the (sc_partnerId scope)))
      else if set_nonempty (sc_projectId scope) \<and> set_nonempty (sc_organizationId scope)
      then Inr (Project_or_organization_rows (the (sc_projectId scope)) (the (sc_organizationId scope)))
      else if set_nonempty (sc_organizationId scope) then Inr (Organization_rows (the (sc_organizationId scope)))
      else if set_nonempty (sc_projectId scope) then Inr (Project_rows (the (sc_projectId scope)))
      else Inl noScope)"

text \<open>The columns of a new row; those not named are null.\<close>

definition scopeCreate :: "resource_scope \<Rightarrow> scoped result" where
  "scopeCreate scope =
     (if set_nonempty (sc_partnerId scope)
      then Inr \<lparr> so_scope = ''partner'', so_projectId = None, so_organizationId = None, so_partnerId = sc_partnerId scope \<rparr>
      else if set_nonempty (sc_projectId scope) \<and> set_nonempty (sc_organizationId scope)
      then Inl (JsError ''Cannot create a resource with both projectId and organizationId'')
      else if set_nonempty (sc_organizationId scope)
      then Inr \<lparr> so_scope = ''organization'', so_projectId = None, so_organizationId = sc_organizationId scope, so_partnerId = None \<rparr>
      else if set_nonempty (sc_projectId scope)
      then Inr \<lparr> so_scope = ''project'', so_projectId = sc_projectId scope, so_organizationId = None, so_partnerId = None \<rparr>
      else Inl noScope)"

definition scopeOwnership :: "resource_scope \<Rightarrow> string \<Rightarrow> (string \<times> where_clause) result" where
  "scopeOwnership scope k =
     (if set_nonempty (sc_partnerId scope) then Inr (k, Partner_rows (the (sc_partnerId scope)))
      else if set_nonempty (sc_organizationId scope)
      then (if set_nonempty (sc_projectId scope)
            then Inr (k, Project_or_organization_rows (the (sc_projectId scope)) (the (sc_organizationId scope)))
            else Inr (k, Organization_rows (the (sc_organizationId scope))))
      else if set_nonempty (sc_projectId scope) then Inr (k, Project_rows (the (sc_projectId scope)))
      else Inl noScope)"

datatype config_key = Organization_provider string string | Project_provider string string

definition appConfigKey :: "resource_scope \<Rightarrow> string \<Rightarrow> config_key result" where
  "appConfigKey scope provider =
     (if set_nonempty (sc_organizationId scope) then Inr (Organization_provider (the (sc_organizationId scope)) provider)
      else if set_nonempty (sc_projectId scope) then Inr (Project_provider (the (sc_projectId scope)) provider)
      else Inl noScope)"

definition isOrgScope :: "resource_scope \<Rightarrow> bool" where
  "isOrgScope scope \<longleftrightarrow> set_nonempty (sc_organizationId scope) \<and> \<not> set_nonempty (sc_projectId scope)"

abbreviation project_scope :: "string \<Rightarrow> resource_scope" where
  "project_scope p \<equiv> \<lparr> sc_projectId = Some p, sc_organizationId = None, sc_partnerId = None \<rparr>"

abbreviation organization_scope :: "string \<Rightarrow> resource_scope" where
  "organization_scope o' \<equiv> \<lparr> sc_projectId = None, sc_organizationId = Some o', sc_partnerId = None \<rparr>"

section \<open>The contract of a scope\<close>

text \<open>What the services rely on: the rows seen are those of one clause, also by id, and a row created in
  a scope is one of them.\<close>

locale scope_contract =
  fixes whereOf :: "'s \<Rightarrow> 'w result" and createOf :: "'s \<Rightarrow> 'c result"
    and ownOf :: "'s \<Rightarrow> string \<Rightarrow> (string \<times> 'w) result" and sees :: "'w \<Rightarrow> 'c \<Rightarrow> bool"
  assumes own_where: "ownOf s k = bindR (whereOf s) (\<lambda>w. Inr (k, w))"
    and create_seen: "createOf s = Inr c \<Longrightarrow> whereOf s = Inr w \<Longrightarrow> sees w c"
    and create_where: "createOf s = Inr c \<Longrightarrow> \<exists>w. whereOf s = Inr w"
begin

lemma own_Inr: "ownOf s k = Inr (k', w) \<longleftrightarrow> k' = k \<and> whereOf s = Inr w"
  by (cases "whereOf s") (auto simp: own_where)

lemma own_Inl: "ownOf s k = Inl e \<longleftrightarrow> whereOf s = Inl e"
  by (cases "whereOf s") (auto simp: own_where)

lemma create_own: "createOf s = Inr c \<Longrightarrow> \<exists>w. ownOf s k = Inr (k, w) \<and> sees w c"
  using create_seen create_where own_Inr by blast

end

interpretation scopes: scope_contract scopeWhere scopeCreate scopeOwnership
    "selects :: where_clause \<Rightarrow> scoped \<Rightarrow> bool"
proof
  fix s k show "scopeOwnership s k = bindR (scopeWhere s) (\<lambda>w. Inr (k, w))"
    by (simp add: scopeOwnership_def scopeWhere_def)
qed (auto simp: scopeCreate_def scopeWhere_def set_nonempty_def split: if_splits)

lemma scope_simps [simp]:
  "p \<noteq> '''' \<Longrightarrow> scopeWhere (project_scope p) = Inr (Project_rows p)"
  "o' \<noteq> '''' \<Longrightarrow> scopeWhere (organization_scope o') = Inr (Organization_rows o')"
  by (auto simp: scopeWhere_def set_nonempty_def)

text \<open>Only the columns of the scope matter to a filter.\<close>

lemma selects_columns:
  assumes "so_scope r = so_scope q" "so_projectId r = so_projectId q" "so_organizationId r = so_organizationId q"
    "so_partnerId r = so_partnerId q"
  shows "selects w r \<longleftrightarrow> selects w q"
  using assms by (cases w) simp_all

end
