(* ===== verification/Policy_Rules.thy ===== *)
theory Policy_Rules
  imports Resource_Scope
begin

text \<open>
  Policy rules, \<^verbatim>\<open>packages/api/src/services/policy-rule-service.ts\<close> with its input types
  (\<^verbatim>\<open>validations/policy-rule.ts\<close>), and the reading and resolving of app permissions in
  \<^verbatim>\<open>apps/web/src/lib/actions/rules.ts\<close>. A table is the list of its rows. A \<open>select\<close> clause, which only
  hides columns of the result, is not modelled. The gate a deployment injects is a parameter; the
  default one allows everything. Left out is \<^verbatim>\<open>countOverlappingRulesForHost\<close>, whose negated filter on a
  nullable JSON column depends on how the database client treats nulls.
\<close>

section \<open>Rows and inputs\<close>

record policy_row = scoped +
  pr_id :: string
  pr_agentId :: "string option"
  pr_name :: string
  pr_hostPattern :: string
  pr_pathPattern :: "string option"
  pr_method :: "string option"
  pr_action :: string
  pr_enabled :: bool
  pr_rateLimit :: "int option"
  pr_rateLimitWindow :: "string option"
  pr_metadata :: "js option" \<comment> \<open>JSON columns: \<open>None\<close> is the database null, \<open>Some JNull\<close> the JSON null\<close>
  pr_conditions :: "js option"
  pr_createdAt :: int

record agent_ref =
  ag_id :: string
  ag_projectId :: string

record rule_store =
  rs_rules :: "policy_row list"
  rs_agents :: "agent_ref list"

text \<open>What one call sees: the gate, the time and the ids the database mints for the rows it creates.\<close>

record rule_call =
  rc_gate :: "resource_scope \<Rightarrow> string list \<Rightarrow> unit result"
  rc_now :: int
  rc_newId :: "nat \<Rightarrow> string"

definition openGate :: "resource_scope \<Rightarrow> string list \<Rightarrow> unit result" where
  "openGate scope actions = Inr ()"

record rule_condition =
  rq_target :: string
  rq_operator :: string
  rq_value :: string
  rq_key :: "string option"

definition conditionsJs :: "rule_condition list \<Rightarrow> js" where
  "conditionsJs cs = JArr (map (\<lambda>q. JObj
     ([(''target'', JStr (rq_target q)), (''operator'', JStr (rq_operator q)), (''value'', JStr (rq_value q))] @
      (case rq_key q of None \<Rightarrow> [] | Some k \<Rightarrow> [(''key'', JStr k)]))) cs)"

record create_rule_input =
  cr_name :: string
  cr_hostPattern :: string
  cr_pathPattern :: "string option"
  cr_method :: "string option"
  cr_action :: string
  cr_enabled :: bool
  cr_agentId :: "string option"
  cr_rateLimit :: "int option"
  cr_rateLimitWindow :: "string option"
  cr_conditions :: "rule_condition list option"

text \<open>In an update the outer option is the presence of the field, the inner one the null.\<close>

record update_rule_input =
  ur_name :: "string option"
  ur_hostPattern :: "string option"
  ur_pathPattern :: "string option option"
  ur_method :: "string option option"
  ur_action :: "string option"
  ur_enabled :: "bool option"
  ur_agentId :: "string option option"
  ur_rateLimit :: "int option option"
  ur_rateLimitWindow :: "string option option"
  ur_conditions :: "rule_condition list option option"

section \<open>Input schemas\<close>

text \<open>\<^verbatim>\<open>validations/policy-rule.ts\<close>. The schemas check what the types leave open; the name is trimmed by the
  schema of a creation and of an update. Lengths are those of JavaScript strings.\<close>

definition ruleConditionOk :: "rule_condition \<Rightarrow> bool" where
  "ruleConditionOk q \<longleftrightarrow> rq_target q = ''body'' \<and> rq_operator q = ''contains'' \<and>
     1 \<le> u16length (rq_value q) \<and> u16length (rq_value q) \<le> 1000 \<and>
     (case rq_key q of None \<Rightarrow> True | Some k \<Rightarrow> u16length k \<le> 500)"

definition conditionsOk :: "rule_condition list \<Rightarrow> bool" where
  "conditionsOk cs \<longleftrightarrow> length cs \<le> 10 \<and> list_all ruleConditionOk cs"

definition ruleMethods :: "string list" where
  "ruleMethods = [''GET'', ''POST'', ''PUT'', ''PATCH'', ''DELETE'']"

definition ruleActions :: "string list" where
  "ruleActions = [''block'', ''rate_limit'', ''manual_approval'', ''allow'']"

definition ruleWindows :: "string list" where
  "ruleWindows = [''minute'', ''hour'', ''day'']"

definition nameOk :: "string \<Rightarrow> bool" where
  "nameOk s \<longleftrightarrow> 1 \<le> u16length (trim s) \<and> u16length (trim s) \<le> 255"

definition hostOk :: "string \<Rightarrow> bool" where
  "hostOk s \<longleftrightarrow> 1 \<le> u16length s \<and> u16length s \<le> 1000"

definition limitOk :: "int \<Rightarrow> bool" where
  "limitOk n \<longleftrightarrow> 1 \<le> n \<and> n \<le> 1000000"

abbreviation ifGiven :: "('a \<Rightarrow> bool) \<Rightarrow> 'a option \<Rightarrow> bool" where
  "ifGiven P x \<equiv> (case x of None \<Rightarrow> True | Some v \<Rightarrow> P v)"

definition createPolicyRuleSchema :: "create_rule_input \<Rightarrow> create_rule_input option" where
  "createPolicyRuleSchema input =
     (if nameOk (cr_name input) \<and> hostOk (cr_hostPattern input) \<and>
         ifGiven (\<lambda>p. u16length p \<le> 1000) (cr_pathPattern input) \<and>
         ifGiven (\<lambda>m. m \<in> set ruleMethods) (cr_method input) \<and> cr_action input \<in> set ruleActions \<and>
         ifGiven limitOk (cr_rateLimit input) \<and> ifGiven (\<lambda>x. x \<in> set ruleWindows) (cr_rateLimitWindow input) \<and>
         ifGiven conditionsOk (cr_conditions input) \<and>
         (if cr_action input = ''rate_limit'' then cr_rateLimit input \<noteq> None \<and> cr_rateLimitWindow input \<noteq> None else True)
      then Some (input\<lparr>cr_name := trim (cr_name input)\<rparr>) else None)"

definition updatePolicyRuleSchema :: "update_rule_input \<Rightarrow> update_rule_input option" where
  "updatePolicyRuleSchema input =
     (if ifGiven nameOk (ur_name input) \<and> ifGiven hostOk (ur_hostPattern input) \<and>
         ifGiven (ifGiven (\<lambda>p. u16length p \<le> 1000)) (ur_pathPattern input) \<and>
         ifGiven (ifGiven (\<lambda>m. m \<in> set ruleMethods)) (ur_method input) \<and>
         ifGiven (\<lambda>a. a \<in> set ruleActions) (ur_action input) \<and>
         ifGiven (ifGiven limitOk) (ur_rateLimit input) \<and>
         ifGiven (ifGiven (\<lambda>x. x \<in> set ruleWindows)) (ur_rateLimitWindow input) \<and>
         ifGiven (ifGiven conditionsOk) (ur_conditions input) \<and>
         (ur_name input \<noteq> None \<or> ur_hostPattern input \<noteq> None \<or> ur_pathPattern input \<noteq> None \<or>
          ur_method input \<noteq> None \<or> ur_action input \<noteq> None \<or> ur_enabled input \<noteq> None \<or>
          ur_agentId input \<noteq> None \<or> ur_rateLimit input \<noteq> None \<or> ur_rateLimitWindow input \<noteq> None \<or>
          ur_conditions input \<noteq> None)
      then Some (input\<lparr>ur_name := map_option trim (ur_name input)\<rparr>) else None)"

definition noUpdate :: update_rule_input where
  "noUpdate = \<lparr> ur_name = None, ur_hostPattern = None, ur_pathPattern = None, ur_method = None, ur_action = None,
     ur_enabled = None, ur_agentId = None, ur_rateLimit = None, ur_rateLimitWindow = None, ur_conditions = None \<rparr>"

section \<open>The table\<close>

definition findRule :: "string \<Rightarrow> policy_row list \<Rightarrow> policy_row option" where
  "findRule k t = find (\<lambda>r. pr_id r = k) t"

definition updateRule :: "string \<Rightarrow> (policy_row \<Rightarrow> policy_row) \<Rightarrow> policy_row list \<Rightarrow> policy_row list" where
  "updateRule k f t = map (\<lambda>r. if pr_id r = k then f r else r) t"

definition deleteRule :: "string \<Rightarrow> policy_row list \<Rightarrow> policy_row list" where
  "deleteRule k t = filter (\<lambda>r. pr_id r \<noteq> k) t"

interpretation rules: row_table pr_id findRule updateRule
proof
  fix f :: "policy_row \<Rightarrow> policy_row" and k k' t
  assume f: "\<And>r. pr_id (f r) = pr_id r"
  show "findRule k' (updateRule k f t) = (if k' = k then map_option f (findRule k t) else findRule k' t)"
    unfolding findRule_def updateRule_def by (rule find_map_key) (rule f)
  show "map pr_id (updateRule k f t) = map pr_id t" by (simp add: updateRule_def f)
qed (auto simp: findRule_def find_Some_iff find_None_iff)

text \<open>\<^verbatim>\<open>x || null\<close> of an optional text.\<close>

definition orNull :: "string option \<Rightarrow> string option" where
  "orNull x = (if set_nonempty x then x else None)"

text \<open>\<^verbatim>\<open>findFirst\<close> with the filter of a scope on an id.\<close>

definition findOwned :: "resource_scope \<Rightarrow> string \<Rightarrow> policy_row list \<Rightarrow> policy_row option result" where
  "findOwned scope k t =
     bindR (scopeOwnership scope k) (\<lambda>(i, w). Inr (find (\<lambda>r. pr_id r = i \<and> selects w r) t))"

definition ruleNotFound :: error where
  "ruleNotFound = ServiceError NOT_FOUND ''Policy rule not found''"

section \<open>Operations\<close>

text \<open>\<^verbatim>\<open>orderBy: { createdAt: "desc" }\<close>; rows of one time keep the table's order.\<close>

definition listPolicyRules :: "rule_store \<Rightarrow> resource_scope \<Rightarrow> policy_row list result" where
  "listPolicyRules st scope =
     bindR (scopeWhere scope) (\<lambda>w. Inr (sort_key (\<lambda>r. - pr_createdAt r) (filter (selects w) (rs_rules st))))"

definition getPolicyRule :: "rule_store \<Rightarrow> resource_scope \<Rightarrow> string \<Rightarrow> policy_row result" where
  "getPolicyRule st scope ruleId =
     bindR (findOwned scope ruleId (rs_rules st)) (\<lambda>rule.
       case rule of None \<Rightarrow> Inl ruleNotFound | Some r \<Rightarrow> Inr r)"

text \<open>\<^verbatim>\<open>findFirst\<close> on the agents; an undefined project is no filter.\<close>

definition agentExists :: "rule_store \<Rightarrow> string \<Rightarrow> string option \<Rightarrow> bool" where
  "agentExists st k project \<longleftrightarrow>
     list_ex (\<lambda>a. ag_id a = k \<and> (case project of None \<Rightarrow> True | Some p \<Rightarrow> ag_projectId a = p)) (rs_agents st)"

definition agentNotFound :: error where
  "agentNotFound = ServiceError NOT_FOUND ''Agent not found''"

definition createPolicyRule ::
  "rule_call \<Rightarrow> rule_store \<Rightarrow> resource_scope \<Rightarrow> create_rule_input \<Rightarrow> (policy_row \<times> rule_store) result" where
  "createPolicyRule call st scope input =
     bindR (rc_gate call scope [cr_action input]) (\<lambda>_.
       let name = trim (cr_name input);
           orgScope = isOrgScope scope;
           agentId = (if orgScope then None else orNull (cr_agentId input))
       in if agentId \<noteq> None \<and> set_nonempty (sc_projectId scope) \<and>
             \<not> agentExists st (the agentId) (sc_projectId scope)
          then Inl agentNotFound
          else bindR (scopeCreate scope) (\<lambda>owner.
            let row = \<lparr> so_scope = so_scope owner, so_projectId = so_projectId owner,
                  so_organizationId = so_organizationId owner, so_partnerId = so_partnerId owner,
                  pr_id = rc_newId call 0, pr_agentId = agentId, pr_name = name,
                  pr_hostPattern = trim (cr_hostPattern input),
                  pr_pathPattern = orNull (map_option trim (cr_pathPattern input)),
                  pr_method = orNull (cr_method input), pr_action = cr_action input,
                  pr_enabled = cr_enabled input,
                  pr_rateLimit = (if cr_action input = ''rate_limit'' then cr_rateLimit input else None),
                  pr_rateLimitWindow = (if cr_action input = ''rate_limit'' then cr_rateLimitWindow input else None),
                  pr_metadata = None, pr_conditions = map_option conditionsJs (cr_conditions input),
                  pr_createdAt = rc_now call \<rparr>
            in Inr (row, st\<lparr>rs_rules := rs_rules st @ [row]\<rparr>)))"

text \<open>\<^verbatim>\<open>if (input.x !== undefined) data.x = ...\<close>, and the assignments to \<^verbatim>\<open>data\<close> in their order.\<close>

definition assign :: "('a \<Rightarrow> 'r \<Rightarrow> 'r) \<Rightarrow> 'a option \<Rightarrow> 'r \<Rightarrow> 'r" where
  "assign f x r = (case x of None \<Rightarrow> r | Some v \<Rightarrow> f v r)"

definition updateData :: "bool \<Rightarrow> update_rule_input \<Rightarrow> policy_row \<Rightarrow> policy_row" where
  "updateData orgScope input row =
     (let row = assign (\<lambda>n r. r\<lparr>pr_name := trim n\<rparr>) (ur_name input) row;
          row = assign (\<lambda>h r. r\<lparr>pr_hostPattern := trim h\<rparr>) (ur_hostPattern input) row;
          row = assign (\<lambda>p r. r\<lparr>pr_pathPattern := orNull (map_option trim p)\<rparr>) (ur_pathPattern input) row;
          row = assign (\<lambda>m r. r\<lparr>pr_method := orNull m\<rparr>) (ur_method input) row;
          row = assign (\<lambda>a r. if a \<noteq> ''rate_limit''
                  then r\<lparr>pr_action := a, pr_rateLimit := None, pr_rateLimitWindow := None\<rparr>
                  else r\<lparr>pr_action := a\<rparr>) (ur_action input) row;
          row = assign (\<lambda>e r. r\<lparr>pr_enabled := e\<rparr>) (ur_enabled input) row;
          row = (if orgScope then row else assign (\<lambda>a r. r\<lparr>pr_agentId := orNull a\<rparr>) (ur_agentId input) row);
          row = assign (\<lambda>l r. r\<lparr>pr_rateLimit := l\<rparr>) (ur_rateLimit input) row;
          row = assign (\<lambda>l r. r\<lparr>pr_rateLimitWindow := l\<rparr>) (ur_rateLimitWindow input) row
      in assign (\<lambda>cs r. r\<lparr>pr_conditions := Some (case cs of None \<Rightarrow> JNull | Some cs \<Rightarrow> conditionsJs cs)\<rparr>)
           (ur_conditions input) row)"

definition updatePolicyRule ::
  "rule_call \<Rightarrow> rule_store \<Rightarrow> resource_scope \<Rightarrow> string \<Rightarrow> update_rule_input \<Rightarrow> rule_store result" where
  "updatePolicyRule call st scope ruleId input =
     bindR (case ur_action input of None \<Rightarrow> Inr () | Some a \<Rightarrow> rc_gate call scope [a]) (\<lambda>_.
     bindR (findOwned scope ruleId (rs_rules st)) (\<lambda>rule.
       if rule = None then Inl ruleNotFound
       else
         let orgScope = isOrgScope scope; agent = (case ur_agentId input of None \<Rightarrow> None | Some a \<Rightarrow> a)
         in if \<not> orgScope \<and> set_nonempty agent \<and> \<not> agentExists st (the agent) (sc_projectId scope)
            then Inl agentNotFound
            else Inr (st\<lparr>rs_rules := updateRule ruleId (updateData orgScope input) (rs_rules st)\<rparr>)))"

definition deletePolicyRule :: "rule_store \<Rightarrow> resource_scope \<Rightarrow> string \<Rightarrow> rule_store result" where
  "deletePolicyRule st scope ruleId =
     bindR (findOwned scope ruleId (rs_rules st)) (\<lambda>rule.
       if rule = None then Inl ruleNotFound
       else Inr (st\<lparr>rs_rules := deleteRule ruleId (rs_rules st)\<rparr>))"

section \<open>App permissions\<close>

record app_tool =
  tl_id :: string
  tl_name :: string
  tl_description :: string
  tl_hostPattern :: string
  tl_pathPattern :: string
  tl_aliasPatterns :: "string list option"
  tl_method :: "string option"
  tl_methods :: "string list option"

record tool_group =
  tg_category :: string
  tg_tools :: "app_tool list"
  tg_wildcard :: "app_tool option"

definition allGroupTools :: "tool_group \<Rightarrow> app_tool list" where
  "allGroupTools g = (case tg_wildcard g of None \<Rightarrow> [] | Some t \<Rightarrow> [t]) @ tg_tools g"

datatype permission_level = Perm_allow | Perm_manual_approval | Perm_block

fun permissionText :: "permission_level \<Rightarrow> string" where
  "permissionText Perm_allow = ''allow''"
| "permissionText Perm_manual_approval = ''manual_approval''"
| "permissionText Perm_block = ''block''"

definition mapRuleActionToPermission :: "string \<Rightarrow> permission_level" where
  "mapRuleActionToPermission action =
     (if action = ''block'' then Perm_block else if action = ''allow'' then Perm_allow else Perm_manual_approval)"

record permission_change =
  pc_toolId :: string
  pc_permission :: permission_level
  pc_tool :: app_tool

text \<open>\<^verbatim>\<open>metadata: { path: [k], equals: v }\<close>, and the key test on the column's object.\<close>

definition metadataIs :: "string \<Rightarrow> string \<Rightarrow> policy_row \<Rightarrow> bool" where
  "metadataIs k v r \<longleftrightarrow> (case pr_metadata r of Some (JObj kvs) \<Rightarrow> oget kvs k = JStr v | _ \<Rightarrow> False)"

definition listAppPermissionRules :: "rule_store \<Rightarrow> resource_scope \<Rightarrow> string \<Rightarrow> policy_row list result" where
  "listAppPermissionRules st scope provider =
     bindR (scopeWhere scope) (\<lambda>w. Inr (filter (\<lambda>r. selects w r \<and>
       metadataIs ''source'' ''app_permission'' r \<and> metadataIs ''provider'' provider r) (rs_rules st)))"

type_synonym variant = "string \<times> string option"

definition allRuleVariants :: "app_tool \<Rightarrow> variant list" where
  "allRuleVariants tool =
     (let paths = tl_pathPattern tool # orElse (tl_aliasPatterns tool) [];
          methods = (case tl_methods tool of Some ms \<Rightarrow> map Some ms | None \<Rightarrow> [tl_method tool])
      in concat (map (\<lambda>p. map (\<lambda>m. (p, m)) methods) paths))"

text \<open>\<open>existingByToolId.get(toolId)\<close>: the map is keyed by the \<^verbatim>\<open>toolId\<close> of the metadata, and a text only
  finds the rules whose \<^verbatim>\<open>toolId\<close> is that text.\<close>

definition existingFor :: "string \<Rightarrow> policy_row list \<Rightarrow> policy_row list" where
  "existingFor toolId rows = filter (metadataIs ''toolId'' toolId) rows"

text \<open>\<^verbatim>\<open>`${pathPattern}\0${method ?? ""}`\<close>.\<close>

definition variantKey :: "string option \<Rightarrow> string option \<Rightarrow> string" where
  "variantKey pathPattern meth = orElse pathPattern ''null'' @ [CHR 0x00] @ orElse meth ''''"

definition missingVariants :: "app_tool \<Rightarrow> policy_row list \<Rightarrow> variant list" where
  "missingVariants tool existingRules =
     filter (\<lambda>v. variantKey (Some (fst v)) (snd v) \<notin> set (map (\<lambda>r. variantKey (pr_pathPattern r) (pr_method r)) existingRules))
       (allRuleVariants tool)"

definition updatesFor :: "bool \<Rightarrow> string \<Rightarrow> policy_row list \<Rightarrow> (string \<times> string) list" where
  "updatesFor conditionsProvided action existingRules =
     map (\<lambda>r. (pr_id r, action)) (filter (\<lambda>r. pr_action r \<noteq> action \<or> conditionsProvided) existingRules)"

record rule_plan =
  pl_create :: "(permission_change \<times> variant) list"
  pl_update :: "(string \<times> string) list"
  pl_delete :: "string list"

definition emptyPlan :: rule_plan where
  "emptyPlan = \<lparr> pl_create = [], pl_update = [], pl_delete = [] \<rparr>"

text \<open>One turn of the loop over the changes. The rules that carry the permission are brought to it and
  completed by the variants that have none; or they are deleted, when the mode gives the permission
  without a rule.\<close>

definition planChange :: "bool \<Rightarrow> bool \<Rightarrow> policy_row list \<Rightarrow> permission_change \<Rightarrow> rule_plan" where
  "planChange isDenyMode conditionsProvided existing change =
     (let existingRules = existingFor (pc_toolId change) existing;
          bring = (if existingRules \<noteq> []
            then \<lparr> pl_create = map (Pair change) (missingVariants (pc_tool change) existingRules),
                   pl_update = updatesFor conditionsProvided (permissionText (pc_permission change)) existingRules,
                   pl_delete = [] \<rparr>
            else \<lparr> pl_create = map (Pair change) (allRuleVariants (pc_tool change)), pl_update = [], pl_delete = [] \<rparr>);
          drop = \<lparr> pl_create = [], pl_update = [], pl_delete = map pr_id existingRules \<rparr>
      in if pc_permission change = Perm_allow
         then (if isDenyMode then bring else drop)
         else if pc_permission change = Perm_block \<and> isDenyMode then drop
         else bring)"

definition appendPlan :: "rule_plan \<Rightarrow> rule_plan \<Rightarrow> rule_plan" where
  "appendPlan a b = \<lparr> pl_create = pl_create a @ pl_create b, pl_update = pl_update a @ pl_update b,
     pl_delete = pl_delete a @ pl_delete b \<rparr>"

fun planChanges :: "bool \<Rightarrow> bool \<Rightarrow> policy_row list \<Rightarrow> permission_change list \<Rightarrow> rule_plan" where
  "planChanges d k existing [] = emptyPlan"
| "planChanges d k existing (c # cs) = appendPlan (planChange d k existing c) (planChanges d k existing cs)"

text \<open>\<open>scopeDeleteWhere\<close>; an undefined project is no filter.\<close>

definition deleteWhere :: "resource_scope \<Rightarrow> policy_row \<Rightarrow> bool" where
  "deleteWhere scope r \<longleftrightarrow>
     (if set_nonempty (sc_organizationId scope) then so_organizationId r = sc_organizationId scope
      else case sc_projectId scope of None \<Rightarrow> True | Some p \<Rightarrow> so_projectId r = Some p)"

definition writtenConditions :: "rule_condition list \<Rightarrow> js" where
  "writtenConditions cs = (if length cs > 0 then conditionsJs cs else JNull)"

text \<open>The data of one update; given no conditions it leaves them.\<close>

definition setRow :: "rule_condition list option \<Rightarrow> string \<Rightarrow> policy_row \<Rightarrow> policy_row" where
  "setRow conditions action r = r\<lparr>pr_action := action,
     pr_conditions := (case conditions of None \<Rightarrow> pr_conditions r | Some cs \<Rightarrow> Some (writtenConditions cs))\<rparr>"

fun runUpdates :: "rule_condition list option \<Rightarrow> (string \<times> string) list \<Rightarrow> policy_row list \<Rightarrow> policy_row list result" where
  "runUpdates conditions [] t = Inr t"
| "runUpdates conditions ((k, a) # us) t =
     (if findRule k t = None then Inl (JsError ''Record to update not found.'')
      else runUpdates conditions us (updateRule k (setRow conditions a) t))"

definition permissionRow ::
  "rule_call \<Rightarrow> scoped \<Rightarrow> string \<Rightarrow> rule_condition list option \<Rightarrow> nat \<Rightarrow> permission_change \<times> variant \<Rightarrow> policy_row" where
  "permissionRow call owner provider conditions n cv =
     (let (change, pathPattern, meth) = cv in
      \<lparr> so_scope = so_scope owner, so_projectId = so_projectId owner,
        so_organizationId = so_organizationId owner, so_partnerId = so_partnerId owner,
        pr_id = rc_newId call n, pr_agentId = None, pr_name = tl_name (pc_tool change),
        pr_hostPattern = tl_hostPattern (pc_tool change), pr_pathPattern = Some pathPattern,
        pr_method = meth, pr_action = permissionText (pc_permission change), pr_enabled = True,
        pr_rateLimit = None, pr_rateLimitWindow = None,
        pr_metadata = Some (JObj [(''source'', JStr ''app_permission''), (''provider'', JStr provider),
          (''toolId'', JStr (pc_toolId change))]),
        pr_conditions = (case conditions of None \<Rightarrow> None
          | Some cs \<Rightarrow> if length cs > 0 then Some (conditionsJs cs) else None),
        pr_createdAt = rc_now call \<rparr>)"

fun runCreates ::
  "rule_call \<Rightarrow> resource_scope \<Rightarrow> string \<Rightarrow> rule_condition list option \<Rightarrow> nat \<Rightarrow>
   (permission_change \<times> variant) list \<Rightarrow> policy_row list \<Rightarrow> policy_row list result" where
  "runCreates call scope provider conditions n [] t = Inr t"
| "runCreates call scope provider conditions n (cv # cvs) t =
     bindR (scopeCreate scope) (\<lambda>owner.
       runCreates call scope provider conditions (n + 1) cvs (t @ [permissionRow call owner provider conditions n cv]))"

record permission_counts =
  pk_created :: nat
  pk_updated :: nat
  pk_deleted :: nat

text \<open>The transaction writes all or nothing: an error leaves the store as it was.\<close>

definition setAppPermissionsService ::
  "rule_call \<Rightarrow> rule_store \<Rightarrow> resource_scope \<Rightarrow> string \<Rightarrow> permission_change list \<Rightarrow> rule_condition list option \<Rightarrow>
   string option \<Rightarrow> (permission_counts \<times> rule_store) result" where
  "setAppPermissionsService call st scope provider changes conditions policyMode =
     bindR (rc_gate call scope (map (\<lambda>c. permissionText (pc_permission c)) changes)) (\<lambda>_.
     bindR (listAppPermissionRules st scope provider) (\<lambda>existing.
       let plan = planChanges (policyMode = Some ''deny'') (conditions \<noteq> None) existing changes;
           kept = filter (\<lambda>r. \<not> (pr_id r \<in> set (pl_delete plan) \<and> deleteWhere scope r)) (rs_rules st)
       in bindR (runUpdates conditions (pl_update plan) kept) (\<lambda>updated.
          bindR (runCreates call scope provider conditions 0 (pl_create plan) updated) (\<lambda>rules.
            Inr (\<lparr> pk_created = length (pl_create plan), pk_updated = length (pl_update plan),
                   pk_deleted = length (pl_delete plan) \<rparr>, st\<lparr>rs_rules := rules\<rparr>)))))"

section \<open>The server actions of the console\<close>

record permission_definition =
  pd_provider :: string
  pd_groups :: "tool_group list"

text \<open>The states by tool, the last rule of a tool deciding; the key is the text of the \<^verbatim>\<open>toolId\<close>.\<close>

fun permissionStates :: "policy_row list \<Rightarrow> (string \<rightharpoonup> permission_level \<times> js) \<Rightarrow> (string \<rightharpoonup> permission_level \<times> js)" where
  "permissionStates [] states = states"
| "permissionStates (r # rs) states =
     (let toolId = (case pr_metadata r of Some m \<Rightarrow> jsProp m ''toolId'' | None \<Rightarrow> JUndef)
      in permissionStates rs
           (if truthy toolId
            then states(jsString toolId \<mapsto> (mapRuleActionToPermission (pr_action r),
              case pr_conditions r of Some (JArr cs) \<Rightarrow> JArr cs | _ \<Rightarrow> JArr []))
            else states))"

definition getAppPermissionStates :: "rule_store \<Rightarrow> string \<Rightarrow> string \<Rightarrow> (string \<rightharpoonup> permission_level \<times> js) result" where
  "getAppPermissionStates st projectId provider =
     bindR (listAppPermissionRules st (project_scope projectId) provider) (\<lambda>rules. Inr (permissionStates rules Map.empty))"

text \<open>Of two tools with one id the later is in the map.\<close>

definition resolveChange :: "app_tool list \<Rightarrow> string \<times> permission_level \<Rightarrow> permission_change result" where
  "resolveChange allTools c =
     (case find (\<lambda>t. tl_id t = fst c) (rev allTools) of
        None \<Rightarrow> Inl (JsError (''Unknown tool: '' @ fst c))
      | Some tool \<Rightarrow> Inr \<lparr> pc_toolId = fst c, pc_permission = snd c, pc_tool = tool \<rparr>)"

text \<open>The project and the mode are those of the signed-in user's organisation.\<close>

definition setAppPermissions ::
  "rule_call \<Rightarrow> rule_store \<Rightarrow> (string \<rightharpoonup> permission_definition) \<Rightarrow> string \<Rightarrow> string \<Rightarrow> string \<Rightarrow>
   (string \<times> permission_level) list \<Rightarrow> rule_condition list option \<Rightarrow> (permission_counts \<times> rule_store) result" where
  "setAppPermissions call st registry projectId policyMode provider changes conditions =
     (case registry provider of
        None \<Rightarrow> Inl (JsError (''No permission definition for provider: '' @ provider))
      | Some def \<Rightarrow>
          bindR (mapR (resolveChange (concat (map allGroupTools (pd_groups def)))) changes) (\<lambda>resolvedChanges.
            setAppPermissionsService call st (project_scope projectId) provider resolvedChanges conditions
              (Some policyMode)))"

end
