(* ===== verification/Policy_Props.thy ===== *)
theory Policy_Props
  imports Policy_Rules
begin

text \<open>
  Theorems about policy rules: what setting app permissions leaves in the table, that doing it twice
  changes nothing, that a scope sees and changes only its own rows, and the invariant of a created rule
  that an update can break.
\<close>

section \<open>The plan\<close>

text \<open>Whether a permission is carried by rules in this mode, or by their absence.\<close>

definition needsRules :: "bool \<Rightarrow> permission_change \<Rightarrow> bool" where
  "needsRules isDenyMode c \<longleftrightarrow> pc_permission c = Perm_manual_approval \<or> (pc_permission c = Perm_allow \<longleftrightarrow> isDenyMode)"

lemma missingVariants_Nil: "missingVariants tool [] = allRuleVariants tool"
  by (simp add: missingVariants_def)

lemma planChange_eq:
  "planChange d k ex c = (if needsRules d c
     then \<lparr> pl_create = map (Pair c) (missingVariants (pc_tool c) (existingFor (pc_toolId c) ex)),
            pl_update = updatesFor k (permissionText (pc_permission c)) (existingFor (pc_toolId c) ex), pl_delete = [] \<rparr>
     else \<lparr> pl_create = [], pl_update = [], pl_delete = map pr_id (existingFor (pc_toolId c) ex) \<rparr>)"
  by (cases "pc_permission c"; cases "existingFor (pc_toolId c) ex = []")
     (auto simp: planChange_def needsRules_def Let_def missingVariants_Nil updatesFor_def)

lemma planChanges_eq:
  "pl_create (planChanges d k ex cs) = concat (map (\<lambda>c. pl_create (planChange d k ex c)) cs)"
  "pl_update (planChanges d k ex cs) = concat (map (\<lambda>c. pl_update (planChange d k ex c)) cs)"
  "pl_delete (planChanges d k ex cs) = concat (map (\<lambda>c. pl_delete (planChange d k ex c)) cs)"
  by (induction cs) (simp_all add: emptyPlan_def appendPlan_def)

lemma in_update:
  "(i, a) \<in> set (pl_update (planChanges d k ex cs)) \<longleftrightarrow>
   (\<exists>c \<in> set cs. needsRules d c \<and> a = permissionText (pc_permission c) \<and>
     (\<exists>r \<in> set (existingFor (pc_toolId c) ex). pr_id r = i \<and> (pr_action r \<noteq> a \<or> k)))"
  by (fastforce simp: planChanges_eq planChange_eq updatesFor_def split: if_splits)

lemma in_delete:
  "i \<in> set (pl_delete (planChanges d k ex cs)) \<longleftrightarrow>
   (\<exists>c \<in> set cs. \<not> needsRules d c \<and> i \<in> pr_id ` set (existingFor (pc_toolId c) ex))"
  by (fastforce simp: planChanges_eq planChange_eq split: if_splits)

lemma in_create:
  "(c, v) \<in> set (pl_create (planChanges d k ex cs)) \<longleftrightarrow>
   c \<in> set cs \<and> needsRules d c \<and> v \<in> set (missingVariants (pc_tool c) (existingFor (pc_toolId c) ex))"
  by (fastforce simp: planChanges_eq planChange_eq split: if_splits)

section \<open>The transaction\<close>

fun updated :: "rule_condition list option \<Rightarrow> (string \<times> string) list \<Rightarrow> policy_row \<Rightarrow> policy_row" where
  "updated conditions [] r = r"
| "updated conditions ((k, a) # us) r = updated conditions us (if pr_id r = k then setRow conditions a r else r)"

lemma setRow_simps [simp]:
  "pr_id (setRow q a r) = pr_id r" "pr_action (setRow q a r) = a" "pr_metadata (setRow q a r) = pr_metadata r"
  "pr_pathPattern (setRow q a r) = pr_pathPattern r" "pr_method (setRow q a r) = pr_method r"
  "so_scope (setRow q a r) = so_scope r" "so_projectId (setRow q a r) = so_projectId r"
  "so_organizationId (setRow q a r) = so_organizationId r" "so_partnerId (setRow q a r) = so_partnerId r"
  by (simp_all add: setRow_def)

lemma updated_simps [simp]:
  "pr_id (updated q us r) = pr_id r" "pr_metadata (updated q us r) = pr_metadata r"
  "pr_pathPattern (updated q us r) = pr_pathPattern r" "pr_method (updated q us r) = pr_method r"
  "so_scope (updated q us r) = so_scope r" "so_projectId (updated q us r) = so_projectId r"
  "so_organizationId (updated q us r) = so_organizationId r" "so_partnerId (updated q us r) = so_partnerId r"
  by (induction q us r rule: updated.induct) auto

lemma updated_columns [simp]:
  "metadataIs k v (updated q us r) = metadataIs k v r" "selects w (updated q us r) = selects w r"
  by (simp add: metadataIs_def, rule selects_columns) simp_all

lemma updated_none: "pr_id r \<notin> fst ` set us \<Longrightarrow> updated q us r = r"
  by (induction q us r rule: updated.induct) auto

lemma updated_action:
  assumes "\<forall>a'. (pr_id r, a') \<in> set us \<longrightarrow> a' = a" "pr_action r = a \<or> pr_id r \<in> fst ` set us"
  shows "pr_action (updated q us r) = a"
  using assms
proof (induction us arbitrary: r)
  case (Cons u us)
  obtain k b where u: "u = (k, b)" by (cases u)
  show ?case
  proof (cases "k = pr_id r")
    case True
    have "b = a" using Cons.prems(1) u True by simp
    have "pr_action (updated q us (setRow q b r)) = a"
      by (rule Cons.IH) (use Cons.prems(1) u \<open>b = a\<close> in simp_all)
    then show ?thesis by (simp add: u True)
  next
    case False
    have "pr_action (updated q us r) = a"
      by (rule Cons.IH) (use Cons.prems u False in simp_all)
    then show ?thesis using False by (simp add: u)
  qed
qed simp

lemma runUpdates_eq:
  "fst ` set us \<subseteq> pr_id ` set t \<Longrightarrow> runUpdates q us t = Inr (map (updated q us) t)"
proof (induction q us t rule: runUpdates.induct)
  case (2 q k a us t)
  have f: "findRule k t \<noteq> None" using "2.prems" rules.lookup_None [of k t] by auto
  have "pr_id ` set (updateRule k (setRow q a) t) = pr_id ` set t"
    using rules.keys_update [of "setRow q a" k t] by (metis list.set_map setRow_simps(1))
  then have "runUpdates q us (updateRule k (setRow q a) t) = Inr (map (updated q us) (updateRule k (setRow q a) t))"
    using 2 f by auto
  then show ?case using f by (simp add: updateRule_def)
qed (simp add: map_idI)

fun newRows :: "rule_call \<Rightarrow> scoped \<Rightarrow> string \<Rightarrow> rule_condition list option \<Rightarrow> nat \<Rightarrow>
    (permission_change \<times> variant) list \<Rightarrow> policy_row list" where
  "newRows call owner provider q n [] = []"
| "newRows call owner provider q n (cv # cvs) =
     permissionRow call owner provider q n cv # newRows call owner provider q (n + 1) cvs"

lemma runCreates_eq:
  "scopeCreate scope = Inr owner \<Longrightarrow>
   runCreates call scope provider q n cvs t = Inr (t @ newRows call owner provider q n cvs)"
  by (induction call scope provider q n cvs t rule: runCreates.induct) simp_all

lemma in_newRows:
  "r \<in> set (newRows call owner provider q n cvs) \<Longrightarrow> \<exists>i cv. cv \<in> set cvs \<and> r = permissionRow call owner provider q i cv"
proof (induction cvs arbitrary: n)
  case (Cons x xs)
  show ?case
  proof (cases "r = permissionRow call owner provider q n x")
    case False
    then have "r \<in> set (newRows call owner provider q (n + 1) xs)" using Cons.prems by simp
    then obtain i cv where "cv \<in> set xs" "r = permissionRow call owner provider q i cv" using Cons.IH by blast
    then show ?thesis by (intro exI [of _ i] exI [of _ cv]) simp
  qed (intro exI [of _ n] exI [of _ x]; simp)
qed simp

lemma created_row:
  "cv \<in> set cvs \<Longrightarrow> \<exists>i. permissionRow call owner provider q i cv \<in> set (newRows call owner provider q n cvs)"
  by (induction cvs arbitrary: n) auto

section \<open>Setting permissions\<close>

text \<open>The rows the provider's permissions are made of.\<close>

definition appRow :: "where_clause \<Rightarrow> string \<Rightarrow> policy_row \<Rightarrow> bool" where
  "appRow w provider r \<longleftrightarrow> selects w r \<and> metadataIs ''source'' ''app_permission'' r \<and> metadataIs ''provider'' provider r"

lemma appRow_updated [simp]: "appRow w p (updated q us r) = appRow w p r"
  by (simp add: appRow_def)

lemma listed: "scopeWhere scope = Inr w \<Longrightarrow> listAppPermissionRules st scope provider = Inr (filter (appRow w provider) (rs_rules st))"
  by (simp add: listAppPermissionRules_def appRow_def [abs_def])

lemma permissionRow_simps [simp]:
  "so_scope (permissionRow call owner p q i cv) = so_scope owner"
  "so_projectId (permissionRow call owner p q i cv) = so_projectId owner"
  "so_organizationId (permissionRow call owner p q i cv) = so_organizationId owner"
  "so_partnerId (permissionRow call owner p q i cv) = so_partnerId owner"
  "pr_action (permissionRow call owner p q i cv) = permissionText (pc_permission (fst cv))"
  "pr_pathPattern (permissionRow call owner p q i cv) = Some (fst (snd cv))"
  "pr_method (permissionRow call owner p q i cv) = snd (snd cv)"
  "pr_agentId (permissionRow call owner p q i cv) = None" "pr_rateLimit (permissionRow call owner p q i cv) = None"
  "pr_id (permissionRow call owner p q i cv) = rc_newId call i"
  by (simp_all add: permissionRow_def split: prod.splits)

lemma metadataIs_permissionRow:
  "metadataIs ''source'' x (permissionRow call owner provider q i (c, v)) \<longleftrightarrow> x = ''app_permission''"
  "metadataIs ''provider'' x (permissionRow call owner provider q i (c, v)) \<longleftrightarrow> x = provider"
  "metadataIs ''toolId'' x (permissionRow call owner provider q i (c, v)) \<longleftrightarrow> x = pc_toolId c"
  by (auto simp: metadataIs_def permissionRow_def split: prod.splits)

lemma metadataIs_unique: "metadataIs k v r \<Longrightarrow> metadataIs k v' r \<Longrightarrow> v = v'"
  by (auto simp: metadataIs_def split: option.splits js.splits)

text \<open>A scope of one project or one organisation, as the callers pass it.\<close>

lemma single_scope:
  assumes "scope \<in> {project_scope x, organization_scope x}" "x \<noteq> ''''"
  obtains w owner where "scopeWhere scope = Inr w" "scopeCreate scope = Inr owner" "selects w owner"
    "\<forall>r :: policy_row. selects w r \<longrightarrow> deleteWhere scope r"
proof -
  have "\<exists>w. scopeWhere scope = Inr w" "\<exists>owner. scopeCreate scope = Inr owner"
    using assms by (auto simp: scopeWhere_def scopeCreate_def set_nonempty_def)
  then obtain w owner where w: "scopeWhere scope = Inr w" and owner: "scopeCreate scope = Inr owner" by blast
  have "deleteWhere scope r" if "selects w r" for r :: policy_row
    using w assms that by (auto simp: scopeWhere_def set_nonempty_def deleteWhere_def split: if_splits)
  with w owner scopes.create_seen show ?thesis by (metis that)
qed

text \<open>What the plan does with a row of the table, when rules have distinct ids and changes distinct tools.\<close>

lemma plan_fate:
  assumes "distinct (map pr_id t)" "distinct (map pc_toolId cs)" "ex = filter P t"
    and r: "r \<in> set t" "P r" and c: "c \<in> set cs" "metadataIs ''toolId'' (pc_toolId c) r"
  shows "pr_id r \<in> set (pl_delete (planChanges d k ex cs)) \<longleftrightarrow> \<not> needsRules d c"
    and "(pr_id r, a) \<in> set (pl_update (planChanges d k ex cs)) \<longleftrightarrow>
      needsRules d c \<and> a = permissionText (pc_permission c) \<and> (pr_action r \<noteq> a \<or> k)"
proof -
  have inj: "inj_on pr_id (set t)" "inj_on pc_toolId (set cs)" using assms(1,2) by (simp_all add: distinct_map)
  have same: "c' = c" "r' = r" if a: "c' \<in> set cs" "r' \<in> set (existingFor (pc_toolId c') ex)" "pr_id r' = pr_id r" for c' r'
  proof -
    have m: "r' \<in> set t" "metadataIs ''toolId'' (pc_toolId c') r'" using a(2) assms(3) by (simp_all add: existingFor_def)
    show "r' = r" by (rule inj_onD [OF inj(1) a(3) m(1) r(1)])
    with m(2) c(2) have "pc_toolId c' = pc_toolId c" by (metis metadataIs_unique)
    then show "c' = c" by (rule inj_onD [OF inj(2) _ a(1) c(1)])
  qed
  have mem: "r \<in> set (existingFor (pc_toolId c) ex)" using r c assms(3) by (simp add: existingFor_def)
  show "pr_id r \<in> set (pl_delete (planChanges d k ex cs)) \<longleftrightarrow> \<not> needsRules d c"
  proof
    assume "pr_id r \<in> set (pl_delete (planChanges d k ex cs))"
    then obtain c' r' where "c' \<in> set cs" "\<not> needsRules d c'" "r' \<in> set (existingFor (pc_toolId c') ex)" "pr_id r' = pr_id r"
      unfolding in_delete image_iff by fastforce
    with same show "\<not> needsRules d c" by blast
  next
    assume "\<not> needsRules d c"
    with mem c(1) show "pr_id r \<in> set (pl_delete (planChanges d k ex cs))" unfolding in_delete by blast
  qed
  show "(pr_id r, a) \<in> set (pl_update (planChanges d k ex cs)) \<longleftrightarrow>
      needsRules d c \<and> a = permissionText (pc_permission c) \<and> (pr_action r \<noteq> a \<or> k)"
    unfolding in_update using same mem c(1) by metis
qed

lemma plan_untouched:
  assumes "distinct (map pr_id t)" "ex = filter P t" "r \<in> set t"
    and "\<not> (P r \<and> (\<exists>c \<in> set cs. metadataIs ''toolId'' (pc_toolId c) r))"
  shows "pr_id r \<notin> set (pl_delete (planChanges d k ex cs))" "pr_id r \<notin> fst ` set (pl_update (planChanges d k ex cs))"
proof -
  have no: "pr_id r' \<noteq> pr_id r" if a: "c \<in> set cs" "r' \<in> set (existingFor (pc_toolId c) ex)" for c r'
  proof
    assume e: "pr_id r' = pr_id r"
    have m: "r' \<in> set t" "P r'" "metadataIs ''toolId'' (pc_toolId c) r'"
      using a(2) assms(2) by (simp_all add: existingFor_def)
    have "r' = r" using assms(1) e m(1) assms(3) by (simp add: distinct_map inj_on_def)
    with m a(1) assms(4) show False by blast
  qed
  show "pr_id r \<notin> set (pl_delete (planChanges d k ex cs))" unfolding in_delete using no by (metis imageE)
  show "pr_id r \<notin> fst ` set (pl_update (planChanges d k ex cs))"
  proof
    assume "pr_id r \<in> fst ` set (pl_update (planChanges d k ex cs))"
    then obtain a where "(pr_id r, a) \<in> set (pl_update (planChanges d k ex cs))" by force
    then show False using no unfolding in_update by blast
  qed
qed

text \<open>The table after the call: the surviving rows brought to their permission, then the new rows.\<close>

definition survivors :: "bool \<Rightarrow> bool \<Rightarrow> where_clause \<Rightarrow> string \<Rightarrow> permission_change list \<Rightarrow> policy_row list \<Rightarrow> policy_row list" where
  "survivors d k w provider cs t =
     filter (\<lambda>r. pr_id r \<notin> set (pl_delete (planChanges d k (filter (appRow w provider) t) cs))) t"

lemma survivors_of_tool:
  assumes "distinct (map pr_id t)" "distinct (map pc_toolId cs)" "c \<in> set cs"
  shows "filter (\<lambda>r. appRow w provider r \<and> metadataIs ''toolId'' (pc_toolId c) r) (survivors d k w provider cs t) =
    (if needsRules d c then existingFor (pc_toolId c) (filter (appRow w provider) t) else [])"
proof -
  have "pr_id r \<in> set (pl_delete (planChanges d k (filter (appRow w provider) t) cs)) \<longleftrightarrow> \<not> needsRules d c"
    if "r \<in> set t" "appRow w provider r" "metadataIs ''toolId'' (pc_toolId c) r" for r
    by (rule plan_fate(1) [where P = "appRow w provider", OF assms(1,2) _ that(1,2) assms(3) that(3)]) (rule refl)
  then show ?thesis by (auto simp: survivors_def existingFor_def intro!: filter_cong filter_False)
qed

lemma service_result:
  assumes "rc_gate call scope (map (\<lambda>c. permissionText (pc_permission c)) cs) = Inr ()"
    and w: "scopeWhere scope = Inr w" "scopeCreate scope = Inr owner" "\<forall>r :: policy_row. selects w r \<longrightarrow> deleteWhere scope r"
    and ids: "distinct (map pr_id (rs_rules st))" "distinct (map pc_toolId cs)"
    and plan: "plan = planChanges (mode = Some ''deny'') (q \<noteq> None) (filter (appRow w provider) (rs_rules st)) cs"
  shows "setAppPermissionsService call st scope provider cs q mode =
    Inr (\<lparr> pk_created = length (pl_create plan), pk_updated = length (pl_update plan), pk_deleted = length (pl_delete plan) \<rparr>,
      st\<lparr>rs_rules := map (updated q (pl_update plan))
           (survivors (mode = Some ''deny'') (q \<noteq> None) w provider cs (rs_rules st)) @
         newRows call owner provider q 0 (pl_create plan)\<rparr>)"
proof -
  let ?t = "rs_rules st" and ?ex = "filter (appRow w provider) (rs_rules st)"
  have del: "deleteWhere scope r" if a: "r \<in> set ?t" "pr_id r \<in> set (pl_delete plan)" for r
  proof -
    obtain c r' where b: "c \<in> set cs" "r' \<in> set (existingFor (pc_toolId c) ?ex)" "pr_id r' = pr_id r"
      using a(2) unfolding plan in_delete by (metis imageE)
    then have m: "r' \<in> set ?t" "selects w r'" by (simp_all add: existingFor_def appRow_def)
    then have "r' = r" using a(1) b(3) ids(1) by (simp add: distinct_map inj_on_def)
    with m w(3) show ?thesis by simp
  qed
  have kept: "filter (\<lambda>r. \<not> (pr_id r \<in> set (pl_delete plan) \<and> deleteWhere scope r)) ?t =
      survivors (mode = Some ''deny'') (q \<noteq> None) w provider cs ?t"
    unfolding survivors_def plan [symmetric] using del by (intro filter_cong) auto
  have "i \<in> pr_id ` set (survivors (mode = Some ''deny'') (q \<noteq> None) w provider cs ?t)"
    if u: "(i, a) \<in> set (pl_update plan)" for i a
  proof -
    obtain c r where c: "c \<in> set cs" "needsRules (mode = Some ''deny'') c" "r \<in> set (existingFor (pc_toolId c) ?ex)" "pr_id r = i"
      using u unfolding plan in_update by blast
    then have "r \<in> set (survivors (mode = Some ''deny'') (q \<noteq> None) w provider cs ?t)"
      using arg_cong [OF survivors_of_tool [OF ids c(1), of w provider "mode = Some ''deny''" "q \<noteq> None"], of set] by auto
    with c(4) show ?thesis by blast
  qed
  then have "fst ` set (pl_update plan) \<subseteq> pr_id ` set (survivors (mode = Some ''deny'') (q \<noteq> None) w provider cs ?t)"
    by auto
  from runUpdates_eq [OF this, of q] show ?thesis
    by (simp only: setAppPermissionsService_def assms(1) listed [OF w(1)] bindR_simps Let_def plan [symmetric] kept
        runCreates_eq [OF w(2)])
qed

lemma new_row_app:
  assumes "scopeCreate scope = Inr owner" "scopeWhere scope = Inr w" "r \<in> set (newRows call owner provider q n cvs)"
  obtains c v i where "(c, v) \<in> set cvs" "r = permissionRow call owner provider q i (c, v)" "appRow w provider r"
    "metadataIs ''toolId'' (pc_toolId c) r" "pr_action r = permissionText (pc_permission c)"
proof -
  obtain i c v where cv: "(c, v) \<in> set cvs" "r = permissionRow call owner provider q i (c, v)"
    using in_newRows [OF assms(3)] by auto
  have "selects w owner" by (rule scopes.create_seen [OF assms(1,2)])
  then have "selects w r" by (cases w) (simp_all add: cv(2))
  then show ?thesis by (intro that [OF cv]) (simp_all add: appRow_def cv(2) metadataIs_permissionRow)
qed

definition touches :: "where_clause \<Rightarrow> string \<Rightarrow> permission_change list \<Rightarrow> policy_row \<Rightarrow> bool" where
  "touches w provider cs r \<longleftrightarrow> appRow w provider r \<and> (\<exists>c \<in> set cs. metadataIs ''toolId'' (pc_toolId c) r)"

text \<open>What a change asks of the rules of its tool.\<close>

definition change_in_effect :: "bool \<Rightarrow> policy_row list \<Rightarrow> permission_change \<Rightarrow> bool" where
  "change_in_effect isDenyMode rows c \<longleftrightarrow>
     (let rs = existingFor (pc_toolId c) rows
      in if needsRules isDenyMode c
         then list_all (\<lambda>r. pr_action r = permissionText (pc_permission c)) rs \<and> missingVariants (pc_tool c) rs = []
         else rs = [])"

lemma missing_covered:
  "missingVariants tool rs = [] \<longleftrightarrow>
   (\<forall>v \<in> set (allRuleVariants tool). \<exists>r \<in> set rs. variantKey (pr_pathPattern r) (pr_method r) = variantKey (Some (fst v)) (snd v))"
  unfolding missingVariants_def filter_empty_conv set_map image_iff not_not by metis

lemma permissions_post:
  assumes "rc_gate call scope (map (\<lambda>c. permissionText (pc_permission c)) cs) = Inr ()"
    and scope: "scope \<in> {project_scope x, organization_scope x}" "x \<noteq> ''''"
    and ids: "distinct (map pr_id (rs_rules st))" "distinct (map pc_toolId cs)"
  obtains k st' w where "setAppPermissionsService call st scope provider cs q mode = Inr (k, st')"
    "scopeWhere scope = Inr w" "rs_agents st' = rs_agents st"
    "\<forall>c \<in> set cs. change_in_effect (mode = Some ''deny'') (filter (appRow w provider) (rs_rules st')) c"
    "filter (\<lambda>r. \<not> touches w provider cs r) (rs_rules st') = filter (\<lambda>r. \<not> touches w provider cs r) (rs_rules st)"
proof -
  let ?d = "mode = Some ''deny''" and ?k = "q \<noteq> None" and ?t = "rs_rules st"
  obtain w owner where w: "scopeWhere scope = Inr w" "scopeCreate scope = Inr owner" "selects w owner"
    "\<forall>r :: policy_row. selects w r \<longrightarrow> deleteWhere scope r" by (rule single_scope [OF scope])
  let ?ex = "filter (appRow w provider) ?t"
  define plan where "plan = planChanges ?d ?k ?ex cs"
  let ?up = "updated q (pl_update plan)" and ?new = "newRows call owner provider q 0 (pl_create plan)"
  let ?kept = "survivors ?d ?k w provider cs ?t"
  let ?after = "map ?up ?kept @ ?new"
  have run: "setAppPermissionsService call st scope provider cs q mode =
    Inr (\<lparr> pk_created = length (pl_create plan), pk_updated = length (pl_update plan), pk_deleted = length (pl_delete plan) \<rparr>,
      st\<lparr>rs_rules := ?after\<rparr>)"
    by (rule service_result [OF assms(1) w(1,2,4) ids plan_def])
  have new: "appRow w provider r \<and> (\<exists>c v i. (c, v) \<in> set (pl_create plan) \<and> r = permissionRow call owner provider q i (c, v) \<and>
      metadataIs ''toolId'' (pc_toolId c) r \<and> pr_action r = permissionText (pc_permission c))" if "r \<in> set ?new" for r
    using new_row_app [OF w(2,1) that] by metis
  have effect: "change_in_effect ?d (filter (appRow w provider) ?after) c" if c: "c \<in> set cs" for c
  proof -
    let ?rs = "existingFor (pc_toolId c) ?ex"
    have old: "existingFor (pc_toolId c) (filter (appRow w provider) (map ?up ?kept)) =
        map ?up (if needsRules ?d c then ?rs else [])"
    proof -
      have "existingFor (pc_toolId c) (filter (appRow w provider) (map ?up ?kept)) =
          map ?up (filter (\<lambda>r. appRow w provider r \<and> metadataIs ''toolId'' (pc_toolId c) r) ?kept)"
        by (simp add: existingFor_def filter_map comp_def)
      then show ?thesis by (simp only: survivors_of_tool [OF ids c])
    qed
    have created: "(c', v) \<in> set (pl_create plan) \<Longrightarrow> pc_toolId c' = pc_toolId c \<Longrightarrow> c' = c \<and> needsRules ?d c" for c' v
      using c ids(2) unfolding plan_def in_create by (auto simp: distinct_map inj_on_def)
    have acts: "pr_action (?up r) = permissionText (pc_permission c)" if a: "r \<in> set ?rs" "needsRules ?d c" for r
    proof (rule updated_action)
      have r: "r \<in> set ?t" "appRow w provider r" "metadataIs ''toolId'' (pc_toolId c) r"
        using a(1) by (simp_all add: existingFor_def)
      have fate: "(pr_id r, a) \<in> set (pl_update plan) \<longleftrightarrow>
          needsRules ?d c \<and> a = permissionText (pc_permission c) \<and> (pr_action r \<noteq> a \<or> ?k)" for a
        unfolding plan_def by (rule plan_fate(2) [where P = "appRow w provider", OF ids _ r(1,2) c r(3)]) (rule refl)
      show "\<forall>a'. (pr_id r, a') \<in> set (pl_update plan) \<longrightarrow> a' = permissionText (pc_permission c)" using fate by blast
      show "pr_action r = permissionText (pc_permission c) \<or> pr_id r \<in> fst ` set (pl_update plan)"
        using fate [of "permissionText (pc_permission c)"] a(2) by force
    qed
    let ?new_c = "existingFor (pc_toolId c) (filter (appRow w provider) ?new)"
    have split: "existingFor (pc_toolId c) (filter (appRow w provider) ?after) =
        map ?up (if needsRules ?d c then ?rs else []) @ ?new_c"
      using old by (simp add: existingFor_def)
    have from_new: "needsRules ?d c \<and> pr_action r = permissionText (pc_permission c)" if "r \<in> set ?new_c" for r
    proof -
      have "r \<in> set ?new" "metadataIs ''toolId'' (pc_toolId c) r" using that by (simp_all add: existingFor_def)
      with new [of r] created show ?thesis by (metis metadataIs_unique)
    qed
    show ?thesis
    proof (cases "needsRules ?d c")
      case True
      have "missingVariants (pc_tool c) (map ?up ?rs @ ?new_c) = []"
        unfolding missing_covered
      proof
        fix v assume v: "v \<in> set (allRuleVariants (pc_tool c))"
        show "\<exists>r \<in> set (map ?up ?rs @ ?new_c). variantKey (pr_pathPattern r) (pr_method r) = variantKey (Some (fst v)) (snd v)"
        proof (cases "v \<in> set (missingVariants (pc_tool c) ?rs)")
          case m: True
          then obtain i where "permissionRow call owner provider q i (c, v) \<in> set ?new"
            using created_row c True unfolding plan_def by (metis in_create)
          then have "permissionRow call owner provider q i (c, v) \<in> set ?new_c"
            using new metadataIs_permissionRow(3) by (auto simp: existingFor_def)
          then show ?thesis by (intro bexI [of _ "permissionRow call owner provider q i (c, v)"]) simp_all
        next
          case False
          with v obtain r where "r \<in> set ?rs" "variantKey (pr_pathPattern r) (pr_method r) = variantKey (Some (fst v)) (snd v)"
            by (auto simp: missingVariants_def)
          then show ?thesis by (intro bexI [of _ "?up r"]) simp_all
        qed
      qed
      then show ?thesis
        unfolding change_in_effect_def Let_def split using True acts from_new by (auto simp: list_all_iff)
    next
      case False
      then have "?new_c = []" using from_new by (metis list.set_intros(1) neq_Nil_conv)
      then show ?thesis unfolding change_in_effect_def Let_def split using False by simp
    qed
  qed
  have rest: "filter (\<lambda>r. \<not> touches w provider cs r) ?after = filter (\<lambda>r. \<not> touches w provider cs r) ?t"
  proof -
    have "filter (\<lambda>r. \<not> touches w provider cs r) ?new = []"
      using new unfolding filter_empty_conv plan_def in_create touches_def by blast
    moreover have "filter (\<lambda>r. \<not> touches w provider cs r) (map ?up ?kept) = filter (\<lambda>r. \<not> touches w provider cs r) ?t"
    proof -
      have same: "?up r = r" "pr_id r \<notin> set (pl_delete plan)" if u: "r \<in> set ?t" "\<not> touches w provider cs r" for r
        using plan_untouched [where P = "appRow w provider", OF ids(1) refl u(1)] u(2)
        by (simp_all add: touches_def plan_def updated_none)
      have "filter (\<lambda>r. \<not> touches w provider cs r) (map ?up ?kept) = map ?up (filter (\<lambda>r. \<not> touches w provider cs r) ?kept)"
        by (simp add: filter_map comp_def touches_def)
      also have "\<dots> = filter (\<lambda>r. \<not> touches w provider cs r) ?kept"
        by (rule map_idI) (auto simp: survivors_def same(1))
      also have "\<dots> = filter (\<lambda>r. \<not> touches w provider cs r) ?t"
        using same(2) by (auto simp: survivors_def plan_def intro!: filter_cong)
      finally show ?thesis .
    qed
    ultimately show ?thesis by simp
  qed
  show ?thesis by (rule that [OF run w(1)]) (use effect rest in simp_all)
qed

text \<open>A plan of changes that are in effect is empty.\<close>

lemma planned_nothing:
  assumes "change_in_effect d ex c"
  shows "planChange d False ex c = emptyPlan"
proof -
  note eff = assms [unfolded change_in_effect_def Let_def]
  show ?thesis
  proof (cases "needsRules d c")
    case True
    then have "list_all (\<lambda>r. pr_action r = permissionText (pc_permission c)) (existingFor (pc_toolId c) ex)"
      "missingVariants (pc_tool c) (existingFor (pc_toolId c) ex) = []" using eff by simp_all
    then show ?thesis
      using True by (auto simp: planChange_eq emptyPlan_def updatesFor_def filter_empty_conv list_all_iff missingVariants_Nil)
  next
    case False
    then show ?thesis using eff by (simp add: planChange_eq emptyPlan_def)
  qed
qed

lemma plan_in_effect: "\<forall>c \<in> set cs. change_in_effect d ex c \<Longrightarrow> planChanges d False ex cs = emptyPlan"
  by (induction cs) (simp_all add: planned_nothing, simp add: appendPlan_def emptyPlan_def)

section \<open>A sample\<close>

definition sampleCall :: rule_call where
  "sampleCall = \<lparr> rc_gate = openGate, rc_now = 7, rc_newId = (\<lambda>n. replicate (n + 1) CHR ''n'') \<rparr>"

definition sampleTool :: app_tool where
  "sampleTool = \<lparr> tl_id = ''send'', tl_name = ''Send'', tl_description = ''Send mail'', tl_hostPattern = ''mail.example'',
     tl_pathPattern = ''/send'', tl_aliasPatterns = Some [''/v2/send''], tl_method = Some ''POST'', tl_methods = None \<rparr>"

definition sampleChange :: "permission_level \<Rightarrow> permission_change" where
  "sampleChange p = \<lparr> pc_toolId = ''send'', pc_permission = p, pc_tool = sampleTool \<rparr>"

definition sampleRow :: "string \<Rightarrow> scoped \<Rightarrow> policy_row" where
  "sampleRow k owner = (permissionRow sampleCall owner ''mail'' None 0 (sampleChange Perm_block, (''/send'', Some ''POST'')))\<lparr>pr_id := k\<rparr>"

definition sampleRules :: rule_store where
  "sampleRules = \<lparr> rs_rules =
     [sampleRow ''a'' \<lparr> so_scope = ''project'', so_projectId = Some ''p'', so_organizationId = None, so_partnerId = None \<rparr>,
      sampleRow ''b'' \<lparr> so_scope = ''organization'', so_projectId = None, so_organizationId = Some ''o'', so_partnerId = None \<rparr>],
     rs_agents = [\<lparr> ag_id = ''agent'', ag_projectId = ''p'' \<rparr>] \<rparr>"

lemma sampleRules_simps [simp]:
  "rc_gate sampleCall s a = Inr ()" "distinct (map pr_id (rs_rules sampleRules))"
  "distinct (map pc_toolId [sampleChange v])" "pc_permission (sampleChange v) = v"
  by (simp_all add: sampleCall_def openGate_def sampleRules_def sampleRow_def permissionRow_def sampleChange_def)

section \<open>Properties\<close>



text \<open>Permission changes are idempotent: applied a second time, without conditions, they create, update
  and delete nothing and leave the table as it is.\<close>

lemma permissions_idempotent:
  assumes "setAppPermissionsService call st scope provider cs conditions mode = Inr (k, st')"
    and "scope \<in> {project_scope x, organization_scope x}" "x \<noteq> ''''"
    and "distinct (map pr_id (rs_rules st))" "distinct (map pc_toolId cs)"
    and "rc_gate again scope (map (\<lambda>c. permissionText (pc_permission c)) cs) = Inr ()"
  shows "setAppPermissionsService again st' scope provider cs None mode =
    Inr (\<lparr> pk_created = 0, pk_updated = 0, pk_deleted = 0 \<rparr>, st')"
proof -
  have gate: "rc_gate call scope (map (\<lambda>c. permissionText (pc_permission c)) cs) = Inr ()"
    using assms(1) by (auto simp: setAppPermissionsService_def bindR_Inr_iff)
  obtain k' t w where
    p: "setAppPermissionsService call st scope provider cs conditions mode = Inr (k', t)"
    and w: "scopeWhere scope = Inr w"
    "\<forall>c \<in> set cs. change_in_effect (mode = Some ''deny'') (filter (appRow w provider) (rs_rules t)) c"
    by (rule permissions_post [OF gate assms(2-5), of provider conditions mode])
  have t: "t = st'" using p assms(1) by simp
  have empty: "planChanges (mode = Some ''deny'') False (filter (appRow w provider) (rs_rules st')) cs = emptyPlan"
    using plan_in_effect [OF w(2)] by (simp only: t)
  have all: "filter (\<lambda>r. \<not> (pr_id r \<in> set (pl_delete emptyPlan) \<and> deleteWhere scope r)) u = u" for u
    by (simp add: emptyPlan_def)
  show ?thesis
    by (simp only: setAppPermissionsService_def assms(6) listed [OF w(1)] bindR_simps Let_def empty all
          not_None_eq option.simps simp_thms)
      (simp add: emptyPlan_def)
qed

lemma permissions_idempotent_witness:
  "\<exists>k st'. setAppPermissionsService sampleCall sampleRules (project_scope ''p'') ''mail'' [sampleChange Perm_allow]
      None (Some ''allow'') = Inr (k, st') \<and> pk_deleted k = 1 \<and>
    setAppPermissionsService sampleCall st' (project_scope ''p'') ''mail'' [sampleChange Perm_allow] None (Some ''allow'') =
      Inr (\<lparr> pk_created = 0, pk_updated = 0, pk_deleted = 0 \<rparr>, st')"
proof -
  obtain k st' where first: "setAppPermissionsService sampleCall sampleRules (project_scope ''p'') ''mail'' [sampleChange Perm_allow]
      None (Some ''allow'') = Inr (k, st')" "pk_deleted k = 1"
    unfolding sampleRules_def by (simp add: setAppPermissionsService_def listAppPermissionRules_def sampleRow_def permissionRow_def
        sampleCall_def openGate_def metadataIs_def oget_def sampleChange_def planChange_def existingFor_def Let_def
        appendPlan_def emptyPlan_def deleteWhere_def set_nonempty_def)
  have "setAppPermissionsService sampleCall st' (project_scope ''p'') ''mail'' [sampleChange Perm_allow] None (Some ''allow'') =
      Inr (\<lparr> pk_created = 0, pk_updated = 0, pk_deleted = 0 \<rparr>, st')"
    by (rule permissions_idempotent [OF first(1), where x = "''p''"])
      (simp_all only: sampleRules_simps insertI1 list.distinct simp_thms)
  with first show ?thesis by blast
qed

end
