(* ===== verification/Blocklist.thy ===== *)
theory Blocklist
  imports Policy_Rules
begin

text \<open>
  The per-app blocklist, \<^verbatim>\<open>packages/api/src/services/app-blocklist-service.ts\<close>: policy rules that block a host,
  marked by their metadata, one for each predefined host of an app and any number of custom ones.
\<close>

record blocklist_host =
  bh_id :: string
  bh_name :: string
  bh_hostPattern :: string

text \<open>The host id and the name of a custom rule are whatever its metadata holds.\<close>

record host_state =
  hs_hostId :: js
  hs_ruleId :: "string option"
  hs_enabled :: bool
  hs_custom :: bool
  hs_name :: js
  hs_hostPattern :: string
  hs_scope :: "string option"

definition blocklistRow :: "policy_row \<Rightarrow> bool" where
  "blocklistRow r \<longleftrightarrow> metadataIs ''source'' ''app_permission'' r \<and> metadataIs ''type'' ''blocklist'' r"

definition blocklistOf :: "string \<Rightarrow> policy_row \<Rightarrow> bool" where
  "blocklistOf provider r \<longleftrightarrow> blocklistRow r \<and> metadataIs ''provider'' provider r"

definition listRules :: "rule_store \<Rightarrow> resource_scope \<Rightarrow> string \<Rightarrow> policy_row list result" where
  "listRules st scope provider =
     bindR (scopeWhere scope) (\<lambda>w. Inr (filter (\<lambda>r. selects w r \<and> blocklistOf provider r) (rs_rules st)))"

text \<open>\<^verbatim>\<open>(rule.metadata as ... | null)?.k\<close>.\<close>

definition metaField :: "policy_row \<Rightarrow> string \<Rightarrow> js" where
  "metaField r k = (case pr_metadata r of None \<Rightarrow> JUndef | Some m \<Rightarrow> jsProp m k)"

section \<open>Creating rules\<close>

definition blockRow :: "rule_call \<Rightarrow> scoped \<Rightarrow> nat \<Rightarrow> string \<Rightarrow> string \<Rightarrow> obj \<Rightarrow> policy_row" where
  "blockRow call owner n name hostPattern metadata =
     \<lparr> so_scope = so_scope owner, so_projectId = so_projectId owner,
       so_organizationId = so_organizationId owner, so_partnerId = so_partnerId owner,
       pr_id = rc_newId call n, pr_agentId = None, pr_name = ''Block '' @ name, pr_hostPattern = hostPattern,
       pr_pathPattern = None, pr_method = None, pr_action = ''block'', pr_enabled = True,
       pr_rateLimit = None, pr_rateLimitWindow = None, pr_metadata = Some (JObj metadata), pr_conditions = None,
       pr_createdAt = rc_now call \<rparr>"

definition hostMetadata :: "string \<Rightarrow> string \<Rightarrow> obj" where
  "hostMetadata provider hostId =
     [(''source'', JStr ''app_permission''), (''type'', JStr ''blocklist''), (''provider'', JStr provider),
      (''hostId'', JStr hostId)]"

definition customMetadata :: "string \<Rightarrow> string \<Rightarrow> string \<Rightarrow> obj" where
  "customMetadata provider hostId customName =
     hostMetadata provider hostId @ [(''custom'', JBool True), (''customName'', JStr customName)]"

fun createHosts :: "rule_call \<Rightarrow> scoped \<Rightarrow> string \<Rightarrow> nat \<Rightarrow> blocklist_host list \<Rightarrow> policy_row list" where
  "createHosts call owner provider n [] = []"
| "createHosts call owner provider n (h # hs) =
     blockRow call owner n (bh_name h) (bh_hostPattern h) (hostMetadata provider (bh_id h)) #
     createHosts call owner provider (n + 1) hs"

text \<open>A host is known when a rule names it; an empty id never is.\<close>

definition hostKnown :: "policy_row list \<Rightarrow> blocklist_host \<Rightarrow> bool" where
  "hostKnown existing h \<longleftrightarrow> bh_id h \<noteq> '''' \<and> list_ex (\<lambda>r. metaField r ''hostId'' = JStr (bh_id h)) existing"

definition initBlocklistDefaults ::
  "rule_call \<Rightarrow> rule_store \<Rightarrow> resource_scope \<Rightarrow> string \<Rightarrow> blocklist_host list \<Rightarrow> rule_store result" where
  "initBlocklistDefaults call st scope provider hosts =
     bindR (listRules st scope provider) (\<lambda>existing.
       let toCreate = filter (\<lambda>h. \<not> hostKnown existing h) hosts
       in if length toCreate = 0 then Inr st
          else bindR (scopeCreate scope) (\<lambda>owner.
            Inr (st\<lparr>rs_rules := rs_rules st @ createHosts call owner provider 0 toCreate\<rparr>)))"

section \<open>The state shown\<close>

text \<open>The rule of a predefined host: the last of the organisation, else the first.\<close>

definition ruleOfHost :: "policy_row list \<Rightarrow> string \<Rightarrow> policy_row option" where
  "ruleOfHost existing hostId =
     (if hostId = '''' then None
      else foldl (\<lambda>prev r. if prev = None \<or> so_scope r = ''organization'' then Some r else prev) None
        (filter (\<lambda>r. metaField r ''hostId'' = JStr hostId \<and> \<not> truthy (metaField r ''custom'')) existing))"

definition getBlocklistState ::
  "rule_store \<Rightarrow> resource_scope \<Rightarrow> string \<Rightarrow> blocklist_host list \<Rightarrow> host_state list result" where
  "getBlocklistState st scope provider hosts =
     bindR (listRules st scope provider) (\<lambda>existing.
       let customRules = filter (\<lambda>r. truthy (metaField r ''hostId'') \<and> truthy (metaField r ''custom'')) existing;
           predefined = map (\<lambda>host.
             let rule = ruleOfHost existing (bh_id host)
             in \<lparr> hs_hostId = JStr (bh_id host), hs_ruleId = map_option pr_id rule,
                  hs_enabled = orElse (map_option pr_enabled rule) False, hs_custom = False,
                  hs_name = JStr (bh_name host), hs_hostPattern = bh_hostPattern host,
                  hs_scope = map_option so_scope rule \<rparr>) hosts;
           custom = map (\<lambda>rule.
             \<lparr> hs_hostId = metaField rule ''hostId'', hs_ruleId = Some (pr_id rule),
               hs_enabled = pr_enabled rule, hs_custom = True,
               hs_name = coalesce (metaField rule ''customName'') (JStr (pr_name rule)),
               hs_hostPattern = pr_hostPattern rule, hs_scope = Some (so_scope rule) \<rparr>) customRules
       in Inr (predefined @ custom))"

section \<open>Changing the blocklist\<close>

definition blocklistNotFound :: error where
  "blocklistNotFound = ServiceError NOT_FOUND ''Blocklist rule not found''"

text \<open>The lookup is by id and scope only: any rule of the scope can be switched through it.\<close>

definition toggleBlocklistRule :: "rule_store \<Rightarrow> resource_scope \<Rightarrow> string \<Rightarrow> bool \<Rightarrow> rule_store result" where
  "toggleBlocklistRule st scope ruleId enabled =
     bindR (scopeWhere scope) (\<lambda>w.
       if \<not> list_ex (\<lambda>r. pr_id r = ruleId \<and> selects w r) (rs_rules st) then Inl blocklistNotFound
       else Inr (st\<lparr>rs_rules := updateRule ruleId (\<lambda>r. r\<lparr>pr_enabled := enabled\<rparr>) (rs_rules st)\<rparr>))"

definition scopeName :: "resource_scope \<Rightarrow> string" where
  "scopeName scope = (if isOrgScope scope then ''organization'' else ''project'')"

definition activeState :: "resource_scope \<Rightarrow> string \<Rightarrow> string \<Rightarrow> bool \<Rightarrow> string \<Rightarrow> string \<Rightarrow> host_state" where
  "activeState scope hostId ruleId custom name hostPattern =
     \<lparr> hs_hostId = JStr hostId, hs_ruleId = Some ruleId, hs_enabled = True, hs_custom = custom,
       hs_name = JStr name, hs_hostPattern = hostPattern, hs_scope = Some (scopeName scope) \<rparr>"

definition findDuplicate :: "where_clause \<Rightarrow> string \<Rightarrow> string \<Rightarrow> policy_row list \<Rightarrow> policy_row option" where
  "findDuplicate w provider hostId rules =
     find (\<lambda>r. selects w r \<and> blocklistOf provider r \<and> metadataIs ''hostId'' hostId r) rules"

definition activateBlocklistHost ::
  "rule_call \<Rightarrow> rule_store \<Rightarrow> resource_scope \<Rightarrow> string \<Rightarrow> string \<Rightarrow> blocklist_host list \<Rightarrow> (host_state \<times> rule_store) result" where
  "activateBlocklistHost call st scope provider hostId hosts =
     (case find (\<lambda>h. bh_id h = hostId) hosts of
        None \<Rightarrow> Inl (ServiceError BAD_REQUEST ''Unknown blocklist host ID'')
      | Some host \<Rightarrow>
          bindR (scopeWhere scope) (\<lambda>w.
            case findDuplicate w provider hostId (rs_rules st) of
              Some duplicate \<Rightarrow>
                Inr (activeState scope hostId (pr_id duplicate) False (bh_name host) (bh_hostPattern host),
                     if pr_enabled duplicate then st
                     else st\<lparr>rs_rules := updateRule (pr_id duplicate) (\<lambda>r. r\<lparr>pr_enabled := True\<rparr>) (rs_rules st)\<rparr>)
            | None \<Rightarrow>
                bindR (scopeCreate scope) (\<lambda>owner.
                  let row = blockRow call owner 0 (bh_name host) (bh_hostPattern host) (hostMetadata provider hostId)
                  in Inr (activeState scope hostId (pr_id row) False (bh_name host) (bh_hostPattern host),
                       st\<lparr>rs_rules := rs_rules st @ [row]\<rparr>))))"

definition addCustomBlocklistRule ::
  "rule_call \<Rightarrow> rule_store \<Rightarrow> resource_scope \<Rightarrow> string \<Rightarrow> string \<Rightarrow> string \<Rightarrow> (host_state \<times> rule_store) result" where
  "addCustomBlocklistRule call st scope provider name hostPattern =
     (let trimmedHost = trim hostPattern; trimmedName = trim name
      in if trimmedHost = '''' \<or> trimmedName = ''''
         then Inl (ServiceError BAD_REQUEST ''Name and host are required'')
         else
           let hostId = ''custom:'' @ trimmedHost
           in bindR (scopeWhere scope) (\<lambda>w.
                if findDuplicate w provider hostId (rs_rules st) \<noteq> None
                then Inl (ServiceError CONFLICT ''This host is already blocked'')
                else bindR (scopeCreate scope) (\<lambda>owner.
                  let row = blockRow call owner 0 trimmedName trimmedHost (customMetadata provider hostId trimmedName)
                  in Inr (activeState scope hostId (pr_id row) True trimmedName trimmedHost,
                       st\<lparr>rs_rules := rs_rules st @ [row]\<rparr>))))"

definition removeBlocklistRule :: "rule_store \<Rightarrow> resource_scope \<Rightarrow> string \<Rightarrow> rule_store result" where
  "removeBlocklistRule st scope ruleId =
     bindR (scopeWhere scope) (\<lambda>w.
       if \<not> list_ex (\<lambda>r. pr_id r = ruleId \<and> selects w r \<and> blocklistRow r) (rs_rules st) then Inl blocklistNotFound
       else Inr (st\<lparr>rs_rules := deleteRule ruleId (rs_rules st)\<rparr>))"

definition removeAllBlocklistRules :: "rule_store \<Rightarrow> resource_scope \<Rightarrow> string \<Rightarrow> rule_store result" where
  "removeAllBlocklistRules st scope provider =
     bindR (scopeWhere scope) (\<lambda>w.
       Inr (st\<lparr>rs_rules := filter (\<lambda>r. \<not> (selects w r \<and> blocklistOf provider r)) (rs_rules st)\<rparr>))"

end
