(* ===== verification/Policy_Runs.thy ===== *)
theory Policy_Runs
  imports Policy_Props Blocklist
begin

text \<open>
  Everything that writes policy rules, as a step relation over both services, and what every step keeps:
  a scope changes only rows it sees, and rules stay ones the gateway enforces as long as updates do
  not take a limit away or bind an organisation's rule to one agent, which the service lets them do.
\<close>

section \<open>Steps\<close>

text \<open>\<open>C\<close> and \<open>U\<close> say which creations and updates occur.\<close>

inductive rule_step ::
  "(resource_scope \<Rightarrow> create_rule_input \<Rightarrow> bool) \<Rightarrow> (resource_scope \<Rightarrow> update_rule_input \<Rightarrow> bool) \<Rightarrow>
   resource_scope \<Rightarrow> rule_store \<Rightarrow> rule_store \<Rightarrow> bool"
  for C U where
  create: "createPolicyRule call st scope input = Inr (r, st') \<Longrightarrow> C scope input \<Longrightarrow> rule_step C U scope st st'"
| update: "updatePolicyRule call st scope k upd = Inr st' \<Longrightarrow> U scope upd \<Longrightarrow> rule_step C U scope st st'"
| delete: "deletePolicyRule st scope k = Inr st' \<Longrightarrow> rule_step C U scope st st'"
| permissions: "setAppPermissionsService call st scope provider changes conditions mode = Inr (counts, st') \<Longrightarrow>
    rule_step C U scope st st'"
| init: "initBlocklistDefaults call st scope provider hosts = Inr st' \<Longrightarrow> rule_step C U scope st st'"
| toggle: "toggleBlocklistRule st scope k on = Inr st' \<Longrightarrow> rule_step C U scope st st'"
| activate: "activateBlocklistHost call st scope provider h hosts = Inr (state, st') \<Longrightarrow> rule_step C U scope st st'"
| custom: "addCustomBlocklistRule call st scope provider name host = Inr (state, st') \<Longrightarrow> rule_step C U scope st st'"
| remove: "removeBlocklistRule st scope k = Inr st' \<Longrightarrow> rule_step C U scope st st'"
| remove_all: "removeAllBlocklistRules st scope provider = Inr st' \<Longrightarrow> rule_step C U scope st st'"

inductive_cases rule_stepE: "rule_step C U scope st st'"

section \<open>What a step writes\<close>

text \<open>Every step is a composition of three kinds of writes to the rows of a clause: rows rewritten in
  place with their columns of scope and id kept, rows deleted, and rows added.\<close>

inductive writes :: "where_clause \<Rightarrow> (policy_row \<Rightarrow> policy_row \<Rightarrow> bool) \<Rightarrow> (policy_row \<Rightarrow> bool) \<Rightarrow>
    policy_row list \<Rightarrow> policy_row list \<Rightarrow> bool" for w R N where
  same: "writes w R N t t"
| rewrite: "writes w R N s t \<Longrightarrow> (\<And>r. r \<in> set t \<Longrightarrow> f r = r \<or> selects w r \<and> selects w (f r) \<and> R r (f r)) \<Longrightarrow>
    writes w R N s (map f t)"
| drop: "writes w R N s t \<Longrightarrow> (\<And>r. r \<in> set t \<Longrightarrow> \<not> P r \<Longrightarrow> selects w r) \<Longrightarrow> writes w R N s (filter P t)"
| add: "writes w R N s t \<Longrightarrow> (\<And>r. r \<in> set new \<Longrightarrow> selects w r \<and> N r) \<Longrightarrow> writes w R N s (t @ new)"

lemma writes_outside: "writes w R N s t \<Longrightarrow> filter (\<lambda>r. \<not> selects w r) t = filter (\<lambda>r. \<not> selects w r) s"
proof (induction rule: writes.induct)
  case (rewrite s t f)
  have "filter (\<lambda>r. \<not> selects w r) (map f t) = map f (filter (\<lambda>r. \<not> selects w r) t)"
    using rewrite.hyps(2) by (auto simp: filter_map comp_def intro!: arg_cong [of _ _ "map f"] filter_cong) metis+
  also have "\<dots> = filter (\<lambda>r. \<not> selects w r) t"
    using rewrite.hyps(2) by (intro map_idI) auto
  finally show ?case using rewrite.IH by simp
next
  case (drop s t P)
  have "filter (\<lambda>r. \<not> selects w r) (filter P t) = filter (\<lambda>r. \<not> selects w r) t"
    using drop.hyps(2) by (auto intro!: filter_cong)
  with drop.IH show ?case by simp
next
  case (add s t new)
  have "filter (\<lambda>r. \<not> selects w r) new = []" using add.hyps(2) by (auto simp: filter_empty_conv)
  with add.IH show ?case by simp
qed simp

lemma writes_all:
  assumes "writes w R N s t" "\<forall>r \<in> set s. I r" "\<And>r r'. I r \<Longrightarrow> selects w r \<Longrightarrow> R r r' \<Longrightarrow> I r'"
    and "\<And>r. selects w r \<Longrightarrow> N r \<Longrightarrow> I r"
  shows "\<forall>r \<in> set t. I r"
  using assms(1,2)
proof (induction rule: writes.induct)
  case (rewrite s t f)
  then show ?case using assms(3) by (auto) metis
qed (use assms(4) in auto)

section \<open>Each operation\<close>

text \<open>An assignment keeps the fields its function keeps.\<close>

lemma assign_keep: "(\<And>v r. g (f v r) = g r) \<Longrightarrow> g (assign f x r) = g r"
  by (simp add: assign_def split: option.split)

lemmas assign_keeps = assign_keep [where g = pr_id] assign_keep [where g = so_scope] assign_keep [where g = so_projectId]
  assign_keep [where g = so_organizationId] assign_keep [where g = so_partnerId] assign_keep [where g = pr_agentId]
  assign_keep [where g = pr_action] assign_keep [where g = pr_rateLimit] assign_keep [where g = pr_rateLimitWindow]

lemma updateData_columns [simp]:
  "pr_id (updateData g u r) = pr_id r" "so_scope (updateData g u r) = so_scope r"
  "so_projectId (updateData g u r) = so_projectId r" "so_organizationId (updateData g u r) = so_organizationId r"
  "so_partnerId (updateData g u r) = so_partnerId r"
  by (simp_all add: updateData_def Let_def assign_keeps)

lemma updateData_agent:
  "pr_agentId (updateData g u r) = (if g then pr_agentId r else case ur_agentId u of None \<Rightarrow> pr_agentId r | Some a \<Rightarrow> orNull a)"
  by (simp add: updateData_def Let_def assign_keeps) (simp add: assign_def assign_keeps split: option.split)

lemma updateData_action:
  "pr_action (updateData g u r) = orElse (ur_action u) (pr_action r)"
  by (cases "ur_action u") (simp_all add: updateData_def Let_def assign_keeps, simp_all add: assign_def orElse_def split: option.splits)

lemma updateData_limit:
  "pr_rateLimit (updateData g u r) = (case ur_rateLimit u of Some l \<Rightarrow> l
     | None \<Rightarrow> case ur_action u of None \<Rightarrow> pr_rateLimit r | Some a \<Rightarrow> if a = ''rate_limit'' then pr_rateLimit r else None)"
  "pr_rateLimitWindow (updateData g u r) = (case ur_rateLimitWindow u of Some l \<Rightarrow> l
     | None \<Rightarrow> case ur_action u of None \<Rightarrow> pr_rateLimitWindow r | Some a \<Rightarrow> if a = ''rate_limit'' then pr_rateLimitWindow r else None)"
  by (simp_all add: updateData_def Let_def assign_keeps, simp_all add: assign_def split: option.split)

text \<open>What a rewritten and an added row can be.\<close>

definition rewritten :: "(resource_scope \<Rightarrow> update_rule_input \<Rightarrow> bool) \<Rightarrow> resource_scope \<Rightarrow> policy_row \<Rightarrow> policy_row \<Rightarrow> bool" where
  "rewritten U scope r r' \<longleftrightarrow> (\<exists>u. U scope u \<and> r' = updateData (isOrgScope scope) u r) \<or>
     (\<exists>q us. (\<forall>(k, a) \<in> set us. a \<noteq> ''rate_limit'') \<and> r' = updated q us r) \<or> (\<exists>e. r' = r\<lparr>pr_enabled := e\<rparr>)"

definition added :: "(resource_scope \<Rightarrow> create_rule_input \<Rightarrow> bool) \<Rightarrow> resource_scope \<Rightarrow> policy_row \<Rightarrow> bool" where
  "added C scope r \<longleftrightarrow>
     (\<exists>owner. scopeCreate scope = Inr owner \<and> so_scope r = so_scope owner \<and> so_projectId r = so_projectId owner) \<and>
     ((\<exists>call st input st'. createPolicyRule call st scope input = Inr (r, st') \<and> C scope input) \<or>
      pr_agentId r = None \<and> pr_action r \<noteq> ''rate_limit'')"

lemma owned_unique:
  "distinct (map pr_id t) \<Longrightarrow> r' \<in> set t \<Longrightarrow> pr_id r' = k \<Longrightarrow> selects w r' \<Longrightarrow> r \<in> set t \<Longrightarrow> pr_id r = k \<Longrightarrow> selects w r"
  by (auto simp: distinct_map inj_on_def)

lemma findOwned_Some:
  "scopeWhere scope = Inr w \<Longrightarrow> findOwned scope k t = Inr (Some r) \<Longrightarrow> r \<in> set t \<and> pr_id r = k \<and> selects w r"
  by (auto simp: findOwned_def bindR_Inr_iff scopes.own_Inr find_Some_iff)

lemma writes_update:
  assumes "distinct (map pr_id t)" "r' \<in> set t" "pr_id r' = k" "selects w r'"
    and "\<And>r. selects w (f r) = selects w r" "\<And>r. R r (f r)"
  shows "writes w R N t (updateRule k f t)"
  unfolding updateRule_def
  by (rule writes.rewrite [OF writes.same]) (use owned_unique [OF assms(1-4)] assms(5,6) in auto)

lemma writes_delete:
  assumes "distinct (map pr_id t)" "r' \<in> set t" "pr_id r' = k" "selects w r'"
  shows "writes w R N t (deleteRule k t)"
  unfolding deleteRule_def
  by (rule writes.drop [OF writes.same]) (use owned_unique [OF assms(1-4)] in auto)

lemma selects_owner:
  assumes "scopeWhere scope = Inr w" "scopeCreate scope = Inr owner" "so_scope r = so_scope owner"
    "so_projectId r = so_projectId owner" "so_organizationId r = so_organizationId owner" "so_partnerId r = so_partnerId owner"
  shows "selects w r"
  using scopes.create_seen [OF assms(2,1)] assms(3-6) by (cases w) simp_all

lemma blockRow_simps [simp]:
  "so_scope (blockRow call o' n a h m) = so_scope o'" "so_projectId (blockRow call o' n a h m) = so_projectId o'"
  "so_organizationId (blockRow call o' n a h m) = so_organizationId o'"
  "so_partnerId (blockRow call o' n a h m) = so_partnerId o'" "pr_agentId (blockRow call o' n a h m) = None"
  "pr_action (blockRow call o' n a h m) = ''block''" "pr_metadata (blockRow call o' n a h m) = Some (JObj m)"
  "pr_enabled (blockRow call o' n a h m) = True" "pr_id (blockRow call o' n a h m) = rc_newId call n"
  by (simp_all add: blockRow_def)

lemma in_createHosts:
  "r \<in> set (createHosts call owner p n hs) \<Longrightarrow> \<exists>i. \<exists>h \<in> set hs.
     r = blockRow call owner i (bh_name h) (bh_hostPattern h) (hostMetadata p (bh_id h))"
proof (induction hs arbitrary: n)
  case (Cons h hs)
  show ?case
  proof (cases "r \<in> set (createHosts call owner p (n + 1) hs)")
    case True
    then show ?thesis using Cons.IH by fastforce
  next
    case False
    then have "r = blockRow call owner n (bh_name h) (bh_hostPattern h) (hostMetadata p (bh_id h))" using Cons.prems by simp
    then show ?thesis by (intro exI [of _ n] bexI [of _ h]) simp_all
  qed
qed simp

lemma writes_create:
  assumes "createPolicyRule call st scope input = Inr (r, st')" "scopeWhere scope = Inr w" "C scope input"
  shows "writes w R (added C scope) (rs_rules st) (rs_rules st')"
proof -
  obtain owner where o: "scopeCreate scope = Inr owner" "rs_rules st' = rs_rules st @ [r]"
    "so_scope r = so_scope owner" "so_projectId r = so_projectId owner" "so_organizationId r = so_organizationId owner"
    "so_partnerId r = so_partnerId owner"
    using assms(1) by (auto simp: createPolicyRule_def Let_def bindR_Inr_iff split: if_splits)
  have "selects w r" by (rule selects_owner [OF assms(2) o(1,3-6)])
  moreover have "added C scope r" using assms(1,3) o(1,3,4) unfolding added_def by blast
  ultimately show ?thesis unfolding o(2) by (intro writes.add writes.same) simp
qed

lemma runUpdates_Inr: "runUpdates q us t = Inr t' \<Longrightarrow> t' = map (updated q us) t"
proof (induction q us t rule: runUpdates.induct)
  case (2 q k a us t)
  then have "t' = map (updated q us) (updateRule k (setRow q a) t)" by (auto split: if_splits)
  then show ?case by (simp add: updateRule_def)
qed (simp add: map_idI)

lemma runCreates_Inr:
  assumes "runCreates call scope provider q n cvs t = Inr t'"
  shows "t' = t \<or> (\<exists>owner. scopeCreate scope = Inr owner \<and> t' = t @ newRows call owner provider q n cvs)"
proof (cases "scopeCreate scope")
  case (Inl e)
  then show ?thesis using assms by (cases cvs) auto
next
  case (Inr owner)
  then show ?thesis using assms by (simp add: runCreates_eq)
qed

lemma writes_permissions:
  assumes "setAppPermissionsService call st scope provider cs q mode = Inr (k, st')" "scopeWhere scope = Inr w"
    and ids: "distinct (map pr_id (rs_rules st))"
  shows "writes w (rewritten U scope) (added C scope) (rs_rules st) (rs_rules st')"
proof -
  let ?t = "rs_rules st" and ?ex = "filter (appRow w provider) (rs_rules st)"
  define plan where "plan = planChanges (mode = Some ''deny'') (q \<noteq> None) ?ex cs"
  define kept where "kept = filter (\<lambda>r. \<not> (pr_id r \<in> set (pl_delete plan) \<and> deleteWhere scope r)) ?t"
  obtain u where u: "runUpdates q (pl_update plan) kept = Inr u"
    "runCreates call scope provider q 0 (pl_create plan) u = Inr (rs_rules st')"
    using assms(1) unfolding setAppPermissionsService_def listed [OF assms(2)] Let_def bindR_Inr_iff
    by (auto simp: plan_def kept_def)
  have sel: "selects w r" if a: "r \<in> set ?t" "pr_id r \<in> set (pl_delete plan) \<or> pr_id r \<in> fst ` set (pl_update plan)" for r
  proof (rule ccontr)
    assume "\<not> selects w r"
    then have "\<not> (appRow w provider r \<and> (\<exists>c \<in> set cs. metadataIs ''toolId'' (pc_toolId c) r))" by (simp add: appRow_def)
    from plan_untouched [where P = "appRow w provider", OF ids refl a(1) this] a(2) show False unfolding plan_def by blast
  qed
  have perm: "a \<noteq> ''rate_limit''" if e: "(i, a) \<in> set (pl_update plan)" for i a
  proof -
    obtain c :: permission_change where "a = permissionText (pc_permission c)" using e unfolding plan_def in_update by blast
    then show ?thesis by (cases "pc_permission c") simp_all
  qed
  let ?W = "writes w (rewritten U scope) (added C scope) ?t"
  have "?W kept" unfolding kept_def by (rule writes.drop [OF writes.same]) (use sel in blast)
  then have "?W (map (updated q (pl_update plan)) kept)"
  proof (rule writes.rewrite)
    fix r assume "r \<in> set kept"
    then have r: "r \<in> set ?t" by (simp add: kept_def)
    have "rewritten U scope r (updated q (pl_update plan) r)" unfolding rewritten_def using perm by blast
    then show "updated q (pl_update plan) r = r \<or> selects w r \<and> selects w (updated q (pl_update plan) r) \<and>
        rewritten U scope r (updated q (pl_update plan) r)"
      using sel [OF r] updated_none [of r "pl_update plan" q] by auto
  qed
  then have W: "?W u" by (simp only: runUpdates_Inr [OF u(1)])
  from runCreates_Inr [OF u(2)] show ?thesis
  proof
    assume "rs_rules st' = u" with W show ?thesis by simp
  next
    assume "\<exists>owner. scopeCreate scope = Inr owner \<and> rs_rules st' = u @ newRows call owner provider q 0 (pl_create plan)"
    then obtain owner where o: "scopeCreate scope = Inr owner"
      and new: "rs_rules st' = u @ newRows call owner provider q 0 (pl_create plan)" by blast
    have "selects w r \<and> added C scope r" if new: "r \<in> set (newRows call owner provider q 0 (pl_create plan))" for r
    proof -
      obtain i cv where "r = permissionRow call owner provider q i cv" using in_newRows [OF new] by blast
      then have "pr_action r \<noteq> ''rate_limit''" "selects w r" "pr_agentId r = None"
        "so_scope r = so_scope owner" "so_projectId r = so_projectId owner"
        using selects_owner [OF assms(2) o, of r] by (cases "pc_permission (fst cv)"; simp)+
      then show ?thesis using o by (auto simp: added_def)
    qed
    then show ?thesis unfolding new by (rule writes.add [OF W])
  qed
qed

lemma rewritten_enabled: "rewritten U scope r (r\<lparr>pr_enabled := e\<rparr>)"
  unfolding rewritten_def by blast

lemma selects_update:
  "selects w (r\<lparr>pr_enabled := e\<rparr>) = selects w r" "selects w (updateData g u r) = selects w r"
  by (cases w; simp)+

lemma writes_block:
  assumes "scopeWhere scope = Inr w" "scopeCreate scope = Inr owner"
  shows "writes w R (added C scope) t (t @ [blockRow call owner n a h m])"
  by (rule writes.add [OF writes.same]) (use selects_owner [OF assms, of "blockRow call owner n a h m"] assms(2) in \<open>auto simp: added_def\<close>)

lemma activate_writes:
  assumes "activateBlocklistHost call st scope provider h hosts = Inr (state, st')" "scopeWhere scope = Inr w"
  obtains "st' = st" | r where "r \<in> set (rs_rules st)" "selects w r"
      "rs_rules st' = updateRule (pr_id r) (\<lambda>r. r\<lparr>pr_enabled := True\<rparr>) (rs_rules st)"
    | owner n a m where "scopeCreate scope = Inr owner" "rs_rules st' = rs_rules st @ [blockRow call owner 0 n a m]"
proof (cases "find (\<lambda>x. bh_id x = h) hosts")
  case None
  then show ?thesis using assms(1) by (simp add: activateBlocklistHost_def)
next
  case (Some host)
  show ?thesis
  proof (cases "findDuplicate w provider h (rs_rules st)")
    case None
    obtain owner where "scopeCreate scope = Inr owner" "rs_rules st' = rs_rules st @
        [blockRow call owner 0 (bh_name host) (bh_hostPattern host) (hostMetadata provider h)]"
      using assms Some None by (auto simp: activateBlocklistHost_def Let_def bindR_Inr_iff)
    then show ?thesis by (rule that(3))
  next
    case dup: (Some r)
    then have r: "r \<in> set (rs_rules st)" "selects w r" by (auto simp: findDuplicate_def find_Some_iff)
    have "st' = (if pr_enabled r then st else
        st\<lparr>rs_rules := updateRule (pr_id r) (\<lambda>r. r\<lparr>pr_enabled := True\<rparr>) (rs_rules st)\<rparr>)"
      using assms Some dup by (simp add: activateBlocklistHost_def)
    then show ?thesis using that(1) that(2) [OF r] by (simp split: if_splits)
  qed
qed

lemma step_writes:
  assumes "rule_step C U scope st st'" "scopeWhere scope = Inr w" "distinct (map pr_id (rs_rules st))"
  shows "writes w (rewritten U scope) (added C scope) (rs_rules st) (rs_rules st')"
  using assms(1)
proof cases
  case (create call input r)
  then show ?thesis by (intro writes_create assms(2))
next
  case (update call k upd)
  then obtain r where "findOwned scope k (rs_rules st) = Inr (Some r)"
    "rs_rules st' = updateRule k (updateData (isOrgScope scope) upd) (rs_rules st)"
    by (auto simp: updatePolicyRule_def Let_def bindR_Inr_iff split: if_splits)
  moreover have "rewritten U scope x (updateData (isOrgScope scope) upd x)" for x
    using update(2) unfolding rewritten_def by blast
  ultimately show ?thesis
    using findOwned_Some [OF assms(2)] by (metis writes_update [OF assms(3)] selects_update(2))
next
  case (delete k)
  then obtain r where "findOwned scope k (rs_rules st) = Inr (Some r)" "rs_rules st' = deleteRule k (rs_rules st)"
    by (auto simp: deletePolicyRule_def bindR_Inr_iff split: if_splits)
  then show ?thesis using findOwned_Some [OF assms(2)] by (metis writes_delete [OF assms(3)])
next
  case (permissions call provider changes conditions mode counts)
  then show ?thesis by (intro writes_permissions assms(2,3))
next
  case (init call provider hosts)
  then consider "st' = st" | owner hs where "scopeCreate scope = Inr owner"
      "rs_rules st' = rs_rules st @ createHosts call owner provider 0 hs"
    by (auto simp: initBlocklistDefaults_def Let_def bindR_Inr_iff split: if_splits)
  then show ?thesis
  proof cases
    case 2
    have "selects w r \<and> added C scope r" if new: "r \<in> set (createHosts call owner provider 0 hs)" for r
      using in_createHosts [OF new] selects_owner [OF assms(2) 2(1), of r] 2(1) by (auto simp: added_def)
    then show ?thesis unfolding 2(2) by (rule writes.add [OF writes.same])
  qed (simp add: writes.same)
next
  case (toggle k on)
  then obtain r where "r \<in> set (rs_rules st)" "pr_id r = k" "selects w r"
    "rs_rules st' = updateRule k (\<lambda>r. r\<lparr>pr_enabled := on\<rparr>) (rs_rules st)"
    by (auto simp: toggleBlocklistRule_def assms(2) list_ex_iff split: if_splits)
  then show ?thesis by (metis writes_update [OF assms(3)] selects_update(1) rewritten_enabled)
next
  case (activate call provider h hosts state)
  from activate_writes [OF activate assms(2)] show ?thesis
  proof cases
    case 2
    then show ?thesis by (metis writes_update [OF assms(3)] selects_update(1) rewritten_enabled)
  next
    case 3
    then show ?thesis by (metis writes_block [OF assms(2)])
  qed (simp add: writes.same)
next
  case (custom call provider name host state)
  then obtain owner n a m where "scopeCreate scope = Inr owner" "rs_rules st' = rs_rules st @ [blockRow call owner 0 n a m]"
    by (auto simp: addCustomBlocklistRule_def Let_def bindR_Inr_iff assms(2) split: if_splits)
  then show ?thesis by (metis writes_block [OF assms(2)])
next
  case (remove k)
  then obtain r where "r \<in> set (rs_rules st)" "pr_id r = k" "selects w r" "rs_rules st' = deleteRule k (rs_rules st)"
    by (auto simp: removeBlocklistRule_def assms(2) list_ex_iff split: if_splits)
  then show ?thesis by (metis writes_delete [OF assms(3)])
next
  case (remove_all provider)
  then show ?thesis
    by (auto simp: removeAllBlocklistRules_def assms(2) intro!: writes.drop [OF writes.same])
qed

lemma step_scope:
  assumes "rule_step C U scope st st'"
  obtains w where "scopeWhere scope = Inr w"
proof (cases "scopeWhere scope")
  case (Inl e)
  then have own: "scopeOwnership scope k = Inl e" for k by (simp add: scopes.own_Inl)
  have new: "scopeCreate scope \<noteq> Inr owner" for owner using Inl scopes.create_where [of scope owner] by auto
  from assms show ?thesis
    by cases (use Inl own new in \<open>auto simp: createPolicyRule_def updatePolicyRule_def deletePolicyRule_def findOwned_def
        setAppPermissionsService_def listAppPermissionRules_def initBlocklistDefaults_def listRules_def
        toggleBlocklistRule_def activateBlocklistHost_def addCustomBlocklistRule_def removeBlocklistRule_def
        removeAllBlocklistRules_def Let_def bindR_Inr_iff split: if_splits option.splits\<close>)
qed

section \<open>Runs\<close>

text \<open>Steps of any scopes; the primary key of the table keeps ids distinct.\<close>

inductive rule_run for C U where
  start: "rule_run C U st st"
| step: "rule_run C U s t \<Longrightarrow> distinct (map pr_id (rs_rules t)) \<Longrightarrow> rule_step C U scope t u \<Longrightarrow> rule_run C U s u"

text \<open>What the gateway enforces and how: a rate limit needs its limit and window (a rule without them is
  dropped), and a rule of the organisation is the floor for every agent.\<close>

definition enforceable :: "policy_row \<Rightarrow> bool" where
  "enforceable r \<longleftrightarrow>
     (pr_action r = ''rate_limit'' \<longrightarrow> pr_rateLimit r \<noteq> None \<and> pr_rateLimitWindow r \<noteq> None) \<and>
     (so_scope r = ''organization'' \<longrightarrow> pr_agentId r = None \<and> so_projectId r = None)"

definition checkedCreate :: "resource_scope \<Rightarrow> create_rule_input \<Rightarrow> bool" where
  "checkedCreate scope input \<longleftrightarrow> (\<exists>raw. createPolicyRuleSchema raw = Some input)"

text \<open>The updates that keep a limit with its action and bind no rule the organisation could own.\<close>

definition carefulUpdate :: "resource_scope \<Rightarrow> update_rule_input \<Rightarrow> bool" where
  "carefulUpdate scope u \<longleftrightarrow>
     (ur_action u = Some ''rate_limit'' \<longrightarrow> ur_rateLimit u \<noteq> None \<and> ur_rateLimitWindow u \<noteq> None) \<and>
     ur_rateLimit u \<noteq> Some None \<and> ur_rateLimitWindow u \<noteq> Some None \<and>
     (set_nonempty (sc_organizationId scope) \<longrightarrow> ur_agentId u = None \<or> ur_agentId u = Some None)"

lemma schema_limit:
  "createPolicyRuleSchema raw = Some input \<Longrightarrow> cr_action input = ''rate_limit'' \<Longrightarrow>
   cr_rateLimit input \<noteq> None \<and> cr_rateLimitWindow input \<noteq> None"
  by (auto simp: createPolicyRuleSchema_def split: if_splits)

lemma added_enforceable:
  assumes "added checkedCreate scope r"
  shows "enforceable r"
proof -
  obtain owner where o: "scopeCreate scope = Inr owner" "so_scope r = so_scope owner" "so_projectId r = so_projectId owner"
    using assms unfolding added_def by blast
  have org: "so_scope r = ''organization'' \<Longrightarrow> isOrgScope scope \<and> so_projectId r = None"
    using o by (auto simp: scopeCreate_def isOrgScope_def split: if_splits)
  have "so_scope r = ''organization'' \<Longrightarrow> pr_agentId r = None"
    using assms org by (auto simp: added_def createPolicyRule_def Let_def bindR_Inr_iff split: if_splits)
  moreover have "pr_action r = ''rate_limit'' \<Longrightarrow> pr_rateLimit r \<noteq> None \<and> pr_rateLimitWindow r \<noteq> None"
    using assms schema_limit
    by (auto simp: added_def checkedCreate_def createPolicyRule_def Let_def bindR_Inr_iff split: if_splits)
  ultimately show ?thesis using org by (simp add: enforceable_def)
qed

lemma updated_enforceable:
  "enforceable r \<Longrightarrow> \<forall>(k, a) \<in> set us. a \<noteq> ''rate_limit'' \<Longrightarrow> enforceable (updated q us r)"
proof (induction q us r rule: updated.induct)
  case (2 q k a us r)
  have "enforceable (setRow q a r)" using "2.prems" by (auto simp: enforceable_def setRow_def)
  with 2 show ?case by simp
qed simp

lemma floor_row:
  assumes "scopeWhere scope = Inr w" "selects w r" "so_scope r = ''organization''" "so_projectId r = None"
  shows "set_nonempty (sc_organizationId scope)"
  using assms by (auto simp: scopeWhere_def split: if_splits)

lemma rewritten_enforceable:
  assumes "enforceable r" "selects w r" "scopeWhere scope = Inr w" "rewritten carefulUpdate scope r r'"
  shows "enforceable r'"
  using assms(4) unfolding rewritten_def
proof (elim disjE exE conjE)
  fix u assume u: "carefulUpdate scope u" "r' = updateData (isOrgScope scope) u r"
  have "pr_action r' = ''rate_limit'' \<Longrightarrow> pr_rateLimit r' \<noteq> None \<and> pr_rateLimitWindow r' \<noteq> None"
    using u assms(1)
    by (cases "ur_action u"; cases "ur_rateLimit u"; cases "ur_rateLimitWindow u")
       (auto simp: updateData_action updateData_limit carefulUpdate_def enforceable_def orElse_def split: if_splits)
  moreover have "so_scope r' = ''organization'' \<Longrightarrow> pr_agentId r' = None \<and> so_projectId r' = None"
    using u assms(1) floor_row [OF assms(3,2)]
    by (auto simp: updateData_agent carefulUpdate_def enforceable_def orNull_def set_nonempty_def)
  ultimately show ?thesis by (simp add: enforceable_def)
next
  fix q us assume "\<forall>(k, a) \<in> set us. a \<noteq> ''rate_limit''" "r' = updated q us r"
  with assms(1) show ?thesis by (simp only: updated_enforceable)
next
  fix e assume "r' = r\<lparr>pr_enabled := e\<rparr>"
  with assms(1) show ?thesis by (simp add: enforceable_def)
qed

section \<open>Properties\<close>

text \<open>C19. Scopes isolate: whatever a scope creates, updates, deletes or sets in policy rules and blocklists, the
  rows it does not see stay as they are, in their order; so a scope that shares no row with it lists
  the same rules before and after.\<close>

theorem scope_isolation:
  assumes "rule_step C U scope st st'" "scopeWhere scope = Inr w" "distinct (map pr_id (rs_rules st))"
  shows "filter (\<lambda>r. \<not> selects w r) (rs_rules st') = filter (\<lambda>r. \<not> selects w r) (rs_rules st) \<and>
    (\<forall>other v. scopeWhere other = Inr v \<and> (\<forall>r :: policy_row. \<not> (selects v r \<and> selects w r)) \<longrightarrow>
      listPolicyRules st' other = listPolicyRules st other)"
proof -
  have out: "filter (\<lambda>r. \<not> selects w r) (rs_rules st') = filter (\<lambda>r. \<not> selects w r) (rs_rules st)"
    by (rule writes_outside [OF step_writes [OF assms]])
  have "filter (selects v) t = filter (selects v) (filter (\<lambda>r. \<not> selects w r) t)"
    if "\<forall>r :: policy_row. \<not> (selects v r \<and> selects w r)" for v and t :: "policy_row list"
    using that by (auto intro!: filter_cong)
  with out show ?thesis unfolding listPolicyRules_def by (metis bindR_simps(2))
qed

theorem scope_isolation_witness:
  "\<exists>st'. rule_step (\<lambda>_ _. False) (\<lambda>_ _. False) (project_scope ''p'') sampleRules st' \<and> st' \<noteq> sampleRules \<and>
    filter (\<lambda>r. \<not> selects (Project_rows ''p'') r) (rs_rules st') =
      filter (\<lambda>r. \<not> selects (Project_rows ''p'') r) (rs_rules sampleRules)"
proof -
  let ?st' = "sampleRules\<lparr>rs_rules := deleteRule ''a'' (rs_rules sampleRules)\<rparr>"
  have "deletePolicyRule sampleRules (project_scope ''p'') ''a'' = Inr ?st'"
    by (simp add: deletePolicyRule_def findOwned_def scopes.own_where sampleRules_def sampleRow_def permissionRow_def sampleChange_def)
  then have step: "rule_step (\<lambda>_ _. False) (\<lambda>_ _. False) (project_scope ''p'') sampleRules ?st'" by (rule rule_step.delete)
  have "?st' \<noteq> sampleRules" by (simp add: sampleRules_def deleteRule_def sampleRow_def)
  moreover have "scopeWhere (project_scope ''p'') = Inr (Project_rows ''p'')" by simp
  note scope_isolation [OF step this sampleRules_simps(2)]
  ultimately show ?thesis using step by blast
qed

text \<open>C20. Rules stay enforceable: through any run of creations checked by the schema, permission changes,
  blocklist changes, deletions and careful updates, of any scopes, every rate limit keeps a limit and
  a window and no rule of the organisation is bound to an agent or a project.\<close>

theorem rules_enforceable:
  assumes "rule_run checkedCreate carefulUpdate st st'" "\<forall>r \<in> set (rs_rules st). enforceable r"
  shows "\<forall>r \<in> set (rs_rules st'). enforceable r"
  using assms
proof (induction rule: rule_run.induct)
  case (step s t scope u)
  obtain w where w: "scopeWhere scope = Inr w" by (rule step_scope [OF step.hyps(3)])
  show ?case
    by (rule writes_all [OF step_writes [OF step.hyps(3) w step.hyps(2)] step.IH [OF step.prems]])
       (use rewritten_enforceable w added_enforceable in blast)+
qed

definition sampleInput :: create_rule_input where
  "sampleInput = \<lparr> cr_name = '' Quota'', cr_hostPattern = ''api.example'', cr_pathPattern = None, cr_method = None,
     cr_action = ''rate_limit'', cr_enabled = True, cr_agentId = None, cr_rateLimit = Some 10,
     cr_rateLimitWindow = Some ''hour'', cr_conditions = None \<rparr>"

lemma sampleInput_checked: "checkedCreate scope (sampleInput\<lparr>cr_name := ''Quota''\<rparr>)"
  unfolding checkedCreate_def by (rule exI [of _ sampleInput]) code_simp

theorem rules_enforceable_witness:
  "\<exists>st'. rule_run checkedCreate carefulUpdate sampleRules st' \<and> length (rs_rules st') = 3 \<and>
    (\<forall>r \<in> set (rs_rules st'). enforceable r)"
proof -
  obtain r st' where made: "createPolicyRule sampleCall sampleRules (organization_scope ''o'') (sampleInput\<lparr>cr_name := ''Quota''\<rparr>) = Inr (r, st')"
    "length (rs_rules st') = 3"
    by (simp add: createPolicyRule_def isOrgScope_def scopeCreate_def set_nonempty_def Let_def sampleRules_def)
  have "rule_step checkedCreate carefulUpdate (organization_scope ''o'') sampleRules st'"
    by (rule rule_step.create) (rule made(1), rule sampleInput_checked)
  from rule_run.step [OF rule_run.start sampleRules_simps(2) this]
  have run: "rule_run checkedCreate carefulUpdate sampleRules st'" .
  have "\<forall>r \<in> set (rs_rules sampleRules). enforceable r"
    by (simp add: sampleRules_def sampleRow_def permissionRow_def sampleChange_def enforceable_def)
  from rules_enforceable [OF run this] run made(2) show ?thesis by blast
qed

text \<open>C22. The floor can be escaped by an update: called as the rules route calls it, with the project and its
  organisation, an update the schema accepts binds a rule of the organisation to a single agent of the
  project, and another turns a rule into a rate limit without limit or window.\<close>

theorem updates_escape_floor:
  assumes "p \<noteq> ''''" "o' \<noteq> ''''" "a \<noteq> ''''" "agentExists st a (Some p)" "rc_gate call scope [''rate_limit''] = Inr ()"
    and scope: "scope = \<lparr> sc_projectId = Some p, sc_organizationId = Some o', sc_partnerId = None \<rparr>"
    and r: "r \<in> set (rs_rules st)" "so_scope r = ''organization''" "so_organizationId r = Some o'"
    and "distinct (map pr_id (rs_rules st))" "bind = noUpdate\<lparr>ur_agentId := Some (Some a)\<rparr>"
    and "limit = noUpdate\<lparr>ur_action := Some ''rate_limit''\<rparr>"
  shows "updatePolicyRuleSchema bind = Some bind \<and> updatePolicyRuleSchema limit = Some limit \<and>
    (\<exists>st'. updatePolicyRule call st scope (pr_id r) bind = Inr st' \<and> r\<lparr>pr_agentId := Some a\<rparr> \<in> set (rs_rules st')) \<and>
    (\<exists>st'. updatePolicyRule call st scope (pr_id r) limit = Inr st' \<and> r\<lparr>pr_action := ''rate_limit''\<rparr> \<in> set (rs_rules st'))"
proof -
  have w: "scopeWhere scope = Inr (Project_or_organization_rows p o')"
    using assms(1,2) scope by (simp add: scopeWhere_def set_nonempty_def)
  have "findOwned scope (pr_id r) (rs_rules st) \<noteq> Inr None"
    using r w by (auto simp: findOwned_def scopes.own_where find_None_iff)
  then obtain q where q: "findOwned scope (pr_id r) (rs_rules st) = Inr (Some q)"
    by (auto simp: findOwned_def scopes.own_where w)
  have sets: "updateData False bind r = r\<lparr>pr_agentId := Some a\<rparr>" "updateData False limit r = r\<lparr>pr_action := ''rate_limit''\<rparr>"
    using assms(3,11,12) by (simp_all add: updateData_def noUpdate_def assign_def orNull_def set_nonempty_def)
  have upd: "f r \<in> set (updateRule (pr_id r) f (rs_rules st))" for f
    using r(1) by (force simp: updateRule_def)
  have org: "isOrgScope scope = False" using assms(1) scope by (simp add: isOrgScope_def set_nonempty_def)
  have "updatePolicyRuleSchema bind = Some bind" "updatePolicyRuleSchema limit = Some limit"
    using assms(11,12) by (simp_all add: updatePolicyRuleSchema_def noUpdate_def ruleActions_def)
  moreover have "updatePolicyRule call st scope (pr_id r) u =
      Inr (st\<lparr>rs_rules := updateRule (pr_id r) (updateData False u) (rs_rules st)\<rparr>)"
    if u: "u = bind \<or> u = limit" for u
    using u assms(3-5,11,12) scope q org by (auto simp: updatePolicyRule_def noUpdate_def set_nonempty_def)
  ultimately show ?thesis using upd sets by (simp) metis
qed

theorem updates_escape_floor_witness:
  "\<exists>st' r. updatePolicyRule sampleCall sampleRules \<lparr> sc_projectId = Some ''p'', sc_organizationId = Some ''o'', sc_partnerId = None \<rparr>
     ''b'' (noUpdate\<lparr>ur_agentId := Some (Some ''agent'')\<rparr>) = Inr st' \<and>
     r \<in> set (rs_rules st') \<and> so_scope r = ''organization'' \<and> pr_agentId r = Some ''agent'' \<and> \<not> enforceable r"
proof -
  let ?owner = "\<lparr> so_scope = ''organization'', so_projectId = None, so_organizationId = Some ''o'', so_partnerId = None \<rparr>"
  let ?r = "sampleRow ''b'' ?owner"
  have r: "?r \<in> set (rs_rules sampleRules)" "so_scope ?r = ''organization''" "so_organizationId ?r = Some ''o''" "pr_id ?r = ''b''"
    by (simp_all add: sampleRules_def sampleRow_def permissionRow_def sampleChange_def)
  have "agentExists sampleRules ''agent'' (Some ''p'')" by (simp add: agentExists_def sampleRules_def)
  from updates_escape_floor [OF list.distinct(2) list.distinct(2) list.distinct(2) this sampleRules_simps(1) refl r(1-3) sampleRules_simps(2) refl refl]
  obtain st' where "updatePolicyRule sampleCall sampleRules \<lparr> sc_projectId = Some ''p'', sc_organizationId = Some ''o'', sc_partnerId = None \<rparr>
     ''b'' (noUpdate\<lparr>ur_agentId := Some (Some ''agent'')\<rparr>) = Inr st'" "?r\<lparr>pr_agentId := Some ''agent''\<rparr> \<in> set (rs_rules st')"
    unfolding r(4) by blast
  moreover have "so_scope (?r\<lparr>pr_agentId := Some ''agent''\<rparr>) = ''organization'' \<and> \<not> enforceable (?r\<lparr>pr_agentId := Some ''agent''\<rparr>)"
    using r(2) by (simp add: enforceable_def)
  ultimately show ?thesis by fastforce
qed

text \<open>Default blocklists.\<close>

lemma listRules_Inr: "listRules st scope provider = Inr rs \<longleftrightarrow>
    (\<exists>w. scopeWhere scope = Inr w \<and> rs = filter (\<lambda>r. selects w r \<and> blocklistOf provider r) (rs_rules st))"
  by (auto simp: listRules_def bindR_Inr_iff)

lemma blocklistOf_host: "pr_metadata r = Some (JObj (hostMetadata provider h)) \<Longrightarrow>
    blocklistOf provider r \<and> metaField r ''hostId'' = JStr h"
  by (simp add: blocklistOf_def blocklistRow_def metadataIs_def metaField_def hostMetadata_def oget_def)

lemma createHosts_every: "h \<in> set hs \<Longrightarrow> \<exists>i. blockRow call owner i (bh_name h) (bh_hostPattern h) (hostMetadata p (bh_id h)) \<in>
    set (createHosts call owner p n hs)"
proof (induction hs arbitrary: n)
  case (Cons x hs)
  then show ?case using Cons.IH [of "n + 1"] by auto
qed simp

lemma hostKnown_iff: "hostKnown ex h \<longleftrightarrow> bh_id h \<noteq> '''' \<and> (\<exists>r \<in> set ex. metaField r ''hostId'' = JStr (bh_id h))"
  by (simp add: hostKnown_def list_ex_iff)

text \<open>Default blocks are added once: initialising the blocklist of an app only adds enabled block rules,
  after it every host with an id has a rule in the scope, and when all have one a second
  initialisation changes nothing.\<close>

lemma blocklist_defaults:
  assumes "initBlocklistDefaults call st scope provider hosts = Inr st'"
  shows "\<exists>new existing. rs_rules st' = rs_rules st @ new \<and> list_all (\<lambda>r. pr_enabled r \<and> pr_action r = ''block'') new \<and>
    listRules st' scope provider = Inr existing \<and>
    list_all (\<lambda>h. bh_id h = '''' \<or> hostKnown existing h) hosts \<and>
    (list_all (\<lambda>h. bh_id h \<noteq> '''') hosts \<longrightarrow> initBlocklistDefaults again st' scope provider hosts = Inr st')"
proof -
  obtain w where w: "scopeWhere scope = Inr w"
    using assms by (auto simp: initBlocklistDefaults_def bindR_Inr_iff listRules_Inr)
  define seen where "seen t = filter (\<lambda>r. selects w r \<and> blocklistOf provider r) t" for t
  have list: "listRules t scope provider = Inr (seen (rs_rules t))" for t using w by (simp add: listRules_Inr seen_def)
  define todo where "todo = filter (\<lambda>h. \<not> hostKnown (seen (rs_rules st)) h) hosts"
  obtain new where new: "rs_rules st' = rs_rules st @ new" "list_all (\<lambda>r. pr_enabled r \<and> pr_action r = ''block'') new"
    and made: "\<forall>h \<in> set todo. \<exists>r \<in> set (seen new). metaField r ''hostId'' = JStr (bh_id h)"
  proof (cases "todo = []")
    case True
    then have "st' = st" using assms by (simp add: initBlocklistDefaults_def list todo_def)
    then show ?thesis by (intro that [of "[]"]) (simp_all add: True)
  next
    case False
    then obtain owner where owner: "scopeCreate scope = Inr owner"
      and st': "st' = st\<lparr>rs_rules := rs_rules st @ createHosts call owner provider 0 todo\<rparr>"
      using assms by (auto simp: initBlocklistDefaults_def list bindR_Inr_iff todo_def)
    have sel: "selects w (blockRow call owner i n a m)" for i n a m
      by (rule selects_owner [OF w owner]) simp_all
    have "\<exists>r \<in> set (seen (createHosts call owner provider 0 todo)). metaField r ''hostId'' = JStr (bh_id h)"
      if "h \<in> set todo" for h
    proof -
      obtain i where "blockRow call owner i (bh_name h) (bh_hostPattern h) (hostMetadata provider (bh_id h)) \<in>
          set (createHosts call owner provider 0 todo)" using createHosts_every [OF \<open>h \<in> set todo\<close>] by metis
      then show ?thesis using sel blocklistOf_host [OF blockRow_simps(7)] unfolding seen_def by force
    qed
    then show ?thesis using in_createHosts
      by (intro that [of "createHosts call owner provider 0 todo"]) (fastforce simp: st' list_all_iff)+
  qed
  have known: "bh_id h = '''' \<or> hostKnown (seen (rs_rules st')) h" if "h \<in> set hosts" for h
  proof (cases "hostKnown (seen (rs_rules st)) h")
    case True
    then show ?thesis by (auto simp: hostKnown_iff new(1) seen_def)
  next
    case False
    with that made show ?thesis by (auto simp: todo_def hostKnown_iff new(1) seen_def)
  qed
  have "initBlocklistDefaults again st' scope provider hosts = Inr st'" if "list_all (\<lambda>h. bh_id h \<noteq> '''') hosts"
    using known that by (auto simp: initBlocklistDefaults_def list list_all_iff filter_empty_conv)
  with new list known show ?thesis unfolding list_all_iff by metis
qed

definition sampleHosts :: "blocklist_host list" where
  "sampleHosts = [\<lparr> bh_id = ''drive'', bh_name = ''Drive'', bh_hostPattern = ''drive.example'' \<rparr>]"

lemma blocklist_defaults_witness:
  "\<exists>st'. initBlocklistDefaults sampleCall sampleRules (project_scope ''p'') ''mail'' sampleHosts = Inr st' \<and>
    length (rs_rules st') = 3 \<and>
    initBlocklistDefaults sampleCall st' (project_scope ''p'') ''mail'' sampleHosts = Inr st'"
proof -
  obtain st' where first: "initBlocklistDefaults sampleCall sampleRules (project_scope ''p'') ''mail'' sampleHosts = Inr st'"
    "length (rs_rules st') = 3"
    unfolding sampleRules_def sampleHosts_def
    by (simp add: initBlocklistDefaults_def listRules_def blocklistOf_def blocklistRow_def metadataIs_def sampleRow_def
        permissionRow_def hostKnown_def oget_def scopeCreate_def set_nonempty_def)
  have "list_all (\<lambda>h. bh_id h \<noteq> '''') sampleHosts" by (simp add: sampleHosts_def)
  with blocklist_defaults [OF first(1), of sampleCall] first show ?thesis by blast
qed

end
