(* ===== verification/Effects.thy ===== *)
theory Effects
  imports Runtime
begin

text \<open>
  Asynchronous functions that read and write tables: a function of the tables to a result and the tables
  after. What was written before a thrown error stays written, as it does in the code outside a
  transaction. \<open>keeps\<close> is the invariance judgement the components prove by its rules.
\<close>

type_synonym ('a, 's) act = "'s \<Rightarrow> 'a result \<times> 's"

definition returnA :: "'a \<Rightarrow> ('a, 's) act" where
  "returnA x s = (Inr x, s)"

definition throwA :: "error \<Rightarrow> ('a, 's) act" where
  "throwA e s = (Inl e, s)"

definition bindA :: "('a, 's) act \<Rightarrow> ('a \<Rightarrow> ('b, 's) act) \<Rightarrow> ('b, 's) act" where
  "bindA m f s = (case m s of (Inl e, t) \<Rightarrow> (Inl e, t) | (Inr x, t) \<Rightarrow> f x t)"

definition readA :: "('s \<Rightarrow> 'a) \<Rightarrow> ('a, 's) act" where
  "readA f s = (Inr (f s), s)"

definition writeA :: "('s \<Rightarrow> 's) \<Rightarrow> (unit, 's) act" where
  "writeA f s = (Inr (), f s)"

definition liftA :: "'a result \<Rightarrow> ('a, 's) act" where
  "liftA r s = (r, s)"

text \<open>A guard that throws, and a call that rolls back when it throws, \<^verbatim>\<open>db.$transaction\<close>.\<close>

definition throwIf :: "bool \<Rightarrow> error \<Rightarrow> (unit, 's) act" where
  "throwIf b e s = (if b then Inl e else Inr (), s)"

definition transaction :: "('a, 's) act \<Rightarrow> ('a, 's) act" where
  "transaction m s = (case m s of (Inl e, t) \<Rightarrow> (Inl e, s) | (Inr x, t) \<Rightarrow> (Inr x, t))"

text \<open>\<^verbatim>\<open>try ... catch (err)\<close>: what was written before the error stays written.\<close>

definition catchA :: "('a, 's) act \<Rightarrow> (error \<Rightarrow> ('a, 's) act) \<Rightarrow> ('a, 's) act" where
  "catchA m f s = (case m s of (Inl e, t) \<Rightarrow> f e t | (Inr x, t) \<Rightarrow> (Inr x, t))"

fun mapA :: "('a \<Rightarrow> (unit, 's) act) \<Rightarrow> 'a list \<Rightarrow> (unit, 's) act" where
  "mapA f [] = returnA ()"
| "mapA f (x # xs) = bindA (f x) (\<lambda>_. mapA f xs)"

lemma act_simps [simp]:
  "returnA x s = (Inr x, s)" "throwA e s = (Inl e, s)" "readA f s = (Inr (f s), s)" "writeA g s = (Inr (), g s)"
  "liftA r s = (r, s)" "throwIf b e s = (if b then Inl e else Inr (), s)"
  by (simp_all add: returnA_def throwA_def readA_def writeA_def liftA_def throwIf_def)

lemma bindA_Inr: "bindA m f s = (Inr y, t) \<longleftrightarrow> (\<exists>x u. m s = (Inr x, u) \<and> f x u = (Inr y, t))"
  by (auto simp: bindA_def split: prod.split sum.split)

lemma bindA_simps [simp]:
  "bindA (returnA x) f s = f x s" "bindA (readA g) f s = f (g s) s" "bindA (writeA h) f' s = f' () (h s)"
  "bindA (throwA e) f s = (Inl e, s)"
  "bindA (throwIf b e) f' s = (if b then (Inl e, s) else f' () s)"
  "bindA (liftA r) f s = (case r of Inl e \<Rightarrow> (Inl e, s) | Inr x \<Rightarrow> f x s)"
  by (simp_all add: bindA_def split: sum.split)

lemma bindA_assoc: "bindA (bindA m f) g s = bindA m (\<lambda>x. bindA (f x) g) s"
  by (simp add: bindA_def split: prod.split sum.split)

text \<open>\<open>keeps I m\<close>: whatever \<open>m\<close> returns or throws, \<open>I\<close> holds after if it held before.\<close>

named_theorems keeps_rules

definition keeps :: "('s \<Rightarrow> bool) \<Rightarrow> ('a, 's) act \<Rightarrow> bool" where
  "keeps I m \<longleftrightarrow> (\<forall>s. I s \<longrightarrow> I (snd (m s)))"

lemma keepsD: "keeps I m \<Longrightarrow> I s \<Longrightarrow> m s = (r, t) \<Longrightarrow> I t"
  unfolding keeps_def by (metis snd_conv)

lemma keeps_pure [keeps_rules]:
  "keeps I (returnA x)" "keeps I (throwA e)" "keeps I (readA f)" "keeps I (liftA r)" "keeps I (throwIf b e)"
  by (simp_all add: keeps_def)

lemma keeps_write: "(\<And>s. I s \<Longrightarrow> I (f s)) \<Longrightarrow> keeps I (writeA f)"
  by (simp add: keeps_def)

lemma keeps_bind [keeps_rules]: "keeps I m \<Longrightarrow> (\<And>x. keeps I (f x)) \<Longrightarrow> keeps I (bindA m f)"
  unfolding keeps_def bindA_def by (auto split: prod.split sum.split)

text \<open>With what was read still in force.\<close>

lemma keeps_read: "(\<And>s. I s \<Longrightarrow> I (snd (f (g s) s))) \<Longrightarrow> keeps I (bindA (readA g) f)"
  by (simp add: keeps_def)

lemma keeps_if [keeps_rules]: "(b \<Longrightarrow> keeps I m) \<Longrightarrow> (\<not> b \<Longrightarrow> keeps I n) \<Longrightarrow> keeps I (if b then m else n)"
  by simp

lemma keeps_option [keeps_rules]:
  "(x = None \<Longrightarrow> keeps I m) \<Longrightarrow> (\<And>y. x = Some y \<Longrightarrow> keeps I (f y)) \<Longrightarrow> keeps I (case x of None \<Rightarrow> m | Some y \<Rightarrow> f y)"
  by (cases x) simp_all

lemma keeps_prod [keeps_rules]: "(\<And>a b. p = (a, b) \<Longrightarrow> keeps I (f a b)) \<Longrightarrow> keeps I (case p of (a, b) \<Rightarrow> f a b)"
  by (cases p) simp

lemma keeps_transaction [keeps_rules]: "keeps I m \<Longrightarrow> keeps I (transaction m)"
  unfolding keeps_def transaction_def by (auto split: prod.split sum.split)

lemma keeps_catch [keeps_rules]: "keeps I m \<Longrightarrow> (\<And>e. keeps I (f e)) \<Longrightarrow> keeps I (catchA m f)"
  unfolding keeps_def catchA_def by (auto split: prod.split sum.split)

lemma keeps_lift: "(\<And>x. r = Inr x \<Longrightarrow> keeps I (f x)) \<Longrightarrow> keeps I (bindA (liftA r) f)"
  by (cases r) (simp_all add: keeps_def)

lemma keeps_map [keeps_rules]: "(\<And>x. keeps I (f x)) \<Longrightarrow> keeps I (mapA f xs)"
  by (induction xs) (simp_all add: keeps_pure keeps_bind)

end
