(* ===== verification/Org_Store.thy ===== *)
theory Org_Store
  imports Effects Resource_Scope
begin

text \<open>
  The tables of organisations, members, projects, keys and agents, with the unique constraints of
  \<^verbatim>\<open>packages/db/prisma/schema.prisma\<close>, and what one call finds in its surroundings. The random values a
  call draws and the ids it mints are numbered in the order it needs them. Of the foreign keys the one of
  an agent to its project is checked; the others hold by what the callers pass.
\<close>

section \<open>Rows\<close>

record account = user_row +
  ac_name :: "string option"
  ac_lastLoginAt :: "int option"

record membership = member_row +
  ms_userEmail :: string
  ms_createdAt :: int

record invitation_row =
  iv_id :: string
  iv_organizationId :: string
  iv_email :: string
  iv_role :: string
  iv_token :: string
  iv_status :: string
  iv_invitedById :: string
  iv_invitedByEmail :: string
  iv_expiresAt :: int
  iv_createdAt :: int

record org_row =
  og_id :: string
  og_name :: string
  og_slug :: string

record project_row =
  pj_id :: string
  pj_name :: "string option"
  pj_slug :: "string option"
  pj_organizationId :: string
  pj_createdByUserId :: "string option"
  pj_createdByUserEmail :: "string option"
  pj_createdAt :: int

record api_key_row = scoped +
  ak_id :: string
  ak_userId :: string
  ak_userEmail :: string
  ak_key :: string

record agent_row =
  at_id :: string
  at_projectId :: string
  at_name :: string
  at_identifier :: string
  at_accessToken :: string
  at_isDefault :: bool
  at_secretMode :: string
  at_did :: "string option"
  at_didPublicKey :: "string option"
  at_createdAt :: int

record secret_ref = scoped +
  sr_id :: string
  sr_type :: string
  sr_createdAt :: int

record connection_ref = scoped +
  cn_id :: string
  cn_provider :: string
  cn_label :: "string option"
  cn_metadata :: "js option"

record agent_connection =
  an_agentId :: string
  an_connectionId :: string
  an_sessionPolicy :: "js option" \<comment> \<open>\<open>None\<close> is the database null: unrestricted\<close>

record org_state =
  os_users :: "account list"
  os_orgs :: "org_row list"
  os_members :: "membership list"
  os_invitations :: "invitation_row list"
  os_projects :: "project_row list"
  os_keys :: "api_key_row list"
  os_agents :: "agent_row list"
  os_secrets :: "secret_ref list"
  os_connections :: "connection_ref list"
  os_agentSecrets :: "(string \<times> string) list"
  os_agentConnections :: "agent_connection list"

text \<open>\<open>oc_lower\<close> is \<^verbatim>\<open>toLowerCase\<close>, whose table for the letters outside ASCII is the host's; \<open>oc_random n\<close>
  are the 32 random bytes of the n-th draw; \<open>oc_publicKey\<close> is the fresh public key of the call in hex.\<close>

record org_call =
  oc_now :: int
  oc_lower :: "string \<Rightarrow> string"
  oc_random :: "nat \<Rightarrow> bytes"
  oc_newId :: "nat \<Rightarrow> string"
  oc_publicKey :: string
  oc_selfUrl :: string

type_synonym 'a service = "('a, org_state) act"

section \<open>Queries\<close>

text \<open>\<^verbatim>\<open>findFirst\<close> with an order: the first of the least (or greatest) in the order of the table.\<close>

definition firstBy :: "('r \<Rightarrow> int) \<Rightarrow> ('r \<Rightarrow> bool) \<Rightarrow> 'r list \<Rightarrow> 'r option" where
  "firstBy f P t = (case sort_key f (filter P t) of [] \<Rightarrow> None | r # rs \<Rightarrow> Some r)"

lemma firstBy_Some: "firstBy f P t = Some r \<Longrightarrow> r \<in> set t \<and> P r"
  by (auto simp: firstBy_def split: list.splits dest!: arg_cong [where f = set])

lemma firstBy_None: "firstBy f P t = None \<longleftrightarrow> (\<forall>r \<in> set t. \<not> P r)"
proof -
  have "firstBy f P t = None \<longleftrightarrow> sort_key f (filter P t) = []" by (simp add: firstBy_def split: list.split)
  also have "\<dots> \<longleftrightarrow> set (sort_key f (filter P t)) = {}" by (simp only: set_empty)
  also have "\<dots> \<longleftrightarrow> (\<forall>r \<in> set t. \<not> P r)" by auto
  finally show ?thesis .
qed

definition uniqueFailed :: error where
  "uniqueFailed = JsError ''Unique constraint failed''"

definition foreignKeyFailed :: error where
  "foreignKeyFailed = JsError ''Foreign key constraint failed''"

text \<open>A member by the primary key.\<close>

definition isMember :: "string \<Rightarrow> string \<Rightarrow> membership \<Rightarrow> bool" where
  "isMember org user m \<longleftrightarrow> mb_organizationId m = org \<and> mb_userId m = user"

definition findMember :: "string \<Rightarrow> string \<Rightarrow> org_state \<Rightarrow> membership option" where
  "findMember org user st = find (isMember org user) (os_members st)"

lemma findMember_Some: "findMember org user st = Some m \<Longrightarrow> m \<in> set (os_members st) \<and> isMember org user m"
  by (auto simp: findMember_def find_Some_iff)

end
