(* ===== verification/Abilities.thy ===== *)
theory Abilities
  imports Org_Store
begin

text \<open>
  Roles and what they may do: \<^verbatim>\<open>lib/ability.ts\<close> (the rules of a role), \<^verbatim>\<open>middleware/ability.ts\<close> (the ability of a
  request and the guard) and the role matrix of \<^verbatim>\<open>services/member-service.ts\<close>, which the console shows.
  How a list of rules answers a question is CASL's: it is the parameter \<open>casl\<close>, with the documented
  behaviour \<open>casl_documented\<close> as the hypothesis of what rests on it.
\<close>

section \<open>Rules\<close>

datatype org_role = Role_owner | Role_admin | Role_manager | Role_member

fun roleText :: "org_role \<Rightarrow> string" where
  "roleText Role_owner = ''owner''"
| "roleText Role_admin = ''admin''"
| "roleText Role_manager = ''manager''"
| "roleText Role_member = ''member''"

definition roleOf :: "string \<Rightarrow> org_role option" where
  "roleOf s = find (\<lambda>r. roleText r = s) [Role_owner, Role_admin, Role_manager, Role_member]"

datatype ability_action = Do_create | Do_read | Do_update | Do_delete | Do_execute | Do_approve | Do_revoke | Do_manage

datatype subject_type = Agent_s | Sandbox_s | Secret_s | PolicyRule_s | AppConnection_s | ApprovalRequest_s | AuditLog_s
  | RequestLog_s | DlpAlert_s | Organization_s | OrganizationMember_s | All_s

text \<open>What is asked about: a type, or a row of a type with its fields.\<close>

datatype ability_target = Any_of subject_type | The_one subject_type "(string \<times> string) list"

fun targetType :: "ability_target \<Rightarrow> subject_type" where
  "targetType (Any_of t) = t"
| "targetType (The_one t cols) = t"

record ability_rule =
  ru_inverted :: bool
  ru_actions :: "ability_action list"
  ru_subjects :: "subject_type list"
  ru_conditions :: "(string \<times> string) list"

abbreviation can :: "ability_action list \<Rightarrow> subject_type list \<Rightarrow> (string \<times> string) list \<Rightarrow> ability_rule" where
  "can as ss cs \<equiv> \<lparr> ru_inverted = False, ru_actions = as, ru_subjects = ss, ru_conditions = cs \<rparr>"

abbreviation cannot :: "ability_action list \<Rightarrow> subject_type list \<Rightarrow> ability_rule" where
  "cannot as ss \<equiv> \<lparr> ru_inverted = True, ru_actions = as, ru_subjects = ss, ru_conditions = [] \<rparr>"

definition defineAbilityFor :: "string \<Rightarrow> org_role \<Rightarrow> ability_rule list" where
  "defineAbilityFor userId role =
     (if role = Role_owner \<or> role = Role_admin
      then [can [Do_manage] [All_s] []]
      else if role = Role_manager
      then [can [Do_read, Do_execute] [Agent_s] [],
            can [Do_read, Do_execute] [Sandbox_s] [],
            can [Do_read] [Secret_s, AuditLog_s, RequestLog_s, DlpAlert_s] [],
            can [Do_read, Do_approve] [ApprovalRequest_s] [],
            can [Do_read] [PolicyRule_s, AppConnection_s] [],
            cannot [Do_delete] [PolicyRule_s, Secret_s],
            cannot [Do_manage] [Organization_s]]
      else [can [Do_create] [Agent_s, Sandbox_s, AppConnection_s] [],
            can [Do_read, Do_update, Do_delete, Do_execute] [Agent_s] [(''ownerId'', userId)],
            can [Do_read, Do_execute, Do_delete] [Sandbox_s] [(''ownerId'', userId)],
            can [Do_read] [ApprovalRequest_s] [(''requestedBy'', userId)],
            can [Do_read] [AuditLog_s] [(''userId'', userId)],
            cannot [Do_approve] [ApprovalRequest_s],
            cannot [Do_manage] [PolicyRule_s, Organization_s, Secret_s]])"

section \<open>The library\<close>

type_synonym casl = "ability_rule list \<Rightarrow> ability_action \<Rightarrow> ability_target \<Rightarrow> bool"

text \<open>The documented behaviour: the last matching rule decides and none forbids; \<^verbatim>\<open>manage\<close> matches every
  action and \<^verbatim>\<open>all\<close> every type; conditions are compared with a row, and asked about a type a rule with
  conditions grants but does not forbid.\<close>

definition ruleMatches :: "ability_action \<Rightarrow> ability_target \<Rightarrow> ability_rule \<Rightarrow> bool" where
  "ruleMatches a t r \<longleftrightarrow>
     (a \<in> set (ru_actions r) \<or> Do_manage \<in> set (ru_actions r)) \<and>
     (targetType t \<in> set (ru_subjects r) \<or> All_s \<in> set (ru_subjects r)) \<and>
     (ru_conditions r = [] \<or>
      (case t of Any_of s \<Rightarrow> \<not> ru_inverted r
       | The_one s cols \<Rightarrow> list_all (\<lambda>(k, v). map_of cols k = Some v) (ru_conditions r)))"

definition lastRuleDecides :: casl where
  "lastRuleDecides rules a t =
     (case find (ruleMatches a t) (rev rules) of None \<Rightarrow> False | Some r \<Rightarrow> \<not> ru_inverted r)"

definition casl_documented :: "casl \<Rightarrow> bool" where
  "casl_documented c \<longleftrightarrow> (\<forall>rules a t. c rules a t = lastRuleDecides rules a t)"

lemma casl_documented_holds: "casl_documented lastRuleDecides"
  by (simp add: casl_documented_def)

section \<open>The middleware\<close>

text \<open>The context the authentication leaves, \<^verbatim>\<open>AuthContext\<close>.\<close>

record auth_context =
  ac_userId :: string
  ac_userEmail :: string
  ac_projectId :: "string option"
  ac_organizationId :: string
  ac_role :: "org_role option"

definition effectiveRole :: "auth_context option \<Rightarrow> org_state \<Rightarrow> org_role" where
  "effectiveRole auth st =
     (case auth of None \<Rightarrow> Role_member
      | Some a \<Rightarrow>
          (case ac_role a of Some r \<Rightarrow> r
           | None \<Rightarrow>
               (case find (isMember (ac_organizationId a) (ac_userId a)) (os_members st) of
                  None \<Rightarrow> Role_member
                | Some m \<Rightarrow> orElse (roleOf (mb_role m)) Role_member)))"

definition withAbility :: "auth_context option \<Rightarrow> org_state \<Rightarrow> ability_rule list" where
  "withAbility auth st =
     defineAbilityFor (case auth of None \<Rightarrow> '''' | Some a \<Rightarrow> ac_userId a) (effectiveRole auth st)"

fun actionText :: "ability_action \<Rightarrow> string" where
  "actionText Do_create = ''create''" | "actionText Do_read = ''read''" | "actionText Do_update = ''update''"
| "actionText Do_delete = ''delete''" | "actionText Do_execute = ''execute''" | "actionText Do_approve = ''approve''"
| "actionText Do_revoke = ''revoke''" | "actionText Do_manage = ''manage''"

fun subjectText :: "subject_type \<Rightarrow> string" where
  "subjectText Agent_s = ''Agent''" | "subjectText Sandbox_s = ''Sandbox''" | "subjectText Secret_s = ''Secret''"
| "subjectText PolicyRule_s = ''PolicyRule''" | "subjectText AppConnection_s = ''AppConnection''"
| "subjectText ApprovalRequest_s = ''ApprovalRequest''" | "subjectText AuditLog_s = ''AuditLog''"
| "subjectText RequestLog_s = ''RequestLog''" | "subjectText DlpAlert_s = ''DlpAlert''"
| "subjectText Organization_s = ''Organization''" | "subjectText OrganizationMember_s = ''OrganizationMember''"
| "subjectText All_s = ''all''"

definition requireAbility :: "casl \<Rightarrow> ability_rule list \<Rightarrow> ability_action \<Rightarrow> ability_target \<Rightarrow> unit result" where
  "requireAbility c ability a t =
     (if \<not> c ability a t
      then Inl (ServiceError FORBIDDEN (''Forbidden: insufficient permission for '' @ actionText a @ '' on '' @
        subjectText (targetType t)))
      else Inr ())"

section \<open>The role matrix\<close>

record matrix_row =
  mx_resource :: string
  mx_actions :: "org_role \<Rightarrow> string list"

definition matrixRow :: "string \<Rightarrow> string list \<Rightarrow> string list \<Rightarrow> string list \<Rightarrow> string list \<Rightarrow> matrix_row" where
  "matrixRow resource owner admin manager member =
     \<lparr> mx_resource = resource, mx_actions = (\<lambda>r. case r of Role_owner \<Rightarrow> owner | Role_admin \<Rightarrow> admin
        | Role_manager \<Rightarrow> manager | Role_member \<Rightarrow> member) \<rparr>"

definition matrixRoles :: "(string \<times> string) list" where
  "matrixRoles = [(''owner'', ''Owner/Platform''), (''admin'', ''Cyber Admin''), (''manager'', ''Manager''), (''member'', ''Employee'')]"

definition getRoleMatrix :: "matrix_row list" where
  "getRoleMatrix =
     [matrixRow ''Organization'' [''manage''] [''manage''] [] [],
      matrixRow ''OrganizationMember'' [''manage''] [''manage''] [''read''] [],
      matrixRow ''Agent'' [''create'', ''read'', ''update'', ''delete'', ''execute'']
        [''create'', ''read'', ''update'', ''delete'', ''execute''] [''read'', ''execute'']
        [''create'', ''read (own)'', ''update (own)'', ''delete (own)'', ''execute (own)''],
      matrixRow ''Sandbox'' [''create'', ''read'', ''update'', ''delete'', ''execute'']
        [''create'', ''read'', ''update'', ''delete'', ''execute''] [''read'', ''execute'']
        [''create'', ''read (own)'', ''execute (own)''],
      matrixRow ''Secret'' [''manage''] [''manage''] [''read''] [],
      matrixRow ''PolicyRule'' [''create'', ''read'', ''update'', ''delete''] [''create'', ''read'', ''update'', ''delete'']
        [''read''] [],
      matrixRow ''AppConnection'' [''manage''] [''manage''] [''read''] [''create (own)''],
      matrixRow ''ApprovalRequest'' [''manage''] [''manage''] [''read'', ''approve''] [''read (own)''],
      matrixRow ''AuditLog'' [''read''] [''read''] [''read''] [''read (own)'']]"

end
