(* ===== verification/Members.thy ===== *)
theory Members
  imports Abilities
begin

text \<open>
  Members of an organisation: \<^verbatim>\<open>services/member-service.ts\<close> with \<^verbatim>\<open>validations/member.ts\<close>, and the routes of
  \<^verbatim>\<open>routes/members.ts\<close>. Whether a text is an e-mail address is zod's to say: the parameter \<open>emailOk\<close>.
\<close>

section \<open>Invitations\<close>

record invite_input =
  in_email :: string
  in_role :: org_role

definition inviteMemberSchema :: "(string \<Rightarrow> bool) \<Rightarrow> string \<Rightarrow> string \<Rightarrow> invite_input option" where
  "inviteMemberSchema emailOk email role =
     (case roleOf role of None \<Rightarrow> None
      | Some r \<Rightarrow> if emailOk (trim email) then Some \<lparr> in_email = trim email, in_role = r \<rparr> else None)"

definition INVITATION_TTL_MS :: int where
  "INVITATION_TTL_MS = 7 * 24 * 60 * 60 * 1000"

definition generateInvitationToken :: "org_call \<Rightarrow> string" where
  "generateInvitationToken call = toHex (oc_random call 0)"

definition listMembers :: "string \<Rightarrow> membership list service" where
  "listMembers org = readA (\<lambda>st. sort_key ms_createdAt (filter (\<lambda>m. mb_organizationId m = org) (os_members st)))"

definition ownerInviteForbidden :: error where
  "ownerInviteForbidden = ServiceError FORBIDDEN ''Only an owner can invite another owner''"

definition alreadyMember :: error where
  "alreadyMember = ServiceError CONFLICT ''This user is already a member of the organization''"

definition alreadyInvited :: error where
  "alreadyInvited = ServiceError CONFLICT ''An invitation is already pending for this email''"

record invite_result =
  ir_invitationId :: string
  ir_invitationUrl :: string
  ir_token :: string
  ir_email :: string
  ir_role :: string
  ir_expiresAt :: int

text \<open>The table allows one invitation of an organisation for an address, whatever its status.\<close>

definition createInvitation :: "invitation_row \<Rightarrow> unit service" where
  "createInvitation row =
     bindA (readA os_invitations) (\<lambda>t.
     bindA (throwIf (list_ex (\<lambda>i. iv_id i = iv_id row \<or> iv_organizationId i = iv_organizationId row \<and> iv_email i = iv_email row \<or>
        iv_token i = iv_token row) t) uniqueFailed) (\<lambda>_.
     writeA (\<lambda>st. st\<lparr>os_invitations := os_invitations st @ [row]\<rparr>)))"

definition inviteMember ::
  "org_call \<Rightarrow> string \<Rightarrow> string \<Rightarrow> string \<Rightarrow> org_role \<Rightarrow> invite_input \<Rightarrow> invite_result service" where
  "inviteMember call org requestedByUserId requestedByEmail requesterRole input =
     bindA (throwIf (in_role input = Role_owner \<and> requesterRole \<noteq> Role_owner) ownerInviteForbidden) (\<lambda>_.
     let email = oc_lower call (trim (in_email input)) in
     bindA (readA (\<lambda>st. find (\<lambda>m. mb_organizationId m = org \<and> ms_userEmail m = email) (os_members st))) (\<lambda>existingMember.
     bindA (throwIf (existingMember \<noteq> None) alreadyMember) (\<lambda>_.
     bindA (readA (\<lambda>st. find (\<lambda>i. iv_organizationId i = org \<and> iv_email i = email \<and> iv_status i = ''pending'')
       (os_invitations st))) (\<lambda>existingInvitation.
     bindA (throwIf (existingInvitation \<noteq> None) alreadyInvited) (\<lambda>_.
     let row = \<lparr> iv_id = oc_newId call 0, iv_organizationId = org, iv_email = email, iv_role = roleText (in_role input),
           iv_token = generateInvitationToken call, iv_status = ''pending'', iv_invitedById = requestedByUserId,
           iv_invitedByEmail = requestedByEmail, iv_expiresAt = oc_now call + INVITATION_TTL_MS,
           iv_createdAt = oc_now call \<rparr>
     in bindA (createInvitation row) (\<lambda>_.
        returnA \<lparr> ir_invitationId = iv_id row, ir_invitationUrl = oc_selfUrl call @ ''/invite/'' @ iv_token row,
          ir_token = iv_token row, ir_email = iv_email row, ir_role = iv_role row, ir_expiresAt = iv_expiresAt row \<rparr>))))))"

text \<open>The most recent pending invitation of an address that has not expired.\<close>

definition openInvitation :: "int \<Rightarrow> string \<Rightarrow> org_state \<Rightarrow> invitation_row option" where
  "openInvitation now email st =
     firstBy (\<lambda>i. - iv_createdAt i) (\<lambda>i. iv_email i = email \<and> iv_status i = ''pending'' \<and> iv_expiresAt i > now)
       (os_invitations st)"

definition addMember :: "membership \<Rightarrow> unit service" where
  "addMember m =
     bindA (readA (findMember (mb_organizationId m) (mb_userId m))) (\<lambda>existing.
     bindA (throwIf (existing \<noteq> None) uniqueFailed) (\<lambda>_.
     writeA (\<lambda>st. st\<lparr>os_members := os_members st @ [m]\<rparr>)))"

definition acceptInvitation :: "string \<Rightarrow> org_state \<Rightarrow> org_state" where
  "acceptInvitation k st =
     st\<lparr>os_invitations := map (\<lambda>i. if iv_id i = k then i\<lparr>iv_status := ''accepted''\<rparr> else i) (os_invitations st)\<rparr>"

text \<open>The organisation and the project, an empty text when the organisation has none.\<close>

definition acceptPendingInvitationForEmail :: "org_call \<Rightarrow> string \<Rightarrow> string \<Rightarrow> (string \<times> string) option service" where
  "acceptPendingInvitationForEmail call email userId =
     (let normalized = oc_lower call (trim email) in
      bindA (readA (openInvitation (oc_now call) normalized)) (\<lambda>invitation.
        case invitation of None \<Rightarrow> returnA None
        | Some i \<Rightarrow>
            bindA (readA (findMember (iv_organizationId i) userId)) (\<lambda>existing.
            bindA (if existing = None
                   then addMember \<lparr> mb_organizationId = iv_organizationId i, mb_userId = userId, mb_role = iv_role i,
                     ms_userEmail = normalized, ms_createdAt = oc_now call \<rparr>
                   else returnA ()) (\<lambda>_.
            bindA (writeA (acceptInvitation (iv_id i))) (\<lambda>_.
            bindA (readA (\<lambda>st. firstBy pj_createdAt (\<lambda>p. pj_organizationId p = iv_organizationId i) (os_projects st))) (\<lambda>project.
            returnA (Some (iv_organizationId i, case project of None \<Rightarrow> '''' | Some p \<Rightarrow> pj_id p))))))))"

section \<open>Roles\<close>

definition ownerCount :: "string \<Rightarrow> org_state \<Rightarrow> nat" where
  "ownerCount org st = length (filter (\<lambda>m. mb_organizationId m = org \<and> mb_role m = ''owner'') (os_members st))"

definition memberNotFound :: error where
  "memberNotFound = ServiceError NOT_FOUND ''Member not found''"

definition setRole :: "string \<Rightarrow> string \<Rightarrow> string \<Rightarrow> org_state \<Rightarrow> org_state" where
  "setRole org user role st =
     st\<lparr>os_members := map (\<lambda>m. if isMember org user m then m\<lparr>mb_role := role\<rparr> else m) (os_members st)\<rparr>"

definition dropMember :: "string \<Rightarrow> string \<Rightarrow> org_state \<Rightarrow> org_state" where
  "dropMember org user st = st\<lparr>os_members := filter (\<lambda>m. \<not> isMember org user m) (os_members st)\<rparr>"

text \<open>What a change of role checks before it writes.\<close>

definition roleChangeOk :: "string \<Rightarrow> string \<Rightarrow> org_role \<Rightarrow> org_role \<Rightarrow> org_state \<Rightarrow> unit result" where
  "roleChangeOk org targetUserId requesterRole role st =
     (if role = Role_owner \<and> requesterRole \<noteq> Role_owner
      then Inl (ServiceError FORBIDDEN ''Only an owner can promote a member to owner'')
      else case findMember org targetUserId st of
        None \<Rightarrow> Inl memberNotFound
      | Some member \<Rightarrow>
          if mb_role member = ''owner'' \<and> role \<noteq> Role_owner \<and> ownerCount org st \<le> 1
          then Inl (ServiceError CONFLICT ''Cannot change role: organization must have at least one owner'')
          else Inr ())"

definition updateMemberRole :: "string \<Rightarrow> string \<Rightarrow> org_role \<Rightarrow> org_role \<Rightarrow> (string \<times> org_role) service" where
  "updateMemberRole org targetUserId requesterRole role =
     bindA (readA (roleChangeOk org targetUserId requesterRole role)) (\<lambda>checked.
     bindA (liftA checked) (\<lambda>_.
     bindA (writeA (setRole org targetUserId (roleText role))) (\<lambda>_.
     returnA (targetUserId, role))))"

definition removalOk :: "string \<Rightarrow> string \<Rightarrow> org_state \<Rightarrow> unit result" where
  "removalOk org targetUserId st =
     (case findMember org targetUserId st of
        None \<Rightarrow> Inl memberNotFound
      | Some member \<Rightarrow>
          if mb_role member = ''owner'' \<and> ownerCount org st \<le> 1
          then Inl (ServiceError CONFLICT ''Cannot remove the last owner of the organization'')
          else Inr ())"

definition removeMember :: "string \<Rightarrow> string \<Rightarrow> unit service" where
  "removeMember org targetUserId =
     bindA (readA (removalOk org targetUserId)) (\<lambda>checked.
     bindA (liftA checked) (\<lambda>_.
     writeA (dropMember org targetUserId)))"

section \<open>Routes\<close>

text \<open>The reply of a handler: a status with its body, or the 400 of a body its schema refuses. The role of
  the requester is the one the authentication put into the context.\<close>

datatype 'a reply = Reply nat 'a | Invalid_body

definition guarded :: "casl \<Rightarrow> auth_context \<Rightarrow> ability_action \<Rightarrow> ability_target \<Rightarrow> 'a service \<Rightarrow> 'a service" where
  "guarded c auth a t m =
     bindA (readA (withAbility (Some auth))) (\<lambda>ability. bindA (liftA (requireAbility c ability a t)) (\<lambda>_. m))"

definition getMembersRoute :: "casl \<Rightarrow> auth_context \<Rightarrow> membership list reply service" where
  "getMembersRoute c auth =
     guarded c auth Do_read (Any_of OrganizationMember_s)
       (bindA (listMembers (ac_organizationId auth)) (\<lambda>ms. returnA (Reply 200 ms)))"

definition inviteRoute :: "casl \<Rightarrow> org_call \<Rightarrow> auth_context \<Rightarrow> invite_input option \<Rightarrow> invite_result reply service" where
  "inviteRoute c call auth body =
     guarded c auth Do_manage (Any_of OrganizationMember_s)
       (case body of None \<Rightarrow> returnA Invalid_body
        | Some input \<Rightarrow>
            bindA (inviteMember call (ac_organizationId auth) (ac_userId auth) (ac_userEmail auth)
              (orElse (ac_role auth) Role_member) input) (\<lambda>r. returnA (Reply 201 r)))"

definition roleRoute :: "casl \<Rightarrow> auth_context \<Rightarrow> string \<Rightarrow> org_role option \<Rightarrow> (string \<times> org_role) reply service" where
  "roleRoute c auth targetUserId body =
     guarded c auth Do_manage (Any_of OrganizationMember_s)
       (case body of None \<Rightarrow> returnA Invalid_body
        | Some role \<Rightarrow>
            bindA (updateMemberRole (ac_organizationId auth) targetUserId (orElse (ac_role auth) Role_member) role)
              (\<lambda>r. returnA (Reply 200 r)))"

definition removeRoute :: "casl \<Rightarrow> auth_context \<Rightarrow> string \<Rightarrow> unit reply service" where
  "removeRoute c auth targetUserId =
     guarded c auth Do_manage (Any_of OrganizationMember_s)
       (bindA (removeMember (ac_organizationId auth) targetUserId) (\<lambda>_. returnA (Reply 204 ())))"

end
