(* ===== verification/Organizations.thy ===== *)
theory Organizations
  imports Members
begin

text \<open>
  Organisations and their projects: \<^verbatim>\<open>services/organization-service.ts\<close>, \<^verbatim>\<open>services/api-key-service.ts\<close>,
  \<^verbatim>\<open>services/user-service.ts\<close>, the ids of \<^verbatim>\<open>lib/ids.ts\<close> and the session route \<^verbatim>\<open>routes/auth-session.ts\<close>, by which a
  user first gets an organisation or joins the one that invited them. The hooks of a deployment are
  the default ones, but for whether it bootstraps organisations.
\<close>

section \<open>Keys\<close>

definition generateApiKey :: "org_call \<Rightarrow> nat \<Rightarrow> resource_scope option \<Rightarrow> string" where
  "generateApiKey call n scope =
     (case scope of Some s \<Rightarrow> if isOrgScope s then ''oc_org_'' else ''oc_'' | None \<Rightarrow> ''oc_'') @ toHex (oc_random call n)"

definition generateAccessToken :: "org_call \<Rightarrow> nat \<Rightarrow> string" where
  "generateAccessToken call n = ''aoc_'' @ toHex (oc_random call n)"

definition addKey :: "api_key_row \<Rightarrow> unit service" where
  "addKey row =
     bindA (readA os_keys) (\<lambda>t.
     bindA (throwIf (list_ex (\<lambda>k. ak_id k = ak_id row \<or> ak_key k = ak_key row) t) uniqueFailed) (\<lambda>_.
     writeA (\<lambda>st. st\<lparr>os_keys := os_keys st @ [row]\<rparr>)))"

definition addAgent :: "agent_row \<Rightarrow> unit service" where
  "addAgent row =
     bindA (readA os_agents) (\<lambda>t.
     bindA (throwIf (list_ex (\<lambda>a. at_id a = at_id row \<or> at_accessToken a = at_accessToken row \<or>
        at_projectId a = at_projectId row \<and> at_identifier a = at_identifier row) t) uniqueFailed) (\<lambda>_.
     bindA (readA (\<lambda>st. list_ex (\<lambda>p. pj_id p = at_projectId row) (os_projects st))) (\<lambda>projectExists.
     bindA (throwIf (\<not> projectExists) foreignKeyFailed) (\<lambda>_.
     writeA (\<lambda>st. st\<lparr>os_agents := os_agents st @ [row]\<rparr>)))))"

definition projectKey :: "org_call \<Rightarrow> nat \<Rightarrow> nat \<Rightarrow> string \<Rightarrow> string \<Rightarrow> string \<Rightarrow> api_key_row" where
  "projectKey call i n projectId userId userEmail =
     \<lparr> so_scope = ''project'', so_projectId = Some projectId, so_organizationId = None, so_partnerId = None,
       ak_id = oc_newId call i, ak_userId = userId, ak_userEmail = userEmail, ak_key = generateApiKey call n None \<rparr>"

definition defaultAgent :: "org_call \<Rightarrow> nat \<Rightarrow> nat \<Rightarrow> string \<Rightarrow> agent_row" where
  "defaultAgent call i n projectId =
     \<lparr> at_id = oc_newId call i, at_projectId = projectId, at_name = ''Default Agent'', at_identifier = ''default'',
       at_accessToken = generateAccessToken call n, at_isDefault = True, at_secretMode = ''all'', at_did = None,
       at_didPublicKey = None, at_createdAt = oc_now call \<rparr>"

definition keyOf :: "string \<Rightarrow> where_clause \<Rightarrow> api_key_row \<Rightarrow> bool" where
  "keyOf userId w k \<longleftrightarrow> ak_userId k = userId \<and> selects w k"

definition getApiKey :: "string \<Rightarrow> resource_scope \<Rightarrow> string service" where
  "getApiKey userId scope =
     bindA (liftA (scopeWhere scope)) (\<lambda>w.
     bindA (readA (\<lambda>st. find (keyOf userId w) (os_keys st))) (\<lambda>apiKey.
       case apiKey of None \<Rightarrow> throwA (ServiceError NOT_FOUND ''API key not found'') | Some k \<Rightarrow> returnA (ak_key k)))"

definition regenerateApiKey :: "org_call \<Rightarrow> string \<Rightarrow> resource_scope \<Rightarrow> string service" where
  "regenerateApiKey call userId scope =
     (let key = generateApiKey call 0 (Some scope) in
      bindA (liftA (scopeWhere scope)) (\<lambda>w.
      bindA (readA (\<lambda>st. find (keyOf userId w) (os_keys st))) (\<lambda>existing.
      bindA (case existing of
          Some e \<Rightarrow>
            bindA (readA os_keys) (\<lambda>t.
            bindA (throwIf (list_ex (\<lambda>k. ak_key k = key \<and> ak_id k \<noteq> ak_id e) t) uniqueFailed) (\<lambda>_.
            writeA (\<lambda>st. st\<lparr>os_keys := map (\<lambda>k. if ak_id k = ak_id e then k\<lparr>ak_key := key\<rparr> else k) (os_keys st)\<rparr>)))
        | None \<Rightarrow>
            bindA (readA (\<lambda>st. find (\<lambda>u. us_id u = userId) (os_users st))) (\<lambda>user.
              case user of None \<Rightarrow> throwA (JsError ''No record was found for a query.'')
              | Some u \<Rightarrow>
                  bindA (liftA (scopeCreate scope)) (\<lambda>owner.
                  addKey \<lparr> so_scope = so_scope owner, so_projectId = so_projectId owner,
                    so_organizationId = so_organizationId owner, so_partnerId = so_partnerId owner,
                    ak_id = oc_newId call 0, ak_userId = userId, ak_userEmail = us_email u, ak_key = key \<rparr>)))
        (\<lambda>_. returnA key))))"

section \<open>Users\<close>

definition getUser :: "string \<Rightarrow> account service" where
  "getUser userId =
     bindA (readA (\<lambda>st. find (\<lambda>u. us_id u = userId) (os_users st))) (\<lambda>user.
       case user of None \<Rightarrow> throwA (ServiceError NOT_FOUND ''User not found'') | Some u \<Rightarrow> returnA u)"

definition updateProfile :: "string \<Rightarrow> string \<Rightarrow> account service" where
  "updateProfile userId name =
     (let trimmed = trim name in
      bindA (throwIf (u16length trimmed = 0 \<or> u16length trimmed > 255)
        (ServiceError BAD_REQUEST ''Name must be between 1 and 255 characters'')) (\<lambda>_.
      bindA (readA (\<lambda>st. find (\<lambda>u. us_id u = userId) (os_users st))) (\<lambda>user.
        case user of None \<Rightarrow> throwA (JsError ''Record to update not found.'')
        | Some u \<Rightarrow>
            bindA (writeA (\<lambda>st. st\<lparr>os_users := map (\<lambda>u. if us_id u = userId then u\<lparr>ac_name := Some trimmed\<rparr> else u)
              (os_users st)\<rparr>)) (\<lambda>_. returnA (u\<lparr>ac_name := Some trimmed\<rparr>)))))"

section \<open>Slugs and names\<close>

definition slugChar :: "char \<Rightarrow> bool" where
  "slugChar c \<longleftrightarrow> CHR ''a'' \<le> c \<and> c \<le> CHR ''z'' \<or> CHR ''0'' \<le> c \<and> c \<le> CHR ''9''"

text \<open>\<^verbatim>\<open>/[^a-z0-9]+/g\<close> to a dash; the bytes of a character outside ASCII are all outside the class.\<close>

fun dashRuns :: "bool \<Rightarrow> string \<Rightarrow> string" where
  "dashRuns inRun [] = []"
| "dashRuns inRun (c # cs) =
     (if slugChar c then c # dashRuns False cs
      else if inRun then dashRuns True cs
      else CHR ''-'' # dashRuns True cs)"

definition stripDashes :: "string \<Rightarrow> string" where
  "stripDashes s =
     (let t = (case s of c # cs \<Rightarrow> if c = CHR ''-'' then cs else s | [] \<Rightarrow> [])
      in case rev t of c # cs \<Rightarrow> if c = CHR ''-'' then rev cs else t | [] \<Rightarrow> [])"

definition slugify :: "org_call \<Rightarrow> string \<Rightarrow> string" where
  "slugify call raw = stripDashes (dashRuns False (oc_lower call raw))"

definition orText :: "string \<Rightarrow> string \<Rightarrow> string" where
  "orText s d = (if s = '''' then d else s)"

definition validateOrgName :: "string \<Rightarrow> string result" where
  "validateOrgName raw =
     (let trimmed = trim raw
      in if trimmed = '''' \<or> u16length trimmed > 255 then Inl (JsError ''Organization name must be 1-255 characters'')
         else Inr trimmed)"

section \<open>Organisations\<close>

definition findUserDefaultProject :: "string \<Rightarrow> org_state \<Rightarrow> project_row option" where
  "findUserDefaultProject userId st =
     (case firstBy ms_createdAt (\<lambda>m. mb_userId m = userId) (os_members st) of
        None \<Rightarrow> None
      | Some m \<Rightarrow>
          (case firstBy pj_createdAt (\<lambda>p. pj_organizationId p = mb_organizationId m \<and> pj_createdByUserId p = Some userId)
              (os_projects st) of
             Some p \<Rightarrow> Some p
           | None \<Rightarrow> firstBy pj_createdAt (\<lambda>p. pj_organizationId p = mb_organizationId m) (os_projects st)))"

definition addOrg :: "org_row \<Rightarrow> unit service" where
  "addOrg row =
     bindA (readA os_orgs) (\<lambda>t.
     bindA (throwIf (list_ex (\<lambda>g. og_id g = og_id row \<or> og_slug g = og_slug row) t) uniqueFailed) (\<lambda>_.
     writeA (\<lambda>st. st\<lparr>os_orgs := os_orgs st @ [row]\<rparr>)))"

definition addProject :: "project_row \<Rightarrow> unit service" where
  "addProject row =
     bindA (readA os_projects) (\<lambda>t.
     bindA (throwIf (list_ex (\<lambda>p. pj_id p = pj_id row \<or>
        pj_organizationId p = pj_organizationId row \<and> pj_slug p = pj_slug row) t) uniqueFailed) (\<lambda>_.
     writeA (\<lambda>st. st\<lparr>os_projects := os_projects st @ [row]\<rparr>)))"

definition newProject :: "org_call \<Rightarrow> nat \<Rightarrow> string \<Rightarrow> string \<Rightarrow> string \<Rightarrow> project_row" where
  "newProject call i org userId userEmail =
     \<lparr> pj_id = oc_newId call i, pj_name = Some ''Default'', pj_slug = Some ''default'', pj_organizationId = org,
       pj_createdByUserId = Some userId, pj_createdByUserEmail = Some userEmail, pj_createdAt = oc_now call \<rparr>"

definition createOwnOrganization :: "org_call \<Rightarrow> org_row \<Rightarrow> string \<Rightarrow> string \<Rightarrow> unit service" where
  "createOwnOrganization call org userId userEmail =
     transaction (bindA (addOrg org) (\<lambda>_.
       addMember \<lparr> mb_organizationId = og_id org, mb_userId = userId, mb_role = ''owner'', ms_userEmail = userEmail,
         ms_createdAt = oc_now call \<rparr>))"

definition createSeededProject :: "org_call \<Rightarrow> project_row \<Rightarrow> string \<Rightarrow> string \<Rightarrow> unit service" where
  "createSeededProject call project userId userEmail =
     transaction (bindA (addProject project) (\<lambda>_.
       bindA (addKey (projectKey call 2 0 (pj_id project) userId userEmail)) (\<lambda>_.
       addAgent (defaultAgent call 3 1 (pj_id project)))))"

text \<open>Each of the two creations writes its nested rows with it or nothing; there is no transaction around both.\<close>

definition bootstrapOrganization :: "org_call \<Rightarrow> string \<Rightarrow> string \<Rightarrow> string option \<Rightarrow> project_row service" where
  "bootstrapOrganization call userId userEmail displayName =
     (let orgName = orText (orText (orElse displayName '''') (hd (splitOn CHR ''@'' userEmail))) ''Personal'';
          baseSlug = orText (slugify call orgName) ''personal'';
          orgSlug = baseSlug @ ''-'' @ u16take 8 userId;
          org = \<lparr> og_id = oc_newId call 0, og_name = orgName, og_slug = orgSlug \<rparr>;
          project = newProject call 1 (og_id org) userId userEmail
      in bindA (createOwnOrganization call org userId userEmail) (\<lambda>_.
         bindA (createSeededProject call project userId userEmail) (\<lambda>_.
         returnA project)))"

definition seedAgent :: "org_call \<Rightarrow> string \<Rightarrow> unit service" where
  "seedAgent call projectId =
     bindA (readA (\<lambda>st. find (\<lambda>a. at_projectId a = projectId \<and> at_isDefault a) (os_agents st))) (\<lambda>hasDefaultAgent.
     if hasDefaultAgent = None then addAgent (defaultAgent call 5 3 projectId) else returnA ())"

definition ensureProjectSeeds :: "org_call \<Rightarrow> string \<Rightarrow> string \<Rightarrow> string \<Rightarrow> unit service" where
  "ensureProjectSeeds call projectId userId userEmail =
     bindA (readA (\<lambda>st. find (\<lambda>k. ak_userId k = userId \<and> so_projectId k = Some projectId) (os_keys st))) (\<lambda>hasKey.
     bindA (if hasKey = None then addKey (projectKey call 4 2 projectId userId userEmail) else returnA ()) (\<lambda>_.
     seedAgent call projectId))"

section \<open>The session route\<close>

record session_user =
  su_id :: string
  su_email :: string
  su_name :: "string option"

definition upsertUser :: "org_call \<Rightarrow> session_user \<Rightarrow> account service" where
  "upsertUser call user =
     bindA (readA os_users) (\<lambda>t.
     bindA (throwIf (list_ex (\<lambda>u. us_externalAuthId u = su_id user \<and> us_email u \<noteq> su_email user) t) uniqueFailed) (\<lambda>_.
       case find (\<lambda>u. us_email u = su_email user) t of
         Some u \<Rightarrow>
           let v = u\<lparr>us_externalAuthId := su_id user,
                     ac_name := (case su_name user of None \<Rightarrow> ac_name u | Some n \<Rightarrow> Some n), ac_lastLoginAt := Some (oc_now call)\<rparr>
           in bindA (writeA (\<lambda>st. st\<lparr>os_users := map (\<lambda>u. if us_email u = su_email user then v else u) (os_users st)\<rparr>))
                (\<lambda>_. returnA v)
       | None \<Rightarrow>
           let v = \<lparr> us_id = oc_newId call 6, us_email = su_email user, us_externalAuthId = su_id user,
                     us_approvalDid = None, us_approvalPublicKeyJwk = JNull, us_approvalKeyRegisteredAt = None,
                     ac_name = su_name user, ac_lastLoginAt = Some (oc_now call) \<rparr>
           in bindA (writeA (\<lambda>st. st\<lparr>os_users := os_users st @ [v]\<rparr>)) (\<lambda>_. returnA v)))"

record session_view =
  sv_id :: string
  sv_email :: string
  sv_name :: "string option"
  sv_project :: "(string \<times> string \<times> string option) option" \<comment> \<open>project, organisation, role\<close>

datatype session_reply = Not_authenticated | Session session_view | Session_failed

text \<open>The project of the invitation, then of the bootstrap, then a new one in the organisation joined; an
  empty project id counts as none.\<close>

definition invitedProject :: "org_call \<Rightarrow> account \<Rightarrow> bool \<Rightarrow> (string \<times> string) option \<Rightarrow> (string \<times> string) option service" where
  "invitedProject call dbUser existing project =
     (if project = None \<and> \<not> existing
      then bindA (acceptPendingInvitationForEmail call (us_email dbUser) (us_id dbUser)) (\<lambda>accepted.
        returnA (case accepted of None \<Rightarrow> None | Some (org, p) \<Rightarrow> if p \<noteq> '''' then Some (p, org) else None))
      else returnA project)"

definition bootstrappedProject ::
  "org_call \<Rightarrow> bool \<Rightarrow> account \<Rightarrow> bool \<Rightarrow> (string \<times> string) option \<Rightarrow> (string \<times> string) option service" where
  "bootstrappedProject call shouldBootstrapOrg dbUser existing project =
     (if project = None \<and> \<not> existing \<and> shouldBootstrapOrg
      then bindA (bootstrapOrganization call (us_id dbUser) (us_email dbUser) (ac_name dbUser)) (\<lambda>p.
        returnA (Some (pj_id p, pj_organizationId p)))
      else returnA project)"

definition homeProject :: "org_call \<Rightarrow> account \<Rightarrow> bool \<Rightarrow> (string \<times> string) option \<Rightarrow> (string \<times> string) option service" where
  "homeProject call dbUser existing project =
     (if project = None \<and> \<not> existing
      then bindA (readA (\<lambda>st. firstBy ms_createdAt (\<lambda>m. mb_userId m = us_id dbUser) (os_members st))) (\<lambda>accepted.
        case accepted of None \<Rightarrow> returnA None
        | Some m \<Rightarrow>
            let p = newProject call 7 (mb_organizationId m) (us_id dbUser) (us_email dbUser)
            in bindA (addProject p) (\<lambda>_. returnA (Some (pj_id p, pj_organizationId p))))
      else returnA project)"

definition resolveRoleForSession :: "string \<Rightarrow> string \<Rightarrow> org_state \<Rightarrow> string option" where
  "resolveRoleForSession userId org st = map_option mb_role (findMember org userId st)"

definition syncSession :: "org_call \<Rightarrow> bool \<Rightarrow> session_user \<Rightarrow> session_view service" where
  "syncSession call shouldBootstrapOrg user =
     bindA (readA (\<lambda>st. find (\<lambda>u. us_email u = su_email user) (os_users st) \<noteq> None)) (\<lambda>existing.
     bindA (upsertUser call user) (\<lambda>dbUser.
     bindA (readA (findUserDefaultProject (us_id dbUser))) (\<lambda>found.
     bindA (invitedProject call dbUser existing (map_option (\<lambda>p. (pj_id p, pj_organizationId p)) found)) (\<lambda>project.
     bindA (bootstrappedProject call shouldBootstrapOrg dbUser existing project) (\<lambda>project.
     bindA (homeProject call dbUser existing project) (\<lambda>project.
       case project of
         Some (projectId, org) \<Rightarrow>
           bindA (ensureProjectSeeds call projectId (us_id dbUser) (us_email dbUser)) (\<lambda>_.
           bindA (readA (resolveRoleForSession (us_id dbUser) org)) (\<lambda>role.
           returnA \<lparr> sv_id = us_id dbUser, sv_email = us_email dbUser, sv_name = ac_name dbUser,
             sv_project = Some (projectId, org, role) \<rparr>))
       | None \<Rightarrow> returnA \<lparr> sv_id = us_id dbUser, sv_email = us_email dbUser, sv_name = ac_name dbUser, sv_project = None \<rparr>))))))"

text \<open>An error is caught and answered; what was written before it stays.\<close>

definition sessionRoute :: "org_call \<Rightarrow> bool \<Rightarrow> session_user option \<Rightarrow> org_state \<Rightarrow> session_reply \<times> org_state" where
  "sessionRoute call shouldBootstrapOrg user st =
     (case user of
        None \<Rightarrow> (Not_authenticated, st)
      | Some u \<Rightarrow>
          if su_email u = '''' then (Not_authenticated, st)
          else case syncSession call shouldBootstrapOrg u st of
            (Inl e, t) \<Rightarrow> (Session_failed, t) | (Inr v, t) \<Rightarrow> (Session v, t))"

end
