(* ===== verification/Authentication.thy ===== *)
theory Authentication
  imports Organizations
begin

text \<open>
  Who a request is: \<^verbatim>\<open>middleware/auth.ts\<close>, \<^verbatim>\<open>middleware/auth/*.ts\<close> and \<^verbatim>\<open>middleware/internal-auth.ts\<close>. The
  session provider is a parameter: the user it reads from a request. Tables are only read.
\<close>

record http_request =
  rq_authorization :: "string option"
  rq_projectId :: "string option"
  rq_organizationId :: "string option"
  rq_query :: "(string \<times> string) list"

type_synonym session_provider = "http_request \<Rightarrow> session_user option"

section \<open>Lookups\<close>

definition resolveUserEmail :: "string \<Rightarrow> org_state \<Rightarrow> string" where
  "resolveUserEmail userId st =
     (case find (\<lambda>u. us_id u = userId) (os_users st) of None \<Rightarrow> '''' | Some u \<Rightarrow> us_email u)"

definition resolveOrganizationIdFromProject :: "string \<Rightarrow> org_state \<Rightarrow> string option" where
  "resolveOrganizationIdFromProject projectId st =
     map_option pj_organizationId (find (\<lambda>p. pj_id p = projectId) (os_projects st))"

definition resolveOrganizationId :: "http_request \<Rightarrow> string \<Rightarrow> org_state \<Rightarrow> string option" where
  "resolveOrganizationId rq userId st =
     (if \<not> set_nonempty (rq_organizationId rq) then None
      else map_option mb_organizationId (findMember (the (rq_organizationId rq)) userId st))"

definition memberOrgIds :: "string \<Rightarrow> org_state \<Rightarrow> string list" where
  "memberOrgIds userId st =
     (if list_ex (\<lambda>u. us_id u = userId) (os_users st)
      then map mb_organizationId (filter (\<lambda>m. mb_userId m = userId) (os_members st)) else [])"

definition resolveProjectId :: "bool \<Rightarrow> http_request \<Rightarrow> string \<Rightarrow> org_state \<Rightarrow> string option" where
  "resolveProjectId isCloud rq userId st =
     (if \<not> set_nonempty (rq_projectId rq)
      then if isCloud then None else map_option pj_id (findUserDefaultProject userId st)
      else map_option pj_id (find (\<lambda>p. pj_id p = the (rq_projectId rq) \<and>
        pj_organizationId p \<in> set (memberOrgIds userId st)) (os_projects st)))"

section \<open>API keys and sessions\<close>

definition authContext :: "string \<Rightarrow> string \<Rightarrow> string option \<Rightarrow> string \<Rightarrow> auth_context" where
  "authContext userId userEmail projectId org =
     \<lparr> ac_userId = userId, ac_userEmail = userEmail, ac_projectId = projectId, ac_organizationId = org, ac_role = None \<rparr>"

definition bearerToken :: "http_request \<Rightarrow> string option" where
  "bearerToken rq =
     (case rq_authorization rq of None \<Rightarrow> None
      | Some header \<Rightarrow> if startsWith header ''Bearer '' then Some (trim (drop 7 header)) else None)"

definition authenticateApiKey :: "http_request \<Rightarrow> bool \<Rightarrow> org_state \<Rightarrow> auth_context option" where
  "authenticateApiKey rq requireProject st =
     (case bearerToken rq of None \<Rightarrow> None
      | Some token \<Rightarrow>
          if token = '''' \<or> \<not> startsWith token ''oc_'' then None
          else if startsWith token ''oc_org_''
          then (case find (\<lambda>k. ak_key k = token) (os_keys st) of None \<Rightarrow> None
            | Some k \<Rightarrow>
                if so_scope k \<noteq> ''organization'' \<or> \<not> set_nonempty (so_organizationId k) then None
                else let org = the (so_organizationId k); email = resolveUserEmail (ak_userId k) st
                  in if requireProject \<and> \<not> set_nonempty (rq_projectId rq) then None
                     else if set_nonempty (rq_projectId rq)
                     then (case find (\<lambda>p. pj_id p = the (rq_projectId rq) \<and> pj_organizationId p = org) (os_projects st) of
                         None \<Rightarrow> None | Some p \<Rightarrow> Some (authContext (ak_userId k) email (Some (pj_id p)) org))
                     else Some (authContext (ak_userId k) email None org))
          else (case find (\<lambda>k. ak_key k = token) (os_keys st) of None \<Rightarrow> None
            | Some k \<Rightarrow>
                if \<not> set_nonempty (so_projectId k) then None
                else case resolveOrganizationIdFromProject (the (so_projectId k)) st of
                    None \<Rightarrow> None
                  | Some org \<Rightarrow>
                      if org = '''' then None
                      else Some (authContext (ak_userId k) (resolveUserEmail (ak_userId k) st) (so_projectId k) org)))"

definition authenticateSession ::
  "session_provider \<Rightarrow> bool \<Rightarrow> http_request \<Rightarrow> bool \<Rightarrow> org_state \<Rightarrow> auth_context option" where
  "authenticateSession getSession isCloud rq requireProject st =
     (case getSession rq of None \<Rightarrow> None
      | Some user \<Rightarrow>
          (case find (\<lambda>u. us_externalAuthId u = su_id user) (os_users st) of None \<Rightarrow> None
           | Some dbUser \<Rightarrow>
               let projectId = resolveProjectId isCloud rq (us_id dbUser) st
               in if \<not> set_nonempty projectId \<and> requireProject then None
                  else if set_nonempty projectId
                  then (case resolveOrganizationIdFromProject (the projectId) st of None \<Rightarrow> None
                    | Some org \<Rightarrow> if org = '''' then None
                        else Some (authContext (us_id dbUser) (su_email user) projectId org))
                  else (case resolveOrganizationId rq (us_id dbUser) st of None \<Rightarrow> None
                    | Some org \<Rightarrow> if org = '''' then None
                        else Some (authContext (us_id dbUser) (su_email user) None org))))"

section \<open>The middleware\<close>

text \<open>A query parameter that is present and not empty.\<close>

definition queryText :: "http_request \<Rightarrow> string \<Rightarrow> string option" where
  "queryText rq k = (case map_of (rq_query rq) k of None \<Rightarrow> None | Some v \<Rightarrow> if v = '''' then None else Some v)"

definition orHeader :: "string option \<Rightarrow> string option \<Rightarrow> string option" where
  "orHeader new old = (case new of None \<Rightarrow> old | Some v \<Rightarrow> Some v)"

definition queryRequest :: "http_request \<Rightarrow> string \<Rightarrow> http_request" where
  "queryRequest rq token = rq\<lparr>rq_authorization := Some (''Bearer '' @ token),
     rq_projectId := orHeader (queryText rq ''_project'') (rq_projectId rq),
     rq_organizationId := orHeader (queryText rq ''_org'') (rq_organizationId rq)\<rparr>"

definition authenticate :: "session_provider \<Rightarrow> bool \<Rightarrow> bool \<Rightarrow> http_request \<Rightarrow> org_state \<Rightarrow> auth_context option" where
  "authenticate getSession isCloud requireProject rq st =
     (case authenticateApiKey rq requireProject st of Some a \<Rightarrow> Some a
      | None \<Rightarrow>
          (case authenticateSession getSession isCloud rq requireProject st of Some a \<Rightarrow> Some a
           | None \<Rightarrow>
               (case queryText rq ''_token'' of None \<Rightarrow> None
                | Some token \<Rightarrow> authenticateSession getSession isCloud (queryRequest rq token) requireProject st)))"

fun ROLE_HIERARCHY :: "org_role \<Rightarrow> nat" where
  "ROLE_HIERARCHY Role_owner = 3"
| "ROLE_HIERARCHY Role_admin = 2"
| "ROLE_HIERARCHY Role_manager = 2"
| "ROLE_HIERARCHY Role_member = 1"

datatype auth_reply = Unauthorized | Not_a_member | Insufficient | Authorized auth_context

text \<open>The resolver, which only a deployment installs, is a parameter.\<close>

definition authRequest ::
  "session_provider \<Rightarrow> bool \<Rightarrow> (string \<Rightarrow> string \<Rightarrow> org_role option) option \<Rightarrow> bool \<Rightarrow> org_role option \<Rightarrow>
   http_request \<Rightarrow> org_state \<Rightarrow> auth_reply" where
  "authRequest getSession isCloud resolver requireProject minimumRole rq st =
     (case authenticate getSession isCloud requireProject rq st of None \<Rightarrow> Unauthorized
      | Some a \<Rightarrow>
          (case minimumRole of None \<Rightarrow> Authorized a
           | Some least \<Rightarrow>
               (case resolver of None \<Rightarrow> Not_a_member
                | Some getUserRole \<Rightarrow>
                    (case getUserRole (ac_userId a) (ac_organizationId a) of None \<Rightarrow> Not_a_member
                     | Some userRole \<Rightarrow>
                         if ROLE_HIERARCHY userRole < ROLE_HIERARCHY least then Insufficient
                         else Authorized (a\<lparr>ac_role := Some userRole\<rparr>)))))"

definition requireProjectId :: "auth_context \<Rightarrow> string result" where
  "requireProjectId a =
     (if set_nonempty (ac_projectId a) then Inr (the (ac_projectId a))
      else Inl (ServiceError BAD_REQUEST ''X-Project-Id header is required''))"

text \<open>The gateway's own requests: a secret that is set and equal.\<close>

definition internalAuth :: "string option \<Rightarrow> string option \<Rightarrow> bool" where
  "internalAuth secret provided \<longleftrightarrow> set_nonempty secret \<and> orElse provided '''' = the secret"

end
