(* ===== verification/Agents.thy ===== *)
theory Agents
  imports Organizations
begin

text \<open>
  Agents of a project, \<^verbatim>\<open>services/agent-service.ts\<close> with \<^verbatim>\<open>validations/agent.ts\<close> and the validator hook
  \<^verbatim>\<open>providers/hooks/policy-validator.ts\<close>: their tokens, the default agent, and the secrets and connections
  assigned to them. The key pair a new agent gets is the host's: \<open>oc_publicKey\<close> is its public half.
\<close>

section \<open>Reading\<close>

definition agentOf :: "string \<Rightarrow> string \<Rightarrow> org_state \<Rightarrow> agent_row option" where
  "agentOf projectId agentId st = find (\<lambda>a. at_id a = agentId \<and> at_projectId a = projectId) (os_agents st)"

definition noSuchAgent :: error where
  "noSuchAgent = ServiceError NOT_FOUND ''Agent not found''"

text \<open>The lookup every operation starts with.\<close>

definition withAgent :: "string \<Rightarrow> string \<Rightarrow> (agent_row \<Rightarrow> 'a service) \<Rightarrow> 'a service" where
  "withAgent projectId agentId f =
     bindA (readA (agentOf projectId agentId)) (\<lambda>agent.
       case agent of None \<Rightarrow> throwA noSuchAgent | Some a \<Rightarrow> f a)"

definition listAgents :: "string \<Rightarrow> (agent_row \<times> nat \<times> nat) list service" where
  "listAgents projectId = readA (\<lambda>st.
     map (\<lambda>a. (a, length (filter (\<lambda>x. fst x = at_id a) (os_agentSecrets st)),
                  length (filter (\<lambda>c. an_agentId c = at_id a) (os_agentConnections st))))
       (sort_key (\<lambda>a. if at_isDefault a then 0 else 1 :: nat)
         (sort_key (\<lambda>a. - at_createdAt a) (filter (\<lambda>a. at_projectId a = projectId) (os_agents st)))))"

definition getDefaultAgent :: "string \<Rightarrow> org_state \<Rightarrow> agent_row option" where
  "getDefaultAgent projectId st = find (\<lambda>a. at_projectId a = projectId \<and> at_isDefault a) (os_agents st)"

definition agentByIdentifier :: "string \<Rightarrow> string \<Rightarrow> org_state \<Rightarrow> agent_row option" where
  "agentByIdentifier projectId identifier st =
     find (\<lambda>a. at_projectId a = projectId \<and> at_identifier a = identifier) (os_agents st)"

definition agentExistsByIdentifier :: "string \<Rightarrow> string \<Rightarrow> org_state \<Rightarrow> bool" where
  "agentExistsByIdentifier projectId identifier st \<longleftrightarrow> agentByIdentifier projectId (trim identifier) st \<noteq> None"

section \<open>Creating\<close>

definition nameRefused :: error where
  "nameRefused = ServiceError BAD_REQUEST ''Name must be between 1 and 255 characters''"

definition nameBad :: "string \<Rightarrow> bool" where
  "nameBad trimmed \<longleftrightarrow> trimmed = '''' \<or> u16length trimmed > 255"

text \<open>\<^verbatim>\<open>/^[a-z0-9][a-z0-9-]{0,49}$/\<close>.\<close>

definition identifierOk :: "string \<Rightarrow> bool" where
  "identifierOk s \<longleftrightarrow> s \<noteq> '''' \<and> length s \<le> 50 \<and> slugChar (hd s) \<and> list_all (\<lambda>c. slugChar c \<or> c = CHR ''-'') (tl s)"

definition identifierRefused :: error where
  "identifierRefused = ServiceError BAD_REQUEST
     ''Identifier must be 1-50 characters, start with a letter or number, and contain only lowercase letters, numbers, and hyphens''"

definition identifierTaken :: error where
  "identifierTaken = ServiceError CONFLICT ''An agent with this identifier already exists''"

definition agentDid :: "string \<Rightarrow> string" where
  "agentDid agentId = ''did:web:onecomputer.local:agents:'' @ agentId"

text \<open>What a child takes from the agent it names as its parent; an unknown parent leaves the defaults.\<close>

definition parentAccess :: "string \<Rightarrow> string option \<Rightarrow> org_state \<Rightarrow> string \<times> string list \<times> string list" where
  "parentAccess projectId parentIdentifier st =
     (if \<not> set_nonempty parentIdentifier then (''all'', [], [])
      else case agentByIdentifier projectId (the parentIdentifier) st of
        None \<Rightarrow> (''all'', [], [])
      | Some parent \<Rightarrow>
          (at_secretMode parent,
           map snd (filter (\<lambda>x. fst x = at_id parent) (os_agentSecrets st)),
           map an_connectionId (filter (\<lambda>c. an_agentId c = at_id parent) (os_agentConnections st))))"

definition setAgent :: "string \<Rightarrow> (agent_row \<Rightarrow> agent_row) \<Rightarrow> org_state \<Rightarrow> org_state" where
  "setAgent agentId f st = st\<lparr>os_agents := map (\<lambda>a. if at_id a = agentId then f a else a) (os_agents st)\<rparr>"

definition addAgentSecret :: "string \<times> string \<Rightarrow> unit service" where
  "addAgentSecret x =
     bindA (readA os_agentSecrets) (\<lambda>t.
     bindA (throwIf (x \<in> set t) uniqueFailed) (\<lambda>_.
     writeA (\<lambda>st. st\<lparr>os_agentSecrets := os_agentSecrets st @ [x]\<rparr>)))"

definition addAgentConnection :: "agent_connection \<Rightarrow> unit service" where
  "addAgentConnection c =
     bindA (readA os_agentConnections) (\<lambda>t.
     bindA (throwIf (list_ex (\<lambda>d. an_agentId d = an_agentId c \<and> an_connectionId d = an_connectionId c) t) uniqueFailed) (\<lambda>_.
     writeA (\<lambda>st. st\<lparr>os_agentConnections := os_agentConnections st @ [c]\<rparr>)))"

text \<open>A failed unique constraint is reported as a taken identifier.\<close>

definition catchUnique :: "'a service \<Rightarrow> 'a service" where
  "catchUnique m st = (case m st of (Inl e, t) \<Rightarrow> (Inl (if e = uniqueFailed then identifierTaken else e), t) | (Inr x, t) \<Rightarrow> (Inr x, t))"

definition assignInherited :: "string \<Rightarrow> string \<Rightarrow> string list \<Rightarrow> string list \<Rightarrow> unit service" where
  "assignInherited projectId agentId parentSecretIds parentAppConnectionIds =
     bindA (if parentSecretIds \<noteq> []
            then transaction (mapA (\<lambda>s. addAgentSecret (agentId, s)) parentSecretIds)
            else bindA (readA (\<lambda>st. firstBy sr_createdAt (\<lambda>s. so_projectId s = Some projectId \<and> sr_type s = ''anthropic'')
                    (os_secrets st))) (\<lambda>anthropicSecret.
                 case anthropicSecret of None \<Rightarrow> returnA () | Some s \<Rightarrow> addAgentSecret (agentId, sr_id s))) (\<lambda>_.
     if parentAppConnectionIds \<noteq> []
     then transaction (mapA (\<lambda>c. addAgentConnection
            \<lparr> an_agentId = agentId, an_connectionId = c, an_sessionPolicy = None \<rparr>) parentAppConnectionIds)
     else returnA ())"

definition createAgent :: "org_call \<Rightarrow> string \<Rightarrow> string \<Rightarrow> string \<Rightarrow> string option \<Rightarrow> agent_row service" where
  "createAgent call projectId name identifier parentIdentifier =
     (let trimmed = trim name; trimmedIdentifier = trim identifier in
      bindA (throwIf (nameBad trimmed) nameRefused) (\<lambda>_.
      bindA (throwIf (\<not> identifierOk trimmedIdentifier) identifierRefused) (\<lambda>_.
      bindA (readA (agentByIdentifier projectId trimmedIdentifier)) (\<lambda>existing.
      bindA (throwIf (existing \<noteq> None) identifierTaken) (\<lambda>_.
      bindA (readA (parentAccess projectId parentIdentifier)) (\<lambda>(mode, secrets, connections).
      let agent = \<lparr> at_id = oc_newId call 0, at_projectId = projectId, at_name = trimmed,
            at_identifier = trimmedIdentifier, at_accessToken = generateAccessToken call 0, at_isDefault = False,
            at_secretMode = mode, at_did = None, at_didPublicKey = None, at_createdAt = oc_now call \<rparr>;
          did = agentDid (at_id agent)
      in catchUnique (
         bindA (addAgent agent) (\<lambda>_.
         bindA (writeA (setAgent (at_id agent) (\<lambda>a. a\<lparr>at_did := Some did, at_didPublicKey := Some (oc_publicKey call)\<rparr>))) (\<lambda>_.
         bindA (assignInherited projectId (at_id agent) secrets connections) (\<lambda>_.
         returnA (agent\<lparr>at_did := Some did\<rparr>)))))))))))"

section \<open>Changing\<close>

definition setDefaultAgent :: "string \<Rightarrow> string \<Rightarrow> unit service" where
  "setDefaultAgent projectId agentId =
     withAgent projectId agentId (\<lambda>agent.
       bindA (throwIf (at_isDefault agent) (ServiceError BAD_REQUEST ''Agent is already the default'')) (\<lambda>_.
       transaction (
         bindA (writeA (\<lambda>st. st\<lparr>os_agents := map (\<lambda>a. if at_projectId a = projectId \<and> at_isDefault a
             then a\<lparr>at_isDefault := False\<rparr> else a) (os_agents st)\<rparr>)) (\<lambda>_.
         writeA (setAgent agentId (\<lambda>a. a\<lparr>at_isDefault := True\<rparr>))))))"

text \<open>Deleting an agent deletes its assignments with it.\<close>

definition dropAgent :: "string \<Rightarrow> org_state \<Rightarrow> org_state" where
  "dropAgent agentId st = st\<lparr>os_agents := filter (\<lambda>a. at_id a \<noteq> agentId) (os_agents st),
     os_agentSecrets := filter (\<lambda>x. fst x \<noteq> agentId) (os_agentSecrets st),
     os_agentConnections := filter (\<lambda>c. an_agentId c \<noteq> agentId) (os_agentConnections st)\<rparr>"

definition deleteAgent :: "string \<Rightarrow> string \<Rightarrow> unit service" where
  "deleteAgent projectId agentId =
     withAgent projectId agentId (\<lambda>agent.
       bindA (throwIf (at_isDefault agent) (ServiceError BAD_REQUEST ''Cannot delete the default agent'')) (\<lambda>_.
       writeA (dropAgent agentId)))"

definition renameAgent :: "string \<Rightarrow> string \<Rightarrow> string \<Rightarrow> unit service" where
  "renameAgent projectId agentId name =
     (let trimmed = trim name in
      bindA (throwIf (nameBad trimmed) nameRefused) (\<lambda>_.
      withAgent projectId agentId (\<lambda>agent. writeA (setAgent agentId (\<lambda>a. a\<lparr>at_name := trimmed\<rparr>)))))"

text \<open>A token is unique in its table.\<close>

definition setToken :: "string \<Rightarrow> string \<Rightarrow> unit service" where
  "setToken agentId token =
     bindA (readA os_agents) (\<lambda>t.
     bindA (throwIf (list_ex (\<lambda>a. at_accessToken a = token \<and> at_id a \<noteq> agentId) t) uniqueFailed) (\<lambda>_.
     writeA (setAgent agentId (\<lambda>a. a\<lparr>at_accessToken := token\<rparr>))))"

definition regenerateAgentToken :: "org_call \<Rightarrow> string \<Rightarrow> string \<Rightarrow> string service" where
  "regenerateAgentToken call projectId agentId =
     withAgent projectId agentId (\<lambda>agent.
       let accessToken = generateAccessToken call 0
       in bindA (setToken agentId accessToken) (\<lambda>_. returnA accessToken))"

definition revokedToken :: "int \<Rightarrow> string" where
  "revokedToken now = ''revoked_'' @ showInt now"

definition revokeAgentToken :: "org_call \<Rightarrow> string \<Rightarrow> string \<Rightarrow> string option \<Rightarrow> (string \<times> string option \<times> string option) service" where
  "revokeAgentToken call projectId agentId reason =
     withAgent projectId agentId (\<lambda>agent.
       let previousTokenPrefix = (if at_accessToken agent = '''' then None else Some (u16take 4 (at_accessToken agent)))
       in bindA (setToken agentId (revokedToken (oc_now call))) (\<lambda>_.
          returnA (agentId, previousTokenPrefix, reason)))"

section \<open>Secrets and connections\<close>

definition getAgentSecrets :: "string \<Rightarrow> string \<Rightarrow> string list service" where
  "getAgentSecrets projectId agentId =
     withAgent projectId agentId (\<lambda>agent.
       readA (\<lambda>st. map snd (filter (\<lambda>x. fst x = agentId) (os_agentSecrets st))))"

definition updateAgentSecretMode :: "string \<Rightarrow> string \<Rightarrow> string \<Rightarrow> unit service" where
  "updateAgentSecretMode projectId agentId mode =
     withAgent projectId agentId (\<lambda>agent. writeA (setAgent agentId (\<lambda>a. a\<lparr>at_secretMode := mode\<rparr>)))"

text \<open>What a project may assign: its own rows and those of its organisation.\<close>

definition resolveOrg :: "string \<Rightarrow> org_state \<Rightarrow> string option" where
  "resolveOrg projectId st = map_option pj_organizationId (find (\<lambda>p. pj_id p = projectId) (os_projects st))"

definition assignable :: "string \<Rightarrow> org_state \<Rightarrow> 'a scoped_scheme \<Rightarrow> bool" where
  "assignable projectId st r \<longleftrightarrow>
     so_projectId r = Some projectId \<or>
     (case resolveOrg projectId st of None \<Rightarrow> False
      | Some org \<Rightarrow> org \<noteq> '''' \<and> so_organizationId r = Some org \<and> so_scope r = ''organization'')"

definition updateAgentSecrets :: "string \<Rightarrow> string \<Rightarrow> string list \<Rightarrow> unit service" where
  "updateAgentSecrets projectId agentId secretIds =
     withAgent projectId agentId (\<lambda>agent.
       bindA (readA (\<lambda>st. map sr_id (filter (\<lambda>s. sr_id s \<in> set secretIds \<and> assignable projectId st s) (os_secrets st)))) (\<lambda>validIds.
       bindA (throwIf (filter (\<lambda>s. s \<notin> set validIds) secretIds \<noteq> [])
         (ServiceError BAD_REQUEST ''One or more secrets not found'')) (\<lambda>_.
       transaction (
         bindA (writeA (\<lambda>st. st\<lparr>os_agentSecrets := filter (\<lambda>x. fst x \<noteq> agentId) (os_agentSecrets st)\<rparr>)) (\<lambda>_.
         mapA (\<lambda>s. addAgentSecret (agentId, s)) secretIds)))))"

definition getAgentAppConnections :: "string \<Rightarrow> string \<Rightarrow> (string \<times> js option) list service" where
  "getAgentAppConnections projectId agentId =
     withAgent projectId agentId (\<lambda>agent.
       readA (\<lambda>st. map (\<lambda>c. (an_connectionId c, an_sessionPolicy c)) (filter (\<lambda>c. an_agentId c = agentId) (os_agentConnections st))))"

record granular_access =
  ga_agentId :: string
  ga_agentName :: string
  ga_connectionId :: string
  ga_provider :: string
  ga_connectionLabel :: "string option"
  ga_policy :: js

text \<open>A policy that restricts something: an object with a key.\<close>

definition restricting :: "js option \<Rightarrow> bool" where
  "restricting p \<longleftrightarrow> (case p of Some (JObj kvs) \<Rightarrow> kvs \<noteq> [] | _ \<Rightarrow> False)"

definition listAgentGranularAccess :: "string \<Rightarrow> granular_access list service" where
  "listAgentGranularAccess projectId = readA (\<lambda>st.
     concat (map (\<lambda>r.
       case (find (\<lambda>a. at_id a = an_agentId r \<and> at_projectId a = projectId) (os_agents st),
             find (\<lambda>c. cn_id c = an_connectionId r) (os_connections st)) of
         (Some a, Some c) \<Rightarrow>
           if restricting (an_sessionPolicy r)
           then [\<lparr> ga_agentId = at_id a, ga_agentName = at_name a, ga_connectionId = cn_id c, ga_provider = cn_provider c,
                   ga_connectionLabel = cn_label c, ga_policy = the (an_sessionPolicy r) \<rparr>]
           else []
       | _ \<Rightarrow> []) (os_agentConnections st)))"

record connection_input =
  ci_connectionId :: string
  ci_sessionPolicy :: "js option"

text \<open>The validator a deployment injects; the default one accepts.\<close>

type_synonym policy_validator = "string \<Rightarrow> string \<Rightarrow> js option \<Rightarrow> js \<Rightarrow> unit result"

definition defaultPolicyValidator :: policy_validator where
  "defaultPolicyValidator org provider metadata policy = Inr ()"

definition validateConnection ::
  "policy_validator \<Rightarrow> string \<Rightarrow> connection_ref list \<Rightarrow> connection_input \<Rightarrow> unit result" where
  "validateConnection validate org dbConnections c =
     (if \<not> restricting (ci_sessionPolicy c) then Inr ()
      else case find (\<lambda>d. cn_id d = ci_connectionId c) dbConnections of
          None \<Rightarrow> Inr ()
        | Some d \<Rightarrow> validate org (cn_provider d) (cn_metadata d) (the (ci_sessionPolicy c)))"

definition updateAgentAppConnections ::
  "policy_validator \<Rightarrow> string \<Rightarrow> string \<Rightarrow> connection_input list \<Rightarrow> unit service" where
  "updateAgentAppConnections validate projectId agentId connections =
     withAgent projectId agentId (\<lambda>agent.
       let appConnectionIds = map ci_connectionId connections in
       bindA (readA (\<lambda>st. filter (\<lambda>c. cn_id c \<in> set appConnectionIds \<and> assignable projectId st c) (os_connections st))) (\<lambda>dbConnections.
       bindA (throwIf (filter (\<lambda>c. c \<notin> set (map cn_id dbConnections)) appConnectionIds \<noteq> [])
         (ServiceError BAD_REQUEST ''One or more app connections not found'')) (\<lambda>_.
       bindA (readA (\<lambda>st. orElse (resolveOrg projectId st) '''')) (\<lambda>org.
       bindA (liftA (mapR (validateConnection validate org dbConnections) connections)) (\<lambda>_.
       transaction (
         bindA (writeA (\<lambda>st. st\<lparr>os_agentConnections := filter (\<lambda>c. an_agentId c \<noteq> agentId) (os_agentConnections st)\<rparr>)) (\<lambda>_.
         mapA (\<lambda>c. addAgentConnection
           \<lparr> an_agentId = agentId, an_connectionId = ci_connectionId c, an_sessionPolicy = ci_sessionPolicy c \<rparr>) connections)))))))"

end
