(* ===== verification/Org_Runs.thy ===== *)
theory Org_Runs
  imports Authentication Agents
begin

text \<open>
  Everything that writes the tables of organisations, as a set of operations, and two invariants of their
  runs: an organisation that has an owner keeps one, and a project never has two default agents nor
  loses the one it has.
\<close>

section \<open>Operations and runs\<close>

definition discard :: "'a service \<Rightarrow> unit service" where
  "discard m = bindA m (\<lambda>_. returnA ())"

lemma keeps_discard [keeps_rules]: "keeps I m \<Longrightarrow> keeps I (discard m)"
  unfolding discard_def by (intro keeps_rules)

inductive org_op :: "unit service \<Rightarrow> bool" where
  session: "org_op (discard (syncSession call boot user))"
| invite: "org_op (discard (inviteRoute c call auth body))"
| role: "org_op (discard (roleRoute c auth target newRole))"
| remove: "org_op (discard (removeRoute c auth target))"
| key: "org_op (discard (regenerateApiKey call user scope))"
| profile: "org_op (discard (updateProfile user name))"
| create_agent: "org_op (discard (createAgent call project name identifier parent))"
| set_default: "org_op (setDefaultAgent project agent)"
| delete_agent: "org_op (deleteAgent project agent)"
| rename_agent: "org_op (renameAgent project agent name)"
| regenerate_token: "org_op (discard (regenerateAgentToken call project agent))"
| revoke_token: "org_op (discard (revokeAgentToken call project agent reason))"
| secret_mode: "org_op (updateAgentSecretMode project agent mode)"
| agent_secrets: "org_op (updateAgentSecrets project agent ids)"
| agent_connections: "org_op (updateAgentAppConnections validate project agent connections)"

inductive org_run :: "org_state \<Rightarrow> org_state \<Rightarrow> bool" where
  start: "org_run st st"
| step: "org_run s t \<Longrightarrow> org_op m \<Longrightarrow> org_run s (snd (m t))"

text \<open>The operations on agents leave the other tables, and the others never change an agent.\<close>

lemma keeps_withAgent [keeps_rules]: "(\<And>a. keeps I (f a)) \<Longrightarrow> keeps I (withAgent p k f)"
  unfolding withAgent_def by (intro keeps_rules)

lemma keeps_catchUnique [keeps_rules]: "keeps I m \<Longrightarrow> keeps I (catchUnique m)"
  by (simp add: keeps_def catchUnique_def split: prod.split sum.split) (metis snd_conv)

lemma keeps_guarded [keeps_rules]: "keeps I m \<Longrightarrow> keeps I (guarded c a t g m)"
  unfolding guarded_def by (intro keeps_rules)

section \<open>What an invariant has to survive\<close>

text \<open>The contract between an invariant of the tables and the operations: it depends on no table but those of
  members, projects and agents, and survives the writes to these. Then it survives every operation.\<close>

locale org_invariant =
  fixes I :: "org_state \<Rightarrow> bool"
  assumes other_tables: "I (st\<lparr>os_users := u\<rparr>) = I st" "I (st\<lparr>os_orgs := g\<rparr>) = I st" "I (st\<lparr>os_invitations := i\<rparr>) = I st"
      "I (st\<lparr>os_keys := k\<rparr>) = I st" "I (st\<lparr>os_agentSecrets := s\<rparr>) = I st" "I (st\<lparr>os_agentConnections := c\<rparr>) = I st"
    and members: "keeps I (addMember m)" "keeps I (updateMemberRole org user req role)" "keeps I (removeMember org user)"
    and projects: "keeps I (addProject p)" "keeps I (createSeededProject call p user email)" "keeps I (seedAgent call project)"
    and agents: "\<not> at_isDefault a \<Longrightarrow> keeps I (addAgent a)" "keeps I (setDefaultAgent project agent)"
      "keeps I (deleteAgent project agent)"
    and agent_columns: "(\<And>a. at_id (f a) = at_id a \<and> at_projectId (f a) = at_projectId a \<and> at_isDefault (f a) = at_isDefault a) \<Longrightarrow>
      I (setAgent agent f st) = I st"
begin

lemma writes:
  "keeps I (addOrg g)" "keeps I (addKey k)" "keeps I (createInvitation i)" "keeps I (addAgentSecret x)"
  "keeps I (addAgentConnection c)" "keeps I (writeA (acceptInvitation n))"
  unfolding addOrg_def addKey_def createInvitation_def addAgentSecret_def addAgentConnection_def acceptInvitation_def
  by (intro keeps_rules keeps_write; simp add: other_tables)+

lemma columns:
  assumes "\<And>a. at_id (f a) = at_id a \<and> at_projectId (f a) = at_projectId a \<and> at_isDefault (f a) = at_isDefault a"
  shows "keeps I (writeA (setAgent agent f))"
  using agent_columns [OF assms] by (intro keeps_write) simp

lemma token: "keeps I (setToken agent v)"
  unfolding setToken_def by (intro keeps_rules columns) simp

lemmas rules = keeps_rules writes members projects token

lemma accept: "keeps I (acceptPendingInvitationForEmail call e u)"
  unfolding acceptPendingInvitationForEmail_def Let_def by (intro rules)

lemma bootstrap: "keeps I (bootstrapOrganization call u e n)"
  unfolding bootstrapOrganization_def createOwnOrganization_def Let_def by (intro rules)

lemma seeds: "keeps I (ensureProjectSeeds call p u e)"
  unfolding ensureProjectSeeds_def by (intro rules)

lemma upsert: "keeps I (upsertUser call user)"
  unfolding upsertUser_def Let_def by (intro keeps_rules keeps_write; simp add: other_tables)

lemma session: "keeps I (syncSession call boot user)"
  unfolding syncSession_def invitedProject_def bootstrappedProject_def homeProject_def Let_def
  by (intro rules accept bootstrap seeds upsert)

lemma inherited: "keeps I (assignInherited p k ss cs)"
  unfolding assignInherited_def by (intro rules)

lemma invitation: "keeps I (inviteMember call o' u e r i)"
  unfolding inviteMember_def Let_def by (intro rules)

lemma op_keeps:
  assumes "org_op m"
  shows "keeps I m"
  using assms
proof cases
  case (invite c call auth body)
  show ?thesis unfolding invite inviteRoute_def by (intro rules invitation)
next
  case (role c auth target newRole)
  show ?thesis unfolding role roleRoute_def by (intro rules)
next
  case (remove c auth target)
  show ?thesis unfolding remove removeRoute_def by (intro rules)
next
  case (key call user scope)
  show ?thesis unfolding key regenerateApiKey_def Let_def by (intro rules keeps_write; simp add: other_tables)
next
  case (profile user name)
  show ?thesis unfolding profile updateProfile_def Let_def by (intro keeps_rules keeps_write; simp add: other_tables)
next
  case (create_agent call project name ident parent)
  show ?thesis unfolding create_agent createAgent_def Let_def by (intro rules inherited columns agents) simp_all
next
  case (rename_agent project agent name)
  show ?thesis unfolding rename_agent renameAgent_def Let_def by (intro rules columns) simp
next
  case (regenerate_token call project agent)
  show ?thesis unfolding regenerate_token regenerateAgentToken_def Let_def by (intro rules)
next
  case (revoke_token call project agent reason)
  show ?thesis unfolding revoke_token revokeAgentToken_def Let_def by (intro rules)
next
  case (secret_mode project agent mode)
  show ?thesis unfolding secret_mode updateAgentSecretMode_def by (intro rules columns) simp
next
  case (agent_secrets project agent ids)
  show ?thesis unfolding agent_secrets updateAgentSecrets_def by (intro rules keeps_write; simp add: other_tables)
next
  case (agent_connections validate project agent connections)
  show ?thesis unfolding agent_connections updateAgentAppConnections_def Let_def by (intro rules keeps_write; simp add: other_tables)
qed (auto intro: rules session agents)

lemma run_keeps: "org_run s t \<Longrightarrow> I s \<Longrightarrow> I t"
  by (induction rule: org_run.induct) (use op_keeps in \<open>auto simp: keeps_def\<close>)

end

section \<open>The last owner\<close>

definition memberKey :: "membership \<Rightarrow> string \<times> string" where
  "memberKey m = (mb_organizationId m, mb_userId m)"

lemma isMember_key: "isMember org u m \<longleftrightarrow> memberKey m = (org, u)"
  by (simp add: isMember_def memberKey_def)

definition ownerOf :: "string \<Rightarrow> membership \<Rightarrow> bool" where
  "ownerOf org m \<longleftrightarrow> mb_organizationId m = org \<and> mb_role m = ''owner''"

definition hasOwner :: "string \<Rightarrow> org_state \<Rightarrow> bool" where
  "hasOwner org st \<longleftrightarrow> distinct (map memberKey (os_members st)) \<and> 1 \<le> ownerCount org st"

lemma ownerCount_eq: "ownerCount org st = length (filter (ownerOf org) (os_members st))"
  by (simp add: ownerCount_def ownerOf_def [abs_def])

lemma hasOwner_tables [simp]:
  "hasOwner org (st\<lparr>os_users := u\<rparr>) = hasOwner org st" "hasOwner org (st\<lparr>os_orgs := g\<rparr>) = hasOwner org st"
  "hasOwner org (st\<lparr>os_invitations := i\<rparr>) = hasOwner org st" "hasOwner org (st\<lparr>os_projects := p\<rparr>) = hasOwner org st"
  "hasOwner org (st\<lparr>os_keys := k\<rparr>) = hasOwner org st" "hasOwner org (st\<lparr>os_agents := a\<rparr>) = hasOwner org st"
  "hasOwner org (st\<lparr>os_agentSecrets := s\<rparr>) = hasOwner org st"
  "hasOwner org (st\<lparr>os_agentConnections := c\<rparr>) = hasOwner org st"
  by (simp_all add: hasOwner_def ownerCount_def)

lemma one_with_key: "distinct (map k xs) \<Longrightarrow> length (filter (\<lambda>x. k x = v) xs) \<le> 1"
proof (induction xs)
  case (Cons x xs)
  have "filter (\<lambda>y. k y = v) xs = []" if "k x = v"
    using Cons.prems that by (auto simp: filter_empty_conv) (metis imageI)
  then show ?case using Cons by (cases "k x = v") simp_all
qed simp

lemma length_filter_split: "length (filter P xs) \<le> length (filter (\<lambda>x. P x \<and> \<not> Q x) xs) + length (filter Q xs)"
  by (induction xs) auto

lemma owners_after:
  assumes "hasOwner org st" "findMember org u st = Some m" "mb_role m \<noteq> ''owner'' \<or> 2 \<le> ownerCount org st"
  shows "1 \<le> length (filter (\<lambda>x. ownerOf org x \<and> \<not> isMember org u x) (os_members st))"
proof -
  let ?ms = "os_members st"
  note count = ownerCount_eq [of org st]
  have key: "isMember org u = (\<lambda>x. memberKey x = (org, u))" by (simp add: isMember_key fun_eq_iff)
  have d: "distinct (map memberKey ?ms)" using assms(1) by (simp add: hasOwner_def)
  show ?thesis
  proof (cases "mb_role m = ''owner''")
    case True
    have "length (filter (isMember org u) ?ms) \<le> 1" unfolding key by (rule one_with_key [OF d])
    then show ?thesis using True assms(3) length_filter_split [of "ownerOf org" ?ms "isMember org u"] count by simp
  next
    case False
    have "\<not> isMember org u x" if x: "x \<in> set ?ms" "ownerOf org x" for x
    proof
      assume "isMember org u x"
      then have "x = m" using x d findMember_Some [OF assms(2)] by (auto simp: isMember_key distinct_map inj_on_def)
      with False x(2) show False by (simp add: ownerOf_def)
    qed
    then have "filter (\<lambda>x. ownerOf org x \<and> \<not> isMember org u x) ?ms = filter (ownerOf org) ?ms"
      by (auto intro: filter_cong)
    with assms(1) count show ?thesis by (simp add: hasOwner_def)
  qed
qed

lemma keys_setRole: "map memberKey (os_members (setRole org u r st)) = map memberKey (os_members st)"
  by (simp add: setRole_def memberKey_def comp_def)

lemma ownerCount_setRole: "ownerCount org (setRole o' u r st) =
    length (filter (\<lambda>x. ownerOf org (if isMember o' u x then x\<lparr>mb_role := r\<rparr> else x)) (os_members st))"
  by (simp add: ownerCount_eq setRole_def filter_map comp_def)

lemma ownerCount_other:
  assumes "o' \<noteq> org"
  shows "ownerCount org (setRole o' u r st) = ownerCount org st"
proof -
  have "ownerOf org (if isMember o' u x then x\<lparr>mb_role := r\<rparr> else x) = ownerOf org x" for x
    using assms by (simp add: ownerOf_def isMember_def)
  then show ?thesis by (simp only: ownerCount_setRole [of org o'] ownerCount_eq [of org st])
qed

lemma length_filter_mono: "(\<And>x. x \<in> set xs \<Longrightarrow> P x \<Longrightarrow> Q x) \<Longrightarrow> length (filter P xs) \<le> length (filter Q xs)"
  by (induction xs) auto

lemma setRole_owner:
  assumes "hasOwner org st" "roleChangeOk o' u req role st = Inr ()"
  shows "hasOwner org (setRole o' u (roleText role) st)"
proof (cases "o' = org")
  case False
  with assms(1) show ?thesis by (simp add: hasOwner_def keys_setRole ownerCount_other)
next
  case True
  obtain m where m: "findMember org u st = Some m"
    and guard: "mb_role m = ''owner'' \<Longrightarrow> role \<noteq> Role_owner \<Longrightarrow> 2 \<le> ownerCount org st"
    using assms(2) True by (fastforce simp: roleChangeOk_def split: if_splits option.splits)
  let ?f = "\<lambda>x. if isMember org u x then x\<lparr>mb_role := roleText role\<rparr> else x"
  note count = ownerCount_setRole [of org org u "roleText role" st]
  have "1 \<le> length (filter (\<lambda>x. ownerOf org (?f x)) (os_members st))"
  proof (cases "role = Role_owner")
    case r: True
    have "m \<in> set (filter (\<lambda>x. ownerOf org (?f x)) (os_members st))"
      using findMember_Some [OF m] r by (auto simp: ownerOf_def isMember_def)
    then have "0 < length (filter (\<lambda>x. ownerOf org (?f x)) (os_members st))" by (rule length_pos_if_in_set)
    then show ?thesis by (simp only: One_nat_def Suc_le_eq)
  next
    case False
    have "1 \<le> length (filter (\<lambda>x. ownerOf org x \<and> \<not> isMember org u x) (os_members st))"
      by (rule owners_after [OF assms(1) m]) (use guard False in blast)
    also have "\<dots> \<le> length (filter (\<lambda>x. ownerOf org (?f x)) (os_members st))"
      by (rule length_filter_mono) simp
    finally show ?thesis .
  qed
  with assms(1) True count show ?thesis by (simp add: hasOwner_def keys_setRole)
qed

lemma dropMember_owner:
  assumes "hasOwner org st" "removalOk o' u st = Inr ()"
  shows "hasOwner org (dropMember o' u st)"
proof -
  have d: "distinct (map memberKey (filter P (os_members st)))" for P
    using assms(1) by (simp add: hasOwner_def distinct_map_filter)
  show ?thesis
  proof (cases "o' = org")
    case False
    then have "filter (\<lambda>m. \<not> isMember o' u m \<and> mb_organizationId m = org \<and> mb_role m = ''owner'') (os_members st) =
        filter (\<lambda>m. mb_organizationId m = org \<and> mb_role m = ''owner'') (os_members st)"
      by (auto simp: isMember_def intro!: filter_cong)
    with assms(1) d show ?thesis by (simp add: hasOwner_def dropMember_def ownerCount_def conj_commute)
  next
    case True
    obtain m where m: "findMember org u st = Some m" and guard: "mb_role m = ''owner'' \<Longrightarrow> 2 \<le> ownerCount org st"
      using assms(2) True by (fastforce simp: removalOk_def split: if_splits option.splits)
    have "1 \<le> length (filter (\<lambda>x. ownerOf org x \<and> \<not> isMember org u x) (os_members st))"
      by (rule owners_after [OF assms(1) m]) (use guard in blast)
    with True d show ?thesis by (simp add: hasOwner_def dropMember_def ownerCount_def ownerOf_def conj_commute conj_left_commute)
  qed
qed

lemma owner_addMember: "keeps (hasOwner org) (addMember m)"
proof -
  have "hasOwner org (st\<lparr>os_members := os_members st @ [m]\<rparr>)"
    if st: "hasOwner org st" and new: "findMember (mb_organizationId m) (mb_userId m) st = None" for st
  proof -
    have "memberKey m \<notin> memberKey ` set (os_members st)"
      using new by (auto simp: findMember_def find_None_iff isMember_key) (auto simp: memberKey_def)
    with st show ?thesis by (simp add: hasOwner_def ownerCount_eq)
  qed
  then show ?thesis unfolding addMember_def by (intro keeps_read) simp
qed

lemma owner_updateMemberRole: "keeps (hasOwner org) (updateMemberRole o' u req role)"
  unfolding updateMemberRole_def by (intro keeps_read) (simp add: setRole_owner bindA_def split: sum.split)

lemma owner_removeMember: "keeps (hasOwner org) (removeMember o' u)"
  unfolding removeMember_def by (intro keeps_read) (simp add: dropMember_owner split: sum.split)

interpretation last_owner: org_invariant "hasOwner org"
proof
  show "keeps (hasOwner org) (addMember m)" for m by (rule owner_addMember)
  show "keeps (hasOwner org) (updateMemberRole o' user req role)" for o' user req role by (rule owner_updateMemberRole)
  show "keeps (hasOwner org) (removeMember o' user)" for o' user by (rule owner_removeMember)
  have project: "keeps (hasOwner org) (addProject p)" for p
    unfolding addProject_def by (intro keeps_rules keeps_write) simp
  have key: "keeps (hasOwner org) (addKey k)" for k
    unfolding addKey_def by (intro keeps_rules keeps_write) simp
  have agent: "keeps (hasOwner org) (addAgent a)" for a
    unfolding addAgent_def by (intro keeps_rules keeps_write) simp
  show "keeps (hasOwner org) (addProject p)" for p by (rule project)
  show "keeps (hasOwner org) (createSeededProject call p user email)" for call p user email
    unfolding createSeededProject_def by (intro keeps_rules project key agent)
  show "keeps (hasOwner org) (seedAgent call project)" for call project
    unfolding seedAgent_def by (intro keeps_rules agent)
  show "keeps (hasOwner org) (addAgent a)" for a by (rule agent)
  show "keeps (hasOwner org) (setDefaultAgent project a)" for project a
    unfolding setDefaultAgent_def setAgent_def by (intro keeps_rules keeps_write; simp)
  show "keeps (hasOwner org) (deleteAgent project a)" for project a
    unfolding deleteAgent_def dropAgent_def by (intro keeps_rules keeps_write; simp)
qed (simp_all add: setAgent_def)

section \<open>The default agent\<close>

definition isDefaultOf :: "string \<Rightarrow> agent_row \<Rightarrow> bool" where
  "isDefaultOf project a \<longleftrightarrow> at_projectId a = project \<and> at_isDefault a"

definition defaultCount :: "string \<Rightarrow> agent_row list \<Rightarrow> nat" where
  "defaultCount project t = length (filter (isDefaultOf project) t)"

definition defaults_ok :: "org_state \<Rightarrow> bool" where
  "defaults_ok st \<longleftrightarrow> distinct (map at_id (os_agents st)) \<and>
     at_projectId ` set (os_agents st) \<subseteq> pj_id ` set (os_projects st) \<and>
     (\<forall>p. defaultCount p (os_agents st) \<le> 1)"

text \<open>And the projects of \<open>Q\<close> have one.\<close>

definition defaults :: "string set \<Rightarrow> org_state \<Rightarrow> bool" where
  "defaults Q st \<longleftrightarrow> defaults_ok st \<and> (\<forall>p \<in> Q. 1 \<le> defaultCount p (os_agents st))"

lemma defaults_tables [simp]:
  "defaults Q (st\<lparr>os_users := u\<rparr>) = defaults Q st" "defaults Q (st\<lparr>os_orgs := g\<rparr>) = defaults Q st"
  "defaults Q (st\<lparr>os_members := m\<rparr>) = defaults Q st"
  "defaults Q (st\<lparr>os_invitations := i\<rparr>) = defaults Q st" "defaults Q (st\<lparr>os_keys := k\<rparr>) = defaults Q st"
  "defaults Q (st\<lparr>os_agentSecrets := s\<rparr>) = defaults Q st" "defaults Q (st\<lparr>os_agentConnections := c\<rparr>) = defaults Q st"
  by (simp_all add: defaults_def defaults_ok_def)

lemma defaults_map:
  assumes "\<And>a. at_id (g a) = at_id a" "\<And>a. at_projectId (g a) = at_projectId a"
  shows "defaults Q (st\<lparr>os_agents := map g (os_agents st)\<rparr>) \<longleftrightarrow>
    distinct (map at_id (os_agents st)) \<and> at_projectId ` set (os_agents st) \<subseteq> pj_id ` set (os_projects st) \<and>
    (\<forall>p. defaultCount p (map g (os_agents st)) \<le> 1) \<and> (\<forall>p \<in> Q. 1 \<le> defaultCount p (map g (os_agents st)))"
  by (simp add: defaults_def defaults_ok_def comp_def image_image assms)

lemma defaults_add:
  assumes "defaults Q st" "at_id a \<notin> at_id ` set (os_agents st)" "at_projectId a \<in> pj_id ` set (os_projects st)"
    and "at_isDefault a \<Longrightarrow> defaultCount (at_projectId a) (os_agents st) = 0"
  shows "defaults Q (st\<lparr>os_agents := os_agents st @ [a]\<rparr>)"
proof -
  have "defaultCount p (os_agents st @ [a]) = defaultCount p (os_agents st) + (if isDefaultOf p a then 1 else 0)" for p
    by (simp add: defaultCount_def)
  moreover have "isDefaultOf p a \<Longrightarrow> defaultCount p (os_agents st) = 0" for p using assms(4) by (auto simp: isDefaultOf_def)
  ultimately show ?thesis using assms(1-3) by (auto simp: defaults_def defaults_ok_def)
qed

lemma addAgent_Inr: "addAgent a st = (Inr (), t) \<longleftrightarrow>
    \<not> list_ex (\<lambda>b. at_id b = at_id a \<or> at_accessToken b = at_accessToken a \<or>
      at_projectId b = at_projectId a \<and> at_identifier b = at_identifier a) (os_agents st) \<and>
    list_ex (\<lambda>p. pj_id p = at_projectId a) (os_projects st) \<and> t = st\<lparr>os_agents := os_agents st @ [a]\<rparr>"
  by (auto simp: addAgent_def)

lemma addAgent_Inl: "addAgent a st = (Inl e, t) \<Longrightarrow> t = st"
  by (auto simp: addAgent_def split: if_splits)

lemma defaults_addAgent:
  assumes "defaults Q st" "at_isDefault a \<Longrightarrow> defaultCount (at_projectId a) (os_agents st) = 0"
  shows "defaults Q (snd (addAgent a st))"
proof (cases "fst (addAgent a st)")
  case (Inl e)
  then have "snd (addAgent a st) = st" by (metis addAgent_Inl prod.collapse)
  with assms(1) show ?thesis by simp
next
  case (Inr x)
  then have "addAgent a st = (Inr (), snd (addAgent a st))" by (metis old.unit.exhaust prod.collapse)
  then have a: "\<forall>b \<in> set (os_agents st). at_id b \<noteq> at_id a" "at_projectId a \<in> pj_id ` set (os_projects st)"
    "snd (addAgent a st) = st\<lparr>os_agents := os_agents st @ [a]\<rparr>"
    unfolding addAgent_Inr by (auto simp: list_ex_iff image_iff) (metis imageI)+
  then have "at_id a \<notin> at_id ` set (os_agents st)" by auto
  from defaults_add [OF assms(1) this a(2) assms(2)] show ?thesis by (simp only: a(3))
qed

lemma addProject_Inr: "addProject p st = (Inr (), t) \<longleftrightarrow>
    \<not> list_ex (\<lambda>q. pj_id q = pj_id p \<or> pj_organizationId q = pj_organizationId p \<and> pj_slug q = pj_slug p) (os_projects st) \<and>
    t = st\<lparr>os_projects := os_projects st @ [p]\<rparr>"
  by (auto simp: addProject_def)

lemma addKey_Inr: "addKey k st = (Inr (), t) \<longleftrightarrow>
    \<not> list_ex (\<lambda>q. ak_id q = ak_id k \<or> ak_key q = ak_key k) (os_keys st) \<and> t = st\<lparr>os_keys := os_keys st @ [k]\<rparr>"
  by (auto simp: addKey_def)

lemma defaults_project: "defaults Q st \<Longrightarrow> defaults Q (st\<lparr>os_projects := os_projects st @ [p]\<rparr>)"
  by (auto simp: defaults_def defaults_ok_def)

lemma no_default: "\<forall>a \<in> set t. at_projectId a \<noteq> p \<Longrightarrow> defaultCount p t = 0"
  by (auto simp: defaultCount_def filter_empty_conv isDefaultOf_def)

lemma defaults_seeded: "keeps (defaults Q) (createSeededProject call p u e)"
  unfolding keeps_def
proof (intro allI impI)
  fix st assume st: "defaults Q st"
  show "defaults Q (snd (createSeededProject call p u e st))"
  proof (cases "fst (createSeededProject call p u e st)")
    case (Inl err)
    then have "snd (createSeededProject call p u e st) = st"
      by (auto simp: createSeededProject_def transaction_def split: prod.splits sum.splits)
    with st show ?thesis by simp
  next
    case (Inr x)
    then obtain t where t: "createSeededProject call p u e st = (Inr (), t)" by (metis old.unit.exhaust prod.collapse)
    then obtain v w where v: "addProject p st = (Inr (), v)" "addKey (projectKey call 2 0 (pj_id p) u e) v = (Inr (), w)"
      "addAgent (defaultAgent call 3 1 (pj_id p)) w = (Inr (), t)"
      by (auto simp: createSeededProject_def transaction_def bindA_Inr split: prod.splits sum.splits)
    have "pj_id p \<notin> pj_id ` set (os_projects st)" using v(1) by (auto simp: addProject_Inr list_ex_iff)
    then have "\<forall>a \<in> set (os_agents st). at_projectId a \<noteq> pj_id p"
      using st unfolding defaults_def defaults_ok_def by (metis imageI subsetD)
    moreover have w: "os_agents w = os_agents st" "defaults Q w"
      using v(1,2) defaults_project [OF st, of p] by (auto simp: addProject_Inr addKey_Inr)
    ultimately have "defaults Q (snd (addAgent (defaultAgent call 3 1 (pj_id p)) w))"
      by (intro defaults_addAgent) (simp_all add: no_default defaultAgent_def)
    with v(3) t show ?thesis by simp
  qed
qed

lemma defaults_seedAgent: "keeps (defaults Q) (seedAgent call project)"
  unfolding seedAgent_def
proof (intro keeps_read)
  fix st assume st: "defaults Q st"
  have "defaultCount project (os_agents st) = 0" if "find (\<lambda>a. at_projectId a = project \<and> at_isDefault a) (os_agents st) = None"
    using that by (auto simp: find_None_iff defaultCount_def filter_empty_conv isDefaultOf_def)
  then show "defaults Q (snd ((if find (\<lambda>a. at_projectId a = project \<and> at_isDefault a) (os_agents st) = None
      then addAgent (defaultAgent call 5 3 project) else returnA ()) st))"
    using st by (auto intro!: defaults_addAgent simp: defaultAgent_def)
qed

text \<open>Moving the default: cleared in its project, then set on one of its agents.\<close>

definition moveDefault :: "string \<Rightarrow> string \<Rightarrow> agent_row \<Rightarrow> agent_row" where
  "moveDefault project agentId a =
     (let b = (if at_projectId a = project \<and> at_isDefault a then a\<lparr>at_isDefault := False\<rparr> else a)
      in if at_id b = agentId then b\<lparr>at_isDefault := True\<rparr> else b)"

lemma moveDefault_simps [simp]:
  "at_id (moveDefault p k a) = at_id a" "at_projectId (moveDefault p k a) = at_projectId a"
  "at_isDefault (moveDefault p k a) \<longleftrightarrow> at_id a = k \<or> at_projectId a \<noteq> p \<and> at_isDefault a"
  by (auto simp: moveDefault_def Let_def)

lemma defaults_move:
  assumes "defaults Q st" "a \<in> set (os_agents st)" "at_id a = k" "at_projectId a = p"
  shows "defaults Q (st\<lparr>os_agents := map (moveDefault p k) (os_agents st)\<rparr>)"
proof -
  let ?t = "os_agents st"
  have d: "distinct (map at_id ?t)" using assms(1) by (simp add: defaults_def defaults_ok_def)
  have mine: "at_id b = k \<Longrightarrow> b \<in> set ?t \<Longrightarrow> b = a" for b using assms(2,3) d by (auto simp: distinct_map inj_on_def)
  have count: "defaultCount q (map (moveDefault p k) ?t) = (if q = p then 1 else defaultCount q ?t)" for q
  proof (cases "q = p")
    case True
    have "filter (\<lambda>b. isDefaultOf p (moveDefault p k b)) ?t = filter (\<lambda>b. at_id b = k) ?t"
      using mine assms(4) by (auto simp: isDefaultOf_def intro!: filter_cong)
    moreover have "length (filter (\<lambda>b. at_id b = k) ?t) = 1"
    proof -
      have "length (filter (\<lambda>b. at_id b = k) ?t) \<le> 1" by (rule one_with_key [OF d])
      moreover have "a \<in> set (filter (\<lambda>b. at_id b = k) ?t)" using assms(2,3) by simp
      then have "0 < length (filter (\<lambda>b. at_id b = k) ?t)" by (rule length_pos_if_in_set)
      ultimately show ?thesis by linarith
    qed
    ultimately show ?thesis using True by (simp add: defaultCount_def filter_map comp_def)
  next
    case False
    have "filter (\<lambda>b. isDefaultOf q (moveDefault p k b)) ?t = filter (isDefaultOf q) ?t"
      using mine assms(4) False by (auto simp: isDefaultOf_def intro!: filter_cong)
    then show ?thesis using False by (simp add: defaultCount_def filter_map comp_def)
  qed
  show ?thesis
    by (subst defaults_map) (use assms(1) count in \<open>auto simp: defaults_def defaults_ok_def\<close>)
qed

lemma defaults_setDefault: "keeps (defaults Q) (setDefaultAgent project k)"
  unfolding setDefaultAgent_def withAgent_def
proof (intro keeps_read)
  fix st assume st: "defaults Q st"
  let ?after = "st\<lparr>os_agents := map (moveDefault project k) (os_agents st)\<rparr>"
  have step: "setAgent k (\<lambda>a. a\<lparr>at_isDefault := True\<rparr>) (st\<lparr>os_agents := map (\<lambda>a. if at_projectId a = project \<and> at_isDefault a
      then a\<lparr>at_isDefault := False\<rparr> else a) (os_agents st)\<rparr>) = ?after"
    by (auto simp: setAgent_def moveDefault_def Let_def comp_def)
  show "defaults Q (snd ((case agentOf project k st of None \<Rightarrow> throwA noSuchAgent
    | Some agent \<Rightarrow> bindA (throwIf (at_isDefault agent) (ServiceError BAD_REQUEST ''Agent is already the default'')) (\<lambda>_.
        transaction (bindA (writeA (\<lambda>st. st\<lparr>os_agents := map (\<lambda>a. if at_projectId a = project \<and> at_isDefault a
          then a\<lparr>at_isDefault := False\<rparr> else a) (os_agents st)\<rparr>)) (\<lambda>_. writeA (setAgent k (\<lambda>a. a\<lparr>at_isDefault := True\<rparr>)))))) st))"
  proof (cases "agentOf project k st")
    case None
    with st show ?thesis by simp
  next
    case (Some a)
    then have "a \<in> set (os_agents st)" "at_id a = k" "at_projectId a = project"
      by (auto simp: agentOf_def find_Some_iff)
    with Some st defaults_move [OF st] step show ?thesis by (simp add: transaction_def)
  qed
qed

lemma defaults_delete: "keeps (defaults Q) (deleteAgent project k)"
  unfolding deleteAgent_def withAgent_def
proof (intro keeps_read)
  fix st assume st: "defaults Q st"
  show "defaults Q (snd ((case agentOf project k st of None \<Rightarrow> throwA noSuchAgent
    | Some agent \<Rightarrow> bindA (throwIf (at_isDefault agent) (ServiceError BAD_REQUEST ''Cannot delete the default agent'')) (\<lambda>_.
        writeA (dropAgent k))) st))"
  proof (cases "agentOf project k st")
    case None
    with st show ?thesis by simp
  next
    case (Some a)
    then have a: "a \<in> set (os_agents st)" "at_id a = k" by (auto simp: agentOf_def find_Some_iff)
    have "defaults Q (dropAgent k st)" if "\<not> at_isDefault a"
    proof -
      have d: "distinct (map at_id (os_agents st))" using st by (simp add: defaults_def defaults_ok_def)
      have "isDefaultOf p b \<Longrightarrow> b \<in> set (os_agents st) \<Longrightarrow> at_id b \<noteq> k" for p b
        using a that d by (auto simp: isDefaultOf_def distinct_map inj_on_def)
      then have "defaultCount p (filter (\<lambda>b. at_id b \<noteq> k) (os_agents st)) = defaultCount p (os_agents st)" for p
        by (auto simp: defaultCount_def intro!: arg_cong [where f = length] filter_cong)
      moreover have "distinct (map at_id (filter (\<lambda>b. at_id b \<noteq> k) (os_agents st)))" by (rule distinct_map_filter [OF d])
      ultimately show ?thesis using st by (auto simp: defaults_def defaults_ok_def dropAgent_def)
    qed
    with Some st show ?thesis by simp
  qed
qed

lemma defaults_columns:
  assumes "\<And>a. at_id (f a) = at_id a \<and> at_projectId (f a) = at_projectId a \<and> at_isDefault (f a) = at_isDefault a"
  shows "defaults Q (setAgent k f st) = defaults Q st"
proof -
  let ?g = "\<lambda>a. if at_id a = k then f a else a"
  have g: "at_id (?g a) = at_id a" "at_projectId (?g a) = at_projectId a" "isDefaultOf p (?g a) = isDefaultOf p a" for a p
    using assms by (simp_all add: isDefaultOf_def)
  have "defaultCount p (map ?g t) = defaultCount p t" for t p
    by (simp add: defaultCount_def filter_map comp_def g)
  then have "defaults Q (st\<lparr>os_agents := map ?g (os_agents st)\<rparr>) = defaults Q st"
    by (subst defaults_map) (simp_all only: g, simp add: defaults_def defaults_ok_def)
  then show ?thesis by (simp only: setAgent_def)
qed

interpretation default_agent: org_invariant "defaults Q"
proof
  show "keeps (defaults Q) (addMember m)" for m
    unfolding addMember_def by (intro keeps_rules keeps_write) simp
  show "keeps (defaults Q) (updateMemberRole org user req role)" for org user req role
    unfolding updateMemberRole_def setRole_def by (intro keeps_rules keeps_write) simp
  show "keeps (defaults Q) (removeMember org user)" for org user
    unfolding removeMember_def dropMember_def by (intro keeps_rules keeps_write) simp
  show "keeps (defaults Q) (addProject p)" for p
    unfolding addProject_def by (intro keeps_rules keeps_write) (rule defaults_project)
  show "keeps (defaults Q) (createSeededProject call p user email)" for call p user email by (rule defaults_seeded)
  show "keeps (defaults Q) (seedAgent call project)" for call project by (rule defaults_seedAgent)
  show "keeps (defaults Q) (addAgent a)" if "\<not> at_isDefault a" for a
    unfolding keeps_def using that by (blast intro: defaults_addAgent)
  show "keeps (defaults Q) (setDefaultAgent project a)" for project a by (rule defaults_setDefault)
  show "keeps (defaults Q) (deleteAgent project a)" for project a by (rule defaults_delete)
qed (simp_all add: defaults_columns)

section \<open>A sample\<close>

definition sampleOrgCall :: org_call where
  "sampleOrgCall = \<lparr> oc_now = 1000, oc_lower = (\<lambda>s. s), oc_random = (\<lambda>n. replicate 32 (word_of_nat n)),
     oc_newId = (\<lambda>n. ''id'' @ replicate n CHR ''x''), oc_publicKey = ''key'', oc_selfUrl = ''https://app.example'' \<rparr>"

definition sampleAccount :: "string \<Rightarrow> account" where
  "sampleAccount k = \<lparr> us_id = k, us_email = k @ ''@example.com'', us_externalAuthId = ''ext-'' @ k, us_approvalDid = None,
     us_approvalPublicKeyJwk = JNull, us_approvalKeyRegisteredAt = None, ac_name = None, ac_lastLoginAt = None \<rparr>"

definition sampleMember :: "string \<Rightarrow> string \<Rightarrow> membership" where
  "sampleMember k role = \<lparr> mb_organizationId = ''org'', mb_userId = k, mb_role = role,
     ms_userEmail = k @ ''@example.com'', ms_createdAt = 1 \<rparr>"

definition sampleInvitation :: "string \<Rightarrow> int \<Rightarrow> invitation_row" where
  "sampleInvitation k expires = \<lparr> iv_id = ''invite-'' @ k, iv_organizationId = ''org'', iv_email = k @ ''@example.com'',
     iv_role = ''manager'', iv_token = ''token-'' @ k, iv_status = ''pending'', iv_invitedById = ''ann'',
     iv_invitedByEmail = ''ann@example.com'', iv_expiresAt = expires, iv_createdAt = 1 \<rparr>"

definition sampleProject :: project_row where
  "sampleProject = \<lparr> pj_id = ''proj'', pj_name = None, pj_slug = Some ''default'', pj_organizationId = ''org'',
     pj_createdByUserId = Some ''ann'', pj_createdByUserEmail = None, pj_createdAt = 1 \<rparr>"

definition sampleAgent :: "string \<Rightarrow> bool \<Rightarrow> agent_row" where
  "sampleAgent k isDefault = \<lparr> at_id = k, at_projectId = ''proj'', at_name = k, at_identifier = k, at_accessToken = ''aoc_'' @ k,
     at_isDefault = isDefault, at_secretMode = ''selective'', at_did = None, at_didPublicKey = None, at_createdAt = 1 \<rparr>"

definition sampleOrg :: org_state where
  "sampleOrg = \<lparr> os_users = [sampleAccount ''ann'', sampleAccount ''ben''], os_orgs = [\<lparr> og_id = ''org'', og_name = ''Org'', og_slug = ''org'' \<rparr>],
     os_members = [sampleMember ''ann'' ''owner'', sampleMember ''ben'' ''owner''],
     os_invitations = [sampleInvitation ''cal'' 5000, sampleInvitation ''dan'' 10], os_projects = [sampleProject],
     os_keys = [\<lparr> so_scope = ''project'', so_projectId = Some ''proj'', so_organizationId = None, so_partnerId = None,
       ak_id = ''key'', ak_userId = ''ben'', ak_userEmail = ''ben@example.com'', ak_key = ''oc_ben'' \<rparr>],
     os_agents = [sampleAgent ''default'' True, sampleAgent ''parent'' False],
     os_secrets = [\<lparr> so_scope = ''project'', so_projectId = Some ''proj'', so_organizationId = None, so_partnerId = None,
       sr_id = ''secret'', sr_type = ''anthropic'', sr_createdAt = 1 \<rparr>], os_connections = [], os_agentSecrets = [],
     os_agentConnections = [\<lparr> an_agentId = ''parent'', an_connectionId = ''github'', an_sessionPolicy = Some (JObj [(''repos'', JArr [])]) \<rparr>] \<rparr>"

definition sampleUser :: "string \<Rightarrow> session_user" where
  "sampleUser k = \<lparr> su_id = ''ext-'' @ k, su_email = k @ ''@example.com'', su_name = Some k \<rparr>"

definition sampleAuth :: auth_context where
  "sampleAuth = \<lparr> ac_userId = ''ann'', ac_userEmail = ''ann@example.com'', ac_projectId = None, ac_organizationId = ''org'', ac_role = None \<rparr>"

definition sampleRequest :: http_request where
  "sampleRequest = \<lparr> rq_authorization = Some ''Bearer oc_ben'', rq_projectId = None, rq_organizationId = None, rq_query = [] \<rparr>"

end
