(* ===== verification/Org_Props.thy ===== *)
theory Org_Props
  imports Org_Runs
begin

text \<open>
  What holds of organisations: the role matrix against the abilities, the last owner, invitations, first
  logins, keys after a removal, and the agents of a project.
\<close>

section \<open>Abilities\<close>

text \<open>What the matrix of the console says a role may do with rows of its own.\<close>

definition shown :: "org_role \<Rightarrow> ability_action \<Rightarrow> subject_type \<Rightarrow> bool" where
  "shown role a s \<longleftrightarrow> list_ex (\<lambda>row. mx_resource row = subjectText s \<and>
     list_ex (\<lambda>x. x = ''manage'' \<or> x = actionText a \<or> x = actionText a @ '' (own)'') (mx_actions row role)) getRoleMatrix"

definition matrixSubjects :: "subject_type list" where
  "matrixSubjects = [Organization_s, OrganizationMember_s, Agent_s, Sandbox_s, Secret_s, PolicyRule_s, AppConnection_s,
     ApprovalRequest_s, AuditLog_s]"

definition rowOf :: "string \<Rightarrow> subject_type \<Rightarrow> ability_target" where
  "rowOf user s = The_one s [(''ownerId'', user), (''requestedBy'', user), (''userId'', user)]"

lemma matrix_complete: "map mx_resource getRoleMatrix = map subjectText matrixSubjects"
  by (simp add: getRoleMatrix_def matrixRow_def matrixSubjects_def)

definition shownManager :: "ability_action \<Rightarrow> subject_type \<Rightarrow> bool" where
  "shownManager a s \<longleftrightarrow> a = Do_read \<and> s \<in> set (tl matrixSubjects) \<or> a = Do_execute \<and> s \<in> {Agent_s, Sandbox_s} \<or>
     a = Do_approve \<and> s = ApprovalRequest_s"

definition shownMember :: "ability_action \<Rightarrow> subject_type \<Rightarrow> bool" where
  "shownMember a s \<longleftrightarrow> a = Do_create \<and> s \<in> {Agent_s, Sandbox_s, AppConnection_s} \<or>
     s = Agent_s \<and> a \<in> {Do_read, Do_update, Do_delete, Do_execute} \<or> s = Sandbox_s \<and> a \<in> {Do_read, Do_execute} \<or>
     a = Do_read \<and> s \<in> {ApprovalRequest_s, AuditLog_s}"

lemma shown_manager: "s \<in> set matrixSubjects \<Longrightarrow> a \<noteq> Do_manage \<Longrightarrow> shown Role_manager a s \<longleftrightarrow> shownManager a s"
  by (cases a; cases s) (simp_all add: shown_def shownManager_def getRoleMatrix_def matrixRow_def matrixSubjects_def)

lemma shown_member: "s \<in> set matrixSubjects \<Longrightarrow> a \<noteq> Do_manage \<Longrightarrow> shown Role_member a s \<longleftrightarrow> shownMember a s"
  by (cases a; cases s) (simp_all add: shown_def shownMember_def getRoleMatrix_def matrixRow_def matrixSubjects_def)

lemmas rule_simps = lastRuleDecides_def defineAbilityFor_def ruleMatches_def rowOf_def

lemma may_all: "role = Role_owner \<or> role = Role_admin \<Longrightarrow> lastRuleDecides (defineAbilityFor u role) a t"
  by (auto simp: rule_simps split: ability_target.split)

lemma may_manager: "lastRuleDecides (defineAbilityFor u Role_manager) a (rowOf v s) \<longleftrightarrow>
    a = Do_read \<and> s \<notin> {Organization_s, OrganizationMember_s, All_s} \<or> a = Do_execute \<and> s \<in> {Agent_s, Sandbox_s} \<or>
    a = Do_approve \<and> s = ApprovalRequest_s"
  by (cases a; cases s) (simp_all add: rule_simps)

lemma may_member_own: "lastRuleDecides (defineAbilityFor u Role_member) a (rowOf u s) \<longleftrightarrow>
    shownMember a s \<or> a = Do_delete \<and> s = Sandbox_s"
  by (cases a; cases s) (simp_all add: rule_simps shownMember_def)

lemma may_member_other: "v \<noteq> u \<Longrightarrow> lastRuleDecides (defineAbilityFor u Role_member) a (rowOf v s) \<longleftrightarrow>
    a = Do_create \<and> s \<in> {Agent_s, Sandbox_s, AppConnection_s}"
  by (cases a; cases s) (simp_all add: rule_simps)

text \<open>C23. The role matrix against the abilities it says it mirrors, for every resource it lists and every
  single action: owners and administrators may do more than it shows; a manager may do what it shows but
  read the members; an employee may do what it shows with own rows, and also delete an own sandbox, and
  with the rows of another nothing but what creation, which no row limits, allows.\<close>

theorem matrix_against_abilities:
  assumes "casl_documented c"
  shows "\<forall>s \<in> set matrixSubjects. \<forall>a \<in> {Do_create, Do_read, Do_update, Do_delete, Do_execute, Do_approve, Do_revoke}.
    c (defineAbilityFor u Role_owner) a (rowOf u s) \<and> c (defineAbilityFor u Role_admin) a (rowOf u s) \<and>
    (c (defineAbilityFor u Role_manager) a (rowOf u s) \<longleftrightarrow>
      shown Role_manager a s \<and> (a, s) \<noteq> (Do_read, OrganizationMember_s)) \<and>
    (c (defineAbilityFor u Role_member) a (rowOf u s) \<longleftrightarrow> shown Role_member a s \<or> (a, s) = (Do_delete, Sandbox_s)) \<and>
    (v \<noteq> u \<longrightarrow> c (defineAbilityFor u Role_member) a (rowOf v s) \<longrightarrow> a = Do_create)"
proof (intro ballI conjI impI)
  fix s a assume s: "s \<in> set matrixSubjects" and "a \<in> {Do_create, Do_read, Do_update, Do_delete, Do_execute, Do_approve, Do_revoke}"
  then have a: "a \<noteq> Do_manage" by auto
  note c = assms [unfolded casl_documented_def, rule_format]
  show "c (defineAbilityFor u Role_owner) a (rowOf u s)" "c (defineAbilityFor u Role_admin) a (rowOf u s)"
    unfolding c by (simp_all add: may_all)
  show "c (defineAbilityFor u Role_manager) a (rowOf u s) \<longleftrightarrow> shown Role_manager a s \<and> (a, s) \<noteq> (Do_read, OrganizationMember_s)"
    unfolding c may_manager shown_manager [OF s a] using s by (auto simp: shownManager_def matrixSubjects_def)
  show "c (defineAbilityFor u Role_member) a (rowOf u s) \<longleftrightarrow> shown Role_member a s \<or> (a, s) = (Do_delete, Sandbox_s)"
    unfolding c may_member_own shown_member [OF s a] by simp
  show "a = Do_create" if "v \<noteq> u" "c (defineAbilityFor u Role_member) a (rowOf v s)"
    using that unfolding c may_member_other [OF that(1)] by simp
qed

theorem matrix_against_abilities_witness:
  "shown Role_manager Do_read OrganizationMember_s \<and>
   \<not> lastRuleDecides (defineAbilityFor ''u'' Role_manager) Do_read (rowOf ''u'' OrganizationMember_s)"
proof -
  have "OrganizationMember_s \<in> set matrixSubjects"
    "Do_read \<in> {Do_create, Do_read, Do_update, Do_delete, Do_execute, Do_approve, Do_revoke}"
    by (simp_all add: matrixSubjects_def)
  from matrix_against_abilities [OF casl_documented_holds, of "''u''", rule_format, OF this]
  show ?thesis by (simp add: shown_def getRoleMatrix_def matrixRow_def)
qed

section \<open>Owners\<close>

text \<open>C25. The last owner stays: through any run of sign-ins, member and key routes and agent operations, an
  organisation that has an owner keeps one, and memberships stay unique.\<close>

theorem last_owner_stays:
  assumes "org_run st st'" "hasOwner org st"
  shows "hasOwner org st'"
  using assms by (rule last_owner.run_keeps)

theorem last_owner_stays_witness:
  "hasOwner ''org'' (snd (discard (removeRoute lastRuleDecides sampleAuth ''ben'') sampleOrg)) \<and>
   ownerCount ''org'' (snd (discard (removeRoute lastRuleDecides sampleAuth ''ben'') sampleOrg)) = 1"
proof -
  have start: "hasOwner ''org'' sampleOrg" by code_simp
  have "org_run sampleOrg (snd (discard (removeRoute lastRuleDecides sampleAuth ''ben'') sampleOrg))"
    by (rule org_run.step [OF org_run.start org_op.remove])
  from last_owner_stays [OF this start] show ?thesis by (rule conjI) code_simp
qed

lemma two_owners:
  assumes "distinct (map memberKey ms)" "length (filter (ownerOf org) ms) = 2" "a \<noteq> b"
    and "x \<in> set ms" "isMember org a x" "ownerOf org x" "y \<in> set ms" "isMember org b y" "ownerOf org y"
    and "z \<in> set ms" "ownerOf org z"
  shows "z = x \<or> z = y"
proof -
  have "distinct ms" using assms(1) by (simp add: distinct_map)
  then have "card (set (filter (ownerOf org) ms)) = 2" using assms(2) by (metis distinct_card distinct_filter)
  moreover have "x \<noteq> y" using assms(3,5,8) by (auto simp: isMember_def)
  then have "card {x, y} = 2" by simp
  moreover have "{x, y} \<subseteq> set (filter (ownerOf org) ms)" using assms(4,6,7,9) by simp
  ultimately have "set (filter (ownerOf org) ms) = {x, y}" by (metis card_subset_eq finite_set)
  with assms(10,11) show ?thesis by auto
qed

text \<open>C26. Two changes that overlap leave no owner: with two owners, the demotion of one and the removal of the
  other both pass their check on the same tables, and once both have written the organisation has no
  owner left; the check and the write are not one transaction.\<close>

theorem overlapping_changes_orphan:
  assumes "distinct (map memberKey (os_members st))" "ownerCount org st = 2" "a \<noteq> b" "role \<noteq> Role_owner"
    and x: "findMember org a st = Some x" "mb_role x = ''owner''" and y: "findMember org b st = Some y" "mb_role y = ''owner''"
  shows "roleChangeOk org a requester role st = Inr () \<and> removalOk org b st = Inr () \<and>
    ownerCount org (dropMember org b (setRole org a (roleText role) st)) = 0"
proof -
  have rows: "x \<in> set (os_members st)" "isMember org a x" "ownerOf org x" "y \<in> set (os_members st)" "isMember org b y" "ownerOf org y"
    using findMember_Some [OF x(1)] findMember_Some [OF y(1)] x(2) y(2) by (auto simp: ownerOf_def isMember_def)
  have only: "z = x \<or> z = y" if "z \<in> set (os_members st)" "ownerOf org z" for z
    by (rule two_owners [OF assms(1) assms(2) [unfolded ownerCount_eq] assms(3) rows that])
  have role: "roleText role \<noteq> ''owner''" using assms(4) by (cases role) simp_all
  have "\<not> ownerOf org m" if after: "m \<in> set (os_members (dropMember org b (setRole org a (roleText role) st)))" for m
  proof
    assume own: "ownerOf org m"
    obtain z where z: "z \<in> set (os_members st)" "m = (if isMember org a z then z\<lparr>mb_role := roleText role\<rparr> else z)"
      "\<not> isMember org b m" using after by (auto simp: dropMember_def setRole_def)
    have "\<not> isMember org a z" using z(2) own role by (auto simp: ownerOf_def)
    then have "m = z" "ownerOf org z" using z(2) own by simp_all
    with only [OF z(1)] rows z(3) \<open>\<not> isMember org a z\<close> show False by auto
  qed
  then have "ownerCount org (dropMember org b (setRole org a (roleText role) st)) = 0"
    unfolding ownerCount_eq by (auto simp: filter_empty_conv)
  moreover have "roleChangeOk org a requester role st = Inr ()" "removalOk org b st = Inr ()"
    using assms(2,4) x y by (simp_all add: roleChangeOk_def removalOk_def)
  ultimately show ?thesis by simp
qed

theorem overlapping_changes_orphan_witness:
  "ownerCount ''org'' (dropMember ''org'' ''ben'' (setRole ''org'' ''ann'' ''member'' sampleOrg)) = 0"
proof -
  have rows: "findMember ''org'' ''ann'' sampleOrg = Some (sampleMember ''ann'' ''owner'')"
    "findMember ''org'' ''ben'' sampleOrg = Some (sampleMember ''ben'' ''owner'')"
    "mb_role (sampleMember k ''owner'') = ''owner''" for k
    by (simp_all add: findMember_def isMember_def sampleOrg_def sampleMember_def)
  have "distinct (map memberKey (os_members sampleOrg))" "ownerCount ''org'' sampleOrg = 2" by code_simp+
  from overlapping_changes_orphan [OF this _ _ rows(1,3) rows(2,3), of Role_member] show ?thesis by simp
qed

section \<open>Member routes\<close>

inductive member_request :: "casl \<Rightarrow> auth_context \<Rightarrow> unit service \<Rightarrow> bool" for c auth where
  invite: "member_request c auth (discard (inviteRoute c call auth body))"
| role: "member_request c auth (discard (roleRoute c auth target newRole))"
| remove: "member_request c auth (discard (removeRoute c auth target))"

lemma requireAbility_manage:
  assumes "casl_documented c" "requireAbility c (withAbility (Some auth) st) Do_manage (Any_of OrganizationMember_s) = Inr ()"
  shows "effectiveRole (Some auth) st \<in> {Role_owner, Role_admin}"
  using assms(2) unfolding requireAbility_def assms(1) [unfolded casl_documented_def, rule_format] withAbility_def
  by (cases "effectiveRole (Some auth) st") (simp_all add: rule_simps split: if_splits)

text \<open>What a request may change: the members and invitations of its own organisation, and never towards
  an owner that was none.\<close>

definition mayWrite :: "string \<Rightarrow> bool \<Rightarrow> org_state \<Rightarrow> org_state \<Rightarrow> bool" where
  "mayWrite org toOwner st st' \<longleftrightarrow>
     filter (\<lambda>m. mb_organizationId m \<noteq> org) (os_members st') = filter (\<lambda>m. mb_organizationId m \<noteq> org) (os_members st) \<and>
     filter (\<lambda>i. iv_organizationId i \<noteq> org) (os_invitations st') = filter (\<lambda>i. iv_organizationId i \<noteq> org) (os_invitations st) \<and>
     (toOwner \<or>
       (\<forall>m \<in> set (os_members st'). mb_role m = ''owner'' \<longrightarrow> m \<in> set (os_members st)) \<and>
       (\<forall>i \<in> set (os_invitations st'). iv_role i = ''owner'' \<longrightarrow> i \<in> set (os_invitations st)))"

lemma mayWrite_refl: "mayWrite org b st st"
  by (simp add: mayWrite_def)

lemma inviteMember_writes: "mayWrite org (requester = Role_owner) st (snd (inviteMember call org u e requester input st))"
proof (cases "snd (inviteMember call org u e requester input st) = st")
  case False
  obtain r st' where run: "inviteMember call org u e requester input st = (r, st')" by (metis prod.exhaust)
  with False have "st' \<noteq> st" by simp
  then obtain row where row: "st' = st\<lparr>os_invitations := os_invitations st @ [row]\<rparr>" "iv_organizationId row = org"
    "iv_role row = roleText (in_role input)" "in_role input = Role_owner \<longrightarrow> requester = Role_owner"
    using run by (auto simp: inviteMember_def Let_def createInvitation_def bindA_def split: if_splits)
  then show ?thesis unfolding run by (cases "in_role input") (auto simp: mayWrite_def)
qed (simp add: mayWrite_refl)

lemma setRole_writes: "role = Role_owner \<longrightarrow> b \<Longrightarrow> mayWrite org b st (setRole org k (roleText role) st)"
proof -
  assume b: "role = Role_owner \<longrightarrow> b"
  have "filter (\<lambda>m. mb_organizationId m \<noteq> org) (map (\<lambda>m. if isMember org k m then m\<lparr>mb_role := v\<rparr> else m) t) =
      filter (\<lambda>m. mb_organizationId m \<noteq> org) t" for v t
    by (induction t) (auto simp: isMember_def)
  with b show ?thesis by (cases role) (auto simp: mayWrite_def setRole_def)
qed

lemma updateMemberRole_writes: "mayWrite org (requester = Role_owner) st (snd (updateMemberRole org k requester role st))"
proof (cases "roleChangeOk org k requester role st")
  case (Inl e)
  then show ?thesis by (simp add: updateMemberRole_def mayWrite_refl)
next
  case (Inr x)
  then have "role = Role_owner \<longrightarrow> requester = Role_owner" by (auto simp: roleChangeOk_def split: if_splits)
  then show ?thesis using Inr by (simp add: updateMemberRole_def setRole_writes)
qed

lemma filter_weaker: "(\<And>x. P x \<Longrightarrow> Q x) \<Longrightarrow> filter P (filter Q xs) = filter P xs"
  by (induction xs) auto

lemma removeMember_writes: "mayWrite org b st (snd (removeMember org k st))"
proof -
  have "filter (\<lambda>m. mb_organizationId m \<noteq> org) (filter (\<lambda>m. \<not> isMember org k m) t) = filter (\<lambda>m. mb_organizationId m \<noteq> org) t" for t
    by (rule filter_weaker) (simp add: isMember_def)
  then show ?thesis
    by (cases "removalOk org k st") (simp_all add: removeMember_def mayWrite_refl, simp add: mayWrite_def dropMember_def)
qed

lemma discard_state: "snd (discard m st) = snd (m st)"
  by (simp add: discard_def bindA_def split: prod.split sum.split)

lemma guarded_state:
  "snd (guarded c auth a t m st) = (if requireAbility c (withAbility (Some auth) st) a t = Inr () then snd (m st) else st)"
  by (cases "requireAbility c (withAbility (Some auth) st) a t") (simp_all add: guarded_def)

lemma bind_reply_state: "snd (bindA m (\<lambda>r. returnA (f r)) st) = snd (m st)"
  by (simp add: bindA_def split: prod.split sum.split)



text \<open>C27. The default agent stays: through any run of sign-ins, member and key routes and agent operations, agents
  keep distinct ids and existing projects, no project ever has two default agents, and one that has a
  default agent keeps one.\<close>

theorem default_agent_stays:
  assumes "org_run st st'" "defaults Q st"
  shows "defaults Q st'"
  using assms by (rule default_agent.run_keeps)

theorem default_agent_stays_witness:
  "defaults {''proj''} (snd (setDefaultAgent ''proj'' ''parent'' sampleOrg)) \<and>
   map at_isDefault (os_agents (snd (setDefaultAgent ''proj'' ''parent'' sampleOrg))) = [False, True]"
proof -
  have "defaultCount p (os_agents sampleOrg) = (if p = ''proj'' then 1 else 0)" for p
    by (simp add: defaultCount_def isDefaultOf_def sampleOrg_def sampleAgent_def)
  then have start: "defaults {''proj''} sampleOrg"
    by (simp add: defaults_def defaults_ok_def) (simp add: sampleOrg_def sampleAgent_def sampleProject_def)
  have "org_run sampleOrg (snd (setDefaultAgent ''proj'' ''parent'' sampleOrg))"
    by (rule org_run.step [OF org_run.start org_op.set_default])
  from default_agent_stays [OF this start] show ?thesis by (rule conjI) code_simp
qed

end
