(* ===== verification/Joining.thy ===== *)
theory Joining
  imports Org_Runs
begin

text \<open>
  How users come into organisations and how requests are tied to them: what an invitation can become, what
  the first sign-in of a user does and what a later one cannot, and what an authenticated context says.
\<close>

section \<open>Invitations\<close>

text \<open>C29. An invitation that was not used blocks its address: once expired it is never accepted, and because its
  status stays pending no other can be made for the address; one that was used blocks it too once the
  member is gone, by the unique constraint of the table, which surfaces as an internal error.\<close>

theorem invitations_block:
  assumes "i \<in> set (os_invitations st)" "iv_organizationId i = org" "iv_email i = oc_lower call (trim (in_email input))"
    and "iv_status i = ''pending'' \<longrightarrow> iv_expiresAt i \<le> oc_now call"
  shows "openInvitation (oc_now call) (iv_email i) st \<noteq> Some i \<and>
    (\<exists>e. inviteMember call org u ue Role_owner input st = (Inl e, st) \<and>
       (e = alreadyMember \<or> e = alreadyInvited \<or> iv_status i \<noteq> ''pending'' \<and> e = uniqueFailed))"
proof
  show "openInvitation (oc_now call) (iv_email i) st \<noteq> Some i"
    using assms(4) firstBy_Some [of "\<lambda>i. - iv_createdAt i"] unfolding openInvitation_def by fastforce
  let ?email = "oc_lower call (trim (in_email input))"
  let ?member = "find (\<lambda>m. mb_organizationId m = org \<and> ms_userEmail m = ?email) (os_members st)"
  let ?pending = "find (\<lambda>i. iv_organizationId i = org \<and> iv_email i = ?email \<and> iv_status i = ''pending'') (os_invitations st)"
  have "list_ex (\<lambda>j. iv_id j = k \<or> iv_organizationId j = org \<and> iv_email j = ?email \<or> iv_token j = v) (os_invitations st)" for k v
    using assms(1-3) by (auto simp: list_ex_iff)
  then have "inviteMember call org u ue Role_owner input st =
      (Inl (if ?member \<noteq> None then alreadyMember else if ?pending \<noteq> None then alreadyInvited else uniqueFailed), st)"
    by (simp add: inviteMember_def createInvitation_def Let_def bindA_assoc)
  moreover have "iv_status i = ''pending'' \<Longrightarrow> ?pending \<noteq> None" using assms(1-3) by (auto simp: find_None_iff)
  ultimately show "\<exists>e. inviteMember call org u ue Role_owner input st = (Inl e, st) \<and>
       (e = alreadyMember \<or> e = alreadyInvited \<or> iv_status i \<noteq> ''pending'' \<and> e = uniqueFailed)"
    by auto
qed

theorem invitations_block_witness:
  "\<exists>e. inviteMember sampleOrgCall ''org'' ''ann'' ''ann@example.com'' Role_owner
    \<lparr> in_email = ''dan@example.com'', in_role = Role_member \<rparr> sampleOrg = (Inl e, sampleOrg)"
proof -
  have "sampleInvitation ''dan'' 10 \<in> set (os_invitations sampleOrg)" "iv_organizationId (sampleInvitation ''dan'' 10) = ''org''"
    by (simp_all add: sampleOrg_def sampleInvitation_def)
  moreover have "iv_email (sampleInvitation ''dan'' 10) = oc_lower sampleOrgCall (trim (in_email \<lparr> in_email = ''dan@example.com'', in_role = Role_member \<rparr>))"
    "iv_status (sampleInvitation ''dan'' 10) = ''pending'' \<longrightarrow> iv_expiresAt (sampleInvitation ''dan'' 10) \<le> oc_now sampleOrgCall"
    by code_simp+
  ultimately show ?thesis using invitations_block by blast
qed

section \<open>The first sign-in\<close>

text \<open>The ids the database mints and the random values drawn are new.\<close>

definition fresh_call :: "org_call \<Rightarrow> org_state \<Rightarrow> bool" where
  "fresh_call call st \<longleftrightarrow>
     (\<forall>m \<in> set (os_members st). mb_userId m \<noteq> oc_newId call 6 \<and> mb_organizationId m \<noteq> oc_newId call 0) \<and>
     (\<forall>g \<in> set (os_orgs st). og_id g \<noteq> oc_newId call 0) \<and>
     (\<forall>i \<in> set (os_invitations st). iv_organizationId i \<noteq> oc_newId call 0) \<and>
     (\<forall>p \<in> set (os_projects st). pj_id p \<noteq> oc_newId call 1 \<and> pj_organizationId p \<noteq> oc_newId call 0) \<and>
     (\<forall>k \<in> set (os_keys st). ak_id k \<notin> {oc_newId call 2, oc_newId call 4} \<and> ak_userId k \<noteq> oc_newId call 6 \<and>
        ak_key k \<notin> {generateApiKey call 0 None, generateApiKey call 2 None}) \<and>
     (\<forall>a \<in> set (os_agents st). at_id a \<noteq> oc_newId call 3 \<and> at_accessToken a \<noteq> generateAccessToken call 1 \<and>
        at_projectId a \<noteq> oc_newId call 1)"

definition newUser :: "org_call \<Rightarrow> session_user \<Rightarrow> account" where
  "newUser call user = \<lparr> us_id = oc_newId call 6, us_email = su_email user, us_externalAuthId = su_id user,
     us_approvalDid = None, us_approvalPublicKeyJwk = JNull, us_approvalKeyRegisteredAt = None,
     ac_name = su_name user, ac_lastLoginAt = Some (oc_now call) \<rparr>"

definition unknown_user :: "session_user \<Rightarrow> org_state \<Rightarrow> bool" where
  "unknown_user user st \<longleftrightarrow> (\<forall>u \<in> set (os_users st). us_email u \<noteq> su_email user \<and> us_externalAuthId u \<noteq> su_id user)"

lemma newUser_simps [simp]:
  "us_id (newUser call user) = oc_newId call 6" "us_email (newUser call user) = su_email user"
  "ac_name (newUser call user) = su_name user"
  by (simp_all add: newUser_def)

lemma upsert_new:
  assumes "unknown_user user st"
  shows "upsertUser call user st = (Inr (newUser call user), st\<lparr>os_users := os_users st @ [newUser call user]\<rparr>)"
    and "find (\<lambda>u. us_email u = su_email user) (os_users st) = None"
proof -
  show none: "find (\<lambda>u. us_email u = su_email user) (os_users st) = None"
    using assms by (auto simp: unknown_user_def find_None_iff)
  have "\<not> list_ex (\<lambda>u. us_externalAuthId u = su_id user \<and> us_email u \<noteq> su_email user) (os_users st)"
    using assms by (auto simp: unknown_user_def list_ex_iff)
  with none show "upsertUser call user st = (Inr (newUser call user), st\<lparr>os_users := os_users st @ [newUser call user]\<rparr>)"
    by (simp add: upsertUser_def newUser_def Let_def)
qed

lemma no_project: "\<forall>m \<in> set (os_members st). mb_userId m \<noteq> u \<Longrightarrow> findUserDefaultProject u st = None"
proof -
  assume "\<forall>m \<in> set (os_members st). mb_userId m \<noteq> u"
  then have "firstBy ms_createdAt (\<lambda>m. mb_userId m = u) (os_members st) = None" by (simp add: firstBy_None)
  then show ?thesis by (simp add: findUserDefaultProject_def)
qed

definition joinedMember :: "org_call \<Rightarrow> invitation_row \<Rightarrow> string \<Rightarrow> string \<Rightarrow> membership" where
  "joinedMember call i user email = \<lparr> mb_organizationId = iv_organizationId i, mb_userId = user, mb_role = iv_role i,
     ms_userEmail = email, ms_createdAt = oc_now call \<rparr>"

definition joined :: "org_call \<Rightarrow> invitation_row \<Rightarrow> string \<Rightarrow> string \<Rightarrow> org_state \<Rightarrow> org_state" where
  "joined call i user email st = acceptInvitation (iv_id i) (st\<lparr>os_members := os_members st @ [joinedMember call i user email]\<rparr>)"

lemma joined_simps [simp]:
  "os_members (joined call i u e st) = os_members st @ [joinedMember call i u e]" "os_projects (joined call i u e st) = os_projects st"
  "os_keys (joined call i u e st) = os_keys st" "os_agents (joined call i u e st) = os_agents st"
  "os_orgs (joined call i u e st) = os_orgs st" "os_users (joined call i u e st) = os_users st"
  "os_invitations (joined call i u e st) = os_invitations (acceptInvitation (iv_id i) st)"
  by (simp_all add: joined_def acceptInvitation_def)

lemma accept_new:
  assumes "openInvitation (oc_now call) (oc_lower call (trim email)) st = Some i" "\<forall>m \<in> set (os_members st). mb_userId m \<noteq> u"
  shows "acceptPendingInvitationForEmail call email u st =
    (Inr (Some (iv_organizationId i, case firstBy pj_createdAt (\<lambda>p. pj_organizationId p = iv_organizationId i) (os_projects st) of
        None \<Rightarrow> '''' | Some p \<Rightarrow> pj_id p)), joined call i u (oc_lower call (trim email)) st)"
proof -
  have "findMember (iv_organizationId i) u st = None"
    using assms(2) by (auto simp: findMember_def find_None_iff isMember_def)
  then show ?thesis using assms(1)
    by (simp add: acceptPendingInvitationForEmail_def addMember_def Let_def joined_def joinedMember_def bindA_assoc)
       (simp add: acceptInvitation_def)
qed

lemma find_append: "find P (xs @ ys) = (case find P xs of None \<Rightarrow> find P ys | Some x \<Rightarrow> Some x)"
  by (induction xs) auto

lemma find_new: "\<forall>m \<in> set ms. \<not> P m \<Longrightarrow> P x \<Longrightarrow> find P (ms @ [x]) = Some x"
  by (induction ms) auto

text \<open>C28. An invited user joins: at the first sign-in of a user whose address has an open invitation into an
  organisation with a project and its default agent, the session is that of the invited organisation
  and its first project with the role the inviter chose; the membership is made, the invitation used, and
  no organisation or project is created.\<close>

theorem first_sign_in_joins:
  assumes "unknown_user user st" "fresh_call call st" "su_email user \<noteq> ''''"
    and i: "openInvitation (oc_now call) (oc_lower call (trim (su_email user))) st = Some i"
    and p: "firstBy pj_createdAt (\<lambda>p. pj_organizationId p = iv_organizationId i) (os_projects st) = Some p" "pj_id p \<noteq> ''''"
    and a: "a \<in> set (os_agents st)" "isDefaultOf (pj_id p) a"
  shows "\<exists>st'. sessionRoute call boot (Some user) st = (Session \<lparr> sv_id = oc_newId call 6, sv_email = su_email user,
      sv_name = su_name user, sv_project = Some (pj_id p, iv_organizationId i, Some (iv_role i)) \<rparr>, st') \<and>
    os_orgs st' = os_orgs st \<and> os_projects st' = os_projects st \<and>
    os_members st' = os_members st @ [joinedMember call i (oc_newId call 6) (oc_lower call (trim (su_email user)))] \<and>
    os_invitations st' = os_invitations (acceptInvitation (iv_id i) st)"
proof -
  let ?u = "oc_newId call 6" and ?email = "oc_lower call (trim (su_email user))"
  let ?s1 = "st\<lparr>os_users := os_users st @ [newUser call user]\<rparr>"
  let ?s2 = "joined call i ?u ?email ?s1"
  have m: "\<forall>m \<in> set (os_members st). mb_userId m \<noteq> ?u" using assms(2) by (simp add: fresh_call_def)
  have acc: "acceptPendingInvitationForEmail call (su_email user) ?u ?s1 =
      (Inr (Some (iv_organizationId i, pj_id p)), ?s2)"
    using accept_new [of call "su_email user" ?s1 i ?u] i p m by (simp add: openInvitation_def)
  have key: "find (\<lambda>k. ak_userId k = ?u \<and> so_projectId k = Some (pj_id p)) (os_keys st) = None"
    using assms(2) by (auto simp: fresh_call_def find_None_iff)
  have new: "\<not> list_ex (\<lambda>k. ak_id k = ak_id (projectKey call 4 2 (pj_id p) ?u (su_email user)) \<or>
      ak_key k = ak_key (projectKey call 4 2 (pj_id p) ?u (su_email user))) (os_keys st)"
    using assms(2) by (auto simp: fresh_call_def projectKey_def list_ex_iff)
  have "find (\<lambda>a. at_projectId a = pj_id p \<and> at_isDefault a) (os_agents st) \<noteq> None"
    using a by (auto simp: find_None_iff isDefaultOf_def)
  then obtain b where agent: "find (\<lambda>a. at_projectId a = pj_id p \<and> at_isDefault a) (os_agents st) = Some b" by blast
  let ?s3 = "?s2\<lparr>os_keys := os_keys st @ [projectKey call 4 2 (pj_id p) ?u (su_email user)]\<rparr>"
  have seeds: "ensureProjectSeeds call (pj_id p) ?u (su_email user) ?s2 = (Inr (), ?s3)"
    using key new agent by (simp add: ensureProjectSeeds_def seedAgent_def addKey_def bindA_assoc)
  have member: "findMember (iv_organizationId i) ?u ?s3 = Some (joinedMember call i ?u ?email)"
    using find_new [of "os_members st" "isMember (iv_organizationId i) ?u" "joinedMember call i ?u ?email"] m
    by (simp add: findMember_def isMember_def joinedMember_def)
  have "syncSession call boot user st = (Inr \<lparr> sv_id = ?u, sv_email = su_email user, sv_name = su_name user,
      sv_project = Some (pj_id p, iv_organizationId i, Some (iv_role i)) \<rparr>, ?s3)"
    using upsert_new(1) [OF assms(1), of call] upsert_new(2) [OF assms(1)] no_project [of ?s1 ?u] m acc p(2) seeds member
    by (simp add: syncSession_def invitedProject_def bootstrappedProject_def homeProject_def bindA_def
        resolveRoleForSession_def joinedMember_def)
  then show ?thesis using assms(3) by (simp add: sessionRoute_def acceptInvitation_def)
qed

theorem first_sign_in_joins_witness:
  "\<exists>st'. sessionRoute sampleOrgCall True (Some (sampleUser ''cal'')) sampleOrg = (Session \<lparr> sv_id = ''idxxxxxx'',
     sv_email = ''cal@example.com'', sv_name = Some ''cal'', sv_project = Some (''proj'', ''org'', Some ''manager'') \<rparr>, st')"
proof -
  have call: "oc_newId sampleOrgCall 6 = ''idxxxxxx''" "su_email (sampleUser ''cal'') = ''cal@example.com''"
    "su_name (sampleUser ''cal'') = Some ''cal''" "pj_id sampleProject = ''proj''"
    "iv_organizationId (sampleInvitation ''cal'' 5000) = ''org''" "iv_role (sampleInvitation ''cal'' 5000) = ''manager''"
    by code_simp+
  have "unknown_user (sampleUser ''cal'') sampleOrg" "fresh_call sampleOrgCall sampleOrg" "su_email (sampleUser ''cal'') \<noteq> ''''"
    by code_simp+
  moreover have "openInvitation (oc_now sampleOrgCall) (oc_lower sampleOrgCall (trim (su_email (sampleUser ''cal'')))) sampleOrg =
      Some (sampleInvitation ''cal'' 5000)" by code_simp
  moreover have "firstBy pj_createdAt (\<lambda>p. pj_organizationId p = iv_organizationId (sampleInvitation ''cal'' 5000)) (os_projects sampleOrg) =
      Some sampleProject" "pj_id sampleProject \<noteq> ''''" by code_simp+
  moreover have "sampleAgent ''default'' True \<in> set (os_agents sampleOrg)" "isDefaultOf (pj_id sampleProject) (sampleAgent ''default'' True)"
    by (simp_all add: sampleOrg_def isDefaultOf_def sampleAgent_def sampleProject_def)
  ultimately show ?thesis using first_sign_in_joins [of "sampleUser ''cal''" sampleOrg sampleOrgCall "sampleInvitation ''cal'' 5000"
      sampleProject "sampleAgent ''default'' True" True] unfolding call by blast
qed

text \<open>A new user without a project gets an organisation.\<close>

definition ownOrganization :: "org_call \<Rightarrow> session_user \<Rightarrow> org_row" where
  "ownOrganization call user =
     (let orgName = orText (orText (orElse (su_name user) '''') (hd (splitOn CHR ''@'' (su_email user)))) ''Personal''
      in \<lparr> og_id = oc_newId call 0, og_name = orgName,
           og_slug = orText (slugify call orgName) ''personal'' @ ''-'' @ u16take 8 (oc_newId call 6) \<rparr>)"

definition ownerMember :: "org_call \<Rightarrow> session_user \<Rightarrow> membership" where
  "ownerMember call user = \<lparr> mb_organizationId = oc_newId call 0, mb_userId = oc_newId call 6, mb_role = ''owner'',
     ms_userEmail = su_email user, ms_createdAt = oc_now call \<rparr>"

definition bootstrapped :: "org_call \<Rightarrow> session_user \<Rightarrow> org_state \<Rightarrow> org_state" where
  "bootstrapped call user st = st\<lparr>os_orgs := os_orgs st @ [ownOrganization call user],
     os_members := os_members st @ [ownerMember call user],
     os_projects := os_projects st @ [newProject call 1 (oc_newId call 0) (oc_newId call 6) (su_email user)],
     os_keys := os_keys st @ [projectKey call 2 0 (oc_newId call 1) (oc_newId call 6) (su_email user)],
     os_agents := os_agents st @ [defaultAgent call 3 1 (oc_newId call 1)]\<rparr>"

lemma newProject_simps [simp]:
  "pj_id (newProject call n org u e) = oc_newId call n" "pj_organizationId (newProject call n org u e) = org"
  by (simp_all add: newProject_def)

lemma bootstrap_new:
  assumes "fresh_call call st" "\<forall>g \<in> set (os_orgs st). og_slug g \<noteq> og_slug (ownOrganization call user)"
    and t: "os_orgs t = os_orgs st" "os_projects t = os_projects st" "os_keys t = os_keys st" "os_agents t = os_agents st"
    and "\<forall>m \<in> set (os_members t). mb_organizationId m \<noteq> oc_newId call 0"
  shows "bootstrapOrganization call (oc_newId call 6) (su_email user) (su_name user) t =
    (Inr (newProject call 1 (oc_newId call 0) (oc_newId call 6) (su_email user)), bootstrapped call user t)"
proof -
  note f = assms(1) [unfolded fresh_call_def]
  have org: "\<not> list_ex (\<lambda>g. og_id g = og_id (ownOrganization call user) \<or> og_slug g = og_slug (ownOrganization call user)) (os_orgs t)"
    using f assms(2) t(1) by (auto simp: list_ex_iff ownOrganization_def Let_def)
  have member: "findMember (oc_newId call 0) (oc_newId call 6) (t\<lparr>os_orgs := os_orgs t @ [ownOrganization call user]\<rparr>) = None"
    using assms(7) by (auto simp: findMember_def find_None_iff isMember_def)
  let ?t1 = "t\<lparr>os_orgs := os_orgs t @ [ownOrganization call user], os_members := os_members t @ [ownerMember call user]\<rparr>"
  have first: "createOwnOrganization call (ownOrganization call user) (oc_newId call 6) (su_email user) t = (Inr (), ?t1)"
    using org member by (simp add: createOwnOrganization_def transaction_def addOrg_def addMember_def ownerMember_def bindA_assoc)
      (simp add: ownOrganization_def Let_def)
  let ?p = "newProject call 1 (oc_newId call 0) (oc_newId call 6) (su_email user)"
  have "addProject ?p ?t1 = (Inr (), ?t1\<lparr>os_projects := os_projects t @ [?p]\<rparr>)"
    using f t(2) by (auto simp: addProject_Inr list_ex_iff)
  moreover have "addKey (projectKey call 2 0 (oc_newId call 1) (oc_newId call 6) (su_email user)) (?t1\<lparr>os_projects := os_projects t @ [?p]\<rparr>) =
      (Inr (), ?t1\<lparr>os_projects := os_projects t @ [?p], os_keys := os_keys t @ [projectKey call 2 0 (oc_newId call 1) (oc_newId call 6) (su_email user)]\<rparr>)"
    using f t(3) by (auto simp: addKey_Inr list_ex_iff projectKey_def)
  moreover have "addAgent (defaultAgent call 3 1 (oc_newId call 1)) (?t1\<lparr>os_projects := os_projects t @ [?p],
        os_keys := os_keys t @ [projectKey call 2 0 (oc_newId call 1) (oc_newId call 6) (su_email user)]\<rparr>) = (Inr (), bootstrapped call user t)"
    using f t(4) by (auto simp: addAgent_Inr list_ex_iff defaultAgent_def bootstrapped_def)
  ultimately have second: "createSeededProject call ?p (oc_newId call 6) (su_email user) ?t1 = (Inr (), bootstrapped call user t)"
    by (simp add: createSeededProject_def transaction_def bindA_def)
  have "bootstrapOrganization call (oc_newId call 6) (su_email user) (su_name user) t =
      bindA (createOwnOrganization call (ownOrganization call user) (oc_newId call 6) (su_email user)) (\<lambda>_.
      bindA (createSeededProject call ?p (oc_newId call 6) (su_email user)) (\<lambda>_. returnA ?p)) t"
    by (simp add: bootstrapOrganization_def ownOrganization_def Let_def)
  with first second show ?thesis by (simp add: bindA_def)
qed

lemma seeds_present:
  "ensureProjectSeeds call (oc_newId call 1) (oc_newId call 6) e (bootstrapped call user t) = (Inr (), bootstrapped call user t)"
proof -
  let ?s = "bootstrapped call user t"
  have "find (\<lambda>k. ak_userId k = oc_newId call 6 \<and> so_projectId k = Some (oc_newId call 1)) (os_keys ?s) \<noteq> None"
    "find (\<lambda>a. at_projectId a = oc_newId call 1 \<and> at_isDefault a) (os_agents ?s) \<noteq> None"
    by (simp_all add: find_append bootstrapped_def projectKey_def defaultAgent_def split: option.split)
  then show ?thesis by (auto simp: ensureProjectSeeds_def seedAgent_def)
qed

lemma findMember_last:
  "\<forall>x \<in> set (os_members t). mb_organizationId x \<noteq> oc_newId call 0 \<Longrightarrow>
   findMember (oc_newId call 0) (oc_newId call 6) (bootstrapped call user t) = Some (ownerMember call user)"
  using find_new [of "os_members t" "isMember (oc_newId call 0) (oc_newId call 6)" "ownerMember call user"]
  by (simp add: findMember_def bootstrapped_def isMember_def ownerMember_def)

text \<open>An uninvited user gets an organisation: at the first sign-in of a user without an open invitation, where
  the deployment bootstraps organisations, a new organisation with the user as its only member and owner,
  a project, an API key and a default agent are created, and the session is that of the new project.\<close>

lemma first_sign_in_bootstraps:
  assumes "unknown_user user st" "fresh_call call st" "su_email user \<noteq> ''''"
    and "openInvitation (oc_now call) (oc_lower call (trim (su_email user))) st = None"
    and "\<forall>g \<in> set (os_orgs st). og_slug g \<noteq> og_slug (ownOrganization call user)"
  shows "sessionRoute call True (Some user) st = (Session \<lparr> sv_id = oc_newId call 6, sv_email = su_email user,
      sv_name = su_name user, sv_project = Some (oc_newId call 1, oc_newId call 0, Some ''owner'') \<rparr>,
    bootstrapped call user (st\<lparr>os_users := os_users st @ [newUser call user]\<rparr>))"
proof -
  let ?s1 = "st\<lparr>os_users := os_users st @ [newUser call user]\<rparr>"
  note f = assms(2) [unfolded fresh_call_def]
  have m: "\<forall>m \<in> set (os_members ?s1). mb_userId m \<noteq> oc_newId call 6" "\<forall>m \<in> set (os_members ?s1). mb_organizationId m \<noteq> oc_newId call 0"
    using f by simp_all
  have none: "acceptPendingInvitationForEmail call (su_email user) (oc_newId call 6) ?s1 = (Inr None, ?s1)"
    using assms(4) by (simp add: acceptPendingInvitationForEmail_def openInvitation_def Let_def)
  have boot: "bootstrapOrganization call (oc_newId call 6) (su_email user) (su_name user) ?s1 =
      (Inr (newProject call 1 (oc_newId call 0) (oc_newId call 6) (su_email user)), bootstrapped call user ?s1)"
    by (rule bootstrap_new [OF assms(2,5)]) (use m in simp_all)
  have "syncSession call True user st = (Inr \<lparr> sv_id = oc_newId call 6, sv_email = su_email user, sv_name = su_name user,
      sv_project = Some (oc_newId call 1, oc_newId call 0, Some ''owner'') \<rparr>, bootstrapped call user ?s1)"
    using upsert_new(1) [OF assms(1), of call] upsert_new(2) [OF assms(1)] no_project [OF m(1)] none boot seeds_present findMember_last [OF m(2)]
    by (simp add: syncSession_def invitedProject_def bootstrappedProject_def homeProject_def bindA_def
        resolveRoleForSession_def ownerMember_def)
  then show ?thesis using assms(3) by (simp add: sessionRoute_def)
qed

lemma first_sign_in_bootstraps_witness:
  "\<exists>view st'. sessionRoute sampleOrgCall True (Some (sampleUser ''eve'')) sampleOrg = (Session view, st') \<and>
     sv_project view = Some (''idx'', ''id'', Some ''owner'')"
proof -
  have call: "oc_newId sampleOrgCall 0 = ''id''" "oc_newId sampleOrgCall 1 = ''idx''" by code_simp+
  have "unknown_user (sampleUser ''eve'') sampleOrg" "fresh_call sampleOrgCall sampleOrg" "su_email (sampleUser ''eve'') \<noteq> ''''"
    "openInvitation (oc_now sampleOrgCall) (oc_lower sampleOrgCall (trim (su_email (sampleUser ''eve'')))) sampleOrg = None"
    "\<forall>g \<in> set (os_orgs sampleOrg). og_slug g \<noteq> og_slug (ownOrganization sampleOrgCall (sampleUser ''eve''))"
    by code_simp+
  from first_sign_in_bootstraps [OF this] show ?thesis unfolding call by simp
qed

text \<open>C30. An invitation into an organisation without a project is used up for nothing: the user does become
  its member, but the session is that of a new organisation the user owns, since the bootstrap
  comes before the branch that would create a project in the organisation joined.\<close>

theorem invited_without_project:
  assumes "unknown_user user st" "fresh_call call st" "su_email user \<noteq> ''''"
    and i: "openInvitation (oc_now call) (oc_lower call (trim (su_email user))) st = Some i"
    and "\<forall>p \<in> set (os_projects st). pj_organizationId p \<noteq> iv_organizationId i"
    and "\<forall>g \<in> set (os_orgs st). og_slug g \<noteq> og_slug (ownOrganization call user)"
  shows "\<exists>st'. sessionRoute call True (Some user) st = (Session \<lparr> sv_id = oc_newId call 6, sv_email = su_email user,
      sv_name = su_name user, sv_project = Some (oc_newId call 1, oc_newId call 0, Some ''owner'') \<rparr>, st') \<and>
    joinedMember call i (oc_newId call 6) (oc_lower call (trim (su_email user))) \<in> set (os_members st') \<and>
    os_invitations st' = os_invitations (acceptInvitation (iv_id i) st)"
proof -
  let ?s1 = "st\<lparr>os_users := os_users st @ [newUser call user]\<rparr>"
  let ?s2 = "joined call i (oc_newId call 6) (oc_lower call (trim (su_email user))) ?s1"
  note f = assms(2) [unfolded fresh_call_def]
  have m: "\<forall>m \<in> set (os_members ?s1). mb_userId m \<noteq> oc_newId call 6" using f by simp
  have "i \<in> set (os_invitations st)" using i firstBy_Some unfolding openInvitation_def by fastforce
  then have o2: "\<forall>m \<in> set (os_members ?s2). mb_organizationId m \<noteq> oc_newId call 0"
    using f by (auto simp: joinedMember_def)
  have "firstBy pj_createdAt (\<lambda>p. pj_organizationId p = iv_organizationId i) (os_projects st) = None"
    using assms(5) by (simp add: firstBy_None)
  then have acc: "acceptPendingInvitationForEmail call (su_email user) (oc_newId call 6) ?s1 = (Inr (Some (iv_organizationId i, '''')), ?s2)"
    using accept_new [of call "su_email user" ?s1 i "oc_newId call 6"] i m by (simp add: openInvitation_def)
  have boot: "bootstrapOrganization call (oc_newId call 6) (su_email user) (su_name user) ?s2 =
      (Inr (newProject call 1 (oc_newId call 0) (oc_newId call 6) (su_email user)), bootstrapped call user ?s2)"
    by (rule bootstrap_new [OF assms(2,6)]) (use o2 in simp_all)
  have "syncSession call True user st = (Inr \<lparr> sv_id = oc_newId call 6, sv_email = su_email user, sv_name = su_name user,
      sv_project = Some (oc_newId call 1, oc_newId call 0, Some ''owner'') \<rparr>, bootstrapped call user ?s2)"
    using upsert_new(1) [OF assms(1), of call] upsert_new(2) [OF assms(1)] no_project [OF m] acc boot seeds_present findMember_last [OF o2]
    by (simp add: syncSession_def invitedProject_def bootstrappedProject_def homeProject_def bindA_def
        resolveRoleForSession_def ownerMember_def)
  then show ?thesis using assms(3) by (simp add: sessionRoute_def bootstrapped_def acceptInvitation_def)
qed

theorem invited_without_project_witness:
  "\<exists>view st'. sessionRoute sampleOrgCall True (Some (sampleUser ''cal'')) (sampleOrg\<lparr>os_projects := []\<rparr>) = (Session view, st') \<and>
     sv_project view = Some (''idx'', ''id'', Some ''owner'')"
proof -
  have call: "oc_newId sampleOrgCall 0 = ''id''" "oc_newId sampleOrgCall 1 = ''idx''" by code_simp+
  have "unknown_user (sampleUser ''cal'') (sampleOrg\<lparr>os_projects := []\<rparr>)" "fresh_call sampleOrgCall (sampleOrg\<lparr>os_projects := []\<rparr>)"
    "su_email (sampleUser ''cal'') \<noteq> ''''" by code_simp+
  moreover have "openInvitation (oc_now sampleOrgCall) (oc_lower sampleOrgCall (trim (su_email (sampleUser ''cal''))))
      (sampleOrg\<lparr>os_projects := []\<rparr>) = Some (sampleInvitation ''cal'' 5000)" by code_simp
  moreover have "\<forall>p \<in> set (os_projects (sampleOrg\<lparr>os_projects := []\<rparr>)). pj_organizationId p \<noteq> iv_organizationId (sampleInvitation ''cal'' 5000)"
    "\<forall>g \<in> set (os_orgs (sampleOrg\<lparr>os_projects := []\<rparr>)). og_slug g \<noteq> og_slug (ownOrganization sampleOrgCall (sampleUser ''cal''))"
    by code_simp+
  ultimately show ?thesis using invited_without_project unfolding call [symmetric] by (metis session_view.select_convs(4))
qed

text \<open>A later sign-in never joins: a user that is known and has no membership, because the bootstrap at the
  first sign-in failed after the user was written or because the user was removed since, gets a session
  without a project at every sign-in, whatever invitations wait, and no membership or organisation
  is made.\<close>

lemma later_sign_in_never_joins:
  assumes "find (\<lambda>u. us_email u = su_email user) (os_users st) = Some u"
    and "\<forall>m \<in> set (os_members st). mb_userId m \<noteq> us_id u"
    and "\<forall>v \<in> set (os_users st). us_externalAuthId v = su_id user \<longrightarrow> us_email v = su_email user" "su_email user \<noteq> ''''"
  shows "\<exists>view st'. sessionRoute call boot (Some user) st = (Session view, st') \<and> sv_id view = us_id u \<and> sv_project view = None \<and>
    os_members st' = os_members st \<and> os_orgs st' = os_orgs st \<and> os_projects st' = os_projects st \<and>
    os_invitations st' = os_invitations st"
proof -
  have "\<not> list_ex (\<lambda>v. us_externalAuthId v = su_id user \<and> us_email v \<noteq> su_email user) (os_users st)"
    using assms(3) by (auto simp: list_ex_iff)
  then obtain v t where up: "upsertUser call user st = (Inr v, t)" "us_id v = us_id u"
    "os_members t = os_members st" "os_orgs t = os_orgs st" "os_projects t = os_projects st" "os_invitations t = os_invitations st"
    using assms(1) by (simp add: upsertUser_def Let_def)
  have "findUserDefaultProject (us_id u) t = None" by (rule no_project) (use assms(2) up(3) in simp)
  then have "\<exists>view. syncSession call boot user st = (Inr view, t) \<and> sv_id view = us_id u \<and> sv_project view = None"
    using up(1,2) assms(1) by (simp add: syncSession_def invitedProject_def bootstrappedProject_def homeProject_def bindA_def)
  with up assms(4) show ?thesis by (auto simp: sessionRoute_def)
qed

lemma later_sign_in_never_joins_witness:
  "\<exists>view st'. sessionRoute sampleOrgCall True (Some (sampleUser ''ben'')) (sampleOrg\<lparr>os_members := [sampleMember ''ann'' ''owner'']\<rparr>) =
     (Session view, st') \<and> sv_id view = ''ben'' \<and> sv_project view = None"
proof -
  let ?st = "sampleOrg\<lparr>os_members := [sampleMember ''ann'' ''owner'']\<rparr>"
  have u: "find (\<lambda>u. us_email u = su_email (sampleUser ''ben'')) (os_users ?st) = Some (sampleAccount ''ben'')"
    "us_id (sampleAccount ''ben'') = ''ben''" by code_simp+
  have "\<forall>m \<in> set (os_members ?st). mb_userId m \<noteq> us_id (sampleAccount ''ben'')"
    "\<forall>v \<in> set (os_users ?st). us_externalAuthId v = su_id (sampleUser ''ben'') \<longrightarrow> us_email v = su_email (sampleUser ''ben'')"
    "su_email (sampleUser ''ben'') \<noteq> ''''" by code_simp+
  from later_sign_in_never_joins [OF u(1) this] show ?thesis unfolding u(2) by blast
qed

end
