(* ===== verification/Access.thy ===== *)
theory Access
  imports Org_Runs
begin

text \<open>
  What a key or a session gives access to, and what agents hold: the context of an authenticated request,
  what a removal takes away, what a child agent inherits and what a revocation does.
\<close>

section \<open>Authenticated contexts\<close>

lemma authContext_simps [simp]:
  "ac_userId (authContext u e p org) = u" "ac_projectId (authContext u e p org) = p"
  "ac_organizationId (authContext u e p org) = org" "ac_role (authContext u e p org) = None"
  by (simp_all add: authContext_def)

lemma orgOf_project: "resolveOrganizationIdFromProject p st = Some org \<Longrightarrow>
    \<exists>r \<in> set (os_projects st). pj_id r = p \<and> pj_organizationId r = org"
  by (auto simp: resolveOrganizationIdFromProject_def find_Some_iff)

text \<open>What vouches for a context: a key of its user, or a membership.\<close>

definition keyed :: "org_state \<Rightarrow> auth_context \<Rightarrow> bool" where
  "keyed st a \<longleftrightarrow> (\<exists>k \<in> set (os_keys st). ak_userId k = ac_userId a \<and>
     (so_scope k = ''organization'' \<and> so_organizationId k = Some (ac_organizationId a) \<or>
      ac_projectId a \<noteq> None \<and> so_projectId k = ac_projectId a))"

definition membered :: "org_state \<Rightarrow> auth_context \<Rightarrow> bool" where
  "membered st a \<longleftrightarrow> (\<exists>m \<in> set (os_members st). isMember (ac_organizationId a) (ac_userId a) m)"

definition sound_context :: "bool \<Rightarrow> org_state \<Rightarrow> auth_context \<Rightarrow> bool" where
  "sound_context requireProject st a \<longleftrightarrow> ac_role a = None \<and> ac_organizationId a \<noteq> '''' \<and>
     (requireProject \<longrightarrow> set_nonempty (ac_projectId a)) \<and>
     (case ac_projectId a of None \<Rightarrow> True
      | Some p \<Rightarrow> \<exists>r \<in> set (os_projects st). pj_id r = p \<and> pj_organizationId r = ac_organizationId a)"

lemma set_nonempty_iff: "set_nonempty x \<longleftrightarrow> (\<exists>v. x = Some v \<and> v \<noteq> '''')"
  by (cases x) (simp_all add: set_nonempty_def)

lemma find_in: "find P xs = Some x \<Longrightarrow> x \<in> set xs \<and> P x"
  by (auto simp: find_Some_iff)

lemma key_context:
  assumes "authenticateApiKey rq requireProject st = Some a"
    and ids: "\<forall>p \<in> set (os_projects st). pj_id p \<noteq> ''''"
  shows "sound_context requireProject st a \<and> keyed st a"
proof -
  obtain token where token: "token \<noteq> ''''" and run: "startsWith token ''oc_''"
    "bearerToken rq = Some token"
    using assms(1) by (auto simp: authenticateApiKey_def split: option.splits if_splits)
  obtain k where k: "find (\<lambda>k. ak_key k = token) (os_keys st) = Some k"
    using assms(1) run token by (auto simp: authenticateApiKey_def split: option.splits if_splits)
  show ?thesis
  proof (cases "startsWith token ''oc_org_''")
    case True
    then obtain org where org: "so_scope k = ''organization''" "so_organizationId k = Some org" "org \<noteq> ''''"
      using assms(1) run token k by (auto simp: authenticateApiKey_def set_nonempty_iff split: if_splits)
    show ?thesis
    proof (cases "set_nonempty (rq_projectId rq)")
      case p: True
      then obtain r where r: "find (\<lambda>p. pj_id p = the (rq_projectId rq) \<and> pj_organizationId p = org) (os_projects st) = Some r"
        "a = authContext (ak_userId k) (resolveUserEmail (ak_userId k) st) (Some (pj_id r)) org"
        using assms(1) run token k True org by (auto simp: authenticateApiKey_def set_nonempty_iff Let_def split: option.splits if_splits)
      with find_in [OF r(1)] find_in [OF k] org ids show ?thesis
        by (auto simp: sound_context_def keyed_def set_nonempty_iff)
    next
      case False
      then have "a = authContext (ak_userId k) (resolveUserEmail (ak_userId k) st) None org" "\<not> requireProject"
        using assms(1) run token k True org by (auto simp: authenticateApiKey_def set_nonempty_iff Let_def split: if_splits)
      with find_in [OF k] org show ?thesis by (auto simp: sound_context_def keyed_def)
    qed
  next
    case False
    then obtain p org where p: "so_projectId k = Some p" "p \<noteq> ''''" "resolveOrganizationIdFromProject p st = Some org" "org \<noteq> ''''"
      "a = authContext (ak_userId k) (resolveUserEmail (ak_userId k) st) (Some p) org"
      using assms(1) run token k by (auto simp: authenticateApiKey_def set_nonempty_iff split: option.splits if_splits)
    with orgOf_project [OF p(3)] find_in [OF k] show ?thesis
      by (auto simp: sound_context_def keyed_def set_nonempty_iff)
  qed
qed

lemma default_project_member:
  assumes "findUserDefaultProject u st = Some p"
  shows "p \<in> set (os_projects st) \<and> (\<exists>m \<in> set (os_members st). isMember (pj_organizationId p) u m)"
  using assms by (auto simp: findUserDefaultProject_def isMember_def split: option.splits dest!: firstBy_Some)

lemma project_member:
  assumes "resolveProjectId isCloud rq u st = Some p"
  shows "\<exists>r \<in> set (os_projects st). pj_id r = p \<and> (\<exists>m \<in> set (os_members st). isMember (pj_organizationId r) u m)"
proof (cases "set_nonempty (rq_projectId rq)")
  case True
  then obtain r where "find (\<lambda>q. pj_id q = the (rq_projectId rq) \<and> pj_organizationId q \<in> set (memberOrgIds u st)) (os_projects st) = Some r"
    "pj_id r = p" using assms by (auto simp: resolveProjectId_def)
  with find_in [OF this(1)] have r: "r \<in> set (os_projects st)" "pj_id r = p" "pj_organizationId r \<in> set (memberOrgIds u st)"
    by blast+
  then have "\<exists>m \<in> set (os_members st). isMember (pj_organizationId r) u m"
    by (auto simp: memberOrgIds_def isMember_def split: if_splits)
  with r show ?thesis by blast
next
  case False
  then obtain r where "findUserDefaultProject u st = Some r" "pj_id r = p"
    using assms by (auto simp: resolveProjectId_def split: if_splits)
  with default_project_member show ?thesis by blast
qed

lemma session_context:
  assumes "authenticateSession getSession isCloud rq requireProject st = Some a" "distinct (map pj_id (os_projects st))"
  shows "sound_context requireProject st a \<and> membered st a"
proof -
  obtain user u where u: "getSession rq = Some user" "find (\<lambda>u. us_externalAuthId u = su_id user) (os_users st) = Some u"
    using assms(1) by (auto simp: authenticateSession_def split: option.splits)
  show ?thesis
  proof (cases "set_nonempty (resolveProjectId isCloud rq (us_id u) st)")
    case True
    then obtain p org where p: "resolveProjectId isCloud rq (us_id u) st = Some p" "p \<noteq> ''''"
      "resolveOrganizationIdFromProject p st = Some org" "org \<noteq> ''''" "a = authContext (us_id u) (su_email user) (Some p) org"
      using assms(1) u by (auto simp: authenticateSession_def set_nonempty_iff Let_def split: option.splits if_splits)
    obtain r where r: "r \<in> set (os_projects st)" "pj_id r = p" "\<exists>m \<in> set (os_members st). isMember (pj_organizationId r) (us_id u) m"
      using project_member [OF p(1)] by blast
    obtain s where s: "s \<in> set (os_projects st)" "pj_id s = p" "pj_organizationId s = org" using orgOf_project [OF p(3)] by blast
    have "s = r" using assms(2) r(1,2) s(1,2) by (auto simp: distinct_map inj_on_def)
    with p r s show ?thesis by (auto simp: sound_context_def membered_def set_nonempty_iff)
  next
    case False
    then obtain org where org: "resolveOrganizationId rq (us_id u) st = Some org" "org \<noteq> ''''" "\<not> requireProject"
      "a = authContext (us_id u) (su_email user) None org"
      using assms(1) u by (auto simp: authenticateSession_def Let_def split: option.splits if_splits)
    then have "\<exists>m \<in> set (os_members st). isMember org (us_id u) m"
      by (auto simp: resolveOrganizationId_def isMember_def dest!: findMember_Some split: if_splits)
    with org show ?thesis by (auto simp: sound_context_def membered_def)
  qed
qed



text \<open>C32. A removal ends sessions, not keys: once a member is removed no session puts the user into the
  organisation, but every API key authenticates as before, with the same user, project and
  organisation.\<close>

theorem removal_keeps_keys:
  assumes "removeMember org u st = (Inr (), st')" "distinct (map pj_id (os_projects st))"
  shows "authenticateApiKey rq requireProject st' = authenticateApiKey rq requireProject st \<and>
    (\<forall>a. authenticateSession getSession isCloud rq requireProject st' = Some a \<longrightarrow> (ac_organizationId a, ac_userId a) \<noteq> (org, u))"
proof -
  have st': "st' = dropMember org u st" using assms(1) by (auto simp: removeMember_def split: sum.splits)
  have tables: "os_keys (dropMember org u st) = os_keys st" "os_projects (dropMember org u st) = os_projects st"
    by (simp_all add: dropMember_def)
  have other_tables: "resolveUserEmail k (dropMember org u st) = resolveUserEmail k st"
    "resolveOrganizationIdFromProject p (dropMember org u st) = resolveOrganizationIdFromProject p st" for k p
    by (simp_all add: dropMember_def resolveUserEmail_def resolveOrganizationIdFromProject_def)
  have "authenticateApiKey rq requireProject st' = authenticateApiKey rq requireProject st"
    unfolding st' authenticateApiKey_def other_tables tables ..
  moreover have "(ac_organizationId a, ac_userId a) \<noteq> (org, u)"
    if s: "authenticateSession getSession isCloud rq requireProject st' = Some a" for a
  proof -
    have "membered st' a" using session_context [OF s] assms(2) by (simp add: st' dropMember_def)
    then show ?thesis by (auto simp: membered_def st' dropMember_def isMember_def)
  qed
  ultimately show ?thesis by blast
qed

theorem removal_keeps_keys_witness:
  "\<exists>st' a. removeMember ''org'' ''ben'' sampleOrg = (Inr (), st') \<and> authenticateApiKey sampleRequest True st' = Some a \<and>
     ac_userId a = ''ben'' \<and> ac_organizationId a = ''org''"
proof -
  have run: "removeMember ''org'' ''ben'' sampleOrg = (Inr (), dropMember ''org'' ''ben'' sampleOrg)"
    by (simp add: removeMember_def removalOk_def findMember_def isMember_def ownerCount_def sampleOrg_def sampleMember_def)
  have "distinct (map pj_id (os_projects sampleOrg))" by code_simp
  from removal_keeps_keys [OF run this, of sampleRequest True] 
  have "authenticateApiKey sampleRequest True (dropMember ''org'' ''ben'' sampleOrg) = authenticateApiKey sampleRequest True sampleOrg" by blast
  moreover have "authenticateApiKey sampleRequest True sampleOrg = Some (authContext ''ben'' ''ben@example.com'' (Some ''proj'') ''org'')"
    by code_simp
  ultimately show ?thesis using run by simp
qed

section \<open>What agents hold\<close>

definition secretsOf :: "string \<Rightarrow> org_state \<Rightarrow> string list" where
  "secretsOf k st = map snd (filter (\<lambda>x. fst x = k) (os_agentSecrets st))"

definition connectionsOf :: "string \<Rightarrow> org_state \<Rightarrow> (string \<times> js option) list" where
  "connectionsOf k st = map (\<lambda>c. (an_connectionId c, an_sessionPolicy c)) (filter (\<lambda>c. an_agentId c = k) (os_agentConnections st))"

lemma addAgentSecret_Inr: "addAgentSecret x st = (Inr (), t) \<longleftrightarrow>
    x \<notin> set (os_agentSecrets st) \<and> t = st\<lparr>os_agentSecrets := os_agentSecrets st @ [x]\<rparr>"
  by (auto simp: addAgentSecret_def)

lemma addAgentConnection_Inr: "addAgentConnection c st = (Inr (), t) \<longleftrightarrow>
    \<not> list_ex (\<lambda>d. an_agentId d = an_agentId c \<and> an_connectionId d = an_connectionId c) (os_agentConnections st) \<and>
    t = st\<lparr>os_agentConnections := os_agentConnections st @ [c]\<rparr>"
  by (auto simp: addAgentConnection_def)

lemma addSecrets_Inr: "mapA (\<lambda>s. addAgentSecret (k, s)) ss st = (Inr (), t) \<Longrightarrow>
    t = st\<lparr>os_agentSecrets := os_agentSecrets st @ map (Pair k) ss\<rparr>"
proof (induction ss arbitrary: st)
  case (Cons a ss)
  then have "mapA (\<lambda>s. addAgentSecret (k, s)) ss (st\<lparr>os_agentSecrets := os_agentSecrets st @ [(k, a)]\<rparr>) = (Inr (), t)"
    by (auto simp: bindA_Inr addAgentSecret_Inr)
  from Cons.IH [OF this] show ?case by simp
qed simp

lemma addConnections_Inr: "mapA (\<lambda>c. addAgentConnection (f c)) cs st = (Inr (), t) \<Longrightarrow>
    t = st\<lparr>os_agentConnections := os_agentConnections st @ map f cs\<rparr>"
proof (induction cs arbitrary: st)
  case (Cons a cs)
  then have "mapA (\<lambda>c. addAgentConnection (f c)) cs (st\<lparr>os_agentConnections := os_agentConnections st @ [f a]\<rparr>) = (Inr (), t)"
    by (auto simp: bindA_Inr addAgentConnection_Inr)
  from Cons.IH [OF this] show ?case by simp
qed simp

lemma transaction_Inr: "transaction m st = (Inr x, t) \<longleftrightarrow> m st = (Inr x, t)"
  by (auto simp: transaction_def split: prod.splits sum.splits)

definition firstAnthropic :: "string \<Rightarrow> org_state \<Rightarrow> string list" where
  "firstAnthropic project st =
     (case firstBy sr_createdAt (\<lambda>s. so_projectId s = Some project \<and> sr_type s = ''anthropic'') (os_secrets st) of
        None \<Rightarrow> [] | Some s \<Rightarrow> [sr_id s])"

lemma inherited_Inr:
  assumes "assignInherited project k ss cs st = (Inr (), t)"
  shows "t = st\<lparr>os_agentSecrets := os_agentSecrets st @ map (Pair k) (if ss \<noteq> [] then ss else firstAnthropic project st),
    os_agentConnections := os_agentConnections st @ map (\<lambda>c. \<lparr> an_agentId = k, an_connectionId = c, an_sessionPolicy = None \<rparr>) cs\<rparr>"
proof -
  obtain u where u: "(if ss \<noteq> [] then transaction (mapA (\<lambda>s. addAgentSecret (k, s)) ss)
      else bindA (readA (\<lambda>st. firstBy sr_createdAt (\<lambda>s. so_projectId s = Some project \<and> sr_type s = ''anthropic'') (os_secrets st)))
        (\<lambda>x. case x of None \<Rightarrow> returnA () | Some s \<Rightarrow> addAgentSecret (k, sr_id s))) st = (Inr (), u)"
    and t: "(if cs \<noteq> [] then transaction (mapA (\<lambda>c. addAgentConnection
      \<lparr> an_agentId = k, an_connectionId = c, an_sessionPolicy = None \<rparr>) cs) else returnA ()) u = (Inr (), t)"
    using assms by (auto simp: assignInherited_def bindA_Inr simp del: bindA_simps)
  have "u = st\<lparr>os_agentSecrets := os_agentSecrets st @ map (Pair k) (if ss \<noteq> [] then ss else firstAnthropic project st)\<rparr>"
    using u by (auto simp: transaction_Inr addSecrets_Inr firstAnthropic_def addAgentSecret_Inr split: if_splits option.splits)
  moreover have "t = u\<lparr>os_agentConnections := os_agentConnections u @
      map (\<lambda>c. \<lparr> an_agentId = k, an_connectionId = c, an_sessionPolicy = None \<rparr>) cs\<rparr>"
    using t by (auto simp: transaction_Inr dest: addConnections_Inr split: if_splits)
  ultimately show ?thesis by simp
qed

lemma filter_map_Pair: "filter (\<lambda>x. fst x = k) (map (Pair k) ss) = map (Pair k) ss"
  by (induction ss) simp_all

text \<open>C33. What a child agent gets: the parent's secret mode and the parent's secrets, and if the parent has none the
  first Anthropic secret of the project instead; and the parent's connections, each without the policy
  that restricts it for the parent. So a child can hold what its parent does not.\<close>

theorem child_access:
  assumes "createAgent call project name ident (Some parentIdentifier) st = (Inr child, st')"
    and parent: "parentIdentifier \<noteq> ''''" "agentByIdentifier project parentIdentifier st = Some p"
    and "\<forall>x \<in> set (os_agentSecrets st). fst x \<noteq> oc_newId call 0" "\<forall>c \<in> set (os_agentConnections st). an_agentId c \<noteq> oc_newId call 0"
  shows "at_id child = oc_newId call 0 \<and> at_secretMode child = at_secretMode p \<and>
    secretsOf (at_id child) st' = (if secretsOf (at_id p) st \<noteq> [] then secretsOf (at_id p) st else firstAnthropic project st) \<and>
    connectionsOf (at_id child) st' = map (\<lambda>c. (fst c, None)) (connectionsOf (at_id p) st)"
proof -
  let ?k = "oc_newId call 0" and ?ss = "secretsOf (at_id p) st"
  let ?cs = "map an_connectionId (filter (\<lambda>c. an_agentId c = at_id p) (os_agentConnections st))"
  have access: "parentAccess project (Some parentIdentifier) st = (at_secretMode p, ?ss, ?cs)"
    using parent by (simp add: parentAccess_def set_nonempty_def secretsOf_def)
  obtain row u where row: "at_id row = ?k" "at_secretMode row = at_secretMode p"
    and child: "child = row\<lparr>at_did := Some (agentDid ?k)\<rparr>"
    and u: "os_agentSecrets u = os_agentSecrets st" "os_agentConnections u = os_agentConnections st" "os_secrets u = os_secrets st"
      "assignInherited project ?k ?ss ?cs u = (Inr (), st')"
  proof -
    define row where "row = \<lparr> at_id = ?k, at_projectId = project, at_name = trim name, at_identifier = trim ident,
      at_accessToken = generateAccessToken call 0, at_isDefault = False, at_secretMode = at_secretMode p, at_did = None,
      at_didPublicKey = None, at_createdAt = oc_now call \<rparr>"
    let ?set = "\<lambda>a. a\<lparr>at_did := Some (agentDid ?k), at_didPublicKey := Some (oc_publicKey call)\<rparr>"
    have "catchUnique (bindA (addAgent row) (\<lambda>_. bindA (writeA (setAgent ?k ?set)) (\<lambda>_.
        bindA (assignInherited project ?k ?ss ?cs) (\<lambda>_. returnA (row\<lparr>at_did := Some (agentDid ?k)\<rparr>))))) st = (Inr child, st')"
      using assms(1) by (simp add: createAgent_def access Let_def row_def split: if_splits)
    then have run: "bindA (addAgent row) (\<lambda>_. bindA (writeA (setAgent ?k ?set)) (\<lambda>_.
        bindA (assignInherited project ?k ?ss ?cs) (\<lambda>_. returnA (row\<lparr>at_did := Some (agentDid ?k)\<rparr>)))) st = (Inr child, st')"
      by (auto simp: catchUnique_def split: prod.splits sum.splits)
    then obtain v where v: "addAgent row st = (Inr (), v)"
      "bindA (assignInherited project ?k ?ss ?cs) (\<lambda>_. returnA (row\<lparr>at_did := Some (agentDid ?k)\<rparr>)) (setAgent ?k ?set v) = (Inr child, st')"
      by (auto simp: bindA_Inr [of "addAgent row"])
    from v(2) have "assignInherited project ?k ?ss ?cs (setAgent ?k ?set v) = (Inr (), st')" "child = row\<lparr>at_did := Some (agentDid ?k)\<rparr>"
      by (auto simp: bindA_Inr)
    with v(1) show ?thesis by (intro that [of row "setAgent ?k ?set v"]) (auto simp: row_def addAgent_Inr setAgent_def)
  qed
  have st': "st' = u\<lparr>os_agentSecrets := os_agentSecrets u @ map (Pair ?k) (if ?ss \<noteq> [] then ?ss else firstAnthropic project u),
    os_agentConnections := os_agentConnections u @ map (\<lambda>c. \<lparr> an_agentId = ?k, an_connectionId = c, an_sessionPolicy = None \<rparr>) ?cs\<rparr>"
    by (rule inherited_Inr [OF u(4)])
  have "filter (\<lambda>x. fst x = ?k) (os_agentSecrets st) = []" "filter (\<lambda>c. an_agentId c = ?k) (os_agentConnections st) = []"
    using assms(4,5) by (auto simp: filter_empty_conv)
  then have "secretsOf ?k st' = (if ?ss \<noteq> [] then ?ss else firstAnthropic project st)"
    "connectionsOf ?k st' = map (\<lambda>c. (fst c, None)) (connectionsOf (at_id p) st)"
    using u(1-3) by (simp_all add: st' secretsOf_def [of ?k] connectionsOf_def filter_map_Pair firstAnthropic_def comp_def filter_map)
  then show ?thesis using row child by simp
qed

theorem child_access_witness:
  "\<exists>child st'. createAgent sampleOrgCall ''proj'' ''Child'' ''child'' (Some ''parent'') sampleOrg = (Inr child, st') \<and>
     secretsOf ''parent'' sampleOrg = [] \<and> secretsOf (at_id child) st' = [''secret''] \<and>
     connectionsOf ''parent'' sampleOrg = [(''github'', Some (JObj [(''repos'', JArr [])]))] \<and>
     connectionsOf (at_id child) st' = [(''github'', None)]"
proof -
  have "case fst (createAgent sampleOrgCall ''proj'' ''Child'' ''child'' (Some ''parent'') sampleOrg) of Inr _ \<Rightarrow> True | Inl _ \<Rightarrow> False"
    by code_simp
  then obtain child st' where run: "createAgent sampleOrgCall ''proj'' ''Child'' ''child'' (Some ''parent'') sampleOrg = (Inr child, st')"
    by (cases "createAgent sampleOrgCall ''proj'' ''Child'' ''child'' (Some ''parent'') sampleOrg") (auto split: sum.splits)
  have p: "agentByIdentifier ''proj'' ''parent'' sampleOrg = Some (sampleAgent ''parent'' False)" "at_id (sampleAgent ''parent'' False) = ''parent''"
    by code_simp+
  have "\<forall>x \<in> set (os_agentSecrets sampleOrg). fst x \<noteq> oc_newId sampleOrgCall 0"
    "\<forall>c \<in> set (os_agentConnections sampleOrg). an_agentId c \<noteq> oc_newId sampleOrgCall 0" by code_simp+
  from child_access [OF run _ p(1) this]
  have "secretsOf (at_id child) st' = (if secretsOf ''parent'' sampleOrg \<noteq> [] then secretsOf ''parent'' sampleOrg else firstAnthropic ''proj'' sampleOrg)"
    "connectionsOf (at_id child) st' = map (\<lambda>c. (fst c, None)) (connectionsOf ''parent'' sampleOrg)" unfolding p(2) by blast+
  moreover have "secretsOf ''parent'' sampleOrg = []" "firstAnthropic ''proj'' sampleOrg = [''secret'']"
    "connectionsOf ''parent'' sampleOrg = [(''github'', Some (JObj [(''repos'', JArr [])]))]" by code_simp+
  ultimately show ?thesis using run by simp
qed

text \<open>A revocation takes effect at once and alone: the token of the agent opens no agent any more; but the
  text it is replaced by is the time of the call, and since tokens are unique a second revocation within the
  same millisecond fails and leaves its agent's token as it is.\<close>

lemma revocation_effect:
  assumes "revokeAgentToken call project k reason st = (Inr r, st')" "agentOf project k st = Some a"
    and "distinct (map at_id (os_agents st))" "distinct (map at_accessToken (os_agents st))"
    and "at_accessToken a \<noteq> revokedToken (oc_now call)"
  shows "(\<forall>b \<in> set (os_agents st'). at_accessToken b \<noteq> at_accessToken a) \<and>
    (\<forall>again p j b. j \<noteq> k \<and> agentOf p j st' = Some b \<and> oc_now again = oc_now call \<longrightarrow>
      revokeAgentToken again p j reason st' = (Inl uniqueFailed, st'))"
proof -
  have a: "a \<in> set (os_agents st)" "at_id a = k" using find_in [OF assms(2) [unfolded agentOf_def]] by simp_all
  have st': "st' = setAgent k (\<lambda>a. a\<lparr>at_accessToken := revokedToken (oc_now call)\<rparr>) st"
    using assms(1,2) by (auto simp: revokeAgentToken_def withAgent_def setToken_def Let_def bindA_assoc split: if_splits)
  have "at_accessToken b \<noteq> at_accessToken a" if "b \<in> set (os_agents st')" for b
  proof -
    obtain c where c: "c \<in> set (os_agents st)" "b = (if at_id c = k then c\<lparr>at_accessToken := revokedToken (oc_now call)\<rparr> else c)"
      using \<open>b \<in> set (os_agents st')\<close> by (auto simp: st' setAgent_def)
    show ?thesis
    proof (cases "at_id c = k")
      case True
      with c assms(5) show ?thesis by simp
    next
      case False
      then have "c \<noteq> a" using a(2) by auto
      with c a(1) assms(4) False show ?thesis by (auto simp: distinct_map inj_on_def)
    qed
  qed
  moreover have "revokeAgentToken again p j reason st' = (Inl uniqueFailed, st')"
    if "j \<noteq> k" "agentOf p j st' = Some b" "oc_now again = oc_now call" for again p j b
  proof -
    have "list_ex (\<lambda>x. at_accessToken x = revokedToken (oc_now again) \<and> at_id x \<noteq> j) (os_agents st')"
      using a that(1,3) by (auto simp: st' setAgent_def list_ex_iff intro!: bexI [of _ "a\<lparr>at_accessToken := revokedToken (oc_now call)\<rparr>"])
    with that(2) show ?thesis by (simp add: revokeAgentToken_def withAgent_def setToken_def Let_def bindA_assoc)
  qed
  ultimately show ?thesis by blast
qed

lemma revocation_effect_witness:
  "\<exists>st' r. revokeAgentToken sampleOrgCall ''proj'' ''parent'' None sampleOrg = (Inr r, st') \<and>
     revokeAgentToken sampleOrgCall ''proj'' ''default'' None st' = (Inl uniqueFailed, st')"
proof -
  have p: "agentOf ''proj'' ''parent'' sampleOrg = Some (sampleAgent ''parent'' False)"
    by (simp add: agentOf_def sampleOrg_def sampleAgent_def)
  let ?st' = "setAgent ''parent'' (\<lambda>a. a\<lparr>at_accessToken := revokedToken (oc_now sampleOrgCall)\<rparr>) sampleOrg"
  have "\<not> list_ex (\<lambda>a. at_accessToken a = revokedToken (oc_now sampleOrgCall) \<and> at_id a \<noteq> ''parent'') (os_agents sampleOrg)"
    by code_simp
  then obtain r where run: "revokeAgentToken sampleOrgCall ''proj'' ''parent'' None sampleOrg = (Inr r, ?st')"
    using p by (simp add: revokeAgentToken_def withAgent_def setToken_def Let_def bindA_assoc)
  have "distinct (map at_id (os_agents sampleOrg))" "distinct (map at_accessToken (os_agents sampleOrg))"
    "at_accessToken (sampleAgent ''parent'' False) \<noteq> revokedToken (oc_now sampleOrgCall)" by code_simp+
  note effect = revocation_effect [OF run p this]
  have "agentOf ''proj'' ''default'' ?st' = Some (sampleAgent ''default'' True)"
    by (simp add: agentOf_def sampleOrg_def sampleAgent_def setAgent_def)
  then have "revokeAgentToken sampleOrgCall ''proj'' ''default'' None ?st' = (Inl uniqueFailed, ?st')"
    by (intro effect [THEN conjunct2, rule_format] conjI) simp_all
  with run show ?thesis by blast
qed

end
