(* ===== verification/Js_Parse.thy ===== *)
theory Js_Parse
  imports Runtime
begin

text \<open>
  \<^verbatim>\<open>JSON.parse\<close> and the decoding of bytes to text. The parser works on the text that is left and returns the
  value with the rest; twice the length of the text and one is enough fuel (\<open>parse_fuel\<close>). A numeral is read exactly and
  then rounded to a double by the parameter \<open>dbl\<close>. The main results: what \<^verbatim>\<open>JSON.stringify\<close> writes is read
  back (\<open>JSON_parse_render\<close>).
\<close>

section \<open>Text from bytes\<close>

text \<open>\<^verbatim>\<open>buffer.toString("utf8")\<close>: each longest beginning of a character that is not completed is replaced by
  U+FFFD (the decoder of the WHATWG Encoding standard).\<close>

definition REPLACEMENT :: string where
  "REPLACEMENT = [CHR 0xEF, CHR 0xBF, CHR 0xBD]"

text \<open>What may follow a lead byte: the range of each further byte.\<close>

definition continuations :: "nat \<Rightarrow> (nat \<times> nat) list option" where
  "continuations b =
     (if b < 0x80 then Some []
      else if 0xC2 \<le> b \<and> b \<le> 0xDF then Some [(0x80, 0xBF)]
      else if b = 0xE0 then Some [(0xA0, 0xBF), (0x80, 0xBF)]
      else if b = 0xED then Some [(0x80, 0x9F), (0x80, 0xBF)]
      else if 0xE1 \<le> b \<and> b \<le> 0xEF then Some [(0x80, 0xBF), (0x80, 0xBF)]
      else if b = 0xF0 then Some [(0x90, 0xBF), (0x80, 0xBF), (0x80, 0xBF)]
      else if 0xF1 \<le> b \<and> b \<le> 0xF3 then Some [(0x80, 0xBF), (0x80, 0xBF), (0x80, 0xBF)]
      else if b = 0xF4 then Some [(0x80, 0x8F), (0x80, 0xBF), (0x80, 0xBF)]
      else None)"

text \<open>\<open>pending\<close> are the bytes of the character begun, \<open>ranges\<close> what must follow.\<close>

fun decodeFrom :: "string \<Rightarrow> (nat \<times> nat) list \<Rightarrow> bytes \<Rightarrow> string" where
  "decodeFrom pending ranges [] = (if ranges = [] then [] else REPLACEMENT)"
| "decodeFrom pending [] (b # bs) =
     (case continuations (unat b) of
        None \<Rightarrow> REPLACEMENT @ decodeFrom [] [] bs
      | Some [] \<Rightarrow> char_of (unat b) # decodeFrom [] [] bs
      | Some (q # qs) \<Rightarrow> decodeFrom [char_of (unat b)] (q # qs) bs)"
| "decodeFrom pending ((lo, hi) # ranges) (b # bs) =
     (if lo \<le> unat b \<and> unat b \<le> hi
      then (if ranges = [] then pending @ [char_of (unat b)] @ decodeFrom [] [] bs
            else decodeFrom (pending @ [char_of (unat b)]) ranges bs)
      else REPLACEMENT @
        (case continuations (unat b) of
           None \<Rightarrow> REPLACEMENT @ decodeFrom [] [] bs
         | Some [] \<Rightarrow> char_of (unat b) # decodeFrom [] [] bs
         | Some (q # qs) \<Rightarrow> decodeFrom [char_of (unat b)] (q # qs) bs))"

definition utf8Decode :: "bytes \<Rightarrow> string" where
  "utf8Decode bs = decodeFrom [] [] bs"

text \<open>A text whose bytes are UTF-8, as every text without lone surrogates is.\<close>

definition is_utf8 :: "string \<Rightarrow> bool" where
  "is_utf8 s \<longleftrightarrow> utf8Decode (utf8 s) = s"

lemma utf8Decode_ascii: "\<forall>c \<in> set s. (of_char c :: nat) < 128 \<Longrightarrow> is_utf8 s"
proof -
  have "decodeFrom [] [] (utf8 s) = s" if "\<forall>c \<in> set s. (of_char c :: nat) < 128"
    using that
  proof (induction s)
    case (Cons c s)
    have "unat (of_nat (of_char c :: nat) :: u8) = of_char c"
      using Cons.prems by (simp add: unat_of_nat take_bit_nat_eq_self)
    moreover have "c \<noteq> CHR 0xED" using Cons.prems by auto
    ultimately show ?case using Cons by (simp add: utf8_def continuations_def)
  qed (simp add: utf8_def)
  then show "\<forall>c \<in> set s. (of_char c :: nat) < 128 \<Longrightarrow> is_utf8 s" by (simp add: is_utf8_def utf8Decode_def)
qed

section \<open>String literals\<close>

definition hexVal :: "char \<Rightarrow> nat option" where
  "hexVal c = (let n = of_char c :: nat in
     if isDigit c then Some (n - 48)
     else if 97 \<le> n \<and> n \<le> 102 then Some (n - 87)
     else if 65 \<le> n \<and> n \<le> 70 then Some (n - 55)
     else None)"

definition hex4 :: "char \<Rightarrow> char \<Rightarrow> char \<Rightarrow> char \<Rightarrow> nat option" where
  "hex4 a b c d = (case (hexVal a, hexVal b, hexVal c, hexVal d) of
     (Some w, Some x, Some y, Some z) \<Rightarrow> Some (((w * 16 + x) * 16 + y) * 16 + z)
   | _ \<Rightarrow> None)"

text \<open>The bytes of a code point. A surrogate without its partner has the three bytes of its number.\<close>

definition encodePoint :: "nat \<Rightarrow> string" where
  "encodePoint n =
     (if n < 0x80 then [char_of n]
      else if n < 0x800 then [char_of (0xC0 + n div 64), char_of (0x80 + n mod 64)]
      else if n < 0x10000 then [char_of (0xE0 + n div 4096), char_of (0x80 + n div 64 mod 64), char_of (0x80 + n mod 64)]
      else [char_of (0xF0 + n div 262144), char_of (0x80 + n div 4096 mod 64), char_of (0x80 + n div 64 mod 64),
            char_of (0x80 + n mod 64)])"

definition simpleEscape :: "char \<Rightarrow> char option" where
  "simpleEscape c =
     (if c = CHR 0x22 \<or> c = CHR 0x5C \<or> c = CHR ''/'' then Some c
      else if c = CHR ''b'' then Some (CHR 0x08)
      else if c = CHR ''f'' then Some (CHR 0x0C)
      else if c = CHR ''n'' then Some (CHR 0x0A)
      else if c = CHR ''r'' then Some (CHR 0x0D)
      else if c = CHR ''t'' then Some (CHR 0x09)
      else None)"

text \<open>\<^verbatim>\<open>\uXXXX\<close> at the head of a text, without the backslash; a pair of surrogates is one character.\<close>

definition lowSurrogate :: "string \<Rightarrow> (nat \<times> string) option" where
  "lowSurrogate s =
     (case s of bs # u # a # b # c # d # r \<Rightarrow>
        if bs = CHR 0x5C \<and> u = CHR ''u''
        then (case hex4 a b c d of
                Some n \<Rightarrow> if 0xDC00 \<le> n \<and> n \<le> 0xDFFF then Some (n, r) else None
              | None \<Rightarrow> None)
        else None
      | _ \<Rightarrow> None)"

definition unicodeEscape :: "string \<Rightarrow> (string \<times> string) option" where
  "unicodeEscape s =
     (case s of a # b # c # d # r \<Rightarrow>
        (case hex4 a b c d of
           None \<Rightarrow> None
         | Some n \<Rightarrow>
             if 0xD800 \<le> n \<and> n \<le> 0xDBFF
             then (case lowSurrogate r of
                     Some (l, r') \<Rightarrow> Some (encodePoint (0x10000 + (n - 0xD800) * 1024 + (l - 0xDC00)), r')
                   | None \<Rightarrow> Some (encodePoint n, r))
             else Some (encodePoint n, r))
      | _ \<Rightarrow> None)"

lemma unicodeEscape_shorter: "unicodeEscape s = Some (t, r) \<Longrightarrow> length r < length s"
  by (auto simp: unicodeEscape_def lowSurrogate_def split: list.splits option.splits if_splits)

text \<open>The text after the opening quote: the string and what follows its closing quote.\<close>

function parseChars :: "string \<Rightarrow> (string \<times> string) option" where
  "parseChars s =
     (case s of
        [] \<Rightarrow> None
      | c # r \<Rightarrow>
          if c = CHR 0x22 then Some ([], r)
          else if c = CHR 0x5C
          then (case r of
                  [] \<Rightarrow> None
                | e # r' \<Rightarrow>
                    if e = CHR ''u''
                    then (case unicodeEscape r' of
                            None \<Rightarrow> None
                          | Some (t, q) \<Rightarrow> map_option (\<lambda>(u, v). (t @ u, v)) (parseChars q))
                    else (case simpleEscape e of
                            None \<Rightarrow> None
                          | Some x \<Rightarrow> map_option (\<lambda>(u, v). (x # u, v)) (parseChars r')))
          else if (of_char c :: nat) < 0x20 then None
          else map_option (\<lambda>(u, v). (c # u, v)) (parseChars r))"
  by pat_completeness auto
termination
  by (relation "measure length") (auto dest: unicodeEscape_shorter)

declare parseChars.simps [simp del]

lemma parseChars_simps [simp]: "parseChars [] = None" "parseChars [CHR 0x5C] = None"
  by (subst parseChars.simps, simp)+

lemma parseChars_Cons:
  "parseChars (c # r) =
     (if c = CHR 0x22 then Some ([], r)
      else if c = CHR 0x5C
      then (case r of
              [] \<Rightarrow> None
            | e # r' \<Rightarrow>
                if e = CHR ''u''
                then (case unicodeEscape r' of
                        None \<Rightarrow> None
                      | Some (t, q) \<Rightarrow> map_option (\<lambda>(u, v). (t @ u, v)) (parseChars q))
                else (case simpleEscape e of
                        None \<Rightarrow> None
                      | Some x \<Rightarrow> map_option (\<lambda>(u, v). (x # u, v)) (parseChars r')))
      else if (of_char c :: nat) < 0x20 then None
      else map_option (\<lambda>(u, v). (c # u, v)) (parseChars r))"
  by (subst parseChars.simps) simp

section \<open>Numerals\<close>

definition isNumeral :: "char \<Rightarrow> bool" where
  "isNumeral c \<longleftrightarrow> numChar c \<or> c = CHR ''E''"

definition validInteger :: "string \<Rightarrow> bool" where
  "validInteger s \<longleftrightarrow> s \<noteq> [] \<and> allDigits s \<and> (hd s = CHR ''0'' \<longrightarrow> length s = 1)"

definition validFraction :: "string \<Rightarrow> bool" where
  "validFraction s \<longleftrightarrow> s = [] \<or> hd s = CHR ''.'' \<and> tl s \<noteq> [] \<and> allDigits (tl s)"

definition validExponent :: "string \<Rightarrow> bool" where
  "validExponent s \<longleftrightarrow> s = [] \<or> hd s = CHR ''e'' \<and>
     (let t = tl s; d = (if t \<noteq> [] \<and> (hd t = CHR ''+'' \<or> hd t = CHR ''-'') then tl t else t) in d \<noteq> [] \<and> allDigits d)"

text \<open>The grammar of a numeral, without its sign and with \<^verbatim>\<open>e\<close> for \<^verbatim>\<open>E\<close>.\<close>

definition validNumeral :: "string \<Rightarrow> bool" where
  "validNumeral s =
     (let mant = takeWhile (\<lambda>c. c \<noteq> CHR ''e'') s; ip = takeWhile (\<lambda>c. c \<noteq> CHR ''.'') mant
      in validInteger ip \<and> validFraction (drop (length ip) mant) \<and> validExponent (drop (length mant) s))"

definition lowerE :: "string \<Rightarrow> string" where
  "lowerE s = map (\<lambda>c. if c = CHR ''E'' then CHR ''e'' else c) s"

text \<open>The value of a numeral, in lowest terms.\<close>

definition numeralValue :: "bool \<Rightarrow> string \<Rightarrow> jnum" where
  "numeralValue neg s =
     (case readDecimal s of (m, e) \<Rightarrow>
        let i = (if neg then - int m else int m) in if m = 0 then Finite 0 0 else strip10 m i e)"

definition parseNumber :: "(jnum \<Rightarrow> jnum) \<Rightarrow> string \<Rightarrow> (js \<times> string) option" where
  "parseNumber dbl s =
     (let t = takeWhile isNumeral s; r = dropWhile isNumeral s;
          neg = (t \<noteq> [] \<and> hd t = CHR ''-''); u = lowerE (if neg then tl t else t)
      in if validNumeral u then Some (JNum (dbl (numeralValue neg u)), r) else None)"

section \<open>Values\<close>

definition skipWs :: "string \<Rightarrow> string" where
  "skipWs s = dropWhile (\<lambda>c. c = CHR '' '' \<or> c = CHR 0x09 \<or> c = CHR 0x0A \<or> c = CHR 0x0D) s"

text \<open>Properties with an array index for a name come first, in the order of the numbers.\<close>

definition isIndex :: "string \<Rightarrow> bool" where
  "isIndex k \<longleftrightarrow> k \<noteq> [] \<and> allDigits k \<and> (hd k = CHR ''0'' \<longrightarrow> length k = 1) \<and> readNat k < 4294967295"

definition orderKeys :: "obj \<Rightarrow> obj" where
  "orderKeys kvs = sort_key (\<lambda>p. readNat (fst p)) (filter (\<lambda>p. isIndex (fst p)) kvs) @ filter (\<lambda>p. \<not> isIndex (fst p)) kvs"

text \<open>The object of the members in the order they are read: the last of a name wins.\<close>

definition objectOf :: "obj \<Rightarrow> js" where
  "objectOf members = JObj (orderKeys (fold (\<lambda>(k, v). oset k v) members []))"

fun parseValue :: "(jnum \<Rightarrow> jnum) \<Rightarrow> nat \<Rightarrow> string \<Rightarrow> (js \<times> string) option"
  and parseItems :: "(jnum \<Rightarrow> jnum) \<Rightarrow> nat \<Rightarrow> string \<Rightarrow> (js list \<times> string) option"
  and parseMembers :: "(jnum \<Rightarrow> jnum) \<Rightarrow> nat \<Rightarrow> string \<Rightarrow> (obj \<times> string) option" where
  "parseValue dbl 0 s = None"
| "parseValue dbl (Suc n) s =
     (case skipWs s of
        [] \<Rightarrow> None
      | c # r \<Rightarrow>
          if c = CHR ''{'' then
            (if startsWith (skipWs r) ''}'' then Some (JObj [], tl (skipWs r))
             else map_option (\<lambda>(kvs, q). (objectOf kvs, q)) (parseMembers dbl n r))
          else if c = CHR ''['' then
            (if startsWith (skipWs r) '']'' then Some (JArr [], tl (skipWs r))
             else map_option (\<lambda>(xs, q). (JArr xs, q)) (parseItems dbl n r))
          else if c = CHR 0x22 then map_option (\<lambda>(t, q). (JStr t, q)) (parseChars r)
          else if startsWith (c # r) ''true'' then Some (JBool True, drop 4 (c # r))
          else if startsWith (c # r) ''false'' then Some (JBool False, drop 5 (c # r))
          else if startsWith (c # r) ''null'' then Some (JNull, drop 4 (c # r))
          else parseNumber dbl (c # r))"
| "parseItems dbl 0 s = None"
| "parseItems dbl (Suc n) s =
     (case parseValue dbl n s of
        None \<Rightarrow> None
      | Some (v, r) \<Rightarrow>
          (case skipWs r of
             [] \<Rightarrow> None
           | c # q \<Rightarrow>
               if c = CHR '','' then map_option (\<lambda>(vs, u). (v # vs, u)) (parseItems dbl n q)
               else if c = CHR '']'' then Some ([v], q)
               else None))"
| "parseMembers dbl 0 s = None"
| "parseMembers dbl (Suc n) s =
     (case skipWs s of
        [] \<Rightarrow> None
      | c # r \<Rightarrow>
          if c \<noteq> CHR 0x22 then None
          else (case parseChars r of
                  None \<Rightarrow> None
                | Some (k, q) \<Rightarrow>
                    (case skipWs q of
                       [] \<Rightarrow> None
                     | d # u \<Rightarrow>
                         if d \<noteq> CHR '':'' then None
                         else (case parseValue dbl n u of
                                 None \<Rightarrow> None
                               | Some (v, w) \<Rightarrow>
                                   (case skipWs w of
                                      [] \<Rightarrow> None
                                    | e # x \<Rightarrow>
                                        if e = CHR '','' then map_option (\<lambda>(kvs, y). ((k, v) # kvs, y)) (parseMembers dbl n x)
                                        else if e = CHR ''}'' then Some ([(k, v)], x)
                                        else None)))))"

text \<open>The fuel: each character opens at most one value and one list.\<close>

definition JSON_parse :: "(jnum \<Rightarrow> jnum) \<Rightarrow> string \<Rightarrow> js result" where
  "JSON_parse dbl s =
     (case parseValue dbl (2 * length s + 2) s of
        Some (v, r) \<Rightarrow> if skipWs r = [] then Inr v else Inl (JsError ''Unexpected token in JSON'')
      | None \<Rightarrow> Inl (JsError ''Unexpected token in JSON''))"

section \<open>Enough fuel\<close>

lemma skipWs_length: "length (skipWs s) \<le> length s"
  by (simp add: skipWs_def length_dropWhile_le)

lemma parseChars_shorter: "parseChars s = Some (t, r) \<Longrightarrow> length r < length s"
proof (induction s arbitrary: t r rule: parseChars.induct)
  case (1 s)
  show ?case
  proof (cases s)
    case Nil
    then show ?thesis using "1.prems" by (simp add: parseChars.simps)
  next
    case s: (Cons c q)
    consider "c = CHR 0x22" | (esc) "c = CHR 0x5C" | (other) "c \<noteq> CHR 0x22" "c \<noteq> CHR 0x5C" by blast
    then show ?thesis
    proof cases
      case esc
      then obtain e u where q: "q = e # u" using "1.prems" s by (cases q) simp_all
      show ?thesis
      proof (cases "e = CHR ''u''")
        case True
        then obtain a b x where u: "unicodeEscape u = Some (a, b)" "parseChars b = Some (x, r)"
          using "1.prems" s q esc by (auto simp: parseChars_Cons split: option.splits)
        have "length r < length b" using "1.IH"(1) [OF s _ esc q True u(1) refl u(2)] esc by simp
        then show ?thesis using unicodeEscape_shorter [OF u(1)] s q by simp
      next
        case False
        then obtain a x where u: "simpleEscape e = Some a" "parseChars u = Some (x, r)"
          using "1.prems" s q esc by (auto simp: parseChars_Cons split: option.splits)
        have "length r < length u" using "1.IH"(2) [OF s _ esc q False u] esc by simp
        then show ?thesis using s q by simp
      qed
    next
      case other
      then obtain x where u: "parseChars q = Some (x, r)" "\<not> (of_char c :: nat) < 0x20"
        using "1.prems" s by (auto simp: parseChars_Cons split: if_splits)
      then have "length r < length q" using "1.IH"(3) [OF s other u(2,1)] by simp
      then show ?thesis using s by simp
    qed (use "1.prems" s in \<open>simp add: parseChars_Cons\<close>)
  qed
qed

lemma parseNumber_shorter: "parseNumber dbl s = Some (v, r) \<Longrightarrow> length r < length s"
proof -
  assume a: "parseNumber dbl s = Some (v, r)"
  then have "takeWhile isNumeral s \<noteq> []"
    by (auto simp: parseNumber_def Let_def validNumeral_def validInteger_def lowerE_def split: if_splits)
  moreover have "r = dropWhile isNumeral s" using a by (auto simp: parseNumber_def Let_def split: if_splits)
  ultimately show ?thesis by (cases s) (auto simp: length_dropWhile_le less_Suc_eq_le split: if_splits)
qed

lemma parse_shorter:
  "parseValue dbl n s = Some (v, r) \<Longrightarrow> length r < length s"
  "parseItems dbl n s = Some (vs, r) \<Longrightarrow> length r < length s"
  "parseMembers dbl n s = Some (kvs, r) \<Longrightarrow> length r < length s"
proof (induction dbl n s and dbl n s and dbl n s arbitrary: v r and vs r and kvs r
    rule: parseValue_parseItems_parseMembers.induct)
  case (2 dbl n s)
  obtain c t where s: "skipWs s = c # t" using "2.prems" by (cases "skipWs s") simp_all
  then have le: "length t < length s" using skipWs_length [of s] by simp
  have "length r \<le> length t"
    using "2.prems" "2.IH" [OF s] s skipWs_length [of t] parseNumber_shorter [of dbl "c # t" v r] parseChars_shorter [of t]
    by (auto split: if_splits dest: less_imp_le simp: less_Suc_eq_le) 
  then show ?case using le by simp
next
  case (4 dbl n s)
  obtain v q where v: "parseValue dbl n s = Some (v, q)" using "4.prems" by (cases "parseValue dbl n s") auto
  obtain c t where t: "skipWs q = c # t" using "4.prems" v by (cases "skipWs q") simp_all
  have "length t < length s" using "4.IH"(1) [OF v] skipWs_length [of q] t by simp
  moreover have "length r \<le> length t"
    using "4.prems" v t "4.IH"(2) [OF v refl t] by (auto split: if_splits dest: less_imp_le)
  ultimately show ?case by simp
next
  case (6 dbl n s)
  obtain t where s: "skipWs s = CHR 0x22 # t" using "6.prems" by (cases "skipWs s") (auto split: if_splits)
  obtain k q where k: "parseChars t = Some (k, q)" using "6.prems" s by (cases "parseChars t") auto
  obtain u where q: "skipWs q = CHR '':'' # u" using "6.prems" s k by (cases "skipWs q") (auto split: if_splits)
  obtain v w where v: "parseValue dbl n u = Some (v, w)" using "6.prems" s k q by (cases "parseValue dbl n u") auto
  obtain e x where w: "skipWs w = e # x" using "6.prems" s k q v by (cases "skipWs w") auto
  have "length x < length s"
    using skipWs_length [of s] skipWs_length [of q] skipWs_length [of w] parseChars_shorter [OF k] s q w
      "6.IH"(1) [OF s _ k refl q _ v] by simp
  moreover have "length r \<le> length x"
    using "6.prems" s k q v w "6.IH"(2) [OF s _ k refl q _ v refl w] by (auto split: if_splits dest: less_imp_le)
  ultimately show ?case by simp
qed simp_all

text \<open>More fuel than twice the text gives the same result.\<close>

lemma parse_more_fuel:
  "2 * length s + 1 \<le> n \<Longrightarrow> parseValue dbl (Suc n) s = parseValue dbl n s"
  "2 * length s + 2 \<le> n \<Longrightarrow> parseItems dbl (Suc n) s = parseItems dbl n s"
  "2 * length s + 2 \<le> n \<Longrightarrow> parseMembers dbl (Suc n) s = parseMembers dbl n s"
proof (induction dbl n s and dbl n s and dbl n s rule: parseValue_parseItems_parseMembers.induct)
  case (2 dbl n s)
  show ?case
  proof (cases "skipWs s")
    case (Cons c r)
    then have "2 * length r + 2 \<le> n" using skipWs_length [of s] "2.prems" by simp
    then show ?thesis using "2.IH" [OF Cons] Cons by (auto simp del: parseItems.simps parseMembers.simps)
  qed simp
next
  case (4 dbl n s)
  have v: "parseValue dbl (Suc n) s = parseValue dbl n s" using "4.IH"(1) "4.prems" by simp
  show ?case
  proof (cases "parseValue dbl n s")
    case (Some p)
    obtain x r where p: "p = (x, r)" by (cases p)
    show ?thesis
    proof (cases "skipWs r")
      case (Cons c q)
      have "2 * length q + 2 \<le> n"
        using parse_shorter(1) [OF Some [unfolded p]] skipWs_length [of r] Cons "4.prems" by simp
      then have "c = CHR '','' \<Longrightarrow> parseItems dbl (Suc n) q = parseItems dbl n q" using "4.IH"(2) [OF Some p [symmetric] Cons] by blast
      then show ?thesis unfolding parseItems.simps v Some p by (simp add: Cons)
    qed (simp only: parseItems.simps v Some p option.case prod.case list.case)
  qed (simp only: parseItems.simps v option.case)
next
  case (6 dbl n s)
  show ?case
  proof (cases "skipWs s")
    case s: (Cons c r)
    show ?thesis
    proof (cases "c = CHR 0x22 \<and> parseChars r \<noteq> None")
      case True
      then obtain k q where k: "c = CHR 0x22" "parseChars r = Some (k, q)" by auto
      show ?thesis
      proof (cases "skipWs q")
        case q: (Cons d u)
        show ?thesis
        proof (cases "d = CHR '':''")
          case d: True
          have l: "length u + 3 \<le> length s"
            using skipWs_length [of s] skipWs_length [of q] parseChars_shorter [OF k(2)] s q by simp
          have v: "parseValue dbl (Suc n) u = parseValue dbl n u"
            using "6.IH"(1) [OF s _ k(2) refl q] k(1) d l "6.prems" by simp
          show ?thesis
          proof (cases "parseValue dbl n u")
            case (Some p)
            obtain x w where p: "p = (x, w)" by (cases p)
            show ?thesis
            proof (cases "skipWs w")
              case w: (Cons e y)
              have "2 * length y + 2 \<le> n"
                using parse_shorter(1) [OF Some [unfolded p]] skipWs_length [of w] w l "6.prems" by simp
              then have "e = CHR '','' \<Longrightarrow> parseMembers dbl (Suc n) y = parseMembers dbl n y"
                using "6.IH"(2) [OF s _ k(2) refl q _ Some p [symmetric] w] k(1) d by simp
              then show ?thesis unfolding parseMembers.simps using s k q d v Some p w by simp
            qed (use s k q d v Some p in \<open>simp add: parseMembers.simps del: parseValue.simps\<close>)
          qed (use s k q d v in \<open>simp add: parseMembers.simps del: parseValue.simps\<close>)
        qed (use s k q in simp)
      qed (use s k in simp)
    qed (use s in \<open>cases "parseChars r"; auto\<close>)
  qed simp
qed simp_all

lemma parse_fuel: "2 * length s + 1 \<le> n \<Longrightarrow> parseValue dbl n s = parseValue dbl (2 * length s + 1) s"
proof (induction rule: dec_induct)
  case (step n)
  then show ?case using parse_more_fuel(1) [of s n dbl] by simp
qed simp

section \<open>What stringify writes is read back\<close>

lemma hexVal_hexDigit: "d < 16 \<Longrightarrow> hexVal (hexDigit d) = Some d"
proof -
  assume "d < 16"
  then have "d \<in> set [0..<16]" by simp
  moreover have "\<forall>d \<in> set [0..<16]. hexVal (hexDigit d) = Some d"
    by (simp add: upt_rec hexDigit_def hexVal_def isDigit_def)
  ultimately show ?thesis by blast
qed

lemma hex4_control: "n < 32 \<Longrightarrow> unicodeEscape (CHR ''0'' # CHR ''0'' # hexDigit (n div 16) # hexDigit (n mod 16) # r) = Some ([char_of n], r)"
proof -
  assume n: "n < 32"
  have "n div 16 < 16" "n mod 16 < 16" using n by simp_all
  then have "hexVal (hexDigit (n div 16)) = Some (n div 16)" "hexVal (hexDigit (n mod 16)) = Some (n mod 16)"
    by (simp_all only: hexVal_hexDigit)
  moreover have "hexVal (CHR ''0'') = Some 0" by (simp add: hexVal_def isDigit_def)
  moreover have "n div 16 * 16 + n mod 16 = n" by simp
  ultimately have "hex4 (CHR ''0'') (CHR ''0'') (hexDigit (n div 16)) (hexDigit (n mod 16)) = Some n"
    by (simp add: hex4_def)
  with n show ?thesis by (simp add: unicodeEscape_def encodePoint_def)
qed

lemma parseChars_escape: "parseChars (jsonEscapeChar c @ r) = map_option (\<lambda>(u, v). (c # u, v)) (parseChars r)"
proof (cases "(of_char c :: nat) < 0x20 \<and> c \<notin> {CHR 0x08, CHR 0x09, CHR 0x0A, CHR 0x0C, CHR 0x0D}")
  case True
  then have lt: "(of_char c :: nat) < 0x20" and "c \<noteq> CHR 0x08" "c \<noteq> CHR 0x09" "c \<noteq> CHR 0x0A" "c \<noteq> CHR 0x0C" "c \<noteq> CHR 0x0D"
    by blast+
  moreover have "c \<noteq> CHR 0x22" "c \<noteq> CHR 0x5C" using lt by (intro notI, simp)+
  ultimately have "jsonEscapeChar c = [CHR 0x5C, CHR ''u'', CHR ''0'', CHR ''0'', hexDigit (of_char c div 16), hexDigit (of_char c mod 16)]"
    unfolding jsonEscapeChar_def by (simp only: if_False if_True)
  then show ?thesis using lt hex4_control [of "of_char c" r] by (simp add: parseChars_Cons)
next
  case False
  then show ?thesis by (auto simp: jsonEscapeChar_def parseChars_Cons simpleEscape_def)
qed

lemma parseChars_quote:
  assumes "wellFormed s"
  shows "parseChars (jsonEscape s @ CHR 0x22 # r) = Some (s, r)"
proof -
  have "parseChars (concat (map jsonEscapeChar s) @ CHR 0x22 # r) = Some (s, r)"
    by (induction s) (simp_all add: parseChars_Cons [of "CHR 0x22"] parseChars_escape)
  then show ?thesis by (simp add: jsonEscape_wellFormed assms)
qed

subsection \<open>Numbers\<close>

lemma showNat_hd: "0 < n \<Longrightarrow> hd (showNat n) \<noteq> CHR ''0''"
proof (induction n rule: showNat.induct)
  case (1 n)
  show ?case
  proof (cases "n < 10")
    case True
    with 1(2) have "n \<in> set [1..<10]" by auto
    moreover have "\<forall>n \<in> set [1..<10]. decDigit n \<noteq> CHR ''0''" by code_simp
    ultimately show ?thesis using True by (simp add: showNat.simps [of n])
  qed (use 1 in \<open>simp add: showNat.simps [of n]\<close>)
qed

lemma showNat_0 [simp]: "showNat 0 = ''0''"
  by code_simp

lemma decDigit_0: "decDigit 0 = CHR ''0''"
  by code_simp

lemma validInteger_showNat [simp]: "validInteger (showNat n)"
  using showNat_hd [of n] by (cases "n = 0") (auto simp: validInteger_def isDigit_def)

lemma strip10_scaled: "m mod 10 \<noteq> 0 \<Longrightarrow> j \<le> k \<Longrightarrow> strip10 k (m * 10 ^ j) e = Finite m (e + int j)"
proof (induction j arbitrary: k e)
  case 0
  then show ?case by (cases k) auto
next
  case (Suc j)
  then obtain k' where "k = Suc k'" by (cases k) auto
  moreover have "m * 10 ^ Suc j \<noteq> 0" "m * 10 ^ Suc j mod 10 = 0" "m * 10 ^ Suc j div 10 = m * 10 ^ j"
    using Suc.prems(1) by auto
  ultimately show ?case using Suc.IH [of k' "e + 1"] Suc.prems by (simp add: ac_simps)
qed

lemma validNumeral_forms:
  assumes "validInteger ip"
  shows "validNumeral ip"
    and "allDigits fp \<Longrightarrow> fp \<noteq> [] \<Longrightarrow> validNumeral (ip @ CHR ''.'' # fp)"
    and "validNumeral (ip @ CHR ''e'' # (if b then CHR ''-'' else CHR ''+'') # showNat x)"
    and "allDigits fp \<Longrightarrow> fp \<noteq> [] \<Longrightarrow>
      validNumeral (ip @ CHR ''.'' # fp @ CHR ''e'' # (if b then CHR ''-'' else CHR ''+'') # showNat x)"
proof -
  have ip: "allDigits ip" using assms by (simp add: validInteger_def)
  note tw = takeWhile_digits [OF ip]
  have ex: "validExponent (CHR ''e'' # (if b then CHR ''-'' else CHR ''+'') # showNat x)"
    by (simp add: validExponent_def Let_def)
  have [simp]: "validFraction []" "validExponent []" by (simp_all add: validFraction_def validExponent_def)
  show "validNumeral ip" using assms unfolding validNumeral_def Let_def tw by simp
  show "validNumeral (ip @ CHR ''e'' # (if b then CHR ''-'' else CHR ''+'') # showNat x)"
    using assms ex unfolding validNumeral_def Let_def tw by simp
  assume fp: "allDigits fp" "fp \<noteq> []"
  then have fr: "validFraction (CHR ''.'' # fp)" by (simp add: validFraction_def)
  have m: "takeWhile (\<lambda>c. c \<noteq> CHR ''e'') (ip @ CHR ''.'' # fp) = ip @ CHR ''.'' # fp"
    "takeWhile (\<lambda>c. c \<noteq> CHR ''e'') (ip @ CHR ''.'' # fp @ CHR ''e'' # t) = ip @ CHR ''.'' # fp" for t
    using ip fp(1) isDigit_not tw takeWhile_digits [OF fp(1)] by (auto simp: takeWhile_append takeWhile_eq_all_conv allDigits_def)
  show "validNumeral (ip @ CHR ''.'' # fp)"
    using assms fr unfolding validNumeral_def Let_def m(1) tw by simp
  have d: "drop (length (ip @ CHR ''.'' # fp)) (ip @ CHR ''.'' # fp @ t) = t" for t :: string by simp
  show "validNumeral (ip @ CHR ''.'' # fp @ CHR ''e'' # (if b then CHR ''-'' else CHR ''+'') # showNat x)"
    using assms fr tw ex unfolding validNumeral_def Let_def m d by simp
qed

lemma validNumeral_decimalForm: "0 < m \<Longrightarrow> validNumeral (decimalForm (showNat m) n)"
proof -
  assume m: "0 < m"
  let ?ds = "showNat m" and ?k = "int (length (showNat m))"
  note hd = showNat_hd [OF m]
  consider (whole) "?k \<le> n" "n \<le> 21"
    | (mid) "\<not> (?k \<le> n \<and> n \<le> 21)" "0 < n" "n \<le> 21"
    | (small) "\<not> (?k \<le> n \<and> n \<le> 21)" "\<not> (0 < n \<and> n \<le> 21)" "- 6 < n" "n \<le> 0"
    | (exp) "\<not> (?k \<le> n \<and> n \<le> 21)" "\<not> (0 < n \<and> n \<le> 21)" "\<not> (- 6 < n \<and> n \<le> 0)"
    by blast
  then show ?thesis
  proof cases
    case whole
    have "validInteger (?ds @ replicate (nat (n - ?k)) (decDigit 0))"
      using hd by (simp add: validInteger_def hd_append)
    then show ?thesis using whole validNumeral_forms(1) by (simp add: decimalForm_def Let_def)
  next
    case mid
    have "validInteger (take (nat n) ?ds)"
      using hd mid by (simp add: validInteger_def hd_take)
    from validNumeral_forms(2) [OF this, of "drop (nat n) ?ds"] mid show ?thesis by (simp add: decimalForm_def Let_def)
  next
    case small
    have "validInteger ''0''" by (simp add: validInteger_def isDigit_def)
    from validNumeral_forms(2) [OF this, of "replicate (nat (- n)) (decDigit 0) @ ?ds"] small
    show ?thesis by (simp add: decimalForm_def Let_def decDigit_0 [symmetric])
  next
    case exp
    obtain d rest where d: "?ds = d # rest" by (cases ?ds) auto
    have dd: "isDigit d" "allDigits rest" using allDigits_intros(2) [of m] unfolding d by simp_all
    have v: "validInteger [d]" using dd by (simp add: validInteger_def)
    note form = validNumeral_forms(3) [OF v, of "n - 1 < 0" "nat \<bar>n - 1\<bar>", unfolded append_Cons append_Nil]
    show ?thesis
    proof (cases rest)
      case Nil
      then show ?thesis unfolding decimalForm_def Let_def d using exp [unfolded d] form by (simp only: if_False list.case)
    next
      case (Cons d' r)
      have "validNumeral (d # CHR ''.'' # d' # r @ CHR ''e'' # (if n - 1 < 0 then CHR ''-'' else CHR ''+'') # showNat (nat \<bar>n - 1\<bar>))"
        using validNumeral_forms(4) [OF v, of "d' # r" "n - 1 < 0" "nat \<bar>n - 1\<bar>"] dd(2) Cons
        unfolding append_Cons append_Nil by simp
      then show ?thesis unfolding decimalForm_def Let_def d using exp [unfolded d] Cons by (simp only: if_False list.case)
    qed
  qed
qed

lemma numeralValue_decimalForm:
  assumes "m \<noteq> 0" "num_canonical (Finite m e)"
  shows "numeralValue (m < 0) (decimalForm (showNat (nat \<bar>m\<bar>)) (int (length (showNat (nat \<bar>m\<bar>))) + e)) = Finite m e"
proof -
  let ?n = "nat \<bar>m\<bar>" and ?t = "decimalForm (showNat (nat \<bar>m\<bar>)) (int (length (showNat (nat \<bar>m\<bar>))) + e)"
  have c: "m mod 10 \<noteq> 0" using assms by (simp add: num_canonical_def)
  have sg: "(if m < 0 then - int (?n * q) else int (?n * q)) = m * int q" for q
    by simp
  have j: "j < 10 ^ j" for j :: nat by (rule power_gt_expt) simp
  from readDecimal_decimalForm [of "showNat ?n" "int (length (showNat ?n)) + e" e]
  have "readDecimal ?t = (?n, e) \<or> 0 \<le> e \<and> readDecimal ?t = (?n * 10 ^ nat e, 0)" by simp
  then show ?thesis
  proof
    assume a: "readDecimal ?t = (?n, e)"
    have "strip10 ?n m e = Finite m e" using strip10_scaled [OF c, of 0 ?n e] by simp
    moreover have sg1: "(if m < 0 then - int ?n else int ?n) = m" by simp
    ultimately show ?thesis unfolding numeralValue_def a prod.case Let_def sg1 using assms(1) by simp
  next
    assume a: "0 \<le> e \<and> readDecimal ?t = (?n * 10 ^ nat e, 0)"
    have "1 \<le> ?n" using assms(1) by linarith
    then have "10 ^ nat e \<le> ?n * 10 ^ nat e" by simp
    with j [of "nat e"] have "nat e \<le> ?n * 10 ^ nat e" by linarith
    from strip10_scaled [OF c this, of 0] a have "strip10 (?n * 10 ^ nat e) (m * 10 ^ nat e) 0 = Finite m e" by simp
    then show ?thesis unfolding numeralValue_def conjunct2 [OF a] prod.case Let_def sg using assms(1) by simp
  qed
qed

lemma parseNumber_render:
  assumes "num_canonical (Finite m e)" "delim r" "dbl (Finite m e) = Finite m e"
  shows "parseNumber dbl (numberToString (Finite m e) @ r) = Some (JNum (Finite m e), r)"
proof -
  let ?t = "numberToString (Finite m e)"
  have n: "\<forall>c \<in> set ?t. numChar c" by (rule numberToString_chars)
  have r: "takeWhile isNumeral r = []" "dropWhile isNumeral r = r"
    using assms(2) by (cases r; auto simp: delim_def isNumeral_def numChar_def isDigit_def)+
  have t: "takeWhile isNumeral (?t @ r) = ?t" "dropWhile isNumeral (?t @ r) = r"
    using n r by (simp_all add: takeWhile_append2 dropWhile_append2 isNumeral_def)
  have low: "lowerE s = s" if "\<forall>c \<in> set s. numChar c" for s
    unfolding lowerE_def using that by (intro map_idI) (auto simp: numChar_def isDigit_def)
  show ?thesis
  proof (cases "m = 0")
    case True
    then have e: "e = 0" using assms(1) by (simp add: num_canonical_def)
    have "validInteger ''0''" by (simp add: validInteger_def isDigit_def)
    then have "validNumeral ''0''" by (rule validNumeral_forms)
    moreover have "readDecimal ''0'' = (0, 0)"
      using readDecimal_plain [of "''0''"] by (simp add: isDigit_def readNat_def digitVal_def)
    ultimately show ?thesis using True e t low [of "''0''"] assms(3)
      by (simp add: parseNumber_def Let_def numeralValue_def decDigit_0 numChar_def isDigit_def)
  next
    case False
    let ?u = "decimalForm (showNat (nat \<bar>m\<bar>)) (int (length (showNat (nat \<bar>m\<bar>))) + e)"
    have form: "?t = (if m < 0 then CHR ''-'' # ?u else ?u)" using False by (simp add: Let_def)
    have v: "validNumeral ?u" using False by (intro validNumeral_decimalForm) simp
    have u: "\<forall>c \<in> set ?u. numChar c" by (rule decimalForm_chars) simp
    obtain c q where c: "?u = c # q" "isDigit c"
      using decimalForm_hd [of "showNat (nat \<bar>m\<bar>)" "int (length (showNat (nat \<bar>m\<bar>))) + e"] by auto
    then have "c \<noteq> CHR ''-''" using isDigit_not by blast
    then have "(?t \<noteq> [] \<and> hd ?t = CHR ''-'') = (m < 0)" unfolding form c(1) by simp
    moreover have "(if m < 0 then tl ?t else ?t) = ?u" unfolding form by simp
    ultimately show ?thesis unfolding parseNumber_def Let_def t
      using v low [OF u] numeralValue_decimalForm [OF False assms(1)] assms(3) by simp
  qed
qed

subsection \<open>Documents\<close>

text \<open>The values that survive: numbers that are doubles, no lone surrogate, no name twice, index names first in
  order.\<close>

fun parse_stable :: "(jnum \<Rightarrow> jnum) \<Rightarrow> js \<Rightarrow> bool" where
  "parse_stable dbl (JNum n) \<longleftrightarrow> dbl n = n"
| "parse_stable dbl (JStr s) \<longleftrightarrow> wellFormed s"
| "parse_stable dbl (JArr xs) \<longleftrightarrow> (\<forall>x \<in> set xs. parse_stable dbl x)"
| "parse_stable dbl (JObj kvs) \<longleftrightarrow>
     distinct (map fst kvs) \<and> orderKeys kvs = kvs \<and> (\<forall>p \<in> set kvs. wellFormed (fst p) \<and> parse_stable dbl (snd p))"
| "parse_stable dbl v \<longleftrightarrow> True"

lemma fold_oset: "distinct (map fst (acc @ kvs)) \<Longrightarrow> fold (\<lambda>(k, v). oset k v) kvs acc = acc @ kvs"
proof (induction kvs arbitrary: acc)
  case (Cons p kvs)
  obtain k v where p: "p = (k, v)" by (cases p)
  have "k \<notin> fst ` set acc" using Cons.prems p by auto
  then have "oset k v acc = acc @ [(k, v)]" by (induction k v acc rule: oset.induct) auto
  then show ?case using Cons.IH [of "acc @ [(k, v)]"] Cons.prems p by simp
qed simp

lemma skipWs_simps [simp]:
  "skipWs [] = []" "skipWs (CHR '','' # r) = CHR '','' # r" "skipWs (CHR '']'' # r) = CHR '']'' # r"
  "skipWs (CHR ''}'' # r) = CHR ''}'' # r" "skipWs (CHR '':'' # r) = CHR '':'' # r" "skipWs (CHR 0x22 # r) = CHR 0x22 # r"
  by (simp_all add: skipWs_def)

lemma skipWs_render: "is_json v \<Longrightarrow> skipWs (render v @ r) = render v @ r"
proof -
  assume a: "is_json v"
  obtain c s where c: "render v = c # s" "kind_of_char c = kind_of v" using render_hd [OF a] by blast
  have "kind_of v \<noteq> KNone" using a by (cases v) auto
  with c(2) have "c \<noteq> CHR '' ''" "c \<noteq> CHR 0x09" "c \<noteq> CHR 0x0A" "c \<noteq> CHR 0x0D"
    by (auto simp: kind_of_char_def isDigit_def)
  then show ?thesis using c(1) by (simp add: skipWs_def)
qed

definition reads :: "(jnum \<Rightarrow> jnum) \<Rightarrow> js \<Rightarrow> bool" where
  "reads dbl v \<longleftrightarrow> (\<forall>n r. 2 * length (render v) + 1 \<le> n \<longrightarrow> delim r \<longrightarrow> parseValue dbl n (render v @ r) = Some (v, r))"

lemma parse_tail:
  assumes "\<And>x. x \<in> set xs \<Longrightarrow> reads dbl x" "reads dbl y"
    and "2 * length (render y @ render_tail (CHR '']'') render xs) + 2 \<le> n"
  shows "parseItems dbl n (render y @ render_tail (CHR '']'') render xs @ r) = Some (y # xs, r)"
  using assms
proof (induction xs arbitrary: y n)
  case Nil
  then obtain n' where "n = Suc n'" by (cases n) auto
  then show ?case using Nil(2,3) by (simp add: reads_def)
next
  case (Cons x xs)
  then obtain n' where n: "n = Suc n'" by (cases n) auto
  have "parseValue dbl n' (render y @ CHR '','' # render x @ render_tail (CHR '']'') render xs @ r) =
      Some (y, CHR '','' # render x @ render_tail (CHR '']'') render xs @ r)"
    using Cons.prems(2,3) n by (simp add: reads_def)
  moreover have "parseItems dbl n' (render x @ render_tail (CHR '']'') render xs @ r) = Some (x # xs, r)"
    using Cons.prems n by (intro Cons.IH) auto
  ultimately show ?case using n by simp
qed

lemma parse_member_tail:
  assumes "\<And>p. p \<in> set kvs \<Longrightarrow> wellFormed (fst p) \<and> reads dbl (snd p)" "wellFormed (fst q) \<and> reads dbl (snd q)"
    and "2 * length (renderMember q @ render_tail (CHR ''}'') renderMember kvs) + 2 \<le> n"
  shows "parseMembers dbl n (renderMember q @ render_tail (CHR ''}'') renderMember kvs @ r) = Some (q # kvs, r)"
  using assms
proof (induction kvs arbitrary: q n)
  case Nil
  then obtain n' where "n = Suc n'" by (cases n) auto
  then show ?case using Nil(2,3) by (simp add: reads_def renderMember_def jsonQuote_def parseChars_quote)
next
  case (Cons p kvs)
  then obtain n' where n: "n = Suc n'" by (cases n) auto
  let ?more = "renderMember p @ render_tail (CHR ''}'') renderMember kvs @ r"
  have "parseValue dbl n' (render (snd q) @ CHR '','' # ?more) = Some (snd q, CHR '','' # ?more)"
    using Cons.prems(2,3) n by (simp add: reads_def renderMember_def)
  moreover have "parseMembers dbl n' ?more = Some (p # kvs, r)"
    using Cons.prems n by (intro Cons.IH) auto
  moreover have "renderMember q @ t = CHR 0x22 # jsonEscape (fst q) @ CHR 0x22 # CHR '':'' # render (snd q) @ t" for t
    by (simp add: renderMember_def jsonQuote_def)
  ultimately show ?case using n Cons.prems(2) by (simp add: parseChars_quote)
qed

lemma render_list_Cons: "render_list c f (x # xs) = f x @ render_tail c f xs"
  unfolding render_list_def by (rule joinStr_tail)

lemma reads_all:
  assumes "is_json v" "parse_stable dbl v"
  shows "reads dbl v"
  using assms
proof (induction v)
  case (JNum x)
  then obtain m e where x: "x = Finite m e" "num_canonical (Finite m e)" "dbl (Finite m e) = Finite m e"
    by (cases x) auto
  have k: "\<exists>c s. render (JNum x) = c # s \<and> kind_of_char c = KNum" using render_hd [OF JNum.prems(1)] by simp
  show ?case unfolding reads_def
  proof (intro allI impI)
    fix n r assume n: "2 * length (render (JNum x)) + 1 \<le> n" and r: "delim r"
    obtain n' where n': "n = Suc n'" using n by (cases n) auto
    obtain c s where c: "numberToString (Finite m e) = c # s" "kind_of_char c = KNum" using k x by auto
    then have d: "c \<noteq> CHR ''{''" "c \<noteq> CHR ''[''" "c \<noteq> CHR 0x22" "c \<noteq> CHR ''t''" "c \<noteq> CHR ''f''" "c \<noteq> CHR ''n''"
      by (auto simp: kind_of_char_def)
    have "skipWs (numberToString (Finite m e) @ r) = c # s @ r"
      using skipWs_render [OF JNum.prems(1), of r] x c by simp
    moreover have "parseNumber dbl (c # s @ r) = Some (JNum (Finite m e), r)"
      using parseNumber_render [of m e r dbl] x r c by simp
    ultimately show "parseValue dbl n (render (JNum x) @ r) = Some (JNum x, r)"
      unfolding n' x render.simps parseValue.simps using d by (simp add: startsWith_def)
  qed
next
  case (JStr s)
  have "parseValue dbl n (render (JStr s) @ r) = Some (JStr s, r)" if "2 * length (render (JStr s)) + 1 \<le> n" for n r
    using that JStr.prems(2) by (cases n) (simp_all add: jsonQuote_def parseChars_quote)
  then show ?case by (simp add: reads_def)
next
  case (JArr xs)
  have "parseValue dbl n (render (JArr xs) @ r) = Some (JArr xs, r)" if n: "2 * length (render (JArr xs)) + 1 \<le> n" for n r
  proof -
    obtain n' where n': "n = Suc n'" using n by (cases n) auto
    have ws: "skipWs (render (JArr xs) @ r) = CHR ''['' # render_list (CHR '']'') render xs @ r"
      unfolding render_arr by (simp add: skipWs_def)
    show ?thesis
    proof (cases xs)
      case Nil
      then show ?thesis unfolding n' parseValue.simps ws by (simp add: render_list_def startsWith_def)
    next
      case (Cons y ys)
      have all: "reads dbl x" if "x \<in> set xs" for x using JArr that by simp
      obtain c t where c: "render y = c # t" "c \<noteq> CHR '']''"
        using render_hd_not_close [of y "CHR '']''"] JArr.prems(1) Cons by auto
      have sk: "skipWs (render y @ u) = c # t @ u" for u
        using skipWs_render [of y u] JArr.prems(1) Cons c(1) by simp
      have "parseItems dbl n' (render_list (CHR '']'') render xs @ r) = Some (xs, r)"
        unfolding Cons render_list_Cons append_assoc
        by (rule parse_tail) (use all Cons n n' in \<open>auto simp: render_arr render_list_Cons simp del: render.simps\<close>)
      moreover have "\<not> startsWith (skipWs (render_list (CHR '']'') render xs @ r)) '']''"
        unfolding Cons render_list_Cons append_assoc sk using c(2) by (simp add: startsWith_def)
      ultimately show ?thesis unfolding n' parseValue.simps ws by simp
    qed
  qed
  then show ?case by (simp add: reads_def del: render.simps)
next
  case (JObj kvs)
  have "parseValue dbl n (render (JObj kvs) @ r) = Some (JObj kvs, r)" if n: "2 * length (render (JObj kvs)) + 1 \<le> n" for n r
  proof -
    obtain n' where n': "n = Suc n'" using n by (cases n) auto
    have ws: "skipWs (render (JObj kvs) @ r) = CHR ''{'' # render_list (CHR ''}'') renderMember kvs @ r"
      unfolding render_obj by (simp add: skipWs_def)
    show ?thesis
    proof (cases kvs)
      case Nil
      then show ?thesis unfolding n' parseValue.simps ws by (simp add: render_list_def startsWith_def)
    next
      case (Cons q qs)
      have all: "wellFormed (fst p) \<and> reads dbl (snd p)" if "p \<in> set kvs" for p
      proof -
        have "is_json (snd p)" "wellFormed (fst p)" "parse_stable dbl (snd p)" using JObj.prems that by auto
        then show ?thesis using JObj.IH [OF that, of "snd p"] by (simp add: snds.simps)
      qed
      have sk: "skipWs (renderMember q @ u) = renderMember q @ u" "hd (renderMember q @ u) = CHR 0x22" "renderMember q \<noteq> []" for u
        by (simp_all add: renderMember_def jsonQuote_def)
      have "parseMembers dbl n' (render_list (CHR ''}'') renderMember kvs @ r) = Some (kvs, r)"
        unfolding Cons render_list_Cons append_assoc
        by (rule parse_member_tail) (use all Cons n n' in \<open>auto simp: render_obj render_list_Cons simp del: render.simps\<close>)
      moreover have "\<not> startsWith (skipWs (render_list (CHR ''}'') renderMember kvs @ r)) ''}''"
        unfolding Cons render_list_Cons append_assoc sk(1)
        by (simp add: startsWith_def renderMember_def jsonQuote_def)
      moreover have "objectOf kvs = JObj kvs" using fold_oset [of "[]" kvs] JObj.prems(2) by (simp add: objectOf_def)
      ultimately show ?thesis unfolding n' parseValue.simps ws by simp
    qed
  qed
  then show ?case by (simp add: reads_def del: render.simps)
next
  case JNull
  have "parseValue dbl n (render JNull @ r) = Some (JNull, r)" if "2 * length (render JNull) + 1 \<le> n" for n r
    using that by (cases n) (simp_all add: skipWs_def startsWith_def)
  then show ?case by (simp add: reads_def)
next
  case (JBool b)
  have "parseValue dbl n (render (JBool b) @ r) = Some (JBool b, r)" if "2 * length (render (JBool b)) + 1 \<le> n" for n r
    using that by (cases n; cases b) (simp_all add: skipWs_def startsWith_def)
  then show ?case by (simp add: reads_def)
qed simp_all

lemma JSON_parse_render:
  assumes "is_json v" "parse_stable dbl v"
  shows "JSON_parse dbl (render v) = Inr v"
proof -
  have "parseValue dbl (2 * length (render v) + 2) (render v @ []) = Some (v, [])"
    using reads_all [OF assms, unfolded reads_def, rule_format, of "2 * length (render v) + 2" "[]"] by (simp del: append_Nil2 parseValue.simps add_2_eq_Suc')
  then show ?thesis unfolding JSON_parse_def append_Nil2 by (simp only: option.case prod.case skipWs_simps simp_thms if_True)
qed

end
