(* ===== verification/Vault.thy ===== *)
theory Vault
  imports Canonical_Json Js_Parse Effects
begin

text \<open>
  Encryption at rest, \<^verbatim>\<open>packages/api/src/lib/crypto.ts\<close>, and the signed state of an OAuth flow,
  \<^verbatim>\<open>packages/api/src/lib/oauth-state.ts\<close>. AES-GCM, HMAC and base64 are the platform's: they extend the
  record \<open>crypto\<close>, with what the code relies on in \<open>vault_documented\<close>. The key the module keeps between calls is
  the state of the actions.
\<close>

section \<open>The platform\<close>

text \<open>\<open>buffer_from\<close> is \<^verbatim>\<open>Buffer.from(x, "utf8")\<close> on a value that is not a string; \<open>None\<close> when it throws.\<close>

record vault_crypto = crypto +
  to_base64 :: "bytes \<Rightarrow> string"
  aes_seal :: "bytes \<Rightarrow> bytes \<Rightarrow> bytes \<Rightarrow> bytes \<times> bytes" \<comment> \<open>key, iv, plaintext; ciphertext and tag\<close>
  aes_open :: "bytes \<Rightarrow> bytes \<Rightarrow> bytes \<Rightarrow> bytes \<Rightarrow> bytes result" \<comment> \<open>key, iv, tag, ciphertext\<close>
  hmac_sha256 :: "string \<Rightarrow> bytes \<Rightarrow> bytes" \<comment> \<open>secret, message\<close>
  buffer_from :: "js \<Rightarrow> bytes option"
  to_double :: "jnum \<Rightarrow> jnum"

text \<open>AES-GCM opens what it sealed, its tag has 16 bytes; base64 is undone by its decoder, and its alphabet
  has no colon.\<close>

definition vault_documented :: "vault_crypto \<Rightarrow> bool" where
  "vault_documented h \<longleftrightarrow>
     (\<forall>b. from_base64 h (to_base64 h b) = b \<and> CHR '':'' \<notin> set (to_base64 h b)) \<and>
     (\<forall>b. from_base64url h (to_base64url h b) = b) \<and> from_base64 h [] = [] \<and> to_base64 h [] = [] \<and>
     (\<forall>k iv p. length k = 32 \<longrightarrow> length iv = 12 \<longrightarrow>
        (case aes_seal h k iv p of (c, t) \<Rightarrow> length t = 16 \<and> length c = length p \<and> aes_open h k iv t c = Inr p))"

record vault_env =
  ve_SECRET_ENCRYPTION_KEY :: string
  ve_OAUTH_STATE_SECRET :: string
  ve_IS_CLOUD :: bool

section \<open>Encryption\<close>

text \<open>The module's \<^verbatim>\<open>cachedKey\<close>: not yet read, absent, or the key. The hint how to generate a key that ends both
  messages is left out.\<close>

type_synonym key_cache = "bytes option option"

definition loadKey :: "vault_crypto \<Rightarrow> vault_env \<Rightarrow> bytes option result" where
  "loadKey h env =
     (if ve_SECRET_ENCRYPTION_KEY env = '''' then Inr None
      else let key = from_base64 h (ve_SECRET_ENCRYPTION_KEY env)
           in if length key \<noteq> 32
              then Inl (JsError (''SECRET_ENCRYPTION_KEY must be exactly 32 bytes (got '' @ showNat (length key) @ '')''))
              else Inr (Some key))"

definition getKey :: "vault_crypto \<Rightarrow> vault_env \<Rightarrow> (bytes, key_cache) act" where
  "getKey h env =
     bindA (readA id) (\<lambda>cached.
     bindA (case cached of
              Some k \<Rightarrow> returnA k
            | None \<Rightarrow> bindA (liftA (loadKey h env)) (\<lambda>k. bindA (writeA (\<lambda>_. Some k)) (\<lambda>_. returnA k)))
       (\<lambda>key. case key of
                None \<Rightarrow> throwA (JsError ''SECRET_ENCRYPTION_KEY is not set. Secret encryption requires this env var.'')
              | Some k \<Rightarrow> returnA k))"

text \<open>\<open>iv\<close> are the 12 random bytes of the call.\<close>

definition encrypt :: "vault_crypto \<Rightarrow> vault_env \<Rightarrow> bytes \<Rightarrow> string \<Rightarrow> (string, key_cache) act" where
  "encrypt h env iv plaintext =
     bindA (getKey h env) (\<lambda>key.
       case aes_seal h key iv (utf8 plaintext) of
         (encrypted, authTag) \<Rightarrow> returnA (joinStr '':'' [to_base64 h iv, to_base64 h authTag, to_base64 h encrypted]))"

text \<open>A part that is missing counts as empty; parts after the third are not looked at.\<close>

definition partOf :: "string list \<Rightarrow> nat \<Rightarrow> string" where
  "partOf ps n = (if n < length ps then ps ! n else [])"

definition formatError :: error where
  "formatError = JsError ''invalid encrypted format: expected iv:authTag:ciphertext''"

definition decrypt :: "vault_crypto \<Rightarrow> vault_env \<Rightarrow> string \<Rightarrow> (string, key_cache) act" where
  "decrypt h env encrypted =
     bindA (getKey h env) (\<lambda>key.
       let ps = splitOn CHR '':'' encrypted in
       if partOf ps 0 = '''' \<or> partOf ps 1 = '''' \<or> partOf ps 2 = '''' then throwA formatError
       else
         let iv = from_base64 h (partOf ps 0); authTag = from_base64 h (partOf ps 1); ciphertext = from_base64 h (partOf ps 2) in
         if length iv \<noteq> 12
         then throwA (JsError (''invalid IV length: expected 12, got '' @ showNat (length iv)))
         else if length authTag \<noteq> 16
         then throwA (JsError (''invalid auth tag length: expected 16, got '' @ showNat (length authTag)))
         else bindA (liftA (aes_open h key iv authTag ciphertext)) (\<lambda>d. returnA (utf8Decode d)))"

section \<open>Signed OAuth state\<close>

definition getSigningKey :: "vault_env \<Rightarrow> string result" where
  "getSigningKey env =
     (if ve_IS_CLOUD env
      then (if ve_OAUTH_STATE_SECRET env = '''' then Inl (JsError ''OAUTH_STATE_SECRET is required in cloud'')
            else Inr (ve_OAUTH_STATE_SECRET env))
      else let key = (if ve_OAUTH_STATE_SECRET env = '''' then ve_SECRET_ENCRYPTION_KEY env else ve_OAUTH_STATE_SECRET env)
           in if key = '''' then Inl (JsError ''OAUTH_STATE_SECRET or SECRET_ENCRYPTION_KEY must be set'') else Inr key)"

text \<open>\<^verbatim>\<open>createHmac(...).update(text).digest("hex")\<close>; without a text \<^verbatim>\<open>update\<close> throws.\<close>

definition macHex :: "vault_crypto \<Rightarrow> string \<Rightarrow> string option \<Rightarrow> string result" where
  "macHex h secret text' =
     (case text' of
        None \<Rightarrow> Inl (JsError ''The data argument must be of type string'')
      | Some t \<Rightarrow> Inr (toHex (hmac_sha256 h secret (utf8 t))))"

definition signOAuthState :: "vault_crypto \<Rightarrow> vault_env \<Rightarrow> js \<Rightarrow> string result" where
  "signOAuthState h env payload =
     bindR (getSigningKey env) (\<lambda>secret.
     bindR (JSON_stringify payload) (\<lambda>data.
     bindR (macHex h secret data) (\<lambda>sig.
     bindR (JSON_stringify (JObj [(''data'', payload), (''sig'', JStr sig)])) (\<lambda>t.
       Inr (to_base64url h (utf8 (orElse t '''')))))))"

definition sigBytes :: "vault_crypto \<Rightarrow> js \<Rightarrow> bytes result" where
  "sigBytes h sig =
     (case sig of
        JStr s \<Rightarrow> Inr (utf8 s)
      | _ \<Rightarrow> (case buffer_from h sig of None \<Rightarrow> Inl (JsError ''The first argument must be of type string'') | Some b \<Rightarrow> Inr b))"

text \<open>The body of the \<^verbatim>\<open>try\<close>; destructuring null throws.\<close>

definition checkedState :: "vault_crypto \<Rightarrow> vault_env \<Rightarrow> string \<Rightarrow> js option result" where
  "checkedState h env raw =
     bindR (getSigningKey env) (\<lambda>secret.
     bindR (JSON_parse (to_double h) (utf8Decode (from_base64url h raw))) (\<lambda>v.
       if v = JNull then Inl (JsError ''Cannot destructure null'')
       else
         let data = jsProp v ''data''; sig = jsProp v ''sig'' in
         bindR (JSON_stringify data) (\<lambda>t.
         bindR (macHex h secret t) (\<lambda>expected.
         bindR (sigBytes h sig) (\<lambda>sigBuf.
           let expectedBuf = utf8 expected
           in if length sigBuf \<noteq> length expectedBuf \<or> sigBuf \<noteq> expectedBuf then Inr None else Inr (Some data))))))"

definition verifyOAuthState :: "vault_crypto \<Rightarrow> vault_env \<Rightarrow> string \<Rightarrow> js option" where
  "verifyOAuthState h env raw = (case checkedState h env raw of Inl e \<Rightarrow> None | Inr r \<Rightarrow> r)"

section \<open>What is encrypted is read back\<close>

text \<open>The cache holds what the environment gives.\<close>

definition cacheFor :: "vault_crypto \<Rightarrow> vault_env \<Rightarrow> key_cache \<Rightarrow> bool" where
  "cacheFor h env s \<longleftrightarrow> s = None \<or> (\<exists>k. s = Some k \<and> loadKey h env = Inr k)"

lemma getKey_Inr:
  assumes "getKey h env s = (Inr k, t)" "cacheFor h env s"
  shows "loadKey h env = Inr (Some k) \<and> t = Some (Some k) \<and> length k = 32"
proof -
  have "loadKey h env = Inr (Some k) \<and> t = Some (Some k)"
    using assms
    by (cases s) (auto simp: getKey_def cacheFor_def bindA_def split: sum.splits option.splits)
  moreover from this have "length k = 32" by (auto simp: loadKey_def Let_def split: if_splits)
  ultimately show ?thesis by simp
qed

lemma getKey_cached [simp]: "getKey h env (Some (Some k)) = (Inr k, Some (Some k))"
  by (simp add: getKey_def)

lemma splitOn_join3:
  assumes "c \<notin> set a" "c \<notin> set b" "c \<notin> set d"
  shows "splitOn c (joinStr [c] [a, b, d]) = [a, b, d]"
proof -
  have plain: "splitOn c x = [x]" if "c \<notin> set x" for x using that by (induction x) auto
  have "splitOn c (x @ c # y) = x # splitOn c y" if "c \<notin> set x" for x y
    using that by (induction x) auto
  then show ?thesis using assms plain by simp
qed

text \<open>Everything but the empty text comes back; the empty text is encrypted to a value that is refused.\<close>

lemma decrypt_encrypt_lemma:
  assumes "vault_documented h" "length iv = 12" "is_utf8 p" "cacheFor h env s" "encrypt h env iv p s = (Inr c, t)"
  shows "decrypt h env c t = (if p = '''' then Inl formatError else Inr p, t)"
proof -
  obtain k u where k: "getKey h env s = (Inr k, u)" using assms(5) by (auto simp: encrypt_def bindA_Inr)
  note key = getKey_Inr [OF k assms(4)]
  obtain e a where sealed: "aes_seal h k iv (utf8 p) = (e, a)" by (cases "aes_seal h k iv (utf8 p)")
  have gcm: "length a = 16" "length e = length (utf8 p)" "aes_open h k iv a e = Inr (utf8 p)"
    proof -
    have "case aes_seal h k iv (utf8 p) of (c, t) \<Rightarrow> length t = 16 \<and> length c = length (utf8 p) \<and> aes_open h k iv t c = Inr (utf8 p)"
      using assms(1) [unfolded vault_documented_def, THEN conjunct2, THEN conjunct2, THEN conjunct2, THEN conjunct2,
          rule_format, of k iv "utf8 p"] assms(2) key by simp
    then show "length a = 16" "length e = length (utf8 p)" "aes_open h k iv a e = Inr (utf8 p)" unfolding sealed by simp_all
  qed
  have b64: "from_base64 h (to_base64 h b) = b" "CHR '':'' \<notin> set (to_base64 h b)" "(to_base64 h b = []) = (b = [])" for b
    using assms(1) unfolding vault_documented_def by metis+
  have c: "c = joinStr '':'' [to_base64 h iv, to_base64 h a, to_base64 h e]" and t: "t = Some (Some k)"
    using assms(5) k sealed key by (auto simp: encrypt_def bindA_def)
  have parts: "splitOn CHR '':'' c = [to_base64 h iv, to_base64 h a, to_base64 h e]"
    unfolding c by (rule splitOn_join3) (rule b64(2))+
  have "iv \<noteq> []" "a \<noteq> []" "(e = []) = (p = [])" using assms(2) gcm utf8_Nil [of p] by auto
  then show ?thesis
    unfolding decrypt_def t using parts assms(2,3) gcm
    by (simp add: bindA_def Let_def partOf_def b64 is_utf8_def)
qed

section \<open>A state is the one signed\<close>

lemma stringify_json: "is_json v \<Longrightarrow> JSON_stringify v = Inr (Some (render v))"
  by (simp add: JSON_stringify_def stringified_json)

text \<open>What a valid state carries.\<close>

lemma verify_Some:
  assumes "verifyOAuthState h env raw = Some d"
  obtains secret t where "getSigningKey env = Inr secret" "JSON_stringify d = Inr (Some t)"
    "\<exists>v. JSON_parse (to_double h) (utf8Decode (from_base64url h raw)) = Inr v \<and> d = jsProp v ''data'' \<and>
       sigBytes h (jsProp v ''sig'') = Inr (utf8 (toHex (hmac_sha256 h secret (utf8 t))))"
  using assms
  by (auto simp: verifyOAuthState_def checkedState_def Let_def bindR_Inr_iff macHex_def split: sum.splits if_splits option.splits)

definition stateDocument :: "js \<Rightarrow> string \<Rightarrow> js" where
  "stateDocument payload sig = JObj [(''data'', payload), (''sig'', JStr sig)]"

lemma sign_Inr:
  assumes "getSigningKey env = Inr secret" "is_json p"
  shows "signOAuthState h env p = Inr (to_base64url h (utf8 (render (stateDocument p (toHex (hmac_sha256 h secret (utf8 (render p))))))))"
  using assms by (simp add: signOAuthState_def stringify_json macHex_def stateDocument_def)

text \<open>Reading a token back.\<close>

lemma hex_wellFormed [simp]: "wellFormed (toHex b)"
proof -
  have "CHR 0xED \<notin> set (hexByte x)" for x :: u8
  proof -
    have "unat x < 256" using unsigned_less [of x] by simp
    then have "unat x div 16 < 16" by simp
    then show ?thesis by (simp add: hexByte_def hexDigit_ED)
  qed
  then have "CHR 0xED \<notin> set (toHex b)" by (auto simp: toHex_def)
  then show ?thesis by (intro closedText_wellFormed closedText_others)
qed

lemma parse_stateDocument:
  assumes "vault_documented h" "is_json p" "parse_stable (to_double h) p" "is_utf8 (render (stateDocument p (toHex sig)))"
  shows "JSON_parse (to_double h) (utf8Decode (from_base64url h (to_base64url h (utf8 (render (stateDocument p (toHex sig))))))) =
    Inr (stateDocument p (toHex sig))"
proof -
  have "orderKeys [(''data'', p), (''sig'', JStr (toHex sig))] = [(''data'', p), (''sig'', JStr (toHex sig))]"
    by (simp add: orderKeys_def isIndex_def isDigit_def)
  then have "JSON_parse (to_double h) (render (stateDocument p (toHex sig))) = Inr (stateDocument p (toHex sig))"
    using assms(2,3) by (intro JSON_parse_render) (simp_all add: stateDocument_def)
  moreover have "utf8Decode (from_base64url h (to_base64url h (utf8 (render (stateDocument p (toHex sig)))))) = render (stateDocument p (toHex sig))"
    using assms(1,4) unfolding vault_documented_def is_utf8_def by metis
  ultimately show ?thesis by simp
qed

lemma verify_sign_lemma:
  assumes "vault_documented h" "is_json p" "parse_stable (to_double h) p" "signOAuthState h env p = Inr raw"
    and "\<And>sig. is_utf8 (render (stateDocument p (toHex sig)))"
  shows "verifyOAuthState h env raw = Some p"
proof -
  obtain secret where s: "getSigningKey env = Inr secret" using assms(4) by (auto simp: signOAuthState_def bindR_Inr_iff)
  let ?sig = "toHex (hmac_sha256 h secret (utf8 (render p)))"
  let ?doc = "stateDocument p ?sig"
  have raw: "raw = to_base64url h (utf8 (render ?doc))" using assms(4) sign_Inr [OF s assms(2), of h] by simp
  have "JSON_parse (to_double h) (utf8Decode (from_base64url h raw)) = Inr ?doc"
    unfolding raw by (rule parse_stateDocument [OF assms(1-3,5)])
  then show ?thesis using s assms(2)
    by (simp add: verifyOAuthState_def checkedState_def stateDocument_def stringify_json macHex_def sigBytes_def)
qed

section \<open>A platform for the examples\<close>

text \<open>Bytes are written in hex, sealing leaves the text as it is, and a mac is the secret with the message.\<close>

fun unhex :: "string \<Rightarrow> bytes" where
  "unhex (a # b # r) = of_nat (orElse (hexVal a) 0 * 16 + orElse (hexVal b) 0) # unhex r"
| "unhex _ = []"

definition toy_vault :: vault_crypto where
  "toy_vault = crypto.extend (toy_crypto\<lparr>from_base64 := unhex, from_base64url := unhex\<rparr>)
     \<lparr> to_base64 = toHex, aes_seal = (\<lambda>k iv p. (p, replicate 16 0)), aes_open = (\<lambda>k iv t c. Inr c),
       hmac_sha256 = (\<lambda>s m. utf8 s @ m), buffer_from = (\<lambda>_. None), to_double = id \<rparr>"

lemma toHex_simps [simp]: "toHex [] = []" "toHex (b # bs) = hexDigit (unat b div 16) # hexDigit (unat b mod 16) # toHex bs"
  by (simp_all add: toHex_def hexByte_def)

lemma unat_byte: "unat (b :: u8) < 256"
  using unsigned_less [of b] by simp

lemma hexVal_nibbles:
  "hexVal (hexDigit (unat (b :: u8) div 16)) = Some (unat b div 16)" "hexVal (hexDigit (unat b mod 16)) = Some (unat b mod 16)"
  using unat_byte [of b] by (simp_all add: hexVal_hexDigit)

lemma unhex_toHex [simp]: "unhex (toHex bs) = bs"
  by (induction bs) (simp_all add: hexVal_nibbles div_mult_mod_eq)

lemma hexVal_not: "hexVal c \<noteq> None \<Longrightarrow> (of_char c :: nat) < 128 \<and> c \<noteq> CHR '':''"
  by (auto simp: hexVal_def isDigit_def Let_def split: if_splits)

lemma toHex_chars: "c \<in> set (toHex bs) \<Longrightarrow> (of_char c :: nat) < 128 \<and> c \<noteq> CHR '':''"
proof (induction bs)
  case (Cons b bs)
  then show ?case using hexVal_not [of "hexDigit (unat b div 16)"] hexVal_not [of "hexDigit (unat b mod 16)"]
    by (auto simp: hexVal_nibbles)
qed simp

lemma toy_vault_simps [simp]:
  "from_base64 toy_vault = unhex" "from_base64url toy_vault = unhex" "to_base64url toy_vault = toHex" "to_base64 toy_vault = toHex"
  "aes_seal toy_vault k iv p = (p, replicate 16 0)" "aes_open toy_vault k iv t c = Inr c"
  "hmac_sha256 toy_vault x m = utf8 x @ m" "buffer_from toy_vault v = None" "to_double toy_vault = id"
  by (simp_all add: toy_vault_def toy_crypto_def crypto.defs)

lemma toy_vault_documented [simp]: "vault_documented toy_vault"
  using toHex_chars by (auto simp: vault_documented_def)

definition vaultEnv :: vault_env where
  "vaultEnv = \<lparr> ve_SECRET_ENCRYPTION_KEY = toHex (replicate 32 7), ve_OAUTH_STATE_SECRET = ''state'', ve_IS_CLOUD = True \<rparr>"

lemma vaultEnv_simps [simp]: "loadKey toy_vault vaultEnv = Inr (Some (replicate 32 7))" "getSigningKey vaultEnv = Inr ''state''"
proof -
  have "unhex (toHex (replicate 32 7)) = replicate 32 (7 :: u8)" by (rule unhex_toHex)
  moreover have "toHex (replicate 32 (7 :: u8)) \<noteq> []" by (metis unhex_toHex toHex_simps(1) length_replicate list.size(3) zero_neq_numeral)
  ultimately show "loadKey toy_vault vaultEnv = Inr (Some (replicate 32 7))" unfolding loadKey_def Let_def vaultEnv_def by simp
  show "getSigningKey vaultEnv = Inr ''state''" by (simp add: getSigningKey_def vaultEnv_def)
qed

text \<open>ASCII texts stay ASCII when they are quoted.\<close>

definition ascii :: "string \<Rightarrow> bool" where
  "ascii s \<longleftrightarrow> (\<forall>c \<in> set s. (of_char c :: nat) < 128)"

lemma ascii_simps [simp]: "ascii []" "ascii (c # s) \<longleftrightarrow> (of_char c :: nat) < 128 \<and> ascii s" "ascii (s @ t) \<longleftrightarrow> ascii s \<and> ascii t"
  by (auto simp: ascii_def)

lemma ascii_hex: "n < 16 \<Longrightarrow> (of_char (hexDigit n) :: nat) < 128"
  using hexVal_not [of "hexDigit n"] by (simp add: hexVal_hexDigit)

lemma ascii_quote [simp]: "ascii s \<Longrightarrow> ascii (jsonQuote s)"
proof -
  have c: "ascii (jsonEscapeChar c)" if "(of_char c :: nat) < 128" for c
    using that by (simp add: jsonEscapeChar_def ascii_hex)
  have "ascii s \<Longrightarrow> ascii (jsonEscape s)"
  proof (induction s)
    case (Cons a s)
    then have "a \<noteq> CHR 0xED" by auto
    with Cons show ?case by (simp add: c)
  qed simp
  then show "ascii s \<Longrightarrow> ascii (jsonQuote s)" by (simp add: jsonQuote_def)
qed

lemma ascii_toHex [simp]: "ascii (toHex b)"
  using toHex_chars by (auto simp: ascii_def)

section \<open>Properties\<close>

text \<open>C34. What is encrypted is decrypted to the same text by any later call of the process, whether or not the
  key was already cached; but the empty text is written in a form that \<^verbatim>\<open>decrypt\<close> always refuses.\<close>

theorem decrypt_encrypt:
  assumes "vault_documented h" "length iv = 12" "is_utf8 p" "cacheFor h env s" "encrypt h env iv p s = (Inr c, t)"
  shows "decrypt h env c t = (if p = '''' then Inl formatError else Inr p, t)"
  by (rule decrypt_encrypt_lemma [OF assms])

theorem decrypt_encrypt_witness:
  "\<exists>c t. encrypt toy_vault vaultEnv (replicate 12 0) ''hunter2'' None = (Inr c, t) \<and>
     decrypt toy_vault vaultEnv c t = (Inr ''hunter2'', t)"
proof -
  have k: "getKey toy_vault vaultEnv None = (Inr (replicate 32 7), Some (Some (replicate 32 7)))"
    by (simp add: getKey_def bindA_def)
  then obtain c t where c: "encrypt toy_vault vaultEnv (replicate 12 0) ''hunter2'' None = (Inr c, t)"
    by (simp add: encrypt_def bindA_def)
  have "is_utf8 ''hunter2''" by (rule utf8Decode_ascii) simp
  with decrypt_encrypt [OF toy_vault_documented _ _ _ c] c show ?thesis by (simp add: cacheFor_def)
qed

text \<open>C35. The state of an OAuth flow: the payload comes back from its own token; every token that is accepted carries
  the MAC, under the server's key, of the very payload it is accepted with; and if that MAC is the one of \<open>p\<close>, the
  payload is \<open>p\<close>, or its text and that of \<open>p\<close> are two messages with the same MAC.\<close>

theorem oauth_state_sealed:
  assumes "vault_documented h" "is_json p" "parse_stable (to_double h) p" "signOAuthState h env p = Inr raw"
    and "\<And>sig. is_utf8 (render (stateDocument p (toHex sig)))" "getSigningKey env = Inr secret"
  shows "verifyOAuthState h env raw = Some p \<and>
    (\<forall>raw' d. verifyOAuthState h env raw' = Some d \<longrightarrow> is_json d \<longrightarrow>
       (\<exists>v. JSON_parse (to_double h) (utf8Decode (from_base64url h raw')) = Inr v \<and> d = jsProp v ''data'' \<and>
          sigBytes h (jsProp v ''sig'') = Inr (utf8 (toHex (hmac_sha256 h secret (utf8 (render d))))) \<and>
          (sigBytes h (jsProp v ''sig'') = Inr (utf8 (toHex (hmac_sha256 h secret (utf8 (render p))))) \<longrightarrow> d = p \<or>
             utf8 (render d) \<noteq> utf8 (render p) \<and>
             hmac_sha256 h secret (utf8 (render d)) = hmac_sha256 h secret (utf8 (render p)))))"
proof (intro conjI allI impI)
  show "verifyOAuthState h env raw = Some p" by (rule verify_sign_lemma [OF assms(1-5)])
  fix raw' d
  assume a: "verifyOAuthState h env raw' = Some d" "is_json d"
  obtain t v where t: "JSON_stringify d = Inr (Some t)"
    and v: "JSON_parse (to_double h) (utf8Decode (from_base64url h raw')) = Inr v" "d = jsProp v ''data''"
      "sigBytes h (jsProp v ''sig'') = Inr (utf8 (toHex (hmac_sha256 h secret (utf8 t))))"
    using verify_Some [OF a(1)] assms(6) by (metis sum.inject(2))
  have td: "t = render d" using t stringify_json [OF a(2)] by simp
  have "d = p \<or> utf8 (render d) \<noteq> utf8 (render p) \<and>
      hmac_sha256 h secret (utf8 (render d)) = hmac_sha256 h secret (utf8 (render p))"
    if same: "sigBytes h (jsProp v ''sig'') = Inr (utf8 (toHex (hmac_sha256 h secret (utf8 (render p)))))"
  proof -
    have "utf8 (toHex (hmac_sha256 h secret (utf8 (render d)))) = utf8 (toHex (hmac_sha256 h secret (utf8 (render p))))"
      using same v(3) td by simp
    then have "hmac_sha256 h secret (utf8 (render d)) = hmac_sha256 h secret (utf8 (render p))"
      using utf8_inj [OF _ hex_wellFormed hex_wellFormed] unhex_toHex by metis
    moreover have "utf8 (render d) = utf8 (render p) \<Longrightarrow> d = p"
    proof -
      assume "utf8 (render d) = utf8 (render p)"
      then have "render d @ [] = render p @ []" using utf8_inj [OF _ render_wellFormed render_wellFormed] by simp
      then show "d = p" using render_inj [OF a(2) assms(2), of "[]" "[]"] by simp
    qed
    ultimately show ?thesis by blast
  qed
  with v td show "\<exists>v. JSON_parse (to_double h) (utf8Decode (from_base64url h raw')) = Inr v \<and> d = jsProp v ''data'' \<and>
      sigBytes h (jsProp v ''sig'') = Inr (utf8 (toHex (hmac_sha256 h secret (utf8 (render d))))) \<and>
      (sigBytes h (jsProp v ''sig'') = Inr (utf8 (toHex (hmac_sha256 h secret (utf8 (render p))))) \<longrightarrow> d = p \<or>
         utf8 (render d) \<noteq> utf8 (render p) \<and>
         hmac_sha256 h secret (utf8 (render d)) = hmac_sha256 h secret (utf8 (render p)))" by blast
qed

definition sampleState :: js where
  "sampleState = JObj [(''projectId'', JStr ''p1''), (''provider'', JStr ''github''), (''nonce'', JStr ''n'')]"

definition otherState :: js where
  "otherState = JObj [(''projectId'', JStr ''p2''), (''provider'', JStr ''github''), (''nonce'', JStr ''n'')]"

text \<open>The token of one payload, with the other payload put in its place, is refused.\<close>

theorem oauth_state_sealed_witness:
  "\<exists>raw. signOAuthState toy_vault vaultEnv sampleState = Inr raw \<and> verifyOAuthState toy_vault vaultEnv raw = Some sampleState \<and>
     verifyOAuthState toy_vault vaultEnv (to_base64url toy_vault (utf8 (render (stateDocument otherState
       (toHex (hmac_sha256 toy_vault ''state'' (utf8 (render sampleState)))))))) \<noteq> Some otherState"
proof -
  have j: "is_json sampleState" "is_json otherState" by (simp_all add: sampleState_def otherState_def)
  have p: "parse_stable (to_double toy_vault) sampleState" "parse_stable (to_double toy_vault) otherState"
    by (simp_all add: sampleState_def otherState_def orderKeys_def isIndex_def isDigit_def)
  have u: "is_utf8 (render (stateDocument sampleState (toHex sig)))" "is_utf8 (render (stateDocument otherState (toHex sig)))" for sig
  proof -
    have "ascii (render (stateDocument sampleState (toHex sig)))" "ascii (render (stateDocument otherState (toHex sig)))"
      by (simp_all add: stateDocument_def sampleState_def otherState_def)
    then show "is_utf8 (render (stateDocument sampleState (toHex sig)))" "is_utf8 (render (stateDocument otherState (toHex sig)))"
      unfolding ascii_def by (simp_all only: utf8Decode_ascii)
  qed
  obtain raw where raw: "signOAuthState toy_vault vaultEnv sampleState = Inr raw"
    using sign_Inr [OF vaultEnv_simps(2) j(1), of toy_vault] by blast
  note sealed = oauth_state_sealed [OF toy_vault_documented j(1) p(1) raw u(1) vaultEnv_simps(2)]
  let ?mac = "hmac_sha256 toy_vault ''state'' (utf8 (render sampleState))"
  let ?forged = "to_base64url toy_vault (utf8 (render (stateDocument otherState (toHex ?mac))))"
  have ne: "sampleState \<noteq> otherState" by (simp add: sampleState_def otherState_def)
  have "verifyOAuthState toy_vault vaultEnv ?forged \<noteq> Some otherState"
  proof
    assume "verifyOAuthState toy_vault vaultEnv ?forged = Some otherState"
    then obtain v where v: "JSON_parse (to_double toy_vault) (utf8Decode (from_base64url toy_vault ?forged)) = Inr v"
      "sigBytes toy_vault (jsProp v ''sig'') = Inr (utf8 (toHex ?mac)) \<longrightarrow> otherState = sampleState \<or>
         utf8 (render otherState) \<noteq> utf8 (render sampleState) \<and>
         hmac_sha256 toy_vault ''state'' (utf8 (render otherState)) = ?mac"
      using sealed j(2) by blast
    have "v = stateDocument otherState (toHex ?mac)"
      using v(1) parse_stateDocument [OF toy_vault_documented j(2) p(2) u(2)] by simp
    then have "sigBytes toy_vault (jsProp v ''sig'') = Inr (utf8 (toHex ?mac))" by (simp add: stateDocument_def sigBytes_def)
    with v(2) ne show False by simp
  qed
  with raw sealed show ?thesis by blast
qed

end
