(* ===== verification/Secrets.thy ===== *)
theory Secrets
  imports Vault Resource_Scope
begin

text \<open>
  Secrets, \<^verbatim>\<open>packages/api/src/services/secret-service.ts\<close> and \<^verbatim>\<open>validations/secret.ts\<close>: a value that the
  gateway injects into requests to a host, either stored encrypted or resolved from 1Password at request
  time. The crypto service a deployment installs (\<^verbatim>\<open>getCrypto\<close>) is a field of the call; \<open>vaultService\<close> is the
  default one, of \<open>Vault\<close>. The table is the list of its rows.
\<close>

section \<open>Input types and schemas\<close>

text \<open>An absent field is \<open>None\<close> or, where the field is a document, \<open>JUndef\<close>.\<close>

record create_secret_input =
  si_name :: string
  si_type :: string
  si_valueSource :: "string option"
  si_value :: "string option"
  si_opRef :: "string option"
  si_opDisplay :: js
  si_hostPattern :: string
  si_pathPattern :: "string option"
  si_injectionConfig :: js

record update_secret_input =
  us_name :: "string option"
  us_valueSource :: "string option"
  us_value :: "string option"
  us_opRef :: "string option"
  us_opDisplay :: js
  us_hostPattern :: "string option"
  us_pathPattern :: "string option option"
  us_injectionConfig :: js

definition isHeaderInjection :: "js \<Rightarrow> bool" where
  "isHeaderInjection config \<longleftrightarrow> isStr (jsProp config ''headerName'')"

definition isParamInjection :: "js \<Rightarrow> bool" where
  "isParamInjection config \<longleftrightarrow> isStr (jsProp config ''paramName'')"

text \<open>A strict object: a non-empty text under \<open>n\<close>, maybe a text under \<open>f\<close>, and nothing else.\<close>

definition strictInjection :: "string \<Rightarrow> string \<Rightarrow> js \<Rightarrow> bool" where
  "strictInjection n f v \<longleftrightarrow>
     (case v of JObj kvs \<Rightarrow>
        fst ` set kvs \<subseteq> {n, f} \<and> isStr (oget kvs n) \<and> oget kvs n \<noteq> JStr '''' \<and> (oget kvs f = JUndef \<or> isStr (oget kvs f))
      | _ \<Rightarrow> False)"

definition injectionConfigSchema :: "js \<Rightarrow> bool" where
  "injectionConfigSchema v \<longleftrightarrow>
     v = JUndef \<or> v = JNull \<or> strictInjection ''headerName'' ''valueFormat'' v \<or> strictInjection ''paramName'' ''paramFormat'' v"

text \<open>\<^verbatim>\<open>v.includes(s)\<close>.\<close>

fun includesText :: "string \<Rightarrow> string \<Rightarrow> bool" where
  "includesText [] p \<longleftrightarrow> p = []"
| "includesText (c # s) p \<longleftrightarrow> startsWith (c # s) p \<or> includesText s p"

definition hostPatternSchema :: "string \<Rightarrow> bool" where
  "hostPatternSchema v \<longleftrightarrow> 1 \<le> u16length v \<and> u16length v \<le> 1000 \<and>
     \<not> includesText v ''://'' \<and> \<not> includesText v ''/'' \<and> \<not> includesText v '' ''"

definition valueSources :: "string list" where
  "valueSources = [''inline'', ''onepassword'']"

definition opRefSchema :: "string \<Rightarrow> bool" where
  "opRefSchema v \<longleftrightarrow> 1 \<le> u16length v \<and> startsWith v ''op://'' \<and>
     3 \<le> length (filter (\<lambda>p. p \<noteq> '''') (splitOn CHR ''/'' (drop 5 v)))"

definition opDisplaySchema :: "js \<Rightarrow> bool" where
  "opDisplaySchema v \<longleftrightarrow>
     v = JUndef \<or> (\<exists>kvs. v = JObj kvs) \<and> isStr (jsProp v ''vault'') \<and> isStr (jsProp v ''item'') \<and> isStr (jsProp v ''field'')"

definition secretNameSchema :: "string \<Rightarrow> bool" where
  "secretNameSchema s \<longleftrightarrow> 1 \<le> u16length (trim s) \<and> u16length (trim s) \<le> 255"

abbreviation given :: "('a \<Rightarrow> bool) \<Rightarrow> 'a option \<Rightarrow> bool" where
  "given P x \<equiv> (case x of None \<Rightarrow> True | Some v \<Rightarrow> P v)"

text \<open>What a schema returns: the name trimmed, or nothing when it refuses.\<close>

definition createSecretSchema :: "create_secret_input \<Rightarrow> create_secret_input option" where
  "createSecretSchema d =
     (if secretNameSchema (si_name d) \<and> si_type d \<in> {''anthropic'', ''openai'', ''generic''} \<and>
         given (\<lambda>v. v \<in> set valueSources) (si_valueSource d) \<and> given (\<lambda>v. u16length v \<le> 10000) (si_value d) \<and>
         given opRefSchema (si_opRef d) \<and> opDisplaySchema (si_opDisplay d) \<and> hostPatternSchema (si_hostPattern d) \<and>
         given (\<lambda>v. u16length v \<le> 1000) (si_pathPattern d) \<and> injectionConfigSchema (si_injectionConfig d) \<and>
         (if si_valueSource d = Some ''onepassword'' then set_nonempty (si_opRef d) else set_nonempty (si_value d))
      then Some (d\<lparr>si_name := trim (si_name d)\<rparr>) else None)"

text \<open>\<^verbatim>\<open>Object.keys(data).length > 0\<close>.\<close>

definition anyField :: "update_secret_input \<Rightarrow> bool" where
  "anyField d \<longleftrightarrow> us_name d \<noteq> None \<or> us_valueSource d \<noteq> None \<or> us_value d \<noteq> None \<or> us_opRef d \<noteq> None \<or>
     us_opDisplay d \<noteq> JUndef \<or> us_hostPattern d \<noteq> None \<or> us_pathPattern d \<noteq> None \<or> us_injectionConfig d \<noteq> JUndef"

definition updateSecretSchema :: "update_secret_input \<Rightarrow> update_secret_input option" where
  "updateSecretSchema d =
     (if given secretNameSchema (us_name d) \<and> given (\<lambda>v. v \<in> set valueSources) (us_valueSource d) \<and>
         given (\<lambda>v. u16length v \<le> 10000) (us_value d) \<and> given opRefSchema (us_opRef d) \<and> opDisplaySchema (us_opDisplay d) \<and>
         given hostPatternSchema (us_hostPattern d) \<and> given (given (\<lambda>v. u16length v \<le> 1000)) (us_pathPattern d) \<and>
         injectionConfigSchema (us_injectionConfig d) \<and> anyField d \<and>
         (us_valueSource d = Some ''onepassword'' \<longrightarrow> set_nonempty (us_opRef d)) \<and>
         (us_valueSource d = Some ''inline'' \<longrightarrow> set_nonempty (us_value d))
      then Some (d\<lparr>us_name := map_option trim (us_name d)\<rparr>) else None)"

section \<open>What kind of key a value is\<close>

definition detectAnthropicAuthMode :: "string \<Rightarrow> string option" where
  "detectAnthropicAuthMode value =
     (if startsWith value ''sk-ant-api'' then Some ''api-key''
      else if startsWith value ''sk-ant-oat'' then Some ''oauth'' else None)"

definition looksLikeAnthropicKey :: "string \<Rightarrow> bool" where
  "looksLikeAnthropicKey value \<longleftrightarrow> detectAnthropicAuthMode value \<noteq> None \<and> 40 \<le> u16length value"

definition looksLikeOpenaiKey :: "string \<Rightarrow> bool" where
  "looksLikeOpenaiKey value \<longleftrightarrow> startsWith value ''sk-'' \<and> \<not> startsWith value ''sk-ant-'' \<and> 40 \<le> u16length value"

definition authModes :: "string list" where
  "authModes = [''api-key'', ''oauth'']"

definition parseAuthMetadata :: "js \<Rightarrow> js option" where
  "parseAuthMetadata metadata = (if \<exists>m \<in> set authModes. jsProp metadata ''authMode'' = JStr m then Some metadata else None)"

definition parseAnthropicMetadata :: "js \<Rightarrow> js option" where
  "parseAnthropicMetadata metadata = parseAuthMetadata metadata"

definition parseOpenaiMetadata :: "js \<Rightarrow> js option" where
  "parseOpenaiMetadata metadata = parseAuthMetadata metadata"

text \<open>Reading a property of null throws, which the functions catch.\<close>

definition parseOpenaiOAuthJson :: "(jnum \<Rightarrow> jnum) \<Rightarrow> string \<Rightarrow> js option" where
  "parseOpenaiOAuthJson dbl value =
     (case JSON_parse dbl value of
        Inl e \<Rightarrow> None
      | Inr parsed \<Rightarrow>
          let tokens = jsProp parsed ''tokens''
          in if truthy tokens \<and> isStr (jsProp tokens ''access_token'') \<and> isStr (jsProp tokens ''refresh_token'')
             then Some parsed else None)"

definition parseOpenaiApiKeyJson :: "(jnum \<Rightarrow> jnum) \<Rightarrow> string \<Rightarrow> string option" where
  "parseOpenaiApiKeyJson dbl value =
     (case JSON_parse dbl value of
        Inl e \<Rightarrow> None
      | Inr parsed \<Rightarrow>
          if jsProp parsed ''auth_mode'' = JStr ''apikey''
          then (case jsProp parsed ''OPENAI_API_KEY'' of JStr k \<Rightarrow> if 0 < u16length k then Some k else None | _ \<Rightarrow> None)
          else None)"

definition parseOpenaiAuthJson :: "(jnum \<Rightarrow> jnum) \<Rightarrow> string \<Rightarrow> (string \<times> string option) option" where
  "parseOpenaiAuthJson dbl value =
     (if parseOpenaiOAuthJson dbl value \<noteq> None then Some (''oauth'', None)
      else (case parseOpenaiApiKeyJson dbl value of Some k \<Rightarrow> Some (''api-key'', Some k) | None \<Rightarrow> None))"

definition detectOpenaiAuthMode :: "(jnum \<Rightarrow> jnum) \<Rightarrow> string \<Rightarrow> string" where
  "detectOpenaiAuthMode dbl value = (if parseOpenaiOAuthJson dbl value \<noteq> None then ''oauth'' else ''api-key'')"

section \<open>Rows\<close>

record secret_row = scoped +
  sec_id :: string
  sec_name :: string
  sec_type :: string
  sec_valueSource :: string
  sec_encryptedValue :: "string option"
  sec_opRef :: "string option"
  sec_hostPattern :: string
  sec_pathPattern :: "string option"
  sec_injectionConfig :: js \<comment> \<open>\<open>JNull\<close> is null\<close>
  sec_metadata :: js
  sec_isPlatform :: bool
  sec_createdAt :: int

record crypto_service =
  cs_encrypt :: "string \<Rightarrow> string result"
  cs_decrypt :: "string \<Rightarrow> string result"

text \<open>The default service with the random bytes of one call. The module's key is read again when it is not
  cached, which gives the same key.\<close>

definition vaultService :: "vault_crypto \<Rightarrow> vault_env \<Rightarrow> bytes \<Rightarrow> crypto_service" where
  "vaultService h env iv = \<lparr> cs_encrypt = (\<lambda>p. fst (encrypt h env iv p None)), cs_decrypt = (\<lambda>c. fst (decrypt h env c None)) \<rparr>"

record secret_call =
  sx_crypto :: crypto_service
  sx_double :: "jnum \<Rightarrow> jnum"
  sx_now :: int
  sx_newId :: string

type_synonym 'a secret_act = "('a, secret_row list) act"

definition badRequest :: "string \<Rightarrow> error" where
  "badRequest m = ServiceError BAD_REQUEST m"

section \<open>Building the columns\<close>

definition normalizeOpenaiValue :: "(jnum \<Rightarrow> jnum) \<Rightarrow> string \<Rightarrow> string \<times> string" where
  "normalizeOpenaiValue dbl raw =
     (let value = (case parseOpenaiAuthJson dbl raw of
                     Some (mode, Some apiKey) \<Rightarrow> if mode = ''api-key'' \<and> apiKey \<noteq> '''' then apiKey else raw
                   | _ \<Rightarrow> raw)
      in (value, if detectOpenaiAuthMode dbl value = ''oauth'' then ''chatgpt.com'' else ''api.openai.com''))"

definition typeLabel :: "string \<Rightarrow> string" where
  "typeLabel t =
     (if t = ''anthropic'' then ''Anthropic API Key'' else if t = ''openai'' then ''OpenAI''
      else if t = ''generic'' then ''Generic Secret'' else t)"

text \<open>\<^verbatim>\<open>s.slice(-n)\<close> on the characters, as \<open>u16take\<close> is \<^verbatim>\<open>s.slice(0, n)\<close>.\<close>

fun u16last :: "nat \<Rightarrow> string \<Rightarrow> string" where
  "u16last n [] = []"
| "u16last n (c # s) = (if u16length (c # s) \<le> n \<and> 0 < u16units c then c # s else u16last n s)"

definition bullets :: "nat \<Rightarrow> string" where
  "bullets n = concat (replicate n [CHR 0xE2, CHR 0x80, CHR 0xA2])"

definition buildPreview :: "string \<Rightarrow> string" where
  "buildPreview plaintext =
     (if u16length plaintext \<le> 8 then bullets (u16length plaintext)
      else u16take 4 plaintext @ bullets 8 @ u16last 4 plaintext)"

text \<open>\<^verbatim>\<open>v?.trim() || d\<close> and \<^verbatim>\<open>v.trim()\<close> on a field that is text when it is there.\<close>

definition trimOr :: "js \<Rightarrow> string \<Rightarrow> string" where
  "trimOr v d = (case v of JStr s \<Rightarrow> if trim s = '''' then d else trim s | _ \<Rightarrow> d)"

definition trimField :: "js \<Rightarrow> string" where
  "trimField v = (case v of JStr s \<Rightarrow> trim s | _ \<Rightarrow> '''')"

definition buildInjectionConfig :: "js \<Rightarrow> js" where
  "buildInjectionConfig config =
     (if \<not> truthy config then JNull
      else if isParamInjection config
      then JObj [(''paramName'', JStr (trimField (jsProp config ''paramName''))),
                 (''paramFormat'', JStr (trimOr (jsProp config ''paramFormat'') ''{value}''))]
      else if isHeaderInjection config
      then JObj [(''headerName'', JStr (trimField (jsProp config ''headerName''))),
                 (''valueFormat'', JStr (trimOr (jsProp config ''valueFormat'') ''{value}''))]
      else JNull)"

definition buildMetadata :: "(jnum \<Rightarrow> jnum) \<Rightarrow> string \<Rightarrow> string \<Rightarrow> js" where
  "buildMetadata dbl type' value =
     (if type' = ''anthropic'' then JObj [(''authMode'', JStr (orElse (detectAnthropicAuthMode value) ''api-key''))]
      else if type' = ''openai'' then
        (let authMode = detectOpenaiAuthMode dbl value;
             parsed = (if authMode = ''oauth'' then parseOpenaiOAuthJson dbl value else None)
         in JObj ((''authMode'', JStr authMode) #
              (case parsed of None \<Rightarrow> []
               | Some v \<Rightarrow> [(''accountId'', coalesce (jsProp (jsProp v ''tokens'') ''account_id'') JNull)])))
      else JNull)"

definition buildOnePasswordMetadata :: "string \<Rightarrow> js \<Rightarrow> js" where
  "buildOnePasswordMetadata type' opDisplay =
     (let meta = (if type' = ''anthropic'' \<or> type' = ''openai'' then [(''authMode'', JStr ''api-key'')] else []) @
                 (if truthy opDisplay then [(''opDisplay'', opDisplay)] else [])
      in if meta = [] then JNull else JObj meta)"

text \<open>\<^verbatim>\<open>p?.trim() || null\<close>.\<close>

definition trimOrNull :: "string option \<Rightarrow> string option" where
  "trimOrNull p = (case p of None \<Rightarrow> None | Some v \<Rightarrow> if trim v = '''' then None else Some (trim v))"

section \<open>Operations\<close>

record secret_listed =
  sl_row :: secret_row \<comment> \<open>without the value: \<open>listSecrets\<close> clears it\<close>
  sl_typeLabel :: string

text \<open>The encrypted value is not among the columns that are selected.\<close>

definition listSecrets :: "resource_scope \<Rightarrow> secret_listed list secret_act" where
  "listSecrets scope =
     bindA (liftA (scopeWhere scope)) (\<lambda>w.
     bindA (readA (\<lambda>t. sort_key (\<lambda>r. - sec_createdAt r) (filter (selects w) t))) (\<lambda>rows.
       returnA (map (\<lambda>r. \<lparr> sl_row = r\<lparr>sec_encryptedValue := None\<rparr>, sl_typeLabel = typeLabel (sec_type r) \<rparr>) rows)))"

record secret_created =
  sv_id :: string
  sv_name :: string
  sv_type :: string
  sv_valueSource :: string
  sv_opRef :: "string option"
  sv_hostPattern :: string
  sv_pathPattern :: "string option"
  sv_createdAt :: int
  sv_preview :: "string option"

definition createdView :: "secret_row \<Rightarrow> string option \<Rightarrow> secret_created" where
  "createdView r preview =
     \<lparr> sv_id = sec_id r, sv_name = sec_name r, sv_type = sec_type r, sv_valueSource = sec_valueSource r,
       sv_opRef = sec_opRef r, sv_hostPattern = sec_hostPattern r, sv_pathPattern = sec_pathPattern r,
       sv_createdAt = sec_createdAt r, sv_preview = preview \<rparr>"

definition secretRow ::
  "secret_call \<Rightarrow> scoped \<Rightarrow> string \<Rightarrow> string \<Rightarrow> string \<Rightarrow> string option \<Rightarrow> string option \<Rightarrow> string \<Rightarrow> string option \<Rightarrow> js \<Rightarrow> js \<Rightarrow> secret_row" where
  "secretRow call owner name type' source encrypted opRef host path config metadata =
     \<lparr> so_scope = so_scope owner, so_projectId = so_projectId owner, so_organizationId = so_organizationId owner,
       so_partnerId = so_partnerId owner, sec_id = sx_newId call, sec_name = name, sec_type = type',
       sec_valueSource = source, sec_encryptedValue = encrypted, sec_opRef = opRef, sec_hostPattern = host,
       sec_pathPattern = path, sec_injectionConfig = config, sec_metadata = metadata, sec_isPlatform = False,
       sec_createdAt = sx_now call \<rparr>"

definition insertSecret :: "secret_row \<Rightarrow> unit secret_act" where
  "insertSecret r = writeA (\<lambda>t. t @ [r])"

definition onePasswordHost :: "string \<Rightarrow> string \<Rightarrow> string" where
  "onePasswordHost type' host =
     (if type' = ''anthropic'' then ''api.anthropic.com'' else if type' = ''openai'' then ''api.openai.com'' else host)"

definition createSecret :: "secret_call \<Rightarrow> resource_scope \<Rightarrow> create_secret_input \<Rightarrow> secret_created secret_act" where
  "createSecret call scope input =
     (let name = trim (si_name input); host = trim (si_hostPattern input); config = si_injectionConfig input;
          hasHeader = (isHeaderInjection config \<and> trimField (jsProp config ''headerName'') \<noteq> '''');
          hasParam = (isParamInjection config \<and> trimField (jsProp config ''paramName'') \<noteq> '''');
          path = trimOrNull (si_pathPattern input);
          injection = (if si_type input = ''generic'' then buildInjectionConfig config else JNull)
      in
      bindA (throwIf (name = '''' \<or> 255 < u16length name) (badRequest ''Name must be between 1 and 255 characters'')) (\<lambda>_.
      bindA (throwIf (host = '''') (badRequest ''Host pattern is required'')) (\<lambda>_.
      bindA (throwIf (si_type input = ''generic'' \<and> \<not> hasHeader \<and> \<not> hasParam)
               (badRequest ''Header name or parameter name is required for generic secrets'')) (\<lambda>_.
      if orElse (si_valueSource input) ''inline'' = ''onepassword'' then
        bindA (throwIf (\<not> set_nonempty (sc_projectId scope)) (badRequest ''1Password is only available for project-scoped secrets'')) (\<lambda>_.
        bindA (throwIf (\<not> set_nonempty (si_opRef input)) (badRequest ''Select a 1Password field'')) (\<lambda>_.
        bindA (liftA (scopeCreate scope)) (\<lambda>owner.
          let row = secretRow call owner name (si_type input) ''onepassword'' None (si_opRef input)
                (onePasswordHost (si_type input) host) path injection (buildOnePasswordMetadata (si_type input) (si_opDisplay input))
          in bindA (insertSecret row) (\<lambda>_. returnA (createdView row None)))))
      else
        let value = trim (orElse (si_value input) '''') in
        bindA (throwIf (value = '''') (badRequest ''Secret value is required'')) (\<lambda>_.
          let (value', host') = (if si_type input = ''openai'' then normalizeOpenaiValue (sx_double call) value else (value, host)) in
          bindA (liftA (cs_encrypt (sx_crypto call) value')) (\<lambda>encrypted.
          bindA (liftA (scopeCreate scope)) (\<lambda>owner.
            let row = secretRow call owner name (si_type input) ''inline'' (Some encrypted) None host' path injection
                  (buildMetadata (sx_double call) (si_type input) value')
            in bindA (insertSecret row) (\<lambda>_. returnA (createdView row (Some (buildPreview value'))))))))) ))"

definition findSecret :: "resource_scope \<Rightarrow> string \<Rightarrow> secret_row secret_act" where
  "findSecret scope secretId =
     bindA (liftA (scopeOwnership scope secretId)) (\<lambda>(k, w).
     bindA (readA (find (\<lambda>r. sec_id r = k \<and> selects w r))) (\<lambda>found.
       case found of None \<Rightarrow> throwA (ServiceError NOT_FOUND ''Secret not found'') | Some r \<Rightarrow> returnA r))"

definition deleteSecret :: "resource_scope \<Rightarrow> string \<Rightarrow> unit secret_act" where
  "deleteSecret scope secretId =
     bindA (findSecret scope secretId) (\<lambda>_. writeA (filter (\<lambda>r. sec_id r \<noteq> secretId)))"

text \<open>The object \<^verbatim>\<open>data\<close> of an update: a field that is \<open>None\<close> is not in it.\<close>

record secret_data =
  sd_name :: "string option"
  sd_valueSource :: "string option"
  sd_encryptedValue :: "string option option"
  sd_opRef :: "string option option"
  sd_hostPattern :: "string option"
  sd_pathPattern :: "string option option"
  sd_injectionConfig :: "js option"
  sd_metadata :: "js option"
  sd_isPlatform :: "bool option"

definition noData :: secret_data where
  "noData = \<lparr> sd_name = None, sd_valueSource = None, sd_encryptedValue = None, sd_opRef = None, sd_hostPattern = None,
     sd_pathPattern = None, sd_injectionConfig = None, sd_metadata = None, sd_isPlatform = None \<rparr>"

definition applyData :: "secret_data \<Rightarrow> secret_row \<Rightarrow> secret_row" where
  "applyData d r =
     r\<lparr> sec_name := orElse (sd_name d) (sec_name r), sec_valueSource := orElse (sd_valueSource d) (sec_valueSource r),
        sec_encryptedValue := orElse (sd_encryptedValue d) (sec_encryptedValue r), sec_opRef := orElse (sd_opRef d) (sec_opRef r),
        sec_hostPattern := orElse (sd_hostPattern d) (sec_hostPattern r), sec_pathPattern := orElse (sd_pathPattern d) (sec_pathPattern r),
        sec_injectionConfig := orElse (sd_injectionConfig d) (sec_injectionConfig r),
        sec_metadata := orElse (sd_metadata d) (sec_metadata r), sec_isPlatform := orElse (sd_isPlatform d) (sec_isPlatform r) \<rparr>"

text \<open>A platform secret takes a new value and nothing else.\<close>

definition platformGuard :: "secret_row \<Rightarrow> update_secret_input \<Rightarrow> unit result" where
  "platformGuard secret input =
     (if \<not> sec_isPlatform secret then Inr ()
      else if us_name input \<noteq> None \<or> us_hostPattern input \<noteq> None \<or> us_pathPattern input \<noteq> None \<or> us_injectionConfig input \<noteq> JUndef
      then Inl (ServiceError FORBIDDEN ''Only the value can be updated on platform secrets'')
      else if us_value input = None \<and> us_opRef input = None then Inl (badRequest ''Value is required'')
      else Inr ())"

definition nameData :: "update_secret_input \<Rightarrow> secret_data result" where
  "nameData input =
     (case us_name input of
        None \<Rightarrow> Inr noData
      | Some n \<Rightarrow> if trim n = '''' then Inl (badRequest ''Name is required'') else Inr (noData\<lparr>sd_name := Some (trim n)\<rparr>))"

definition valueData :: "secret_call \<Rightarrow> resource_scope \<Rightarrow> secret_row \<Rightarrow> update_secret_input \<Rightarrow> secret_data \<Rightarrow> secret_data result" where
  "valueData call scope secret input d =
     (if us_valueSource input = Some ''onepassword'' then
        (if \<not> set_nonempty (sc_projectId scope) then Inl (badRequest ''1Password is only available for project-scoped secrets'')
         else if \<not> set_nonempty (us_opRef input) then Inl (badRequest ''Select a 1Password field'')
         else Inr (d\<lparr> sd_valueSource := Some ''onepassword'', sd_encryptedValue := Some None, sd_opRef := Some (us_opRef input),
                sd_hostPattern := (if sec_type secret = ''anthropic'' then Some ''api.anthropic.com''
                  else if sec_type secret = ''openai'' then Some ''api.openai.com'' else sd_hostPattern d),
                sd_metadata := Some (buildOnePasswordMetadata (sec_type secret) (us_opDisplay input)),
                sd_isPlatform := (if sec_isPlatform secret then Some False else sd_isPlatform d) \<rparr>))
      else case us_value input of
        None \<Rightarrow> Inr d
      | Some v \<Rightarrow>
          let value = trim v in
          if value = '''' then Inl (badRequest ''Secret value is required'')
          else
            let (value', d') = (if sec_type secret = ''openai''
                  then (case normalizeOpenaiValue (sx_double call) value of (x, h) \<Rightarrow> (x, d\<lparr>sd_hostPattern := Some h\<rparr>))
                  else (value, d))
            in bindR (cs_encrypt (sx_crypto call) value') (\<lambda>encrypted.
                 Inr (d'\<lparr> sd_valueSource := Some ''inline'', sd_encryptedValue := Some (Some encrypted), sd_opRef := Some None,
                   sd_isPlatform := (if sec_isPlatform secret then Some False else sd_isPlatform d'),
                   sd_metadata := (if sec_type secret = ''anthropic'' \<or> sec_type secret = ''openai''
                     then Some (buildMetadata (sx_double call) (sec_type secret) value') else sd_metadata d') \<rparr>)))"

definition restData :: "secret_row \<Rightarrow> update_secret_input \<Rightarrow> secret_data \<Rightarrow> secret_data result" where
  "restData secret input d =
     bindR (case us_hostPattern input of
              None \<Rightarrow> Inr d
            | Some h \<Rightarrow> if trim h = '''' then Inl (badRequest ''Host pattern is required'') else Inr (d\<lparr>sd_hostPattern := Some (trim h)\<rparr>))
       (\<lambda>d. let d = (case us_pathPattern input of None \<Rightarrow> d | Some p \<Rightarrow> d\<lparr>sd_pathPattern := Some (trimOrNull p)\<rparr>);
                d = (if us_injectionConfig input \<noteq> JUndef \<and> sec_type secret = ''generic''
                     then d\<lparr>sd_injectionConfig := Some (buildInjectionConfig (us_injectionConfig input))\<rparr> else d)
            in if d = noData then Inl (badRequest ''No fields to update'') else Inr d)"

definition updateSecret :: "secret_call \<Rightarrow> resource_scope \<Rightarrow> string \<Rightarrow> update_secret_input \<Rightarrow> unit secret_act" where
  "updateSecret call scope secretId input =
     bindA (findSecret scope secretId) (\<lambda>secret.
     bindA (liftA (bindR (platformGuard secret input) (\<lambda>_.
              bindR (nameData input) (\<lambda>d. bindR (valueData call scope secret input d) (restData secret input))))) (\<lambda>d.
       writeA (map (\<lambda>r. if sec_id r = secretId then applyData d r else r))))"

end
