(* ===== verification/Connections.thy ===== *)
theory Connections
  imports Blocklist Secrets
begin

text \<open>
  App connections, \<^verbatim>\<open>packages/api/src/services/connection-service.ts\<close>, the configuration of an app with a
  customer's own OAuth client, \<^verbatim>\<open>app-config-service.ts\<close>, and the choice between that and the platform's
  client, \<^verbatim>\<open>apps/resolve-credentials.ts\<close>. The tables are lists of rows; the policy rules are those of
  \<open>Policy_Rules\<close>.
\<close>

section \<open>Rows and calls\<close>

record connection_row = scoped +
  cx_id :: string
  cx_provider :: string
  cx_label :: "string option"
  cx_status :: string
  cx_credentials :: "string option"
  cx_scopes :: "string list"
  cx_metadata :: "js option"
  cx_connectedAt :: int

record config_row = scoped +
  cf_id :: string
  cf_provider :: string
  cf_enabled :: bool
  cf_credentials :: "string option"
  cf_settings :: "js option"

record app_state =
  ap_connections :: "connection_row list"
  ap_configs :: "config_row list"
  ap_rules :: rule_store
  ap_projects :: "(string \<times> string) list" \<comment> \<open>id and organisation\<close>

text \<open>\<open>px_lower\<close> is \<^verbatim>\<open>toLowerCase\<close>; the two hooks are those a deployment may install.\<close>

record app_call =
  px_crypto :: crypto_service
  px_double :: "jnum \<Rightarrow> jnum"
  px_now :: int
  px_newId :: "nat \<Rightarrow> string"
  px_lower :: "string \<Rightarrow> string"
  px_env :: env
  px_beforeConnect :: "string \<Rightarrow> unit result"
  px_beforeCreate :: "string \<Rightarrow> unit result"
  px_rules :: rule_call

type_synonym 'a app_act = "('a, app_state) act"

text \<open>\<^verbatim>\<open>encrypt(JSON.stringify(v))\<close>; there is nothing to encrypt in a value without a text.\<close>

definition encryptJson :: "app_call \<Rightarrow> js \<Rightarrow> string result" where
  "encryptJson call v =
     bindR (JSON_stringify v) (\<lambda>t. case t of
         None \<Rightarrow> Inl (JsError ''The data argument must be of type string'')
       | Some s \<Rightarrow> cs_encrypt (px_crypto call) s)"

section \<open>Connections\<close>

text \<open>The first of the three that is a non-empty text.\<close>

definition extractLabel :: "js \<Rightarrow> string option" where
  "extractLabel metadata =
     (let text' = (\<lambda>v. case v of JStr s \<Rightarrow> if s = '''' then None else Some s | _ \<Rightarrow> None)
      in case text' (jsProp metadata ''email'') of Some s \<Rightarrow> Some s
         | None \<Rightarrow> (case text' (jsProp metadata ''username'') of Some s \<Rightarrow> Some s
         | None \<Rightarrow> text' (jsProp metadata ''name'')))"

text \<open>\<open>JUndef\<close> is an option that is not given.\<close>

record connection_options =
  co_scopes :: "string list option"
  co_metadata :: js
  co_label :: "string option"

text \<open>The credentials are not among the columns that are selected.\<close>

definition shown :: "connection_row \<Rightarrow> connection_row" where
  "shown r = r\<lparr>cx_credentials := None\<rparr>"

definition listConnections :: "resource_scope \<Rightarrow> connection_row list app_act" where
  "listConnections scope =
     bindA (liftA (scopeWhere scope)) (\<lambda>w.
       readA (\<lambda>st. map shown (sort_key (\<lambda>r. - cx_connectedAt r) (filter (selects w) (ap_connections st)))))"

definition listConnectionsByProvider :: "resource_scope \<Rightarrow> string \<Rightarrow> connection_row list app_act" where
  "listConnectionsByProvider scope provider =
     bindA (liftA (scopeWhere scope)) (\<lambda>w.
       readA (\<lambda>st. map shown (sort_key (\<lambda>r. - cx_connectedAt r)
         (filter (\<lambda>r. selects w r \<and> cx_provider r = provider) (ap_connections st)))))"

text \<open>\<^verbatim>\<open>a || b\<close> on texts.\<close>

definition textOr :: "string option \<Rightarrow> string option \<Rightarrow> string option" where
  "textOr a b = (if set_nonempty a then a else b)"

definition metadataColumn :: "js \<Rightarrow> js option" where
  "metadataColumn v = (if nullish v then None else Some v)"

definition createConnection :: "app_call \<Rightarrow> resource_scope \<Rightarrow> string \<Rightarrow> js \<Rightarrow> connection_options \<Rightarrow> connection_row app_act" where
  "createConnection call scope provider credentials opts =
     bindA (liftA (encryptJson call credentials)) (\<lambda>encrypted.
     bindA (liftA (scopeCreate scope)) (\<lambda>owner.
       let row = \<lparr> so_scope = so_scope owner, so_projectId = so_projectId owner, so_organizationId = so_organizationId owner,
             so_partnerId = so_partnerId owner, cx_id = px_newId call 0, cx_provider = provider,
             cx_label = textOr (co_label opts) (extractLabel (co_metadata opts)), cx_status = ''connected'',
             cx_credentials = Some encrypted, cx_scopes = orElse (co_scopes opts) [],
             cx_metadata = metadataColumn (co_metadata opts), cx_connectedAt = px_now call \<rparr>
       in bindA (writeA (\<lambda>st. st\<lparr>ap_connections := ap_connections st @ [row]\<rparr>)) (\<lambda>_. returnA row)))"

definition connectionNotFound :: error where
  "connectionNotFound = ServiceError NOT_FOUND ''Connection not found''"

definition findConnection :: "resource_scope \<Rightarrow> string \<Rightarrow> connection_row app_act" where
  "findConnection scope connectionId =
     bindA (liftA (scopeOwnership scope connectionId)) (\<lambda>(k, w).
     bindA (readA (\<lambda>st. find (\<lambda>r. cx_id r = k \<and> selects w r) (ap_connections st))) (\<lambda>found.
       case found of None \<Rightarrow> throwA connectionNotFound | Some r \<Rightarrow> returnA r))"

definition updateConnection :: "string \<Rightarrow> (connection_row \<Rightarrow> connection_row) \<Rightarrow> unit app_act" where
  "updateConnection k f =
     writeA (\<lambda>st. st\<lparr>ap_connections := map (\<lambda>r. if cx_id r = k then f r else r) (ap_connections st)\<rparr>)"

text \<open>The connection keeps its provider, whatever the credentials are for.\<close>

definition reconnected :: "string option \<Rightarrow> connection_options \<Rightarrow> string \<Rightarrow> connection_row \<Rightarrow> connection_row" where
  "reconnected label opts encrypted r =
     r\<lparr> cx_status := ''connected'',
        cx_label := textOr (co_label opts) (case extractLabel (co_metadata opts) of Some l \<Rightarrow> Some l | None \<Rightarrow> label),
        cx_credentials := Some encrypted, cx_scopes := orElse (co_scopes opts) (cx_scopes r),
        cx_metadata := (case metadataColumn (co_metadata opts) of None \<Rightarrow> cx_metadata r | Some m \<Rightarrow> Some m) \<rparr>"

definition reconnectConnection :: "app_call \<Rightarrow> resource_scope \<Rightarrow> string \<Rightarrow> js \<Rightarrow> connection_options \<Rightarrow> unit app_act" where
  "reconnectConnection call scope connectionId credentials opts =
     bindA (findConnection scope connectionId) (\<lambda>existing.
     bindA (liftA (encryptJson call credentials)) (\<lambda>encrypted.
       updateConnection (cx_id existing) (reconnected (cx_label existing) opts encrypted)))"

definition updateConnectionLabel :: "resource_scope \<Rightarrow> string \<Rightarrow> string \<Rightarrow> unit app_act" where
  "updateConnectionLabel scope connectionId label =
     bindA (findConnection scope connectionId) (\<lambda>existing.
       updateConnection (cx_id existing) (\<lambda>r. r\<lparr>cx_label := Some label\<rparr>))"

definition deleteConnection :: "resource_scope \<Rightarrow> string \<Rightarrow> unit app_act" where
  "deleteConnection scope connectionId =
     bindA (findConnection scope connectionId) (\<lambda>connection.
       writeA (\<lambda>st. st\<lparr>ap_connections := filter (\<lambda>r. cx_id r \<noteq> cx_id connection) (ap_connections st)\<rparr>))"

section \<open>App configurations\<close>

fun keyed :: "config_key \<Rightarrow> config_row \<Rightarrow> bool" where
  "keyed (Organization_provider o' p) r \<longleftrightarrow> so_organizationId r = Some o' \<and> cf_provider r = p"
| "keyed (Project_provider q p) r \<longleftrightarrow> so_projectId r = Some q \<and> cf_provider r = p"

definition findConfig :: "resource_scope \<Rightarrow> string \<Rightarrow> config_row option app_act" where
  "findConfig scope provider =
     bindA (liftA (appConfigKey scope provider)) (\<lambda>k. readA (\<lambda>st. find (keyed k) (ap_configs st)))"

definition disconnectIfConnected :: "resource_scope \<Rightarrow> string \<Rightarrow> unit app_act" where
  "disconnectIfConnected scope provider =
     bindA (liftA (scopeWhere scope)) (\<lambda>w.
       writeA (\<lambda>st. st\<lparr>ap_connections := filter (\<lambda>r. \<not> (selects w r \<and> cx_provider r = provider)) (ap_connections st)\<rparr>))"

record config_view =
  cw_settings :: js
  cw_hasCredentials :: bool
  cw_enabled :: bool

definition settingsOf :: "config_row \<Rightarrow> js" where
  "settingsOf r = (case cf_settings r of None \<Rightarrow> JObj [] | Some v \<Rightarrow> if nullish v then JObj [] else v)"

definition getAppConfig :: "resource_scope \<Rightarrow> string \<Rightarrow> config_view option app_act" where
  "getAppConfig scope provider =
     bindA (findConfig scope provider) (\<lambda>config.
       returnA (map_option (\<lambda>r. \<lparr> cw_settings = settingsOf r, cw_hasCredentials = set_nonempty (cf_credentials r),
         cw_enabled = cf_enabled r \<rparr>) config))"

text \<open>The properties \<^verbatim>\<open>{ ...v }\<close> copies; the documents stored here are objects, and a number or null has none.\<close>

definition spreadOf :: "js \<Rightarrow> obj" where
  "spreadOf v = (case v of JObj kvs \<Rightarrow> kvs | _ \<Rightarrow> [])"

text \<open>Credentials that cannot be decrypted or parsed count as none.\<close>

definition getAppConfigCredentials :: "app_call \<Rightarrow> resource_scope \<Rightarrow> string \<Rightarrow> js option app_act" where
  "getAppConfigCredentials call scope provider =
     bindA (findConfig scope provider) (\<lambda>config.
       case config of
         None \<Rightarrow> returnA None
       | Some r \<Rightarrow>
           if \<not> cf_enabled r then returnA None
           else if \<not> set_nonempty (cf_credentials r) then returnA (Some (settingsOf r))
           else case bindR (cs_decrypt (px_crypto call) (the (cf_credentials r))) (JSON_parse (px_double call)) of
                  Inl e \<Rightarrow> returnA (Some (settingsOf r))
                | Inr decrypted \<Rightarrow> returnA (Some (JObj (ospread (ospread [] (spreadOf (settingsOf r))) (spreadOf decrypted)))))"

record config_field =
  of_name :: string
  of_secret :: bool

text \<open>The fields of one kind that have a value, as the loop over the definitions collects them.\<close>

definition collect :: "bool \<Rightarrow> (string \<Rightarrow> string option) \<Rightarrow> config_field list \<Rightarrow> obj" where
  "collect secret values defs =
     fold (\<lambda>f acc. if of_secret f = secret \<and> set_nonempty (values (of_name f))
                   then oset (of_name f) (JStr (the (values (of_name f)))) acc else acc) defs []"

definition configRow :: "app_call \<Rightarrow> scoped \<Rightarrow> string \<Rightarrow> js \<Rightarrow> string option \<Rightarrow> config_row" where
  "configRow call owner provider settings credentials =
     \<lparr> so_scope = so_scope owner, so_projectId = so_projectId owner, so_organizationId = so_organizationId owner,
       so_partnerId = so_partnerId owner, cf_id = px_newId call 1, cf_provider = provider, cf_enabled = True,
       cf_credentials = credentials, cf_settings = Some settings \<rparr>"

text \<open>\<^verbatim>\<open>upsert\<close>: the row to create is made before the table is read; \<open>None\<close> leaves the credentials of an
  existing row as they are.\<close>

definition upsertConfig :: "app_call \<Rightarrow> resource_scope \<Rightarrow> string \<Rightarrow> js \<Rightarrow> string option \<Rightarrow> unit app_act" where
  "upsertConfig call scope provider settings credentials =
     bindA (liftA (appConfigKey scope provider)) (\<lambda>k.
     bindA (liftA (scopeCreate scope)) (\<lambda>owner.
       writeA (\<lambda>st.
         if list_ex (keyed k) (ap_configs st)
         then st\<lparr>ap_configs := map (\<lambda>r. if keyed k r
                then r\<lparr> cf_enabled := True, cf_settings := Some settings,
                        cf_credentials := (case credentials of None \<Rightarrow> cf_credentials r | Some c \<Rightarrow> Some c) \<rparr> else r) (ap_configs st)\<rparr>
         else st\<lparr>ap_configs := ap_configs st @ [configRow call owner provider settings credentials]\<rparr>)))"

definition upsertAppConfig :: "app_call \<Rightarrow> resource_scope \<Rightarrow> string \<Rightarrow> (string \<Rightarrow> string option) \<Rightarrow> config_field list \<Rightarrow> unit app_act" where
  "upsertAppConfig call scope provider values defs =
     (let secretFields = collect True values defs; plainFields = collect False values defs in
      bindA (if secretFields \<noteq> []
             then bindA (liftA (encryptJson call (JObj secretFields))) (\<lambda>c. returnA (Some c))
             else bindA (findConfig scope provider) (\<lambda>existing.
                    returnA (case existing of None \<Rightarrow> None | Some r \<Rightarrow> if set_nonempty (cf_credentials r) then cf_credentials r else None)))
        (\<lambda>encrypted.
      bindA (disconnectIfConnected scope provider) (\<lambda>_.
        upsertConfig call scope provider (JObj plainFields) encrypted)))"

definition saveAppConfigWithoutDisconnect :: "app_call \<Rightarrow> resource_scope \<Rightarrow> string \<Rightarrow> js \<Rightarrow> js \<Rightarrow> unit app_act" where
  "saveAppConfigWithoutDisconnect call scope provider clientId clientSecret =
     bindA (liftA (encryptJson call (JObj [(''clientSecret'', clientSecret)]))) (\<lambda>encrypted.
       upsertConfig call scope provider (JObj [(''clientId'', clientId)]) (Some encrypted))"

definition configNotFound :: error where
  "configNotFound = ServiceError NOT_FOUND ''App config not found''"

definition deleteAppConfig :: "resource_scope \<Rightarrow> string \<Rightarrow> unit app_act" where
  "deleteAppConfig scope provider =
     bindA (findConfig scope provider) (\<lambda>config.
     bindA (throwIf (config = None) configNotFound) (\<lambda>_.
     bindA (liftA (appConfigKey scope provider)) (\<lambda>k.
     bindA (writeA (\<lambda>st. st\<lparr>ap_configs := filter (\<lambda>r. \<not> keyed k r) (ap_configs st)\<rparr>)) (\<lambda>_.
       disconnectIfConnected scope provider))))"

definition hasAppConfig :: "resource_scope \<Rightarrow> string \<Rightarrow> bool app_act" where
  "hasAppConfig scope provider =
     bindA (findConfig scope provider) (\<lambda>config. returnA (case config of None \<Rightarrow> False | Some r \<Rightarrow> cf_enabled r))"

definition listConfiguredProviders :: "resource_scope \<Rightarrow> string list app_act" where
  "listConfiguredProviders scope =
     bindA (liftA (scopeWhere scope)) (\<lambda>w.
       readA (\<lambda>st. map cf_provider (filter (\<lambda>r. selects w r \<and> cf_enabled r) (ap_configs st))))"

definition toggleAppConfigEnabled :: "resource_scope \<Rightarrow> string \<Rightarrow> bool \<Rightarrow> unit app_act" where
  "toggleAppConfigEnabled scope provider enabled =
     bindA (findConfig scope provider) (\<lambda>config.
     bindA (throwIf (config = None) configNotFound) (\<lambda>_.
     bindA (disconnectIfConnected scope provider) (\<lambda>_.
     bindA (liftA (appConfigKey scope provider)) (\<lambda>k.
       writeA (\<lambda>st. st\<lparr>ap_configs := map (\<lambda>r. if keyed k r then r\<lparr>cf_enabled := enabled\<rparr> else r) (ap_configs st)\<rparr>)))))"

section \<open>The client an app uses\<close>

record exchange_result =
  xr_credentials :: js
  xr_scopes :: "string list"
  xr_metadata :: js

record field_def =
  fd_name :: string
  fd_label :: string
  fd_optional :: bool
  fd_group :: "string option"

text \<open>The requests to a provider are functions of the definition of its app.\<close>

datatype connection_method =
    Oauth "string option" "obj \<Rightarrow> obj \<Rightarrow> string \<Rightarrow> exchange_result result" \<comment> \<open>fragment parameter; \<^verbatim>\<open>exchangeCode\<close>\<close>
  | Api_key "field_def list" "(js \<Rightarrow> js result) option" \<comment> \<open>\<^verbatim>\<open>resolveMetadata\<close>\<close>
  | Credentials_import "field_def list" "js \<Rightarrow> exchange_result result" \<comment> \<open>\<^verbatim>\<open>exchangeCredentials\<close>\<close>
  | Cloud_only

record app_def =
  ad_id :: string
  ad_name :: string
  ad_available :: bool
  ad_method :: connection_method
  ad_configurable :: "(config_field list \<times> (string \<times> string) list) option"
  ad_blocklist :: "blocklist_host list"

fun envValues :: "env \<Rightarrow> (string \<times> string) list \<Rightarrow> string list \<Rightarrow> obj option" where
  "envValues e defaults [] = Some []"
| "envValues e defaults (f # fs) =
     (case map_of defaults f of
        None \<Rightarrow> None
      | Some v \<Rightarrow>
          if v = '''' \<or> \<not> set_nonempty (e v) then None
          else map_option (\<lambda>values. (f, JStr (the (e v))) # values) (envValues e defaults fs))"

definition resolveAppCredentials :: "app_call \<Rightarrow> string \<Rightarrow> app_def \<Rightarrow> obj option app_act" where
  "resolveAppCredentials call projectId app =
     (case ad_configurable app of
        None \<Rightarrow> returnA None
      | Some (defs, envDefaults) \<Rightarrow>
          let required = map of_name defs in
          bindA (getAppConfigCredentials call (project_scope projectId) (ad_id app)) (\<lambda>config.
            case config of
              None \<Rightarrow> returnA (envValues (px_env call) envDefaults required)
            | Some v \<Rightarrow>
                if list_all (\<lambda>f. truthy (jsProp v f)) required
                then returnA (Some (map (\<lambda>f. (f, jsProp v f)) required))
                else returnA (envValues (px_env call) envDefaults required)))"

end
