(* ===== verification/App_Routes.thy ===== *)
theory App_Routes
  imports Connections Authentication
begin

text \<open>
  The routes that connect an app, \<^verbatim>\<open>packages/api/src/routes/apps.ts\<close>: the start and the callback of an OAuth flow,
  a connection with typed-in credentials, disconnecting and renaming, an app's configuration and its blocklist.
  A route returns its reply; an error it throws is turned into a reply by the server. The registry of apps is
  the parameter \<open>apps\<close>. The handlers a cloud deployment installs for organisations return nothing in this
  repository and are left out, as are audit rows and the flush of the gateway's cache.
\<close>

section \<open>Requests and replies\<close>

record callback_request =
  cb_params :: "(string \<times> string) list"
  cb_cookie :: "string option"
  cb_origin :: string

datatype callback_reply = Fragment_page | Redirect_error string | Redirect_success "string option"

text \<open>A status and the message of an error, empty on success.\<close>

datatype route_reply = Reply nat string

definition quoted :: "string \<Rightarrow> string" where
  "quoted s = CHR 0x22 # s @ [CHR 0x22]"

type_synonym registry = "string \<Rightarrow> app_def option"

definition idText :: "js \<Rightarrow> string result" where
  "idText v = (case v of JStr s \<Rightarrow> Inr s | _ \<Rightarrow> Inl (JsError ''Invalid value provided''))"

definition liftRules :: "(rule_store \<Rightarrow> rule_store result) \<Rightarrow> unit app_act" where
  "liftRules f st = (case f (ap_rules st) of Inl e \<Rightarrow> (Inl e, st) | Inr r \<Rightarrow> (Inr (), st\<lparr>ap_rules := r\<rparr>))"

text \<open>The hosts an app blocks by default.\<close>

definition initDefaults :: "app_call \<Rightarrow> resource_scope \<Rightarrow> string \<Rightarrow> app_def \<Rightarrow> unit app_act" where
  "initDefaults call scope provider app =
     (if ad_blocklist app = [] then returnA ()
      else liftRules (\<lambda>rs. initBlocklistDefaults (px_rules call) rs scope provider (ad_blocklist app)))"

text \<open>\<^verbatim>\<open>conn.label?.toLowerCase().trim() === identity\<close>.\<close>

definition labelled :: "app_call \<Rightarrow> string \<Rightarrow> connection_row \<Rightarrow> bool" where
  "labelled call identity r \<longleftrightarrow> (case cx_label r of None \<Rightarrow> False | Some l \<Rightarrow> trim (px_lower call l) = identity)"

section \<open>An OAuth flow\<close>

text \<open>The signed payload of a flow: \<open>nonce\<close> are 16 random bytes in hex.\<close>

definition flowState :: "string \<Rightarrow> string \<Rightarrow> string \<Rightarrow> string option \<Rightarrow> string option \<Rightarrow> js" where
  "flowState projectId provider nonce connectionId agentName =
     JObj ([(''projectId'', JStr projectId), (''provider'', JStr provider), (''nonce'', JStr nonce)] @
       (if set_nonempty connectionId then [(''connectionId'', JStr (the connectionId))] else []) @
       (if set_nonempty agentName then [(''agentName'', JStr (the agentName))] else []))"

text \<open>What the authorize route returns on success: the client to use and the state, which goes into the URL of the
  provider and the cookie.\<close>

datatype authorize_reply = Refused nat string | Start obj string

definition authorizeRoute ::
  "vault_crypto \<Rightarrow> vault_env \<Rightarrow> registry \<Rightarrow> app_call \<Rightarrow> auth_context \<Rightarrow> string \<Rightarrow> string \<Rightarrow> string option \<Rightarrow> string option \<Rightarrow> authorize_reply app_act" where
  "authorizeRoute h ve apps call auth nonce provider connectionId rawAgentName =
     bindA (liftA (requireProjectId auth)) (\<lambda>projectId.
       case apps provider of
         None \<Rightarrow> returnA (Refused 400 (''Provider '' @ quoted provider @ '' is not available''))
       | Some app \<Rightarrow>
           (case ad_method app of
              Oauth frag exchange \<Rightarrow>
                if \<not> ad_available app then returnA (Refused 400 (''Provider '' @ quoted provider @ '' is not available''))
                else
                  let agentName = (if set_nonempty rawAgentName then map_option (u16take 128) rawAgentName else None) in
                  bindA (liftA (signOAuthState h ve (flowState projectId provider nonce connectionId agentName))) (\<lambda>state.
                  bindA (resolveAppCredentials call projectId app) (\<lambda>resolved.
                    case resolved of
                      None \<Rightarrow> returnA (Refused 400 (ad_name app @ '' is not configured. Missing required credentials.''))
                    | Some creds \<Rightarrow> returnA (Start creds state)))
            | _ \<Rightarrow> returnA (Refused 400 (''Provider '' @ quoted provider @ '' is not available''))))"

text \<open>A connection made in the last half minute: the second callback of a provider that sends two.\<close>

definition justCreated :: "app_call \<Rightarrow> connection_row list \<Rightarrow> bool" where
  "justCreated call existing \<longleftrightarrow> list_ex (\<lambda>r. cx_status r = ''connected'' \<and> px_now call - 30000 \<le> cx_connectedAt r) existing"

definition successReply :: "js \<Rightarrow> callback_reply" where
  "successReply state = Redirect_success (case jsProp state ''agentName'' of JStr s \<Rightarrow> if s = '''' then None else Some s | _ \<Rightarrow> None)"

text \<open>The connection a callback renews: the one of the state, else one with the same label.\<close>

definition reconnectTarget :: "app_call \<Rightarrow> resource_scope \<Rightarrow> string \<Rightarrow> js \<Rightarrow> js \<Rightarrow> js app_act" where
  "reconnectTarget call scope provider state metadata =
     (if truthy (jsProp state ''connectionId'') then returnA (jsProp state ''connectionId'')
      else case extractLabel metadata of
        None \<Rightarrow> returnA JUndef
      | Some l \<Rightarrow>
          let identity = trim (px_lower call l) in
          if identity = '''' then returnA JUndef
          else bindA (listConnectionsByProvider scope provider) (\<lambda>existing.
            returnA (case find (labelled call identity) existing of None \<Rightarrow> JUndef | Some r \<Rightarrow> JStr (cx_id r))))"

text \<open>What is done once the provider has given credentials.\<close>

definition storeConnection :: "app_call \<Rightarrow> string \<Rightarrow> string \<Rightarrow> string \<Rightarrow> app_def \<Rightarrow> js \<Rightarrow> exchange_result \<Rightarrow> unit app_act" where
  "storeConnection call projectId org provider app state result =
     (let scope = project_scope projectId;
          opts = \<lparr> co_scopes = Some (xr_scopes result), co_metadata = xr_metadata result, co_label = None \<rparr> in
      bindA (reconnectTarget call scope provider state (xr_metadata result)) (\<lambda>reconnectId.
      bindA (liftA (px_beforeConnect call org)) (\<lambda>_.
      bindA (if truthy reconnectId
             then bindA (liftA (idText reconnectId)) (\<lambda>k. reconnectConnection call scope k (xr_credentials result) opts)
             else bindA (liftA (px_beforeCreate call org)) (\<lambda>_.
                  bindA (createConnection call scope provider (xr_credentials result) opts) (\<lambda>_. returnA ())))
        (\<lambda>_. initDefaults call scope provider app))))"

definition queryParam :: "callback_request \<Rightarrow> string \<Rightarrow> string option" where
  "queryParam rq k = map_of (cb_params rq) k"

text \<open>\<^verbatim>\<open>Object.fromEntries(url.searchParams.entries())\<close>: the last of a name wins.\<close>

definition callbackParams :: "callback_request \<Rightarrow> obj" where
  "callbackParams rq = fold (\<lambda>(k, v). oset k (JStr v)) (cb_params rq) []"

text \<open>With a state that verifies, for the project it names.\<close>

definition callbackFor :: "app_call \<Rightarrow> callback_request \<Rightarrow> string \<Rightarrow> app_def \<Rightarrow>
    (obj \<Rightarrow> obj \<Rightarrow> string \<Rightarrow> exchange_result result) \<Rightarrow> js \<Rightarrow> string \<Rightarrow> string \<Rightarrow> callback_reply app_act" where
  "callbackFor call rq provider app exchange state projectId org =
     bindA (if set_nonempty (queryParam rq ''error'')
            then bindA (listConnectionsByProvider (project_scope projectId) provider) (\<lambda>existing. returnA (justCreated call existing))
            else returnA False) (\<lambda>done'.
     if done' then returnA (successReply state)
     else
       bindA (resolveAppCredentials call projectId app) (\<lambda>resolved.
         case resolved of
           None \<Rightarrow> returnA (Redirect_error (ad_name app @ '' is not configured''))
         | Some creds \<Rightarrow>
             bindA (liftA (exchange creds (callbackParams rq) (cb_origin rq @ ''/v1/apps/'' @ provider @ ''/callback''))) (\<lambda>result.
             bindA (storeConnection call projectId org provider app state result) (\<lambda>_.
               returnA (successReply state)))))"

definition callbackBody ::
  "vault_crypto \<Rightarrow> vault_env \<Rightarrow> registry \<Rightarrow> app_call \<Rightarrow> callback_request \<Rightarrow> string \<Rightarrow> callback_reply app_act" where
  "callbackBody h ve apps call rq provider =
     (case apps provider of
        None \<Rightarrow> returnA (Redirect_error ''Invalid provider'')
      | Some app \<Rightarrow>
          (case ad_method app of
             Oauth frag exchange \<Rightarrow>
               let stateParam = (case queryParam rq ''state'' of Some s \<Rightarrow> Some s | None \<Rightarrow> cb_cookie rq) in
               if \<not> set_nonempty stateParam then returnA (Redirect_error ''Missing state parameter'')
               else
                 (case verifyOAuthState h ve (the stateParam) of
                    None \<Rightarrow> returnA (Redirect_error ''Invalid state parameter'')
                  | Some state \<Rightarrow>
                      if \<not> truthy state \<or> jsProp state ''provider'' \<noteq> JStr provider
                      then returnA (Redirect_error ''Invalid state parameter'')
                      else if \<not> truthy (jsProp state ''projectId'') then returnA (Redirect_error ''Missing project in state'')
                      else
                        bindA (liftA (idText (jsProp state ''projectId''))) (\<lambda>projectId.
                        bindA (readA (\<lambda>st. map_of (ap_projects st) projectId)) (\<lambda>org.
                          case org of
                            None \<Rightarrow> returnA (Redirect_error ''Project not found'')
                          | Some o' \<Rightarrow> callbackFor call rq provider app exchange state projectId o')))
           | _ \<Rightarrow> returnA (Redirect_error ''Invalid provider'')))"

text \<open>A provider that answers in the fragment of the URL gets a page that sends it again as a parameter.\<close>

definition needsFragment :: "registry \<Rightarrow> callback_request \<Rightarrow> string \<Rightarrow> bool" where
  "needsFragment apps rq provider \<longleftrightarrow>
     (case apps provider of
        None \<Rightarrow> False
      | Some app \<Rightarrow> (case ad_method app of
            Oauth (Some param) exchange \<Rightarrow> \<not> set_nonempty (queryParam rq param)
          | _ \<Rightarrow> False))"

definition callbackRoute ::
  "vault_crypto \<Rightarrow> vault_env \<Rightarrow> registry \<Rightarrow> app_call \<Rightarrow> callback_request \<Rightarrow> string \<Rightarrow> callback_reply app_act" where
  "callbackRoute h ve apps call rq provider =
     (if needsFragment apps rq provider then returnA Fragment_page
      else catchA (callbackBody h ve apps call rq provider) (\<lambda>e. returnA (Redirect_error (message e))))"

section \<open>Typed-in credentials\<close>

definition typeError :: error where
  "typeError = JsError ''trim is not a function''"

definition requiredFields :: "connection_method \<Rightarrow> js \<Rightarrow> field_def list" where
  "requiredFields m typed =
     (case m of
        Credentials_import defs x \<Rightarrow>
          if list_ex (\<lambda>f. set_nonempty (fd_group f)) defs
          then filter (\<lambda>f. \<not> set_nonempty (fd_group f) \<or>
                 fd_group f = Some (if truthy (jsProp typed ''privateKey'') then ''service_account'' else ''authorized_user'')) defs
          else filter (\<lambda>f. \<not> fd_optional f) defs
      | Api_key defs x \<Rightarrow> filter (\<lambda>f. \<not> fd_optional f) defs
      | _ \<Rightarrow> [])"

text \<open>\<^verbatim>\<open>v?.trim()\<close>.\<close>

definition trimmed :: "js \<Rightarrow> string result" where
  "trimmed v = (case v of JStr s \<Rightarrow> Inr (trim s) | JUndef \<Rightarrow> Inr '''' | JNull \<Rightarrow> Inr '''' | _ \<Rightarrow> Inl typeError)"

text \<open>The label of the first required field that is blank.\<close>

fun missingField :: "js \<Rightarrow> field_def list \<Rightarrow> string option result" where
  "missingField typed [] = Inr None"
| "missingField typed (f # fs) =
     bindR (trimmed (jsProp typed (fd_name f))) (\<lambda>t. if t = '''' then Inr (Some (fd_label f)) else missingField typed fs)"

text \<open>The credentials to store, the scopes and the metadata. A method always has a first field.\<close>

definition gather :: "connection_method \<Rightarrow> js \<Rightarrow> (js \<times> string list option \<times> js) result" where
  "gather m typed =
     (case m of
        Credentials_import defs exchange \<Rightarrow>
          bindR (exchange typed) (\<lambda>r. Inr (xr_credentials r, Some (xr_scopes r), xr_metadata r))
      | Api_key (f # fs) resolve \<Rightarrow>
          bindR (case resolve of None \<Rightarrow> Inr JUndef | Some g \<Rightarrow> g typed) (\<lambda>md.
            Inr (JObj (ospread [(''access_token'', jsProp typed (fd_name f))] (spreadOf typed)), None,
                 if truthy md then md else JObj [(''name'', JStr ''API Key'')]))
      | _ \<Rightarrow> Inl (JsError ''Cannot read properties of undefined''))"

definition duplicateOf :: "app_call \<Rightarrow> string option \<Rightarrow> connection_row list \<Rightarrow> connection_row option" where
  "duplicateOf call label existing =
     (if set_nonempty label then find (labelled call (trim (px_lower call (the label)))) existing
      else (case existing of [] \<Rightarrow> None | r # rs \<Rightarrow> Some r))"

definition storeCredentials ::
  "app_call \<Rightarrow> string \<Rightarrow> string \<Rightarrow> string \<Rightarrow> js \<Rightarrow> js \<Rightarrow> connection_options \<Rightarrow> unit app_act" where
  "storeCredentials call projectId org provider connectionId credentials opts =
     (let scope = project_scope projectId in
      if truthy connectionId
      then bindA (liftA (idText connectionId)) (\<lambda>k. reconnectConnection call scope k credentials opts)
      else
        bindA (listConnectionsByProvider scope provider) (\<lambda>existing.
          case duplicateOf call (textOr (co_label opts) (extractLabel (co_metadata opts))) existing of
            Some r \<Rightarrow> reconnectConnection call scope (cx_id r) credentials opts
          | None \<Rightarrow>
              bindA (liftA (px_beforeCreate call org)) (\<lambda>_.
              bindA (createConnection call scope provider credentials opts) (\<lambda>_. returnA ()))))"

definition connectRoute :: "registry \<Rightarrow> app_call \<Rightarrow> auth_context \<Rightarrow> string \<Rightarrow> js \<Rightarrow> route_reply app_act" where
  "connectRoute apps call auth provider body =
     (case apps provider of
        None \<Rightarrow> returnA (Reply 400 (''Provider '' @ quoted provider @ '' is not available''))
      | Some app \<Rightarrow>
          if \<not> ad_available app then returnA (Reply 400 (''Provider '' @ quoted provider @ '' is not available''))
          else if (case ad_method app of Oauth x y \<Rightarrow> True | _ \<Rightarrow> False)
          then returnA (Reply 400 (''Provider '' @ quoted provider @ '' uses OAuth flow, not direct credentials''))
          else if (case ad_method app of Cloud_only \<Rightarrow> True | _ \<Rightarrow> False)
          then returnA (Reply 400 (''Provider '' @ quoted provider @ '' is only available in OneCLI Cloud''))
          else
            let typed = jsProp body ''fields'' in
            if \<not> truthy typed then returnA (Reply 400 ''Missing fields in request body'')
            else
              bindA (liftA (missingField typed (requiredFields (ad_method app) typed))) (\<lambda>missing.
                case missing of
                  Some l \<Rightarrow> returnA (Reply 400 (l @ '' is required''))
                | None \<Rightarrow>
                    bindA (liftA (gather (ad_method app) typed)) (\<lambda>(credentials, scopes, metadata).
                    bindA (liftA (trimmed (jsProp body ''label''))) (\<lambda>label.
                    bindA (liftA (requireProjectId auth)) (\<lambda>projectId.
                    bindA (liftA (px_beforeConnect call (ac_organizationId auth))) (\<lambda>_.
                    bindA (storeCredentials call projectId (ac_organizationId auth) provider (jsProp body ''connectionId'') credentials
                             \<lparr> co_scopes = scopes, co_metadata = metadata, co_label = (if label = '''' then None else Some label) \<rparr>) (\<lambda>_.
                    bindA (initDefaults call (project_scope projectId) provider app) (\<lambda>_.
                    bindA (if (case ad_method app of Credentials_import x y \<Rightarrow> True | _ \<Rightarrow> False) \<and>
                              \<not> truthy (jsProp typed ''privateKey'') \<and> truthy (jsProp typed ''clientId'') \<and> truthy (jsProp typed ''clientSecret'')
                           then saveAppConfigWithoutDisconnect call (project_scope projectId) provider
                                  (jsProp typed ''clientId'') (jsProp typed ''clientSecret'')
                           else returnA ()) (\<lambda>_. returnA (Reply 200 ''''))))))))))"

section \<open>Connections and configuration\<close>

text \<open>The row a route works on, and the scope it then works in.\<close>

definition visibleConnection :: "string \<Rightarrow> string \<Rightarrow> string \<Rightarrow> connection_row list \<Rightarrow> connection_row option" where
  "visibleConnection projectId org connectionId rows =
     find (\<lambda>r. cx_id r = connectionId \<and> (so_projectId r = Some projectId \<or> org \<noteq> '''' \<and> so_organizationId r = Some org)) rows"

definition rowScope :: "string \<Rightarrow> string \<Rightarrow> connection_row \<Rightarrow> resource_scope" where
  "rowScope projectId org r = (if so_scope r = ''organization'' then organization_scope org else project_scope projectId)"

definition disconnectRoute :: "auth_context \<Rightarrow> string \<Rightarrow> route_reply app_act" where
  "disconnectRoute auth connectionId =
     bindA (liftA (requireProjectId auth)) (\<lambda>projectId.
     bindA (readA (\<lambda>st. visibleConnection projectId (ac_organizationId auth) connectionId (ap_connections st))) (\<lambda>found.
       case found of
         None \<Rightarrow> returnA (Reply 404 ''Connection not found'')
       | Some r \<Rightarrow>
           let scope = rowScope projectId (ac_organizationId auth) r in
           bindA (deleteConnection scope connectionId) (\<lambda>_.
           bindA (listConnectionsByProvider scope (cx_provider r)) (\<lambda>remaining.
           bindA (if remaining = [] then liftRules (\<lambda>rs. removeAllBlocklistRules rs scope (cx_provider r)) else returnA ()) (\<lambda>_.
             returnA (Reply 204 ''''))))))"

definition renameRoute :: "auth_context \<Rightarrow> string \<Rightarrow> js \<Rightarrow> route_reply app_act" where
  "renameRoute auth connectionId body =
     bindA (liftA (trimmed (jsProp body ''label''))) (\<lambda>label.
     if label = '''' then returnA (Reply 400 ''Label is required'')
     else
       bindA (liftA (requireProjectId auth)) (\<lambda>projectId.
       bindA (readA (\<lambda>st. visibleConnection projectId (ac_organizationId auth) connectionId (ap_connections st))) (\<lambda>found.
         case found of
           None \<Rightarrow> returnA (Reply 404 ''Connection not found'')
         | Some r \<Rightarrow>
             bindA (updateConnectionLabel (rowScope projectId (ac_organizationId auth) r) connectionId label) (\<lambda>_.
               returnA (Reply 200 '''')))))"

definition configBodySchema :: "js \<Rightarrow> (string \<times> string) option" where
  "configBodySchema body =
     (case (jsProp body ''clientId'', jsProp body ''clientSecret'') of
        (JStr i, JStr s) \<Rightarrow> if i \<noteq> '''' \<and> s \<noteq> '''' then Some (i, s) else None
      | _ \<Rightarrow> None)"

definition saveConfigRoute :: "registry \<Rightarrow> app_call \<Rightarrow> auth_context \<Rightarrow> string \<Rightarrow> js \<Rightarrow> route_reply app_act" where
  "saveConfigRoute apps call auth provider body =
     (case configBodySchema body of
        None \<Rightarrow> returnA (Reply 400 ''Invalid request body'')
      | Some (clientId, clientSecret) \<Rightarrow>
          (case apps provider of
             None \<Rightarrow> returnA (Reply 400 (''Provider '' @ quoted provider @ '' does not support app configuration''))
           | Some app \<Rightarrow>
               (case ad_configurable app of
                  None \<Rightarrow> returnA (Reply 400 (''Provider '' @ quoted provider @ '' does not support app configuration''))
                | Some (defs, envDefaults) \<Rightarrow>
                    bindA (liftA (requireProjectId auth)) (\<lambda>projectId.
                    bindA (upsertAppConfig call (project_scope projectId) provider
                             (map_of [(''clientId'', clientId), (''clientSecret'', clientSecret)]) defs) (\<lambda>_.
                      returnA (Reply 201 ''''))))))"

definition deleteConfigRoute :: "auth_context \<Rightarrow> string \<Rightarrow> route_reply app_act" where
  "deleteConfigRoute auth provider =
     bindA (liftA (requireProjectId auth)) (\<lambda>projectId.
     bindA (deleteAppConfig (project_scope projectId) provider) (\<lambda>_. returnA (Reply 204 '''')))"

end
