(* ===== verification/Secret_Props.thy ===== *)
theory Secret_Props
  imports Secrets
begin

text \<open>
  What holds of the table of secrets along every run of its operations: each row holds its value in one way
  only, an encrypted value is the encryption of a non-empty text, and the metadata of a model key can be
  parsed; an operation touches only rows of its scope.
\<close>

section \<open>Rows in order\<close>

definition encryptedBy :: "(crypto_service \<Rightarrow> bool) \<Rightarrow> string \<Rightarrow> string \<Rightarrow> bool" where
  "encryptedBy K p c \<longleftrightarrow> (\<exists>cs. K cs \<and> cs_encrypt cs p = Inr c)"

definition valueOk :: "(crypto_service \<Rightarrow> bool) \<Rightarrow> secret_row \<Rightarrow> bool" where
  "valueOk K r \<longleftrightarrow>
     sec_valueSource r = ''onepassword'' \<and> sec_encryptedValue r = None \<and> set_nonempty (sec_opRef r) \<or>
     sec_valueSource r = ''inline'' \<and> sec_opRef r = None \<and>
       (\<exists>p c. p \<noteq> '''' \<and> sec_encryptedValue r = Some c \<and> encryptedBy K p c)"

definition metadataOk :: "secret_row \<Rightarrow> bool" where
  "metadataOk r \<longleftrightarrow> (if sec_type r = ''anthropic'' \<or> sec_type r = ''openai'' then parseAuthMetadata (sec_metadata r) \<noteq> None else True)"

definition secretOk :: "(crypto_service \<Rightarrow> bool) \<Rightarrow> secret_row \<Rightarrow> bool" where
  "secretOk K r \<longleftrightarrow> sec_name r \<noteq> '''' \<and> sec_hostPattern r \<noteq> '''' \<and> valueOk K r \<and> metadataOk r"

lemma parseAuthMetadata_mode: "m \<in> set authModes \<Longrightarrow> parseAuthMetadata (JObj ((''authMode'', JStr m) # kvs)) \<noteq> None"
  by (auto simp: parseAuthMetadata_def)

lemma built_metadata:
  "t = ''anthropic'' \<or> t = ''openai'' \<Longrightarrow> parseAuthMetadata (buildMetadata dbl t v) \<noteq> None"
  "t = ''anthropic'' \<or> t = ''openai'' \<Longrightarrow> parseAuthMetadata (buildOnePasswordMetadata t d) \<noteq> None"
proof -
  have a: "orElse (detectAnthropicAuthMode v) ''api-key'' \<in> set authModes" "detectOpenaiAuthMode dbl v \<in> set authModes"
    by (simp_all add: detectAnthropicAuthMode_def detectOpenaiAuthMode_def authModes_def)
  show "t = ''anthropic'' \<or> t = ''openai'' \<Longrightarrow> parseAuthMetadata (buildMetadata dbl t v) \<noteq> None"
    using parseAuthMetadata_mode [OF a(1)] parseAuthMetadata_mode [OF a(2)] by (auto simp: buildMetadata_def Let_def)
  have "''api-key'' \<in> set authModes" by (simp add: authModes_def)
  then show "t = ''anthropic'' \<or> t = ''openai'' \<Longrightarrow> parseAuthMetadata (buildOnePasswordMetadata t d) \<noteq> None"
    using parseAuthMetadata_mode by (auto simp: buildOnePasswordMetadata_def Let_def)
qed

lemma normalize_host: "normalizeOpenaiValue dbl v = (x, h) \<Longrightarrow> v \<noteq> '''' \<Longrightarrow> x \<noteq> '''' \<and> h \<noteq> ''''"
  by (auto simp: normalizeOpenaiValue_def Let_def split: option.splits if_splits)

section \<open>What each operation does to the table\<close>

lemma secretRow_simps [simp]:
  "so_scope (secretRow call o' n ty src enc op h p cfg md) = so_scope o'"
  "so_projectId (secretRow call o' n ty src enc op h p cfg md) = so_projectId o'"
  "so_organizationId (secretRow call o' n ty src enc op h p cfg md) = so_organizationId o'"
  "so_partnerId (secretRow call o' n ty src enc op h p cfg md) = so_partnerId o'"
  "sec_id (secretRow call o' n ty src enc op h p cfg md) = sx_newId call"
  by (simp_all add: secretRow_def)

lemma secretRow_ok:
  "secretOk K (secretRow call o' n ty src enc op h p cfg md) \<longleftrightarrow> n \<noteq> '''' \<and> h \<noteq> '''' \<and>
     (src = ''onepassword'' \<and> enc = None \<and> set_nonempty op \<or>
      src = ''inline'' \<and> op = None \<and> (\<exists>q c. q \<noteq> '''' \<and> enc = Some c \<and> encryptedBy K q c)) \<and>
     (if ty = ''anthropic'' \<or> ty = ''openai'' then parseAuthMetadata md \<noteq> None else True)"
  by (simp add: secretOk_def valueOk_def metadataOk_def secretRow_def)

definition madeIn :: "resource_scope \<Rightarrow> 'a scoped_scheme \<Rightarrow> bool" where
  "madeIn scope r \<longleftrightarrow> (\<exists>owner. scopeCreate scope = Inr owner \<and> so_scope r = so_scope owner \<and> so_projectId r = so_projectId owner \<and>
     so_organizationId r = so_organizationId owner \<and> so_partnerId r = so_partnerId owner)"

lemma madeIn_row: "scopeCreate scope = Inr o' \<Longrightarrow> madeIn scope (secretRow call o' n ty src enc op h p cfg md)"
  by (auto simp: madeIn_def)

lemma insert_simps [simp]: "bindA (insertSecret r) f t = f () (t @ [r])"
  by (simp add: insertSecret_def)

definition addsRow :: "(crypto_service \<Rightarrow> bool) \<Rightarrow> secret_call \<Rightarrow> resource_scope \<Rightarrow> secret_row list \<Rightarrow> secret_row list \<Rightarrow> bool" where
  "addsRow K call scope t t' \<longleftrightarrow>
     t' = t \<or> (\<exists>row. t' = t @ [row] \<and> secretOk K row \<and> sec_id row = sx_newId call \<and> madeIn scope row)"

lemma addsRow_simps [simp]: "addsRow K call scope t t"
  by (simp add: addsRow_def)

lemma addsRow_add: "secretOk K row \<Longrightarrow> sec_id row = sx_newId call \<Longrightarrow> madeIn scope row \<Longrightarrow> addsRow K call scope t (t @ [row])"
  by (simp add: addsRow_def)

lemma onePasswordHost_nonempty: "h \<noteq> '''' \<Longrightarrow> onePasswordHost ty h \<noteq> ''''"
  by (simp add: onePasswordHost_def)

lemma encrypted_row:
  assumes "K (sx_crypto call)" "value \<noteq> ''''" "host \<noteq> ''''" "cs_encrypt (sx_crypto call) value = Inr c" "name \<noteq> ''''"
  shows "secretOk K (secretRow call o' name ty ''inline'' (Some c) None host path cfg (buildMetadata dbl ty value))"
  using assms built_metadata(1) by (auto simp: secretRow_ok encryptedBy_def)

lemma create_shape:
  assumes K: "K (sx_crypto call)"
  shows "addsRow K call scope t (snd (createSecret call scope input t))"
proof -
  let ?ty = "si_type input" and ?v = "trim (orElse (si_value input) '''')" and ?h = "trim (si_hostPattern input)"
  consider (name) "trim (si_name input) = '''' \<or> 255 < u16length (trim (si_name input))"
    | (host) "?h = ''''" | (ref) "trim (si_name input) \<noteq> ''''" "?h \<noteq> ''''" "orElse (si_valueSource input) ''inline'' = ''onepassword''"
    | (plain) "trim (si_name input) \<noteq> ''''" "?h \<noteq> ''''" "orElse (si_valueSource input) ''inline'' \<noteq> ''onepassword''"
    by blast
  then show ?thesis
  proof cases
    case ref
    have "secretOk K (secretRow call o' (trim (si_name input)) ?ty ''onepassword'' None (si_opRef input) (onePasswordHost ?ty ?h) p cfg
        (buildOnePasswordMetadata ?ty (si_opDisplay input)))" if "set_nonempty (si_opRef input)" for o' p cfg
      using ref that built_metadata(2) onePasswordHost_nonempty by (auto simp: secretRow_ok)
    then show ?thesis using ref
      by (simp add: createSecret_def Let_def split: sum.split) (auto intro!: addsRow_add madeIn_row)
  next
    case plain
    obtain x h where n: "(if ?ty = ''openai'' then normalizeOpenaiValue (sx_double call) ?v else (?v, ?h)) = (x, h)"
      by (cases "if ?ty = ''openai'' then normalizeOpenaiValue (sx_double call) ?v else (?v, ?h)")
    have "?v \<noteq> '''' \<Longrightarrow> x \<noteq> '''' \<and> h \<noteq> ''''" using n normalize_host [of "sx_double call" ?v x h] plain(2) by (auto split: if_splits)
    then have "secretOk K (secretRow call o' (trim (si_name input)) ?ty ''inline'' (Some c) None h p cfg (buildMetadata (sx_double call) ?ty x))"
      if "?v \<noteq> ''''" "cs_encrypt (sx_crypto call) x = Inr c" for o' c p cfg
      using that plain(1) by (intro encrypted_row K) auto
    then show ?thesis using plain n unfolding createSecret_def Let_def
      by (simp split: sum.split) (auto intro!: addsRow_add madeIn_row)
  qed (simp_all add: createSecret_def Let_def)
qed

text \<open>A lookup changes nothing and finds a row of the scope.\<close>

lemma findSecret_cases:
  obtains e where "findSecret scope k t = (Inl e, t)"
    | r w where "findSecret scope k t = (Inr r, t)" "scopeWhere scope = Inr w" "r \<in> set t" "sec_id r = k" "selects w r"
proof (cases "scopeOwnership scope k")
  case (Inl e)
  then show ?thesis using that(1) [of e] by (simp add: findSecret_def)
next
  case (Inr p)
  obtain k' w where p: "p = (k', w)" by (cases p)
  then have w: "k' = k" "scopeWhere scope = Inr w" using scopes.own_Inr [of scope k k' w] Inr by auto
  show ?thesis
  proof (cases "find (\<lambda>r. sec_id r = k \<and> selects w r) t")
    case None
    then show ?thesis using that(1) Inr p w by (simp add: findSecret_def)
  next
    case (Some r)
    then have "r \<in> set t" "sec_id r = k" "selects w r" by (auto simp: find_Some_iff)
    moreover have "findSecret scope k t = (Inr r, t)" using Some Inr p w by (simp add: findSecret_def)
    ultimately show ?thesis using that(2) w(2) by blast
  qed
qed

lemma orElse_cases: "orElse x d = (case x of None \<Rightarrow> d | Some v \<Rightarrow> v)"
  by (simp add: orElse_def)

lemma apply_noData [simp]: "applyData noData r = r"
  by (simp add: applyData_def noData_def)

lemma applyData_columns [simp]:
  "sec_id (applyData d r) = sec_id r" "sec_type (applyData d r) = sec_type r" "so_scope (applyData d r) = so_scope r"
  "so_projectId (applyData d r) = so_projectId r" "so_organizationId (applyData d r) = so_organizationId r"
  "so_partnerId (applyData d r) = so_partnerId r"
  by (simp_all add: applyData_def)

lemma applyData_values:
  "sec_name (applyData d r) = orElse (sd_name d) (sec_name r)"
  "sec_valueSource (applyData d r) = orElse (sd_valueSource d) (sec_valueSource r)"
  "sec_encryptedValue (applyData d r) = orElse (sd_encryptedValue d) (sec_encryptedValue r)"
  "sec_opRef (applyData d r) = orElse (sd_opRef d) (sec_opRef r)"
  "sec_hostPattern (applyData d r) = orElse (sd_hostPattern d) (sec_hostPattern r)"
  "sec_metadata (applyData d r) = orElse (sd_metadata d) (sec_metadata r)"
  by (simp_all add: applyData_def)

text \<open>Each stage keeps the row that the update would make in order.\<close>

lemma name_stage: "nameData input = Inr d \<Longrightarrow> secretOk K r \<Longrightarrow> secretOk K (applyData d r)"
  by (auto simp: nameData_def secretOk_def valueOk_def metadataOk_def applyData_values noData_def split: option.splits if_splits)

lemma value_stage:
  assumes "valueData call scope r input d = Inr d'" "secretOk K (applyData d r)" "K (sx_crypto call)"
  shows "secretOk K (applyData d' r)"
proof (cases "us_valueSource input = Some ''onepassword''")
  case True
  have "set_nonempty (us_opRef input)"
    and d': "d' = d\<lparr> sd_valueSource := Some ''onepassword'', sd_encryptedValue := Some None, sd_opRef := Some (us_opRef input),
       sd_hostPattern := (if sec_type r = ''anthropic'' then Some ''api.anthropic.com''
         else if sec_type r = ''openai'' then Some ''api.openai.com'' else sd_hostPattern d),
       sd_metadata := Some (buildOnePasswordMetadata (sec_type r) (us_opDisplay input)),
       sd_isPlatform := (if sec_isPlatform r then Some False else sd_isPlatform d) \<rparr>"
    using assms(1) True unfolding valueData_def by (simp_all split: if_splits)
  then show ?thesis
    using assms(2) built_metadata(2) [of "sec_type r" "us_opDisplay input"]
    unfolding d' by (simp add: secretOk_def valueOk_def metadataOk_def applyData_values)
next
  case False
  show ?thesis
  proof (cases "us_value input")
    case None
    then show ?thesis using assms False by (simp add: valueData_def)
  next
    case (Some v)
    let ?v = "trim v"
    obtain x d1 where n: "(if sec_type r = ''openai''
        then (case normalizeOpenaiValue (sx_double call) ?v of (x, h) \<Rightarrow> (x, d\<lparr>sd_hostPattern := Some h\<rparr>)) else (?v, d)) = (x, d1)"
      by (cases "if sec_type r = ''openai''
        then (case normalizeOpenaiValue (sx_double call) ?v of (x, h) \<Rightarrow> (x, d\<lparr>sd_hostPattern := Some h\<rparr>)) else (?v, d)")
    have v: "?v \<noteq> ''''" using assms(1) False Some by (auto simp: valueData_def Let_def split: if_splits)
    have x: "x \<noteq> ''''" and d1: "sec_hostPattern (applyData d1 r) \<noteq> ''''" "sec_name (applyData d1 r) \<noteq> ''''"
      using n v normalize_host [of "sx_double call" ?v] assms(2)
      by (auto simp: secretOk_def applyData_values split: if_splits prod.splits)
    have same: "sec_type r \<noteq> ''openai'' \<Longrightarrow> sd_metadata d1 = sd_metadata d" using n by simp
    obtain c where c: "cs_encrypt (sx_crypto call) x = Inr c"
      "d' = d1\<lparr> sd_valueSource := Some ''inline'', sd_encryptedValue := Some (Some c), sd_opRef := Some None,
         sd_isPlatform := (if sec_isPlatform r then Some False else sd_isPlatform d1),
         sd_metadata := (if sec_type r = ''anthropic'' \<or> sec_type r = ''openai''
           then Some (buildMetadata (sx_double call) (sec_type r) x) else sd_metadata d1) \<rparr>"
      using assms(1) False Some v unfolding valueData_def Let_def n by (auto simp: n bindR_Inr_iff)
    have "encryptedBy K x c" using c(1) assms(3) by (auto simp: encryptedBy_def)
    then show ?thesis using x d1 same assms(2) built_metadata(1) [of "sec_type r" "sx_double call" x]
      unfolding c(2) by (auto simp: secretOk_def valueOk_def metadataOk_def applyData_values)
  qed
qed

lemma ok_columns:
  "secretOk K (applyData d r) \<Longrightarrow> h \<noteq> '''' \<Longrightarrow> secretOk K (applyData (d\<lparr>sd_hostPattern := Some h\<rparr>) r)"
  "secretOk K (applyData (d\<lparr>sd_pathPattern := p\<rparr>) r) = secretOk K (applyData d r)"
  "secretOk K (applyData (d\<lparr>sd_injectionConfig := q\<rparr>) r) = secretOk K (applyData d r)"
  by (simp_all add: secretOk_def valueOk_def metadataOk_def applyData_values split: if_split_asm)

lemma rest_stage:
  assumes "restData r input d = Inr d'" "secretOk K (applyData d r)"
  shows "secretOk K (applyData d' r)"
proof -
  obtain e where e: "(case us_hostPattern input of None \<Rightarrow> Inr d
      | Some h \<Rightarrow> if trim h = '''' then Inl (badRequest ''Host pattern is required'') else Inr (d\<lparr>sd_hostPattern := Some (trim h)\<rparr>)) = Inr e"
    and d': "d' = (let d = (case us_pathPattern input of None \<Rightarrow> e | Some p \<Rightarrow> e\<lparr>sd_pathPattern := Some (trimOrNull p)\<rparr>)
      in if us_injectionConfig input \<noteq> JUndef \<and> sec_type r = ''generic''
         then d\<lparr>sd_injectionConfig := Some (buildInjectionConfig (us_injectionConfig input))\<rparr> else d)"
    using assms(1) unfolding restData_def bindR_Inr_iff by (auto simp: Let_def split: if_splits)
  have "secretOk K (applyData e r)"
    using e assms(2) ok_columns(1) by (cases "us_hostPattern input") (auto split: if_splits)
  then show ?thesis unfolding d' Let_def by (simp add: ok_columns(2,3) split: option.split)
qed

definition changesRow :: "(crypto_service \<Rightarrow> bool) \<Rightarrow> resource_scope \<Rightarrow> string \<Rightarrow> secret_row list \<Rightarrow> secret_row list \<Rightarrow> bool" where
  "changesRow K scope k t t' \<longleftrightarrow>
     t' = t \<or> (\<exists>r w d. scopeWhere scope = Inr w \<and> r \<in> set t \<and> sec_id r = k \<and> selects w r \<and>
       (secretOk K r \<longrightarrow> secretOk K (applyData d r)) \<and> t' = map (\<lambda>x. if sec_id x = k then applyData d x else x) t)"

lemma update_shape:
  assumes "K (sx_crypto call)"
  shows "changesRow K scope k t (snd (updateSecret call scope k input t))"
proof (rule findSecret_cases [of scope k t])
  fix e assume "findSecret scope k t = (Inl e, t)"
  then show ?thesis by (simp add: updateSecret_def bindA_def changesRow_def)
next
  fix r w assume f: "findSecret scope k t = (Inr r, t)" "scopeWhere scope = Inr w" "r \<in> set t" "sec_id r = k" "selects w r"
  let ?d = "bindR (platformGuard r input) (\<lambda>_. bindR (nameData input) (\<lambda>d. bindR (valueData call scope r input d) (restData r input)))"
  show ?thesis
  proof (cases ?d)
    case (Inl e)
    then show ?thesis using f by (simp add: updateSecret_def bindA_def changesRow_def)
  next
    case (Inr d)
    then obtain d1 d2 where d: "nameData input = Inr d1" "valueData call scope r input d1 = Inr d2" "restData r input d2 = Inr d"
      by (auto simp: bindR_Inr_iff)
    have "secretOk K r \<Longrightarrow> secretOk K (applyData d r)"
      using name_stage [OF d(1)] value_stage [where K = K, OF d(2) _ assms] rest_stage [OF d(3)] by blast
    moreover have "snd (updateSecret call scope k input t) = map (\<lambda>x. if sec_id x = k then applyData d x else x) t"
      using f(1) Inr by (simp add: updateSecret_def bindA_def)
    ultimately show ?thesis using f(2-5) unfolding changesRow_def by blast
  qed
qed

lemma delete_shape:
  "snd (deleteSecret scope k t) = t \<or>
    (\<exists>r w. scopeWhere scope = Inr w \<and> r \<in> set t \<and> sec_id r = k \<and> selects w r \<and>
       snd (deleteSecret scope k t) = filter (\<lambda>x. sec_id x \<noteq> k) t)"
proof (rule findSecret_cases [of scope k t])
  fix r w assume "findSecret scope k t = (Inr r, t)" "scopeWhere scope = Inr w" "r \<in> set t" "sec_id r = k" "selects w r"
  then show ?thesis by (auto simp: deleteSecret_def bindA_def)
qed (simp add: deleteSecret_def bindA_def)

section \<open>Runs\<close>

text \<open>Every operation, failed or not, in any scope and with any of the crypto services \<open>K\<close>; the ids the database
  mints are fresh.\<close>

inductive secret_step :: "(crypto_service \<Rightarrow> bool) \<Rightarrow> resource_scope \<Rightarrow> secret_row list \<Rightarrow> secret_row list \<Rightarrow> bool" for K where
  create: "K (sx_crypto call) \<Longrightarrow> sx_newId call \<notin> sec_id ` set t \<Longrightarrow>
    secret_step K scope t (snd (createSecret call scope input t))"
| update: "K (sx_crypto call) \<Longrightarrow> secret_step K scope t (snd (updateSecret call scope k input t))"
| delete: "secret_step K scope t (snd (deleteSecret scope k t))"

inductive secret_run :: "(crypto_service \<Rightarrow> bool) \<Rightarrow> secret_row list \<Rightarrow> secret_row list \<Rightarrow> bool" for K where
  start: "secret_run K t t"
| more: "secret_run K s t \<Longrightarrow> secret_step K scope t u \<Longrightarrow> secret_run K s u"

text \<open>A step leaves the table, appends one row of the scope, rewrites the rows of an id the scope sees, or deletes them.\<close>

lemma step_shape:
  assumes "secret_step K scope t t'"
  obtains "t' = t"
    | row where "t' = t @ [row]" "secretOk K row" "sec_id row \<notin> sec_id ` set t" "madeIn scope row"
    | r w d where "scopeWhere scope = Inr w" "r \<in> set t" "selects w r" "secretOk K r \<longrightarrow> secretOk K (applyData d r)"
        "t' = map (\<lambda>x. if sec_id x = sec_id r then applyData d x else x) t"
    | r w where "scopeWhere scope = Inr w" "r \<in> set t" "selects w r" "t' = filter (\<lambda>x. sec_id x \<noteq> sec_id r) t"
  using assms
proof cases
  case (create call input)
  then consider "t' = t" | row where "t' = t @ [row]" "secretOk K row" "sec_id row = sx_newId call" "madeIn scope row"
    using create_shape [of K call scope t input] unfolding addsRow_def by blast
  then show ?thesis using that(1,2) create(3) by cases auto
next
  case (update call k input)
  then show ?thesis using update_shape [of K call scope k t input] that(1,3) unfolding changesRow_def by blast
next
  case (delete k)
  then show ?thesis using delete_shape [of scope k t] that(1,4) by blast
qed

definition secretsOk :: "(crypto_service \<Rightarrow> bool) \<Rightarrow> secret_row list \<Rightarrow> bool" where
  "secretsOk K t \<longleftrightarrow> distinct (map sec_id t) \<and> (\<forall>r \<in> set t. secretOk K r)"

lemma distinct_ids_eq: "distinct (map sec_id t) \<Longrightarrow> r \<in> set t \<Longrightarrow> x \<in> set t \<Longrightarrow> sec_id x = sec_id r \<Longrightarrow> x = r"
  by (auto simp: distinct_map inj_on_def)

lemma step_ok:
  assumes "secret_step K scope t t'" "secretsOk K t"
  shows "secretsOk K t'"
proof (rule step_shape [OF assms(1)])
  fix r w d assume a: "r \<in> set t" "secretOk K r \<longrightarrow> secretOk K (applyData d r)"
    and t': "t' = map (\<lambda>x. if sec_id x = sec_id r then applyData d x else x) t"
  have "map sec_id t' = map sec_id t" unfolding t' by simp
  then have d': "distinct (map sec_id t')" using assms(2) by (simp only: secretsOk_def)
  have ok: "secretOk K (if sec_id x = sec_id r then applyData d x else x)" if "x \<in> set t" for x
    using that a assms(2) distinct_ids_eq [of t r x] by (auto simp: secretsOk_def)
  have "\<forall>r \<in> set t'. secretOk K r" unfolding t' by (simp only: set_map ball_simps) (intro ballI, rule ok)
  with d' show ?thesis unfolding secretsOk_def ..
next
  fix r assume "t' = filter (\<lambda>x. sec_id x \<noteq> sec_id r) t"
  then show ?thesis using assms(2) by (auto simp: secretsOk_def distinct_map_filter)
qed (use assms(2) in \<open>auto simp: secretsOk_def\<close>)

lemma run_ok: "secret_run K s t \<Longrightarrow> secretsOk K s \<Longrightarrow> secretsOk K t"
  by (induction rule: secret_run.induct) (auto dest: step_ok)

text \<open>Rows a scope does not see stay, in their order.\<close>

lemma step_outside:
  assumes "secret_step K scope t t'" "scopeWhere scope = Inr w" "distinct (map sec_id t)"
  shows "filter (\<lambda>r. \<not> selects w r) t' = filter (\<lambda>r. \<not> selects w r) t"
proof (rule step_shape [OF assms(1)])
  fix row :: secret_row assume "t' = t @ [row]" "madeIn scope row"
  moreover from this obtain owner where o: "scopeCreate scope = Inr owner" "so_scope row = so_scope owner"
    "so_projectId row = so_projectId owner" "so_organizationId row = so_organizationId owner" "so_partnerId row = so_partnerId owner"
    by (auto simp: madeIn_def)
  have "selects w row \<longleftrightarrow> selects w owner" using o(2-5) by (rule selects_columns)
  then have "selects w row" using scopes.create_seen [OF o(1) assms(2)] by simp
  ultimately show ?thesis by simp
next
  fix r w' d assume a: "scopeWhere scope = Inr w'" "r \<in> set t" "selects w' r"
    and t': "t' = map (\<lambda>x. if sec_id x = sec_id r then applyData d x else x) t"
  have w: "w' = w" using a(1) assms(2) by simp
  have s: "selects w (applyData d x) = selects w x" for x by (rule selects_columns) simp_all
  have "filter (\<lambda>r. \<not> selects w r) t' = map (\<lambda>x. if sec_id x = sec_id r then applyData d x else x) (filter (\<lambda>r. \<not> selects w r) t)"
    unfolding t' filter_map comp_def by (rule arg_cong [of _ _ "map _"], rule filter_cong) (auto simp: s)
  also have "\<dots> = filter (\<lambda>r. \<not> selects w r) t"
    using a(2,3) w distinct_ids_eq [OF assms(3) a(2)] by (intro map_idI) auto
  finally show ?thesis .
next
  fix r w' assume a: "scopeWhere scope = Inr w'" "r \<in> set t" "selects w' r" and t': "t' = filter (\<lambda>x. sec_id x \<noteq> sec_id r) t"
  show ?thesis unfolding t' filter_filter
    using a assms(2) distinct_ids_eq [OF assms(3) a(2)] by (intro filter_cong) auto
qed simp

section \<open>With the default crypto service\<close>

definition vaultServices :: "vault_crypto \<Rightarrow> vault_env \<Rightarrow> crypto_service \<Rightarrow> bool" where
  "vaultServices h env cs \<longleftrightarrow> (\<exists>iv. length iv = 12 \<and> cs = vaultService h env iv)"

lemma decrypt_fresh: "loadKey h env = Inr (Some k) \<Longrightarrow> decrypt h env c None = decrypt h env c (Some (Some k))"
  unfolding decrypt_def bindA_def by (simp add: getKey_def bindA_def)

lemma vault_opens:
  assumes "vault_documented h" "encryptedBy (vaultServices h env) p c" "p \<noteq> ''''" "is_utf8 p"
  shows "cs_decrypt (vaultService h env iv) c = Inr p"
proof -
  obtain iv' where iv: "length iv' = 12" "fst (encrypt h env iv' p None) = Inr c"
    using assms(2) by (auto simp: encryptedBy_def vaultServices_def vaultService_def)
  then obtain t where e: "encrypt h env iv' p None = (Inr c, t)" by (cases "encrypt h env iv' p None") auto
  have d: "decrypt h env c t = (Inr p, t)"
    using decrypt_encrypt_lemma [OF assms(1) iv(1) assms(4) _ e] assms(3) by (simp add: cacheFor_def)
  obtain k u where k: "getKey h env None = (Inr k, u)" using e by (auto simp: encrypt_def bindA_Inr)
  then have l: "loadKey h env = Inr (Some k)" "u = Some (Some k)"
    using getKey_Inr [OF k] by (simp_all add: cacheFor_def)
  have "t = Some (Some k)" using e k l by (auto simp: encrypt_def bindA_def split: prod.splits)
  then show ?thesis using d decrypt_fresh [OF l(1), of c] by (simp add: vaultService_def)
qed

section \<open>Properties\<close>


definition sampleCall :: secret_call where
  "sampleCall = \<lparr> sx_crypto = vaultService toy_vault vaultEnv (replicate 12 0), sx_double = id, sx_now = 0, sx_newId = ''s1'' \<rparr>"

definition sampleSecret :: create_secret_input where
  "sampleSecret = \<lparr> si_name = ''Deploy key'', si_type = ''generic'', si_valueSource = None, si_value = Some ''hunter2'',
     si_opRef = None, si_opDisplay = JUndef, si_hostPattern = ''api.acme.com'', si_pathPattern = None,
     si_injectionConfig = JObj [(''headerName'', JStr ''X-Key'')] \<rparr>"

lemma sample_trims: "trim ''Deploy key'' = ''Deploy key''" "trim ''hunter2'' = ''hunter2''" "trim ''api.acme.com'' = ''api.acme.com''"
  "trim ''X-Key'' = ''X-Key''" "trim '' '' = ''''" "trim ''evil.com'' = ''evil.com''"
  by code_simp+

lemma sample_encrypts: "\<exists>c. cs_encrypt (sx_crypto sampleCall) ''hunter2'' = Inr c"
  by (simp add: sampleCall_def vaultService_def encrypt_def getKey_def bindA_def)

lemma sample_created:
  "\<exists>c. snd (createSecret sampleCall (project_scope ''p1'') sampleSecret []) =
     [secretRow sampleCall \<lparr>so_scope = ''project'', so_projectId = Some ''p1'', so_organizationId = None, so_partnerId = None\<rparr>
        ''Deploy key'' ''generic'' ''inline'' (Some c) None ''api.acme.com'' None
        (JObj [(''headerName'', JStr ''X-Key''), (''valueFormat'', JStr ''{value}'')]) JNull]"
proof -
  obtain c where c: "cs_encrypt (sx_crypto sampleCall) ''hunter2'' = Inr c" using sample_encrypts by blast
  have l: "u16length ''Deploy key'' = 10" by code_simp
  show ?thesis
    by (rule exI [of _ c])
      (simp add: createSecret_def sampleSecret_def sample_trims l c isHeaderInjection_def isParamInjection_def trimField_def
        trimOr_def buildInjectionConfig_def trimOrNull_def buildMetadata_def scopeCreate_def set_nonempty_def Let_def)
qed


text \<open>The updates that name one thing.\<close>

definition noUpdate :: update_secret_input where
  "noUpdate = \<lparr> us_name = None, us_valueSource = None, us_value = None, us_opRef = None, us_opDisplay = JUndef,
     us_hostPattern = None, us_pathPattern = None, us_injectionConfig = JUndef \<rparr>"

lemma update_found:
  assumes "findSecret scope k t = (Inr r, t)"
  shows "updateSecret call scope k input t =
    (case bindR (platformGuard r input) (\<lambda>_. bindR (nameData input) (\<lambda>d. bindR (valueData call scope r input d) (restData r input))) of
       Inl e \<Rightarrow> (Inl e, t)
     | Inr d \<Rightarrow> (Inr (), map (\<lambda>x. if sec_id x = k then applyData d x else x) t))"
  using assms by (simp add: updateSecret_def bindA_def split: sum.split)

text \<open>C37. Two checks of a creation that an update does not make. A generic secret is never created with a blank
  header name, but one in the table can be given it. The key of a model resolved from 1Password is bound to the
  host of its provider, but an update that also names a host binds it to that host.\<close>

theorem secret_updates_escape:
  assumes "findSecret scope k t = (Inr r, t)" "\<not> sec_isPlatform r" "trim n = ''''"
    and "trim h \<noteq> ''''" "set_nonempty (sc_projectId scope)" "set_nonempty ref"
  shows "(si_type input = ''generic'' \<longrightarrow> si_injectionConfig input = JObj [(''headerName'', JStr n)] \<longrightarrow>
      (\<exists>e. createSecret call scope input t = (Inl e, t))) \<and>
    (sec_type r = ''generic'' \<longrightarrow>
      updateSecret call scope k (noUpdate\<lparr>us_injectionConfig := JObj [(''headerName'', JStr n)]\<rparr>) t =
        (Inr (), map (\<lambda>x. if sec_id x = k
            then x\<lparr>sec_injectionConfig := JObj [(''headerName'', JStr ''''), (''valueFormat'', JStr ''{value}'')]\<rparr> else x) t)) \<and>
    (sec_type r = ''anthropic'' \<longrightarrow>
      (\<exists>t'. updateSecret call scope k (noUpdate\<lparr>us_valueSource := Some ''onepassword'', us_opRef := ref, us_hostPattern := Some h\<rparr>) t = (Inr (), t') \<and>
         (\<forall>x \<in> set t'. sec_id x = k \<longrightarrow> sec_valueSource x = ''onepassword'' \<and> sec_hostPattern x = trim h)))"
proof (intro conjI)
  have data: "d \<noteq> noData" if "sd_hostPattern d \<noteq> None \<or> sd_injectionConfig d \<noteq> None" for d
    using that by (auto simp: noData_def)
  show "si_type input = ''generic'' \<longrightarrow> si_injectionConfig input = JObj [(''headerName'', JStr n)] \<longrightarrow>
      (\<exists>e. createSecret call scope input t = (Inl e, t))"
    using assms(3) by (simp add: createSecret_def Let_def isHeaderInjection_def isParamInjection_def trimField_def)
  show "sec_type r = ''generic'' \<longrightarrow>
      updateSecret call scope k (noUpdate\<lparr>us_injectionConfig := JObj [(''headerName'', JStr n)]\<rparr>) t =
        (Inr (), map (\<lambda>x. if sec_id x = k
            then x\<lparr>sec_injectionConfig := JObj [(''headerName'', JStr ''''), (''valueFormat'', JStr ''{value}'')]\<rparr> else x) t)"
    using assms(2,3) unfolding update_found [OF assms(1)]
    by (simp add: platformGuard_def nameData_def valueData_def restData_def noUpdate_def Let_def data
        isHeaderInjection_def isParamInjection_def buildInjectionConfig_def trimField_def trimOr_def applyData_def)
      (simp add: noData_def)
  show "sec_type r = ''anthropic'' \<longrightarrow>
      (\<exists>t'. updateSecret call scope k (noUpdate\<lparr>us_valueSource := Some ''onepassword'', us_opRef := ref, us_hostPattern := Some h\<rparr>) t = (Inr (), t') \<and>
         (\<forall>x \<in> set t'. sec_id x = k \<longrightarrow> sec_valueSource x = ''onepassword'' \<and> sec_hostPattern x = trim h))"
  proof
    assume ty: "sec_type r = ''anthropic''"
    let ?D = "noData\<lparr> sd_valueSource := Some ''onepassword'', sd_encryptedValue := Some None, sd_opRef := Some ref,
      sd_hostPattern := Some (trim h), sd_metadata := Some (buildOnePasswordMetadata ''anthropic'' JUndef) \<rparr>"
    let ?u = "noUpdate\<lparr>us_valueSource := Some ''onepassword'', us_opRef := ref, us_hostPattern := Some h\<rparr>"
    let ?t = "map (\<lambda>x. if sec_id x = k then applyData ?D x else x) t"
    have "valueData call scope r ?u noData = Inr (?D\<lparr>sd_hostPattern := Some ''api.anthropic.com''\<rparr>)"
      using assms(2,5,6) ty by (simp add: valueData_def noUpdate_def noData_def)
    moreover have "restData r ?u (?D\<lparr>sd_hostPattern := Some ''api.anthropic.com''\<rparr>) = Inr ?D"
      using assms(4) by (simp add: restData_def noUpdate_def Let_def noData_def)
    ultimately have "updateSecret call scope k ?u t = (Inr (), ?t)"
      using assms(2) unfolding update_found [OF assms(1)] by (simp add: platformGuard_def nameData_def noUpdate_def)
    moreover have "sec_valueSource (applyData ?D x) = ''onepassword'' \<and> sec_hostPattern (applyData ?D x) = trim h" for x
      by (simp add: applyData_def)
    then have "\<forall>x \<in> set ?t. sec_id x = k \<longrightarrow> sec_valueSource x = ''onepassword'' \<and> sec_hostPattern x = trim h"
      by (simp only: set_map ball_simps) (simp del: applyData_values)
    ultimately show "\<exists>t'. updateSecret call scope k ?u t = (Inr (), t') \<and>
         (\<forall>x \<in> set t'. sec_id x = k \<longrightarrow> sec_valueSource x = ''onepassword'' \<and> sec_hostPattern x = trim h)" by blast
  qed
qed

definition refRow :: "string \<Rightarrow> string \<Rightarrow> secret_row" where
  "refRow i ty = secretRow (sampleCall\<lparr>sx_newId := i\<rparr>) \<lparr>so_scope = ''project'', so_projectId = Some ''p1'', so_organizationId = None, so_partnerId = None\<rparr>
     ''Key'' ty ''onepassword'' None (Some ''op://v/i/f'') ''api.acme.com'' None JNull (buildOnePasswordMetadata ty JUndef)"

theorem secret_updates_escape_witness:
  "(\<exists>t'. updateSecret sampleCall (project_scope ''p1'') ''g'' (noUpdate\<lparr>us_injectionConfig := JObj [(''headerName'', JStr '' '')]\<rparr>)
      [refRow ''g'' ''generic'', refRow ''a'' ''anthropic''] = (Inr (), t')) \<and>
   (\<exists>t'. updateSecret sampleCall (project_scope ''p1'') ''a''
      (noUpdate\<lparr>us_valueSource := Some ''onepassword'', us_opRef := Some ''op://v/i/f'', us_hostPattern := Some ''evil.com''\<rparr>)
      [refRow ''g'' ''generic'', refRow ''a'' ''anthropic''] = (Inr (), t') \<and> (\<forall>x \<in> set t'. sec_id x = ''a'' \<longrightarrow> sec_hostPattern x = ''evil.com''))"
proof -
  let ?t = "[refRow ''g'' ''generic'', refRow ''a'' ''anthropic'']" and ?s = "project_scope ''p1''"
  have f: "findSecret ?s ''g'' ?t = (Inr (refRow ''g'' ''generic''), ?t)" "findSecret ?s ''a'' ?t = (Inr (refRow ''a'' ''anthropic''), ?t)"
    by (simp_all add: findSecret_def scopeOwnership_def set_nonempty_def refRow_def secretRow_def)
  have p: "\<not> sec_isPlatform (refRow i ty)" "sec_type (refRow i ty) = ty" for i ty by (simp_all add: refRow_def secretRow_def)
  have n: "trim ''evil.com'' \<noteq> ''''" "set_nonempty (sc_projectId ?s)" "set_nonempty (Some ''op://v/i/f'')"
    by (simp_all add: sample_trims set_nonempty_def)
  from secret_updates_escape [OF f(1) p(1) sample_trims(5) n, where call = sampleCall]
    secret_updates_escape [OF f(2) p(1) sample_trims(5) n, where call = sampleCall]
  show ?thesis unfolding p(2) sample_trims by fastforce
qed

end
