(* ===== verification/Connection_Props.thy ===== *)
theory Connection_Props
  imports Connections Secret_Props
begin

text \<open>
  What holds of app configurations and connections: a configuration that is saved is read back, and every change
  of it drops the connections made with the old client; a connection that is renewed keeps its provider.
\<close>

section \<open>Collected fields\<close>

lemma collect_eq:
  assumes "distinct (map of_name defs)"
  shows "collect b vals defs =
    map (\<lambda>f. (of_name f, JStr (the (vals (of_name f))))) (filter (\<lambda>f. of_secret f = b \<and> set_nonempty (vals (of_name f))) defs)"
proof -
  let ?P = "\<lambda>f. of_secret f = b \<and> set_nonempty (vals (of_name f))" and ?g = "\<lambda>f. (of_name f, JStr (the (vals (of_name f))))"
  have "fold (\<lambda>f acc. if ?P f then oset (of_name f) (JStr (the (vals (of_name f)))) acc else acc) defs acc = acc @ map ?g (filter ?P defs)"
    if "\<forall>f \<in> set defs. of_name f \<notin> fst ` set acc" "distinct (map of_name defs)" for acc
    using that
  proof (induction defs arbitrary: acc)
    case (Cons f defs)
    have "oset k v acc = acc @ [(k, v)]" if "k \<notin> fst ` set acc" for k v
      using that by (induction k v acc rule: oset.induct) auto
    then have o: "oset (of_name f) v acc = acc @ [(of_name f, v)]" for v using Cons.prems(1) by simp
    show ?case
    proof (cases "?P f")
      case True
      have "of_name g \<noteq> of_name f" if "g \<in> set defs" for g using Cons.prems(2) that by (metis distinct.simps(2) image_eqI list.simps(9) set_map)
      then have "\<forall>g \<in> set defs. of_name g \<notin> fst ` set (acc @ [?g f])" using Cons.prems(1) by simp
      from Cons.IH [OF this] Cons.prems(2) True o show ?thesis by simp
    next
      case False
      have "\<forall>g \<in> set defs. of_name g \<notin> fst ` set acc" using Cons.prems(1) by simp
      from Cons.IH [OF this] Cons.prems(2) False show ?thesis by auto
    qed
  qed simp
  from this [of "[]"] assms show ?thesis by (simp add: collect_def)
qed

lemma collect_oget:
  assumes "distinct (map of_name defs)" "f \<in> set defs" "set_nonempty (vals (of_name f))"
  shows "oget (collect (of_secret f) vals defs) (of_name f) = JStr (the (vals (of_name f)))"
    and "of_name f \<in> fst ` set (collect (of_secret f) vals defs)"
    and "of_secret f \<noteq> b \<Longrightarrow> of_name f \<notin> fst ` set (collect b vals defs)"
proof -
  let ?c = "collect (of_secret f) vals defs"
  have m: "(of_name f, JStr (the (vals (of_name f)))) \<in> set ?c" using assms by (auto simp: collect_eq)
  then show "of_name f \<in> fst ` set ?c" by force
  note m
  moreover have "distinct (map fst ?c)" using assms(1) by (simp add: collect_eq comp_def distinct_map_filter)
  ultimately show "oget ?c (of_name f) = JStr (the (vals (of_name f)))" by (simp add: oget_def)
  show "of_secret f \<noteq> b \<Longrightarrow> of_name f \<notin> fst ` set (collect b vals defs)"
    using assms(1,2) by (auto simp: collect_eq distinct_map inj_on_def)
qed

lemma collect_document:
  assumes "distinct (map of_name defs)" "\<forall>f \<in> set defs. \<not> isIndex (of_name f)"
    and "\<forall>f \<in> set defs. wellFormed (of_name f) \<and> (\<forall>v. vals (of_name f) = Some v \<longrightarrow> wellFormed v)"
  shows "is_json (JObj (collect b vals defs))" "parse_stable dbl (JObj (collect b vals defs))"
proof -
  show "is_json (JObj (collect b vals defs))" using assms(1) by (auto simp: collect_eq)
  have "orderKeys (collect b vals defs) = collect b vals defs"
  proof -
    have "\<forall>p \<in> set (collect b vals defs). \<not> isIndex (fst p)" using assms by (auto simp: collect_eq)
    then have "filter (\<lambda>p. isIndex (fst p)) (collect b vals defs) = []"
      "filter (\<lambda>p. \<not> isIndex (fst p)) (collect b vals defs) = collect b vals defs"
      by (simp_all add: filter_empty_conv filter_id_conv)
    then show ?thesis by (simp add: orderKeys_def)
  qed
  then show "parse_stable dbl (JObj (collect b vals defs))"
    using assms(1,3) by (auto simp: collect_eq comp_def distinct_map_filter set_nonempty_def split: option.splits)
qed

lemma oget_ospread:
  "distinct (map fst b) \<Longrightarrow> oget (ospread a b) k = (if k \<in> fst ` set b then oget b k else oget a k)"
proof (induction b arbitrary: a)
  case (Cons p b)
  obtain k' v where p: "p = (k', v)" by (cases p)
  then show ?case using Cons.IH [of "oset k' v a"] Cons.prems by (auto simp: oget_def [of b k] dest: map_of_SomeD)
qed simp

section \<open>The row of a configuration\<close>

lemma find_map_keyed:
  assumes "\<And>r. keyed k (g r) = keyed k r"
  shows "find (keyed k) (map (\<lambda>r. if keyed k r then g r else r) t) = map_option g (find (keyed k) t)"
  using assms by (induction t) simp_all

definition savedRow :: "app_call \<Rightarrow> string \<Rightarrow> string \<Rightarrow> js \<Rightarrow> string option \<Rightarrow> config_row option \<Rightarrow> config_row" where
  "savedRow call p provider settings credentials old =
     (case old of
        None \<Rightarrow> configRow call \<lparr>so_scope = ''project'', so_projectId = Some p, so_organizationId = None, so_partnerId = None\<rparr>
          provider settings credentials
      | Some r \<Rightarrow> r\<lparr> cf_enabled := True, cf_settings := Some settings,
          cf_credentials := (case credentials of None \<Rightarrow> cf_credentials r | Some c \<Rightarrow> Some c) \<rparr>)"

lemma project_key [simp]: "p \<noteq> '''' \<Longrightarrow> appConfigKey (project_scope p) provider = Inr (Project_provider p provider)"
  by (simp add: appConfigKey_def set_nonempty_def)

lemma project_create [simp]:
  "p \<noteq> '''' \<Longrightarrow> scopeCreate (project_scope p) =
     Inr \<lparr>so_scope = ''project'', so_projectId = Some p, so_organizationId = None, so_partnerId = None\<rparr>"
  by (simp add: scopeCreate_def set_nonempty_def)

lemma findConfig_project [simp]:
  "p \<noteq> '''' \<Longrightarrow> findConfig (project_scope p) provider st = (Inr (find (keyed (Project_provider p provider)) (ap_configs st)), st)"
  by (simp add: findConfig_def)

lemma bind_findConfig [simp]:
  "p \<noteq> '''' \<Longrightarrow> bindA (findConfig (project_scope p) provider) f st = f (find (keyed (Project_provider p provider)) (ap_configs st)) st"
  by (simp add: bindA_def)

lemma find_snoc: "find P t = None \<Longrightarrow> P x \<Longrightarrow> find P (t @ [x]) = Some x"
  by (induction t) (auto split: if_splits)

lemma upsertConfig_find:
  assumes "p \<noteq> ''''" "upsertConfig call (project_scope p) provider settings credentials st = (Inr (), st')"
  shows "find (keyed (Project_provider p provider)) (ap_configs st') =
      Some (savedRow call p provider settings credentials (find (keyed (Project_provider p provider)) (ap_configs st)))"
    "ap_connections st' = ap_connections st"
proof -
  let ?k = "Project_provider p provider"
  have old: "list_ex (keyed ?k) (ap_configs st) \<longleftrightarrow> find (keyed ?k) (ap_configs st) \<noteq> None"
    by (auto simp: list_ex_iff find_None_iff)
  have st': "st' = (if list_ex (keyed ?k) (ap_configs st)
       then st\<lparr>ap_configs := map (\<lambda>r. if keyed ?k r
              then r\<lparr> cf_enabled := True, cf_settings := Some settings,
                      cf_credentials := (case credentials of None \<Rightarrow> cf_credentials r | Some c \<Rightarrow> Some c) \<rparr> else r) (ap_configs st)\<rparr>
       else st\<lparr>ap_configs := ap_configs st @ [savedRow call p provider settings credentials None]\<rparr>)"
    using assms(2) unfolding upsertConfig_def project_key [OF assms(1)] project_create [OF assms(1)]
    by (auto simp add: savedRow_def simp del: keyed.simps)
  show "ap_connections st' = ap_connections st" unfolding st' by simp
  show "find (keyed ?k) (ap_configs st') = Some (savedRow call p provider settings credentials (find (keyed ?k) (ap_configs st)))"
  proof (cases "find (keyed ?k) (ap_configs st)")
    case None
    then have "find (keyed ?k) (ap_configs st @ [savedRow call p provider settings credentials None]) =
        Some (savedRow call p provider settings credentials None)"
      by (rule find_snoc) (simp add: savedRow_def configRow_def)
    then show ?thesis using None old unfolding st' by simp
  next
    case (Some r)
    let ?g = "\<lambda>r. r\<lparr> cf_enabled := True, cf_settings := Some settings,
      cf_credentials := (case credentials of None \<Rightarrow> cf_credentials r | Some c \<Rightarrow> Some c) \<rparr>"
    have "find (keyed ?k) (map (\<lambda>r. if keyed ?k r then ?g r else r) (ap_configs st)) = map_option ?g (find (keyed ?k) (ap_configs st))"
      by (rule find_map_keyed) simp
    then show ?thesis using Some old unfolding st' by (simp add: savedRow_def del: keyed.simps)
  qed
qed

section \<open>Saving and reading back\<close>

lemma keyed_savedRow: "p \<noteq> '''' \<Longrightarrow> cf_enabled (savedRow call p provider settings credentials old)"
  "cf_settings (savedRow call p provider settings credentials old) = Some settings"
  "cf_credentials (savedRow call p provider settings (Some c) old) = Some c"
  "cf_credentials (savedRow call p provider settings None (Some r)) = cf_credentials r"
  by (simp_all add: savedRow_def configRow_def split: option.split)

lemma upsert_stages:
  assumes "p \<noteq> ''''" "upsertAppConfig call (project_scope p) provider vals defs st = (Inr (), st')"
  obtains encrypted where
    "if collect True vals defs \<noteq> [] then \<exists>c. encryptJson call (JObj (collect True vals defs)) = Inr c \<and> encrypted = Some c
     else encrypted = (case find (keyed (Project_provider p provider)) (ap_configs st) of None \<Rightarrow> None
       | Some r \<Rightarrow> if set_nonempty (cf_credentials r) then cf_credentials r else None)"
    "upsertConfig call (project_scope p) provider (JObj (collect False vals defs)) encrypted
       (st\<lparr>ap_connections := filter (\<lambda>r. \<not> (selects (Project_rows p) r \<and> cx_provider r = provider)) (ap_connections st)\<rparr>) = (Inr (), st')"
  using assms
  by (cases "collect True vals defs = []"; cases "encryptJson call (JObj (collect True vals defs))")
    (auto simp add: upsertAppConfig_def Let_def bindA_assoc disconnectIfConnected_def bind_findConfig simp del: keyed.simps selects.simps)

text \<open>C38. After a configuration of an app is saved in a project: no connection of the project to the app is left;
  every field that was given reads back with its value, the secret ones decrypted (texts without lone surrogates); and
  when no secret field was given the credentials saved before are kept.\<close>

theorem config_roundtrip:
  assumes "p \<noteq> ''''" "upsertAppConfig call (project_scope p) provider vals defs st = (Inr (), st')"
    and "distinct (map of_name defs)" "\<forall>f \<in> set defs. \<not> isIndex (of_name f)"
    and "\<forall>f \<in> set defs. wellFormed (of_name f) \<and> (\<forall>v. vals (of_name f) = Some v \<longrightarrow> wellFormed v)"
    and "\<And>c. cs_encrypt (px_crypto call) (render (JObj (collect True vals defs))) = Inr c \<Longrightarrow>
      c \<noteq> '''' \<and> cs_decrypt (px_crypto call) c = Inr (render (JObj (collect True vals defs)))"
  shows "(\<forall>r \<in> set (ap_connections st'). \<not> (selects (Project_rows p) r \<and> cx_provider r = provider)) \<and>
    (collect True vals defs \<noteq> [] \<longrightarrow>
      (\<exists>v. getAppConfigCredentials call (project_scope p) provider st' = (Inr (Some v), st') \<and>
        (\<forall>f \<in> set defs. set_nonempty (vals (of_name f)) \<longrightarrow> jsProp v (of_name f) = JStr (the (vals (of_name f)))))) \<and>
    (collect True vals defs = [] \<longrightarrow>
      (\<forall>r. find (keyed (Project_provider p provider)) (ap_configs st) = Some r \<longrightarrow> set_nonempty (cf_credentials r) \<longrightarrow>
        (\<exists>r'. find (keyed (Project_provider p provider)) (ap_configs st') = Some r' \<and> cf_credentials r' = cf_credentials r)))"
proof -
  let ?k = "Project_provider p provider" and ?S = "collect True vals defs" and ?P = "collect False vals defs"
  let ?st = "st\<lparr>ap_connections := filter (\<lambda>r. \<not> (selects (Project_rows p) r \<and> cx_provider r = provider)) (ap_connections st)\<rparr>"
  obtain enc where enc: "if ?S \<noteq> [] then \<exists>c. encryptJson call (JObj ?S) = Inr c \<and> enc = Some c
      else enc = (case find (keyed ?k) (ap_configs st) of None \<Rightarrow> None
        | Some r \<Rightarrow> if set_nonempty (cf_credentials r) then cf_credentials r else None)"
    and up: "upsertConfig call (project_scope p) provider (JObj ?P) enc ?st = (Inr (), st')"
    by (rule upsert_stages [OF assms(1,2)])
  define row where "row = savedRow call p provider (JObj ?P) enc (find (keyed ?k) (ap_configs st))"
  have found: "find (keyed ?k) (ap_configs st') = Some row"
    using upsertConfig_find(1) [OF assms(1) up] by (simp add: row_def)
  have "ap_connections st' = ap_connections ?st" by (rule upsertConfig_find(2) [OF assms(1) up])
  then have disconnected: "\<forall>r \<in> set (ap_connections st'). \<not> (selects (Project_rows p) r \<and> cx_provider r = provider)" by auto
  note doc = collect_document [OF assms(3,4,5)]
  have "\<exists>v. getAppConfigCredentials call (project_scope p) provider st' = (Inr (Some v), st') \<and>
      (\<forall>f \<in> set defs. set_nonempty (vals (of_name f)) \<longrightarrow> jsProp v (of_name f) = JStr (the (vals (of_name f))))" if ne: "?S \<noteq> []"
  proof -
    obtain c where c: "encryptJson call (JObj ?S) = Inr c" "enc = Some c" using enc ne by auto
    have "cs_encrypt (px_crypto call) (render (JObj ?S)) = Inr c"
      using c(1) stringify_json [OF doc(1), of True] unfolding encryptJson_def by simp
    then have op: "c \<noteq> ''''" "cs_decrypt (px_crypto call) c = Inr (render (JObj ?S))" using assms(6) by blast+
    let ?v = "JObj (ospread (ospread [] ?P) ?S)"
    have row: "cf_enabled row" "cf_credentials row = Some c" "settingsOf row = JObj ?P"
      using c(2) keyed_savedRow assms(1) by (simp_all add: row_def settingsOf_def nullish_def)
    have "JSON_parse (px_double call) (render (JObj ?S)) = Inr (JObj ?S)" by (rule JSON_parse_render [OF doc])
    then have read: "getAppConfigCredentials call (project_scope p) provider st' = (Inr (Some ?v), st')"
      using row op found assms(1)
      by (simp add: getAppConfigCredentials_def bindA_def set_nonempty_def spreadOf_def del: keyed.simps)
    have d: "distinct (map fst (collect b vals defs))" for b
      using assms(3) by (simp add: collect_eq comp_def distinct_map_filter)
    have "jsProp ?v (of_name f) = JStr (the (vals (of_name f)))" if f: "f \<in> set defs" "set_nonempty (vals (of_name f))" for f
      using collect_oget [where f = f and vals = vals and defs = defs, OF assms(3) f]
      by (cases "of_secret f") (simp_all add: oget_ospread [OF d])
    with read show ?thesis by blast
  qed
  moreover have "\<exists>r'. find (keyed ?k) (ap_configs st') = Some r' \<and> cf_credentials r' = cf_credentials r"
    if "?S = []" "find (keyed ?k) (ap_configs st) = Some r" "set_nonempty (cf_credentials r)" for r
  proof -
    have "enc = cf_credentials r" using enc that by simp
    then have "cf_credentials row = cf_credentials r" using that(2,3) by (auto simp: row_def savedRow_def set_nonempty_def)
    with found show ?thesis by blast
  qed
  ultimately show ?thesis using disconnected by blast
qed

section \<open>An example\<close>

lemma vault_nonempty: "cs_encrypt (vaultService h env iv) p = Inr c \<Longrightarrow> c \<noteq> ''''"
proof -
  assume "cs_encrypt (vaultService h env iv) p = Inr c"
  then obtain s where "encrypt h env iv p None = (Inr c, s)"
    by (cases "encrypt h env iv p None") (simp add: vaultService_def)
  then obtain k u where k: "(case aes_seal h k iv (utf8 p) of (e, a) \<Rightarrow> returnA (joinStr '':'' [to_base64 h iv, to_base64 h a, to_base64 h e])) u = (Inr c, s)"
    unfolding encrypt_def bindA_Inr by blast
  obtain e a where "aes_seal h k iv (utf8 p) = (e, a)" by (cases "aes_seal h k iv (utf8 p)")
  with k have "c = joinStr '':'' [to_base64 h iv, to_base64 h a, to_base64 h e]" by simp
  then show "c \<noteq> ''''" by auto
qed

definition appCall :: app_call where
  "appCall = \<lparr> px_crypto = vaultService toy_vault vaultEnv (replicate 12 0), px_double = id, px_now = 100000, px_newId = (\<lambda>n. ''new'' @ showNat n),
     px_lower = id, px_env = (\<lambda>_. None), px_beforeConnect = (\<lambda>_. Inr ()), px_beforeCreate = (\<lambda>_. Inr ()),
     px_rules = \<lparr> rc_gate = openGate, rc_now = 100000, rc_newId = (\<lambda>n. ''rule'' @ showNat n) \<rparr> \<rparr>"

definition clientFields :: "config_field list" where
  "clientFields = [\<lparr> of_name = ''clientId'', of_secret = False \<rparr>, \<lparr> of_name = ''clientSecret'', of_secret = True \<rparr>]"

definition clientValues :: "string \<Rightarrow> string option" where
  "clientValues = map_of [(''clientId'', ''id1''), (''clientSecret'', ''s3cret'')]"

definition githubRow :: connection_row where
  "githubRow = \<lparr> so_scope = ''project'', so_projectId = Some ''p1'', so_organizationId = None, so_partnerId = None, cx_id = ''c1'',
     cx_provider = ''github'', cx_label = Some ''ann'', cx_status = ''connected'', cx_credentials = Some ''old'', cx_scopes = [],
     cx_metadata = None, cx_connectedAt = 0 \<rparr>"

definition appState :: app_state where
  "appState = \<lparr> ap_connections = [githubRow], ap_configs = [], ap_rules = \<lparr> rs_rules = [], rs_agents = [] \<rparr>, ap_projects = [(''p1'', ''o1'')] \<rparr>"

lemma client_secret: "collect True clientValues clientFields = [(''clientSecret'', JStr ''s3cret'')]"
  by (simp add: collect_def clientFields_def clientValues_def set_nonempty_def)

lemma toy_encrypts: "\<exists>c. cs_encrypt (px_crypto appCall) t = Inr c"
  by (simp add: appCall_def vaultService_def encrypt_def getKey_def bindA_def)

lemma toy_opens: "cs_encrypt (px_crypto appCall) t = Inr c \<Longrightarrow> t \<noteq> '''' \<Longrightarrow> ascii t \<Longrightarrow> c \<noteq> '''' \<and> cs_decrypt (px_crypto appCall) c = Inr t"
proof -
  assume a: "cs_encrypt (px_crypto appCall) t = Inr c" "t \<noteq> ''''" "ascii t"
  have "encryptedBy (vaultServices toy_vault vaultEnv) t c"
    using a(1) unfolding encryptedBy_def vaultServices_def appCall_def
    by (intro exI [of _ "vaultService toy_vault vaultEnv (replicate 12 0)"] conjI exI [of _ "replicate 12 0"]) simp_all
  moreover have "is_utf8 t" using a(3) unfolding ascii_def by (rule utf8Decode_ascii)
  ultimately show ?thesis using vault_opens [OF toy_vault_documented _ a(2)] vault_nonempty a(1) by (auto simp: appCall_def)
qed

theorem config_roundtrip_witness:
  "\<exists>st'. upsertAppConfig appCall (project_scope ''p1'') ''github'' clientValues clientFields appState = (Inr (), st') \<and>
     githubRow \<notin> set (ap_connections st') \<and>
     (\<exists>v. getAppConfigCredentials appCall (project_scope ''p1'') ''github'' st' = (Inr (Some v), st') \<and>
        jsProp v ''clientId'' = JStr ''id1'' \<and> jsProp v ''clientSecret'' = JStr ''s3cret'')"
proof -
  let ?s = "project_scope ''p1''"
  have t: "JSON_stringify (JObj [(''clientSecret'', JStr ''s3cret'')]) = Inr (Some (render (JObj [(''clientSecret'', JStr ''s3cret'')])))"
    by (rule stringify_json) simp
  obtain c where c: "cs_encrypt (px_crypto appCall) (render (JObj [(''clientSecret'', JStr ''s3cret'')])) = Inr c"
    using toy_encrypts by blast
  have "\<exists>st'. upsertAppConfig appCall ?s ''github'' clientValues clientFields appState = (Inr (), st')"
    using t c by (simp add: upsertAppConfig_def Let_def client_secret encryptJson_def bindA_assoc disconnectIfConnected_def
        upsertConfig_def del: render.simps)
  then obtain st' where up: "upsertAppConfig appCall ?s ''github'' clientValues clientFields appState = (Inr (), st')" by blast
  have a: "ascii (render (JObj [(''clientSecret'', JStr ''s3cret'')]))" "render (JObj [(''clientSecret'', JStr ''s3cret'')]) \<noteq> ''''" by simp_all
  have d: "distinct (map of_name clientFields)" "\<forall>f \<in> set clientFields. \<not> isIndex (of_name f)"
    "\<forall>f \<in> set clientFields. wellFormed (of_name f) \<and> (\<forall>v. clientValues (of_name f) = Some v \<longrightarrow> wellFormed v)"
    by (simp_all add: clientFields_def clientValues_def isIndex_def isDigit_def)
  have g: "selects (Project_rows ''p1'') githubRow" "cx_provider githubRow = ''github''" by (simp_all add: githubRow_def)
  from config_roundtrip [OF _ up d] toy_opens [OF _ a(2,1)] g
  have "(\<forall>r \<in> set (ap_connections st'). \<not> (selects (Project_rows ''p1'') r \<and> cx_provider r = ''github'')) \<and>
    (\<exists>v. getAppConfigCredentials appCall ?s ''github'' st' = (Inr (Some v), st') \<and>
        (\<forall>f \<in> set clientFields. set_nonempty (clientValues (of_name f)) \<longrightarrow> jsProp v (of_name f) = JStr (the (clientValues (of_name f)))))"
    by (simp add: client_secret)
  then show ?thesis using up g by (auto simp: clientFields_def clientValues_def set_nonempty_def)
qed

end
