(* ===== verification/App_Route_Props.thy ===== *)
theory App_Route_Props
  imports App_Routes Connection_Props Policy_Runs
begin

text \<open>
  Whose connections the routes of an app touch: a callback changes nothing but the project its signed state names,
  and does not ask whose browser it comes from; a connection can be renewed with credentials of another app.
\<close>

section \<open>What stays outside a project\<close>

definition outside :: "string \<Rightarrow> 'a scoped_scheme list \<Rightarrow> 'a scoped_scheme list" where
  "outside p rows = filter (\<lambda>r. \<not> selects (Project_rows p) r) rows"

text \<open>The rows of other projects are those of the tables at the start, and no row of the project has an id of theirs.\<close>

definition framed :: "string \<Rightarrow> app_state \<Rightarrow> app_state \<Rightarrow> bool" where
  "framed p s t \<longleftrightarrow>
     outside p (ap_connections t) = outside p (ap_connections s) \<and>
     (\<forall>r \<in> set (ap_connections t). selects (Project_rows p) r \<longrightarrow> cx_id r \<notin> cx_id ` set (outside p (ap_connections s))) \<and>
     outside p (rs_rules (ap_rules t)) = outside p (rs_rules (ap_rules s)) \<and>
     ap_configs t = ap_configs s \<and> ap_projects t = ap_projects s"

definition idsApart :: "string \<Rightarrow> app_state \<Rightarrow> bool" where
  "idsApart p s \<longleftrightarrow> (\<forall>r \<in> set (ap_connections s). selects (Project_rows p) r \<longrightarrow> cx_id r \<notin> cx_id ` set (outside p (ap_connections s)))"

lemma framed_refl: "idsApart p s \<Longrightarrow> framed p s s"
  by (simp add: framed_def idsApart_def)

text \<open>Actions that only read.\<close>

lemma keeps_reads:
  "keeps I (listConnectionsByProvider scope provider)" "keeps I (findConnection scope k)" "keeps I (findConfig scope provider)"
  by (auto simp: listConnectionsByProvider_def findConnection_def findConfig_def intro!: keeps_rules)

lemma keeps_resolve: "keeps I (resolveAppCredentials call projectId app)"
  unfolding resolveAppCredentials_def getAppConfigCredentials_def Let_def
  by (intro keeps_rules keeps_reads) (auto split: sum.split intro!: keeps_rules)

lemma keeps_target: "keeps I (reconnectTarget call scope provider state metadata)"
  unfolding reconnectTarget_def Let_def by (intro keeps_rules keeps_reads)

lemma findConnection_Inr:
  assumes "p \<noteq> ''''" "findConnection (project_scope p) k st = (Inr r, t)"
  shows "t = st \<and> r \<in> set (ap_connections st) \<and> cx_id r = k \<and> selects (Project_rows p) r"
proof -
  have "scopeOwnership (project_scope p) k = Inr (k, Project_rows p)" using assms(1) by (simp add: scopeOwnership_def set_nonempty_def)
  with assms(2) show ?thesis
    by (auto simp: findConnection_def find_Some_iff split: option.splits simp del: selects.simps)
qed

lemma keeps_create:
  assumes "p \<noteq> ''''" "px_newId call 0 \<notin> cx_id ` set (outside p (ap_connections s))"
  shows "keeps (framed p s) (createConnection call (project_scope p) provider credentials opts)"
proof -
  have new: "px_newId call 0 \<notin> cx_id ` {x \<in> set (ap_connections s). \<not> selects (Project_rows p) x}"
    using assms(2) by (simp add: outside_def)
  show ?thesis unfolding createConnection_def project_create [OF assms(1)] Let_def
  proof (intro keeps_lift keeps_bind keeps_pure keeps_write)
    fix encrypted owner t
    assume o: "Inr \<lparr>so_scope = ''project'', so_projectId = Some p, so_organizationId = None, so_partnerId = None\<rparr> = Inr owner"
      and I: "framed p s t"
    then have "so_projectId owner = Some p" by auto
    then show "framed p s (t\<lparr>ap_connections := ap_connections t @
        [\<lparr> so_scope = so_scope owner, so_projectId = so_projectId owner, so_organizationId = so_organizationId owner,
           so_partnerId = so_partnerId owner, cx_id = px_newId call 0, cx_provider = provider,
           cx_label = textOr (co_label opts) (extractLabel (co_metadata opts)), cx_status = ''connected'',
           cx_credentials = Some encrypted, cx_scopes = orElse (co_scopes opts) [],
           cx_metadata = metadataColumn (co_metadata opts), cx_connectedAt = px_now call \<rparr>]\<rparr>)"
      using I new by (auto simp: framed_def outside_def)
  qed
qed

lemma keeps_update:
  assumes "\<And>r. cx_id (f r) = cx_id r" "\<And>r. selects (Project_rows p) (f r) = selects (Project_rows p) r"
    and "k \<notin> cx_id ` set (outside p (ap_connections s))"
  shows "keeps (framed p s) (updateConnection k f)"
proof -
  have "outside p (map (\<lambda>r. if cx_id r = k then f r else r) t) = outside p t" if "k \<notin> cx_id ` set (outside p t)" for t
    using that assms(2) by (induction t) (auto simp: outside_def simp del: selects.simps)
  then show ?thesis unfolding updateConnection_def using assms
    by (intro keeps_write) (auto simp: framed_def simp del: selects.simps)
qed

lemma keeps_reconnect:
  assumes "p \<noteq> ''''"
  shows "keeps (framed p s) (reconnectConnection call (project_scope p) k credentials opts)"
  unfolding keeps_def
proof (intro allI impI)
  fix t assume I: "framed p s t"
  obtain x u where f: "findConnection (project_scope p) k t = (x, u)" by (cases "findConnection (project_scope p) k t")
  show "framed p s (snd (reconnectConnection call (project_scope p) k credentials opts t))"
  proof (cases x)
    case (Inl e)
    have "framed p s u" using keeps_reads(2) [of "framed p s" "project_scope p" k] I f unfolding keeps_def by (metis snd_conv)
    then show ?thesis using f Inl by (simp add: reconnectConnection_def bindA_def)
  next
    case (Inr r)
    note fr = findConnection_Inr [OF assms, of k t r u] f Inr
    have id: "cx_id r \<notin> cx_id ` set (outside p (ap_connections s))" using fr I by (auto simp: framed_def simp del: selects.simps)
    have "keeps (framed p s) (bindA (liftA (encryptJson call credentials)) (\<lambda>encrypted.
        updateConnection (cx_id r) (reconnected (cx_label r) opts encrypted)))"
      by (intro keeps_bind keeps_pure keeps_update id) (simp_all add: reconnected_def)
    then show ?thesis using fr I unfolding keeps_def by (simp add: reconnectConnection_def bindA_def)
  qed
qed

lemma keeps_defaults:
  assumes "p \<noteq> ''''"
  shows "keeps (framed p s) (initDefaults call (project_scope p) provider app)"
proof -
  have "framed p s (snd (liftRules (\<lambda>rs. initBlocklistDefaults (px_rules call) rs (project_scope p) provider hosts) t))"
    if "framed p s t" for t hosts
  proof (cases "initBlocklistDefaults (px_rules call) (ap_rules t) (project_scope p) provider hosts")
    case (Inl e)
    then show ?thesis using that by (simp add: liftRules_def)
  next
    case (Inr rs)
    have w: "scopeWhere (project_scope p) = Inr (Project_rows p)" using assms by simp
    have sel: "selects (Project_rows p) r" if "r \<in> set (createHosts (px_rules call) owner provider 0 hs)"
      "scopeCreate (project_scope p) = Inr owner" for r hs owner
      using in_createHosts [OF that(1)] selects_owner [OF w that(2), of r] by auto
    have "rs = ap_rules t \<or> (\<exists>owner hs. scopeCreate (project_scope p) = Inr owner \<and>
        rs_rules rs = rs_rules (ap_rules t) @ createHosts (px_rules call) owner provider 0 hs)"
      using Inr unfolding initBlocklistDefaults_def Let_def bindR_Inr_iff
      by (auto simp: bindR_Inr_iff split: if_splits)
    then have "outside p (rs_rules rs) = outside p (rs_rules (ap_rules t))"
      using sel by (auto simp: outside_def filter_empty_conv simp del: selects.simps)
    then show ?thesis using that Inr by (simp add: liftRules_def framed_def)
  qed
  then show ?thesis unfolding initDefaults_def by (intro keeps_if keeps_pure) (simp add: keeps_def)
qed

lemma keeps_callbackFor:
  assumes "p \<noteq> ''''" "px_newId call 0 \<notin> cx_id ` set (outside p (ap_connections s))"
  shows "keeps (framed p s) (callbackFor call rq provider app exchange state p org)"
  unfolding callbackFor_def storeConnection_def Let_def
  by (intro keeps_rules keeps_reads keeps_resolve keeps_target keeps_reconnect keeps_create keeps_defaults assms)

section \<open>The callback\<close>

text \<open>The state a request brings: the parameter, or the cookie when there is none.\<close>

definition stateOf :: "callback_request \<Rightarrow> string option" where
  "stateOf rq = (case queryParam rq ''state'' of Some s \<Rightarrow> Some s | None \<Rightarrow> cb_cookie rq)"

lemma catch_pure: "catchA m (\<lambda>e. returnA (f e)) s = (case m s of (Inl e, t) \<Rightarrow> (Inr (f e), t) | (Inr x, t) \<Rightarrow> (Inr x, t))"
  by (simp add: catchA_def split: prod.split sum.split)

text \<open>A callback that gets as far as the tables has a state that verifies.\<close>

lemma callbackBody_cases:
  obtains "snd (callbackBody h ve apps call rq provider st) = st"
    | app frag exchange raw state p org where "apps provider = Some app" "ad_method app = Oauth frag exchange" "stateOf rq = Some raw"
        "verifyOAuthState h ve raw = Some state" "jsProp state ''provider'' = JStr provider" "jsProp state ''projectId'' = JStr p"
        "p \<noteq> ''''" "map_of (ap_projects st) p = Some org"
        "callbackBody h ve apps call rq provider st = callbackFor call rq provider app exchange state p org st"
proof (cases "apps provider")
  case None
  then show ?thesis using that(1) by (simp add: callbackBody_def)
next
  case app: (Some app)
  show ?thesis
  proof (cases "ad_method app")
    case o: (Oauth frag exchange)
    show ?thesis
    proof (cases "set_nonempty (stateOf rq)")
      case False
      then show ?thesis using that(1) app o by (simp add: callbackBody_def stateOf_def Let_def)
    next
      case True
      then obtain raw where raw: "stateOf rq = Some raw" by (auto simp: set_nonempty_def)
      show ?thesis
      proof (cases "verifyOAuthState h ve raw")
        case None
        then show ?thesis using that(1) app o True raw by (simp add: callbackBody_def stateOf_def Let_def)
      next
        case v: (Some state)
        have body: "callbackBody h ve apps call rq provider st =
           (if \<not> truthy state \<or> jsProp state ''provider'' \<noteq> JStr provider then (Inr (Redirect_error ''Invalid state parameter''), st)
            else if \<not> truthy (jsProp state ''projectId'') then (Inr (Redirect_error ''Missing project in state''), st)
            else case idText (jsProp state ''projectId'') of Inl e \<Rightarrow> (Inl e, st)
              | Inr q \<Rightarrow> (case map_of (ap_projects st) q of None \<Rightarrow> (Inr (Redirect_error ''Project not found''), st)
                 | Some o' \<Rightarrow> callbackFor call rq provider app exchange state q o' st))"
          using app o True raw v by (auto simp: callbackBody_def stateOf_def [symmetric] Let_def split: sum.split option.split)
        show ?thesis
        proof (cases "truthy state \<and> jsProp state ''provider'' = JStr provider \<and> truthy (jsProp state ''projectId'') \<and>
            (\<exists>q o'. jsProp state ''projectId'' = JStr q \<and> map_of (ap_projects st) q = Some o')")
          case False
          then show ?thesis using that(1) unfolding body
            by (auto simp: idText_def split: js.splits option.splits)
        next
          case ok: True
          then obtain q o' where q: "jsProp state ''projectId'' = JStr q" "map_of (ap_projects st) q = Some o'" by blast
          then have "q \<noteq> ''''" using ok by auto
          moreover have "callbackBody h ve apps call rq provider st = callbackFor call rq provider app exchange state q o' st"
            unfolding body using ok q by (simp add: idText_def)
          ultimately show ?thesis using that(2) app o raw v ok q by blast
        qed
      qed
    qed
  qed (use that(1) app in \<open>simp_all add: callbackBody_def\<close>)
qed

text \<open>C39. The callback of an OAuth flow is not authenticated: what it may do rests on the state it brings. It
  changes the tables only when that state verifies, names the provider of the URL and an existing project, and
  then it changes no connection and no rule of another project. But the state need not be the one of the
  browser: when the request brings one in its URL, the cookie that the flow set is not looked at.\<close>

theorem callback_authority:
  assumes "callbackRoute h ve apps call rq provider st = (r, st')"
    and "\<And>p. idsApart p st \<and> px_newId call 0 \<notin> cx_id ` set (outside p (ap_connections st))"
  shows "(st' = st \<or> (\<exists>raw state p org. stateOf rq = Some raw \<and> verifyOAuthState h ve raw = Some state \<and>
        jsProp state ''provider'' = JStr provider \<and> jsProp state ''projectId'' = JStr p \<and> map_of (ap_projects st) p = Some org \<and>
        framed p st st')) \<and>
    (queryParam rq ''state'' \<noteq> None \<longrightarrow> callbackRoute h ve apps call (rq\<lparr>cb_cookie := c\<rparr>) provider st = (r, st'))"
proof (intro conjI impI)
  have st': "st' = st \<or> st' = snd (callbackBody h ve apps call rq provider st)"
    using assms(1) by (auto simp: callbackRoute_def catch_pure split: if_splits prod.splits sum.splits)
  show "st' = st \<or> (\<exists>raw state p org. stateOf rq = Some raw \<and> verifyOAuthState h ve raw = Some state \<and>
        jsProp state ''provider'' = JStr provider \<and> jsProp state ''projectId'' = JStr p \<and> map_of (ap_projects st) p = Some org \<and>
        framed p st st')"
  proof (rule callbackBody_cases [of h ve apps call rq provider st])
    assume "snd (callbackBody h ve apps call rq provider st) = st"
    then show ?thesis using st' by simp
  next
    fix app frag exchange raw state p org
    assume a: "stateOf rq = Some raw" "verifyOAuthState h ve raw = Some state" "jsProp state ''provider'' = JStr provider"
      "jsProp state ''projectId'' = JStr p" "p \<noteq> ''''" "map_of (ap_projects st) p = Some org"
      "callbackBody h ve apps call rq provider st = callbackFor call rq provider app exchange state p org st"
    have "keeps (framed p st) (callbackFor call rq provider app exchange state p org)"
      by (rule keeps_callbackFor) (use a assms(2) in auto)
    then have "framed p st (snd (callbackBody h ve apps call rq provider st))"
      using framed_refl assms(2) unfolding a(7) keeps_def by blast
    then show ?thesis using a(1-4,6) st' by metis
  qed
  assume "queryParam rq ''state'' \<noteq> None"
  then obtain y where y: "queryParam rq ''state'' = Some y" by blast
  have same: "queryParam (rq\<lparr>cb_cookie := c\<rparr>) = queryParam rq" "callbackParams (rq\<lparr>cb_cookie := c\<rparr>) = callbackParams rq"
    by (rule ext) (simp_all add: queryParam_def callbackParams_def)
  have origin: "cb_origin (rq\<lparr>cb_cookie := c\<rparr>) = cb_origin rq" by simp
  have cf: "callbackFor call (rq\<lparr>cb_cookie := c\<rparr>) = callbackFor call rq"
    unfolding callbackFor_def same origin by (rule refl)
  have "callbackRoute h ve apps call (rq\<lparr>cb_cookie := c\<rparr>) provider = callbackRoute h ve apps call rq provider"
    unfolding callbackRoute_def callbackBody_def needsFragment_def same cf y option.case by (rule refl)
  then show "callbackRoute h ve apps call (rq\<lparr>cb_cookie := c\<rparr>) provider st = (r, st')" using assms(1) by simp
qed

definition sampleRequest :: callback_request where
  "sampleRequest = \<lparr> cb_params = [(''state'', ''forged''), (''code'', ''c'')], cb_cookie = None, cb_origin = ''https://api'' \<rparr>"

definition noApps :: registry where
  "noApps provider = (if provider = ''github''
     then Some \<lparr> ad_id = ''github'', ad_name = ''GitHub'', ad_available = True,
       ad_method = Oauth None (\<lambda>creds params uri. Inr \<lparr> xr_credentials = JObj [], xr_scopes = [], xr_metadata = JUndef \<rparr>),
       ad_configurable = Some (clientFields, []), ad_blocklist = [] \<rparr> else None)"

lemma appState_apart: "idsApart p appState \<and> px_newId appCall 0 \<notin> cx_id ` set (outside p (ap_connections appState))"
  by (simp add: idsApart_def outside_def appState_def appCall_def githubRow_def)

theorem callback_authority_witness:
  "callbackRoute toy_vault vaultEnv noApps appCall (sampleRequest\<lparr>cb_cookie := Some ''other''\<rparr>) ''github'' appState =
   callbackRoute toy_vault vaultEnv noApps appCall sampleRequest ''github'' appState"
proof -
  obtain r st' where r: "callbackRoute toy_vault vaultEnv noApps appCall sampleRequest ''github'' appState = (r, st')"
    by (cases "callbackRoute toy_vault vaultEnv noApps appCall sampleRequest ''github'' appState")
  have q: "queryParam sampleRequest ''state'' \<noteq> None" by (simp add: queryParam_def sampleRequest_def)
  from callback_authority [OF r appState_apart, where c = "Some ''other''"] q show ?thesis unfolding r by blast
qed

text \<open>C40. A connection can be renewed with the credentials of another app: the route finds the connection by its
  id, and the row it writes the credentials into keeps the app it had, whichever app they were typed in for.\<close>

theorem reconnect_crosses_apps:
  assumes "p \<noteq> ''''" "k \<noteq> ''''" "findConnection (project_scope p) k st = (Inr row, u)" "encryptJson call credentials = Inr c"
  shows "\<exists>st'. storeCredentials call p org provider (JStr k) credentials opts st = (Inr (), st') \<and>
    (\<forall>r' \<in> set (ap_connections st'). cx_id r' = k \<longrightarrow> cx_credentials r' = Some c \<and>
       (\<exists>r \<in> set (ap_connections st). cx_id r = k \<and> cx_provider r' = cx_provider r))"
proof -
  have row: "u = st" "cx_id row = k" using findConnection_Inr [OF assms(1,3)] by simp_all
  let ?f = "reconnected (cx_label row) opts c"
  let ?st = "st\<lparr>ap_connections := map (\<lambda>r. if cx_id r = k then ?f r else r) (ap_connections st)\<rparr>"
  have "storeCredentials call p org provider (JStr k) credentials opts st = (Inr (), ?st)"
    using assms(2-4) row by (simp add: storeCredentials_def idText_def reconnectConnection_def updateConnection_def bindA_def)
  moreover have f: "cx_id (?f r) = cx_id r" "cx_credentials (?f r) = Some c" "cx_provider (?f r) = cx_provider r" for r
    by (simp_all add: reconnected_def)
  have "cx_credentials r' = Some c \<and> (\<exists>r \<in> set (ap_connections st). cx_id r = k \<and> cx_provider r' = cx_provider r)"
    if r': "r' \<in> set (ap_connections ?st)" "cx_id r' = k" for r'
  proof -
    obtain r where r: "r \<in> set (ap_connections st)" "r' = (if cx_id r = k then ?f r else r)" using r'(1) by auto
    then have "cx_id r = k" using r'(2) by (metis f(1))
    then show ?thesis using r f(2,3) by auto
  qed
  ultimately show ?thesis by blast
qed

theorem reconnect_crosses_apps_witness:
  "\<exists>st' c. storeCredentials appCall ''p1'' ''o1'' ''stripe'' (JStr ''c1'') (JObj [(''access_token'', JStr ''sk'')])
       \<lparr> co_scopes = None, co_metadata = JUndef, co_label = None \<rparr> appState = (Inr (), st') \<and>
     (\<forall>r \<in> set (ap_connections st'). cx_id r = ''c1'' \<longrightarrow> cx_credentials r = Some c \<and> cx_provider r = ''github'')"
proof -
  have f: "findConnection (project_scope ''p1'') ''c1'' appState = (Inr githubRow, appState)"
    by (simp add: findConnection_def scopeOwnership_def set_nonempty_def appState_def githubRow_def)
  have "JSON_stringify (JObj [(''access_token'', JStr ''sk'')]) = Inr (Some (render (JObj [(''access_token'', JStr ''sk'')])))"
    by (rule stringify_json) simp
  then obtain c where c: "encryptJson appCall (JObj [(''access_token'', JStr ''sk'')]) = Inr c"
    using toy_encrypts [of "render (JObj [(''access_token'', JStr ''sk'')])"] by (auto simp: encryptJson_def)
  have g: "cx_provider r = ''github''" if "r \<in> set (ap_connections appState)" for r
    using that by (simp add: appState_def githubRow_def)
  let ?opts = "\<lparr> co_scopes = None, co_metadata = JUndef, co_label = None \<rparr>"
  have n: "''p1'' \<noteq> ''''" "''c1'' \<noteq> ''''" by simp_all
  obtain st' where s: "storeCredentials appCall ''p1'' ''o1'' ''stripe'' (JStr ''c1'') (JObj [(''access_token'', JStr ''sk'')]) ?opts appState = (Inr (), st')"
    "\<forall>r' \<in> set (ap_connections st'). cx_id r' = ''c1'' \<longrightarrow> cx_credentials r' = Some c \<and>
       (\<exists>r \<in> set (ap_connections appState). cx_id r = ''c1'' \<and> cx_provider r' = cx_provider r)"
    using reconnect_crosses_apps [OF n f c] by blast
  have "\<forall>r \<in> set (ap_connections st'). cx_id r = ''c1'' \<longrightarrow> cx_credentials r = Some c \<and> cx_provider r = ''github''"
    using s(2) g by fastforce
  then show ?thesis using s(1) by blast
qed

end
