(* ===== verification/Approval_Routes.thy ===== *)
theory Approval_Routes
  imports Approvals Authentication
begin

text \<open>
  The routes of the approvals: \<^verbatim>\<open>packages/api/src/routes/approvals.ts\<close> (a signed-in user),
  \<^verbatim>\<open>routes/openvtc-approvals.ts\<close> (a wallet) and the approval part of \<^verbatim>\<open>routes/internal.ts\<close> (the gateway), with
  the schemas of \<^verbatim>\<open>validations/approval.ts\<close> and \<^verbatim>\<open>validations/internal.ts\<close>, and \<^verbatim>\<open>withAudit\<close>. A route is an
  action on the approval tables; an error it throws is turned into a reply by the server. A body that is no
  JSON is null, or an empty object where the code says so. The requests a notification sends are those of the
  service. Memberships are only read here: they are in \<open>rq_org\<close>.
\<close>

section \<open>One request\<close>

record approval_request =
  rq_server :: server
  rq_casl :: casl
  rq_org :: org_state
  rq_auth :: auth_context
  rq_datetime :: "string \<Rightarrow> bool" \<comment> \<open>zod's check of a date and time\<close>
  rq_number :: "string \<Rightarrow> jnum" \<comment> \<open>\<^verbatim>\<open>Number(text)\<close>\<close>

type_synonym 'a approval_act = "('a, api_state) act"

text \<open>A status with a body, or with the message of an error.\<close>

datatype 'a answer = Answer nat 'a | Refusal nat string

definition permitted :: "approval_request \<Rightarrow> ability_action \<Rightarrow> ability_target \<Rightarrow> 'a approval_act \<Rightarrow> 'a approval_act" where
  "permitted rq a t m =
     bindA (liftA (requireAbility (rq_casl rq) (withAbility (Some (rq_auth rq)) (rq_org rq)) a t)) (\<lambda>_. m)"

text \<open>\<^verbatim>\<open>subject("ApprovalRequest", { id })\<close>.\<close>

definition approvalSubject :: "string \<Rightarrow> ability_target" where
  "approvalSubject k = The_one ApprovalRequest_s [(''id'', k)]"

definition answered :: "nat \<Rightarrow> 'a approval_act \<Rightarrow> 'a answer approval_act" where
  "answered status m = bindA m (\<lambda>x. returnA (Answer status x))"

definition rejectPortalDecisionInOpenVtc :: "approval_request \<Rightarrow> 'a answer approval_act \<Rightarrow> 'a answer approval_act" where
  "rejectPortalDecisionInOpenVtc rq m =
     (if sv_env (rq_server rq) ''AUTH_MODE'' = Some ''openvtc''
      then returnA (Refusal 403 ''Approval decisions are external-wallet only; use /v1/openvtc-approvals/:id/decide'')
      else m)"

text \<open>An audit entry whose failure is ignored.\<close>

definition withAudit :: "server \<Rightarrow> ('a \<Rightarrow> audit_row) \<Rightarrow> 'a approval_act \<Rightarrow> 'a approval_act" where
  "withAudit sv entry m =
     bindA m (\<lambda>x.
     bindA (writeA (\<lambda>st. if sv_auditOk sv then st\<lparr>st_audit := st_audit st @ [entry x]\<rparr> else st)) (\<lambda>_. returnA x))"

section \<open>Schemas\<close>

definition nonemptyText :: "js \<Rightarrow> string option" where
  "nonemptyText v = (case v of JStr s \<Rightarrow> if s = '''' then None else Some s | _ \<Rightarrow> None)"

text \<open>An optional text: absent, or a text.\<close>

definition optionalText :: "js \<Rightarrow> string option option" where
  "optionalText v = (case v of JUndef \<Rightarrow> Some None | JStr s \<Rightarrow> Some (Some s) | _ \<Rightarrow> None)"

definition optionalRecord :: "js \<Rightarrow> obj option" where
  "optionalRecord v = (case v of JUndef \<Rightarrow> Some [] | JObj kvs \<Rightarrow> Some kvs | _ \<Rightarrow> None)"

definition createApprovalSchema :: "js \<Rightarrow> create_input option" where
  "createApprovalSchema body =
     (case (nonemptyText (jsProp body ''action''), nonemptyText (jsProp body ''requestedBy''), jsProp body ''context'',
            optionalText (jsProp body ''agentId''), optionalText (jsProp body ''projectId'')) of
        (Some a, Some r, JObj context, Some agentId, Some projectId) \<Rightarrow>
          Some \<lparr> ci_action = a, ci_requestedBy = r, ci_context = context, ci_agentId = agentId, ci_projectId = projectId \<rparr>
      | _ \<Rightarrow> None)"

text \<open>Both forms of a confirmation, in the order the union tries them.\<close>

definition confirmationSchema :: "(string \<Rightarrow> bool) \<Rightarrow> js \<Rightarrow> confirmation option" where
  "confirmationSchema datetime v =
     (if jsProp v ''protocol'' = JStr ''confirm/response'' \<and> jsProp v ''version'' = JStr ''0.1'' then
        (case (jsProp v ''approverDid'', jsProp v ''signedAt'', jsProp v ''signature'') of
           (JStr did, JStr signedAt, JStr signature) \<Rightarrow>
             if startsWith did ''did:'' \<and> datetime signedAt \<and> 40 \<le> u16length signature
             then Some (Legacy_confirmation did signedAt signature) else None
         | _ \<Rightarrow> None)
      else if jsProp v ''protocol'' = JStr ''auth/step-up/approve-response/0.2'' \<and> jsProp v ''version'' = JStr ''0.2'' then
        (case jsProp v ''document'' of JObj document \<Rightarrow> Some (Openvtc_confirmation document) | _ \<Rightarrow> None)
      else None)"

definition decisionOf :: "js \<Rightarrow> decision option" where
  "decisionOf v = (if v = JStr ''approved'' then Some Approved else if v = JStr ''denied'' then Some Denied else None)"

definition decideApprovalSchema :: "(string \<Rightarrow> bool) \<Rightarrow> js \<Rightarrow> decide_input option" where
  "decideApprovalSchema datetime body =
     (case (decisionOf (jsProp body ''decision''), optionalText (jsProp body ''comment'')) of
        (Some d, Some comment) \<Rightarrow>
          if comment \<noteq> None \<and> u16length (the comment) > 2000 then None
          else if jsProp body ''confirmation'' = JUndef
          then Some \<lparr> di_decision = d, di_comment = comment, di_confirmation = None \<rparr>
          else (case confirmationSchema datetime (jsProp body ''confirmation'') of
                  None \<Rightarrow> None
                | Some c \<Rightarrow> Some \<lparr> di_decision = d, di_comment = comment, di_confirmation = Some c \<rparr>)
      | _ \<Rightarrow> None)"

definition registerApprovalKeySchema :: "js \<Rightarrow> (string \<times> string) option" where
  "registerApprovalKeySchema body =
     (let jwk = jsProp body ''publicKeyJwk'' in
      case (jsProp body ''did'', jsProp jwk ''x'') of
        (JStr did, JStr x) \<Rightarrow>
          if startsWith did ''did:'' \<and> jsProp jwk ''kty'' = JStr ''OKP'' \<and> jsProp jwk ''crv'' = JStr ''Ed25519'' \<and> 40 \<le> u16length x
          then Some (did, x) else None
      | _ \<Rightarrow> None)"

section \<open>A signed-in user\<close>

definition summaryRoute :: "approval_request \<Rightarrow> approval_summary answer approval_act" where
  "summaryRoute rq =
     permitted rq Do_read (Any_of ApprovalRequest_s)
       (answered 200 (readA (\<lambda>st. getApprovalSummary (rq_server rq) st (ac_organizationId (rq_auth rq)))))"

definition approvalKeyRoute :: "approval_request \<Rightarrow> js \<Rightarrow> (string option \<times> bool) answer approval_act" where
  "approvalKeyRoute rq body =
     rejectPortalDecisionInOpenVtc rq
       (permitted rq Do_approve (Any_of ApprovalRequest_s)
         (case registerApprovalKeySchema body of
            None \<Rightarrow> returnA (Refusal 400 ''Invalid approval key'')
          | Some (did, x) \<Rightarrow>
              answered 200 (\<lambda>st. registerManagerApprovalKey (rq_server rq) st (ac_userId (rq_auth rq)) did x)))"

definition bridgeRoute :: "approval_request \<Rightarrow> string \<Rightarrow> (approval_row \<times> vc_verify_result) answer approval_act" where
  "bridgeRoute rq k =
     permitted rq Do_read (Any_of ApprovalRequest_s)
       (answered 200 (\<lambda>st. (getApprovalByBridgeId (rq_server rq) st k, st)))"

definition bridgeDecideRoute :: "approval_request \<Rightarrow> string \<Rightarrow> js \<Rightarrow> approval_row answer approval_act" where
  "bridgeDecideRoute rq k body =
     rejectPortalDecisionInOpenVtc rq
       (permitted rq Do_approve (approvalSubject k)
         (case decideApprovalSchema (rq_datetime rq) body of
            None \<Rightarrow> returnA (Refusal 400 ''Invalid request body'')
          | Some input \<Rightarrow>
              answered 200 (\<lambda>st. decideApprovalByBridgeId (rq_server rq) st k (ac_userId (rq_auth rq))
                (Some (ac_userEmail (rq_auth rq))) input)))"

definition getRoute :: "approval_request \<Rightarrow> string \<Rightarrow> (approval_row \<times> vc_verify_result) answer approval_act" where
  "getRoute rq k =
     permitted rq Do_read (approvalSubject k)
       (answered 200 (\<lambda>st. (getApproval (rq_server rq) st (ac_organizationId (rq_auth rq)) k, st)))"

text \<open>\<open>limit\<close> as the query takes it: the database refuses a fraction below the maximum. A numeral is canonical:
  one with a negative exponent is no integer.\<close>

definition takeOf :: "jnum \<Rightarrow> nat option result" where
  "takeOf n =
     (case n of
        Finite m e \<Rightarrow>
          if 0 \<le> e then Inr (Some (nat (m * 10 ^ nat e)))
          else if m \<ge> int MAX_LIMIT * 10 ^ nat (- e) then Inr (Some MAX_LIMIT)
          else Inl (JsError ''Invalid value for argument take'')
      | _ \<Rightarrow> Inr None)"

definition positive :: "jnum \<Rightarrow> bool" where
  "positive n \<longleftrightarrow> (case n of Finite m e \<Rightarrow> m > 0 | _ \<Rightarrow> False)"

definition listRoute :: "approval_request \<Rightarrow> (string \<Rightarrow> string option) \<Rightarrow> approval_page answer approval_act" where
  "listRoute rq query =
     permitted rq Do_read (Any_of ApprovalRequest_s)
       (if set_nonempty (query ''status'') \<and> \<not> isApprovalStatus (the (query ''status''))
        then returnA (Refusal 400 ''status must be one of: pending, approved, denied'')
        else if set_nonempty (query ''limit'') \<and> \<not> positive (rq_number rq (the (query ''limit'')))
        then returnA (Refusal 400 ''limit must be a positive integer'')
        else
          bindA (liftA (if set_nonempty (query ''limit'') then takeOf (rq_number rq (the (query ''limit''))) else Inr None)) (\<lambda>limit.
            answered 200 (readA (\<lambda>st. listApprovals st
              \<lparr> lo_organizationId = ac_organizationId (rq_auth rq), lo_projectId = query ''projectId'',
                lo_status = (if set_nonempty (query ''status'') then query ''status'' else None),
                lo_limit = limit, lo_cursor = query ''cursor'' \<rparr>))))"

definition creationAudit :: "auth_context \<Rightarrow> create_input \<Rightarrow> approval_row \<Rightarrow> audit_row" where
  "creationAudit auth input r =
     \<lparr> au_organizationId = ac_organizationId auth, au_projectId = ar_projectId r, au_userId = ac_userId auth,
       au_userEmail = ac_userEmail auth, au_action = ''create'', au_service = ''approval'', au_status = ''success'',
       au_source = ''api'',
       au_metadata = JObj [(''approvalId'', JStr (ar_id r)), (''action'', JStr (ci_action input)),
         (''requestedBy'', JStr (ci_requestedBy input))] \<rparr>"

definition createRoute :: "approval_request \<Rightarrow> js \<Rightarrow> approval_row answer approval_act" where
  "createRoute rq body =
     permitted rq Do_create (Any_of ApprovalRequest_s)
       (case createApprovalSchema body of
          None \<Rightarrow> returnA (Refusal 400 ''Invalid request body'')
        | Some input \<Rightarrow>
            answered 201 (withAudit (rq_server rq) (creationAudit (rq_auth rq) input)
              (\<lambda>st. fst (createApproval (rq_server rq) st (ac_organizationId (rq_auth rq))
                (case ci_projectId input of None \<Rightarrow> ac_projectId (rq_auth rq) | Some p \<Rightarrow> Some p) (ci_agentId input) None input))))"

definition notificationRoute :: "approval_request \<Rightarrow> string \<Rightarrow> delivery_result answer approval_act" where
  "notificationRoute rq k =
     permitted rq Do_read (approvalSubject k)
       (answered 200 (\<lambda>st. (getApprovalVtiNotification st (ac_organizationId (rq_auth rq)) k, st)))"

definition triggerRoute :: "approval_request \<Rightarrow> string \<Rightarrow> delivery_result answer approval_act" where
  "triggerRoute rq k =
     permitted rq Do_read (approvalSubject k)
       (answered 200 (\<lambda>st. fst (triggerApprovalVtiNotification (rq_server rq) st (ac_organizationId (rq_auth rq)) k)))"

definition actorAckRoute :: "approval_request \<Rightarrow> string \<Rightarrow> (string \<times> js \<times> string) answer approval_act" where
  "actorAckRoute rq k =
     permitted rq Do_read (approvalSubject k)
       (answered 200 (\<lambda>st. recordActorAck (rq_server rq) st (ac_organizationId (rq_auth rq)) k (ac_userId (rq_auth rq))))"

definition decideRoute :: "approval_request \<Rightarrow> string \<Rightarrow> js \<Rightarrow> approval_row answer approval_act" where
  "decideRoute rq k body =
     rejectPortalDecisionInOpenVtc rq
       (permitted rq Do_approve (approvalSubject k)
         (case decideApprovalSchema (rq_datetime rq) body of
            None \<Rightarrow> returnA (Refusal 400 ''Invalid request body'')
          | Some input \<Rightarrow>
              answered 200 (\<lambda>st. decideApproval (rq_server rq) st (ac_organizationId (rq_auth rq)) k (ac_userId (rq_auth rq))
                (Some (ac_userEmail (rq_auth rq))) input)))"

section \<open>A wallet\<close>

text \<open>There is no session: the signed document is the authentication. An array is an object without an issuer.
  A comment that is no text fails the write.\<close>

definition walletRoute :: "server \<Rightarrow> string \<Rightarrow> js \<Rightarrow> approval_row answer approval_act" where
  "walletRoute sv k body =
     (let document = jsProp body ''document''; comment = jsProp body ''comment'' in
      if (case document of JObj kvs \<Rightarrow> True | JArr xs \<Rightarrow> True | _ \<Rightarrow> False)
      then answered 200 (\<lambda>st.
        (let doc = (case document of JObj kvs \<Rightarrow> kvs | _ \<Rightarrow> []);
             (r, st') = decideApprovalByOpenVtc sv st k doc (case comment of JStr c \<Rightarrow> Some c | _ \<Rightarrow> None)
         in if isStr comment \<or> nullish comment then (r, st')
            else (case r of Inl e \<Rightarrow> (Inl e, st) | Inr row \<Rightarrow> (Inl (JsError ''Invalid value for argument decisionComment''), st))))
      else returnA (Refusal 400 ''signed OpenVTC response document is required''))"


section \<open>The gateway\<close>

text \<open>The shared secret, and a body that must match its schema.\<close>

definition internalRoute :: "string option \<Rightarrow> string option \<Rightarrow> 'a answer approval_act \<Rightarrow> 'a answer approval_act" where
  "internalRoute secret provided m =
     (if internalAuth secret provided then m else returnA (Refusal 401 ''unauthorized''))"

definition parseBody :: "'b option \<Rightarrow> ('b \<Rightarrow> 'a approval_act) \<Rightarrow> 'a approval_act" where
  "parseBody parsed f =
     (case parsed of None \<Rightarrow> throwA (ServiceError BAD_REQUEST ''invalid request'') | Some x \<Rightarrow> f x)"

record internal_approval =
  ii_organizationId :: string
  ii_projectId :: string
  ii_agentId :: "string option"
  ii_agentName :: "string option"
  ii_action :: string
  ii_requestedBy :: string
  ii_context :: obj
  ii_gatewayApprovalId :: "string option"
  ii_expiresAtUnix :: "int option"

text \<open>A positive integer that a double holds exactly, or nothing.\<close>

definition optionalSeconds :: "js \<Rightarrow> int option option" where
  "optionalSeconds v =
     (case v of
        JUndef \<Rightarrow> Some None
      | JNum (Finite m e) \<Rightarrow> if 0 \<le> e \<and> 0 < m \<and> m * 10 ^ nat e < 2 ^ 53 then Some (Some (m * 10 ^ nat e)) else None
      | _ \<Rightarrow> None)"

definition internalApprovalSchema :: "js \<Rightarrow> internal_approval option" where
  "internalApprovalSchema body =
     (case (nonemptyText (jsProp body ''organizationId''), nonemptyText (jsProp body ''projectId''),
            optionalText (jsProp body ''agentId''), optionalText (jsProp body ''agentName''),
            nonemptyText (jsProp body ''action''), nonemptyText (jsProp body ''requestedBy''),
            optionalRecord (jsProp body ''context''), optionalText (jsProp body ''gatewayApprovalId''),
            optionalSeconds (jsProp body ''expiresAtUnix'')) of
        (Some org, Some projectId, Some agentId, Some agentName, Some a, Some r, Some context, Some gatewayId, Some expires) \<Rightarrow>
          Some \<lparr> ii_organizationId = org, ii_projectId = projectId, ii_agentId = agentId, ii_agentName = agentName,
            ii_action = a, ii_requestedBy = r, ii_context = context, ii_gatewayApprovalId = gatewayId,
            ii_expiresAtUnix = expires \<rparr>
      | _ \<Rightarrow> None)"

text \<open>A date beyond the range of \<^verbatim>\<open>Date\<close> is refused when the row is written.\<close>

definition ingestRoute :: "server \<Rightarrow> js \<Rightarrow> approval_row answer approval_act" where
  "ingestRoute sv body =
     parseBody (internalApprovalSchema body) (\<lambda>input.
       let context = oset ''agentName'' (optStr (ii_agentName input))
                       (oset ''gatewayApprovalId'' (optStr (ii_gatewayApprovalId input)) (ii_context input));
           expiresAt = map_option (\<lambda>s. s * 1000) (ii_expiresAtUnix input)
       in if expiresAt \<noteq> None \<and> the expiresAt > maxTime then throwA (JsError ''Invalid Date'')
          else answered 201 (\<lambda>st. fst (createApproval sv st (ii_organizationId input) (Some (ii_projectId input)) (ii_agentId input)
                 expiresAt
                 \<lparr> ci_action = ii_action input, ci_requestedBy = ii_requestedBy input, ci_context = context,
                   ci_agentId = None, ci_projectId = None \<rparr>)))"

definition statusRoute :: "string \<Rightarrow> string option \<Rightarrow> approval_status_view answer approval_act" where
  "statusRoute k orgId =
     (if k = '''' then throwA (ServiceError BAD_REQUEST ''id is required'')
      else bindA (readA (\<lambda>st. getApprovalStatus st (orElse orgId '''') k)) (\<lambda>result.
        case result of
          None \<Rightarrow> throwA (ServiceError NOT_FOUND ''Approval request not found'')
        | Some v \<Rightarrow> returnA (Answer 200 v)))"

definition internalGetRoute :: "server \<Rightarrow> string \<Rightarrow> (approval_row \<times> vc_verify_result) answer approval_act" where
  "internalGetRoute sv k =
     (if k = '''' then throwA (ServiceError BAD_REQUEST ''id is required'')
      else answered 200 (\<lambda>st. (getApprovalByBridgeId sv st k, st)))"

text \<open>The number of the query, where it is an integer.\<close>

definition internalListRoute :: "string option \<Rightarrow> int option \<Rightarrow> (approval_row list \<times> bool) answer approval_act" where
  "internalListRoute status limit =
     answered 200 (readA (\<lambda>st. listApprovalsByBridge st
       (if set_nonempty status \<and> isApprovalStatus (the status) then status else None) limit))"

text \<open>The name the gateway's decisions carry.\<close>

definition internalDecider :: string where
  "internalDecider = ''gateway-internal-decide''"

definition internalDecideRoute :: "server \<Rightarrow> (string \<Rightarrow> bool) \<Rightarrow> string \<Rightarrow> js \<Rightarrow> approval_row answer approval_act" where
  "internalDecideRoute sv datetime k body =
     (if k = '''' then throwA (ServiceError BAD_REQUEST ''id is required'')
      else parseBody (decideApprovalSchema datetime body) (\<lambda>input.
        answered 200 (\<lambda>st. decideApprovalByBridgeId sv st k internalDecider None input)))"

record manual_approval =
  ma_organizationId :: string
  ma_projectId :: string
  ma_agentId :: "string option"
  ma_requestedBy :: string
  ma_action :: string
  ma_context :: obj
  ma_host :: string
  ma_path :: string
  ma_method :: string
  ma_ruleId :: string

definition gatewayManualApprovalSchema :: "js \<Rightarrow> manual_approval option" where
  "gatewayManualApprovalSchema body =
     (case (nonemptyText (jsProp body ''organizationId''), nonemptyText (jsProp body ''projectId''),
            optionalText (jsProp body ''agentId''), nonemptyText (jsProp body ''requestedBy''),
            nonemptyText (jsProp body ''action''), optionalRecord (jsProp body ''context''),
            nonemptyText (jsProp body ''host''), nonemptyText (jsProp body ''path''), nonemptyText (jsProp body ''method''),
            nonemptyText (jsProp body ''ruleId'')) of
        (Some org, Some projectId, Some agentId, Some r, Some a, Some context, Some h, Some p, Some m, Some rule) \<Rightarrow>
          Some \<lparr> ma_organizationId = org, ma_projectId = projectId, ma_agentId = agentId, ma_requestedBy = r, ma_action = a,
            ma_context = context, ma_host = h, ma_path = p, ma_method = m, ma_ruleId = rule \<rparr>
      | _ \<Rightarrow> None)"

definition manualApprovalRoute :: "server \<Rightarrow> js \<Rightarrow> approval_row answer approval_act" where
  "manualApprovalRoute sv body =
     parseBody (gatewayManualApprovalSchema body) (\<lambda>input.
       let context = oset ''ruleId'' (JStr (ma_ruleId input)) (oset ''method'' (JStr (ma_method input))
                       (oset ''path'' (JStr (ma_path input)) (oset ''host'' (JStr (ma_host input)) (ma_context input))))
       in answered 201 (\<lambda>st. fst (createApproval sv st (ma_organizationId input) (Some (ma_projectId input)) (ma_agentId input) None
            \<lparr> ci_action = ma_action input, ci_requestedBy = ma_requestedBy input, ci_context = context,
              ci_agentId = ma_agentId input, ci_projectId = Some (ma_projectId input) \<rparr>)))"

end
