(* ===== verification/Approval_Route_Props.thy ===== *)
theory Approval_Route_Props
  imports Approval_Routes Approval_Props Org_Props
begin

text \<open>
  Who may do what with an approval through the routes: what an employee sees, who decides and what a decision
  through a session may change, the bridge that crosses organisations, and what the gateway's own decide route
  can do.
\<close>

section \<open>Abilities on an approval\<close>

abbreviation callerRole :: "approval_request \<Rightarrow> org_role" where
  "callerRole rq \<equiv> effectiveRole (Some (rq_auth rq)) (rq_org rq)"

definition notPermitted :: "ability_action \<Rightarrow> error" where
  "notPermitted a = ServiceError FORBIDDEN (''Forbidden: insufficient permission for '' @ actionText a @ '' on ApprovalRequest'')"

lemma permitted_run:
  "permitted rq a t m st =
     (if rq_casl rq (withAbility (Some (rq_auth rq)) (rq_org rq)) a t then m st
      else (Inl (ServiceError FORBIDDEN (''Forbidden: insufficient permission for '' @ actionText a @ '' on '' @ subjectText (targetType t))), st))"
  by (simp add: permitted_def requireAbility_def)

lemma member_permitted:
  assumes "casl_documented (rq_casl rq)" "callerRole rq = Role_member"
  shows "permitted rq Do_read (Any_of ApprovalRequest_s) m st = m st"
    and "permitted rq Do_read (approvalSubject k) m st = (Inl (notPermitted Do_read), st)"
    and "permitted rq Do_approve (Any_of ApprovalRequest_s) m st = (Inl (notPermitted Do_approve), st)"
    and "permitted rq Do_approve (approvalSubject k) m st = (Inl (notPermitted Do_approve), st)"
  using assms unfolding permitted_run
  by (simp_all add: casl_documented_def withAbility_def rule_simps approvalSubject_def notPermitted_def)

lemma manager_permitted:
  assumes "casl_documented (rq_casl rq)" "callerRole rq \<noteq> Role_member"
  shows "permitted rq Do_read (Any_of ApprovalRequest_s) m st = m st"
    and "permitted rq Do_read (approvalSubject k) m st = m st"
    and "permitted rq Do_approve (approvalSubject k) m st = m st"
  using assms unfolding permitted_run
  by (cases "callerRole rq"; simp_all add: casl_documented_def withAbility_def rule_simps approvalSubject_def)+

lemma answered_run [simp]:
  "answered n m st = (case m st of (Inl e, t) \<Rightarrow> (Inl e, t) | (Inr x, t) \<Rightarrow> (Inr (Answer n x), t))"
  by (simp add: answered_def bindA_def returnA_def split: prod.split sum.split)

section \<open>Decisions\<close>

text \<open>A decision that a session makes: by whom, on which request, with which evidence, and nothing else changed.\<close>

definition sessionDecision :: "approval_request \<Rightarrow> string \<Rightarrow> js \<Rightarrow> api_state \<Rightarrow> api_state \<Rightarrow> approval_row \<Rightarrow> bool" where
  "sessionDecision rq k body st st' r \<longleftrightarrow>
     resolveApprovalByBridgeId st k = Some r \<and> ar_status r = ''pending'' \<and>
     (\<exists>input row. decideApprovalSchema (rq_datetime rq) body = Some input \<and>
        findApproval (ar_id r) (st_approvals st') = Some row \<and>
        ar_status row = decisionText (di_decision input) \<and> ar_decidedBy row = Some (ac_userId (rq_auth rq)) \<and>
        (di_decision input = Approved \<longrightarrow> (\<exists>conf ev. di_confirmation input = Some conf \<and>
           verifyManagerConfirmation (rq_server rq) st (ar_id r) (ac_userId (rq_auth rq)) Approved (ar_context r) conf = Inr ev))) \<and>
     (\<forall>k'. k' \<noteq> ar_id r \<longrightarrow> findApproval k' (st_approvals st') = findApproval k' (st_approvals st))"

lemma committed_decision:
  assumes "resolveApprovalByBridgeId st k = Some r" "decideApprovalSchema (rq_datetime rq) body = Some input"
    and "prepareDecision (rq_server rq) st r (ac_userId (rq_auth rq)) input = Inr ctx"
    and "commitDecision (rq_server rq) st (ar_id r) (ac_userId (rq_auth rq)) email input bridge ctx = (Inr row, st')"
  shows "sessionDecision rq k body st st' r"
proof -
  obtain ev where ev: "ar_status r = ''pending''" "decisionEvidence (rq_server rq) st r (ac_userId (rq_auth rq)) input = Inr ev"
    using prepareDecision_Inr [OF assms(3)] by metis
  obtain r' where r': "findApproval (ar_id r) (st_approvals st) = Some r'"
    "row = decideRow (rq_server rq) (ac_userId (rq_auth rq)) input ctx r'"
    "st_approvals st' = updateApproval (ar_id r) (decideRow (rq_server rq) (ac_userId (rq_auth rq)) input ctx) (st_approvals st)"
    using commitDecision_Inr [OF assms(4)] by metis
  have "\<exists>conf e. di_confirmation input = Some conf \<and>
      verifyManagerConfirmation (rq_server rq) st (ar_id r) (ac_userId (rq_auth rq)) Approved (ar_context r) conf = Inr e"
    if "di_decision input = Approved"
    using decisionEvidence_approved [OF ev(2) that] by metis
  moreover have "findApproval (ar_id r) (st_approvals st') = Some row" using r' by (simp add: approvals.lookup_update)
  moreover have "findApproval k' (st_approvals st') = findApproval k' (st_approvals st)" if "k' \<noteq> ar_id r" for k'
    using that r'(3) by (simp add: approvals.lookup_update)
  moreover have "ar_status row = decisionText (di_decision input)" "ar_decidedBy row = Some (ac_userId (rq_auth rq))"
    using r'(2) by simp_all
  ultimately show ?thesis using assms(1,2) ev(1) unfolding sessionDecision_def by blast
qed

lemma portal_run:
  assumes "casl_documented (rq_casl rq)" "snd (rejectPortalDecisionInOpenVtc rq (permitted rq Do_approve (approvalSubject k) m) st) \<noteq> st"
  shows "callerRole rq \<noteq> Role_member" "sv_env (rq_server rq) ''AUTH_MODE'' \<noteq> Some ''openvtc''"
    "rejectPortalDecisionInOpenVtc rq (permitted rq Do_approve (approvalSubject k) m) st = m st"
proof -
  show e: "sv_env (rq_server rq) ''AUTH_MODE'' \<noteq> Some ''openvtc''"
    using assms(2) by (auto simp: rejectPortalDecisionInOpenVtc_def)
  show r: "callerRole rq \<noteq> Role_member"
  proof
    assume "callerRole rq = Role_member"
    then show False using assms(2) e by (simp add: rejectPortalDecisionInOpenVtc_def member_permitted(4) [OF assms(1)])
  qed
  show "rejectPortalDecisionInOpenVtc rq (permitted rq Do_approve (approvalSubject k) m) st = m st"
    using e manager_permitted(3) [OF assms(1) r] by (simp add: rejectPortalDecisionInOpenVtc_def)
qed

lemma decideRoute_decision:
  assumes "casl_documented (rq_casl rq)" "ids_ok st" "decideRoute rq k body st = (res, st')" "st' \<noteq> st"
  obtains r where "sessionDecision rq k body st st' r" "ar_organizationId r = ac_organizationId (rq_auth rq)"
proof -
  have run: "snd (decideRoute rq k body st) \<noteq> st" using assms(3,4) by simp
  note p = portal_run(3) [OF assms(1) run [unfolded decideRoute_def], folded decideRoute_def]
  obtain input where i: "decideApprovalSchema (rq_datetime rq) body = Some input"
    using p assms(3,4) by (cases "decideApprovalSchema (rq_datetime rq) body") simp_all
  let ?d = "decideApproval (rq_server rq) st (ac_organizationId (rq_auth rq)) k (ac_userId (rq_auth rq))
    (Some (ac_userEmail (rq_auth rq))) input"
  obtain row where d: "?d = (Inr row, st')"
    using p assms(3,4) i decideApproval_Inl by (cases ?d; cases "fst ?d") fastforce+
  obtain r ctx where r: "findApproval k (st_approvals st) = Some r" "ar_organizationId r = ac_organizationId (rq_auth rq)" "ar_id r = k"
    "prepareDecision (rq_server rq) st r (ac_userId (rq_auth rq)) input = Inr ctx"
    "commitDecision (rq_server rq) st k (ac_userId (rq_auth rq)) (Some (ac_userEmail (rq_auth rq))) input None ctx = (Inr row, st')"
    using decideApproval_Inr [OF d assms(2)] by metis
  have "resolveApprovalByBridgeId st k = Some r" using r(1) by (simp add: resolveApprovalByBridgeId_def)
  from committed_decision [OF this i r(4)] r(2,3,5) that show ?thesis by blast
qed

lemma bridgeDecideRoute_decision:
  assumes "casl_documented (rq_casl rq)" "ids_ok st" "bridgeDecideRoute rq k body st = (res, st')" "st' \<noteq> st"
  obtains r where "sessionDecision rq k body st st' r"
proof -
  have run: "snd (bridgeDecideRoute rq k body st) \<noteq> st" using assms(3,4) by simp
  note p = portal_run(3) [OF assms(1) run [unfolded bridgeDecideRoute_def], folded bridgeDecideRoute_def]
  obtain input where i: "decideApprovalSchema (rq_datetime rq) body = Some input"
    using p assms(3,4) by (cases "decideApprovalSchema (rq_datetime rq) body") simp_all
  let ?d = "decideApprovalByBridgeId (rq_server rq) st k (ac_userId (rq_auth rq)) (Some (ac_userEmail (rq_auth rq))) input"
  obtain row where d: "?d = (Inr row, st')"
    using p assms(3,4) i decideByBridge_Inl by (cases ?d; cases "fst ?d") fastforce+
  obtain r ctx where "resolveApprovalByBridgeId st k = Some r"
    "prepareDecision (rq_server rq) st r (ac_userId (rq_auth rq)) input = Inr ctx"
    "commitDecision (rq_server rq) st (ar_id r) (ac_userId (rq_auth rq)) (Some (ac_userEmail (rq_auth rq))) input (Some k) ctx = (Inr row, st')"
    using decideByBridge_Inr [OF d assms(2)] by metis
  from committed_decision [OF this(1) i this(2,3)] that show ?thesis by blast
qed

text \<open>Without a user of the decider's name no confirmation verifies.\<close>

lemma no_decider: "findUser by (st_users st) = None \<Longrightarrow> verifyManagerConfirmation sv st k by d ctx conf \<noteq> Inr ev"
  by (cases conf) (auto simp: verifyManagerConfirmation_def verifyOpenVtc_def verifyLegacy_def openVtcDid_def boundDocument_def
      set_nonempty_def Let_def split: if_splits option.splits)

lemma denial_commits:
  assumes "ids_ok st" "resolveApprovalByBridgeId st k = Some r" "ar_status r = ''pending''" "di_decision input = Denied" "di_confirmation input = None"
  obtains ctx st' where "decideApprovalByBridgeId sv st k by email input = (Inr (decideRow sv by input ctx r), st')"
    "findApproval (ar_id r) (st_approvals st') = Some (decideRow sv by input ctx r)"
proof -
  let ?ctx = "getContextRecord (ar_context r)"
  have p: "prepareDecision sv st r by input = Inr ?ctx"
    using assms(3-5) by (simp add: prepareDecision_def decisionEvidence_def decisionContext_def Let_def)
  obtain st' where c: "commitDecision sv st (ar_id r) by email input (Some k) ?ctx = (Inr (decideRow sv by input ?ctx r), st')"
    using commitDecision_found [OF resolve_found [OF assms(2,1)]] by blast
  then have "decideApprovalByBridgeId sv st k by email input = (Inr (decideRow sv by input ?ctx r), st')"
    using assms(2) p by (simp add: decideApprovalByBridgeId_def)
  then show thesis using that commit_row [OF c] by blast
qed

section \<open>The theorems\<close>

text \<open>C1. What an employee reaches: the routes that name one request refuse it, the employee's own requests included,
  for the row they ask about carries no requester; but the list and the counts of the organisation are open, and
  through the bridge any request of any organisation.\<close>

theorem member_access:
  assumes "casl_documented (rq_casl rq)" "callerRole rq = Role_member"
  shows "getRoute rq k st = (Inl (notPermitted Do_read), st) \<and> notificationRoute rq k st = (Inl (notPermitted Do_read), st) \<and>
    triggerRoute rq k st = (Inl (notPermitted Do_read), st) \<and> actorAckRoute rq k st = (Inl (notPermitted Do_read), st) \<and>
    summaryRoute rq st = (Inr (Answer 200 (getApprovalSummary (rq_server rq) st (ac_organizationId (rq_auth rq)))), st) \<and>
    listRoute rq (\<lambda>_. None) st = (Inr (Answer 200 (listApprovals st
      \<lparr> lo_organizationId = ac_organizationId (rq_auth rq), lo_projectId = None, lo_status = None, lo_limit = None,
        lo_cursor = None \<rparr>)), st) \<and>
    (\<forall>r. findApproval k (st_approvals st) = Some r \<longrightarrow>
       bridgeRoute rq k st = (Inr (Answer 200 (r, verifyDecisionVc (rq_server rq) r)), st))"
proof (intro conjI allI impI)
  fix r
  assume r: "findApproval k (st_approvals st) = Some r"
  then have "ar_id r = k" using approvals.lookup_key by blast
  with r show "bridgeRoute rq k st = (Inr (Answer 200 (r, verifyDecisionVc (rq_server rq) r)), st)"
    by (simp add: bridgeRoute_def member_permitted [OF assms] getApprovalByBridgeId_def resolveApprovalByBridgeId_def)
qed (simp_all add: getRoute_def notificationRoute_def triggerRoute_def actorAckRoute_def summaryRoute_def listRoute_def
    member_permitted [OF assms] set_nonempty_def)

definition sampleCaller :: "string \<Rightarrow> org_role \<Rightarrow> approval_request" where
  "sampleCaller org role = \<lparr> rq_server = sampleServer, rq_casl = lastRuleDecides,
     rq_org = \<lparr> os_users = [], os_orgs = [], os_members = [], os_invitations = [], os_projects = [], os_keys = [],
       os_agents = [], os_secrets = [], os_connections = [], os_agentSecrets = [], os_agentConnections = [] \<rparr>,
     rq_auth = \<lparr> ac_userId = ''actor'', ac_userEmail = ''a@x'', ac_projectId = None, ac_organizationId = org, ac_role = Some role \<rparr>,
     rq_datetime = (\<lambda>_. True), rq_number = (\<lambda>_. NaN) \<rparr>"

lemma sampleCaller_simps [simp]:
  "casl_documented (rq_casl (sampleCaller org role))" "callerRole (sampleCaller org role) = role"
  "rq_server (sampleCaller org role) = sampleServer" "ac_organizationId (rq_auth (sampleCaller org role)) = org"
  "ac_userId (rq_auth (sampleCaller org role)) = ''actor''"
  by (simp_all add: sampleCaller_def effectiveRole_def casl_documented_holds)

theorem member_access_witness:
  "ar_requestedBy sampleRow = ac_userId (rq_auth (sampleCaller ''org'' Role_member)) \<and>
   getRoute (sampleCaller ''org'' Role_member) ''a1'' sampleState = (Inl (notPermitted Do_read), sampleState) \<and>
   bridgeRoute (sampleCaller ''other'' Role_member) ''a1'' sampleState =
     (Inr (Answer 200 (sampleRow, verifyDecisionVc sampleServer sampleRow)), sampleState)"
  using member_access [of "sampleCaller ''org'' Role_member" "''a1''" sampleState]
    member_access [of "sampleCaller ''other'' Role_member" "''a1''" sampleState]
  by (simp add: sampleRow_def)

text \<open>C2. A decision through a session: only of a manager, administrator or owner, never when decisions are left to
  wallets; it decides one pending request in the caller's name, approves only with a confirmation that verifies
  for the caller, changes no other request, and on the route of an organisation only requests of it.\<close>

theorem session_decisions_guarded:
  assumes "casl_documented (rq_casl rq)" "ids_ok st" "st' \<noteq> st"
    and "decideRoute rq k body st = (res, st') \<or> bridgeDecideRoute rq k body st = (res, st')"
  shows "callerRole rq \<noteq> Role_member \<and> sv_env (rq_server rq) ''AUTH_MODE'' \<noteq> Some ''openvtc'' \<and>
    (\<exists>r. sessionDecision rq k body st st' r \<and>
       (decideRoute rq k body st = (res, st') \<longrightarrow> ar_organizationId r = ac_organizationId (rq_auth rq)))"
proof -
  have p: "callerRole rq \<noteq> Role_member \<and> sv_env (rq_server rq) ''AUTH_MODE'' \<noteq> Some ''openvtc''"
    using assms(3,4) portal_run(1,2) [OF assms(1)] unfolding decideRoute_def bridgeDecideRoute_def by (metis snd_conv)
  show ?thesis
  proof (cases "decideRoute rq k body st = (res, st')")
    case True
    then show ?thesis using p decideRoute_decision [OF assms(1,2) True assms(3)] by metis
  next
    case False
    then have "bridgeDecideRoute rq k body st = (res, st')" using assms(4) by simp
    then show ?thesis using p False bridgeDecideRoute_decision [OF assms(1,2) _ assms(3)] by metis
  qed
qed

abbreviation denialBody :: js where "denialBody \<equiv> JObj [(''decision'', JStr ''denied'')]"

lemma denialBody_parsed:
  "decideApprovalSchema datetime denialBody = Some \<lparr> di_decision = Denied, di_comment = None, di_confirmation = None \<rparr>"
  by (simp add: decideApprovalSchema_def decisionOf_def optionalText_def)

lemma sample_denied:
  "\<exists>row st'. bridgeDecideRoute (sampleCaller org Role_manager) ''a1'' denialBody sampleState = (Inr (Answer 200 row), st') \<and> st' \<noteq> sampleState"
proof -
  have r: "resolveApprovalByBridgeId sampleState ''a1'' = Some sampleRow" by (simp add: resolveApprovalByBridgeId_def)
  have e: "sv_env sampleServer ''AUTH_MODE'' \<noteq> Some ''openvtc''" by (simp add: sampleServer_def sampleEnv_def)
  have i: "di_decision sampleDenial = Denied" "di_confirmation sampleDenial = None" by simp_all
  obtain ctx st' where d: "decideApprovalByBridgeId sampleServer sampleState ''a1'' ''actor'' (Some (ac_userEmail (rq_auth (sampleCaller org Role_manager))))
      \<lparr> di_decision = Denied, di_comment = None, di_confirmation = None \<rparr> =
      (Inr (decideRow sampleServer ''actor'' \<lparr> di_decision = Denied, di_comment = None, di_confirmation = None \<rparr> ctx sampleRow), st')"
    and f: "findApproval (ar_id sampleRow) (st_approvals st') =
      Some (decideRow sampleServer ''actor'' \<lparr> di_decision = Denied, di_comment = None, di_confirmation = None \<rparr> ctx sampleRow)"
    by (rule denial_commits [OF sample_ids(1) r sample_ids(5) i])
  have "st' \<noteq> sampleState" using f by (auto dest!: arg_cong [where f = ar_status])
  moreover have "bridgeDecideRoute (sampleCaller org Role_manager) ''a1'' denialBody sampleState = (Inr (Answer 200
      (decideRow sampleServer ''actor'' \<lparr> di_decision = Denied, di_comment = None, di_confirmation = None \<rparr> ctx sampleRow)), st')"
    using e d by (simp add: bridgeDecideRoute_def rejectPortalDecisionInOpenVtc_def manager_permitted denialBody_parsed)
  ultimately show ?thesis by blast
qed

theorem session_decisions_guarded_witness:
  "\<exists>st' r. sessionDecision (sampleCaller ''org'' Role_manager) ''a1'' denialBody sampleState st' r"
proof -
  obtain row st' where d: "bridgeDecideRoute (sampleCaller ''org'' Role_manager) ''a1'' denialBody sampleState = (Inr (Answer 200 row), st')"
    "st' \<noteq> sampleState" using sample_denied by blast
  from session_decisions_guarded [OF sampleCaller_simps(1) sample_ids(1) d(2) disjI2 [OF d(1)]] show ?thesis by blast
qed

text \<open>C3. A manager of one organisation decides a request of another: the route of the organisation does not find it,
  the bridge denies it, without any confirmation.\<close>

theorem bridge_crosses_organizations:
  assumes "casl_documented (rq_casl rq)" "callerRole rq \<noteq> Role_member" "sv_env (rq_server rq) ''AUTH_MODE'' \<noteq> Some ''openvtc''"
    and "ids_ok st" "findApproval k (st_approvals st) = Some r" "ar_status r = ''pending''"
    and "ar_organizationId r \<noteq> ac_organizationId (rq_auth rq)"
    and "decideApprovalSchema (rq_datetime rq) body = Some input" "di_decision input = Denied" "di_confirmation input = None"
  shows "decideRoute rq k body st = (Inl (ServiceError NOT_FOUND ''Approval request not found''), st) \<and>
    (\<exists>row st'. bridgeDecideRoute rq k body st = (Inr (Answer 200 row), st') \<and> findApproval k (st_approvals st') = Some row \<and>
       ar_status row = ''denied'' \<and> ar_decidedBy row = Some (ac_userId (rq_auth rq)) \<and>
       identity row = identity r)"
proof
  have k: "ar_id r = k" using approvals.lookup_key [OF assms(5)] by simp
  have "findInOrg (ac_organizationId (rq_auth rq)) k st = None"
    using findInOrg_find [OF assms(4)] assms(5,7) by (cases "findInOrg (ac_organizationId (rq_auth rq)) k st") fastforce+
  then show "decideRoute rq k body st = (Inl (ServiceError NOT_FOUND ''Approval request not found''), st)"
    using assms(3,8) by (simp add: decideRoute_def rejectPortalDecisionInOpenVtc_def manager_permitted [OF assms(1,2)] decideApproval_def)
  have r: "resolveApprovalByBridgeId st k = Some r" using assms(5) by (simp add: resolveApprovalByBridgeId_def)
  obtain ctx st' where d: "decideApprovalByBridgeId (rq_server rq) st k (ac_userId (rq_auth rq)) (Some (ac_userEmail (rq_auth rq))) input =
      (Inr (decideRow (rq_server rq) (ac_userId (rq_auth rq)) input ctx r), st')"
    "findApproval (ar_id r) (st_approvals st') = Some (decideRow (rq_server rq) (ac_userId (rq_auth rq)) input ctx r)"
    by (rule denial_commits [OF assms(4) r assms(6,9,10)])
  have "bridgeDecideRoute rq k body st = (Inr (Answer 200 (decideRow (rq_server rq) (ac_userId (rq_auth rq)) input ctx r)), st')"
    using assms(3,8) d(1)
    by (simp add: bridgeDecideRoute_def rejectPortalDecisionInOpenVtc_def manager_permitted [OF assms(1,2)])
  with d(2) k assms(9) show "\<exists>row st'. bridgeDecideRoute rq k body st = (Inr (Answer 200 row), st') \<and>
       findApproval k (st_approvals st') = Some row \<and>
       ar_status row = ''denied'' \<and> ar_decidedBy row = Some (ac_userId (rq_auth rq)) \<and> identity row = identity r"
    by simp
qed

theorem bridge_crosses_organizations_witness:
  "ar_organizationId sampleRow = ''org'' \<and>
   (\<exists>row st'. bridgeDecideRoute (sampleCaller ''other'' Role_manager) ''a1'' denialBody sampleState = (Inr (Answer 200 row), st') \<and>
      ar_status row = ''denied'')"
proof -
  have e: "sv_env (rq_server (sampleCaller ''other'' Role_manager)) ''AUTH_MODE'' \<noteq> Some ''openvtc''"
    by (simp add: sampleServer_def sampleEnv_def)
  have o: "ar_organizationId sampleRow = ''org''" by (simp add: sampleRow_def)
  have m: "callerRole (sampleCaller ''other'' Role_manager) \<noteq> Role_member" by simp
  have n: "ar_organizationId sampleRow \<noteq> ac_organizationId (rq_auth (sampleCaller ''other'' Role_manager))" by (simp add: o)
  have "di_decision \<lparr> di_decision = Denied, di_comment = None, di_confirmation = None \<rparr> = Denied"
    "di_confirmation \<lparr> di_decision = Denied, di_comment = None, di_confirmation = None \<rparr> = None" by simp_all
  from bridge_crosses_organizations [OF sampleCaller_simps(1) m e sample_ids(1,4,5) n denialBody_parsed this] o show ?thesis by blast
qed

text \<open>C4. The gateway's own decide route can only deny: it decides under a name that no user has, so no confirmation
  verifies, and every request that is approved after was approved before.\<close>

theorem internal_decide_only_denies:
  assumes "ids_ok st" "findUser internalDecider (st_users st) = None" "internalDecideRoute sv datetime k body st = (res, st')"
  shows "(\<forall>k' row. findApproval k' (st_approvals st') = Some row \<longrightarrow> ar_status row = ''approved'' \<longrightarrow>
      findApproval k' (st_approvals st) = Some row) \<and>
    (\<forall>r. k \<noteq> '''' \<longrightarrow> body = denialBody \<longrightarrow> resolveApprovalByBridgeId st k = Some r \<longrightarrow> ar_status r = ''pending'' \<longrightarrow>
      (\<exists>row. res = Inr (Answer 200 row) \<and> findApproval (ar_id r) (st_approvals st') = Some row \<and> ar_status row = ''denied''))"
proof (intro conjI allI impI)
  fix k' row
  assume row: "findApproval k' (st_approvals st') = Some row" "ar_status row = ''approved''"
  show "findApproval k' (st_approvals st) = Some row"
  proof (cases "st' = st")
    case False
    then have k: "k \<noteq> ''''" using assms(3) by (auto simp: internalDecideRoute_def)
    with False obtain input where i: "decideApprovalSchema datetime body = Some input"
      using assms(3) by (cases "decideApprovalSchema datetime body") (auto simp: internalDecideRoute_def parseBody_def)
    let ?d = "decideApprovalByBridgeId sv st k internalDecider None input"
    obtain x where d: "?d = (Inr x, st')"
      using assms(3) False k i decideByBridge_Inl by (cases ?d; cases "fst ?d") (fastforce simp: internalDecideRoute_def parseBody_def)+
    obtain r ctx where r: "prepareDecision sv st r internalDecider input = Inr ctx"
      "commitDecision sv st (ar_id r) internalDecider None input (Some k) ctx = (Inr x, st')"
      using decideByBridge_Inr [OF d assms(1)] by metis
    obtain ev where ev: "decisionEvidence sv st r internalDecider input = Inr ev" using prepareDecision_Inr [OF r(1)] by metis
    have den: "di_decision input = Denied"
    proof (cases "di_decision input")
      case Approved
      show ?thesis by (rule decisionEvidence_approved [OF ev Approved]) (use no_decider [OF assms(2)] in blast)
    qed
    have "st_approvals st' = updateApproval (ar_id r) (decideRow sv internalDecider input ctx) (st_approvals st)"
      using commitDecision_Inr [OF r(2)] by metis
    with row den show ?thesis by (auto simp: approvals.lookup_update split: if_splits)
  qed (use row in simp)
next
  fix r
  assume a: "k \<noteq> ''''" "body = denialBody" "resolveApprovalByBridgeId st k = Some r" "ar_status r = ''pending''"
  let ?i = "\<lparr> di_decision = Denied, di_comment = None, di_confirmation = None \<rparr>"
  have i: "di_decision ?i = Denied" "di_confirmation ?i = None" by simp_all
  obtain ctx u where d: "decideApprovalByBridgeId sv st k internalDecider None ?i = (Inr (decideRow sv internalDecider ?i ctx r), u)"
    "findApproval (ar_id r) (st_approvals u) = Some (decideRow sv internalDecider ?i ctx r)"
    by (rule denial_commits [OF assms(1) a(3,4) i])
  have "internalDecideRoute sv datetime k body st = (Inr (Answer 200 (decideRow sv internalDecider ?i ctx r)), u)"
    using a(1,2) d(1) by (simp add: internalDecideRoute_def parseBody_def denialBody_parsed)
  with assms(3) d(2) show "\<exists>row. res = Inr (Answer 200 row) \<and> findApproval (ar_id r) (st_approvals st') = Some row \<and> ar_status row = ''denied''"
    by simp
qed

theorem internal_decide_only_denies_witness:
  "\<exists>row st'. internalDecideRoute sampleServer (\<lambda>_. True) ''a1'' denialBody sampleState = (Inr (Answer 200 row), st') \<and>
     ar_status row = ''denied''"
proof -
  obtain res st' where run: "internalDecideRoute sampleServer (\<lambda>_. True) ''a1'' denialBody sampleState = (res, st')" by fastforce
  have u: "findUser internalDecider (st_users sampleState) = None"
    by (simp add: findUser_def sampleState_def Approval_Props.sampleUser_def internalDecider_def)
  have "resolveApprovalByBridgeId sampleState ''a1'' = Some sampleRow" by (simp add: resolveApprovalByBridgeId_def)
  then show ?thesis using internal_decide_only_denies [OF sample_ids(1) u run] run by auto
qed

end
