(* ===== verification/Governed_Action.thy ===== *)
theory Governed_Action
  imports Approvals Org_Store Secrets
begin

text \<open>
  \<^verbatim>\<open>packages/api/src/services/governed-action-service.ts\<close>: a demonstration sends a mail through the gateway, which
  holds it, and waits until the hold shows up among the approvals. The wait is a loop without a bound of its
  own: what the i-th poll reads and the clock it is followed by are \<open>tables i\<close> and \<open>clock i\<close>, and not
  returning is \<open>None\<close>. The Graph token and the spawned process are the host's.
\<close>

section \<open>The agent\<close>

definition demoProject :: string where
  "demoProject = ''demo-corp-team-field-sales''"

definition resolveAgentToken :: "string option \<Rightarrow> agent_row list \<Rightarrow> string result" where
  "resolveAgentToken configured agents =
     (let accessTokenOf = (\<lambda>r. case r of None \<Rightarrow> '''' | Some a \<Rightarrow> at_accessToken a);
          default = accessTokenOf (find (\<lambda>a. at_projectId a = demoProject \<and> at_isDefault a) agents);
          any = accessTokenOf (find (\<lambda>a. at_projectId a = demoProject) agents)
      in if set_nonempty configured then Inr (the configured)
         else if default \<noteq> '''' then Inr default
         else if any \<noteq> '''' then Inr any
         else Inl (ServiceError BAD_REQUEST
           ''No agent token configured for the governed-action trigger. Set GOVERNED_ACTION_AGENT_TOKEN or seed the demo agent (pnpm seed:demo).''))"

section \<open>The request through the gateway\<close>

definition GRAPH_URL :: string where "GRAPH_URL = ''https://graph.microsoft.com/v1.0/me/sendMail''"
definition GRAPH_APP_URL :: string where
  "GRAPH_APP_URL = ''https://graph.microsoft.com/v1.0/users/mailgini@giniresearch.onmicrosoft.com/sendMail''"
definition GRAPH_HOST :: string where "GRAPH_HOST = ''graph.microsoft.com''"
definition GRAPH_PATH :: string where "GRAPH_PATH = ''/v1.0/me/sendMail''"
definition HOLD_POLL_TIMEOUT_MS :: int where "HOLD_POLL_TIMEOUT_MS = 8000"
definition HOLD_POLL_INTERVAL_MS :: int where "HOLD_POLL_INTERVAL_MS = 500"

definition withoutScheme :: "string \<Rightarrow> string" where
  "withoutScheme u =
     (if startsWith u ''http://'' then drop 7 u else if startsWith u ''https://'' then drop 8 u else u)"

text \<open>The arguments of the process and the text it reads: the Graph token is in the text only. One slash is
  added to the gateway's address and taken away again.\<close>

record spawned =
  sp_args :: "string list"
  sp_stdin :: string

definition fireGatewayCurlDetached :: "string \<Rightarrow> string \<Rightarrow> string \<Rightarrow> string \<Rightarrow> string option \<Rightarrow> spawned" where
  "fireGatewayCurlDetached gateway agentToken body targetUrl graphToken =
     \<lparr> sp_args = [''-s'', ''-k'', ''-i'', ''-x'', ''http://x:'' @ agentToken @ ''@'' @ withoutScheme gateway, ''-X'', ''POST'',
         targetUrl, ''-H'', ''Content-Type: application/json'', ''--config'', ''-'', ''--data-raw'', body, ''--max-time'', ''190''],
       sp_stdin = ''header = '' @ [CHR 0x22] @ ''Authorization: Bearer '' @ orElse graphToken ''DEMO_NO_TOKEN'' @ [CHR 0x22, CHR 0x0A] \<rparr>"

section \<open>Waiting for the hold\<close>

record governed_hold =
  gh_id :: string
  gh_host :: string
  gh_path :: string
  gh_method :: string

definition endsWith :: "string \<Rightarrow> string \<Rightarrow> bool" where
  "endsWith s p \<longleftrightarrow> length p \<le> length s \<and> drop (length s - length p) s = p"

definition holdPayload :: "approval_row \<Rightarrow> js" where
  "holdPayload row = jsProp (jsProp (ar_context row) ''_vti'') ''payload''"

definition matchesHold :: "int \<Rightarrow> approval_row \<Rightarrow> bool" where
  "matchesHold sinceMs row \<longleftrightarrow>
     includesText (stringOr (jsProp (holdPayload row) ''host'') (jsProp (ar_context row) ''host'')) GRAPH_HOST \<and>
     endsWith (stringOr (jsProp (holdPayload row) ''path'') (jsProp (ar_context row) ''path'')) ''/sendMail'' \<and>
     sinceMs - 2000 \<le> ar_createdAt row"

definition pollHold :: "int \<Rightarrow> api_state \<Rightarrow> approval_row option" where
  "pollHold sinceMs st = find (matchesHold sinceMs) (fst (listApprovalsByBridge st (Some ''pending'') (Some 10)))"

definition holdOf :: "approval_row \<Rightarrow> governed_hold" where
  "holdOf row =
     (let field = (\<lambda>k d. jsString (coalesce (jsProp (holdPayload row) k) (JStr d)))
      in \<lparr> gh_id = ar_id row, gh_host = field ''host'' GRAPH_HOST, gh_path = field ''path'' GRAPH_PATH,
           gh_method = field ''method'' ''POST'' \<rparr>)"

partial_function (option) waitFrom :: "(nat \<Rightarrow> api_state) \<Rightarrow> (nat \<Rightarrow> int) \<Rightarrow> int \<Rightarrow> nat \<Rightarrow> governed_hold option option" where
  "waitFrom tables clock sinceMs i =
     (if pollHold sinceMs (tables i) \<noteq> None then Some (map_option holdOf (pollHold sinceMs (tables i)))
      else if sinceMs + HOLD_POLL_TIMEOUT_MS \<le> clock i then Some None
      else waitFrom tables clock sinceMs (Suc i))"

definition waitForHold :: "(nat \<Rightarrow> api_state) \<Rightarrow> (nat \<Rightarrow> int) \<Rightarrow> int \<Rightarrow> governed_hold option option" where
  "waitForHold tables clock sinceMs = waitFrom tables clock sinceMs 0"

section \<open>The trigger\<close>

record governed_call =
  gc_agentToken :: "string option"
  gc_gatewayUrl :: string
  gc_graphToken :: "string option"
  gc_runId :: string \<comment> \<open>random\<close>
  gc_firedAt :: int

definition governedBody :: "string \<Rightarrow> bool \<Rightarrow> js" where
  "governedBody runId hasToken = JObj
     [(''message'', JObj
        [(''subject'', JStr (''OneComputer governed action '' @ runId)),
         (''body'', JObj [(''contentType'', JStr ''Text''), (''content'', JStr ''Governed action trigger'')]),
         (''toRecipients'', JArr [JObj [(''emailAddress'', JObj [(''address'',
            JStr (if hasToken then ''terencetan@giniresearch.onmicrosoft.com'' else ''demo@example.com''))])]])]),
      (''_onecomputerRunId'', JStr runId)]"

text \<open>What was spawned, if anything, and the result, if the wait returns.\<close>

definition triggerGovernedAction ::
  "governed_call \<Rightarrow> agent_row list \<Rightarrow> (nat \<Rightarrow> api_state) \<Rightarrow> (nat \<Rightarrow> int) \<Rightarrow> spawned option \<times> governed_hold result option" where
  "triggerGovernedAction call agents tables clock =
     (case resolveAgentToken (gc_agentToken call) agents of
        Inl e \<Rightarrow> (None, Some (Inl e))
      | Inr agentToken \<Rightarrow>
          (let hasToken = set_nonempty (gc_graphToken call);
               body = render (governedBody (gc_runId call) hasToken);
               fired = fireGatewayCurlDetached (gc_gatewayUrl call) agentToken body
                 (if hasToken then GRAPH_APP_URL else GRAPH_URL) (gc_graphToken call)
           in (Some fired,
               map_option (\<lambda>hold. case hold of
                   None \<Rightarrow> Inl (ServiceError INTERNAL ''Gateway did not produce a pending approval in time.'')
                 | Some h \<Rightarrow> Inr h)
                 (waitForHold tables clock (gc_firedAt call)))))"

section \<open>The wait returns\<close>

text \<open>A poll that comes n polls after the first sees a clock at least 500 n later.\<close>

lemma clock_advances:
  assumes "\<And>i. clock i + HOLD_POLL_INTERVAL_MS \<le> clock (Suc i)" "sinceMs \<le> clock 0"
  shows "sinceMs + 500 * int n \<le> clock n"
proof (induction n)
  case (Suc n)
  then show ?case using assms(1) [of n] by (simp add: HOLD_POLL_INTERVAL_MS_def)
qed (use assms(2) in simp)

text \<open>The poll the loop ends at: the first that finds a hold or is past the deadline.\<close>

definition ends :: "(nat \<Rightarrow> api_state) \<Rightarrow> (nat \<Rightarrow> int) \<Rightarrow> int \<Rightarrow> nat \<Rightarrow> bool" where
  "ends tables clock sinceMs i \<longleftrightarrow>
     pollHold sinceMs (tables i) \<noteq> None \<or> sinceMs + HOLD_POLL_TIMEOUT_MS \<le> clock i"

lemma waitFrom_ends:
  assumes "ends tables clock sinceMs (i + n)" "\<And>j. j < n \<Longrightarrow> \<not> ends tables clock sinceMs (i + j)"
  shows "waitFrom tables clock sinceMs i = Some (map_option holdOf (pollHold sinceMs (tables (i + n))))"
  using assms
proof (induction n arbitrary: i)
  case 0
  then show ?case by (subst waitFrom.simps) (auto simp: ends_def)
next
  case (Suc n)
  have "\<not> ends tables clock sinceMs i" using Suc.prems(2) [of 0] by simp
  then have "waitFrom tables clock sinceMs i = waitFrom tables clock sinceMs (Suc i)"
    by (subst waitFrom.simps) (auto simp: ends_def)
  moreover have "ends tables clock sinceMs (Suc i + n)" using Suc.prems(1) by simp
  moreover have "\<not> ends tables clock sinceMs (Suc i + j)" if "j < n" for j using Suc.prems(2) [of "Suc j"] that by simp
  ultimately show ?case using Suc.IH [of "Suc i"] by simp
qed

lemma wait_first_end:
  assumes "ends tables clock sinceMs m"
  shows "\<exists>n \<le> m. ends tables clock sinceMs n \<and> (\<forall>j < n. \<not> ends tables clock sinceMs j) \<and>
    waitForHold tables clock sinceMs = Some (map_option holdOf (pollHold sinceMs (tables n)))"
proof -
  obtain n where n: "n \<le> m" "ends tables clock sinceMs n" "\<forall>j < n. \<not> ends tables clock sinceMs j"
    using ex_least_nat_le [of "ends tables clock sinceMs" m] assms
    by blast
  moreover have "waitForHold tables clock sinceMs = Some (map_option holdOf (pollHold sinceMs (tables n)))"
    using waitFrom_ends [of tables clock sinceMs 0 n] n(2,3) by (simp add: waitForHold_def)
  ultimately show ?thesis by blast
qed

section \<open>Whose hold it is\<close>

lemma insort_map: "insort_key f (g x) (map g xs) = map g (insort_key (f \<circ> g) x xs)"
  by (induction xs) simp_all

lemma newestFirst_map:
  assumes "\<And>r. ar_createdAt (g r) = ar_createdAt r"
  shows "newestFirst (map g rows) = map g (newestFirst rows)"
proof -
  have "(\<lambda>r. - ar_createdAt r) \<circ> g = (\<lambda>r. - ar_createdAt r)" using assms by (simp add: comp_def)
  then have "sort_key (\<lambda>r. - ar_createdAt r) (map g rows) = map g (sort_key (\<lambda>r. - ar_createdAt r) rows)"
    unfolding sort_key_def by (induction rows) (simp_all add: insort_map)
  then show ?thesis by (simp add: newestFirst_def)
qed

text \<open>The same requests, filed under any organisations.\<close>

definition refiled :: "(approval_row \<Rightarrow> string) \<Rightarrow> api_state \<Rightarrow> api_state" where
  "refiled f st = st\<lparr>st_approvals := map (\<lambda>r. r\<lparr>ar_organizationId := f r\<rparr>) (st_approvals st)\<rparr>"

lemma find_map_same: "(\<And>x. P (g x) = P x) \<Longrightarrow> find P (map g xs) = map_option g (find P xs)"
  by (induction xs) simp_all

lemma filter_map_same: "(\<And>x. P (g x) = P x) \<Longrightarrow> filter P (map g xs) = map g (filter P xs)"
  by (induction xs) simp_all

lemma bridge_list_refiled:
  "fst (listApprovalsByBridge (refiled f st) status lim) =
     map (\<lambda>r. r\<lparr>ar_organizationId := f r\<rparr>) (fst (listApprovalsByBridge st status lim))"
  unfolding listApprovalsByBridge_def Let_def fst_conv refiled_def
  by (simp add: filter_map_same newestFirst_map take_map)

lemma pollHold_refiled:
  "map_option holdOf (pollHold sinceMs (refiled f st)) = map_option holdOf (pollHold sinceMs st)"
  "pollHold sinceMs (refiled f st) = None \<longleftrightarrow> pollHold sinceMs st = None"
proof -
  have "matchesHold sinceMs (r\<lparr>ar_organizationId := f r\<rparr>) = matchesHold sinceMs r"
    "holdOf (r\<lparr>ar_organizationId := f r\<rparr>) = holdOf r" for r
    by (simp_all add: matchesHold_def holdPayload_def holdOf_def)
  then show "map_option holdOf (pollHold sinceMs (refiled f st)) = map_option holdOf (pollHold sinceMs st)"
    "pollHold sinceMs (refiled f st) = None \<longleftrightarrow> pollHold sinceMs st = None"
    unfolding pollHold_def bridge_list_refiled by (simp_all add: find_map_same option.map_comp comp_def)
qed

lemma pollHold_Some:
  assumes "pollHold sinceMs st = Some row"
  shows "row \<in> set (st_approvals st) \<and> ar_status row = ''pending'' \<and> matchesHold sinceMs row"
proof -
  have "row \<in> set (fst (listApprovalsByBridge st (Some ''pending'') (Some 10)))" "matchesHold sinceMs row"
    using assms by (auto simp: pollHold_def find_Some_iff)
  then show ?thesis
    by (auto simp: listApprovalsByBridge_def Let_def newestFirst_def set_nonempty_def dest!: in_set_takeD)
qed

lemma wait_refiled:
  assumes "ends tables clock sinceMs m"
  shows "waitForHold (\<lambda>i. refiled f (tables i)) clock sinceMs = waitForHold tables clock sinceMs"
proof -
  have same: "ends (\<lambda>i. refiled f (tables i)) clock sinceMs j = ends tables clock sinceMs j" for j
    by (simp add: ends_def pollHold_refiled(2))
  obtain n where n: "ends tables clock sinceMs n" "\<forall>j < n. \<not> ends tables clock sinceMs j"
    "waitForHold tables clock sinceMs = Some (map_option holdOf (pollHold sinceMs (tables n)))"
    using wait_first_end [OF assms] by blast
  have "waitForHold (\<lambda>i. refiled f (tables i)) clock sinceMs =
      Some (map_option holdOf (pollHold sinceMs (refiled f (tables n))))"
    using waitFrom_ends [of "\<lambda>i. refiled f (tables i)" clock sinceMs 0 n] n(1,2) by (simp add: waitForHold_def same)
  then show ?thesis using n(3) by (simp add: pollHold_refiled(1))
qed

text \<open>C1. With a clock that moves at least by the pause between two polls, the wait for the hold ends within 17 polls,
  and so does the trigger: at the first poll that finds a pending request for the mail, not older than two
  seconds before the start, or past the deadline with nothing. It takes that request whatever the organisation
  it is filed under: nothing ties it to the request that was sent.\<close>

theorem governed_wait_returns:
  assumes "\<And>i. clock i + HOLD_POLL_INTERVAL_MS \<le> clock (Suc i)" "gc_firedAt call \<le> clock 0"
  shows "snd (triggerGovernedAction call agents tables clock) \<noteq> None \<and>
    (\<exists>n \<le> 16. waitForHold tables clock (gc_firedAt call) = Some (map_option holdOf (pollHold (gc_firedAt call) (tables n))) \<and>
       (\<forall>j < n. pollHold (gc_firedAt call) (tables j) = None) \<and>
       (case pollHold (gc_firedAt call) (tables n) of
          None \<Rightarrow> gc_firedAt call + HOLD_POLL_TIMEOUT_MS \<le> clock n
        | Some row \<Rightarrow> row \<in> set (st_approvals (tables n)) \<and> ar_status row = ''pending'' \<and> gc_firedAt call - 2000 \<le> ar_createdAt row)) \<and>
    (\<forall>f. waitForHold (\<lambda>i. refiled f (tables i)) clock (gc_firedAt call) = waitForHold tables clock (gc_firedAt call))"
proof -
  let ?t = "gc_firedAt call"
  have e: "ends tables clock ?t 16"
    using clock_advances [OF assms, of 16] by (simp add: ends_def HOLD_POLL_TIMEOUT_MS_def)
  obtain n where n: "n \<le> 16" "ends tables clock ?t n" "\<forall>j < n. \<not> ends tables clock ?t j"
    "waitForHold tables clock ?t = Some (map_option holdOf (pollHold ?t (tables n)))"
    using wait_first_end [OF e] by blast
  have "snd (triggerGovernedAction call agents tables clock) \<noteq> None"
    by (simp add: triggerGovernedAction_def n(4) Let_def split: sum.split)
  moreover have "\<forall>j < n. pollHold ?t (tables j) = None" using n(3) by (auto simp: ends_def)
  moreover have "case pollHold ?t (tables n) of
          None \<Rightarrow> ?t + HOLD_POLL_TIMEOUT_MS \<le> clock n
        | Some row \<Rightarrow> row \<in> set (st_approvals (tables n)) \<and> ar_status row = ''pending'' \<and> ?t - 2000 \<le> ar_createdAt row"
    using n(2) pollHold_Some [of ?t "tables n"] by (auto simp: ends_def matchesHold_def split: option.split)
  ultimately show ?thesis using n(1,4) wait_refiled [OF e] by blast
qed

definition noTables :: "nat \<Rightarrow> api_state" where
  "noTables i = \<lparr> st_approvals = [], st_users = [], st_members = [], st_audit = [] \<rparr>"

theorem governed_wait_returns_witness:
  "waitForHold noTables (\<lambda>i. 500 * int i) 0 = Some None"
proof -
  let ?c = "\<lparr> gc_agentToken = Some ''t'', gc_gatewayUrl = ''http://gw'', gc_graphToken = None, gc_runId = ''r'', gc_firedAt = 0 \<rparr>"
  have "500 * int i + HOLD_POLL_INTERVAL_MS \<le> 500 * int (Suc i)" for i by (simp add: HOLD_POLL_INTERVAL_MS_def)
  moreover have "gc_firedAt ?c \<le> 500 * int 0" by simp
  ultimately obtain n where "waitForHold noTables (\<lambda>i. 500 * int i) (gc_firedAt ?c) = Some (map_option holdOf (pollHold (gc_firedAt ?c) (noTables n)))"
    using governed_wait_returns [of "\<lambda>i. 500 * int i" ?c "[]" noTables] by blast
  moreover have "pollHold t (noTables n) = None" for t
    by (simp add: pollHold_def listApprovalsByBridge_def newestFirst_def noTables_def)
  ultimately show ?thesis by simp
qed

end
