(* ===== verification/Spec2Isabelle.thy ===== *)
theory Spec2Isabelle
  imports Signer Approval_Props Red_Team Policy_Runs Org_Props Joining Access App_Route_Props Approval_Route_Props Governed_Action
begin

text \<open>
  \<^bold>\<open>OneComputer: the trust core of the API.\<close>

  OneComputer runs agents for people in a company. The part verified here is the part that decides
  who may do what: \<^verbatim>\<open>packages/api/src/services\<close>, the middleware that authenticates a request, and the
  cryptographic helpers of \<^verbatim>\<open>packages/api/src/lib\<close>. A request is authenticated and given a role; the role
  gives abilities over the organisation's members, projects, keys and agents. What an agent may then do
  on the network is written as policy rules, app permissions and blocklists, each in the scope of a
  project or of the organisation. An action of an agent is evaluated by the guardrails; an action that
  needs a person becomes an approval request, whose manager confirms it with a signed Trust Task; the
  decision is sealed in a verifiable credential; personal data is read only through grants, with
  consent and a step-up. All of it rests on hashes and signatures of canonical JSON.

  \<^bold>\<open>Theories and the code they model.\<close>

  Foundations:

  \<^item> \<^verbatim>\<open>Js_Prelude\<close>, \<^verbatim>\<open>Js_Values\<close>, \<^verbatim>\<open>Js_Json\<close>, \<^verbatim>\<open>Iso_Date\<close>: the parts of JavaScript the code uses. Strings are
    the bytes of their UTF-8 form, errors are values of \<open>error + 'a\<close> (a \<open>ServiceError\<close> with its code, or
    any other thrown error with its message), values are \<open>js\<close>, with \<open>JSON.stringify\<close>, \<open>JSON.parse\<close> and the
    ISO form of \<open>Date.parse\<close>; texts \<open>Date.parse\<close> reads by a host rule are the parameter \<open>host_date\<close>.
  \<^item> \<^verbatim>\<open>Interfaces\<close>: the contracts as locales (serializers, codecs and signature schemes), interpreted in
    the theories that provide them.
  \<^item> \<^verbatim>\<open>Runtime\<close>: what the code calls and src/ does not hold: \<open>crypto\<close> (Ed25519, SHA-256, base64url) and
    the process environment. \<open>toy_crypto\<close> shows that the hypotheses on it can hold.
  \<^item> \<^verbatim>\<open>Effects\<close>: the actions \<open>'s \<Rightarrow> 'a result \<times> 's\<close> in which the services on the database are written. A
    throw ends an action and keeps what it wrote, except inside \<open>transaction\<close>, which puts the tables
    back. \<open>keeps\<close> is the judgement that an action preserves a predicate of the tables, with one rule per
    combinator.

  Trust:

  \<^item> \<^verbatim>\<open>Jcs\<close>: \<^verbatim>\<open>lib/jcs.ts\<close>. \<^verbatim>\<open>Multibase\<close>: \<^verbatim>\<open>lib/multibase.ts\<close>. \<^verbatim>\<open>Canonical_Json\<close>, \<^verbatim>\<open>Digests\<close>: the
    \<^verbatim>\<open>canonicalJson\<close> and digest helpers that the services each repeat.
  \<^item> \<^verbatim>\<open>Signer\<close>: \<^verbatim>\<open>lib/vti-credential-signer.ts\<close>, keys, DID documents, signing and verification.
  \<^item> \<^verbatim>\<open>Connector_Broker\<close>: \<^verbatim>\<open>personal-connector-broker-service.ts\<close>; the registry is the \<^verbatim>\<open>Map\<close> of the class as
    an association list in insertion order.
  \<^item> \<^verbatim>\<open>Vti_Consent\<close>: \<^verbatim>\<open>vti-consent-service.ts\<close>. \<^verbatim>\<open>Vti_Transport\<close>: \<^verbatim>\<open>vti-transport-service.ts\<close>; the network
    is the parameter \<open>fetch\<close>.
  \<^item> \<^verbatim>\<open>Approval_Store\<close>, \<^verbatim>\<open>Approval_Confirm\<close>, \<^verbatim>\<open>Approvals\<close>: \<^verbatim>\<open>approval-service.ts\<close>. The tables it reads and
    writes are a record of lists of rows; \<open>service\<close> holds what a call finds in its surroundings (clock,
    environment, random values, network). An operation returns its result and the tables.
  \<^item> \<^verbatim>\<open>Approval_Runs\<close>, \<^verbatim>\<open>Approval_Props\<close>: runs of approval operations as an inductive step relation, and
    the theorems about the service.
  \<^item> \<^verbatim>\<open>Guardrails\<close>: \<^verbatim>\<open>protective-guardrails-service.ts\<close>. \<^verbatim>\<open>Mailroom\<close>: \<^verbatim>\<open>m365-agent-directory-service.ts\<close>.
  \<^item> \<^verbatim>\<open>Workflows\<close>, \<^verbatim>\<open>Red_Team\<close>: the contracts, consoles and attack fixtures composed of the services above.

  Policy:

  \<^item> \<^verbatim>\<open>Resource_Scope\<close>: \<^verbatim>\<open>resource-scope.ts\<close>, the clause every query of a scoped table carries.
  \<^item> \<^verbatim>\<open>Policy_Rules\<close>: \<^verbatim>\<open>policy-rule-service.ts\<close>, \<^verbatim>\<open>validations/policy-rule.ts\<close>, the rule action gate and the
    planning of the web server actions (\<^verbatim>\<open>apps/web/src/lib/actions/rules.ts\<close>). The gate and the tables of
    app permissions are parameters. \<^verbatim>\<open>Blocklist\<close>: \<^verbatim>\<open>app-blocklist-service.ts\<close>.
  \<^item> \<^verbatim>\<open>Policy_Props\<close>, \<^verbatim>\<open>Policy_Runs\<close>: the theorems, and runs of every operation that writes rules, in any
    order and by any scope.

  Organisation:

  \<^item> \<^verbatim>\<open>Org_Store\<close>: the tables of users, memberships, invitations, organisations, projects, keys, agents and
    what agents hold, with the unique and foreign keys of the schema as errors of a write.
  \<^item> \<^verbatim>\<open>Abilities\<close>: \<^verbatim>\<open>lib/ability.ts\<close>, \<^verbatim>\<open>middleware/ability.ts\<close>. The CASL package is the parameter \<open>casl\<close>; the
    hypothesis \<open>casl_documented\<close> says what its documentation promises, and \<open>documentedCasl\<close> meets it.
  \<^item> \<^verbatim>\<open>Members\<close>: \<^verbatim>\<open>member-service.ts\<close> and \<^verbatim>\<open>routes/members.ts\<close>. \<^verbatim>\<open>Organizations\<close>: \<^verbatim>\<open>organization-service.ts\<close>,
    \<^verbatim>\<open>api-key-service.ts\<close>, \<^verbatim>\<open>user-service.ts\<close> and \<^verbatim>\<open>routes/auth-session.ts\<close>. \<^verbatim>\<open>Authentication\<close>:
    \<^verbatim>\<open>middleware/auth.ts\<close>, \<^verbatim>\<open>middleware/auth\<close> and \<^verbatim>\<open>middleware/internal-auth.ts\<close>. \<^verbatim>\<open>Agents\<close>:
    \<^verbatim>\<open>agent-service.ts\<close>.
  \<^item> \<^verbatim>\<open>Org_Runs\<close>: every operation of these services as a constructor, runs of them as an inductive relation,
    and the locale \<open>org_invariant\<close>, interpreted once for the owners and once for the default agents.
    \<^verbatim>\<open>Org_Props\<close>, \<^verbatim>\<open>Joining\<close>, \<^verbatim>\<open>Access\<close>: the theorems.

  Secrets and apps:

  \<^item> \<^verbatim>\<open>Js_Parse\<close>: UTF-8 decoding and \<open>JSON.parse\<close> with every escape, number and key order the language has,
    and its round trip with \<open>JSON.stringify\<close> (\<open>JSON_parse_render\<close>). How a numeral is rounded to a double is
    the parameter \<open>dbl\<close>.
  \<^item> \<^verbatim>\<open>Vault\<close>: \<^verbatim>\<open>lib/crypto.ts\<close>, with its cached key as the state, and \<^verbatim>\<open>lib/oauth-state.ts\<close>. AES-256-GCM,
    HMAC and base64 are the record \<open>vault_crypto\<close>; \<open>vault_documented\<close> says what is relied on, and \<open>toy_vault\<close>
    meets it.
  \<^item> \<^verbatim>\<open>Secrets\<close>: \<^verbatim>\<open>secret-service.ts\<close> and \<^verbatim>\<open>validations/secret.ts\<close>; the state is the table of secrets.
    \<^verbatim>\<open>Secret_Props\<close>: runs of its operations as an inductive relation, and the theorems.
  \<^item> \<^verbatim>\<open>Connections\<close>: \<^verbatim>\<open>connection-service.ts\<close>, \<^verbatim>\<open>app-config-service.ts\<close> and \<^verbatim>\<open>apps/resolve-credentials.ts\<close>; the
    state is the tables of connections, configurations, projects and rules. \<^verbatim>\<open>Connection_Props\<close>: the theorem.
  \<^item> \<^verbatim>\<open>App_Routes\<close>: \<^verbatim>\<open>routes/apps.ts\<close>, the start and the callback of an OAuth flow, typed-in credentials,
    disconnecting, renaming and configuring. The registry of apps and the exchange with a provider are
    parameters. \<^verbatim>\<open>App_Route_Props\<close>: the theorems.

  \<^bold>\<open>What the theorems show.\<close> Canonical JSON is a function of the value alone and is refused exactly for the
  values the code rejects; a signature verifies after signing and binds the data it covers; keys fail
  closed. A retrieval of personal data is bounded and is authorised exactly when every condition of the
  code holds. A decided approval is final along every run; an approval that a manager confirmed is the
  only one that is ever approved; what is read back verifies. The strictest guardrail wins, and adding
  rules never permits more. An operation in one scope never changes or shows a row of another. Every
  organisation keeps an owner and every project its default agent along every run of whole operations.
  A request that passes authentication carries the identity, the organisation and the role of its key
  or session. A secret holds its value in exactly one way and every ciphertext opens; an OAuth state that
  verifies carries the payload that was signed, and the callback writes only into the project it names; a
  saved configuration reads back. Several theorems state what the code does where it is not what it means to do (updates
  that escape the floor of the rule gate, two overlapping demotions, keys that outlive a membership,
  invitations that block a sign-in, a state that is not bound to the browser of its flow, credentials of one
  app stored in a connection of another).

  \<^bold>\<open>Bounds and fuel.\<close> Loops over data are structural recursion. Where a loop decreases a measure that is
  not the structure (base-58 digits, parsing) the function takes the length of its input as fuel, and a
  lemma says that this is enough; \<open>JSON.parse\<close> takes twice the length of the text (\<open>parse_fuel\<close>). Numbers are integers, as the code only counts and compares them.

  \<^bold>\<open>Parameters.\<close> \<open>crypto\<close>, \<open>vault_crypto\<close>, the rounding of numerals, the registry of apps, \<open>host_date\<close>, \<open>fetch\<close>, the environment, the clock, random bytes and ids, CASL, the
  session provider and the hooks a deployment replaces (role resolver, gate, policy validator). The
  database client is the tables above: one operation at a time, except where a theorem interleaves the
  reads and writes of two.

  \<^bold>\<open>Not modelled.\<close>

  \<^item> \<^verbatim>\<open>apps/web\<close> and \<^verbatim>\<open>packages/ui\<close>: React components and hooks; what they compute is a view in a browser.
  \<^item> \<^verbatim>\<open>apps/gateway\<close>: the proxy that enforces the rules is a Rust program.
  \<^item> \<^verbatim>\<open>scripts\<close>, \<^verbatim>\<open>deploy\<close>, \<^verbatim>\<open>examples\<close>, \<^verbatim>\<open>packages/api/scripts\<close>, \<^verbatim>\<open>packages/api/src/scripts\<close>: processes, files, network
    calls and demonstration data.
  \<^item> Sandboxes (\<^verbatim>\<open>daytona-service.ts\<close>, \<^verbatim>\<open>sandbox-providers\<close>, \<^verbatim>\<open>sandbox-bootstrap.ts\<close>): calls of a container
    service and the shell text sent to it.
  \<^item> The registry of apps (\<^verbatim>\<open>apps\<close>, \<^verbatim>\<open>app-permissions\<close>): tables of endpoints and the requests sent to them. The
    routes of the blocklist and the read-only routes of \<^verbatim>\<open>routes/apps.ts\<close>; the organisation handlers of a cloud
    deployment, which do nothing in this repository.
  \<^item> Audit, request logs, alerts: writes of log rows and external services.
  \<^item> The rest of \<^verbatim>\<open>routes\<close>: glue that parses a request and calls a service.
\<close>

end
